(* ===== verification/Prelude.thy ===== *)
theory Prelude
  imports Main "HOL-Library.Word" "HOL-Library.List_Lexorder" "HOL-Library.AList"
begin

section \<open>Shared library of the development\<close>

text \<open>
  The types and combinators every component uses:
  \<^item> Rust's \<open>Result<T, E>\<close> as the sum \<open>'e + 'a\<close>, with the abbreviations \<open>Ok\<close> and \<open>Err\<close>;
  \<^item> stateful fallible code (the vault's \<open>&mut self\<close> methods, the boxed futures of the client)
    as programs \<open>'s \<Rightarrow> (('e + 'a) \<times> 's) option\<close>: \<open>None\<close> is a panic (\<open>unwrap!\<close> of an error),
    \<open>Some (r, s')\<close> is the returned \<open>Result\<close> together with the state left behind, so that a
    state change made before an error is returned is not lost;
  \<^item> the futures combinators \<open>and_then\<close>, \<open>or_else\<close>, \<open>map\<close>, \<open>map_err\<close> on programs;
  \<^item> \<open>BTreeMap\<close> as an association list sorted by key, which fixes the iteration order;
  \<^item> locales for relations that programs respect and for keyed stores.
\<close>

type_synonym u64 = "64 word"
type_synonym u32 = "32 word"
type_synonym bytes = "8 word list"

abbreviation Ok :: "'a \<Rightarrow> 'e + 'a" where "Ok \<equiv> Inr"
abbreviation Err :: "'e \<Rightarrow> 'e + 'a" where "Err \<equiv> Inl"

named_theorems prog_simps "unfolding rules of the program combinators"
named_theorems res_simps "unfolding rules of the Result combinators"

subsection \<open>Result combinators\<close>

definition res_and_then :: "'e + 'a \<Rightarrow> ('a \<Rightarrow> 'e + 'b) \<Rightarrow> 'e + 'b" where
  "res_and_then r f = (case r of Err e \<Rightarrow> Err e | Ok a \<Rightarrow> f a)"

definition res_map :: "('a \<Rightarrow> 'b) \<Rightarrow> 'e + 'a \<Rightarrow> 'e + 'b" where
  "res_map f r = (case r of Err e \<Rightarrow> Err e | Ok a \<Rightarrow> Ok (f a))"

definition res_map_err :: "('e \<Rightarrow> 'd) \<Rightarrow> 'e + 'a \<Rightarrow> 'd + 'a" where
  "res_map_err f r = (case r of Err e \<Rightarrow> Err (f e) | Ok a \<Rightarrow> Ok a)"

definition ok_or :: "'e \<Rightarrow> 'a option \<Rightarrow> 'e + 'a" where
  "ok_or e x = (case x of None \<Rightarrow> Err e | Some a \<Rightarrow> Ok a)"

definition is_ok :: "'e + 'a \<Rightarrow> bool" where
  "is_ok r = (case r of Err e \<Rightarrow> False | Ok a \<Rightarrow> True)"

text \<open>A \<open>for\<close> loop whose body uses the \<open>?\<close> operator: the first error leaves the loop.\<close>

fun try_fold :: "('b \<Rightarrow> 'a \<Rightarrow> 'e + 'b) \<Rightarrow> 'b \<Rightarrow> 'a list \<Rightarrow> 'e + 'b" where
  "try_fold f acc [] = Ok acc"
| "try_fold f acc (x # xs) = res_and_then (f acc x) (\<lambda>acc'. try_fold f acc' xs)"

lemma res_and_then_simps [simp, res_simps]:
  "res_and_then (Ok a) f = f a" "res_and_then (Err e) f = Err e"
  by (simp_all add: res_and_then_def)

lemma res_map_simps [simp, res_simps]:
  "res_map f (Ok a) = Ok (f a)" "res_map f (Err e) = Err e"
  by (simp_all add: res_map_def)

lemma res_map_err_eq_Ok: "res_map_err f r = Ok a \<longleftrightarrow> r = Ok a"
  by (simp add: res_map_err_def split: sum.split)

lemma res_map_err_simps [simp, res_simps]:
  "res_map_err f (Ok a) = Ok a" "res_map_err f (Err e) = Err (f e)"
  by (simp_all add: res_map_err_def)

lemma ok_or_simps [simp, res_simps]:
  "ok_or e None = Err e" "ok_or e (Some a) = Ok a"
  by (simp_all add: ok_or_def)

lemma is_ok_simps [simp, res_simps]:
  "is_ok (Ok a)" "\<not> is_ok (Err e)"
  by (simp_all add: is_ok_def)

lemma res_and_then_eq_Ok:
  "res_and_then r f = Ok b \<longleftrightarrow> (\<exists>a. r = Ok a \<and> f a = Ok b)"
  by (cases r) auto

lemma res_map_eq_Ok: "res_map f r = Ok b \<longleftrightarrow> (\<exists>a. r = Ok a \<and> f a = b)"
  by (cases r) auto

lemma ok_or_eq_Ok: "ok_or e x = Ok a \<longleftrightarrow> x = Some a"
  by (cases x) auto

lemma map_leD: "m \<subseteq>\<^sub>m m' \<Longrightarrow> m k = Some v \<Longrightarrow> m' k = Some v"
  by (metis domI map_le_def)

text \<open>A decoder that undoes its encoder.\<close>

definition codec_pair :: "('a \<Rightarrow> 'e + 'b) \<Rightarrow> ('b \<Rightarrow> 'd + 'a) \<Rightarrow> bool" where
  "codec_pair ser de \<longleftrightarrow> (\<forall>x. \<exists>b. ser x = Ok b \<and> de b = Ok x)"

lemma codec_pairD: "codec_pair ser de \<Longrightarrow> \<exists>b. ser x = Ok b \<and> de b = Ok x"
  by (simp add: codec_pair_def)

subsection \<open>Programs: state, errors and panics\<close>

type_synonym ('s, 'e, 'a) prog = "'s \<Rightarrow> (('e + 'a) \<times> 's) option"

definition lift_res :: "'e + 'a \<Rightarrow> ('s, 'e, 'a) prog" where
  "lift_res r = (\<lambda>s. Some (r, s))"

definition panic :: "('s, 'e, 'a) prog" where
  "panic = (\<lambda>s. None)"

definition gets :: "('s \<Rightarrow> 'e + 'a) \<Rightarrow> ('s, 'e, 'a) prog" where
  "gets f = (\<lambda>s. Some (f s, s))"

definition modify :: "('s \<Rightarrow> 's) \<Rightarrow> ('s, 'e, unit) prog" where
  "modify f = (\<lambda>s. Some (Ok (), f s))"

definition and_then :: "('s, 'e, 'a) prog \<Rightarrow> ('a \<Rightarrow> ('s, 'e, 'b) prog) \<Rightarrow> ('s, 'e, 'b) prog" where
  "and_then m f = (\<lambda>s. case m s of
       None \<Rightarrow> None
     | Some (Err e, s') \<Rightarrow> Some (Err e, s')
     | Some (Ok a, s') \<Rightarrow> f a s')"

definition or_else :: "('s, 'e, 'a) prog \<Rightarrow> ('e \<Rightarrow> ('s, 'd, 'a) prog) \<Rightarrow> ('s, 'd, 'a) prog" where
  "or_else m h = (\<lambda>s. case m s of
       None \<Rightarrow> None
     | Some (Err e, s') \<Rightarrow> h e s'
     | Some (Ok a, s') \<Rightarrow> Some (Ok a, s'))"

definition map_prog :: "('a \<Rightarrow> 'b) \<Rightarrow> ('s, 'e, 'a) prog \<Rightarrow> ('s, 'e, 'b) prog" where
  "map_prog f m = (\<lambda>s. case m s of None \<Rightarrow> None | Some (r, s') \<Rightarrow> Some (res_map f r, s'))"

definition map_err :: "('e \<Rightarrow> 'd) \<Rightarrow> ('s, 'e, 'a) prog \<Rightarrow> ('s, 'd, 'a) prog" where
  "map_err f m = (\<lambda>s. case m s of None \<Rightarrow> None | Some (r, s') \<Rightarrow> Some (res_map_err f r, s'))"

text \<open>\<open>a.join(b)\<close>: both futures send their first request when they are built; the first error in this order is the result.\<close>

definition join2 :: "('s, 'e, 'a) prog \<Rightarrow> ('s, 'e, 'b) prog \<Rightarrow> ('s, 'e, 'a \<times> 'b) prog" where
  "join2 m1 m2 s = (case m1 s of
     None \<Rightarrow> None
   | Some (r1, s1) \<Rightarrow> (case m2 s1 of
       None \<Rightarrow> None
     | Some (r2, s2) \<Rightarrow> Some (res_and_then r1 (\<lambda>a. res_map (Pair a) r2), s2)))"

text \<open>\<open>unwrap!\<close>: an error is a panic.\<close>

definition unwrap :: "('s, 'e, 'a) prog \<Rightarrow> ('s, 'd, 'a) prog" where
  "unwrap m = (\<lambda>s. case m s of
       None \<Rightarrow> None
     | Some (Err e, s') \<Rightarrow> None
     | Some (Ok a, s') \<Rightarrow> Some (Ok a, s'))"

lemma lift_res_apply [simp, prog_simps]: "lift_res r s = Some (r, s)"
  by (simp add: lift_res_def)

lemma gets_apply [simp, prog_simps]: "gets f s = Some (f s, s)"
  by (simp add: gets_def)

lemma modify_apply [simp, prog_simps]: "modify f s = Some (Ok (), f s)"
  by (simp add: modify_def)

lemma panic_apply [simp, prog_simps]: "panic s = None"
  by (simp add: panic_def)

lemma and_then_cases [prog_simps]:
  "m s = None \<Longrightarrow> and_then m f s = None"
  "m s = Some (Err e, s') \<Longrightarrow> and_then m f s = Some (Err e, s')"
  "m s = Some (Ok a, s') \<Longrightarrow> and_then m f s = f a s'"
  by (simp_all add: and_then_def)

lemma or_else_cases [prog_simps]:
  "m s = None \<Longrightarrow> or_else m h s = None"
  "m s = Some (Err e, s') \<Longrightarrow> or_else m h s = h e s'"
  "m s = Some (Ok a, s') \<Longrightarrow> or_else m h s = Some (Ok a, s')"
  by (simp_all add: or_else_def)

lemma and_then_Some:
  assumes "and_then m f s = Some (r, s'')"
  obtains (fails) e where "m s = Some (Err e, s'')" "r = Err e"
    | (goes_on) a s' where "m s = Some (Ok a, s')" "f a s' = Some (r, s'')"
  using assms by (auto simp: and_then_def split: option.splits prod.splits sum.splits)

lemma and_then_Ok:
  assumes "and_then m f s = Some (Ok b, s'')"
  obtains a s' where "m s = Some (Ok a, s')" "f a s' = Some (Ok b, s'')"
  using assms by (auto simp: and_then_def split: option.splits prod.splits sum.splits)

lemma or_else_Some:
  assumes "or_else m h s = Some (r, s'')"
  obtains (handled) e s' where "m s = Some (Err e, s')" "h e s' = Some (r, s'')"
    | (passes) a where "m s = Some (Ok a, s'')" "r = Ok a"
  using assms by (auto simp: or_else_def split: option.splits prod.splits sum.splits)

lemma map_prog_Some:
  "map_prog f m s = Some (r, s') \<longleftrightarrow> (\<exists>r'. m s = Some (r', s') \<and> r = res_map f r')"
  by (auto simp: map_prog_def split: option.splits prod.splits)

lemma map_err_Some:
  "map_err f m s = Some (r, s') \<longleftrightarrow> (\<exists>r'. m s = Some (r', s') \<and> r = res_map_err f r')"
  by (auto simp: map_err_def split: option.splits prod.splits)

lemma map_err_Ok: "map_err f m s = Some (Ok a, s') \<longleftrightarrow> m s = Some (Ok a, s')"
  by (auto simp: map_err_def res_map_err_def split: option.splits prod.splits sum.splits)

lemma map_prog_Ok: "map_prog f m s = Some (Ok b, s') \<longleftrightarrow> (\<exists>a. m s = Some (Ok a, s') \<and> b = f a)"
  by (auto simp: map_prog_def res_map_def split: option.splits prod.splits sum.splits)

lemma unwrap_Some:
  "unwrap m s = Some (r, s') \<longleftrightarrow> (\<exists>a. m s = Some (Ok a, s') \<and> r = Ok a)"
  by (auto simp: unwrap_def split: option.splits prod.splits sum.splits)

lemma and_then_lift_res [simp]: "and_then (lift_res (Ok a)) f = f a"
  by (rule ext) (simp add: and_then_def)

lemma and_then_assoc:
  "and_then (and_then m f) g = and_then m (\<lambda>a. and_then (f a) g)"
  by (rule ext) (auto simp: and_then_def split: option.splits prod.splits sum.splits)

text \<open>Programs that recurse inside \<open>and_then\<close> are partial functions.\<close>

lemma and_then_mono [partial_function_mono]:
  fixes m :: "('i \<Rightarrow> 'o option) \<Rightarrow> ('s, 'e, 'a) prog"
  assumes "\<And>s. monotone (fun_ord option_ord) option_ord (\<lambda>f. m f s)"
    and "\<And>a s. monotone (fun_ord option_ord) option_ord (\<lambda>f. g f a s)"
  shows "monotone (fun_ord option_ord) option_ord (\<lambda>f. and_then (m f) (g f) s)"
proof (rule monotoneI)
  fix x y :: "'i \<Rightarrow> 'o option" assume "fun_ord option_ord x y"
  then have m: "option_ord (m x s) (m y s)" and g: "option_ord (g x a t) (g y a t)" for a t
    using monotoneD [OF assms(1)] monotoneD [OF assms(2)] by blast+
  show "option_ord (and_then (m x) (g x) s) (and_then (m y) (g y) s)"
  proof (cases "m x s")
    case None
    then show ?thesis
      by (simp add: and_then_def flat_ord_def)
  next
    case (Some p)
    moreover have "m y s = Some p"
      using m Some by (auto simp: flat_ord_def)
    ultimately show ?thesis
      using g [of "projr (fst p)" "snd p"]
      by (cases p; cases "fst p") (auto simp: and_then_def flat_ord_def)
  qed
qed

text \<open>For evaluating a run of a program whose final state is not itself comparable.\<close>

lemma run_result: "\<not> Option.is_none x \<Longrightarrow> x = Some (fst (the x), snd (the x))"
  by (cases x) auto

subsection \<open>Relations between the states before and after a program\<close>

text \<open>
  A reflexive and transitive relation that every primitive program keeps_rel is respected by every
  composition. The relation is an invariant that is kept (\<open>\<lambda>s s'. P s \<longrightarrow> P s'\<close>) or a frame
  (\<open>\<lambda>s s'. f s' = f s\<close>).
\<close>

definition keeps_rel :: "('s \<Rightarrow> 's \<Rightarrow> bool) \<Rightarrow> ('s, 'e, 'a) prog \<Rightarrow> bool" where
  "keeps_rel R m \<longleftrightarrow> (\<forall>s r s'. m s = Some (r, s') \<longrightarrow> R s s')"

lemma keeps_relI: "(\<And>s r s'. m s = Some (r, s') \<Longrightarrow> R s s') \<Longrightarrow> keeps_rel R m"
  by (auto simp: keeps_rel_def)

lemma keeps_relD: "keeps_rel R m \<Longrightarrow> m s = Some (r, s') \<Longrightarrow> R s s'"
  by (auto simp: keeps_rel_def)

named_theorems keeps_rel_intros "closure rules of the programs that respect a relation"

locale state_relation =
  fixes R :: "'s \<Rightarrow> 's \<Rightarrow> bool"
  assumes refl: "R s s"
    and trans: "R s s' \<Longrightarrow> R s' s'' \<Longrightarrow> R s s''"
begin

lemma rel_lift_res: "keeps_rel R (lift_res r)"
  by (rule keeps_relI) (auto intro: refl)

lemma rel_gets: "keeps_rel R (gets f)"
  by (rule keeps_relI) (auto intro: refl)

lemma rel_panic: "keeps_rel R panic"
  by (rule keeps_relI) auto

lemma rel_modify: "(\<And>s. R s (f s)) \<Longrightarrow> keeps_rel R (modify f)"
  by (rule keeps_relI) auto

lemma rel_and_then:
  assumes "keeps_rel R m" and "\<And>a. keeps_rel R (f a)"
  shows "keeps_rel R (and_then m f)"
proof (rule keeps_relI)
  fix s r s'' assume "and_then m f s = Some (r, s'')"
  then show "R s s''"
    by (cases rule: and_then_Some) (use assms in \<open>blast dest: keeps_relD intro: trans\<close>)+
qed

lemma rel_or_else:
  assumes "keeps_rel R m" and "\<And>e. keeps_rel R (h e)"
  shows "keeps_rel R (or_else m h)"
proof (rule keeps_relI)
  fix s r s'' assume "or_else m h s = Some (r, s'')"
  then show "R s s''"
    by (cases rule: or_else_Some) (use assms in \<open>blast dest: keeps_relD intro: trans\<close>)+
qed

lemma rel_map_prog: "keeps_rel R m \<Longrightarrow> keeps_rel R (map_prog f m)"
  by (rule keeps_relI) (auto simp: map_prog_Some dest: keeps_relD)

lemma rel_map_err: "keeps_rel R m \<Longrightarrow> keeps_rel R (map_err f m)"
  by (rule keeps_relI) (auto simp: map_err_Some dest: keeps_relD)

lemma rel_unwrap: "keeps_rel R m \<Longrightarrow> keeps_rel R (unwrap m)"
  by (rule keeps_relI) (auto simp: unwrap_Some dest: keeps_relD)

lemma rel_if: "keeps_rel R m \<Longrightarrow> keeps_rel R n \<Longrightarrow> keeps_rel R (if b then m else n)"
  by simp

lemma rel_option: "keeps_rel R m \<Longrightarrow> (\<And>a. keeps_rel R (f a)) \<Longrightarrow> keeps_rel R (case_option m f x)"
  by (cases x) auto

lemma rel_read: "(\<And>x. keeps_rel R (f x)) \<Longrightarrow> keeps_rel R (\<lambda>s. f (g s) s)"
  by (rule keeps_relI) (auto dest: keeps_relD)

lemma rel_let: "(\<And>x. keeps_rel R (f x)) \<Longrightarrow> keeps_rel R (\<lambda>s. let x = g s in f x s)"
  by (rule keeps_relI) (auto dest: keeps_relD)

lemma rel_prod: "(\<And>a b. keeps_rel R (f a b)) \<Longrightarrow> keeps_rel R (case_prod f x)"
  by (cases x) auto

lemmas rel_rules = rel_lift_res rel_gets rel_panic rel_and_then rel_or_else rel_map_prog
  rel_map_err rel_unwrap rel_if rel_option

end

subsection \<open>BTreeMap as a sorted association list\<close>

type_synonym ('k, 'v) btree = "('k \<times> 'v) list"

definition bt_wf :: "('k::linorder, 'v) btree \<Rightarrow> bool" where
  "bt_wf m \<longleftrightarrow> sorted_wrt (<) (map fst m)"

definition bt_get :: "('k, 'v) btree \<Rightarrow> 'k \<Rightarrow> 'v option" where
  "bt_get m k = map_of m k"

fun bt_insert :: "'k::linorder \<Rightarrow> 'v \<Rightarrow> ('k, 'v) btree \<Rightarrow> ('k, 'v) btree" where
  "bt_insert k v [] = [(k, v)]"
| "bt_insert k v (p # m) =
     (if fst p < k then p # bt_insert k v m
      else if fst p = k then (k, v) # m
      else (k, v) # p # m)"

definition bt_remove :: "'k \<Rightarrow> ('k, 'v) btree \<Rightarrow> ('k, 'v) btree" where
  "bt_remove k m = filter (\<lambda>p. fst p \<noteq> k) m"

lemma bt_wf_Nil [simp]: "bt_wf []"
  by (simp add: bt_wf_def)

lemma bt_get_Nil [simp]: "bt_get [] k = None"
  by (simp add: bt_get_def)

lemma keys_bt_insert: "fst ` set (bt_insert k v m) = insert k (fst ` set m)"
  by (induction m) auto

lemma bt_wf_insert: "bt_wf m \<Longrightarrow> bt_wf (bt_insert k v m)"
proof (induction m)
  case Nil
  then show ?case by (simp add: bt_wf_def)
next
  case (Cons p m)
  have keys: "q \<in> set (bt_insert k v m) \<Longrightarrow> fst q = k \<or> fst q \<in> fst ` set m" for q
    using keys_bt_insert [of k v m] by force
  show ?case
    using Cons by (fastforce simp: bt_wf_def dest!: keys)
qed

lemma bt_get_insert: "bt_get (bt_insert k v m) k' = (if k' = k then Some v else bt_get m k')"
  by (induction m) (auto simp: bt_get_def)

lemma bt_wf_remove: "bt_wf m \<Longrightarrow> bt_wf (bt_remove k m)"
  by (induction m) (auto simp: bt_wf_def bt_remove_def)

lemma bt_get_remove: "bt_get (bt_remove k m) k' = (if k' = k then None else bt_get m k')"
  by (induction m) (auto simp: bt_get_def bt_remove_def)

lemma bt_wf_distinct: "bt_wf m \<Longrightarrow> distinct (map fst m)"
  unfolding bt_wf_def by (simp add: strict_sorted_iff)

subsection \<open>Keyed stores\<close>

locale keyed_store =
  fixes get :: "'s \<Rightarrow> 'k \<Rightarrow> 'v option"
    and put :: "'k \<Rightarrow> 'v \<Rightarrow> 's \<Rightarrow> 's"
  assumes get_put: "get (put k v s) k' = (if k' = k then Some v else get s k')"
begin

lemma get_put_same: "get (put k v s) k = Some v"
  by (simp add: get_put)

lemma get_put_other: "k' \<noteq> k \<Longrightarrow> get (put k v s) k' = get s k'"
  by (simp add: get_put)

lemma put_overwrites: "get (put k v' (put k v s)) = get (put k v' s)"
  by (rule ext) (simp add: get_put)

lemma get_puts: "get (fold (\<lambda>(k, v). put k v) kvs s) k =
    (case map_of (rev kvs) k of None \<Rightarrow> get s k | Some v \<Rightarrow> Some v)"
  by (induction kvs arbitrary: s)
    (auto simp: get_put map_add_def split: option.splits)

end

locale keyed_store_del = keyed_store +
  fixes del :: "'k \<Rightarrow> 's \<Rightarrow> 's"
  assumes get_del: "get (del k s) k' = (if k' = k then None else get s k')"
begin

lemma del_put: "get (del k (put k v s)) = get (del k s)"
  by (rule ext) (simp add: get_put get_del)

lemma put_del: "get (put k v (del k s)) = get (put k v s)"
  by (rule ext) (simp add: get_put get_del)

end

interpretation btree: keyed_store_del "bt_get :: ('k::linorder, 'v) btree \<Rightarrow> 'k \<Rightarrow> 'v option" bt_insert bt_remove
  by unfold_locales (simp_all add: bt_get_insert bt_get_remove)

text \<open>A \<open>BTreeMap\<close> collected from the entries of another one that a function keeps.\<close>

definition bt_collect :: "('k::linorder \<Rightarrow> 'a \<Rightarrow> 'b option) \<Rightarrow> ('k \<times> 'a) list \<Rightarrow> ('k, 'b) btree" where
  "bt_collect f xs = fold (\<lambda>(k, a) m. case f k a of Some b \<Rightarrow> bt_insert k b m | None \<Rightarrow> m) xs []"

lemma bt_get_fold_collect:
  "distinct (map fst xs) \<Longrightarrow>
     bt_get (fold (\<lambda>(k, a) m. case f k a of Some b \<Rightarrow> bt_insert k b m | None \<Rightarrow> m) xs m) k =
     (case Option.bind (map_of xs k) (f k) of Some b \<Rightarrow> Some b | None \<Rightarrow> bt_get m k)"
proof (induction xs arbitrary: m)
  case (Cons x xs)
  obtain k0 a where x: "x = (k0, a)"
    by (cases x)
  have fresh: "k0 = k \<Longrightarrow> map_of xs k = None"
    using Cons.prems by (simp add: x map_of_eq_None_iff)
  show ?case
    using Cons fresh by (cases "f k0 a"; cases "k0 = k") (simp_all add: x bt_get_insert split: option.split)
qed simp

lemma bt_get_collect:
  "bt_wf xs \<Longrightarrow> bt_get (bt_collect f xs) k = Option.bind (bt_get xs k) (f k)"
  using bt_get_fold_collect [OF bt_wf_distinct, of xs f "[]" k]
  by (simp add: bt_collect_def bt_get_def [of xs] split: option.splits)

lemma bt_wf_collect: "bt_wf (bt_collect f xs)"
proof -
  have "bt_wf (fold (\<lambda>(k, a) m. case f k a of Some b \<Rightarrow> bt_insert k b m | None \<Rightarrow> m) xs m)"
    if "bt_wf m" for m
    using that by (induction xs arbitrary: m) (auto simp: bt_wf_insert split: option.splits)
  then show ?thesis
    by (simp add: bt_collect_def)
qed

text \<open>A \<open>BTreeMap\<close> is determined by its lookups.\<close>

lemma bt_eqI:
  assumes "bt_wf a" and "bt_wf b" and "\<And>k. bt_get a k = bt_get b k"
  shows "a = b"
proof -
  have keys: "distinct (map fst a)" "distinct (map fst b)" "sorted (map fst a)" "sorted (map fst b)"
    using assms(1,2) by (simp_all add: bt_wf_def strict_sorted_iff)
  have "map_of a = map_of b"
    using assms(3) by (intro ext) (simp add: bt_get_def)
  then have set_eq: "set a = set b"
    using keys by (simp add: map_of_inject_set)
  moreover have "inj_on fst (set a \<union> set b)"
    using keys(1) set_eq by (simp add: distinct_map)
  ultimately show ?thesis
    using keys map_sorted_distinct_set_unique by blast
qed

lemma bt_get_Some: "bt_wf m \<Longrightarrow> bt_get m k = Some v \<longleftrightarrow> (k, v) \<in> set m"
  by (simp add: bt_get_def bt_wf_distinct)

subsection \<open>Loops that do not fail\<close>

lemma try_fold_Ok:
  assumes "\<And>acc x. x \<in> set xs \<Longrightarrow> f acc x = Ok (g x acc)"
  shows "try_fold f acc xs = Ok (fold g xs acc)"
  using assms by (induction xs arbitrary: acc) auto

lemma bt_fold_insert:
  assumes "distinct (map (\<lambda>x. fst (h x)) xs)"
  shows "bt_wf (fold (\<lambda>x m. bt_insert (fst (h x)) (snd (h x)) m) xs []) \<and>
    bt_get (fold (\<lambda>x m. bt_insert (fst (h x)) (snd (h x)) m) xs []) k = map_of (map h xs) k"
proof -
  have wf: "bt_wf (fold (\<lambda>x m. bt_insert (fst (h x)) (snd (h x)) m) xs m)" if "bt_wf m" for m
    using that by (induction xs arbitrary: m) (auto simp: bt_wf_insert)
  have "fold (\<lambda>x m. bt_insert (fst (h x)) (snd (h x)) m) xs m = fold (\<lambda>(k, v). bt_insert k v) (map h xs) m" for m
    by (induction xs arbitrary: m) (auto simp: case_prod_beta)
  moreover have "map_of (rev (map h xs)) = map_of (map h xs)"
    using assms by (subst map_of_inject_set) (simp_all add: rev_map [symmetric] comp_def)
  ultimately show ?thesis
    using wf [of "[]"] btree.get_puts [of "map h xs" "[]" k] by (simp split: option.splits)
qed

text \<open>A map that is rebuilt, entry by entry, from another representation of its entries.\<close>

lemma bt_fold_recode:
  assumes "bt_wf entries" and dist: "distinct (map (\<lambda>x. fst (h x)) m)" and entries: "h ` set m = set entries"
  shows "fold (\<lambda>x out. bt_insert (fst (h x)) (snd (h x)) out) m [] = entries"
proof -
  have "map_of (map h m) = map_of entries"
    using dist entries bt_wf_distinct [OF assms(1)] by (subst map_of_inject_set) (simp_all add: comp_def)
  then show ?thesis
    using bt_fold_insert [OF dist] assms(1) by (intro bt_eqI) (auto simp: bt_get_def [of entries])
qed

subsection \<open>Hash maps\<close>

text \<open>
  A \<open>HashMap\<close> that the code iterates over is an association list with distinct keys: the order is the
  order of its iteration.
\<close>

type_synonym ('k, 'v) hashmap = "('k \<times> 'v) list"

definition hm_insert :: "'k \<Rightarrow> 'v \<Rightarrow> ('k, 'v) hashmap \<Rightarrow> ('k, 'v) hashmap" where
  "hm_insert k v m = AList.update k v m"

definition hm_remove :: "'k \<Rightarrow> ('k, 'v) hashmap \<Rightarrow> ('k, 'v) hashmap" where
  "hm_remove k m = AList.delete k m"

interpretation hashmap: keyed_store_del map_of hm_insert hm_remove
  by unfold_locales (simp_all add: hm_insert_def hm_remove_def update_conv' delete_conv')

lemma hm_insert_fresh: "k \<notin> fst ` set m \<Longrightarrow> hm_insert k v m = m @ [(k, v)]"
  unfolding hm_insert_def by (induction m) auto

lemma hm_collect: "distinct (map fst (m @ kvs)) \<Longrightarrow> fold (\<lambda>(k, v). hm_insert k v) kvs m = m @ kvs"
  by (induction kvs arbitrary: m) (auto simp: hm_insert_fresh)

subsection \<open>Collecting results\<close>

text \<open>\<open>collect\<close> of an iterator of results into a result of a vector.\<close>

definition try_map :: "('a \<Rightarrow> 'e + 'b) \<Rightarrow> 'a list \<Rightarrow> 'e + 'b list" where
  "try_map f xs = try_fold (\<lambda>out x. res_map (\<lambda>y. out @ [y]) (f x)) [] xs"

lemma try_map_Ok:
  assumes "\<And>x. x \<in> set xs \<Longrightarrow> f x = Ok (g x)"
  shows "try_map f xs = Ok (map g xs)"
proof -
  have "fold (\<lambda>x out. out @ [g x]) xs ys = ys @ map g xs" for ys
    by (induction xs arbitrary: ys) auto
  moreover have "try_map f xs = Ok (fold (\<lambda>x out. out @ [g x]) xs [])"
    unfolding try_map_def using assms by (intro try_fold_Ok) simp
  ultimately show ?thesis
    by simp
qed

lemma try_fold_map: "try_fold h acc (map g xs) = try_fold (\<lambda>acc x. h acc (g x)) acc xs"
  by (induction xs arbitrary: acc) simp_all

lemma try_map_map: "try_map f (map g xs) = try_map (f \<circ> g) xs"
  by (simp add: try_map_def try_fold_map)

lemma try_map_Err:
  assumes "x \<in> set xs" and "f x = Err e"
  shows "\<exists>e. try_map f xs = Err e"
proof -
  have "\<exists>e. try_fold (\<lambda>out x. res_map (\<lambda>y. out @ [y]) (f x)) ys xs = Err e" for ys
    using assms
  proof (induction xs arbitrary: ys)
    case (Cons a xs)
    then show ?case
      by (cases "f a") auto
  qed simp
  then show ?thesis
    by (simp add: try_map_def)
qed

end
