(* ===== verification/Safe_Nd.thy ===== *)
theory Safe_Nd
  imports Prelude
begin

section \<open>The data-type crate and the process environment, as parameters\<close>

text \<open>
  The repository is written against the third-party crate \<^verbatim>\<open>safe_nd\<close>, which is not part of it.
  What the sources show of that crate (the variants they match on, the public fields they read and
  build) is a datatype here, with the same variants. What they only call is a field of the record
  \<open>safe_nd\<close>, an argument of every definition that uses it, so that nothing is assumed about it
  unless a theorem names the assumption (the \<open>laws\<close> predicates at the end).
  A value the sources never look into (a key, a signature, a mutable or append-only data object, a
  permission set) is represented by its encoding, a byte string: all these types are serialisable
  and compared by value.
\<close>

subsection \<open>Names, keys, identities\<close>

datatype public_key = PublicKey (pk_bytes: bytes)
datatype xor_name = XorName (xn_bytes: bytes)

instantiation public_key :: linorder
begin

definition less_eq_public_key :: "public_key \<Rightarrow> public_key \<Rightarrow> bool" where
  "less_eq_public_key a b \<longleftrightarrow> pk_bytes a \<le> pk_bytes b"

definition less_public_key :: "public_key \<Rightarrow> public_key \<Rightarrow> bool" where
  "less_public_key a b \<longleftrightarrow> pk_bytes a < pk_bytes b"

instance
  by standard (auto simp: less_eq_public_key_def less_public_key_def public_key.expand)

end

type_synonym signature = bytes
type_synonym message_id = bytes
type_synonym login_packet = bytes
type_synonym coins = u64 \<comment> \<open>a \<open>Coins\<close> value, by its number of nanos\<close>

datatype client_public_id = ClientPublicId bytes
datatype app_public_id = AppPublicId bytes
datatype public_id = Client client_public_id | App app_public_id | Node bytes

datatype app_permissions = AppPermissions
  (get_balance_perm: bool) (perform_mutations: bool) (transfer_coins_perm: bool)

datatype transaction = Transaction (tx_id: u64) (tx_amount: coins)

subsection \<open>Errors\<close>

text \<open>
  The versions inside an \<open>EntryError\<close> are bytes: \<open>(current_version + 1).into()\<close> widens them.
\<close>

datatype entry_error = EntryNoSuchEntry | EntryExists "8 word" | EntryInvalidSuccessor "8 word"

datatype (plugins only: code extraction) snd_error =
    AccessDenied | NoSuchLoginPacket | LoginPacketExists | NoSuchData | DataExists | NoSuchEntry
  | TooManyEntries | InvalidEntryActions "(bytes, entry_error) btree" | NoSuchKey
  | KeysExist bytes | DuplicateEntryKeys | DuplicateMessageId | InvalidOwners
  | InvalidSuccessor u64 | InvalidOperation | NetworkOther string | InvalidOwnersSuccessor u64
  | InvalidPermissionsSuccessor u64 | SigningKeyTypeMismatch | InvalidSignature
  | LossOfPrecision | ExcessiveValue | NoSuchBalance | BalanceExists | FailedToParse string
  | TransactionIdExists | InsufficientBalance | ExceededSize

subsection \<open>Addresses and data\<close>

datatype idata_address = IPubAddr xor_name | IUnpubAddr xor_name

datatype mdata_kind = MKindSeq | MKindUnseq
datatype mdata_address =
    MSeqAddr (md_name: xor_name) (md_tag: u64)
  | MUnseqAddr (md_name: xor_name) (md_tag: u64)

datatype adata_address =
    PubSeqAddr xor_name u64 | PubUnseqAddr xor_name u64
  | UnpubSeqAddr xor_name u64 | UnpubUnseqAddr xor_name u64

fun md_kind :: "mdata_address \<Rightarrow> mdata_kind" where
  "md_kind (MSeqAddr n t) = MKindSeq"
| "md_kind (MUnseqAddr n t) = MKindUnseq"

fun idata_addr_is_pub :: "idata_address \<Rightarrow> bool" where
  "idata_addr_is_pub (IPubAddr n) = True"
| "idata_addr_is_pub (IUnpubAddr n) = False"

fun adata_addr_is_pub :: "adata_address \<Rightarrow> bool" where
  "adata_addr_is_pub (PubSeqAddr n t) = True"
| "adata_addr_is_pub (PubUnseqAddr n t) = True"
| "adata_addr_is_pub (UnpubSeqAddr n t) = False"
| "adata_addr_is_pub (UnpubUnseqAddr n t) = False"

datatype idata = IPub bytes | IUnpub bytes

type_synonym perm_set = bytes \<comment> \<open>\<open>MDataPermissionSet\<close>\<close>

datatype mdata_seq_value = MDataSeqValue (sv_data: bytes) (sv_version: u64)
datatype seq_entry_action = Ins mdata_seq_value | Update mdata_seq_value | Del u64

type_synonym seq_entries = "(bytes, mdata_seq_value) btree"
type_synonym unseq_entries = "(bytes, bytes) btree"
type_synonym seq_entry_actions = "(bytes, seq_entry_action) btree"

datatype mdata_entries = SeqEntries seq_entries | UnseqEntries unseq_entries
datatype mdata_value = SeqValue mdata_seq_value | UnseqValue bytes
datatype mdata_values = SeqValues "mdata_seq_value list" | UnseqValues "bytes list"
datatype mdata_entry_actions = SeqActions seq_entry_actions | UnseqActions bytes
datatype mdata_action = ActRead | ActInsert | ActUpdate | ActDelete | ActManagePermissions
datatype mdata = MSeq bytes | MUnseq bytes

datatype adata = PubSeq bytes | PubUnseq bytes | UnpubSeq bytes | UnpubUnseq bytes
datatype adata_action = AActRead | AActAppend | AActManagePermissions
datatype adata_index = FromStart u64 | FromEnd u64
datatype adata_owner = ADataOwner (ao_public_key: public_key) (ao_entries_index: u64)
  (ao_permissions_index: u64)
datatype adata_permissions = PubPermissions bytes | UnpubPermissions bytes

type_synonym adata_entry = "bytes \<times> bytes"
datatype adata_append = ADataAppend (aa_address: adata_address) (aa_values: "adata_entry list")

fun adata_is_pub :: "adata \<Rightarrow> bool" where
  "adata_is_pub (PubSeq d) = True"
| "adata_is_pub (PubUnseq d) = True"
| "adata_is_pub (UnpubSeq d) = False"
| "adata_is_pub (UnpubUnseq d) = False"

datatype data = Immutable idata | Mutable mdata | AppendOnly adata

subsection \<open>Requests, responses, messages\<close>

datatype request_type = PublicGet | PrivateGet | Mutation | TransactionReq

datatype (plugins only: code extraction) request =
    GetIData idata_address
  | PutIData idata
  | DeleteUnpubIData idata_address
  | ListAuthKeysAndVersion
  | InsAuthKey public_key app_permissions u64
  | DelAuthKey public_key u64
  | TransferCoins xor_name coins u64
  | CreateBalance public_key coins u64
  | GetBalance
  | CreateLoginPacketFor public_key coins u64 login_packet
  | CreateLoginPacket login_packet
  | GetLoginPacket xor_name
  | UpdateLoginPacket login_packet
  | GetMData mdata_address
  | PutMData mdata
  | GetMDataValue mdata_address bytes
  | GetMDataShell mdata_address
  | GetMDataVersion mdata_address
  | ListMDataEntries mdata_address
  | ListMDataKeys mdata_address
  | ListMDataValues mdata_address
  | DeleteMData mdata_address
  | SetMDataUserPermissions mdata_address public_key perm_set u64
  | DelMDataUserPermissions mdata_address public_key u64
  | ListMDataUserPermissions mdata_address public_key
  | ListMDataPermissions mdata_address
  | MutateMDataEntries mdata_address mdata_entry_actions
  | PutAData adata
  | GetAData adata_address
  | DeleteAData adata_address
  | GetADataShell adata_address adata_index
  | GetADataRange adata_address "adata_index \<times> adata_index"
  | GetADataValue adata_address bytes
  | GetADataIndices adata_address
  | GetADataLastEntry adata_address
  | GetADataPermissions adata_address adata_index
  | GetPubADataUserPermissions adata_address adata_index bytes
  | GetUnpubADataUserPermissions adata_address adata_index public_key
  | AppendSeq adata_append u64
  | AppendUnseq adata_append
  | AddPubADataPermissions adata_address bytes u64
  | AddUnpubADataPermissions adata_address bytes u64
  | SetADataOwner adata_address adata_owner u64
  | GetADataOwners adata_address adata_index

type_synonym 'a snd_result = "snd_error + 'a"

datatype (plugins only: code extraction) response =
    RespGetIData "idata snd_result"
  | RespMutation "unit snd_result"
  | RespTransaction "transaction snd_result"
  | RespListAuthKeysAndVersion "((public_key \<Rightarrow> app_permissions option) \<times> u64) snd_result"
  | RespGetBalance "coins snd_result"
  | RespGetLoginPacket "(bytes \<times> signature) snd_result"
  | RespGetMData "mdata snd_result"
  | RespGetMDataValue "mdata_value snd_result"
  | RespGetMDataShell "mdata snd_result"
  | RespGetMDataVersion "u64 snd_result"
  | RespListMDataEntries "mdata_entries snd_result"
  | RespListMDataKeys "bytes list snd_result"
  | RespListMDataValues "mdata_values snd_result"
  | RespListMDataUserPermissions "perm_set snd_result"
  | RespListMDataPermissions "(public_key, perm_set) btree snd_result"
  | RespGetAData "adata snd_result"
  | RespGetADataShell "adata snd_result"
  | RespGetADataRange "adata_entry list snd_result"
  | RespGetADataValue "bytes snd_result"
  | RespGetADataIndices "bytes snd_result"
  | RespGetADataLastEntry "adata_entry snd_result"
  | RespGetADataPermissions "adata_permissions snd_result"
  | RespGetPubADataUserPermissions "bytes snd_result"
  | RespGetUnpubADataUserPermissions "bytes snd_result"
  | RespGetADataOwners "adata_owner snd_result"

datatype message =
    MsgRequest request message_id "signature option"
  | MsgResponse response message_id
  | MsgNotification bytes

subsection \<open>The operations the sources call\<close>

record nd_ids =
  xor_name_of_pk :: "public_key \<Rightarrow> xor_name"
  client_name :: "client_public_id \<Rightarrow> xor_name"
  client_public_key :: "client_public_id \<Rightarrow> public_key"
  app_public_key :: "app_public_id \<Rightarrow> public_key"
  app_owner :: "app_public_id \<Rightarrow> client_public_id"
  app_owner_name :: "app_public_id \<Rightarrow> xor_name"
  public_id_name :: "public_id \<Rightarrow> xor_name"

record nd_coins = nd_ids +
  checked_add :: "coins \<Rightarrow> coins \<Rightarrow> coins option"
  checked_sub :: "coins \<Rightarrow> coins \<Rightarrow> coins option"
  from_nano :: "u64 \<Rightarrow> coins snd_result"
  coins_from_str :: "string \<Rightarrow> coins snd_result"

record nd_msgs = nd_coins +
  get_type :: "request \<Rightarrow> request_type"
  error_response :: "request \<Rightarrow> snd_error \<Rightarrow> response"
  verify_signature :: "signature \<Rightarrow> public_key \<Rightarrow> request \<Rightarrow> message_id \<Rightarrow> unit snd_result"
  snd_error_from_str :: "string \<Rightarrow> snd_error"

record nd_packets = nd_msgs +
  lp_destination :: "login_packet \<Rightarrow> xor_name"
  lp_authorised_getter :: "login_packet \<Rightarrow> public_key"
  lp_data :: "login_packet \<Rightarrow> bytes"
  lp_signature :: "login_packet \<Rightarrow> signature"
  idata_addr :: "idata \<Rightarrow> idata_address"
  unpub_idata_owner :: "bytes \<Rightarrow> public_key"

record nd_mdata = nd_packets +
  md_address :: "mdata \<Rightarrow> mdata_address"
  md_owner :: "mdata \<Rightarrow> public_key"
  md_version :: "mdata \<Rightarrow> u64"
  md_shell :: "mdata \<Rightarrow> mdata"
  md_keys :: "mdata \<Rightarrow> bytes list"
  md_check_permissions :: "mdata \<Rightarrow> mdata_action \<Rightarrow> public_key \<Rightarrow> unit snd_result"
  md_check_is_owner :: "mdata \<Rightarrow> public_key \<Rightarrow> unit snd_result"
  md_set_user_permissions :: "mdata \<Rightarrow> public_key \<Rightarrow> perm_set \<Rightarrow> u64 \<Rightarrow> mdata snd_result"
  md_del_user_permissions :: "mdata \<Rightarrow> public_key \<Rightarrow> u64 \<Rightarrow> mdata snd_result"
  md_user_permissions :: "mdata \<Rightarrow> public_key \<Rightarrow> perm_set snd_result"
  md_permissions :: "mdata \<Rightarrow> (public_key, perm_set) btree"
  md_mutate_entries :: "mdata \<Rightarrow> mdata_entry_actions \<Rightarrow> public_key \<Rightarrow> mdata snd_result"
  seq_get :: "bytes \<Rightarrow> bytes \<Rightarrow> mdata_seq_value option"
  seq_entries :: "bytes \<Rightarrow> seq_entries"
  seq_values :: "bytes \<Rightarrow> mdata_seq_value list"
  unseq_get :: "bytes \<Rightarrow> bytes \<Rightarrow> bytes option"
  unseq_entries :: "bytes \<Rightarrow> unseq_entries"
  unseq_values :: "bytes \<Rightarrow> bytes list"

record nd_adata = nd_mdata +
  ad_address :: "adata \<Rightarrow> adata_address"
  ad_check_permission :: "adata \<Rightarrow> adata_action \<Rightarrow> public_key \<Rightarrow> unit snd_result"
  ad_check_is_last_owner :: "adata \<Rightarrow> public_key \<Rightarrow> unit snd_result"
  ad_owners_index :: "adata \<Rightarrow> u64"
  ad_permissions_index :: "adata \<Rightarrow> u64"
  ad_owner :: "adata \<Rightarrow> u64 \<Rightarrow> adata_owner option"
  ad_shell :: "adata \<Rightarrow> u64 \<Rightarrow> adata snd_result"
  ad_in_range :: "adata \<Rightarrow> adata_index \<Rightarrow> adata_index \<Rightarrow> adata_entry list option"
  ad_get :: "adata \<Rightarrow> bytes \<Rightarrow> bytes option"
  ad_indices :: "adata \<Rightarrow> bytes snd_result"
  ad_last_entry :: "adata \<Rightarrow> adata_entry option"
  ad_pub_permissions :: "adata \<Rightarrow> adata_index \<Rightarrow> bytes snd_result"
  ad_unpub_permissions :: "adata \<Rightarrow> adata_index \<Rightarrow> bytes snd_result"
  ad_pub_user_permissions :: "adata \<Rightarrow> bytes \<Rightarrow> adata_index \<Rightarrow> bytes snd_result"
  ad_unpub_user_permissions :: "adata \<Rightarrow> public_key \<Rightarrow> adata_index \<Rightarrow> bytes snd_result"

text \<open>
  The mutating methods of the four append-only types come from two traits: each takes the object and
  gives the new contents of an object of the same type.
\<close>

record safe_nd = nd_adata +
  seq_append :: "adata \<Rightarrow> adata_entry list \<Rightarrow> u64 \<Rightarrow> bytes snd_result"
  unseq_append :: "adata \<Rightarrow> adata_entry list \<Rightarrow> bytes snd_result"
  append_permissions :: "adata \<Rightarrow> bytes \<Rightarrow> u64 \<Rightarrow> bytes snd_result"
  append_owner :: "adata \<Rightarrow> adata_owner \<Rightarrow> u64 \<Rightarrow> bytes snd_result"
  env_var :: "string \<Rightarrow> string option"
  pid_debug :: "public_id \<Rightarrow> string"

subsection \<open>Documented behaviour, as named hypotheses\<close>

text \<open>\<open>Coins\<close>: checked arithmetic on nanos.\<close>

definition coins_laws :: "safe_nd \<Rightarrow> bool" where
  "coins_laws nd \<longleftrightarrow>
     (\<forall>a b. checked_sub nd a b = (if b \<le> a then Some (a - b) else None)) \<and>
     (\<forall>a b c. checked_add nd a b = Some c \<longrightarrow> unat c = unat a + unat b) \<and>
     from_nano nd 0 = Ok 0 \<and> coins_from_str nd ''0'' = Ok 0"

text \<open>The network name of a client is derived from its key; an app acts at its owner's name.\<close>

definition id_laws :: "safe_nd \<Rightarrow> bool" where
  "id_laws nd \<longleftrightarrow>
     (\<forall>c. client_name nd c = xor_name_of_pk nd (client_public_key nd c)) \<and>
     (\<forall>c. public_id_name nd (Client c) = client_name nd c) \<and>
     (\<forall>a. app_owner_name nd a = client_name nd (app_owner nd a)) \<and>
     (\<forall>a. public_id_name nd (App a) = app_owner_name nd a)"

text \<open>Published immutable data lives at published addresses, unpublished at unpublished ones.\<close>

definition idata_laws :: "safe_nd \<Rightarrow> bool" where
  "idata_laws nd \<longleftrightarrow>
     (\<forall>b. idata_addr_is_pub (idata_addr nd (IPub b))) \<and>
     (\<forall>b. \<not> idata_addr_is_pub (idata_addr nd (IUnpub b)))"

lemma coins_lawsD:
  assumes "coins_laws nd"
  shows "checked_sub nd a b = (if b \<le> a then Some (a - b) else None)"
    and "checked_add nd a b = Some c \<Longrightarrow> unat c = unat a + unat b"
    and "from_nano nd 0 = Ok 0" and "coins_from_str nd ''0'' = Ok 0"
  using assms by (auto simp: coins_laws_def)

lemma id_lawsD:
  assumes "id_laws nd"
  shows "client_name nd c = xor_name_of_pk nd (client_public_key nd c)"
    and "public_id_name nd (Client c) = xor_name_of_pk nd (client_public_key nd c)"
    and "app_owner_name nd a = xor_name_of_pk nd (client_public_key nd (app_owner nd a))"
    and "public_id_name nd (App a) = xor_name_of_pk nd (client_public_key nd (app_owner nd a))"
  using assms by (auto simp: id_laws_def)

end
