(* ===== verification/Sample_Nd.thy ===== *)
theory Sample_Nd
  imports Safe_Nd
begin

section \<open>A concrete instance of the parameter record\<close>

text \<open>
  Small executable functions that satisfy the documented laws. Nothing in the model uses them: they
  instantiate the parameter of a theorem where its hypotheses are shown to be satisfiable. A key, a
  name and an object are told apart by their first byte; a signature is the signer's key.
\<close>

fun mdata_payload :: "mdata \<Rightarrow> bytes" where
  "mdata_payload (MSeq b) = b"
| "mdata_payload (MUnseq b) = b"

fun adata_payload :: "adata \<Rightarrow> bytes" where
  "adata_payload (PubSeq b) = b"
| "adata_payload (PubUnseq b) = b"
| "adata_payload (UnpubSeq b) = b"
| "adata_payload (UnpubUnseq b) = b"

definition only_owner :: "bytes \<Rightarrow> public_key \<Rightarrow> unit snd_result" where
  "only_owner b pk = (if pk = PublicKey (take 1 b) then Ok () else Err AccessDenied)"

definition sample_type :: "request \<Rightarrow> request_type" where
  "sample_type r = (case r of
     GetIData (IPubAddr _) \<Rightarrow> PublicGet
   | GetIData (IUnpubAddr _) \<Rightarrow> PrivateGet
   | GetMData _ \<Rightarrow> PrivateGet
   | GetMDataVersion _ \<Rightarrow> PrivateGet
   | GetBalance \<Rightarrow> PrivateGet
   | ListAuthKeysAndVersion \<Rightarrow> PrivateGet
   | TransferCoins _ _ _ \<Rightarrow> TransactionReq
   | CreateBalance _ _ _ \<Rightarrow> TransactionReq
   | CreateLoginPacketFor _ _ _ _ \<Rightarrow> TransactionReq
   | _ \<Rightarrow> Mutation)"

definition sample_error_response :: "request \<Rightarrow> snd_error \<Rightarrow> response" where
  "sample_error_response r e = (case r of
     GetIData _ \<Rightarrow> RespGetIData (Err e)
   | ListAuthKeysAndVersion \<Rightarrow> RespListAuthKeysAndVersion (Err e)
   | TransferCoins _ _ _ \<Rightarrow> RespTransaction (Err e)
   | CreateBalance _ _ _ \<Rightarrow> RespTransaction (Err e)
   | CreateLoginPacketFor _ _ _ _ \<Rightarrow> RespTransaction (Err e)
   | GetBalance \<Rightarrow> RespGetBalance (Err e)
   | GetLoginPacket _ \<Rightarrow> RespGetLoginPacket (Err e)
   | GetMData _ \<Rightarrow> RespGetMData (Err e)
   | GetMDataValue _ _ \<Rightarrow> RespGetMDataValue (Err e)
   | GetMDataShell _ \<Rightarrow> RespGetMDataShell (Err e)
   | GetMDataVersion _ \<Rightarrow> RespGetMDataVersion (Err e)
   | ListMDataEntries _ \<Rightarrow> RespListMDataEntries (Err e)
   | ListMDataKeys _ \<Rightarrow> RespListMDataKeys (Err e)
   | ListMDataValues _ \<Rightarrow> RespListMDataValues (Err e)
   | ListMDataUserPermissions _ _ \<Rightarrow> RespListMDataUserPermissions (Err e)
   | ListMDataPermissions _ \<Rightarrow> RespListMDataPermissions (Err e)
   | GetAData _ \<Rightarrow> RespGetAData (Err e)
   | GetADataShell _ _ \<Rightarrow> RespGetADataShell (Err e)
   | GetADataRange _ _ \<Rightarrow> RespGetADataRange (Err e)
   | GetADataValue _ _ \<Rightarrow> RespGetADataValue (Err e)
   | GetADataIndices _ \<Rightarrow> RespGetADataIndices (Err e)
   | GetADataLastEntry _ \<Rightarrow> RespGetADataLastEntry (Err e)
   | GetADataPermissions _ _ \<Rightarrow> RespGetADataPermissions (Err e)
   | GetPubADataUserPermissions _ _ _ \<Rightarrow> RespGetPubADataUserPermissions (Err e)
   | GetUnpubADataUserPermissions _ _ _ \<Rightarrow> RespGetUnpubADataUserPermissions (Err e)
   | GetADataOwners _ _ \<Rightarrow> RespGetADataOwners (Err e)
   | _ \<Rightarrow> RespMutation (Err e))"

definition sample_nd :: safe_nd where
  "sample_nd = \<lparr>
     xor_name_of_pk = (\<lambda>pk. XorName (pk_bytes pk)),
     client_name = (\<lambda>c. case c of ClientPublicId b \<Rightarrow> XorName b),
     client_public_key = (\<lambda>c. case c of ClientPublicId b \<Rightarrow> PublicKey b),
     app_public_key = (\<lambda>a. case a of AppPublicId b \<Rightarrow> PublicKey (take 1 b)),
     app_owner = (\<lambda>a. case a of AppPublicId b \<Rightarrow> ClientPublicId (drop 1 b)),
     app_owner_name = (\<lambda>a. case a of AppPublicId b \<Rightarrow> XorName (drop 1 b)),
     public_id_name = (\<lambda>p. case p of Client (ClientPublicId b) \<Rightarrow> XorName b
       | App (AppPublicId b) \<Rightarrow> XorName (drop 1 b) | Node b \<Rightarrow> XorName b),
     checked_add = (\<lambda>a b. if unat a + unat b < 2 ^ 64 then Some (a + b) else None),
     checked_sub = (\<lambda>a b. if b \<le> a then Some (a - b) else None),
     from_nano = Ok,
     coins_from_str = (\<lambda>s. if s = ''0'' then Ok 0 else Err (FailedToParse s)),
     get_type = sample_type,
     error_response = sample_error_response,
     verify_signature = (\<lambda>s pk r m. if s = pk_bytes pk then Ok () else Err InvalidSignature),
     snd_error_from_str = NetworkOther,
     lp_destination = (\<lambda>p. XorName (take 1 p)),
     lp_authorised_getter = (\<lambda>p. PublicKey (take 1 (drop 1 p))),
     lp_data = (\<lambda>p. p),
     lp_signature = (\<lambda>p. []),
     idata_addr = (\<lambda>d. case d of IPub b \<Rightarrow> IPubAddr (XorName b) | IUnpub b \<Rightarrow> IUnpubAddr (XorName b)),
     unpub_idata_owner = (\<lambda>b. PublicKey (take 1 b)),
     md_address = (\<lambda>d. case d of MSeq b \<Rightarrow> MSeqAddr (XorName (take 1 b)) 0
       | MUnseq b \<Rightarrow> MUnseqAddr (XorName (take 1 b)) 0),
     md_owner = (\<lambda>d. PublicKey (take 1 (mdata_payload d))),
     md_version = (\<lambda>d. 0),
     md_shell = (\<lambda>d. d),
     md_keys = (\<lambda>d. []),
     md_check_permissions = (\<lambda>d act pk. only_owner (mdata_payload d) pk),
     md_check_is_owner = (\<lambda>d pk. only_owner (mdata_payload d) pk),
     md_set_user_permissions = (\<lambda>d u p ver. Ok d),
     md_del_user_permissions = (\<lambda>d u ver. Ok d),
     md_user_permissions = (\<lambda>d u. Err NoSuchKey),
     md_permissions = (\<lambda>d. []),
     md_mutate_entries = (\<lambda>d acts pk. res_map (\<lambda>_. d) (only_owner (mdata_payload d) pk)),
     seq_get = (\<lambda>b k. None),
     seq_entries = (\<lambda>b. []),
     seq_values = (\<lambda>b. []),
     unseq_get = (\<lambda>b k. None),
     unseq_entries = (\<lambda>b. []),
     unseq_values = (\<lambda>b. []),
     ad_address = (\<lambda>d. case d of PubSeq b \<Rightarrow> PubSeqAddr (XorName (take 1 b)) 0
       | PubUnseq b \<Rightarrow> PubUnseqAddr (XorName (take 1 b)) 0
       | UnpubSeq b \<Rightarrow> UnpubSeqAddr (XorName (take 1 b)) 0
       | UnpubUnseq b \<Rightarrow> UnpubUnseqAddr (XorName (take 1 b)) 0),
     ad_check_permission = (\<lambda>d act pk. only_owner (adata_payload d) pk),
     ad_check_is_last_owner = (\<lambda>d pk. only_owner (adata_payload d) pk),
     ad_owners_index = (\<lambda>d. 1),
     ad_permissions_index = (\<lambda>d. 1),
     ad_owner = (\<lambda>d i. if i = 0
       then Some (ADataOwner (PublicKey (take 1 (adata_payload d))) 0 0) else None),
     ad_shell = (\<lambda>d i. if i \<le> 1 then Ok d else Err NoSuchEntry),
     ad_in_range = (\<lambda>d i j. None),
     ad_get = (\<lambda>d k. None),
     ad_indices = (\<lambda>d. Ok []),
     ad_last_entry = (\<lambda>d. None),
     ad_pub_permissions = (\<lambda>d i. Err NoSuchEntry),
     ad_unpub_permissions = (\<lambda>d i. Err NoSuchEntry),
     ad_pub_user_permissions = (\<lambda>d u i. Err NoSuchEntry),
     ad_unpub_user_permissions = (\<lambda>d u i. Err NoSuchEntry),
     seq_append = (\<lambda>d vals i. Ok (adata_payload d)),
     unseq_append = (\<lambda>d vals. Ok (adata_payload d)),
     append_permissions = (\<lambda>d p i. Ok (adata_payload d)),
     append_owner = (\<lambda>d owner i. Ok (adata_payload d)),
     env_var = (\<lambda>s. None),
     pid_debug = (\<lambda>i. [])\<rparr>"

lemma sample_coins_laws: "coins_laws sample_nd"
proof -
  have "unat (a + b) = unat a + unat b" if "unat a + unat b < 18446744073709551616" for a b :: coins
    using that by (simp add: unat_word_ariths)
  then show ?thesis
    by (auto simp: coins_laws_def sample_nd_def)
qed

lemma sample_id_laws: "id_laws sample_nd"
  by (auto simp: id_laws_def sample_nd_def split: client_public_id.splits app_public_id.splits)

lemma sample_idata_laws: "idata_laws sample_nd"
  by (simp add: idata_laws_def sample_nd_def)

end
