(* ===== verification/Core_Error.thy ===== *)
theory Core_Error
  imports Safe_Nd
begin

section \<open>Errors and events of the core library\<close>

text \<open>
  \<open>CoreError\<close> (safe\_core/src/errors.rs), \<open>NfsError\<close> (nfs/errors.rs), \<open>NetworkEvent\<close> (event.rs) with
  their conversions and messages. The errors of third-party crates (bincode, serde\_json, std::io,
  quic-p2p, self\_encryption) are opaque byte strings; how they print is the argument \<open>ps\<close> of the
  messages.
\<close>

datatype 'e self_encryption_error = SEStorage 'e | SEOther bytes

datatype (plugins only: code extraction) core_error =
    EncodeDecodeError bytes | AsymmetricDecipherFailure | SymmetricDecipherFailure
  | ReceivedUnexpectedData | ReceivedUnexpectedEvent | VersionCacheMiss | RootDirectoryExists
  | RandomDataGenerationFailure | OperationForbidden | Unexpected string | DataError snd_error
  | UnsupportedSaltSizeForPwHash | UnsuccessfulPwHash | OperationAborted
  | SelfEncryption "core_error self_encryption_error" | RequestTimeout | ConfigError bytes
  | IoError bytes | QuicP2p bytes

type_synonym 'a core_result = "core_error + 'a"

datatype json_category = CatIo | CatSyntax | CatData | CatEof

definition core_error_from_str :: "string \<Rightarrow> core_error" where
  "core_error_from_str error = Unexpected error"

definition core_error_from_send_error :: "string \<Rightarrow> core_error" where
  "core_error_from_send_error error =
     core_error_from_str (''Couldn't send message to the channel: '' @ error)"

definition core_error_from_json :: "json_category \<Rightarrow> bytes \<Rightarrow> core_error" where
  "core_error_from_json category error = (case category of
     CatIo \<Rightarrow> IoError error
   | CatSyntax \<Rightarrow> ConfigError error | CatData \<Rightarrow> ConfigError error | CatEof \<Rightarrow> ConfigError error)"

text \<open>The message of a nested error is the message of that error.\<close>

definition core_error_description ::
  "(snd_error \<Rightarrow> string) \<Rightarrow> (bytes \<Rightarrow> string) \<Rightarrow> (core_error self_encryption_error \<Rightarrow> string)
     \<Rightarrow> core_error \<Rightarrow> string" where
  "core_error_description snd_desc desc se_desc error = (case error of
     EncodeDecodeError _ \<Rightarrow> ''Serialisation error''
   | AsymmetricDecipherFailure \<Rightarrow> ''Asymmetric decryption failure''
   | SymmetricDecipherFailure \<Rightarrow> ''Symmetric decryption failure''
   | ReceivedUnexpectedData \<Rightarrow> ''Received unexpected data''
   | ReceivedUnexpectedEvent \<Rightarrow> ''Received unexpected event''
   | VersionCacheMiss \<Rightarrow> ''Version cache miss''
   | RootDirectoryExists \<Rightarrow> ''Root directory already exists''
   | RandomDataGenerationFailure \<Rightarrow> ''Cannot obtain RNG''
   | OperationForbidden \<Rightarrow> ''Operation forbidden''
   | Unexpected _ \<Rightarrow> ''Unexpected error''
   | DataError e \<Rightarrow> snd_desc e
   | UnsupportedSaltSizeForPwHash \<Rightarrow> ''Unsupported size of salt''
   | UnsuccessfulPwHash \<Rightarrow> ''Failed while password hashing''
   | OperationAborted \<Rightarrow> ''Operation aborted''
   | SelfEncryption e \<Rightarrow> se_desc e
   | RequestTimeout \<Rightarrow> ''Request has timed out''
   | ConfigError e \<Rightarrow> desc e
   | IoError e \<Rightarrow> desc e
   | QuicP2p e \<Rightarrow> desc e)"

datatype nfs_error =
    NfsCoreError core_error | FileExists | FileNotFound | InvalidRange | NfsUnexpected string
  | NfsEncodeDecodeError bytes | NfsSelfEncryption "core_error self_encryption_error"

type_synonym 'a nfs_result = "nfs_error + 'a"

datatype network_event = Connected | Disconnected

definition NETWORK_EVENT_START_RANGE :: int where
  "NETWORK_EVENT_START_RANGE = 0"

definition network_event_code :: "network_event \<Rightarrow> int" where
  "network_event_code e = (case e of
     Connected \<Rightarrow> NETWORK_EVENT_START_RANGE
   | Disconnected \<Rightarrow> NETWORK_EVENT_START_RANGE - 1)"

end
