(* ===== verification/Mock_Account.thy ===== *)
theory Mock_Account
  imports Safe_Nd
begin

section \<open>Coin balances and client accounts of the mock vault\<close>

text \<open>
  \<^verbatim>\<open>safe_core/src/client/mock/account.rs\<close>: a coin balance with its bounded list of recent credits,
  and a client account with its authorised app keys and their version. Configuration structs are
  those of \<^verbatim>\<open>safe_core/src/config_handler.rs\<close>. Version arithmetic is that of a release build
  (\<open>u64\<close> addition wraps).
\<close>

record dev_config =
  mock_unlimited_coins :: bool
  mock_in_memory_storage :: bool
  mock_vault_path :: "string option"

record config =
  quic_p2p :: bytes
  dev :: "dev_config option"

subsection \<open>CoinBalance\<close>

definition DEFAULT_MAX_CREDITS :: nat where
  "DEFAULT_MAX_CREDITS = 100"

record credit =
  cr_amount :: coins
  cr_transaction_id :: u64

record coin_balance =
  cb_owner :: public_key
  cb_value :: coins
  cb_credits :: "credit list"

definition coin_balance_new :: "coins \<Rightarrow> public_key \<Rightarrow> coin_balance" where
  "coin_balance_new value owner = \<lparr>cb_owner = owner, cb_value = value, cb_credits = []\<rparr>"

definition add_transaction :: "coin_balance \<Rightarrow> coins \<Rightarrow> u64 \<Rightarrow> coin_balance" where
  "add_transaction b amount transaction_id =
     (let credits = (if length (cb_credits b) = DEFAULT_MAX_CREDITS
                     then butlast (cb_credits b) else cb_credits b)
      in b\<lparr>cb_credits :=
            \<lparr>cr_amount = amount, cr_transaction_id = transaction_id\<rparr> # credits\<rparr>)"

definition credit_balance ::
  "safe_nd \<Rightarrow> coin_balance \<Rightarrow> coins \<Rightarrow> u64 \<Rightarrow> coin_balance snd_result" where
  "credit_balance nd b amount transaction_id =
     (case checked_add nd (cb_value b) amount of
        Some new_balance \<Rightarrow> Ok (add_transaction (b\<lparr>cb_value := new_balance\<rparr>) amount transaction_id)
      | None \<Rightarrow> Err ExcessiveValue)"

definition debit_balance :: "safe_nd \<Rightarrow> coin_balance \<Rightarrow> coins \<Rightarrow> coin_balance snd_result" where
  "debit_balance nd b amount =
     (case checked_sub nd (cb_value b) amount of
        Some new_balance \<Rightarrow> Ok (b\<lparr>cb_value := new_balance\<rparr>)
      | None \<Rightarrow> Err InsufficientBalance)"

definition balance :: "coin_balance \<Rightarrow> coins" where
  "balance b = cb_value b"

subsection \<open>Account\<close>

record account =
  acc_auth_keys :: "public_key \<Rightarrow> app_permissions option"
  acc_version :: u64
  acc_config :: config

definition account_new :: "config \<Rightarrow> account" where
  "account_new c = \<lparr>acc_auth_keys = Map.empty, acc_version = 0, acc_config = c\<rparr>"

definition validate_version :: "account \<Rightarrow> u64 \<Rightarrow> unit snd_result" where
  "validate_version a version =
     (if version = acc_version a + 1 then Ok () else Err (InvalidSuccessor (acc_version a)))"

definition account_ins_auth_key ::
  "account \<Rightarrow> public_key \<Rightarrow> app_permissions \<Rightarrow> u64 \<Rightarrow> account snd_result" where
  "account_ins_auth_key a key permissions version =
     res_and_then (validate_version a version) (\<lambda>_.
       Ok (a\<lparr>acc_auth_keys := (acc_auth_keys a)(key \<mapsto> permissions), acc_version := version\<rparr>))"

text \<open>The key is removed only where it was present, so an error leaves the account as it was.\<close>

definition account_del_auth_key :: "account \<Rightarrow> public_key \<Rightarrow> u64 \<Rightarrow> account snd_result" where
  "account_del_auth_key a key version =
     res_and_then (validate_version a version) (\<lambda>_.
       (case acc_auth_keys a key of
          Some _ \<Rightarrow>
            Ok (a\<lparr>acc_auth_keys := (acc_auth_keys a)(key := None), acc_version := version\<rparr>)
        | None \<Rightarrow> Err NoSuchKey))"

subsection \<open>Invariant and behaviour of a balance\<close>

definition balance_wf :: "coin_balance \<Rightarrow> bool" where
  "balance_wf b \<longleftrightarrow> length (cb_credits b) \<le> DEFAULT_MAX_CREDITS"

lemma balance_wf_new [simp]: "balance_wf (coin_balance_new v pk)"
  by (simp add: balance_wf_def coin_balance_new_def)

lemma cb_value_new [simp]: "cb_value (coin_balance_new v pk) = v"
  by (simp add: coin_balance_new_def)

lemma add_transaction_value [simp]: "cb_value (add_transaction b a t) = cb_value b"
  by (simp add: add_transaction_def Let_def)

lemma add_transaction_owner [simp]: "cb_owner (add_transaction b a t) = cb_owner b"
  by (simp add: add_transaction_def Let_def)

lemma add_transaction_credits:
  assumes "balance_wf b"
  shows "cb_credits (add_transaction b a t) =
    \<lparr>cr_amount = a, cr_transaction_id = t\<rparr> # take (DEFAULT_MAX_CREDITS - 1) (cb_credits b)"
  using assms
  by (auto simp: add_transaction_def Let_def balance_wf_def butlast_conv_take DEFAULT_MAX_CREDITS_def)

lemma balance_wf_add_transaction: "balance_wf b \<Longrightarrow> balance_wf (add_transaction b a t)"
  by (subst balance_wf_def) (simp add: add_transaction_credits DEFAULT_MAX_CREDITS_def)

lemma balance_wf_credit:
  assumes "balance_wf b" and "credit_balance nd b amount t = Ok b'"
  shows "balance_wf b'"
proof -
  obtain v where "b' = add_transaction (b\<lparr>cb_value := v\<rparr>) amount t"
    using assms(2) by (auto simp: credit_balance_def split: option.splits)
  moreover have "balance_wf (b\<lparr>cb_value := v\<rparr>)"
    using assms(1) by (simp add: balance_wf_def)
  ultimately show ?thesis
    by (simp add: balance_wf_add_transaction)
qed

lemma balance_wf_debit: "balance_wf b \<Longrightarrow> debit_balance nd b amount = Ok b' \<Longrightarrow> balance_wf b'"
  by (auto simp: debit_balance_def balance_wf_def split: option.splits)

lemma credit_value:
  "coins_laws nd \<Longrightarrow> credit_balance nd b amount t = Ok b' \<Longrightarrow>
     unat (cb_value b') = unat (cb_value b) + unat amount"
  by (auto simp: credit_balance_def dest: coins_lawsD(2) split: option.splits)

lemma debit_value:
  "coins_laws nd \<Longrightarrow> debit_balance nd b amount = Ok b' \<Longrightarrow>
     unat (cb_value b') = unat (cb_value b) - unat amount \<and> unat amount \<le> unat (cb_value b)"
  by (auto simp: debit_balance_def coins_lawsD(1) unat_sub word_le_nat_alt split: if_splits)

lemma debit_balance_eq:
  "coins_laws nd \<Longrightarrow> debit_balance nd b amount =
     (if amount \<le> cb_value b then Ok (b\<lparr>cb_value := cb_value b - amount\<rparr>)
      else Err InsufficientBalance)"
  by (simp add: debit_balance_def coins_lawsD(1))

subsection \<open>Behaviour of an account\<close>

lemma account_ins_auth_key_Ok:
  "account_ins_auth_key a k p v = Ok a' \<longleftrightarrow>
     v = acc_version a + 1 \<and>
     a' = a\<lparr>acc_auth_keys := (acc_auth_keys a)(k \<mapsto> p), acc_version := v\<rparr>"
  by (auto simp: account_ins_auth_key_def validate_version_def)

lemma account_del_auth_key_Ok:
  "account_del_auth_key a k v = Ok a' \<longleftrightarrow>
     v = acc_version a + 1 \<and> acc_auth_keys a k \<noteq> None \<and>
     a' = a\<lparr>acc_auth_keys := (acc_auth_keys a)(k := None), acc_version := v\<rparr>"
  by (auto simp: account_del_auth_key_def validate_version_def split: option.splits)

end
