(* ===== verification/Mock_Vault.thy ===== *)
theory Mock_Vault
  imports Mock_Account
begin

section \<open>The mock vault: state and primitive operations\<close>

text \<open>
  \<^verbatim>\<open>safe_core/src/client/mock/vault.rs\<close>, up to \<open>process_request\<close>: the cached state of the vault
  (coin balances, client accounts, login packets, stored data), the permission checks of mutable and
  append-only data, authorisation of an operation, coin movements and the accessors of the stored
  data. A method that only reads is a function of the vault; a method that changes it is a program.
\<close>

datatype data_id = IdImmutable idata_address | IdMutable mdata_address | IdAppendOnly adata_address

record cache =
  coin_balances :: "xor_name \<Rightarrow> coin_balance option"
  client_manager :: "xor_name \<Rightarrow> account option"
  login_packets :: "xor_name \<Rightarrow> login_packet option"
  nae_manager :: "data_id \<Rightarrow> data option"

text \<open>The struct \<open>Vault\<close> holds a \<open>Cache\<close> and its \<open>Config\<close>; its store is in \<open>Vault_Store\<close>.\<close>

record vault = cache +
  vault_config :: config

type_synonym 'a vm = "(vault, snd_error, 'a) prog"

definition vault_new :: "config \<Rightarrow> vault" where
  "vault_new c = \<lparr>coin_balances = Map.empty, client_manager = Map.empty,
     login_packets = Map.empty, nae_manager = Map.empty, vault_config = c\<rparr>"

subsection \<open>Permission checks\<close>

definition check_perms_adata :: "safe_nd \<Rightarrow> adata \<Rightarrow> request \<Rightarrow> public_key \<Rightarrow> unit snd_result" where
  "check_perms_adata nd data request requester =
     (let read_check = (case data of
            PubUnseq _ \<Rightarrow> Ok ()
          | PubSeq _ \<Rightarrow> Ok ()
          | UnpubSeq _ \<Rightarrow> ad_check_permission nd data AActRead requester
          | UnpubUnseq _ \<Rightarrow> ad_check_permission nd data AActRead requester)
      in case request of
        GetAData _ \<Rightarrow> read_check
      | GetADataShell _ _ \<Rightarrow> read_check
      | GetADataValue _ _ \<Rightarrow> read_check
      | GetADataRange _ _ \<Rightarrow> read_check
      | GetADataIndices _ \<Rightarrow> read_check
      | GetADataLastEntry _ \<Rightarrow> read_check
      | GetADataPermissions _ _ \<Rightarrow> read_check
      | GetPubADataUserPermissions _ _ _ \<Rightarrow> read_check
      | GetUnpubADataUserPermissions _ _ _ \<Rightarrow> read_check
      | GetADataOwners _ _ \<Rightarrow> read_check
      | AppendSeq _ _ \<Rightarrow> ad_check_permission nd data AActAppend requester
      | AppendUnseq _ \<Rightarrow> ad_check_permission nd data AActAppend requester
      | AddPubADataPermissions _ _ _ \<Rightarrow>
          ad_check_permission nd data AActManagePermissions requester
      | AddUnpubADataPermissions _ _ _ \<Rightarrow>
          ad_check_permission nd data AActManagePermissions requester
      | SetADataOwner _ _ _ \<Rightarrow> ad_check_is_last_owner nd data requester
      | DeleteAData _ \<Rightarrow> (case data of
            PubSeq _ \<Rightarrow> Err InvalidOperation
          | PubUnseq _ \<Rightarrow> Err InvalidOperation
          | UnpubSeq _ \<Rightarrow> ad_check_is_last_owner nd data requester
          | UnpubUnseq _ \<Rightarrow> ad_check_is_last_owner nd data requester)
      | _ \<Rightarrow> Err InvalidOperation)"

definition check_perms_mdata :: "safe_nd \<Rightarrow> mdata \<Rightarrow> request \<Rightarrow> public_key \<Rightarrow> unit snd_result" where
  "check_perms_mdata nd data request requester =
     (let read_check = md_check_permissions nd data ActRead requester;
          manage_check = md_check_permissions nd data ActManagePermissions requester
      in case request of
        GetMData _ \<Rightarrow> read_check
      | GetMDataShell _ \<Rightarrow> read_check
      | GetMDataVersion _ \<Rightarrow> read_check
      | ListMDataKeys _ \<Rightarrow> read_check
      | ListMDataEntries _ \<Rightarrow> read_check
      | ListMDataValues _ \<Rightarrow> read_check
      | GetMDataValue _ _ \<Rightarrow> read_check
      | ListMDataPermissions _ \<Rightarrow> read_check
      | ListMDataUserPermissions _ _ \<Rightarrow> read_check
      | SetMDataUserPermissions _ _ _ _ \<Rightarrow> manage_check
      | DelMDataUserPermissions _ _ _ \<Rightarrow> manage_check
      | MutateMDataEntries _ _ \<Rightarrow> Ok ()
      | DeleteMData _ \<Rightarrow> md_check_is_owner nd data requester
      | _ \<Rightarrow> Err InvalidOperation)"

subsection \<open>Accounts, balances, login packets\<close>

definition get_account :: "vault \<Rightarrow> xor_name \<Rightarrow> account option" where
  "get_account v name = client_manager v name"

definition get_coin_balance :: "vault \<Rightarrow> xor_name \<Rightarrow> coin_balance option" where
  "get_coin_balance v name = coin_balances v name"

definition get_login_packet :: "vault \<Rightarrow> xor_name \<Rightarrow> login_packet option" where
  "get_login_packet v name = login_packets v name"

definition set_account :: "xor_name \<Rightarrow> account \<Rightarrow> vault \<Rightarrow> vault" where
  "set_account name a v = v\<lparr>client_manager := (client_manager v)(name \<mapsto> a)\<rparr>"

definition set_coin_balance :: "xor_name \<Rightarrow> coin_balance \<Rightarrow> vault \<Rightarrow> vault" where
  "set_coin_balance name b v = v\<lparr>coin_balances := (coin_balances v)(name \<mapsto> b)\<rparr>"

definition insert_account :: "xor_name \<Rightarrow> vault \<Rightarrow> vault" where
  "insert_account name v = set_account name (account_new (vault_config v)) v"

definition insert_login_packet :: "safe_nd \<Rightarrow> login_packet \<Rightarrow> vault \<Rightarrow> vault" where
  "insert_login_packet nd packet v =
     v\<lparr>login_packets := (login_packets v)(lp_destination nd packet \<mapsto> packet)\<rparr>"

definition mock_create_balance :: "safe_nd \<Rightarrow> public_key \<Rightarrow> coins \<Rightarrow> vault \<Rightarrow> vault" where
  "mock_create_balance nd owner amount v =
     set_coin_balance (xor_name_of_pk nd owner) (coin_balance_new amount owner) v"

text \<open>The credit's transaction id is random there; here it is an argument.\<close>

definition mock_increment_balance :: "safe_nd \<Rightarrow> xor_name \<Rightarrow> coins \<Rightarrow> u64 \<Rightarrow> unit vm" where
  "mock_increment_balance nd name amount random_id = (\<lambda>v.
     case get_coin_balance v name of
       None \<Rightarrow> Some (Err NoSuchBalance, v)
     | Some b \<Rightarrow> (case credit_balance nd b amount random_id of
         Err e \<Rightarrow> Some (Err e, v)
       | Ok b' \<Rightarrow> Some (Ok (), set_coin_balance name b' v)))"

definition get_balance :: "vault \<Rightarrow> xor_name \<Rightarrow> coins snd_result" where
  "get_balance v name = (case get_coin_balance v name of
     None \<Rightarrow> Err NoSuchBalance | Some b \<Rightarrow> Ok (balance b))"

subsection \<open>Authorisation\<close>

datatype operation = OpTransferCoins | OpMutation | OpGetBalance

text \<open>\<open>COST_OF_PUT\<close> of \<^verbatim>\<open>client/mod.rs\<close> is \<open>Coins::from_nano(1)\<close>.\<close>

definition COST_OF_PUT :: coins where
  "COST_OF_PUT = 1"

definition unlimited_coins :: "safe_nd \<Rightarrow> config \<Rightarrow> bool" where
  "unlimited_coins nd c = (case env_var nd ''SAFE_MOCK_UNLIMITED_COINS'' of
     Some _ \<Rightarrow> True
   | None \<Rightarrow> (case dev c of Some d \<Rightarrow> mock_unlimited_coins d | None \<Rightarrow> False))"

definition has_sufficient_balance :: "safe_nd \<Rightarrow> vault \<Rightarrow> coins \<Rightarrow> coins \<Rightarrow> bool" where
  "has_sufficient_balance nd v bal amount \<longleftrightarrow>
     unlimited_coins nd (vault_config v) \<or> checked_sub nd bal amount \<noteq> None"

fun authorise_owner :: "safe_nd \<Rightarrow> vault \<Rightarrow> coins \<Rightarrow> operation list \<Rightarrow> unit snd_result" where
  "authorise_owner nd v bal [] = Ok ()"
| "authorise_owner nd v bal (operation # operations) =
     (if operation = OpMutation \<and> \<not> has_sufficient_balance nd v bal COST_OF_PUT
      then Err InsufficientBalance
      else authorise_owner nd v bal operations)"

fun authorise_app ::
  "safe_nd \<Rightarrow> vault \<Rightarrow> coins \<Rightarrow> app_permissions \<Rightarrow> operation list \<Rightarrow> unit snd_result" where
  "authorise_app nd v bal perms [] = Ok ()"
| "authorise_app nd v bal perms (operation # operations) = (case operation of
     OpTransferCoins \<Rightarrow>
       (if \<not> transfer_coins_perm perms then Err AccessDenied
        else authorise_app nd v bal perms operations)
   | OpGetBalance \<Rightarrow>
       (if \<not> get_balance_perm perms then Err AccessDenied
        else authorise_app nd v bal perms operations)
   | OpMutation \<Rightarrow>
       (if \<not> perform_mutations perms then Err AccessDenied
        else if \<not> has_sufficient_balance nd v bal COST_OF_PUT then Err InsufficientBalance
        else authorise_app nd v bal perms operations))"

definition authorise_operations ::
  "safe_nd \<Rightarrow> operation list \<Rightarrow> xor_name \<Rightarrow> public_key \<Rightarrow> vault \<Rightarrow> unit snd_result" where
  "authorise_operations nd operations owner requester_pk v =
     res_and_then (get_balance v owner) (\<lambda>bal.
       if owner = xor_name_of_pk nd requester_pk then authorise_owner nd v bal operations
       else res_and_then (ok_or AccessDenied (get_account v owner)) (\<lambda>account.
         res_and_then (ok_or AccessDenied (acc_auth_keys account requester_pk)) (\<lambda>perms.
           authorise_app nd v bal perms operations)))"

text \<open>\<open>commit_mutation\<close> unwraps: a missing balance or one that cannot pay is a panic.\<close>

definition commit_mutation :: "safe_nd \<Rightarrow> xor_name \<Rightarrow> unit vm" where
  "commit_mutation nd account = (\<lambda>v.
     if \<not> unlimited_coins nd (vault_config v) then
       (case get_coin_balance v account of
          None \<Rightarrow> None
        | Some b \<Rightarrow> (case debit_balance nd b COST_OF_PUT of
            Err e \<Rightarrow> None
          | Ok b' \<Rightarrow> Some (Ok (), set_coin_balance account b' v)))
     else Some (Ok (), v))"

subsection \<open>Stored data\<close>

definition contains_data :: "vault \<Rightarrow> data_id \<Rightarrow> bool" where
  "contains_data v name \<longleftrightarrow> nae_manager v name \<noteq> None"

definition get_data :: "vault \<Rightarrow> data_id \<Rightarrow> data option" where
  "get_data v name = nae_manager v name"

definition insert_data :: "data_id \<Rightarrow> data \<Rightarrow> vault \<Rightarrow> vault" where
  "insert_data name d v = v\<lparr>nae_manager := (nae_manager v)(name \<mapsto> d)\<rparr>"

definition delete_data :: "data_id \<Rightarrow> vault \<Rightarrow> vault" where
  "delete_data name v = v\<lparr>nae_manager := (nae_manager v)(name := None)\<rparr>"

subsection \<open>Coin movements\<close>

definition create_balance :: "safe_nd \<Rightarrow> xor_name \<Rightarrow> public_key \<Rightarrow> unit vm" where
  "create_balance nd destination owner = (\<lambda>v.
     if get_coin_balance v destination \<noteq> None then Some (Err BalanceExists, v)
     else (case from_nano nd 0 of
         Err e \<Rightarrow> Some (Err e, v)
       | Ok zero \<Rightarrow> Some (Ok (), set_coin_balance destination (coin_balance_new zero owner) v)))"

text \<open>A transfer debits the source, then credits the destination; the debit stays if the credit fails.\<close>

definition debit_source :: "safe_nd \<Rightarrow> xor_name \<Rightarrow> coins \<Rightarrow> unit vm" where
  "debit_source nd source amount = (\<lambda>v. case get_coin_balance v source of
     Some b \<Rightarrow>
       (if \<not> unlimited_coins nd (vault_config v) then
          (case debit_balance nd b amount of
             Err e \<Rightarrow> Some (Err e, v)
           | Ok b' \<Rightarrow> Some (Ok (), set_coin_balance source b' v))
        else Some (Ok (), v))
   | None \<Rightarrow> Some (Err NoSuchBalance, v))"

definition credit_destination :: "safe_nd \<Rightarrow> xor_name \<Rightarrow> coins \<Rightarrow> u64 \<Rightarrow> unit vm" where
  "credit_destination nd destination amount transaction_id = (\<lambda>v.
     case get_coin_balance v destination of
       Some b \<Rightarrow> (case credit_balance nd b amount transaction_id of
           Err e \<Rightarrow> Some (Err e, v)
         | Ok b' \<Rightarrow> Some (Ok (), set_coin_balance destination b' v))
     | None \<Rightarrow> Some (Err NoSuchBalance, v))"

definition transfer_coins :: "safe_nd \<Rightarrow> xor_name \<Rightarrow> xor_name \<Rightarrow> coins \<Rightarrow> u64 \<Rightarrow> transaction vm" where
  "transfer_coins nd source destination amount transaction_id =
     and_then (debit_source nd source amount) (\<lambda>_.
     and_then (credit_destination nd destination amount transaction_id) (\<lambda>_.
       lift_res (Ok (Transaction transaction_id amount))))"

subsection \<open>Reading and writing the stored data under the permission checks\<close>

definition get_idata :: "idata_address \<Rightarrow> idata vm" where
  "get_idata address = gets (\<lambda>v. case get_data v (IdImmutable address) of
     Some (Immutable d) \<Rightarrow> Ok d
   | Some _ \<Rightarrow> Err NoSuchData
   | None \<Rightarrow> Err NoSuchData)"

definition delete_idata :: "safe_nd \<Rightarrow> idata_address \<Rightarrow> public_key \<Rightarrow> unit vm" where
  "delete_idata nd address requester_pk = (\<lambda>v. case get_data v (IdImmutable address) of
     Some (Immutable (IUnpub d)) \<Rightarrow>
       (if unpub_idata_owner nd d = requester_pk
        then Some (Ok (), delete_data (IdImmutable address) v)
        else Some (Err AccessDenied, v))
   | Some (Immutable (IPub d)) \<Rightarrow> Some (Err InvalidOperation, v)
   | Some _ \<Rightarrow> Some (Err NoSuchData, v)
   | None \<Rightarrow> Some (Err NoSuchData, v))"

definition get_mdata :: "safe_nd \<Rightarrow> mdata_address \<Rightarrow> public_key \<Rightarrow> request \<Rightarrow> mdata vm" where
  "get_mdata nd address requester_pk request = gets (\<lambda>v. case get_data v (IdMutable address) of
     Some (Mutable d) \<Rightarrow> res_map (\<lambda>_. d) (check_perms_mdata nd d request requester_pk)
   | Some _ \<Rightarrow> Err NoSuchData
   | None \<Rightarrow> Err NoSuchData)"

definition get_adata :: "safe_nd \<Rightarrow> adata_address \<Rightarrow> public_key \<Rightarrow> request \<Rightarrow> adata vm" where
  "get_adata nd address requester_pk request = gets (\<lambda>v. case get_data v (IdAppendOnly address) of
     Some (AppendOnly d) \<Rightarrow> res_map (\<lambda>_. d) (check_perms_adata nd d request requester_pk)
   | Some _ \<Rightarrow> Err NoSuchData
   | None \<Rightarrow> Err NoSuchData)"

definition put_data :: "safe_nd \<Rightarrow> data_id \<Rightarrow> data \<Rightarrow> public_id \<Rightarrow> unit vm" where
  "put_data nd data_name d requester =
     and_then
       (lift_res (case requester of
          Client c \<Rightarrow> Ok (client_name nd c, client_public_key nd c)
        | App a \<Rightarrow> Ok (app_owner_name nd a, app_public_key nd a)
        | Node n \<Rightarrow> Err AccessDenied))
       (\<lambda>(name, key). and_then (gets (authorise_operations nd [OpMutation] name key))
         (\<lambda>_ v. if contains_data v data_name then
              (case data_name of
                 IdImmutable addr \<Rightarrow>
                   (if idata_addr_is_pub addr
                    then commit_mutation nd (public_id_name nd requester) v
                    else Some (Err DataExists, v))
               | _ \<Rightarrow> Some (Err DataExists, v))
            else commit_mutation nd (public_id_name nd requester) (insert_data data_name d v)))"

subsection \<open>Authorised keys\<close>

definition ensure_account :: "xor_name \<Rightarrow> vault \<Rightarrow> vault" where
  "ensure_account name v = (if get_account v name = None then insert_account name v else v)"

definition list_auth_keys_and_version ::
  "xor_name \<Rightarrow> ((public_key \<Rightarrow> app_permissions option) \<times> u64) vm" where
  "list_auth_keys_and_version name = (\<lambda>v.
     let v' = ensure_account name v in
     (case get_account v' name of
        None \<Rightarrow> None
      | Some account \<Rightarrow> Some (Ok (acc_auth_keys account, acc_version account), v')))"

definition ins_auth_key ::
  "xor_name \<Rightarrow> public_key \<Rightarrow> app_permissions \<Rightarrow> u64 \<Rightarrow> unit vm" where
  "ins_auth_key name key permissions version = (\<lambda>v.
     let v' = ensure_account name v in
     (case get_account v' name of
        None \<Rightarrow> None
      | Some account \<Rightarrow> (case account_ins_auth_key account key permissions version of
          Err e \<Rightarrow> Some (Err e, v')
        | Ok account' \<Rightarrow> Some (Ok (), set_account name account' v'))))"

definition del_auth_key :: "xor_name \<Rightarrow> public_key \<Rightarrow> u64 \<Rightarrow> unit vm" where
  "del_auth_key name key version = (\<lambda>v.
     let v' = ensure_account name v in
     (case get_account v' name of
        None \<Rightarrow> None
      | Some account \<Rightarrow> (case account_del_auth_key account key version of
          Err e \<Rightarrow> Some (Err e, v')
        | Ok account' \<Rightarrow> Some (Ok (), set_account name account' v'))))"

end
