(* ===== verification/Vault_Store.thy ===== *)
theory Vault_Store
  imports Mock_Vault
begin

section \<open>Persistence of the mock vault\<close>

text \<open>
  The storage back ends of safe\_core/src/client/mock/vault.rs: \<open>MemoryStore\<close>, \<open>FileStore\<close> with
  \<open>load\<close> and \<open>save\<close>, the choice of the store and its path, and the guard that loads the cache when the
  vault is locked and saves it when the guard is dropped.

  The file system is a \<open>disk\<close>: the contents and modification time of every file, the current
  time, and which files the process may open, read and write. The file contents are of any type
  \<open>'raw\<close>; bincode's \<open>serialize\<close> and \<open>deserialize\<close> of the cache, which are not part of the repository,
  are the \<open>codec\<close>. A lock is held from \<open>load\<close> to \<open>save\<close>, so that one guarded access is one step of
  the disk.
\<close>

record 'raw codec =
  serialize :: "cache \<Rightarrow> 'raw option"
  deserialize :: "'raw \<Rightarrow> cache option"
  no_bytes :: 'raw \<comment> \<open>the contents of a new file\<close>

record 'raw disk =
  files :: "string \<Rightarrow> ('raw \<times> nat) option" \<comment> \<open>contents and modification time\<close>
  clock :: nat
  can_open :: "string \<Rightarrow> bool"
  can_read :: "string \<Rightarrow> bool"
  can_write :: "string \<Rightarrow> bool"

record file_store =
  fs_file :: "(string \<times> bool) option" \<comment> \<open>the open file and whether it is being written to\<close>
  fs_sync_time :: "nat option"
  fs_path :: "string option"

datatype store = MemoryStore | FileStore file_store

definition FILE_NAME :: string where
  "FILE_NAME = ''SCL-Mock''"

text \<open>\<open>PathBuf::join\<close> with a relative path.\<close>

definition path_join :: "string \<Rightarrow> string \<Rightarrow> string" where
  "path_join p f =
     (if p = [] \<or> last p = CHR ''/'' then p @ f else p @ CHR ''/'' # f)"

definition file_store_new :: "string \<Rightarrow> file_store" where
  "file_store_new path =
     \<lparr>fs_file = None, fs_sync_time = None, fs_path = Some (path_join path FILE_NAME)\<rparr>"

definition init_vault_path :: "safe_nd \<Rightarrow> string \<Rightarrow> dev_config option \<Rightarrow> string" where
  "init_vault_path nd temp_dir devconfig = (case env_var nd ''SAFE_MOCK_VAULT_PATH'' of
     Some path \<Rightarrow> path
   | None \<Rightarrow> (case Option.bind devconfig mock_vault_path of
       Some path \<Rightarrow> path
     | None \<Rightarrow> temp_dir))"

definition init_vault_store :: "safe_nd \<Rightarrow> string \<Rightarrow> config \<Rightarrow> store" where
  "init_vault_store nd temp_dir c = (case env_var nd ''SAFE_MOCK_IN_MEMORY_STORAGE'' of
     Some _ \<Rightarrow> MemoryStore
   | None \<Rightarrow> (case dev c of
       Some d \<Rightarrow> (if mock_in_memory_storage d then MemoryStore
                  else FileStore (file_store_new (init_vault_path nd temp_dir (Some d))))
     | None \<Rightarrow> FileStore (file_store_new (init_vault_path nd temp_dir None))))"

definition mock_vault_file :: "safe_nd \<Rightarrow> string \<Rightarrow> config \<Rightarrow> string" where
  "mock_vault_file nd temp_dir c = path_join (init_vault_path nd temp_dir (dev c)) FILE_NAME"

subsection \<open>Opening, loading, saving\<close>

text \<open>\<open>OpenOptions\<close> with \<open>create(true)\<close> and \<open>truncate(false)\<close>: a missing file is created empty.\<close>

definition open_file :: "'raw codec \<Rightarrow> file_store \<Rightarrow> 'raw disk \<Rightarrow> (string \<times> 'raw disk) option" where
  "open_file cd fs d = (case fs_path fs of
     None \<Rightarrow> None
   | Some p \<Rightarrow>
       (if \<not> can_open d p then None
        else if files d p = None
        then Some (p, d\<lparr>files := (files d)(p \<mapsto> (no_bytes cd, clock d))\<rparr>)
        else Some (p, d)))"

text \<open>\<open>mtime.duration_since(sync_time)\<close>, zero if the file is older, one millisecond if never synced.\<close>

definition mtime_duration :: "nat option \<Rightarrow> nat \<Rightarrow> nat" where
  "mtime_duration sync_time mtime = (case sync_time of Some t \<Rightarrow> mtime - t | None \<Rightarrow> 1)"

definition file_load ::
  "'raw codec \<Rightarrow> bool \<Rightarrow> file_store \<Rightarrow> 'raw disk \<Rightarrow> (cache option \<times> file_store \<times> 'raw disk) option" where
  "file_load cd writing fs d = (case open_file cd fs d of
     None \<Rightarrow> None
   | Some (p, d') \<Rightarrow> (case files d' p of
       None \<Rightarrow> None
     | Some (raw, mtime) \<Rightarrow>
         (let opened = fs\<lparr>fs_file := Some (p, writing)\<rparr> in
          if mtime_duration (fs_sync_time fs) mtime > 0 then
            (if \<not> can_read d' p then Some (None, fs, d')
             else if raw = no_bytes cd then Some (None, opened, d')
             else (case deserialize cd raw of
                 Some c \<Rightarrow> Some (Some c, opened\<lparr>fs_sync_time := Some mtime\<rparr>, d')
               | None \<Rightarrow> Some (None, opened, d')))
          else Some (None, opened, d'))))"

definition file_save :: "'raw codec \<Rightarrow> cache \<Rightarrow> file_store \<Rightarrow> 'raw disk \<Rightarrow> (file_store \<times> 'raw disk) option" where
  "file_save cd c fs d = (case fs_file fs of
     None \<Rightarrow> Some (fs, d)
   | Some (p, writing) \<Rightarrow>
       (let taken = fs\<lparr>fs_file := None\<rparr> in
        if writing then
          (case serialize cd c of
             None \<Rightarrow> None
           | Some raw \<Rightarrow>
               (if \<not> can_write d p then None
                else Some (taken\<lparr>fs_sync_time := Some (clock d)\<rparr>,
                           d\<lparr>files := (files d)(p \<mapsto> (raw, clock d))\<rparr>)))
        else Some (taken, d)))"

definition store_load ::
  "'raw codec \<Rightarrow> bool \<Rightarrow> store \<Rightarrow> 'raw disk \<Rightarrow> (cache option \<times> store \<times> 'raw disk) option" where
  "store_load cd writing s d = (case s of
     MemoryStore \<Rightarrow> Some (None, MemoryStore, d)
   | FileStore fs \<Rightarrow>
       map_option (\<lambda>(c, fs', d'). (c, FileStore fs', d')) (file_load cd writing fs d))"

definition store_save :: "'raw codec \<Rightarrow> cache \<Rightarrow> store \<Rightarrow> 'raw disk \<Rightarrow> (store \<times> 'raw disk) option" where
  "store_save cd c s d = (case s of
     MemoryStore \<Rightarrow> Some (MemoryStore, d)
   | FileStore fs \<Rightarrow> map_option (\<lambda>(fs', d'). (FileStore fs', d')) (file_save cd c fs d))"

subsection \<open>The guard\<close>

definition cache_of :: "vault \<Rightarrow> cache" where
  "cache_of v = \<lparr>coin_balances = coin_balances v, client_manager = client_manager v,
     login_packets = login_packets v, nae_manager = nae_manager v\<rparr>"

definition with_cache :: "cache \<Rightarrow> vault \<Rightarrow> vault" where
  "with_cache c v = \<lparr>coin_balances = coin_balances c, client_manager = client_manager c,
     login_packets = login_packets c, nae_manager = nae_manager c, vault_config = vault_config v\<rparr>"

text \<open>A vault together with its store, and the disk: \<open>lock\<close> loads, dropping the guard saves.\<close>

type_synonym 'raw stored_vault = "vault \<times> store \<times> 'raw disk"

definition lock :: "'raw codec \<Rightarrow> bool \<Rightarrow> 'raw stored_vault \<Rightarrow> 'raw stored_vault option" where
  "lock cd writing = (\<lambda>(v, s, d). case store_load cd writing s d of
     None \<Rightarrow> None
   | Some (loaded, s', d') \<Rightarrow>
       Some (case loaded of Some c \<Rightarrow> with_cache c v | None \<Rightarrow> v, s', d'))"

definition drop_guard :: "'raw codec \<Rightarrow> 'raw stored_vault \<Rightarrow> 'raw stored_vault option" where
  "drop_guard cd = (\<lambda>(v, s, d). case store_save cd (cache_of v) s d of
     None \<Rightarrow> None
   | Some (s', d') \<Rightarrow> Some (v, s', d'))"

definition guarded ::
  "'raw codec \<Rightarrow> bool \<Rightarrow> (vault \<Rightarrow> ('r \<times> vault) option) \<Rightarrow> 'raw stored_vault
     \<Rightarrow> ('r \<times> 'raw stored_vault) option" where
  "guarded cd writing act st = (case lock cd writing st of
     None \<Rightarrow> None
   | Some (v, s, d) \<Rightarrow> (case act v of
       None \<Rightarrow> None
     | Some (r, v') \<Rightarrow> map_option (Pair r) (drop_guard cd (v', s, d))))"

lemma cache_of_with_cache [simp]:
  "cache_of (with_cache c v) = c" "vault_config (with_cache c v) = vault_config v"
  "with_cache (cache_of v) v = v" "with_cache c (with_cache c' v) = with_cache c v"
  by (simp_all add: cache_of_def with_cache_def)

lemma vault_eq_iff: "v = w \<longleftrightarrow> cache_of v = cache_of w \<and> vault_config v = vault_config w"
  by (auto simp: cache_of_def intro: vault.equality)

end
