(* ===== verification/Shared_Store.thy ===== *)
theory Shared_Store
  imports Vault_Store
begin

section \<open>Vaults of several processes on one file\<close>

text \<open>
  Several processes each run a mock vault on a \<open>FileStore\<close> with the same path: the vault file is how
  they share one network. An access is a guarded use of one process' vault after some time has
  passed. The theorem at the end says that the processes together behave like one vault in memory.
\<close>

definition codec_laws :: "'raw codec \<Rightarrow> bool" where
  "codec_laws cd \<longleftrightarrow> (\<forall>c. \<exists>raw. serialize cd c = Some raw \<and> raw \<noteq> no_bytes cd \<and> deserialize cd raw = Some c)"

datatype 'r access = Access
  (acc_proc: nat) (acc_elapsed: nat) (acc_writing: bool) (acc_act: "vault \<Rightarrow> ('r \<times> vault) option")

type_synonym 'raw processes = "(nat \<Rightarrow> vault \<times> store) \<times> 'raw disk"

definition access_step :: "'raw codec \<Rightarrow> 'r access \<Rightarrow> 'raw processes \<Rightarrow> ('r \<times> 'raw processes) option" where
  "access_step cd a = (\<lambda>(procs, d).
     (case guarded cd (acc_writing a) (acc_act a)
         (fst (procs (acc_proc a)), snd (procs (acc_proc a)), d\<lparr>clock := clock d + acc_elapsed a\<rparr>) of
        None \<Rightarrow> None
      | Some (r, v, s, d') \<Rightarrow> Some (r, procs(acc_proc a := (v, s)), d')))"

fun run_shared :: "'raw codec \<Rightarrow> 'r access list \<Rightarrow> 'raw processes \<Rightarrow> ('r list \<times> 'raw processes) option" where
  "run_shared cd [] st = Some ([], st)"
| "run_shared cd (a # as) st = (case access_step cd a st of
     None \<Rightarrow> None
   | Some (r, st') \<Rightarrow> map_option (\<lambda>(rs, st''). (r # rs, st'')) (run_shared cd as st'))"

fun run_single :: "'r access list \<Rightarrow> vault \<Rightarrow> ('r list \<times> vault) option" where
  "run_single [] v = Some ([], v)"
| "run_single (a # as) v = (case acc_act a v of
     None \<Rightarrow> None
   | Some (r, v') \<Rightarrow> map_option (\<lambda>(rs, v''). (r # rs, v'')) (run_single as v'))"

text \<open>What the guard needs of an access: only a writing access changes the vault.\<close>

definition access_ok :: "'r access \<Rightarrow> bool" where
  "access_ok a \<longleftrightarrow> 0 < acc_elapsed a \<and>
     (\<forall>v r v'. acc_act a v = Some (r, v') \<longrightarrow>
        vault_config v' = vault_config v \<and> (\<not> acc_writing a \<longrightarrow> v' = v))"

definition usable :: "'raw disk \<Rightarrow> string \<Rightarrow> bool" where
  "usable d p \<longleftrightarrow> can_open d p \<and> can_read d p \<and> can_write d p"

subsection \<open>The invariant\<close>

text \<open>
  The file holds the current cache once it has been written; a process whose vault is not current
  last synchronised at an earlier modification time.
\<close>

definition file_current :: "'raw codec \<Rightarrow> vault \<Rightarrow> nat \<Rightarrow> ('raw \<times> nat) option \<Rightarrow> bool" where
  "file_current cd a now f = (case f of
     None \<Rightarrow> True
   | Some (raw, m) \<Rightarrow> m \<le> now \<and> (raw \<noteq> no_bytes cd \<longrightarrow> deserialize cd raw = Some (cache_of a)))"

definition proc_current :: "'raw codec \<Rightarrow> vault \<Rightarrow> ('raw \<times> nat) option \<Rightarrow> string \<Rightarrow> vault \<times> store \<Rightarrow> bool" where
  "proc_current cd a f p ws = (case ws of (w, MemoryStore) \<Rightarrow> False | (w, FileStore fs) \<Rightarrow>
     fs_path fs = Some p \<and> fs_file fs = None \<and> vault_config w = vault_config a \<and>
     (case f of
        None \<Rightarrow> w = a \<and> fs_sync_time fs = None
      | Some (raw, m) \<Rightarrow>
          (if raw = no_bytes cd then w = a \<and> fs_sync_time fs = None
           else case fs_sync_time fs of
               None \<Rightarrow> True
             | Some t \<Rightarrow> t \<le> m \<and> (t = m \<longrightarrow> w = a))))"

definition shared_inv :: "'raw codec \<Rightarrow> string \<Rightarrow> vault \<Rightarrow> 'raw processes \<Rightarrow> bool" where
  "shared_inv cd p a st = (case st of (procs, d) \<Rightarrow>
     usable d p \<and> file_current cd a (clock d) (files d p) \<and>
     (\<forall>i. proc_current cd a (files d p) p (procs i)))"

lemma proc_currentE:
  assumes "proc_current cd a f p ws"
  obtains w fs where "ws = (w, FileStore fs)" "fs_path fs = Some p" "fs_file fs = None"
    "vault_config w = vault_config a"
  using assms by (auto simp: proc_current_def split: prod.splits store.splits)

definition created :: "'raw codec \<Rightarrow> string \<Rightarrow> 'raw disk \<Rightarrow> 'raw disk" where
  "created cd p d = (if files d p = None
     then d\<lparr>files := (files d)(p \<mapsto> (no_bytes cd, clock d))\<rparr> else d)"

lemma open_file_usable:
  "usable d p \<Longrightarrow> fs_path fs = Some p \<Longrightarrow> open_file cd fs d = Some (p, created cd p d)"
  by (simp add: open_file_def usable_def created_def)

lemma created_simps [simp]:
  "usable (created cd p d) q = usable d q" "clock (created cd p d) = clock d"
  by (simp_all add: created_def usable_def)

lemma created_file: "\<exists>raw m. files (created cd p d) p = Some (raw, m)"
  by (simp add: created_def)

lemma created_current:
  assumes "file_current cd a (clock d) (files d p)"
  shows "file_current cd a (clock d) (files (created cd p d) p)"
  using assms by (simp add: created_def file_current_def)

lemma proc_current_created:
  assumes "proc_current cd a (files d p) p ws"
  shows "proc_current cd a (files (created cd p d) p) p ws"
  using assms by (cases "files d p"; cases ws; cases "snd ws") (simp_all add: created_def proc_current_def)

text \<open>Locking brings the vault up to date.\<close>

lemma lock_current:
  assumes "usable d p" and "file_current cd a (clock d) (files d p)"
    and "proc_current cd a (files d p) p (w, FileStore fs)"
  obtains sync where "lock cd writing (w, FileStore fs, d) =
      Some (a, FileStore (fs\<lparr>fs_file := Some (p, writing), fs_sync_time := sync\<rparr>), created cd p d)"
    and "proc_current cd a (files (created cd p d) p) p (a, FileStore (fs\<lparr>fs_sync_time := sync\<rparr>))"
proof -
  obtain raw m where f: "files (created cd p d) p = Some (raw, m)"
    using created_file [of cd p d] by auto
  have fc: "file_current cd a (clock d) (Some (raw, m))"
    using created_current [OF assms(2)] by (simp add: f)
  have pc: "proc_current cd a (Some (raw, m)) p (w, FileStore fs)"
    using proc_current_created [OF assms(3)] by (simp add: f)
  have op: "open_file cd fs d = Some (p, created cd p d)" and cr: "can_read (created cd p d) p"
    using assms(1) pc by (auto simp: open_file_usable proc_current_def created_def usable_def)
  show ?thesis
  proof (cases "raw = no_bytes cd")
    case True
    then show ?thesis
      using pc that [of None]
      by (auto simp: lock_def store_load_def file_load_def op f cr mtime_duration_def proc_current_def)
  next
    case False
    note des = fc [unfolded file_current_def, simplified, THEN conjunct2, rule_format, OF False]
    have wa: "with_cache (cache_of a) w = a"
      using pc by (auto simp: vault_eq_iff proc_current_def)
    show ?thesis
    proof (cases "mtime_duration (fs_sync_time fs) m > 0")
      case True
      with False pc wa show ?thesis
        using that [of "Some m"]
        by (auto simp: lock_def store_load_def file_load_def op f cr des proc_current_def)
    next
      case synced: False
      then obtain t where "fs_sync_time fs = Some t" "m \<le> t"
        by (cases "fs_sync_time fs") (auto simp: mtime_duration_def)
      with False pc have "t = m" "w = a"
        by (auto simp: proc_current_def)
      with synced False pc show ?thesis
        using that [of "fs_sync_time fs"]
        by (auto simp: lock_def store_load_def file_load_def op f proc_current_def)
    qed
  qed
qed

lemma proc_current_older:
  assumes "proc_current cd a f p ws" and "file_current cd a now f" and "now < m"
    and "raw \<noteq> no_bytes cd" and "vault_config a' = vault_config a"
  shows "proc_current cd a' (Some (raw, m)) p ws"
  using assms
  by (cases ws; cases "snd ws"; cases f) (auto simp: proc_current_def file_current_def split: option.splits if_splits)

lemma proc_current_same_vault:
  "proc_current cd a f p (w, FileStore fs) \<Longrightarrow> fs_file fs = None"
  by (simp add: proc_current_def)

text \<open>One access: the same answer as the single vault gives, and the invariant for its new state.\<close>

lemma guarded_current:
  assumes laws: "codec_laws cd" and us: "usable d p"
    and fc: "file_current cd a now (files d p)" and "now < clock d"
    and pc: "proc_current cd a (files d p) p (w, s)"
    and act: "act a = Some (r, a')" "vault_config a' = vault_config a" "\<not> writing \<longrightarrow> a' = a"
  obtains s' d' where "guarded cd writing act (w, s, d) = Some (r, a', s', d')"
    and "usable d' p" "clock d' = clock d" "file_current cd a' (clock d) (files d' p)"
    and "proc_current cd a' (files d' p) p (a', s')"
    and "\<forall>ws. proc_current cd a (files d p) p ws \<longrightarrow> proc_current cd a' (files d' p) p ws"
proof -
  obtain fs where s: "s = FileStore fs" and fs: "fs_file fs = None" "fs_path fs = Some p"
    using pc by (auto simp: proc_current_def split: store.splits)
  have fc': "file_current cd a (clock d) (files d p)"
    using fc \<open>now < clock d\<close> by (auto simp: file_current_def split: option.splits)
  obtain sync where lck: "lock cd writing (w, FileStore fs, d) =
        Some (a, FileStore (fs\<lparr>fs_file := Some (p, writing), fs_sync_time := sync\<rparr>), created cd p d)"
      and pc': "proc_current cd a (files (created cd p d) p) p (a, FileStore (fs\<lparr>fs_sync_time := sync\<rparr>))"
    using lock_current [OF us fc' pc [unfolded s]] .
  show ?thesis
  proof (cases writing)
    case True
    obtain raw where raw: "serialize cd (cache_of a') = Some raw" "raw \<noteq> no_bytes cd"
        "deserialize cd raw = Some (cache_of a')"
      using laws by (auto simp: codec_laws_def)
    show ?thesis
    proof (rule that)
      show "guarded cd writing act (w, s, d) = Some (r, a',
          FileStore (fs\<lparr>fs_file := None, fs_sync_time := Some (clock d)\<rparr>),
          (created cd p d)\<lparr>files := (files (created cd p d))(p \<mapsto> (raw, clock d))\<rparr>)"
        using True us lck act by (simp add: guarded_def s drop_guard_def store_save_def file_save_def raw
            usable_def created_def)
    qed (use us raw fs act proc_current_older [OF _ fc \<open>now < clock d\<close> raw(2) act(2)]
          in \<open>auto simp: usable_def created_def file_current_def proc_current_def\<close>)
  next
    case False
    have [simp]: "fs\<lparr>fs_sync_time := sync, fs_file := None\<rparr> = fs\<lparr>fs_sync_time := sync\<rparr>"
      using fs by (cases fs) simp
    have a': "a' = a" using False act by simp
    show ?thesis
    proof (rule that)
      show "guarded cd writing act (w, s, d) = Some (r, a', FileStore (fs\<lparr>fs_sync_time := sync\<rparr>), created cd p d)"
        using False act lck by (simp add: guarded_def s drop_guard_def store_save_def file_save_def)
    qed (use us created_current [OF fc'] pc' a' in \<open>auto intro: proc_current_created\<close>)
  qed
qed

lemma guarded_panics:
  assumes "usable d p" and "file_current cd a (clock d) (files d p)"
    and "proc_current cd a (files d p) p (w, s)" and "act a = None"
  shows "guarded cd writing act (w, s, d) = None"
proof -
  obtain fs where s: "s = FileStore fs"
    using assms(3) by (auto simp: proc_current_def split: store.splits)
  obtain st where "lock cd writing (w, FileStore fs, d) = Some (a, st)"
    using lock_current [OF assms(1,2) assms(3) [unfolded s]] by blast
  with assms(4) show ?thesis
    by (cases st) (simp add: guarded_def s)
qed

lemma access_step_refines:
  assumes "codec_laws cd" and inv: "shared_inv cd p a (procs, d)" and "access_ok x"
  shows "case acc_act x a of
      None \<Rightarrow> access_step cd x (procs, d) = None
    | Some (r, a') \<Rightarrow> \<exists>st'. access_step cd x (procs, d) = Some (r, st') \<and> shared_inv cd p a' st'"
proof -
  define d0 where "d0 = d\<lparr>clock := clock d + acc_elapsed x\<rparr>"
  obtain w s where ws: "procs (acc_proc x) = (w, s)"
    by (cases "procs (acc_proc x)")
  have us: "usable d0 p" and fc: "file_current cd a (clock d) (files d0 p)" and lt: "clock d < clock d0"
    and pc: "proc_current cd a (files d0 p) p (procs i)" for i
    using inv \<open>access_ok x\<close> by (auto simp: shared_inv_def d0_def usable_def access_ok_def)
  have fc0: "file_current cd a (clock d0) (files d0 p)"
    using fc lt by (auto simp: file_current_def split: option.splits)
  note pw = pc [of "acc_proc x", unfolded ws]
  show ?thesis
  proof (cases "acc_act x a")
    case None
    then show ?thesis
      using guarded_panics [OF us fc0 pw, of "acc_act x"] None by (simp add: access_step_def ws d0_def)
  next
    case (Some ra)
    then obtain r a' where act: "acc_act x a = Some (r, a')"
      by (cases ra) simp
    then have ok: "vault_config a' = vault_config a" "\<not> acc_writing x \<longrightarrow> a' = a"
      using \<open>access_ok x\<close> by (auto simp: access_ok_def)
    obtain s' d' where g: "guarded cd (acc_writing x) (acc_act x) (w, s, d0) = Some (r, a', s', d')"
      and post: "usable d' p" "clock d' = clock d0" "file_current cd a' (clock d0) (files d' p)"
        "proc_current cd a' (files d' p) p (a', s')"
      and others: "\<forall>ws. proc_current cd a (files d0 p) p ws \<longrightarrow> proc_current cd a' (files d' p) p ws"
      using guarded_current [where act = "acc_act x", OF assms(1) us fc lt pw act ok] .
    have "access_step cd x (procs, d) = Some (r, procs(acc_proc x := (a', s')), d')"
      using g by (simp add: access_step_def ws d0_def)
    moreover have "shared_inv cd p a' (procs(acc_proc x := (a', s')), d')"
      using post others [rule_format, OF pc] by (simp add: shared_inv_def)
    ultimately show ?thesis
      by (simp add: act)
  qed
qed

lemma run_shared_refines:
  assumes "codec_laws cd" and "shared_inv cd p a st" and "\<forall>x \<in> set xs. access_ok x"
  shows "map_option fst (run_shared cd xs st) = map_option fst (run_single xs a)"
  using assms(2,3)
proof (induction xs arbitrary: a st)
  case (Cons x xs)
  obtain procs d where st: "st = (procs, d)"
    by (cases st)
  note step = access_step_refines [OF assms(1) Cons.prems(1) [unfolded st], of x]
  show ?case
  proof (cases "acc_act x a")
    case None
    with step Cons.prems show ?thesis
      by (simp add: st)
  next
    case (Some ra)
    then obtain r a' where act: "acc_act x a = Some (r, a')"
      by (cases ra) simp
    with step Cons.prems obtain st' where "access_step cd x st = Some (r, st')" "shared_inv cd p a' st'"
      by (auto simp: st)
    with act Cons.IH [of a' st'] Cons.prems show ?thesis
      by (cases "run_shared cd xs st'"; cases "run_single xs a'") auto
  qed
qed simp

end
