(* ===== verification/Vault_Requests.thy ===== *)
theory Vault_Requests
  imports Mock_Vault
begin

section \<open>The request handler of the mock vault\<close>

text \<open>
  \<open>Vault::process_request\<close> of \<^verbatim>\<open>safe_core/src/client/mock/vault.rs\<close>: authentication of the requester
  and one definition per arm of the match over the request, composed in \<open>handle_request\<close> and
  \<open>process_request\<close> the way the code composes them. Index arithmetic on \<open>u64\<close> wraps, as in a
  release build.
\<close>

type_synonym reply = "vault \<Rightarrow> (response \<times> vault) option"

definition respond :: "('a snd_result \<Rightarrow> response) \<Rightarrow> 'a vm \<Rightarrow> reply" where
  "respond c m = (\<lambda>v. case m v of None \<Rightarrow> None | Some (r, v') \<Rightarrow> Some (c r, v'))"

subsection \<open>Authentication\<close>

definition authenticate ::
  "safe_nd \<Rightarrow> public_id \<Rightarrow> request \<Rightarrow> message_id \<Rightarrow> signature option \<Rightarrow> vault \<Rightarrow>
     (public_key \<times> public_key) snd_result" where
  "authenticate nd requester request message_id sig v =
     res_and_then
       (case requester of
          App a \<Rightarrow> Ok (True, app_public_key nd a, client_public_key nd (app_owner nd a))
        | Client c \<Rightarrow> Ok (False, client_public_key nd c, client_public_key nd c)
        | Node n \<Rightarrow> Err AccessDenied)
       (\<lambda>(is_app, requester_pk, owner_pk).
          res_and_then
            (if get_type nd request = PublicGet then Ok ()
             else
               let auth_keys = (case get_account v (public_id_name nd requester) of
                     None \<Rightarrow> Map.empty | Some account \<Rightarrow> acc_auth_keys account)
               in if is_app \<and> auth_keys requester_pk = None then Err AccessDenied
                  else (case sig of
                      Some s \<Rightarrow> verify_signature nd s requester_pk request message_id
                    | None \<Rightarrow> Err InvalidSignature))
            (\<lambda>_. Ok (requester_pk, owner_pk)))"

subsection \<open>Immutable data\<close>

definition req_get_idata :: "safe_nd \<Rightarrow> public_key \<Rightarrow> idata_address \<Rightarrow> reply" where
  "req_get_idata nd requester_pk address = respond RespGetIData
     (and_then (get_idata address) (\<lambda>d. lift_res (case d of
        IUnpub u \<Rightarrow> if unpub_idata_owner nd u = requester_pk then Ok d else Err AccessDenied
      | IPub _ \<Rightarrow> Ok d)))"

definition req_put_idata :: "safe_nd \<Rightarrow> public_id \<Rightarrow> public_key \<Rightarrow> idata \<Rightarrow> reply" where
  "req_put_idata nd requester owner_pk d = respond RespMutation
     (let errored = (case d of IUnpub u \<Rightarrow> owner_pk \<noteq> unpub_idata_owner nd u | IPub _ \<Rightarrow> False)
      in if errored then lift_res (Err InvalidOwners)
         else put_data nd (IdImmutable (idata_addr nd d)) (Immutable d) requester)"

definition req_delete_unpub_idata :: "safe_nd \<Rightarrow> public_key \<Rightarrow> idata_address \<Rightarrow> reply" where
  "req_delete_unpub_idata nd requester_pk address =
     respond RespMutation (delete_idata nd address requester_pk)"

subsection \<open>Authorised keys\<close>

definition req_list_auth_keys_and_version ::
  "safe_nd \<Rightarrow> public_id \<Rightarrow> public_key \<Rightarrow> public_key \<Rightarrow> reply" where
  "req_list_auth_keys_and_version nd requester requester_pk owner_pk =
     respond RespListAuthKeysAndVersion
       (if owner_pk \<noteq> requester_pk then lift_res (Err AccessDenied)
        else list_auth_keys_and_version (public_id_name nd requester))"

definition req_ins_auth_key ::
  "safe_nd \<Rightarrow> public_id \<Rightarrow> public_key \<Rightarrow> public_key \<Rightarrow> public_key \<Rightarrow> app_permissions \<Rightarrow> u64 \<Rightarrow> reply" where
  "req_ins_auth_key nd requester requester_pk owner_pk key permissions version =
     respond RespMutation
       (if owner_pk \<noteq> requester_pk then lift_res (Err AccessDenied)
        else ins_auth_key (public_id_name nd requester) key permissions version)"

definition req_del_auth_key ::
  "safe_nd \<Rightarrow> public_id \<Rightarrow> public_key \<Rightarrow> public_key \<Rightarrow> public_key \<Rightarrow> u64 \<Rightarrow> reply" where
  "req_del_auth_key nd requester requester_pk owner_pk key version =
     respond RespMutation
       (if owner_pk \<noteq> requester_pk then lift_res (Err AccessDenied)
        else del_auth_key (public_id_name nd requester) key version)"

subsection \<open>Coins\<close>

definition req_transfer_coins ::
  "safe_nd \<Rightarrow> public_key \<Rightarrow> public_key \<Rightarrow> xor_name \<Rightarrow> coins \<Rightarrow> u64 \<Rightarrow> reply" where
  "req_transfer_coins nd requester_pk owner_pk destination amount transaction_id =
     respond RespTransaction
       (let source = xor_name_of_pk nd owner_pk in
        if amount = 0 then lift_res (Err InvalidOperation)
        else and_then (gets (authorise_operations nd [OpTransferCoins] source requester_pk))
               (\<lambda>_. transfer_coins nd source destination amount transaction_id))"

text \<open>
  The operations that creating a balance or a login packet for someone else must be authorised for:
  \<open>unwrap!(Coins::from_str("0"))\<close> may panic.
\<close>

definition required_operations :: "safe_nd \<Rightarrow> coins \<Rightarrow> operation list vm" where
  "required_operations nd amount = (case coins_from_str nd ''0'' of
     Err e \<Rightarrow> panic
   | Ok zero \<Rightarrow>
       lift_res (Ok (if amount = zero then [OpMutation, OpTransferCoins] else [OpMutation])))"

text \<open>The part that \<open>CreateBalance\<close> and \<open>CreateLoginPacketFor\<close> have in common.\<close>

definition fund_new_balance ::
  "safe_nd \<Rightarrow> xor_name \<Rightarrow> xor_name \<Rightarrow> public_key \<Rightarrow> coins \<Rightarrow> u64 \<Rightarrow> transaction vm" where
  "fund_new_balance nd source destination new_owner amount transaction_id =
     and_then (gets (\<lambda>v. get_balance v source)) (\<lambda>source_balance.
     and_then
       (\<lambda>v. case checked_add nd amount COST_OF_PUT of
          None \<Rightarrow> Some (Err ExcessiveValue, v)
        | Some total_amount \<Rightarrow>
            (if \<not> has_sufficient_balance nd v source_balance total_amount
             then Some (Err InsufficientBalance, v)
             else create_balance nd destination new_owner v))
       (\<lambda>_. and_then (commit_mutation nd source)
         (\<lambda>_. transfer_coins nd source destination amount transaction_id)))"

definition req_create_balance ::
  "safe_nd \<Rightarrow> public_key \<Rightarrow> public_key \<Rightarrow> public_key \<Rightarrow> coins \<Rightarrow> u64 \<Rightarrow> reply" where
  "req_create_balance nd requester_pk owner_pk new_balance_owner amount transaction_id =
     respond RespTransaction
       (let source = xor_name_of_pk nd owner_pk;
            destination = xor_name_of_pk nd new_balance_owner
        in if source = destination then
             (\<lambda>v. Some (Ok (Transaction transaction_id amount),
                        mock_create_balance nd new_balance_owner amount v))
           else
             and_then (required_operations nd amount) (\<lambda>req_perms.
             and_then (gets (authorise_operations nd req_perms source requester_pk)) (\<lambda>_.
               fund_new_balance nd source destination new_balance_owner amount transaction_id)))"

definition req_get_balance :: "safe_nd \<Rightarrow> public_key \<Rightarrow> public_key \<Rightarrow> reply" where
  "req_get_balance nd requester_pk owner_pk = respond RespGetBalance
     (let coin_balance_id = xor_name_of_pk nd owner_pk in
      and_then (gets (authorise_operations nd [OpGetBalance] coin_balance_id requester_pk))
        (\<lambda>_. gets (\<lambda>v. get_balance v coin_balance_id)))"

subsection \<open>Login packets\<close>

definition req_create_login_packet_for ::
  "safe_nd \<Rightarrow> public_key \<Rightarrow> public_key \<Rightarrow> public_key \<Rightarrow> coins \<Rightarrow> u64 \<Rightarrow> login_packet \<Rightarrow> reply" where
  "req_create_login_packet_for nd requester_pk owner_pk new_owner amount transaction_id new_login_packet =
     respond RespTransaction
       (let source = xor_name_of_pk nd owner_pk;
            new_balance_dest = xor_name_of_pk nd new_owner
        in and_then (required_operations nd amount) (\<lambda>req_perms.
           and_then (gets (authorise_operations nd req_perms source requester_pk)) (\<lambda>_.
           and_then (fund_new_balance nd source new_balance_dest new_owner amount transaction_id) (\<lambda>_ v.
             if get_login_packet v (lp_destination nd new_login_packet) \<noteq> None
             then Some (Err LoginPacketExists, v)
             else Some (Ok (Transaction transaction_id amount),
                        insert_login_packet nd new_login_packet v)))))"

definition req_create_login_packet ::
  "safe_nd \<Rightarrow> public_key \<Rightarrow> public_key \<Rightarrow> login_packet \<Rightarrow> reply" where
  "req_create_login_packet nd requester_pk owner_pk account_data = respond RespMutation
     (let source = xor_name_of_pk nd owner_pk in
      and_then (gets (authorise_operations nd [OpMutation] source requester_pk)) (\<lambda>_.
      and_then (gets (\<lambda>v. if get_login_packet v (lp_destination nd account_data) \<noteq> None
                 then Err LoginPacketExists else Ok ())) (\<lambda>_.
      and_then (gets (\<lambda>v. get_balance v source)) (\<lambda>source_balance.
      and_then (\<lambda>v. if \<not> has_sufficient_balance nd v source_balance COST_OF_PUT
                 then Some (Err InsufficientBalance, v)
                 else commit_mutation nd source v) (\<lambda>_.
        modify (insert_login_packet nd account_data))))))"

definition req_get_login_packet :: "safe_nd \<Rightarrow> public_key \<Rightarrow> xor_name \<Rightarrow> reply" where
  "req_get_login_packet nd requester_pk location = respond RespGetLoginPacket
     (gets (\<lambda>v. case get_login_packet v location of
        None \<Rightarrow> Err NoSuchLoginPacket
      | Some packet \<Rightarrow>
          (if lp_authorised_getter nd packet = requester_pk
           then Ok (lp_data nd packet, lp_signature nd packet) else Err AccessDenied)))"

definition req_update_login_packet :: "safe_nd \<Rightarrow> public_key \<Rightarrow> login_packet \<Rightarrow> reply" where
  "req_update_login_packet nd requester_pk new_packet = respond RespMutation
     (\<lambda>v. case get_login_packet v (lp_destination nd new_packet) of
        Some old_packet \<Rightarrow>
          (if lp_authorised_getter nd old_packet = requester_pk
           then Some (Ok (), insert_login_packet nd new_packet v)
           else Some (Err AccessDenied, v))
      | None \<Rightarrow> Some (Err NoSuchLoginPacket, v))"

subsection \<open>Mutable data\<close>

text \<open>The guard every arm on whole mutable data starts with: the stored object is the one asked for.\<close>

definition checked_mdata :: "safe_nd \<Rightarrow> mdata_address \<Rightarrow> public_key \<Rightarrow> request \<Rightarrow> mdata vm" where
  "checked_mdata nd address requester_pk request =
     and_then (get_mdata nd address requester_pk request) (\<lambda>d.
       lift_res (if address \<noteq> md_address nd d then Err NoSuchData else Ok d))"

definition req_get_mdata :: "safe_nd \<Rightarrow> public_key \<Rightarrow> request \<Rightarrow> mdata_address \<Rightarrow> reply" where
  "req_get_mdata nd requester_pk request address =
     respond RespGetMData (checked_mdata nd address requester_pk request)"

definition req_put_mdata :: "safe_nd \<Rightarrow> public_id \<Rightarrow> public_key \<Rightarrow> mdata \<Rightarrow> reply" where
  "req_put_mdata nd requester owner_pk d = respond RespMutation
     (if md_owner nd d \<noteq> owner_pk then lift_res (Err InvalidOwners)
      else put_data nd (IdMutable (md_address nd d)) (Mutable d) requester)"

definition req_get_mdata_value ::
  "safe_nd \<Rightarrow> public_key \<Rightarrow> request \<Rightarrow> mdata_address \<Rightarrow> bytes \<Rightarrow> reply" where
  "req_get_mdata_value nd requester_pk request address key = respond RespGetMDataValue
     (and_then (get_mdata nd address requester_pk request) (\<lambda>d. lift_res
        (case (md_kind address, d) of
           (MKindSeq, MSeq m) \<Rightarrow> res_map SeqValue (ok_or NoSuchEntry (seq_get nd m key))
         | (MKindUnseq, MUnseq m) \<Rightarrow> res_map UnseqValue (ok_or NoSuchEntry (unseq_get nd m key))
         | _ \<Rightarrow> Err NoSuchData)))"

definition req_get_mdata_shell :: "safe_nd \<Rightarrow> public_key \<Rightarrow> request \<Rightarrow> mdata_address \<Rightarrow> reply" where
  "req_get_mdata_shell nd requester_pk request address = respond RespGetMDataShell
     (map_prog (md_shell nd) (checked_mdata nd address requester_pk request))"

definition req_get_mdata_version :: "safe_nd \<Rightarrow> public_key \<Rightarrow> request \<Rightarrow> mdata_address \<Rightarrow> reply" where
  "req_get_mdata_version nd requester_pk request address = respond RespGetMDataVersion
     (map_prog (md_version nd) (checked_mdata nd address requester_pk request))"

definition req_list_mdata_entries :: "safe_nd \<Rightarrow> public_key \<Rightarrow> request \<Rightarrow> mdata_address \<Rightarrow> reply" where
  "req_list_mdata_entries nd requester_pk request address = respond RespListMDataEntries
     (and_then (get_mdata nd address requester_pk request) (\<lambda>d. lift_res
        (case (md_kind address, d) of
           (MKindSeq, MSeq m) \<Rightarrow> Ok (SeqEntries (seq_entries nd m))
         | (MKindUnseq, MUnseq m) \<Rightarrow> Ok (UnseqEntries (unseq_entries nd m))
         | _ \<Rightarrow> Err NoSuchData)))"

definition req_list_mdata_keys :: "safe_nd \<Rightarrow> public_key \<Rightarrow> request \<Rightarrow> mdata_address \<Rightarrow> reply" where
  "req_list_mdata_keys nd requester_pk request address = respond RespListMDataKeys
     (map_prog (md_keys nd) (checked_mdata nd address requester_pk request))"

definition req_list_mdata_values :: "safe_nd \<Rightarrow> public_key \<Rightarrow> request \<Rightarrow> mdata_address \<Rightarrow> reply" where
  "req_list_mdata_values nd requester_pk request address = respond RespListMDataValues
     (and_then (get_mdata nd address requester_pk request) (\<lambda>d. lift_res
        (case (md_kind address, d) of
           (MKindSeq, MSeq m) \<Rightarrow> Ok (SeqValues (seq_values nd m))
         | (MKindUnseq, MUnseq m) \<Rightarrow> Ok (UnseqValues (unseq_values nd m))
         | _ \<Rightarrow> Err NoSuchData)))"

definition req_delete_mdata ::
  "safe_nd \<Rightarrow> public_id \<Rightarrow> public_key \<Rightarrow> request \<Rightarrow> mdata_address \<Rightarrow> reply" where
  "req_delete_mdata nd requester requester_pk request address = respond RespMutation
     (and_then (checked_mdata nd address requester_pk request) (\<lambda>d v.
        case requester of
          Client c \<Rightarrow>
            (if client_public_key nd c = md_owner nd d
             then Some (Ok (), delete_data (IdMutable address) v)
             else Some (Err InvalidOwners, v))
        | _ \<Rightarrow> Some (Err AccessDenied, v)))"

text \<open>
  The tail shared by the arms that rewrite a mutable data object: apply the change to a copy, store
  the copy, pay for it.
\<close>

definition rewrite_mdata ::
  "safe_nd \<Rightarrow> public_id \<Rightarrow> mdata_address \<Rightarrow> mdata snd_result \<Rightarrow> unit vm" where
  "rewrite_mdata nd requester address changed =
     and_then (lift_res changed) (\<lambda>d.
     and_then (modify (insert_data (IdMutable address) (Mutable d))) (\<lambda>_.
       commit_mutation nd (public_id_name nd requester)))"

definition req_set_mdata_user_permissions ::
  "safe_nd \<Rightarrow> public_id \<Rightarrow> public_key \<Rightarrow> request \<Rightarrow> mdata_address \<Rightarrow> public_key \<Rightarrow> perm_set \<Rightarrow> u64 \<Rightarrow> reply" where
  "req_set_mdata_user_permissions nd requester requester_pk request address user permissions version =
     respond RespMutation
       (and_then (checked_mdata nd address requester_pk request) (\<lambda>d.
          rewrite_mdata nd requester address (md_set_user_permissions nd d user permissions version)))"

definition req_del_mdata_user_permissions ::
  "safe_nd \<Rightarrow> public_id \<Rightarrow> public_key \<Rightarrow> request \<Rightarrow> mdata_address \<Rightarrow> public_key \<Rightarrow> u64 \<Rightarrow> reply" where
  "req_del_mdata_user_permissions nd requester requester_pk request address user version =
     respond RespMutation
       (and_then (checked_mdata nd address requester_pk request) (\<lambda>d.
          rewrite_mdata nd requester address (md_del_user_permissions nd d user version)))"

definition req_list_mdata_user_permissions ::
  "safe_nd \<Rightarrow> public_key \<Rightarrow> request \<Rightarrow> mdata_address \<Rightarrow> public_key \<Rightarrow> reply" where
  "req_list_mdata_user_permissions nd requester_pk request address user =
     respond RespListMDataUserPermissions
       (and_then (checked_mdata nd address requester_pk request) (\<lambda>d.
          lift_res (md_user_permissions nd d user)))"

definition req_list_mdata_permissions ::
  "safe_nd \<Rightarrow> public_key \<Rightarrow> request \<Rightarrow> mdata_address \<Rightarrow> reply" where
  "req_list_mdata_permissions nd requester_pk request address = respond RespListMDataPermissions
     (map_prog (md_permissions nd) (checked_mdata nd address requester_pk request))"

definition req_mutate_mdata_entries ::
  "safe_nd \<Rightarrow> public_id \<Rightarrow> public_key \<Rightarrow> request \<Rightarrow> mdata_address \<Rightarrow> mdata_entry_actions \<Rightarrow> reply" where
  "req_mutate_mdata_entries nd requester requester_pk request address actions = respond RespMutation
     (and_then (checked_mdata nd address requester_pk request) (\<lambda>d.
        rewrite_mdata nd requester address (md_mutate_entries nd d actions requester_pk)))"

subsection \<open>Append-only data\<close>

definition req_put_adata :: "safe_nd \<Rightarrow> public_id \<Rightarrow> public_key \<Rightarrow> adata \<Rightarrow> reply" where
  "req_put_adata nd requester owner_pk d = respond RespMutation
     (let owner_index = ad_owners_index nd d in
      (case ad_owner nd d (owner_index - 1) of
         Some key \<Rightarrow>
           (if ao_public_key key \<noteq> owner_pk then lift_res (Err InvalidOwners)
            else put_data nd (IdAppendOnly (ad_address nd d)) (AppendOnly d) requester)
       | None \<Rightarrow> lift_res (Err NoSuchEntry)))"

definition req_get_adata :: "safe_nd \<Rightarrow> public_key \<Rightarrow> request \<Rightarrow> adata_address \<Rightarrow> reply" where
  "req_get_adata nd requester_pk request address =
     respond RespGetAData (get_adata nd address requester_pk request)"

definition req_delete_adata :: "safe_nd \<Rightarrow> public_key \<Rightarrow> request \<Rightarrow> adata_address \<Rightarrow> reply" where
  "req_delete_adata nd requester_pk request address = respond RespMutation
     (and_then (get_adata nd address requester_pk request) (\<lambda>d.
        if adata_is_pub d then lift_res (Err InvalidOperation)
        else modify (delete_data (IdAppendOnly address))))"

fun resolve_index :: "u64 \<Rightarrow> adata_index \<Rightarrow> u64" where
  "resolve_index latest (FromStart index) = index"
| "resolve_index latest (FromEnd index) = latest - index"

definition req_get_adata_shell ::
  "safe_nd \<Rightarrow> public_key \<Rightarrow> request \<Rightarrow> adata_address \<Rightarrow> adata_index \<Rightarrow> reply" where
  "req_get_adata_shell nd requester_pk request address data_index = respond RespGetADataShell
     (and_then (get_adata nd address requester_pk request) (\<lambda>d.
        lift_res (ad_shell nd d (resolve_index (ad_permissions_index nd d) data_index))))"

definition req_get_adata_range ::
  "safe_nd \<Rightarrow> public_key \<Rightarrow> request \<Rightarrow> adata_address \<Rightarrow> adata_index \<times> adata_index \<Rightarrow> reply" where
  "req_get_adata_range nd requester_pk request address rng = respond RespGetADataRange
     (and_then (get_adata nd address requester_pk request) (\<lambda>d.
        lift_res (ok_or NoSuchEntry (ad_in_range nd d (fst rng) (snd rng)))))"

definition req_get_adata_value ::
  "safe_nd \<Rightarrow> public_key \<Rightarrow> request \<Rightarrow> adata_address \<Rightarrow> bytes \<Rightarrow> reply" where
  "req_get_adata_value nd requester_pk request address key = respond RespGetADataValue
     (and_then (get_adata nd address requester_pk request) (\<lambda>d.
        lift_res (ok_or NoSuchEntry (ad_get nd d key))))"

definition req_get_adata_indices :: "safe_nd \<Rightarrow> public_key \<Rightarrow> request \<Rightarrow> adata_address \<Rightarrow> reply" where
  "req_get_adata_indices nd requester_pk request address = respond RespGetADataIndices
     (and_then (get_adata nd address requester_pk request) (\<lambda>d. lift_res (ad_indices nd d)))"

definition req_get_adata_last_entry :: "safe_nd \<Rightarrow> public_key \<Rightarrow> request \<Rightarrow> adata_address \<Rightarrow> reply" where
  "req_get_adata_last_entry nd requester_pk request address = respond RespGetADataLastEntry
     (and_then (get_adata nd address requester_pk request) (\<lambda>d.
        lift_res (ok_or NoSuchEntry (ad_last_entry nd d))))"

definition req_get_adata_permissions ::
  "safe_nd \<Rightarrow> public_key \<Rightarrow> request \<Rightarrow> adata_address \<Rightarrow> adata_index \<Rightarrow> reply" where
  "req_get_adata_permissions nd requester_pk request address permissions_index =
     respond RespGetADataPermissions
       (and_then (get_adata nd address requester_pk request) (\<lambda>d. lift_res
          (if adata_addr_is_pub address \<and> adata_is_pub d
           then res_map PubPermissions (ad_pub_permissions nd d permissions_index)
           else if \<not> adata_addr_is_pub address \<and> \<not> adata_is_pub d
           then res_map UnpubPermissions (ad_unpub_permissions nd d permissions_index)
           else Err NoSuchData)))"

definition req_get_pub_adata_user_permissions ::
  "safe_nd \<Rightarrow> public_key \<Rightarrow> request \<Rightarrow> adata_address \<Rightarrow> adata_index \<Rightarrow> bytes \<Rightarrow> reply" where
  "req_get_pub_adata_user_permissions nd requester_pk request address permissions_index user =
     respond RespGetPubADataUserPermissions
       (and_then (get_adata nd address requester_pk request) (\<lambda>d.
          lift_res (ad_pub_user_permissions nd d user permissions_index)))"

definition req_get_unpub_adata_user_permissions ::
  "safe_nd \<Rightarrow> public_key \<Rightarrow> request \<Rightarrow> adata_address \<Rightarrow> adata_index \<Rightarrow> public_key \<Rightarrow> reply" where
  "req_get_unpub_adata_user_permissions nd requester_pk request address permissions_index public_key =
     respond RespGetUnpubADataUserPermissions
       (and_then (get_adata nd address requester_pk request) (\<lambda>d.
          lift_res (ad_unpub_user_permissions nd d public_key permissions_index)))"

text \<open>
  The tail shared by the arms that rewrite an append-only data object: apply the change to a copy,
  pay for it, store the copy under the request's address.
\<close>

definition rewrite_adata ::
  "safe_nd \<Rightarrow> public_id \<Rightarrow> adata_address \<Rightarrow> (bytes \<Rightarrow> adata) \<Rightarrow> bytes snd_result \<Rightarrow> unit vm" where
  "rewrite_adata nd requester address wrap changed =
     and_then (lift_res changed) (\<lambda>d.
     and_then (commit_mutation nd (public_id_name nd requester)) (\<lambda>_.
       modify (insert_data (IdAppendOnly address) (AppendOnly (wrap d)))))"

definition req_append_seq ::
  "safe_nd \<Rightarrow> public_id \<Rightarrow> public_key \<Rightarrow> request \<Rightarrow> adata_append \<Rightarrow> u64 \<Rightarrow> reply" where
  "req_append_seq nd requester requester_pk request operation index = respond RespMutation
     (and_then (get_adata nd (aa_address operation) requester_pk request) (\<lambda>data. case data of
        PubSeq d \<Rightarrow>
          rewrite_adata nd requester (aa_address operation) PubSeq (seq_append nd data (aa_values operation) index)
      | UnpubSeq d \<Rightarrow>
          rewrite_adata nd requester (aa_address operation) UnpubSeq (seq_append nd data (aa_values operation) index)
      | _ \<Rightarrow> lift_res (Err NoSuchData)))"

definition req_append_unseq ::
  "safe_nd \<Rightarrow> public_id \<Rightarrow> public_key \<Rightarrow> request \<Rightarrow> adata_append \<Rightarrow> reply" where
  "req_append_unseq nd requester requester_pk request operation = respond RespMutation
     (and_then (get_adata nd (aa_address operation) requester_pk request) (\<lambda>data. case data of
        PubUnseq d \<Rightarrow>
          rewrite_adata nd requester (aa_address operation) PubUnseq (unseq_append nd data (aa_values operation))
      | UnpubUnseq d \<Rightarrow>
          rewrite_adata nd requester (aa_address operation) UnpubUnseq (unseq_append nd data (aa_values operation))
      | _ \<Rightarrow> lift_res (Err NoSuchData)))"

definition req_add_pub_adata_permissions ::
  "safe_nd \<Rightarrow> public_id \<Rightarrow> public_key \<Rightarrow> request \<Rightarrow> adata_address \<Rightarrow> bytes \<Rightarrow> u64 \<Rightarrow> reply" where
  "req_add_pub_adata_permissions nd requester requester_pk request address permissions permissions_index =
     respond RespMutation
       (and_then (get_adata nd address requester_pk request) (\<lambda>data. case address of
          PubSeqAddr _ _ \<Rightarrow> (case data of
              PubSeq d \<Rightarrow> rewrite_adata nd requester address PubSeq
                (append_permissions nd data permissions permissions_index)
            | _ \<Rightarrow> lift_res (Err NoSuchData))
        | PubUnseqAddr _ _ \<Rightarrow> (case data of
              PubUnseq d \<Rightarrow> rewrite_adata nd requester address PubUnseq
                (append_permissions nd data permissions permissions_index)
            | _ \<Rightarrow> lift_res (Err NoSuchData))
        | _ \<Rightarrow> lift_res (Err AccessDenied)))"

definition req_add_unpub_adata_permissions ::
  "safe_nd \<Rightarrow> public_id \<Rightarrow> public_key \<Rightarrow> request \<Rightarrow> adata_address \<Rightarrow> bytes \<Rightarrow> u64 \<Rightarrow> reply" where
  "req_add_unpub_adata_permissions nd requester requester_pk request address permissions permissions_index =
     respond RespMutation
       (and_then (get_adata nd address requester_pk request) (\<lambda>data. case address of
          UnpubSeqAddr _ _ \<Rightarrow> (case data of
              UnpubSeq d \<Rightarrow> rewrite_adata nd requester address UnpubSeq
                (append_permissions nd data permissions permissions_index)
            | _ \<Rightarrow> lift_res (Err NoSuchData))
        | UnpubUnseqAddr _ _ \<Rightarrow> (case data of
              UnpubUnseq d \<Rightarrow> rewrite_adata nd requester address UnpubUnseq
                (append_permissions nd data permissions permissions_index)
            | _ \<Rightarrow> lift_res (Err NoSuchData))
        | _ \<Rightarrow> lift_res (Err AccessDenied)))"

definition req_set_adata_owner ::
  "safe_nd \<Rightarrow> public_id \<Rightarrow> public_key \<Rightarrow> request \<Rightarrow> adata_address \<Rightarrow> adata_owner \<Rightarrow> u64 \<Rightarrow> reply" where
  "req_set_adata_owner nd requester requester_pk request address owner owners_index =
     respond RespMutation
       (and_then (get_adata nd address requester_pk request) (\<lambda>data. case (address, data) of
          (PubSeqAddr _ _, PubSeq d) \<Rightarrow>
            rewrite_adata nd requester address PubSeq (append_owner nd data owner owners_index)
        | (PubUnseqAddr _ _, PubUnseq d) \<Rightarrow>
            rewrite_adata nd requester address PubUnseq (append_owner nd data owner owners_index)
        | (UnpubSeqAddr _ _, UnpubSeq d) \<Rightarrow>
            rewrite_adata nd requester address UnpubSeq (append_owner nd data owner owners_index)
        | (UnpubUnseqAddr _ _, UnpubUnseq d) \<Rightarrow>
            rewrite_adata nd requester address UnpubUnseq (append_owner nd data owner owners_index)
        | _ \<Rightarrow> lift_res (Err NoSuchData)))"

definition req_get_adata_owners ::
  "safe_nd \<Rightarrow> public_key \<Rightarrow> request \<Rightarrow> adata_address \<Rightarrow> adata_index \<Rightarrow> reply" where
  "req_get_adata_owners nd requester_pk request address owners_index = respond RespGetADataOwners
     (and_then (get_adata nd address requester_pk request) (\<lambda>d.
        lift_res (ok_or NoSuchEntry
          (ad_owner nd d (resolve_index (ad_owners_index nd d) owners_index)))))"

subsection \<open>Dispatch\<close>

definition handle_request ::
  "safe_nd \<Rightarrow> public_id \<Rightarrow> public_key \<Rightarrow> public_key \<Rightarrow> request \<Rightarrow> reply" where
  "handle_request nd requester rpk opk request = (case request of
     GetIData a \<Rightarrow> req_get_idata nd rpk a
   | PutIData d \<Rightarrow> req_put_idata nd requester opk d
   | DeleteUnpubIData a \<Rightarrow> req_delete_unpub_idata nd rpk a
   | ListAuthKeysAndVersion \<Rightarrow> req_list_auth_keys_and_version nd requester rpk opk
   | InsAuthKey k p ver \<Rightarrow> req_ins_auth_key nd requester rpk opk k p ver
   | DelAuthKey k ver \<Rightarrow> req_del_auth_key nd requester rpk opk k ver
   | TransferCoins dest amount tid \<Rightarrow> req_transfer_coins nd rpk opk dest amount tid
   | CreateBalance owner amount tid \<Rightarrow> req_create_balance nd rpk opk owner amount tid
   | GetBalance \<Rightarrow> req_get_balance nd rpk opk
   | CreateLoginPacketFor owner amount tid packet \<Rightarrow>
       req_create_login_packet_for nd rpk opk owner amount tid packet
   | CreateLoginPacket packet \<Rightarrow> req_create_login_packet nd rpk opk packet
   | GetLoginPacket loc \<Rightarrow> req_get_login_packet nd rpk loc
   | UpdateLoginPacket packet \<Rightarrow> req_update_login_packet nd rpk packet
   | GetMData a \<Rightarrow> req_get_mdata nd rpk request a
   | PutMData d \<Rightarrow> req_put_mdata nd requester opk d
   | GetMDataValue a key \<Rightarrow> req_get_mdata_value nd rpk request a key
   | GetMDataShell a \<Rightarrow> req_get_mdata_shell nd rpk request a
   | GetMDataVersion a \<Rightarrow> req_get_mdata_version nd rpk request a
   | ListMDataEntries a \<Rightarrow> req_list_mdata_entries nd rpk request a
   | ListMDataKeys a \<Rightarrow> req_list_mdata_keys nd rpk request a
   | ListMDataValues a \<Rightarrow> req_list_mdata_values nd rpk request a
   | DeleteMData a \<Rightarrow> req_delete_mdata nd requester rpk request a
   | SetMDataUserPermissions a user perms ver \<Rightarrow>
       req_set_mdata_user_permissions nd requester rpk request a user perms ver
   | DelMDataUserPermissions a user ver \<Rightarrow>
       req_del_mdata_user_permissions nd requester rpk request a user ver
   | ListMDataUserPermissions a user \<Rightarrow> req_list_mdata_user_permissions nd rpk request a user
   | ListMDataPermissions a \<Rightarrow> req_list_mdata_permissions nd rpk request a
   | MutateMDataEntries a acts \<Rightarrow> req_mutate_mdata_entries nd requester rpk request a acts
   | PutAData d \<Rightarrow> req_put_adata nd requester opk d
   | GetAData a \<Rightarrow> req_get_adata nd rpk request a
   | DeleteAData a \<Rightarrow> req_delete_adata nd rpk request a
   | GetADataShell a i \<Rightarrow> req_get_adata_shell nd rpk request a i
   | GetADataRange a r \<Rightarrow> req_get_adata_range nd rpk request a r
   | GetADataValue a key \<Rightarrow> req_get_adata_value nd rpk request a key
   | GetADataIndices a \<Rightarrow> req_get_adata_indices nd rpk request a
   | GetADataLastEntry a \<Rightarrow> req_get_adata_last_entry nd rpk request a
   | GetADataPermissions a i \<Rightarrow> req_get_adata_permissions nd rpk request a i
   | GetPubADataUserPermissions a i user \<Rightarrow>
       req_get_pub_adata_user_permissions nd rpk request a i user
   | GetUnpubADataUserPermissions a i pk \<Rightarrow>
       req_get_unpub_adata_user_permissions nd rpk request a i pk
   | AppendSeq ap i \<Rightarrow> req_append_seq nd requester rpk request ap i
   | AppendUnseq ap \<Rightarrow> req_append_unseq nd requester rpk request ap
   | AddPubADataPermissions a p i \<Rightarrow> req_add_pub_adata_permissions nd requester rpk request a p i
   | AddUnpubADataPermissions a p i \<Rightarrow> req_add_unpub_adata_permissions nd requester rpk request a p i
   | SetADataOwner a owner i \<Rightarrow> req_set_adata_owner nd requester rpk request a owner i
   | GetADataOwners a i \<Rightarrow> req_get_adata_owners nd rpk request a i)"

definition process_request :: "safe_nd \<Rightarrow> public_id \<Rightarrow> message \<Rightarrow> message vm" where
  "process_request nd requester message = (\<lambda>v. case message of
     MsgRequest request message_id sig \<Rightarrow>
       (case authenticate nd requester request message_id sig v of
          Err e \<Rightarrow> Some (Ok (MsgResponse (error_response nd request e) message_id), v)
        | Ok (requester_pk, owner_pk) \<Rightarrow>
            (case handle_request nd requester requester_pk owner_pk request v of
               None \<Rightarrow> None
             | Some (response, v') \<Rightarrow> Some (Ok (MsgResponse response message_id), v')))
   | _ \<Rightarrow> Some (Err (snd_error_from_str nd ''Unexpected Message type''), v))"

end
