(* ===== verification/Vault_Relations.thy ===== *)
theory Vault_Relations
  imports Vault_Requests
begin

section \<open>What every request to the vault keeps\<close>

text \<open>
  The request handler as a client of the vault's primitives. The locales \<open>vault_data_relation\<close> and,
  for the requests about the keys of accounts too, \<open>vault_relation\<close> list what
  a relation between the vault before and after has to satisfy for each primitive change of state,
  under the condition the handler establishes before it makes that change; their lemmas
  \<open>data_request_rel\<close> and \<open>handle_request_rel\<close> lift this to the arms of \<open>process_request\<close>. The relations of interest
  (well-formedness, permanence of published data, no creation of coins, ...) are interpretations.
\<close>

definition reply_keeps :: "(vault \<Rightarrow> vault \<Rightarrow> bool) \<Rightarrow> reply \<Rightarrow> bool" where
  "reply_keeps R m \<longleftrightarrow> (\<forall>v resp v'. m v = Some (resp, v') \<longrightarrow> R v v')"

lemma reply_keeps_respond: "keeps_rel R m \<Longrightarrow> reply_keeps R (respond c m)"
  by (auto simp: reply_keeps_def respond_def dest: keeps_relD split: option.splits prod.splits)

lemma reply_keepsD: "reply_keeps R m \<Longrightarrow> m v = Some (resp, v') \<Longrightarrow> R v v'"
  by (auto simp: reply_keeps_def)

lemma get_mdata_Ok:
  "get_mdata nd a pk req v = Some (Ok d, v') \<Longrightarrow>
     v' = v \<and> nae_manager v (IdMutable a) = Some (Mutable d) \<and> check_perms_mdata nd d req pk = Ok ()"
  by (auto simp: get_mdata_def get_data_def res_map_eq_Ok split: option.splits data.splits)

lemma get_mdata_state: "get_mdata nd a pk req v = Some (r, v') \<Longrightarrow> v' = v"
  by (auto simp: get_mdata_def)

lemma get_adata_Ok:
  "get_adata nd a pk req v = Some (Ok d, v') \<Longrightarrow>
     v' = v \<and> nae_manager v (IdAppendOnly a) = Some (AppendOnly d) \<and>
     check_perms_adata nd d req pk = Ok ()"
  by (auto simp: get_adata_def get_data_def res_map_eq_Ok split: option.splits data.splits)

lemma get_adata_state: "get_adata nd a pk req v = Some (r, v') \<Longrightarrow> v' = v"
  by (auto simp: get_adata_def)

lemma checked_mdata_Ok:
  "checked_mdata nd a pk req v = Some (Ok d, v') \<Longrightarrow>
     v' = v \<and> nae_manager v (IdMutable a) = Some (Mutable d) \<and>
     check_perms_mdata nd d req pk = Ok () \<and> md_address nd d = a"
  by (auto simp: checked_mdata_def elim!: and_then_Ok dest!: get_mdata_Ok split: if_splits)

lemma checked_mdata_state: "checked_mdata nd a pk req v = Some (r, v') \<Longrightarrow> v' = v"
  by (auto simp: checked_mdata_def elim!: and_then_Some dest!: get_mdata_state split: if_splits)

lemma commit_nae: "commit_mutation nd n v = Some (r, v') \<Longrightarrow> nae_manager v' = nae_manager v"
  by (auto simp: commit_mutation_def set_coin_balance_def split: if_splits option.splits sum.splits)

text \<open>The kind of object a data identifier stands for.\<close>

fun id_matches :: "safe_nd \<Rightarrow> data_id \<Rightarrow> data \<Rightarrow> bool" where
  "id_matches nd (IdImmutable a) (Immutable d) = (idata_addr nd d = a)"
| "id_matches nd (IdMutable a) (Mutable d) = True"
| "id_matches nd (IdAppendOnly a) (AppendOnly d) = True"
| "id_matches nd _ _ = False"

definition self_create :: "safe_nd \<Rightarrow> public_key \<Rightarrow> request \<Rightarrow> bool" where
  "self_create nd owner_pk request = (case request of
     CreateBalance owner _ _ \<Rightarrow> xor_name_of_pk nd owner_pk = xor_name_of_pk nd owner
   | _ \<Rightarrow> False)"

text \<open>The key a requester signs with: the one \<open>authenticate\<close> returns.\<close>

definition requester_key :: "safe_nd \<Rightarrow> public_id \<Rightarrow> public_key" where
  "requester_key nd requester = (case requester of
     App a \<Rightarrow> app_public_key nd a
   | Client c \<Rightarrow> client_public_key nd c
   | Node n \<Rightarrow> PublicKey [])"

lemma authenticate_key:
  "authenticate nd requester request mid sig v = Ok (rpk, opk) \<Longrightarrow> rpk = requester_key nd requester"
  by (auto simp: authenticate_def requester_key_def res_and_then_eq_Ok split: public_id.splits)

text \<open>The changes of one object that a requester with the key \<open>pk\<close> is allowed to make.\<close>

definition mdata_change :: "safe_nd \<Rightarrow> public_key \<Rightarrow> mdata \<Rightarrow> mdata \<Rightarrow> bool" where
  "mdata_change nd pk m m' \<longleftrightarrow>
     (md_check_permissions nd m ActManagePermissions pk = Ok () \<and>
       ((\<exists>user perms ver. md_set_user_permissions nd m user perms ver = Ok m') \<or>
        (\<exists>user ver. md_del_user_permissions nd m user ver = Ok m'))) \<or>
     (\<exists>acts. md_mutate_entries nd m acts pk = Ok m')"

definition adata_change :: "safe_nd \<Rightarrow> public_key \<Rightarrow> adata \<Rightarrow> adata \<Rightarrow> bool" where
  "adata_change nd pk x x' \<longleftrightarrow> adata_is_pub x' = adata_is_pub x \<and>
     (ad_check_permission nd x AActAppend pk = Ok () \<or>
      ad_check_permission nd x AActManagePermissions pk = Ok () \<or>
      ad_check_is_last_owner nd x pk = Ok ())"

text \<open>The requests about the keys of an account.\<close>

definition key_request :: "request \<Rightarrow> bool" where
  "key_request request = (case request of
     ListAuthKeysAndVersion \<Rightarrow> True
   | InsAuthKey _ _ _ \<Rightarrow> True
   | DelAuthKey _ _ \<Rightarrow> True
   | _ \<Rightarrow> False)"

locale vault_data_relation = state_relation R for R :: "vault \<Rightarrow> vault \<Rightarrow> bool" +
  fixes nd :: safe_nd and requester :: public_id
  assumes commit_rel: "keeps_rel R (commit_mutation nd n)"
    and transfer_rel: "keeps_rel R (transfer_coins nd src dst amount t)"
    and create_rel: "keeps_rel R (create_balance nd dst owner)"
    and packet_rel: "R v (insert_login_packet nd p v)"
    and insert_rel: "nae_manager v i = None \<Longrightarrow> id_matches nd i d \<Longrightarrow> R v (insert_data i d v)"
    and rewrite_mdata_rel: "nae_manager v (IdMutable a) = Some (Mutable m) \<Longrightarrow>
      mdata_change nd (requester_key nd requester) m m' \<Longrightarrow>
      R v (insert_data (IdMutable a) (Mutable m') v)"
    and rewrite_adata_rel: "nae_manager v (IdAppendOnly b) = Some (AppendOnly x) \<Longrightarrow>
      adata_change nd (requester_key nd requester) x x' \<Longrightarrow> R v (insert_data (IdAppendOnly b) (AppendOnly x') v)"
    and delete_idata_rel: "nae_manager v (IdImmutable c) = Some (Immutable (IUnpub u)) \<Longrightarrow>
      unpub_idata_owner nd u = requester_key nd requester \<Longrightarrow> R v (delete_data (IdImmutable c) v)"
    and delete_mdata_rel: "nae_manager v (IdMutable a) = Some (Mutable m) \<Longrightarrow>
      md_owner nd m = requester_key nd requester \<Longrightarrow> R v (delete_data (IdMutable a) v)"
    and delete_adata_rel: "nae_manager v (IdAppendOnly b) = Some (AppendOnly x) \<Longrightarrow>
      \<not> adata_is_pub x \<Longrightarrow> ad_check_is_last_owner nd x (requester_key nd requester) = Ok () \<Longrightarrow>
      R v (delete_data (IdAppendOnly b) v)"
begin

lemma rel_after_checked_mdata:
  assumes "\<And>d v r v'. nae_manager v (IdMutable a) = Some (Mutable d) \<Longrightarrow>
    check_perms_mdata nd d req pk = Ok () \<Longrightarrow> f d v = Some (r, v') \<Longrightarrow> R v v'"
  shows "keeps_rel R (and_then (checked_mdata nd a pk req) f)"
proof (rule keeps_relI)
  fix v r v' assume "and_then (checked_mdata nd a pk req) f v = Some (r, v')"
  then show "R v v'"
    by (cases rule: and_then_Some)
      (auto dest!: checked_mdata_state checked_mdata_Ok intro: refl assms)
qed

lemma rel_after_get_adata:
  assumes "\<And>d v r v'. nae_manager v (IdAppendOnly b) = Some (AppendOnly d) \<Longrightarrow>
    check_perms_adata nd d req pk = Ok () \<Longrightarrow> f d v = Some (r, v') \<Longrightarrow> R v v'"
  shows "keeps_rel R (and_then (get_adata nd b pk req) f)"
proof (rule keeps_relI)
  fix v r v' assume "and_then (get_adata nd b pk req) f v = Some (r, v')"
  then show "R v v'"
    by (cases rule: and_then_Some)
      (auto dest!: get_adata_state get_adata_Ok intro: refl assms)
qed

lemma rel_get_mdata: "keeps_rel R (get_mdata nd a pk req)"
  by (simp add: get_mdata_def rel_gets)

lemma rel_get_idata: "keeps_rel R (get_idata c)"
  by (simp add: get_idata_def rel_gets)

lemma rel_get_adata: "keeps_rel R (get_adata nd b pk req)"
  by (simp add: get_adata_def rel_gets)

lemma rel_checked_mdata: "keeps_rel R (checked_mdata nd a pk req)"
  unfolding checked_mdata_def by (intro rel_and_then rel_get_mdata rel_lift_res)

lemma rel_rewrite_mdata:
  assumes st: "nae_manager v (IdMutable a) = Some (Mutable m)"
    and ch: "\<And>m'. changed = Ok m' \<Longrightarrow> mdata_change nd (requester_key nd requester) m m'"
    and run: "rewrite_mdata nd req a changed v = Some (r, v')"
  shows "R v v'"
proof (cases changed)
  case (Inl e)
  with run show ?thesis
    by (auto simp: rewrite_mdata_def and_then_def intro: refl)
next
  case (Inr m')
  with run have "commit_mutation nd (public_id_name nd req)
      (insert_data (IdMutable a) (Mutable m') v) = Some (r, v')"
    by (simp add: rewrite_mdata_def and_then_def)
  then show ?thesis
    by (rule trans [OF rewrite_mdata_rel [OF st ch [OF Inr]] keeps_relD [OF commit_rel]])
qed

lemma rel_rewrite_adata:
  assumes st: "nae_manager v (IdAppendOnly b) = Some (AppendOnly x)"
    and wr: "\<And>d. adata_change nd (requester_key nd requester) x (wrap d)"
    and run: "rewrite_adata nd req b wrap changed v = Some (r, v')"
  shows "R v v'"
proof -
  have step: "R v (insert_data (IdAppendOnly b) (AppendOnly (wrap d)) w)"
    if c: "commit_mutation nd n v = Some (q, w)" for n q d w
    using c st by (intro trans [OF keeps_relD [OF commit_rel c] rewrite_adata_rel [OF _ wr]])
      (simp add: commit_nae)
  show ?thesis
    using run unfolding rewrite_adata_def
    by (auto elim!: and_then_Some intro: refl keeps_relD [OF commit_rel] step)
qed

lemma rel_put_data: "id_matches nd i d \<Longrightarrow> keeps_rel R (put_data nd i d who)"
  unfolding put_data_def
proof (intro rel_and_then rel_lift_res)
  fix nk assume m: "id_matches nd i d"
  show "keeps_rel R (case nk of (name, key) \<Rightarrow>
     and_then (gets (authorise_operations nd [OpMutation] name key))
      (\<lambda>_ v. if contains_data v i
            then case i of IdImmutable addr \<Rightarrow>
                     if idata_addr_is_pub addr then commit_mutation nd (public_id_name nd who) v
                     else Some (Err DataExists, v)
                 | _ \<Rightarrow> Some (Err DataExists, v)
            else commit_mutation nd (public_id_name nd who) (insert_data i d v)))"
    apply (cases nk, simp only: prod.case, intro rel_and_then rel_gets keeps_relI)
    apply (auto simp: contains_data_def intro: refl keeps_relD [OF commit_rel]
        trans [OF insert_rel [OF _ m] keeps_relD [OF commit_rel]]
        split: if_splits data_id.splits)
    done
qed

lemma rel_fund_new_balance: "keeps_rel R (fund_new_balance nd src dst owner amount t)"
  unfolding fund_new_balance_def
  by (intro rel_and_then rel_gets commit_rel transfer_rel)
    (auto intro!: keeps_relI refl dest: keeps_relD [OF create_rel] split: option.splits if_splits)

lemma rel_required_operations: "keeps_rel R (required_operations nd amount)"
  by (auto simp: required_operations_def rel_panic rel_lift_res split: sum.splits)

lemma rel_delete_idata: "keeps_rel R (delete_idata nd c (requester_key nd requester))"
  by (rule keeps_relI)
    (auto simp: delete_idata_def get_data_def refl delete_idata_rel
      split: option.splits data.splits idata.splits if_splits)

lemmas rel_arms = rel_and_then rel_gets rel_lift_res rel_get_idata rel_get_mdata rel_get_adata
  rel_checked_mdata rel_map_prog rel_put_data rel_fund_new_balance
  rel_required_operations rel_delete_idata transfer_rel commit_rel rel_panic

lemmas arm_defs = req_get_idata_def req_put_idata_def req_delete_unpub_idata_def
  req_transfer_coins_def req_get_balance_def req_get_mdata_def req_put_mdata_def
  req_get_mdata_value_def req_get_mdata_shell_def req_get_mdata_version_def
  req_list_mdata_entries_def req_list_mdata_keys_def req_list_mdata_values_def
  req_list_mdata_user_permissions_def req_list_mdata_permissions_def req_get_adata_def
  req_get_adata_shell_def req_get_adata_range_def req_get_adata_value_def
  req_get_adata_indices_def req_get_adata_last_entry_def req_get_adata_permissions_def
  req_get_pub_adata_user_permissions_def req_get_unpub_adata_user_permissions_def
  req_get_adata_owners_def req_get_login_packet_def

text \<open>The arms whose state changes all come from the primitives and from \<open>put_data\<close>.\<close>

lemma rel_arms_plain:
  "reply_keeps R (req_get_idata nd rpk c)"
  "reply_keeps R (req_put_idata nd requester opk d)"
  "reply_keeps R (req_delete_unpub_idata nd (requester_key nd requester) c)"
  "reply_keeps R (req_transfer_coins nd rpk opk dst amount tid)"
  "reply_keeps R (req_get_balance nd rpk opk)"
  "reply_keeps R (req_get_login_packet nd rpk dst)"
  "reply_keeps R (req_get_mdata nd rpk req a)"
  "reply_keeps R (req_put_mdata nd requester opk m)"
  "reply_keeps R (req_get_mdata_value nd rpk req a key)"
  "reply_keeps R (req_get_mdata_shell nd rpk req a)"
  "reply_keeps R (req_get_mdata_version nd rpk req a)"
  "reply_keeps R (req_list_mdata_entries nd rpk req a)"
  "reply_keeps R (req_list_mdata_keys nd rpk req a)"
  "reply_keeps R (req_list_mdata_values nd rpk req a)"
  "reply_keeps R (req_list_mdata_user_permissions nd rpk req a user)"
  "reply_keeps R (req_list_mdata_permissions nd rpk req a)"
  "reply_keeps R (req_get_adata nd rpk req b)"
  "reply_keeps R (req_get_adata_shell nd rpk req b ix)"
  "reply_keeps R (req_get_adata_range nd rpk req b rg)"
  "reply_keeps R (req_get_adata_value nd rpk req b key)"
  "reply_keeps R (req_get_adata_indices nd rpk req b)"
  "reply_keeps R (req_get_adata_last_entry nd rpk req b)"
  "reply_keeps R (req_get_adata_permissions nd rpk req b ix)"
  "reply_keeps R (req_get_pub_adata_user_permissions nd rpk req b ix usr)"
  "reply_keeps R (req_get_unpub_adata_user_permissions nd rpk req b ix pk)"
  "reply_keeps R (req_get_adata_owners nd rpk req b ix)"
  by (auto simp: arm_defs Let_def intro!: reply_keeps_respond rel_arms split: idata.splits)

lemma rel_put_adata: "reply_keeps R (req_put_adata nd requester opk d)"
  by (auto simp: req_put_adata_def Let_def intro!: reply_keeps_respond rel_arms split: option.splits)

lemma rel_create_balance:
  "xor_name_of_pk nd opk \<noteq> xor_name_of_pk nd owner \<Longrightarrow>
     reply_keeps R (req_create_balance nd rpk opk owner amount tid)"
  by (auto simp: req_create_balance_def Let_def intro!: reply_keeps_respond rel_arms)

lemma rel_pay_if_sufficient:
  "keeps_rel R (\<lambda>v. if \<not> has_sufficient_balance nd v bal x then Some (Err InsufficientBalance, v)
     else commit_mutation nd n v)"
  by (rule keeps_relI) (auto intro: refl dest: keeps_relD [OF commit_rel] split: if_splits)

lemma rel_insert_packet_if:
  "keeps_rel R (\<lambda>v. if P v then Some (e, v) else Some (r, insert_login_packet nd packet v))"
  by (rule keeps_relI) (auto intro: refl packet_rel split: if_splits)

lemma rel_create_login_packet:
  "reply_keeps R (req_create_login_packet_for nd rpk opk owner amount tid packet)"
  "reply_keeps R (req_create_login_packet nd rpk opk packet)"
  unfolding req_create_login_packet_for_def req_create_login_packet_def Let_def
  by (intro reply_keeps_respond rel_arms rel_modify packet_rel rel_pay_if_sufficient
      rel_insert_packet_if)+

lemma rel_update_login_packet: "reply_keeps R (req_update_login_packet nd rpk packet)"
  unfolding req_update_login_packet_def
  by (rule reply_keeps_respond, rule keeps_relI)
    (auto intro: refl packet_rel split: option.splits if_splits)

lemma rel_delete_mdata:
  "reply_keeps R (req_delete_mdata nd requester rpk req a)"
  unfolding req_delete_mdata_def
  by (intro reply_keeps_respond rel_after_checked_mdata)
    (auto intro: refl delete_mdata_rel simp: requester_key_def split: public_id.splits if_splits)

text \<open>The arms that change one object run the permission check for their own request.\<close>

lemma rel_change_mdata:
  fixes a user perms ver acts
  defines "rk \<equiv> requester_key nd requester"
  shows
  "reply_keeps R (req_set_mdata_user_permissions nd who rk
     (SetMDataUserPermissions a user perms ver) a user perms ver)"
  "reply_keeps R (req_del_mdata_user_permissions nd who rk
     (DelMDataUserPermissions a user ver) a user ver)"
  "reply_keeps R (req_mutate_mdata_entries nd who rk (MutateMDataEntries a acts) a acts)"
  unfolding req_set_mdata_user_permissions_def req_del_mdata_user_permissions_def
    req_mutate_mdata_entries_def rk_def
  by (auto intro!: reply_keeps_respond rel_after_checked_mdata elim!: rel_rewrite_mdata [rotated 2]
      simp: check_perms_mdata_def) (auto simp: mdata_change_def)

lemma rel_delete_adata:
  "reply_keeps R (req_delete_adata nd (requester_key nd requester) (DeleteAData b) b)"
  unfolding req_delete_adata_def
  by (intro reply_keeps_respond rel_after_get_adata)
    (auto intro: refl delete_adata_rel simp: check_perms_adata_def split: if_splits adata.splits)

lemma rel_change_adata:
  fixes b op ix perms owner
  defines "rk \<equiv> requester_key nd requester"
  shows
  "reply_keeps R (req_append_seq nd who rk (AppendSeq op ix) op ix)"
  "reply_keeps R (req_append_unseq nd who rk (AppendUnseq op) op)"
  "reply_keeps R (req_add_pub_adata_permissions nd who rk
     (AddPubADataPermissions b perms ix) b perms ix)"
  "reply_keeps R (req_add_unpub_adata_permissions nd who rk
     (AddUnpubADataPermissions b perms ix) b perms ix)"
  "reply_keeps R (req_set_adata_owner nd who rk (SetADataOwner b owner ix) b owner ix)"
  unfolding req_append_seq_def req_append_unseq_def req_add_pub_adata_permissions_def
    req_add_unpub_adata_permissions_def req_set_adata_owner_def rk_def
  by (auto intro!: reply_keeps_respond rel_after_get_adata intro: refl
      elim!: rel_rewrite_adata [rotated 2] simp: adata_change_def check_perms_adata_def
      split: adata.splits adata_address.splits)

lemmas handle_arms = rel_arms_plain rel_put_adata rel_create_login_packet
  rel_update_login_packet rel_delete_mdata
  rel_change_mdata rel_delete_adata rel_change_adata

lemma data_request_rel:
  assumes "\<not> self_create nd opk request" and "\<not> key_request request"
  shows "reply_keeps R (handle_request nd requester (requester_key nd requester) opk request)"
  using assms unfolding handle_request_def
  by (cases request) (simp_all add: handle_arms self_create_def key_request_def rel_create_balance)

end

text \<open>A relation that changes of accounts keep too.\<close>

locale vault_relation = vault_data_relation +
  assumes account_rel: "R v (set_account n acc v)"
begin

lemma rel_ensure_account: "R v (ensure_account n v)"
  by (simp add: ensure_account_def insert_account_def refl account_rel)

lemma rel_auth_keys:
  "keeps_rel R (list_auth_keys_and_version n)"
  "keeps_rel R (ins_auth_key n k p ver)"
  "keeps_rel R (del_auth_key n k ver)"
  by (auto intro!: keeps_relI rel_ensure_account trans [OF rel_ensure_account account_rel]
      simp: list_auth_keys_and_version_def ins_auth_key_def del_auth_key_def Let_def
      split: option.splits sum.splits)

lemma rel_key_arms:
  "reply_keeps R (req_list_auth_keys_and_version nd requester rpk opk)"
  "reply_keeps R (req_ins_auth_key nd requester rpk opk k p ver)"
  "reply_keeps R (req_del_auth_key nd requester rpk opk k ver)"
  by (auto simp: req_list_auth_keys_and_version_def req_ins_auth_key_def req_del_auth_key_def
      intro!: reply_keeps_respond rel_arms rel_auth_keys)

lemma handle_request_rel:
  assumes "\<not> self_create nd opk request"
  shows "reply_keeps R (handle_request nd requester (requester_key nd requester) opk request)"
proof (cases "key_request request")
  case True
  then show ?thesis
    by (cases request) (simp_all add: key_request_def handle_request_def rel_key_arms)
qed (rule data_request_rel [OF assms])

lemma authenticated_rel:
  assumes "process_request nd requester (MsgRequest request mid sig) v = Some (r, v')"
    and "\<And>rpk opk. authenticate nd requester request mid sig v = Ok (rpk, opk) \<Longrightarrow>
      \<not> self_create nd opk request"
  shows "R v v'"
proof (cases "authenticate nd requester request mid sig v")
  case (Inl e)
  with assms(1) show ?thesis
    by (auto simp: process_request_def intro: refl)
next
  case (Inr keys)
  then obtain opk where auth: "authenticate nd requester request mid sig v =
      Ok (requester_key nd requester, opk)"
    using authenticate_key by (cases keys) blast
  with assms(1) show ?thesis
    by (auto simp: process_request_def split: option.splits
        dest: reply_keepsD [OF handle_request_rel [OF assms(2) [OF auth]]])
qed

end

text \<open>A relation that setting one's own balance keeps too is kept by every message.\<close>

locale vault_relation_all = vault_relation +
  assumes mock_create_rel: "R v (mock_create_balance nd owner amount v)"
begin

lemma process_request_rel: "keeps_rel R (process_request nd requester message)"
proof (rule keeps_relI)
  fix v r v' assume run: "process_request nd requester message v = Some (r, v')"
  have self: "reply_keeps R (handle_request nd requester rpk opk request)"
    if sc: "self_create nd opk request" for rpk opk request
  proof -
    obtain owner amount tid where req: "request = CreateBalance owner amount tid"
      and eq: "xor_name_of_pk nd opk = xor_name_of_pk nd owner"
      using sc by (cases request) (auto simp: self_create_def)
    have "keeps_rel R ((\<lambda>v. Some (Ok (Transaction tid amount),
        mock_create_balance nd owner amount v)) :: transaction vm)"
      by (rule keeps_relI) (auto intro: mock_create_rel)
    then show ?thesis
      using eq by (simp add: req handle_request_def req_create_balance_def reply_keeps_respond)
  qed
  have all: "reply_keeps R (handle_request nd requester (requester_key nd requester) opk request)"
    for opk request
    by (cases "self_create nd opk request") (simp_all add: self handle_request_rel)
  show "R v v'"
    using run unfolding process_request_def
    by (auto intro: refl dest!: authenticate_key dest: reply_keepsD [OF all]
        split: message.splits sum.splits option.splits)
qed

end

end
