(* ===== verification/Vault_Props.thy ===== *)
theory Vault_Props
  imports Vault_Relations
begin

section \<open>Correctness of the mock vault\<close>

text \<open>
  The stores of the vault as interpretations of the keyed-store interface, and the relations that
  every request keeps as interpretations of \<open>vault_relation\<close>: well-formedness, permanence of
  published data, access control of unpublished data, coins are never created. The properties proper
  are at the end.
\<close>

interpretation data_store: keyed_store_del get_data insert_data delete_data
  by unfold_locales (auto simp: get_data_def insert_data_def delete_data_def)

interpretation balance_store: keyed_store get_coin_balance set_coin_balance
  by unfold_locales (auto simp: get_coin_balance_def set_coin_balance_def)

interpretation account_store: keyed_store get_account set_account
  by unfold_locales (auto simp: get_account_def set_account_def)

subsection \<open>Well-formed vaults\<close>

definition vault_wf :: "safe_nd \<Rightarrow> vault \<Rightarrow> bool" where
  "vault_wf nd v \<longleftrightarrow> finite (dom (coin_balances v)) \<and>
     (\<forall>n b. coin_balances v n = Some b \<longrightarrow> balance_wf b) \<and>
     (\<forall>n p. login_packets v n = Some p \<longrightarrow> lp_destination nd p = n) \<and>
     (\<forall>i d. nae_manager v i = Some d \<longrightarrow> id_matches nd i d)"

lemma vault_wf_new [simp]: "vault_wf nd (vault_new c)"
  by (simp add: vault_wf_def vault_new_def)

lemma vault_wf_updates [simp]:
  "vault_wf nd v \<Longrightarrow> balance_wf b \<Longrightarrow> vault_wf nd (set_coin_balance n b v)"
  "vault_wf nd v \<Longrightarrow> vault_wf nd (set_account n a v)"
  "vault_wf nd v \<Longrightarrow> vault_wf nd (insert_login_packet nd p v)"
  "vault_wf nd v \<Longrightarrow> id_matches nd i d \<Longrightarrow> vault_wf nd (insert_data i d v)"
  "vault_wf nd v \<Longrightarrow> vault_wf nd (delete_data i v)"
  by (auto simp: vault_wf_def set_coin_balance_def set_account_def insert_login_packet_def
      insert_data_def delete_data_def)

lemma vault_wf_balance: "vault_wf nd v \<Longrightarrow> get_coin_balance v n = Some b \<Longrightarrow> balance_wf b"
  by (auto simp: vault_wf_def get_coin_balance_def)

lemmas coin_program_defs = commit_mutation_def create_balance_def transfer_coins_def and_then_def

lemma commit_mutation_Some:
  "commit_mutation nd n v = Some (r, v') \<longleftrightarrow>
     r = Ok () \<and>
     (if unlimited_coins nd (vault_config v) then v' = v
      else \<exists>b b'. get_coin_balance v n = Some b \<and> debit_balance nd b COST_OF_PUT = Ok b' \<and>
             v' = set_coin_balance n b' v)"
  by (auto simp: commit_mutation_def split: option.splits sum.splits)

lemma create_balance_Some:
  "create_balance nd n pk v = Some (r, v') \<Longrightarrow>
     v' = v \<or> (\<exists>z. get_coin_balance v n = None \<and> from_nano nd 0 = Ok z \<and> r = Ok () \<and>
       v' = set_coin_balance n (coin_balance_new z pk) v)"
  by (auto simp: create_balance_def split: if_splits sum.splits)

lemma debit_source_Some:
  "debit_source nd n amount v = Some (r, v') \<Longrightarrow>
     (\<exists>e. r = Err e \<and> v' = v) \<or>
     r = Ok () \<and> unlimited_coins nd (vault_config v) \<and> v' = v \<or>
     r = Ok () \<and> \<not> unlimited_coins nd (vault_config v) \<and>
       (\<exists>b b'. get_coin_balance v n = Some b \<and> debit_balance nd b amount = Ok b' \<and>
          v' = set_coin_balance n b' v)"
  by (auto simp: debit_source_def split: option.splits sum.splits if_splits)

lemma credit_destination_Some:
  "credit_destination nd n amount t v = Some (r, v') \<Longrightarrow>
     (\<exists>e. r = Err e \<and> v' = v) \<or>
     r = Ok () \<and>
       (\<exists>b b'. get_coin_balance v n = Some b \<and> credit_balance nd b amount t = Ok b' \<and>
          v' = set_coin_balance n b' v)"
  by (auto simp: credit_destination_def split: option.splits sum.splits if_splits)

text \<open>A relation that debits and credits keep is kept by transfers.\<close>

lemma transfer_keeps_rel:
  assumes "state_relation R" and "keeps_rel R (debit_source nd s a)"
    and "keeps_rel R (credit_destination nd d a t)"
  shows "keeps_rel R (transfer_coins nd s d a t)"
  unfolding transfer_coins_def
  by (intro state_relation.rel_and_then state_relation.rel_lift_res assms)

lemma vault_wf_debit:
  "vault_wf nd v \<Longrightarrow> get_coin_balance v n = Some b \<Longrightarrow> debit_balance nd b a = Ok b' \<Longrightarrow>
     vault_wf nd (set_coin_balance n b' v)"
  by (rule vault_wf_updates(1)) (blast intro: balance_wf_debit vault_wf_balance)+

lemma vault_wf_credit:
  "vault_wf nd v \<Longrightarrow> get_coin_balance v n = Some b \<Longrightarrow> credit_balance nd b a t = Ok b' \<Longrightarrow>
     vault_wf nd (set_coin_balance n b' v)"
  by (rule vault_wf_updates(1)) (blast intro: balance_wf_credit vault_wf_balance)+

interpretation wf: vault_relation_all "\<lambda>v v'. vault_wf nd v \<longrightarrow> vault_wf nd v'" nd requester
  for nd requester
proof unfold_locales
  let ?R = "\<lambda>v v'. vault_wf nd v \<longrightarrow> vault_wf nd v'"
  have R: "state_relation ?R" by unfold_locales auto
  show "keeps_rel ?R (commit_mutation nd n)" for n
    by (rule keeps_relI) (auto simp: commit_mutation_Some intro: vault_wf_debit split: if_splits)
  show "keeps_rel ?R (transfer_coins nd s d a t)" for s d a t
    by (intro transfer_keeps_rel R keeps_relI)
      (auto dest!: debit_source_Some credit_destination_Some intro: vault_wf_debit vault_wf_credit)
  show "keeps_rel ?R (create_balance nd d pk)" for d pk
    by (rule keeps_relI) (auto dest!: create_balance_Some)
qed (auto simp: mock_create_balance_def)

subsection \<open>Published data is permanent\<close>

definition published_kept :: "vault \<Rightarrow> vault \<Rightarrow> bool" where
  "published_kept v v' \<longleftrightarrow>
     (\<forall>c x. nae_manager v (IdImmutable c) = Some (Immutable (IPub x)) \<longrightarrow>
        nae_manager v' (IdImmutable c) = Some (Immutable (IPub x))) \<and>
     (\<forall>b x. nae_manager v (IdAppendOnly b) = Some (AppendOnly x) \<and> adata_is_pub x \<longrightarrow>
        (\<exists>x'. nae_manager v' (IdAppendOnly b) = Some (AppendOnly x') \<and> adata_is_pub x'))"

lemma published_kept_same_data: "nae_manager v' = nae_manager v \<Longrightarrow> published_kept v v'"
  by (simp add: published_kept_def)

lemma plain_updates_nae [simp]:
  "nae_manager (set_coin_balance n b v) = nae_manager v"
  "nae_manager (set_account n a v) = nae_manager v"
  "nae_manager (insert_login_packet nd p v) = nae_manager v"
  "nae_manager (insert_data i d v) = (nae_manager v)(i \<mapsto> d)"
  "nae_manager (delete_data i v) = (nae_manager v)(i := None)"
  by (simp_all add: set_coin_balance_def set_account_def insert_login_packet_def insert_data_def
      delete_data_def)

text \<open>Moving coins does not touch the data.\<close>

definition same_data :: "vault \<Rightarrow> vault \<Rightarrow> bool" where
  "same_data v v' \<longleftrightarrow> nae_manager v' = nae_manager v"

lemma coin_programs_same_data:
  "keeps_rel same_data (commit_mutation nd n)"
  "keeps_rel same_data (transfer_coins nd s d a t)"
  "keeps_rel same_data (create_balance nd n pk)"
proof -
  have R: "state_relation same_data" by unfold_locales (auto simp: same_data_def)
  show "keeps_rel same_data (transfer_coins nd s d a t)"
    by (intro transfer_keeps_rel R keeps_relI)
      (auto simp: same_data_def dest!: debit_source_Some credit_destination_Some)
qed (auto intro!: keeps_relI simp: commit_mutation_Some same_data_def dest!: create_balance_Some
      split: if_splits)

lemma keeps_rel_mono: "keeps_rel R m \<Longrightarrow> (\<And>v v'. R v v' \<Longrightarrow> S v v') \<Longrightarrow> keeps_rel S m"
  by (auto simp: keeps_rel_def)

lemmas coin_programs_keep = coin_programs_same_data [THEN keeps_rel_mono]

interpretation pub: vault_relation_all published_kept nd requester
  for nd requester
proof unfold_locales
  show "published_kept v v'' " if "published_kept v v'" and "published_kept v' v''" for v v' v''
    using that unfolding published_kept_def by blast
qed (auto intro!: coin_programs_keep
    simp: published_kept_def adata_change_def mock_create_balance_def same_data_def)

subsection \<open>Unpublished data changes only by its owners and those they allow\<close>

text \<open>
  The key \<open>pk\<close> has no right on an object: it is not its owner and no change the checks of the data
  type would let it make exists.
\<close>

definition no_right :: "safe_nd \<Rightarrow> public_key \<Rightarrow> data \<Rightarrow> bool" where
  "no_right nd pk d = (case d of
     Immutable (IPub x) \<Rightarrow> True
   | Immutable (IUnpub u) \<Rightarrow> unpub_idata_owner nd u \<noteq> pk
   | Mutable m \<Rightarrow> md_owner nd m \<noteq> pk \<and> (\<forall>m'. \<not> mdata_change nd pk m m')
   | AppendOnly x \<Rightarrow> (\<forall>act. ad_check_permission nd x act pk \<noteq> Ok ()) \<and>
       ad_check_is_last_owner nd x pk \<noteq> Ok ())"

definition foreign_kept :: "safe_nd \<Rightarrow> public_key \<Rightarrow> vault \<Rightarrow> vault \<Rightarrow> bool" where
  "foreign_kept nd pk v v' \<longleftrightarrow>
     (\<forall>i d. nae_manager v i = Some d \<and> no_right nd pk d \<longrightarrow> nae_manager v' i = Some d)"

interpretation own: vault_relation_all "foreign_kept nd (requester_key nd requester)" nd requester
  for nd requester
  by unfold_locales
    (auto intro!: coin_programs_keep simp: foreign_kept_def no_right_def adata_change_def
      mock_create_balance_def same_data_def)

subsection \<open>Accounts change only by requests about their keys\<close>

definition same_accounts :: "vault \<Rightarrow> vault \<Rightarrow> bool" where
  "same_accounts v v' \<longleftrightarrow> client_manager v' = client_manager v"

lemma plain_updates_accounts [simp]:
  "client_manager (set_coin_balance n b v) = client_manager v"
  "client_manager (insert_login_packet nd p v) = client_manager v"
  "client_manager (insert_data i d v) = client_manager v"
  "client_manager (delete_data i v) = client_manager v"
  by (simp_all add: set_coin_balance_def insert_login_packet_def insert_data_def delete_data_def)

interpretation accounts: vault_data_relation same_accounts nd requester
  for nd requester
proof unfold_locales
  have R: "state_relation same_accounts" by unfold_locales (auto simp: same_accounts_def)
  show "keeps_rel same_accounts (transfer_coins nd s d a t)" for s d a t
    by (intro transfer_keeps_rel R keeps_relI)
      (auto simp: same_accounts_def dest!: debit_source_Some credit_destination_Some)
qed (auto intro!: keeps_relI simp: commit_mutation_Some same_accounts_def dest!: create_balance_Some
    split: if_splits)

subsection \<open>Coins\<close>

definition total_coins :: "vault \<Rightarrow> nat" where
  "total_coins v = (\<Sum>n\<in>dom (coin_balances v). unat (cb_value (the (coin_balances v n))))"

lemma coin_balances_set [simp]:
  "coin_balances (set_coin_balance n b v) = (coin_balances v)(n \<mapsto> b)"
  "vault_config (set_coin_balance n b v) = vault_config v"
  by (simp_all add: set_coin_balance_def)

lemma total_coins_set:
  assumes "finite (dom (coin_balances v))" and "get_coin_balance v n = Some b"
  shows "total_coins (set_coin_balance n b' v) + unat (cb_value b) =
    total_coins v + unat (cb_value b')"
proof -
  let ?f = "\<lambda>m k. unat (cb_value (the (m k)))"
  let ?m = "coin_balances v" and ?m' = "(coin_balances v)(n \<mapsto> b')"
  let ?D = "dom ?m"
  have mn: "?m n = Some b" and n: "n \<in> ?D" and D: "dom ?m' = ?D"
    using assms(2) by (auto simp: get_coin_balance_def)
  have same: "sum (?f ?m') (?D - {n}) = sum (?f ?m) (?D - {n})"
    by (rule sum.cong) auto
  have "total_coins v = unat (cb_value b) + sum (?f ?m) (?D - {n})"
    unfolding total_coins_def using mn by (subst sum.remove [OF assms(1) n]) simp
  moreover have "total_coins (set_coin_balance n b' v) = sum (?f ?m') ?D"
    by (simp only: total_coins_def coin_balances_set D)
  moreover have "sum (?f ?m') ?D = unat (cb_value b') + sum (?f ?m) (?D - {n})"
    using same by (subst sum.remove [OF assms(1) n]) simp
  ultimately show ?thesis by simp
qed

lemma total_coins_new:
  assumes "finite (dom (coin_balances v))" and "get_coin_balance v n = None"
  shows "total_coins (set_coin_balance n b v) = total_coins v + unat (cb_value b)"
proof -
  have n: "n \<notin> dom (coin_balances v)" using assms(2) by (auto simp: get_coin_balance_def)
  have same: "(\<Sum>k\<in>dom (coin_balances v). unat (cb_value (the (((coin_balances v)(n \<mapsto> b)) k)))) =
      total_coins v"
    unfolding total_coins_def using n by (intro sum.cong) auto
  show ?thesis
    using n assms(1) same by (simp add: total_coins_def [of "set_coin_balance n b v"])
qed

text \<open>
  Coins are not created: with a limited supply, the total never grows and its finite support stays
  finite. The hypotheses on the configuration and on \<open>Coins\<close> are part of the relation.
\<close>

definition coins_not_created :: "safe_nd \<Rightarrow> vault \<Rightarrow> vault \<Rightarrow> bool" where
  "coins_not_created nd v v' \<longleftrightarrow>
     (coins_laws nd \<and> \<not> unlimited_coins nd (vault_config v) \<and> finite (dom (coin_balances v)) \<longrightarrow>
        vault_config v' = vault_config v \<and> finite (dom (coin_balances v')) \<and>
        total_coins v' \<le> total_coins v)"

lemma total_coins_cong: "coin_balances v' = coin_balances v \<Longrightarrow> total_coins v' = total_coins v"
  by (simp add: total_coins_def)

lemma total_coins_debit:
  assumes "coins_laws nd" "finite (dom (coin_balances v))" "get_coin_balance v n = Some b"
    "debit_balance nd b a = Ok b'"
  shows "total_coins v = total_coins (set_coin_balance n b' v) + unat a"
  using total_coins_set [OF assms(2,3), of b'] debit_value [OF assms(1,4)] by arith

lemma total_coins_credit:
  assumes "coins_laws nd" "finite (dom (coin_balances v))" "get_coin_balance v n = Some b"
    "credit_balance nd b a t = Ok b'"
  shows "total_coins (set_coin_balance n b' v) = total_coins v + unat a"
  using total_coins_set [OF assms(2,3), of b'] credit_value [OF assms(1,4)] by simp

lemma transfer_total:
  assumes laws: "coins_laws nd" and lim: "\<not> unlimited_coins nd (vault_config v)"
    and fin: "finite (dom (coin_balances v))"
    and run: "transfer_coins nd s d a t v = Some (r, v')"
  shows "vault_config v' = vault_config v \<and> finite (dom (coin_balances v')) \<and>
    (if is_ok r then total_coins v' = total_coins v
     else total_coins v' = total_coins v \<or> total_coins v = total_coins v' + unat a)"
proof -
  show ?thesis
    using run unfolding transfer_coins_def
  proof (cases rule: and_then_Some)
    case (fails e)
    then show ?thesis using fin by (auto dest!: debit_source_Some)
  next
    case (goes_on u w)
    obtain b b' where b: "get_coin_balance v s = Some b" "debit_balance nd b a = Ok b'"
      and w: "w = set_coin_balance s b' v"
      using goes_on(1) lim by (auto dest!: debit_source_Some)
    have tw: "total_coins v = total_coins w + unat a" and fw: "finite (dom (coin_balances w))"
      using total_coins_debit [OF laws fin b] fin w by auto
    show ?thesis
      using goes_on(2)
    proof (cases rule: and_then_Some)
      case (fails e)
      then show ?thesis using tw fw w by (auto dest!: credit_destination_Some)
    next
      case (goes_on u' w')
      then obtain c c' where c: "get_coin_balance w d = Some c" "credit_balance nd c a t = Ok c'"
        and v': "v' = set_coin_balance d c' w" and r: "r = Ok (Transaction t a)"
        by (auto dest!: credit_destination_Some)
      show ?thesis
        using total_coins_credit [OF laws fw c] tw fw w r v' by simp
    qed
  qed
qed

interpretation coin: vault_relation "coins_not_created nd" nd requester
  for nd requester
proof unfold_locales
  show "coins_not_created nd v v''"
    if "coins_not_created nd v v'" and "coins_not_created nd v' v''" for v v' v''
    using that unfolding coins_not_created_def by auto
  show "keeps_rel (coins_not_created nd) (commit_mutation nd n)" for n
    by (rule keeps_relI)
      (auto simp: commit_mutation_Some coins_not_created_def dest: total_coins_debit split: if_splits)
  show "keeps_rel (coins_not_created nd) (transfer_coins nd s d a t)" for s d a t
  proof (rule keeps_relI)
    fix v r v' assume run: "transfer_coins nd s d a t v = Some (r, v')"
    show "coins_not_created nd v v'"
      unfolding coins_not_created_def
    proof (intro impI, elim conjE)
      assume h: "coins_laws nd" "\<not> unlimited_coins nd (vault_config v)"
        "finite (dom (coin_balances v))"
      show "vault_config v' = vault_config v \<and> finite (dom (coin_balances v')) \<and>
          total_coins v' \<le> total_coins v"
        using transfer_total [OF h run] by (auto split: if_splits)
    qed
  qed
  show "keeps_rel (coins_not_created nd) (create_balance nd n pk)" for n pk
    by (rule keeps_relI)
      (auto simp: coins_not_created_def total_coins_new dest!: create_balance_Some
        dest: coins_lawsD(3))
qed (auto simp: coins_not_created_def set_account_def insert_login_packet_def insert_data_def
    delete_data_def total_coins_def)

text \<open>What a successful transfer with a limited supply does, balance by balance.\<close>

lemma transfer_Ok_effect:
  assumes "coins_laws nd" and "\<not> unlimited_coins nd (vault_config v)"
    and "finite (dom (coin_balances v))" and "src \<noteq> dst"
    and "transfer_coins nd src dst amount t v = Some (Ok tx, v')"
  obtains b b' d d' where
    "coin_balances v src = Some b" "coin_balances v dst = Some d"
    "v' = v\<lparr>coin_balances := (coin_balances v)(src \<mapsto> b', dst \<mapsto> d')\<rparr>"
    "unat (cb_value b) = unat (cb_value b') + unat amount"
    "unat (cb_value d') = unat (cb_value d) + unat amount"
    "total_coins v' = total_coins v" "tx = Transaction t amount"
proof -
  obtain w where w: "debit_source nd src amount v = Some (Ok (), w)"
    and c: "credit_destination nd dst amount t w = Some (Ok (), v')"
    and tx: "tx = Transaction t amount"
    using assms(5) by (auto simp: transfer_coins_def elim!: and_then_Ok)
  obtain b b' where b: "get_coin_balance v src = Some b" "debit_balance nd b amount = Ok b'"
    and wv: "w = set_coin_balance src b' v"
    using debit_source_Some [OF w] assms(2) by auto
  obtain d d' where d: "get_coin_balance w dst = Some d" "credit_balance nd d amount t = Ok d'"
    and v': "v' = set_coin_balance dst d' w"
    using credit_destination_Some [OF c] by auto
  have "unat (cb_value b) = unat (cb_value b') + unat amount"
    "unat (cb_value d') = unat (cb_value d) + unat amount"
    using debit_value [OF assms(1) b(2)] credit_value [OF assms(1) d(2)] by auto
  moreover have "total_coins v' = total_coins v"
    using transfer_total [OF assms(1-3,5)] by simp
  moreover have "coin_balances v src = Some b" "coin_balances v dst = Some d"
    "v' = v\<lparr>coin_balances := (coin_balances v)(src \<mapsto> b', dst \<mapsto> d')\<rparr>"
    using b(1) d(1) v' wv assms(4) by (auto simp: get_coin_balance_def set_coin_balance_def)
  ultimately show ?thesis using that tx by blast
qed

text \<open>Funding a new balance: the source pays the amount and the cost of the mutation.\<close>

lemma fund_new_balance_Ok_effect:
  assumes laws: "coins_laws nd" and lim: "\<not> unlimited_coins nd (vault_config v)"
    and fin: "finite (dom (coin_balances v))"
    and run: "fund_new_balance nd src dst owner amount t v = Some (Ok tx, v')"
  obtains b b' d' where
    "coin_balances v src = Some b" "coin_balances v dst = None"
    "coin_balances v' src = Some b'" "coin_balances v' dst = Some d'"
    "unat (cb_value b) = unat (cb_value b') + unat amount + 1" "cb_value d' = amount"
    "total_coins v = total_coins v' + 1"
proof -
  obtain w1 w2 where c: "create_balance nd dst owner v = Some (Ok (), w1)"
    and p: "commit_mutation nd src w1 = Some (Ok (), w2)"
    and t: "transfer_coins nd src dst amount t w2 = Some (Ok tx, v')"
    and src: "coin_balances v src \<noteq> None"
    using run by (auto simp: fund_new_balance_def get_balance_def get_coin_balance_def
        elim!: and_then_Ok split: option.splits if_splits)
  have dst: "get_coin_balance v dst = None"
    and w1: "w1 = set_coin_balance dst (coin_balance_new 0 owner) v"
    using c coins_lawsD(3) [OF laws] by (auto simp: create_balance_def split: if_splits)
  have ne: "src \<noteq> dst" using src dst by (auto simp: get_coin_balance_def)
  obtain b1 b2 where b1: "get_coin_balance w1 src = Some b1" "debit_balance nd b1 COST_OF_PUT = Ok b2"
    and w2: "w2 = set_coin_balance src b2 w1"
    using p lim w1 by (auto simp: commit_mutation_Some)
  have fin1: "finite (dom (coin_balances w1))" and fin2: "finite (dom (coin_balances w2))"
    using fin w1 w2 by auto
  have lim2: "\<not> unlimited_coins nd (vault_config w2)" using lim w1 w2 by simp
  obtain b3 b' d d' where t': "coin_balances w2 src = Some b3" "coin_balances w2 dst = Some d"
    "v' = w2\<lparr>coin_balances := (coin_balances w2)(src \<mapsto> b', dst \<mapsto> d')\<rparr>"
    "unat (cb_value b3) = unat (cb_value b') + unat amount"
    "unat (cb_value d') = unat (cb_value d) + unat amount" "total_coins v' = total_coins w2"
    using transfer_Ok_effect [OF laws lim2 fin2 ne t] by metis
  have "coin_balances v src = Some b1" "b3 = b2"
    using b1(1) w1 w2 ne t'(1) by (auto simp: get_coin_balance_def)
  moreover have "cb_value d = 0" using t'(2) w1 w2 ne by auto
  moreover have "unat (cb_value b1) = unat (cb_value b2) + 1"
    using debit_value [OF laws b1(2)] by (simp add: COST_OF_PUT_def)
  moreover have "total_coins v = total_coins w2 + 1"
    using total_coins_new [OF fin dst, of "coin_balance_new 0 owner"]
      total_coins_debit [OF laws fin1 b1] w1 w2 by (simp add: COST_OF_PUT_def)
  moreover have "cb_value d' = amount"
    using t'(5) \<open>cb_value d = 0\<close> by (simp add: word_unat_eq_iff)
  ultimately show ?thesis
    using that [of b1 b' d'] t' dst ne by (simp add: get_coin_balance_def)
qed

text \<open>The errors of the coin operations.\<close>

lemma authorise_errors:
  "authorise_operations nd ops n pk v = Err e \<Longrightarrow>
     e = NoSuchBalance \<or> e = InsufficientBalance \<or> e = AccessDenied"
proof -
  have owner: "authorise_owner nd v bal ops = Err e \<Longrightarrow> e = InsufficientBalance" for bal
    by (induction ops) (auto split: if_splits)
  have app: "authorise_app nd v bal perms ops = Err e \<Longrightarrow>
      e = InsufficientBalance \<or> e = AccessDenied" for bal perms
    by (induction ops) (auto split: if_splits operation.splits)
  assume "authorise_operations nd ops n pk v = Err e"
  then show ?thesis
    by (auto simp: authorise_operations_def res_and_then_def ok_or_def get_balance_def
        split: if_splits sum.splits option.splits dest: owner app)
qed

lemma coin_error_cases:
  assumes "coins_laws nd"
  shows "debit_source nd s a v = Some (Err e, v') \<Longrightarrow> e = NoSuchBalance \<or> e = InsufficientBalance"
    and "credit_destination nd d a t v = Some (Err e, v') \<Longrightarrow> e = NoSuchBalance \<or> e = ExcessiveValue"
    and "create_balance nd d pk v = Some (Err e, v') \<Longrightarrow> e = BalanceExists"
  using coins_lawsD(3) [OF assms]
  by (auto simp: debit_source_def credit_destination_def create_balance_def debit_balance_def
      credit_balance_def split: option.splits if_splits sum.splits)

lemma commit_mutation_no_Err: "commit_mutation nd n v \<noteq> Some (Err e, v')"
  by (auto simp: commit_mutation_Some)

lemma fund_new_balance_errors:
  assumes "coins_laws nd" and "fund_new_balance nd s d owner a t v = Some (Err e, v')"
  shows "e \<in> {NoSuchBalance, ExcessiveValue, InsufficientBalance, BalanceExists}"
  using assms(2) unfolding fund_new_balance_def transfer_coins_def
  by (auto simp: get_balance_def commit_mutation_no_Err elim!: and_then_Some
      dest!: coin_error_cases [OF assms(1)] split: option.splits if_splits)

end
