(* ===== verification/Vault_Correct.thy ===== *)
theory Vault_Correct
  imports Vault_Props Sample_Nd
begin

section \<open>Properties of the mock vault\<close>

text \<open>
  The theorems on the vault as a whole, over single requests, over the states reachable from a new
  vault, and over its coin and key management, each with an instance that shows its hypotheses can
  hold.
\<close>

inductive vault_reachable :: "safe_nd \<Rightarrow> config \<Rightarrow> vault \<Rightarrow> bool" for nd c where
  start: "vault_reachable nd c (vault_new c)"
| request: "vault_reachable nd c v \<Longrightarrow> process_request nd requester message v = Some (r, v') \<Longrightarrow>
    vault_reachable nd c v'"
| increment: "vault_reachable nd c v \<Longrightarrow> mock_increment_balance nd n amount t v = Some (q, v') \<Longrightarrow>
    vault_reachable nd c v'"
| create: "vault_reachable nd c v \<Longrightarrow> vault_reachable nd c (mock_create_balance nd owner amount v)"

subsection \<open>Concrete vaults for the instances\<close>

abbreviation alice :: client_public_id where "alice \<equiv> ClientPublicId [1]"
abbreviation alice_app :: app_public_id where "alice_app \<equiv> AppPublicId [7, 1]"
abbreviation bob :: client_public_id where "bob \<equiv> ClientPublicId [2]"

definition plain_config :: config where
  "plain_config = \<lparr>quic_p2p = [], dev = None\<rparr>"

definition sample_vault :: vault where
  "sample_vault = mock_create_balance sample_nd (PublicKey [1]) 10
     (mock_create_balance sample_nd (PublicKey [2]) 5 (vault_new plain_config))"

lemma sample_vault_reachable: "vault_reachable sample_nd plain_config sample_vault"
  unfolding sample_vault_def
  by (rule vault_reachable.create, rule vault_reachable.create, rule vault_reachable.start)

lemmas vault_eval = process_request_def authenticate_def handle_request_def respond_def
  and_then_def put_data_def authorise_operations_def commit_mutation_def debit_balance_def
  get_balance_def has_sufficient_balance_def unlimited_coins_def get_account_def set_account_def
  get_coin_balance_def contains_data_def insert_data_def get_data_def delete_data_def balance_def
  COST_OF_PUT_def get_login_packet_def insert_login_packet_def ensure_account_def
  insert_account_def account_new_def create_balance_def transfer_coins_def debit_source_def
  credit_destination_def credit_balance_def add_transaction_def DEFAULT_MAX_CREDITS_def
  fund_new_balance_def required_operations_def sample_type_def sample_error_response_def
  only_owner_def requester_key_def

lemmas sample_simps = sample_vault_def plain_config_def vault_new_def mock_create_balance_def
  set_coin_balance_def coin_balance_new_def sample_nd_def

subsection \<open>Well-formedness\<close>

lemma mock_increment_wf:
  "mock_increment_balance nd n amount t v = Some (q, v') \<Longrightarrow> vault_wf nd v \<Longrightarrow> vault_wf nd v'"
  by (auto simp: mock_increment_balance_def intro: vault_wf_credit split: option.splits sum.splits)

lemma vault_reachable_wf:
  assumes "vault_reachable nd c v"
  shows "vault_wf nd v"
  using assms
proof (induction rule: vault_reachable.induct)
  case (request v requester message r v')
  then show ?case
    using keeps_relD [OF wf.process_request_rel] by blast
next
  case (create v owner amount)
  then show ?case
    by (simp add: mock_create_balance_def)
qed (auto intro: mock_increment_wf)

text \<open>
  (C1) Every vault reachable from a new one by requests of any kind and by the test hooks is
  well-formed: each balance keeps at most 100 credits, each stored object is of the kind its
  identifier says and immutable data sits at its own address, each login packet sits at its
  destination, and only finitely many balances exist.
\<close>

theorem reachable_vault_wf:
  assumes "vault_reachable nd c v"
  shows "vault_wf nd v"
  by (rule vault_reachable_wf [OF assms])

theorem reachable_vault_wf_witness: "vault_wf sample_nd sample_vault"
  by (rule reachable_vault_wf [OF sample_vault_reachable])

subsection \<open>Published and foreign data\<close>

text \<open>
  (C3) Published data is permanent: whatever request anybody sends, published immutable data stays at
  its address with its contents, and published append-only data stays published append-only data.
\<close>

theorem published_data_permanent:
  assumes "process_request nd requester message v = Some (r, v')"
  shows "(nae_manager v (IdImmutable c) = Some (Immutable (IPub x)) \<longrightarrow>
        nae_manager v' (IdImmutable c) = Some (Immutable (IPub x))) \<and>
      (nae_manager v (IdAppendOnly b) = Some (AppendOnly y) \<and> adata_is_pub y \<longrightarrow>
        (\<exists>y'. nae_manager v' (IdAppendOnly b) = Some (AppendOnly y') \<and> adata_is_pub y'))"
  using keeps_relD [OF pub.process_request_rel assms] by (auto simp: published_kept_def)

definition published_vault :: vault where
  "published_vault = insert_data (IdImmutable (IPubAddr (XorName [9]))) (Immutable (IPub [9]))
     sample_vault"

theorem published_data_permanent_witness:
  "nae_manager (snd (the (process_request sample_nd (Client bob)
      (MsgRequest (DeleteUnpubIData (IPubAddr (XorName [9]))) [] (Some [2])) published_vault)))
    (IdImmutable (IPubAddr (XorName [9]))) = Some (Immutable (IPub [9]))"
proof -
  let ?p = "process_request sample_nd (Client bob)
      (MsgRequest (DeleteUnpubIData (IPubAddr (XorName [9]))) [] (Some [2]))"
  have "\<not> Option.is_none (?p published_vault)"
    by (simp add: published_vault_def vault_eval sample_simps req_delete_unpub_idata_def
        delete_idata_def)
  moreover have "nae_manager published_vault (IdImmutable (IPubAddr (XorName [9]))) =
      Some (Immutable (IPub [9]))"
    by (simp add: published_vault_def)
  ultimately show ?thesis
    using published_data_permanent [OF run_result] by blast
qed

text \<open>
  (C4) Access control: a request leaves untouched every stored object its sender has no right on,
  that is every published immutable object, unpublished immutable data of another owner, mutable data
  of another owner whose permission checks refuse the sender every change, and append-only data
  whose checks refuse the sender every action.
\<close>

theorem foreign_data_untouched:
  assumes "process_request nd requester message v = Some (r, v')"
    and "nae_manager v i = Some d" and "no_right nd (requester_key nd requester) d"
  shows "nae_manager v' i = Some d"
  using keeps_relD [OF own.process_request_rel assms(1)] assms(2,3) by (auto simp: foreign_kept_def)

definition private_vault :: vault where
  "private_vault = insert_data (IdImmutable (IUnpubAddr (XorName [1, 9]))) (Immutable (IUnpub [1, 9]))
     sample_vault"

theorem foreign_data_untouched_witness:
  "nae_manager (snd (the (process_request sample_nd (Client bob)
      (MsgRequest (DeleteUnpubIData (IUnpubAddr (XorName [1, 9]))) [] (Some [2])) private_vault)))
    (IdImmutable (IUnpubAddr (XorName [1, 9]))) = Some (Immutable (IUnpub [1, 9]))"
proof -
  let ?p = "process_request sample_nd (Client bob)
      (MsgRequest (DeleteUnpubIData (IUnpubAddr (XorName [1, 9]))) [] (Some [2]))"
  have "\<not> Option.is_none (?p private_vault)"
    by (simp add: private_vault_def vault_eval sample_simps req_delete_unpub_idata_def
        delete_idata_def)
  moreover have "nae_manager private_vault (IdImmutable (IUnpubAddr (XorName [1, 9]))) =
      Some (Immutable (IUnpub [1, 9]))"
    by (simp add: private_vault_def)
  moreover have "no_right sample_nd (requester_key sample_nd (Client bob)) (Immutable (IUnpub [1, 9]))"
    by (simp add: no_right_def requester_key_def sample_nd_def)
  ultimately show ?thesis
    using foreign_data_untouched [OF run_result] by blast
qed

subsection \<open>Coins\<close>

lemma total_coins_mock_create:
  assumes "finite (dom (coin_balances v))"
  shows "total_coins (mock_create_balance nd owner amount v) \<le> total_coins v + unat amount"
proof (cases "get_coin_balance v (xor_name_of_pk nd owner)")
  case None
  then show ?thesis
    by (simp add: mock_create_balance_def total_coins_new [OF assms] coin_balance_new_def)
next
  case (Some b)
  then show ?thesis
    using total_coins_set [OF assms Some, of "coin_balance_new amount owner"]
    by (simp add: mock_create_balance_def coin_balance_new_def)
qed

lemma self_create_run:
  assumes "process_request nd requester (MsgRequest request mid sig) v = Some (r, v')"
    and "authenticate nd requester request mid sig v = Ok (rpk, opk)" and "self_create nd opk request"
  obtains owner amount tid where "request = CreateBalance owner amount tid"
    "xor_name_of_pk nd owner = xor_name_of_pk nd opk" "v' = mock_create_balance nd owner amount v"
proof -
  obtain owner amount tid where "request = CreateBalance owner amount tid"
    and "xor_name_of_pk nd owner = xor_name_of_pk nd opk"
    using assms(3) by (auto simp: self_create_def split: request.splits)
  moreover from this have "v' = mock_create_balance nd owner amount v"
    using assms(1,2) by (auto simp: process_request_def handle_request_def req_create_balance_def respond_def
        split: option.splits)
  ultimately show ?thesis by (rule that)
qed

text \<open>
  (C2) Where the supply of coins is limited (the mock is not configured with unlimited coins) and only finitely many balances exist, no
  request creates coins, whoever sends it and whatever the reply is: the sum of all balances does not grow. The one
  exception is the mock's way of setting one's own balance: an accepted \<open>CreateBalance\<close> whose new owner
  is the account that pays replaces this balance by a new one of \<open>amount\<close> and changes nothing else, so
  that the sum grows by \<open>amount\<close> at most.
\<close>

theorem no_coins_created:
  assumes "coins_laws nd" and "\<not> unlimited_coins nd (vault_config v)"
    and "finite (dom (coin_balances v))"
    and "process_request nd requester (MsgRequest request mid sig) v = Some (r, v')"
  shows "total_coins v' \<le> total_coins v \<or>
    (\<exists>rpk opk owner amount tid. authenticate nd requester request mid sig v = Ok (rpk, opk) \<and>
       request = CreateBalance owner amount tid \<and> xor_name_of_pk nd owner = xor_name_of_pk nd opk \<and>
       v' = mock_create_balance nd owner amount v \<and> total_coins v' \<le> total_coins v + unat amount)"
proof (cases "\<exists>rpk opk. authenticate nd requester request mid sig v = Ok (rpk, opk) \<and> self_create nd opk request")
  case True
  then obtain rpk opk where auth: "authenticate nd requester request mid sig v = Ok (rpk, opk)"
    and self: "self_create nd opk request"
    by blast
  then show ?thesis
    using self_create_run [OF assms(4) auth self] total_coins_mock_create [OF assms(3)] by metis
next
  case False
  then have "total_coins v' \<le> total_coins v"
    using coin.authenticated_rel [OF assms(4)] assms(1-3) by (auto simp: coins_not_created_def)
  then show ?thesis ..
qed

lemma sample_limited [simp]: "\<not> unlimited_coins sample_nd (vault_config sample_vault)"
  by (simp add: unlimited_coins_def sample_simps)

lemma sample_finite [simp]: "finite (dom (coin_balances sample_vault))"
  by (simp add: sample_simps)

theorem no_coins_created_witness:
  "total_coins (snd (the (process_request sample_nd (Client alice)
     (MsgRequest (TransferCoins (XorName [2]) 3 0) [] (Some [1])) sample_vault)))
   \<le> total_coins sample_vault"
proof -
  let ?m = "MsgRequest (TransferCoins (XorName [2]) 3 0) [] (Some [1])"
  have "\<not> Option.is_none (process_request sample_nd (Client alice) ?m sample_vault)"
    by (simp add: vault_eval sample_simps req_transfer_coins_def Let_def)
  then show ?thesis
    using no_coins_created [OF sample_coins_laws sample_limited sample_finite run_result] by blast
qed

text \<open>
  (C21) Where the supply is limited and only finitely many balances exist, a successful transfer between two
  different balances moves exactly \<open>amount\<close>: the source, which had at least \<open>amount\<close>, loses it, the destination
  gains it, the new vault is the old one with these two balances replaced (every other balance, the
  accounts, the login packets, the stored data and the configuration are the same), and the sum of all balances is
  the same.
\<close>

theorem transfer_moves_exactly:
  assumes "coins_laws nd" and "\<not> unlimited_coins nd (vault_config v)"
    and "finite (dom (coin_balances v))" and "src \<noteq> dst"
    and "transfer_coins nd src dst amount t v = Some (Ok tx, v')"
  shows "\<exists>b b' d d'.
      coin_balances v src = Some b \<and> coin_balances v dst = Some d \<and>
      v' = v\<lparr>coin_balances := (coin_balances v)(src \<mapsto> b', dst \<mapsto> d')\<rparr> \<and>
      unat (cb_value b) = unat (cb_value b') + unat amount \<and>
      unat (cb_value d') = unat (cb_value d) + unat amount \<and>
      total_coins v' = total_coins v \<and> tx = Transaction t amount"
  by (rule transfer_Ok_effect [OF assms]) blast

theorem transfer_moves_exactly_witness:
  "total_coins (snd (the (transfer_coins sample_nd (XorName [1]) (XorName [2]) 3 0 sample_vault))) =
     total_coins sample_vault"
proof -
  let ?p = "transfer_coins sample_nd (XorName [1]) (XorName [2]) 3 0"
  have run: "?p sample_vault = Some (Ok (Transaction 0 3), snd (the (?p sample_vault)))"
    by (simp add: vault_eval sample_simps Let_def)
  show ?thesis
    using transfer_moves_exactly [OF sample_coins_laws sample_limited sample_finite _ run] by auto
qed

text \<open>
  Creating a login packet for somebody else is not atomic: when the reply is
  \<open>LoginPacketExists\<close>, the balance of the new owner has nevertheless been created and filled with
  \<open>amount\<close>, and the requester has paid that amount and the cost of the mutation.
\<close>

theorem login_packet_exists_still_charged:
  assumes "coins_laws nd" and "\<not> unlimited_coins nd (vault_config v)"
    and "finite (dom (coin_balances v))"
    and "req_create_login_packet_for nd rpk opk new_owner amount t packet v =
      Some (RespTransaction (Err LoginPacketExists), v')"
  shows "\<exists>b b' d'. coin_balances v (xor_name_of_pk nd opk) = Some b \<and>
      coin_balances v' (xor_name_of_pk nd opk) = Some b' \<and>
      unat (cb_value b) = unat (cb_value b') + unat amount + 1 \<and>
      coin_balances v (xor_name_of_pk nd new_owner) = None \<and>
      coin_balances v' (xor_name_of_pk nd new_owner) = Some d' \<and> cb_value d' = amount"
proof -
  let ?src = "xor_name_of_pk nd opk" and ?dst = "xor_name_of_pk nd new_owner"
  have req: "required_operations nd amount v = Some (Ok ops, v) \<Longrightarrow> ?thesis" for ops
  proof -
    assume ops: "required_operations nd amount v = Some (Ok ops, v)"
    obtain tx where "fund_new_balance nd ?src ?dst new_owner amount t v = Some (Ok tx, v')"
      using assms(4) ops fund_new_balance_errors [OF assms(1)]
      by (auto simp: req_create_login_packet_for_def respond_def Let_def and_then_cases
          split: option.splits elim!: and_then_Some dest!: authorise_errors split: if_splits) blast
    from fund_new_balance_Ok_effect [OF assms(1-3) this] show ?thesis by metis
  qed
  show ?thesis
    using coins_lawsD(4) [OF assms(1)]
    by (intro req [of "if amount = 0 then [OpMutation, OpTransferCoins] else [OpMutation]"])
      (simp add: required_operations_def)
qed

definition packet_vault :: vault where
  "packet_vault = insert_login_packet sample_nd [8, 1] sample_vault"

theorem login_packet_exists_still_charged_witness:
  "\<exists>b' d'. coin_balances (snd (the (req_create_login_packet_for sample_nd (PublicKey [1])
       (PublicKey [1]) (PublicKey [3]) 4 0 [8, 3] packet_vault))) (XorName [1]) = Some b' \<and>
     unat (10 :: coins) = unat (cb_value b') + 4 + 1 \<and>
     coin_balances (snd (the (req_create_login_packet_for sample_nd (PublicKey [1])
       (PublicKey [1]) (PublicKey [3]) 4 0 [8, 3] packet_vault))) (XorName [3]) = Some d' \<and>
     cb_value d' = 4"
proof -
  let ?p = "req_create_login_packet_for sample_nd (PublicKey [1]) (PublicKey [1]) (PublicKey [3])
    4 0 [8, 3]"
  have run: "?p packet_vault =
      Some (RespTransaction (Err LoginPacketExists), snd (the (?p packet_vault)))"
    by (simp add: vault_eval sample_simps Let_def packet_vault_def req_create_login_packet_for_def)
  have "\<not> unlimited_coins sample_nd (vault_config packet_vault)"
    and "finite (dom (coin_balances packet_vault))"
    by (simp_all add: packet_vault_def insert_login_packet_def unlimited_coins_def sample_simps)
  from login_packet_exists_still_charged [OF sample_coins_laws this run]
  show ?thesis
    by (auto simp: packet_vault_def insert_login_packet_def sample_simps)
qed

end
