(* ===== verification/Vault_Access.thy ===== *)
theory Vault_Access
  imports Vault_Correct
begin

section \<open>Authentication, panics and keys of the mock vault\<close>

text \<open>
  Who is let in and what a refused request does; which requests can make the vault panic; the
  versioned list of authorised keys; storing and reading back immutable data.
\<close>

subsection \<open>Programs that do not panic\<close>

definition never_panics :: "('s \<Rightarrow> 'r option) \<Rightarrow> bool" where
  "never_panics m \<longleftrightarrow> (\<forall>s. m s \<noteq> None)"

lemma never_panicsI: "(\<And>s. m s \<noteq> None) \<Longrightarrow> never_panics m"
  by (simp add: never_panics_def)

lemma never_panicsD: "never_panics m \<Longrightarrow> m s \<noteq> None"
  by (simp add: never_panics_def)

lemma never_panics_basic:
  "never_panics (lift_res r)" "never_panics (gets f)" "never_panics (modify g)"
  by (simp_all add: never_panics_def)

lemma never_panics_and_then:
  "never_panics m \<Longrightarrow> (\<And>a. never_panics (f a)) \<Longrightarrow> never_panics (and_then m f)"
  by (auto simp: never_panics_def and_then_def split: option.splits prod.splits sum.splits)

lemma and_then_answers:
  "m s \<noteq> None \<Longrightarrow> (\<And>a s'. m s = Some (Ok a, s') \<Longrightarrow> f a s' \<noteq> None) \<Longrightarrow> and_then m f s \<noteq> None"
  by (auto simp: and_then_def split: option.splits prod.splits sum.splits)

lemma never_panics_map: "never_panics m \<Longrightarrow> never_panics (map_prog f m)"
  by (auto simp: never_panics_def map_prog_def split: option.splits prod.splits)

lemma never_panics_respond: "never_panics m \<Longrightarrow> never_panics (respond c m)"
  by (auto simp: never_panics_def respond_def split: option.splits)

lemma never_panics_reads:
  "never_panics (get_idata c)" "never_panics (get_mdata nd a pk req)"
  "never_panics (get_adata nd b pk req)" "never_panics (checked_mdata nd a pk req)"
  "never_panics (delete_idata nd c pk)"
  by (auto simp: get_idata_def get_mdata_def get_adata_def checked_mdata_def delete_idata_def
      never_panics_def and_then_def split: option.splits data.splits idata.splits sum.splits)

lemma never_panics_keys:
  "never_panics (list_auth_keys_and_version n)" "never_panics (ins_auth_key n k p ver)"
  "never_panics (del_auth_key n k ver)"
proof -
  have "get_account (ensure_account n v) n \<noteq> None" for v
    by (auto simp: ensure_account_def insert_account_def account_store.get_put_same)
  then show "never_panics (list_auth_keys_and_version n)" "never_panics (ins_auth_key n k p ver)"
    "never_panics (del_auth_key n k ver)"
    by (auto simp: never_panics_def list_auth_keys_and_version_def ins_auth_key_def
        del_auth_key_def Let_def split: option.splits sum.splits)
qed

lemma never_panics_transfer: "never_panics (transfer_coins nd s d a t)"
  unfolding transfer_coins_def
  by (intro never_panics_and_then never_panics_basic)
    (auto simp: never_panics_def debit_source_def credit_destination_def
      split: option.splits sum.splits)

lemmas never_panics_intros = never_panics_respond never_panics_and_then never_panics_map
  never_panics_basic never_panics_reads never_panics_keys never_panics_transfer

subsection \<open>Who can pay for a mutation\<close>

definition can_pay :: "safe_nd \<Rightarrow> xor_name \<Rightarrow> vault \<Rightarrow> bool" where
  "can_pay nd n v \<longleftrightarrow> unlimited_coins nd (vault_config v) \<or>
     (\<exists>b. coin_balances v n = Some b \<and> COST_OF_PUT \<le> cb_value b)"

lemma commit_mutation_panics_iff:
  "coins_laws nd \<Longrightarrow> commit_mutation nd n v = None \<longleftrightarrow> \<not> can_pay nd n v"
  by (auto simp: commit_mutation_def can_pay_def get_coin_balance_def debit_balance_eq
      split: option.splits if_splits)

lemma sufficient_can_pay:
  "coins_laws nd \<Longrightarrow> get_balance v n = Ok bal \<Longrightarrow> has_sufficient_balance nd v bal x \<Longrightarrow>
     COST_OF_PUT \<le> x \<Longrightarrow> can_pay nd n v"
  by (auto simp: has_sufficient_balance_def can_pay_def get_balance_def get_coin_balance_def
      balance_def coins_lawsD(1) split: option.splits if_splits)

lemma authorised_mutation_can_pay:
  assumes "coins_laws nd" and "authorise_operations nd ops n pk v = Ok ()" and "OpMutation \<in> set ops"
  shows "can_pay nd n v"
proof -
  obtain bal where bal: "get_balance v n = Ok bal"
    using assms(2) by (auto simp: authorise_operations_def res_and_then_eq_Ok)
  have "authorise_owner nd v bal ops = Ok () \<Longrightarrow> OpMutation \<in> set ops \<Longrightarrow>
      has_sufficient_balance nd v bal COST_OF_PUT"
    by (induction ops) (auto split: if_splits)
  moreover have "authorise_app nd v bal perms ops = Ok () \<Longrightarrow> OpMutation \<in> set ops \<Longrightarrow>
      has_sufficient_balance nd v bal COST_OF_PUT" for perms
    by (induction ops) (auto split: if_splits operation.splits)
  ultimately have "has_sufficient_balance nd v bal COST_OF_PUT"
    using assms(2,3) bal
    by (auto simp: authorise_operations_def res_and_then_eq_Ok split: if_splits)
  then show ?thesis
    using sufficient_can_pay [OF assms(1) bal] by simp
qed

lemma can_pay_insert_data [simp]: "can_pay nd n (insert_data i d v) = can_pay nd n v"
  by (simp add: can_pay_def insert_data_def)

lemma never_panics_put_data:
  assumes laws: "coins_laws nd" "id_laws nd"
  shows "never_panics (put_data nd i d requester)"
proof (rule never_panicsI)
  fix v
  have pay: "authorise_operations nd [OpMutation] (public_id_name nd requester) pk v = Ok () \<Longrightarrow>
      commit_mutation nd (public_id_name nd requester) v \<noteq> None \<and>
      commit_mutation nd (public_id_name nd requester) (insert_data i d v) \<noteq> None" for pk
    using authorised_mutation_can_pay [OF laws(1)] by (simp add: commit_mutation_panics_iff laws(1))
  show "put_data nd i d requester v \<noteq> None"
    using pay id_lawsD [OF laws(2)]
    by (auto simp: put_data_def and_then_def split: public_id.splits sum.splits data_id.splits)
qed

lemma never_panics_fund_new_balance:
  assumes laws: "coins_laws nd"
  shows "never_panics (fund_new_balance nd s d owner amount t)"
proof (rule never_panicsI)
  fix v
  have pay: "commit_mutation nd s w \<noteq> None"
    if bal: "get_balance v s = Ok bal" and tot: "checked_add nd amount COST_OF_PUT = Some total"
      and suf: "has_sufficient_balance nd v bal total"
      and cr: "create_balance nd d owner v = Some (Ok (), w)" for bal total w
  proof -
    have "unat total = unat amount + 1"
      using coins_lawsD(2) [OF laws tot] by (simp add: COST_OF_PUT_def)
    then have "COST_OF_PUT \<le> total" by (simp add: COST_OF_PUT_def word_le_nat_alt)
    then have "can_pay nd s v" by (rule sufficient_can_pay [OF laws bal suf])
    moreover have "w = v \<or> (\<exists>b. coin_balances v d = None \<and> w = set_coin_balance d b v)"
      using create_balance_Some [OF cr] by (auto simp: get_coin_balance_def)
    ultimately have "can_pay nd s w" by (fastforce simp: can_pay_def)
    then show ?thesis by (simp add: commit_mutation_panics_iff laws)
  qed
  show "fund_new_balance nd s d owner amount t v \<noteq> None"
    unfolding fund_new_balance_def
  proof (intro and_then_answers never_panicsD [OF never_panics_transfer])
    fix bal v' u w
    assume bal: "gets (\<lambda>v. get_balance v s) v = Some (Ok bal, v')"
    let ?m = "\<lambda>v. case checked_add nd amount COST_OF_PUT of
        None \<Rightarrow> Some (Err ExcessiveValue, v)
      | Some tot \<Rightarrow> if \<not> has_sufficient_balance nd v bal tot then Some (Err InsufficientBalance, v)
          else create_balance nd d owner v"
    show "?m v' \<noteq> None"
      by (auto simp: create_balance_def split: option.splits sum.splits)
    assume "?m v' = Some (Ok u, w)"
    then show "commit_mutation nd s w \<noteq> None"
      using bal pay by (auto split: option.splits if_splits)
  qed simp
qed

lemma never_panics_required:
  "coins_laws nd \<Longrightarrow> never_panics (required_operations nd amount)"
  by (simp add: required_operations_def coins_lawsD(4) never_panics_basic)

lemma never_panics_create_login_packet:
  assumes "coins_laws nd"
  shows "never_panics (req_create_login_packet nd rpk opk packet)"
proof (rule never_panicsI)
  fix v
  let ?s = "xor_name_of_pk nd opk"
  have "get_balance v ?s = Ok bal \<Longrightarrow> has_sufficient_balance nd v bal COST_OF_PUT \<Longrightarrow>
      commit_mutation nd ?s v \<noteq> None" for bal
    using sufficient_can_pay [OF assms] by (simp add: commit_mutation_panics_iff assms)
  then show "req_create_login_packet nd rpk opk packet v \<noteq> None"
    by (auto simp: req_create_login_packet_def respond_def Let_def and_then_def
        split: sum.splits option.splits prod.splits)
qed

text \<open>
  The requests whose arm pays without having checked the balance: those that change mutable or
  append-only data in place.
\<close>

definition pays_unchecked :: "request \<Rightarrow> bool" where
  "pays_unchecked request = (case request of
     SetMDataUserPermissions _ _ _ _ \<Rightarrow> True
   | DelMDataUserPermissions _ _ _ \<Rightarrow> True
   | MutateMDataEntries _ _ \<Rightarrow> True
   | AppendSeq _ _ \<Rightarrow> True
   | AppendUnseq _ \<Rightarrow> True
   | AddPubADataPermissions _ _ _ \<Rightarrow> True
   | AddUnpubADataPermissions _ _ _ \<Rightarrow> True
   | SetADataOwner _ _ _ \<Rightarrow> True
   | _ \<Rightarrow> False)"

lemmas read_arm_defs = req_get_idata_def req_delete_unpub_idata_def
  req_list_auth_keys_and_version_def req_ins_auth_key_def req_del_auth_key_def
  req_transfer_coins_def req_get_balance_def req_get_mdata_def
  req_get_mdata_value_def req_get_mdata_shell_def req_get_mdata_version_def
  req_list_mdata_entries_def req_list_mdata_keys_def req_list_mdata_values_def
  req_list_mdata_user_permissions_def req_list_mdata_permissions_def req_get_adata_def
  req_get_adata_shell_def req_get_adata_range_def req_get_adata_value_def
  req_get_adata_indices_def req_get_adata_last_entry_def req_get_adata_permissions_def
  req_get_pub_adata_user_permissions_def req_get_unpub_adata_user_permissions_def
  req_get_adata_owners_def req_get_login_packet_def req_delete_adata_def

lemma never_panics_if: "(b \<Longrightarrow> never_panics m) \<Longrightarrow> (\<not> b \<Longrightarrow> never_panics n) \<Longrightarrow> never_panics (if b then m else n)"
  by simp

lemma never_panics_writes:
  "never_panics (req_delete_mdata nd requester rpk req a)"
  "never_panics (req_update_login_packet nd rpk packet)"
  by (auto simp: never_panics_def req_delete_mdata_def req_update_login_packet_def respond_def
      checked_mdata_def get_mdata_def and_then_def
      split: option.splits sum.splits public_id.splits)

lemma never_panics_puts:
  assumes "coins_laws nd" "id_laws nd"
  shows "never_panics (req_put_idata nd requester opk d)"
    and "never_panics (req_put_mdata nd requester opk m)"
    and "never_panics (req_put_adata nd requester opk x)"
  unfolding req_put_idata_def req_put_mdata_def req_put_adata_def Let_def
  by (auto intro!: never_panics_intros never_panics_if never_panics_put_data assms
      split: option.split)

lemma never_panics_funding:
  assumes "coins_laws nd"
  shows "never_panics (req_create_balance nd rpk opk owner amount t)"
    and "never_panics (req_create_login_packet_for nd rpk opk owner amount t packet)"
  unfolding req_create_balance_def req_create_login_packet_for_def Let_def
  by (intro never_panics_intros never_panics_if never_panics_fund_new_balance
      never_panics_required assms; simp add: never_panics_def)+

lemma never_panics_handle:
  assumes "coins_laws nd" "id_laws nd" "\<not> pays_unchecked request"
  shows "never_panics (handle_request nd requester rpk opk request)"
  using assms(3) unfolding handle_request_def pays_unchecked_def
  by (cases request)
    (auto simp: never_panics_writes never_panics_puts [OF assms(1,2)]
      never_panics_funding [OF assms(1)] never_panics_create_login_packet [OF assms(1)]
      read_arm_defs Let_def intro!: never_panics_intros never_panics_if)

subsection \<open>Properties\<close>

text \<open>
  (C20) Every request that does not change mutable or append-only data in place is answered: the
  vault never panics on it, whatever its state and whoever sends it, given that coins are checked
  nanos and that an app acts at its owner's name.
\<close>

theorem request_answered:
  assumes "coins_laws nd" and "id_laws nd" and "\<not> pays_unchecked request"
  shows "\<exists>response v'. process_request nd requester (MsgRequest request mid sig) v =
    Some (Ok (MsgResponse response mid), v')"
proof (cases "authenticate nd requester request mid sig v")
  case (Inr keys)
  moreover obtain response v' where
    "handle_request nd requester (fst keys) (snd keys) request v = Some (response, v')"
    using never_panicsD [OF never_panics_handle [OF assms]] by fastforce
  ultimately show ?thesis
    by (cases keys) (simp add: process_request_def)
qed (simp add: process_request_def)

theorem request_answered_witness:
  "\<exists>response v'. process_request sample_nd (App alice_app)
     (MsgRequest (PutIData (IPub [9])) [] (Some [7])) sample_vault =
       Some (Ok (MsgResponse response []), v')"
  by (rule request_answered [OF sample_coins_laws sample_id_laws]) (simp add: pays_unchecked_def)

text \<open>
  (C38) Mutating the entries of mutable data is paid for without a check: once the sender is
  authenticated and the mutation itself is accepted, the vault panics exactly when the balance it
  acts on cannot pay the cost of a mutation.
\<close>

theorem mutate_entries_panics_iff_broke:
  assumes "coins_laws nd"
    and "authenticate nd requester (MutateMDataEntries a acts) mid sig v = Ok (rpk, opk)"
    and "nae_manager v (IdMutable a) = Some (Mutable m)" and "md_address nd m = a"
    and "md_mutate_entries nd m acts rpk = Ok m'"
  shows "process_request nd requester (MsgRequest (MutateMDataEntries a acts) mid sig) v = None \<longleftrightarrow>
    \<not> can_pay nd (public_id_name nd requester) v"
proof -
  have "process_request nd requester (MsgRequest (MutateMDataEntries a acts) mid sig) v = None \<longleftrightarrow>
      commit_mutation nd (public_id_name nd requester) (insert_data (IdMutable a) (Mutable m') v) = None"
    using assms(2-)
    by (auto simp: process_request_def handle_request_def req_mutate_mdata_entries_def respond_def
        checked_mdata_def get_mdata_def get_data_def check_perms_mdata_def rewrite_mdata_def
        and_then_def split: option.splits)
  then show ?thesis
    by (simp only: commit_mutation_panics_iff [OF assms(1)] can_pay_insert_data)
qed

definition broke_vault :: vault where
  "broke_vault = insert_data (IdMutable (MSeqAddr (XorName [3]) 0)) (Mutable (MSeq [3]))
     (mock_create_balance sample_nd (PublicKey [3]) 0 sample_vault)"

theorem mutate_entries_panics_iff_broke_witness:
  "process_request sample_nd (Client (ClientPublicId [3]))
     (MsgRequest (MutateMDataEntries (MSeqAddr (XorName [3]) 0) (SeqActions [])) [] (Some [3]))
     broke_vault = None"
proof -
  have "process_request sample_nd (Client (ClientPublicId [3]))
     (MsgRequest (MutateMDataEntries (MSeqAddr (XorName [3]) 0) (SeqActions [])) [] (Some [3]))
     broke_vault = None \<longleftrightarrow>
     \<not> can_pay sample_nd (public_id_name sample_nd (Client (ClientPublicId [3]))) broke_vault"
    by (rule mutate_entries_panics_iff_broke [OF sample_coins_laws, of _ _ _ _ _ _
          "PublicKey [3]" "PublicKey [3]" "MSeq [3]" "MSeq [3]"])
      (simp_all add: vault_eval sample_simps broke_vault_def Let_def)
  moreover have "\<not> can_pay sample_nd (XorName [3]) broke_vault"
    by (simp add: can_pay_def broke_vault_def vault_eval sample_simps)
  ultimately show ?thesis
    by (simp add: sample_nd_def)
qed





text \<open>
  Immutable data can be read back: after a successful \<open>PutIData\<close>, an authenticated
  \<open>GetIData\<close> of its address by anyone (published) or by its owner (unpublished) returns data of
  that address, and exactly the data put where the address was free before.
\<close>

theorem put_then_get_idata:
  assumes "idata_laws nd" and "vault_wf nd v"
    and "req_put_idata nd requester owner_pk d v = Some (RespMutation (Ok ()), v')"
    and "case d of IPub x \<Rightarrow> True | IUnpub u \<Rightarrow> unpub_idata_owner nd u = reader_pk"
  shows "\<exists>d'. req_get_idata nd reader_pk (idata_addr nd d) v' = Some (RespGetIData (Ok d'), v') \<and>
    idata_addr nd d' = idata_addr nd d \<and>
    (nae_manager v (IdImmutable (idata_addr nd d)) = None \<longrightarrow> d' = d)"
proof -
  let ?i = "IdImmutable (idata_addr nd d)"
  have put: "put_data nd ?i (Immutable d) requester v = Some (Ok (), v')"
    using assms(3)
    by (auto simp: req_put_idata_def respond_def Let_def split: option.splits if_splits)
  have stored: "nae_manager v' ?i = Some (Immutable d) \<and> nae_manager v ?i = None \<or>
      nae_manager v' ?i = nae_manager v ?i \<and> nae_manager v ?i \<noteq> None \<and>
      idata_addr_is_pub (idata_addr nd d)"
    using put by (auto simp: put_data_def contains_data_def elim!: and_then_Ok
        split: public_id.splits if_splits dest!: commit_nae)
  then show ?thesis
  proof (elim disjE conjE)
    assume "nae_manager v' ?i = Some (Immutable d)"
    then show ?thesis
      using assms(4) by (auto simp: req_get_idata_def respond_def and_then_def get_idata_def
          get_data_def split: idata.splits)
  next
    assume old: "nae_manager v' ?i = nae_manager v ?i" "nae_manager v ?i \<noteq> None"
      "idata_addr_is_pub (idata_addr nd d)"
    then obtain d' where d': "nae_manager v ?i = Some (Immutable d')"
      "idata_addr nd d' = idata_addr nd d"
      using assms(2) by (auto simp: vault_wf_def) (metis data.exhaust id_matches.simps)
    then obtain x where "d' = IPub x"
      using old(3) assms(1) by (cases d') (auto simp: idata_laws_def, metis)
    with d' old show ?thesis
      by (auto simp: req_get_idata_def respond_def and_then_def get_idata_def get_data_def)
  qed
qed

theorem put_then_get_idata_witness:
  "\<exists>d'. req_get_idata sample_nd (PublicKey [2]) (IPubAddr (XorName [9]))
      (snd (the (req_put_idata sample_nd (Client alice) (PublicKey [1]) (IPub [9]) sample_vault))) =
      Some (RespGetIData (Ok d'), snd (the (req_put_idata sample_nd (Client alice) (PublicKey [1])
        (IPub [9]) sample_vault)))"
proof -
  let ?p = "req_put_idata sample_nd (Client alice) (PublicKey [1]) (IPub [9])"
  have run: "?p sample_vault = Some (RespMutation (Ok ()), snd (the (?p sample_vault)))"
    by (simp add: vault_eval sample_simps Let_def req_put_idata_def)
  have wf: "vault_wf sample_nd sample_vault"
    by (simp add: vault_wf_def sample_simps balance_wf_def)
  have "idata_addr sample_nd (IPub [9]) = IPubAddr (XorName [9])"
    by (simp add: sample_nd_def)
  with put_then_get_idata [OF sample_idata_laws wf run, of "PublicKey [2]"] show ?thesis
    by auto
qed

subsection \<open>Authorised keys\<close>

datatype key_op = InsKey public_key app_permissions u64 | DelKey public_key u64

fun run_key_op :: "xor_name \<Rightarrow> key_op \<Rightarrow> unit vm" where
  "run_key_op n (InsKey k p ver) = ins_auth_key n k p ver"
| "run_key_op n (DelKey k ver) = del_auth_key n k ver"

text \<open>The number of operations of a sequence that succeed, and the vault after them.\<close>

fun run_key_ops :: "xor_name \<Rightarrow> key_op list \<Rightarrow> vault \<Rightarrow> nat \<times> vault" where
  "run_key_ops n [] v = (0, v)"
| "run_key_ops n (op # ops) v = (case run_key_op n op v of
     None \<Rightarrow> (0, v)
   | Some (r, v') \<Rightarrow>
       (let (k, v'') = run_key_ops n ops v' in (if is_ok r then Suc k else k, v'')))"

definition keys_version :: "vault \<Rightarrow> xor_name \<Rightarrow> u64" where
  "keys_version v n = (case client_manager v n of None \<Rightarrow> 0 | Some a \<Rightarrow> acc_version a)"

lemma keys_version_ensure: "keys_version (ensure_account n v) n = keys_version v n"
  by (auto simp: keys_version_def ensure_account_def insert_account_def account_new_def
      set_account_def get_account_def split: option.splits)

lemma ensure_account_Some: "\<exists>a. client_manager (ensure_account n v) n = Some a"
  by (auto simp: ensure_account_def insert_account_def get_account_def set_account_def)

lemma run_key_op_version:
  assumes "run_key_op n op v = Some (r, v')"
  shows "keys_version v' n = (if is_ok r then keys_version v n + 1 else keys_version v n)"
proof -
  obtain a where a: "client_manager (ensure_account n v) n = Some a"
    using ensure_account_Some by blast
  have ver: "keys_version v n = acc_version a"
    using a keys_version_ensure [of n v] by (simp add: keys_version_def)
  have "keys_version (ensure_account n v) n = keys_version v n"
    by (rule keys_version_ensure)
  then show ?thesis
    using assms ver a
    by (cases op) (auto simp: ins_auth_key_def del_auth_key_def Let_def get_account_def
        keys_version_def set_account_def account_ins_auth_key_Ok account_del_auth_key_Ok
        split: sum.splits)
qed

text \<open>
  The version of an account's key list counts its successful changes: after any sequence of
  insertions and deletions it has grown by exactly the number of those that succeeded (modulo the
  64 bits it is kept in), so a change is accepted only if it names the next version.
\<close>

theorem keys_version_counts_changes:
  assumes "run_key_ops n ops v = (k, v')"
  shows "keys_version v' n = keys_version v n + of_nat k"
  using assms
proof (induction ops arbitrary: v k v')
  case (Cons op ops)
  have np: "run_key_op n op v \<noteq> None"
    by (cases op) (simp_all add: never_panicsD never_panics_keys)
  then obtain r w where r: "run_key_op n op v = Some (r, w)" by auto
  obtain j u where j: "run_key_ops n ops w = (j, u)" by fastforce
  show ?case
    using Cons.prems Cons.IH [OF j] run_key_op_version [OF r] r j
    by (auto simp: Let_def split: if_splits)
qed auto

theorem keys_version_counts_changes_witness:
  "keys_version (snd (run_key_ops (XorName [1])
     [InsKey (PublicKey [7]) (AppPermissions True True False) 1, DelKey (PublicKey [9]) 2,
      DelKey (PublicKey [7]) 2] sample_vault)) (XorName [1]) = 2"
proof -
  let ?ops = "[InsKey (PublicKey [7]) (AppPermissions True True False) 1, DelKey (PublicKey [9]) 2,
      DelKey (PublicKey [7]) 2]"
  have "run_key_ops (XorName [1]) ?ops sample_vault =
      (2, snd (run_key_ops (XorName [1]) ?ops sample_vault))"
    by (simp add: ins_auth_key_def del_auth_key_def account_ins_auth_key_def
        account_del_auth_key_def validate_version_def vault_eval sample_simps Let_def)
  from keys_version_counts_changes [OF this] show ?thesis
    by (simp add: keys_version_def sample_simps)
qed

subsection \<open>What an app may do with its owner's coins\<close>

definition app_vault :: vault where
  "app_vault = set_account (XorName [1])
     \<lparr>acc_auth_keys = [PublicKey [7] \<mapsto> AppPermissions False True False], acc_version = 1,
       acc_config = plain_config\<rparr> sample_vault"

text \<open>An app with a key on its owner's list that signs its requests gets past the authentication.\<close>

lemma listed_app_authenticated:
  assumes "id_laws nd" and "get_account v (xor_name_of_pk nd (client_public_key nd (app_owner nd a))) = Some account"
    and "acc_auth_keys account (app_public_key nd a) = Some perms"
    and "verify_signature nd s (app_public_key nd a) request mid = Ok ()"
  shows "authenticate nd (App a) request mid (Some s) v =
    Ok (app_public_key nd a, client_public_key nd (app_owner nd a))"
  using assms(2-4) by (simp add: authenticate_def id_lawsD(4) [OF assms(1)] res_and_then_def)

text \<open>What funding a new balance does when the source can pay.\<close>

lemma fund_new_balance_runs:
  assumes laws: "coins_laws nd" and lim: "\<not> unlimited_coins nd (vault_config v)"
    and b: "coin_balances v src = Some b" and dst: "coin_balances v dst = None"
    and add: "checked_add nd amount COST_OF_PUT = Some cost" "checked_add nd 0 amount = Some amount"
    and pays: "cost \<le> cb_value b"
  shows "fund_new_balance nd src dst owner amount t v = Some (Ok (Transaction t amount),
    v\<lparr>coin_balances := (coin_balances v)(src \<mapsto> b\<lparr>cb_value := cb_value b - 1 - amount\<rparr>,
      dst \<mapsto> add_transaction (coin_balance_new amount owner) amount t)\<rparr>)"
proof -
  have cost: "unat cost = unat amount + 1"
    using coins_lawsD(2) [OF laws add(1)] by (simp add: COST_OF_PUT_def)
  have le: "unat amount + 1 \<le> unat (cb_value b)"
    using pays cost by (simp add: word_le_nat_alt)
  then have one: "1 \<le> cb_value b"
    by (simp add: word_le_nat_alt)
  have amount: "amount \<le> cb_value b - 1"
    using le one by (simp add: word_le_nat_alt unat_sub)
  have ne: "src \<noteq> dst"
    using b dst by auto
  show ?thesis
    using lim b dst add pays one amount ne
    by (simp add: fund_new_balance_def and_then_def get_balance_def get_coin_balance_def balance_def
        has_sufficient_balance_def create_balance_def coins_lawsD [OF laws] commit_mutation_def
        transfer_coins_def debit_source_def credit_destination_def credit_balance_def debit_balance_def
        set_coin_balance_def coin_balance_new_def COST_OF_PUT_def fun_upd_twist)
qed

text \<open>
  (C39) The permission check of \<open>CreateBalance\<close> is inverted. Take an app whose key, another than the owner's, is on the list of its owner
  with the permission to perform mutations and without the permission to transfer coins, in a vault with a
  limited supply where the owner can pay \<open>amount\<close> (more than 0, and in the range of \<open>Coins\<close> with the cost added) and the cost of a mutation. Its signed request to transfer the coins is
  refused, and so is its signed request to create an empty balance for somebody other than the owner, both without an effect. Yet its signed
  request to create a balance with \<open>amount\<close> coins for anybody who has none yet, the app's own key included,
  is accepted: the owner's balance pays \<open>amount\<close> and the cost, the new balance has \<open>amount\<close>, and nothing else changes.
\<close>

theorem create_balance_without_transfer_permission:
  assumes "coins_laws nd" and "id_laws nd" and "\<not> unlimited_coins nd (vault_config v)"
    and "src = xor_name_of_pk nd (client_public_key nd (app_owner nd a))"
    and "src \<noteq> xor_name_of_pk nd (app_public_key nd a)"
    and "get_account v src = Some account" and "acc_auth_keys account (app_public_key nd a) = Some perms"
    and "perform_mutations perms" and "\<not> transfer_coins_perm perms"
    and "\<And>request. verify_signature nd (sign request) (app_public_key nd a) request mid = Ok ()"
    and "coin_balances v src = Some b" and "amount \<noteq> 0"
    and "checked_add nd amount COST_OF_PUT = Some cost" and "checked_add nd 0 amount = Some amount"
    and "cost \<le> cb_value b"
    and "dst = xor_name_of_pk nd new_owner" and "coin_balances v dst = None"
  shows "(let send = (\<lambda>request. process_request nd (App a) (MsgRequest request mid (Some (sign request))) v) in
    send (TransferCoins dst amount t) = Some (Ok (MsgResponse (RespTransaction (Err AccessDenied)) mid), v) \<and>
    send (CreateBalance new_owner 0 t) = Some (Ok (MsgResponse (RespTransaction (Err AccessDenied)) mid), v) \<and>
    send (CreateBalance new_owner amount t) =
      Some (Ok (MsgResponse (RespTransaction (Ok (Transaction t amount))) mid),
        v\<lparr>coin_balances := (coin_balances v)(src \<mapsto> b\<lparr>cb_value := cb_value b - 1 - amount\<rparr>,
          dst \<mapsto> add_transaction (coin_balance_new amount new_owner) amount t)\<rparr>))"
proof -
  have ne: "src \<noteq> dst"
    using assms(11,17) by auto
  have cost: "unat cost = unat amount + 1"
    using coins_lawsD(2) [OF assms(1,13)] by (simp add: COST_OF_PUT_def)
  have one: "1 \<le> cb_value b"
    using assms(15) cost by (simp add: word_le_nat_alt)
  have auth: "authenticate nd (App a) request mid (Some (sign request)) v =
      Ok (app_public_key nd a, client_public_key nd (app_owner nd a))" for request
    using listed_app_authenticated [OF assms(2) _ assms(7,10)] assms(4,6) by simp
  have ops: "authorise_operations nd ops src (app_public_key nd a) v = authorise_app nd v (cb_value b) perms ops" for ops
    using assms(5-7,11) by (simp add: authorise_operations_def get_balance_def get_coin_balance_def balance_def
        res_and_then_def)
  have fund: "fund_new_balance nd src dst new_owner amount t v = Some (Ok (Transaction t amount),
      v\<lparr>coin_balances := (coin_balances v)(src \<mapsto> b\<lparr>cb_value := cb_value b - 1 - amount\<rparr>,
        dst \<mapsto> add_transaction (coin_balance_new amount new_owner) amount t)\<rparr>)"
    by (rule fund_new_balance_runs [OF assms(1,3,11,17,13,14,15)])
  note process = process_request_def handle_request_def auth respond_def and_then_def required_operations_def
    coins_lawsD [OF assms(1)] has_sufficient_balance_def COST_OF_PUT_def Let_def
  have "process_request nd (App a) (MsgRequest (TransferCoins dst amount t) mid (Some (sign (TransferCoins dst amount t)))) v =
      Some (Ok (MsgResponse (RespTransaction (Err AccessDenied)) mid), v)"
    using assms(9,12) ops by (simp add: process req_transfer_coins_def assms(4))
  moreover have "process_request nd (App a) (MsgRequest (CreateBalance new_owner 0 t) mid (Some (sign (CreateBalance new_owner 0 t)))) v =
      Some (Ok (MsgResponse (RespTransaction (Err AccessDenied)) mid), v)"
    using assms(4,8,9,16) ops ne one by (simp add: process req_create_balance_def)
  moreover have "process_request nd (App a) (MsgRequest (CreateBalance new_owner amount t) mid (Some (sign (CreateBalance new_owner amount t)))) v =
      Some (Ok (MsgResponse (RespTransaction (Ok (Transaction t amount))) mid),
        v\<lparr>coin_balances := (coin_balances v)(src \<mapsto> b\<lparr>cb_value := cb_value b - 1 - amount\<rparr>,
          dst \<mapsto> add_transaction (coin_balance_new amount new_owner) amount t)\<rparr>)"
    using assms(4,8,12,16) ops ne one fund by (simp add: process req_create_balance_def)
  ultimately show ?thesis
    by (simp only: Let_def)
qed

theorem create_balance_without_transfer_permission_witness:
  "process_request sample_nd (App alice_app) (MsgRequest (CreateBalance (app_public_key sample_nd alice_app) 3 0) [] (Some [7])) app_vault =
     Some (Ok (MsgResponse (RespTransaction (Ok (Transaction 0 3))) []),
       app_vault\<lparr>coin_balances := (coin_balances app_vault)
         (XorName [1] \<mapsto> (coin_balance_new 10 (PublicKey [1]))\<lparr>cb_value := 6\<rparr>,
          XorName [7] \<mapsto> add_transaction (coin_balance_new 3 (app_public_key sample_nd alice_app)) 3 0)\<rparr>)"
proof -
  have owner: "XorName [1] = xor_name_of_pk sample_nd (client_public_key sample_nd (app_owner sample_nd alice_app))"
    "XorName [1] \<noteq> xor_name_of_pk sample_nd (app_public_key sample_nd alice_app)"
    "XorName [7] = xor_name_of_pk sample_nd (app_public_key sample_nd alice_app)"
    by (simp_all add: sample_nd_def)
  have limited: "\<not> unlimited_coins sample_nd (vault_config app_vault)"
    and account: "get_account app_vault (XorName [1]) =
      Some \<lparr>acc_auth_keys = [PublicKey [7] \<mapsto> AppPermissions False True False], acc_version = 1, acc_config = plain_config\<rparr>"
    by (simp_all add: app_vault_def set_account_def get_account_def unlimited_coins_def sample_simps)
  have listed: "acc_auth_keys \<lparr>acc_auth_keys = [PublicKey [7] \<mapsto> AppPermissions False True False], acc_version = 1,
      acc_config = plain_config\<rparr> (app_public_key sample_nd alice_app) = Some (AppPermissions False True False)"
    by (simp add: sample_nd_def)
  have perms: "perform_mutations (AppPermissions False True False)" "\<not> transfer_coins_perm (AppPermissions False True False)"
    by simp_all
  have balances: "coin_balances app_vault (XorName [1]) = Some (coin_balance_new 10 (PublicKey [1]))"
    "coin_balances app_vault (XorName [7]) = None"
    by (simp_all add: app_vault_def set_account_def sample_simps)
  have adds: "checked_add sample_nd 3 COST_OF_PUT = Some 4" "checked_add sample_nd 0 3 = Some 3" "(3 :: coins) \<noteq> 0"
    by (simp_all add: sample_nd_def COST_OF_PUT_def)
  have signs: "verify_signature sample_nd [7] (app_public_key sample_nd alice_app) request [] = Ok ()" for request
    by (simp add: sample_nd_def)
  have pays: "4 \<le> cb_value (coin_balance_new 10 (PublicKey [1]))" "cb_value (coin_balance_new 10 (PublicKey [1])) - 1 - 3 = 6"
    by (simp_all add: coin_balance_new_def)
  note run = create_balance_without_transfer_permission [OF sample_coins_laws sample_id_laws limited owner(1,2) account listed perms
      signs balances(1) adds(3,1,2) pays(1) owner(3) balances(2), unfolded Let_def pays(2)]
  show ?thesis
    by (rule run [THEN conjunct2, THEN conjunct2])
qed

end
