(* ===== verification/Mock_Network.thy ===== *)
theory Mock_Network
  imports Shared_Store Vault_Access Core_Error
begin

section \<open>The mock connection manager\<close>

text \<open>
  safe\_core/src/client/mock/connection\_manager.rs: the client's end of the mock network. It owns
  the vault with its store, the groups it is connected to, the test hooks and the channel of network
  events. A hook is a closure with its own state (\<open>FnMut\<close>): calling it gives a response or none and the
  hook for the next call. \<open>hook_shared\<close> says that another clone of the manager holds the hook, in
  which case \<open>Arc::get_mut\<close> gives nothing and the hook is not called.
\<close>

codatatype request_hook = RequestHook (call_hook: "request \<Rightarrow> response option \<times> request_hook")

record 'raw conn_manager =
  cm_vault :: "'raw stored_vault"
  cm_request_hook :: "request_hook option"
  cm_response_hook :: "(response \<Rightarrow> response) option"
  hook_shared :: bool
  cm_groups :: "public_id set"
  cm_events :: "network_event list" \<comment> \<open>what was sent on \<open>net_tx\<close>\<close>

type_synonym ('raw, 'a) net = "('raw conn_manager, core_error, 'a) prog"

definition cm_new :: "'raw stored_vault \<Rightarrow> 'raw conn_manager" where
  "cm_new v = \<lparr>cm_vault = v, cm_request_hook = None, cm_response_hook = None, hook_shared = False, cm_groups = {},
     cm_events = []\<rparr>"

definition cm_new_with_vault :: "safe_nd \<Rightarrow> string \<Rightarrow> config \<Rightarrow> 'raw disk \<Rightarrow> 'raw conn_manager" where
  "cm_new_with_vault nd temp_dir c d = cm_new (vault_new c, init_vault_store nd temp_dir c, d)"

definition has_connection_to :: "'raw conn_manager \<Rightarrow> public_id \<Rightarrow> bool" where
  "has_connection_to cm pub_id \<longleftrightarrow> pub_id \<in> cm_groups cm"

definition intercept_request :: "message \<Rightarrow> 'raw conn_manager \<Rightarrow> response option \<times> 'raw conn_manager" where
  "intercept_request msg cm = (case msg of
     MsgRequest request _ _ \<Rightarrow> (case cm_request_hook cm of
         None \<Rightarrow> (None, cm)
       | Some hook \<Rightarrow>
           (if hook_shared cm then (None, cm)
            else (case call_hook hook request of (answer, hook') \<Rightarrow>
                    (answer, cm\<lparr>cm_request_hook := Some hook'\<rparr>))))
   | _ \<Rightarrow> (None, cm))"

text \<open>The vault file is locked for writing for mutations and transactions only.\<close>

definition is_writing :: "safe_nd \<Rightarrow> message \<Rightarrow> bool" where
  "is_writing nd msg = (case msg of
     MsgRequest request _ _ \<Rightarrow> get_type nd request = Mutation \<or> get_type nd request = TransactionReq
   | _ \<Rightarrow> False)"

definition cm_send :: "safe_nd \<Rightarrow> 'raw codec \<Rightarrow> public_id \<Rightarrow> message \<Rightarrow> ('raw, response) net" where
  "cm_send nd cd pub_id msg cm0 = (case intercept_request msg cm0 of
     (Some resp, cm) \<Rightarrow> Some (Ok resp, cm)
   | (None, cm) \<Rightarrow>
       (case guarded cd (is_writing nd msg) (process_request nd pub_id msg) (cm_vault cm) of
          None \<Rightarrow> None
        | Some (Err e, st) \<Rightarrow> None
        | Some (Ok (MsgResponse response _), st) \<Rightarrow> Some (Ok response, cm\<lparr>cm_vault := st\<rparr>)
        | Some (Ok _, st) \<Rightarrow>
            Some (Err (Unexpected ''Logic error: Vault error returned invalid response''),
                  cm\<lparr>cm_vault := st\<rparr>)))"

definition cm_bootstrap :: "public_id \<Rightarrow> ('raw, unit) net" where
  "cm_bootstrap pub_id = modify (\<lambda>cm. cm\<lparr>cm_groups := insert pub_id (cm_groups cm)\<rparr>)"

definition cm_restart_network :: "'raw conn_manager \<Rightarrow> 'raw conn_manager" where
  "cm_restart_network cm = cm"

definition cm_disconnect :: "public_id \<Rightarrow> ('raw, unit) net" where
  "cm_disconnect pub_id = modify (\<lambda>cm.
     (let groups = cm_groups cm - {pub_id} in
      if groups = {}
      then cm\<lparr>cm_groups := groups, cm_events := cm_events cm @ [Disconnected]\<rparr>
      else cm\<lparr>cm_groups := groups\<rparr>))"

definition cm_allocate_test_coins ::
  "safe_nd \<Rightarrow> 'raw codec \<Rightarrow> xor_name \<Rightarrow> coins \<Rightarrow> u64 \<Rightarrow> ('raw conn_manager, snd_error, unit) prog" where
  "cm_allocate_test_coins nd cd name amount tid cm =
     (case guarded cd True (mock_increment_balance nd name amount tid) (cm_vault cm) of
        None \<Rightarrow> None
      | Some (r, st) \<Rightarrow> Some (r, cm\<lparr>cm_vault := st\<rparr>))"

definition cm_create_balance :: "safe_nd \<Rightarrow> 'raw codec \<Rightarrow> public_key \<Rightarrow> coins \<Rightarrow> ('raw, unit) net" where
  "cm_create_balance nd cd owner amount cm =
     (case guarded cd True (\<lambda>v. Some (Ok (), mock_create_balance nd owner amount v)) (cm_vault cm) of
        None \<Rightarrow> None
      | Some (r, st) \<Rightarrow> Some (r, cm\<lparr>cm_vault := st\<rparr>))"

definition simulate_disconnect :: "'raw conn_manager \<Rightarrow> 'raw conn_manager" where
  "simulate_disconnect cm =
     (if cm_groups cm \<noteq> {}
      then cm\<lparr>cm_groups := {}, cm_events := cm_events cm @ [Disconnected]\<rparr> else cm)"

definition set_request_hook :: "request_hook \<Rightarrow> 'raw conn_manager \<Rightarrow> 'raw conn_manager" where
  "set_request_hook hook cm = cm\<lparr>cm_request_hook := Some hook, hook_shared := False\<rparr>"

text \<open>Nothing reads the response hook.\<close>

definition set_response_hook :: "(response \<Rightarrow> response) \<Rightarrow> 'raw conn_manager \<Rightarrow> 'raw conn_manager" where
  "set_response_hook hook cm = cm\<lparr>cm_response_hook := Some hook\<rparr>"

definition remove_request_hook :: "'raw conn_manager \<Rightarrow> 'raw conn_manager" where
  "remove_request_hook cm = cm\<lparr>cm_request_hook := None\<rparr>"

subsection \<open>Reading requests leave the vault unchanged\<close>

text \<open>
  The requests that only read. \<open>ListAuthKeysAndVersion\<close> is not among them: the vault creates an
  empty account for a client it has not seen.
\<close>

definition reads_only :: "request \<Rightarrow> bool" where
  "reads_only request = (case request of
     GetIData _ \<Rightarrow> True | GetBalance \<Rightarrow> True | GetLoginPacket _ \<Rightarrow> True
   | GetMData _ \<Rightarrow> True | GetMDataValue _ _ \<Rightarrow> True | GetMDataShell _ \<Rightarrow> True
   | GetMDataVersion _ \<Rightarrow> True | ListMDataEntries _ \<Rightarrow> True | ListMDataKeys _ \<Rightarrow> True
   | ListMDataValues _ \<Rightarrow> True | ListMDataUserPermissions _ _ \<Rightarrow> True
   | ListMDataPermissions _ \<Rightarrow> True | GetAData _ \<Rightarrow> True | GetADataShell _ _ \<Rightarrow> True
   | GetADataRange _ _ \<Rightarrow> True | GetADataValue _ _ \<Rightarrow> True | GetADataIndices _ \<Rightarrow> True
   | GetADataLastEntry _ \<Rightarrow> True | GetADataPermissions _ _ \<Rightarrow> True
   | GetPubADataUserPermissions _ _ _ \<Rightarrow> True | GetUnpubADataUserPermissions _ _ _ \<Rightarrow> True
   | GetADataOwners _ _ \<Rightarrow> True
   | _ \<Rightarrow> False)"

interpretation same: state_relation "\<lambda>s s'. s' = s"
  by unfold_locales auto

lemma same_reads:
  "keeps_rel (\<lambda>v v'. v' = v) (get_idata a)"
  "keeps_rel (\<lambda>v v'. v' = v) (get_mdata nd m pk req)"
  "keeps_rel (\<lambda>v v'. v' = v) (get_adata nd x pk req)"
  "keeps_rel (\<lambda>v v'. v' = v) (checked_mdata nd m pk req)"
  unfolding get_idata_def get_mdata_def get_adata_def checked_mdata_def
  by (intro same.rel_rules)+

lemma handle_reads_only:
  assumes "reads_only request"
  shows "reply_keeps (\<lambda>v v'. v' = v) (handle_request nd requester rpk opk request)"
  using assms unfolding handle_request_def reads_only_def
  by (cases request)
    (auto simp: read_arm_defs Let_def intro!: reply_keeps_respond same.rel_rules same_reads
      split: option.split data.split)

lemma process_reads_only:
  assumes "process_request nd requester (MsgRequest request mid sig) v = Some (r, v')"
    and "reads_only request"
  shows "v' = v"
  using assms(1) reply_keepsD [OF handle_reads_only [OF assms(2)]]
  by (auto simp: process_request_def split: sum.splits option.splits)

lemma coin_programs_config:
  "keeps_rel (\<lambda>v v'. vault_config v' = vault_config v) (commit_mutation nd n)"
  "keeps_rel (\<lambda>v v'. vault_config v' = vault_config v) (transfer_coins nd s d a t)"
  "keeps_rel (\<lambda>v v'. vault_config v' = vault_config v) (create_balance nd d pk)"
  by (auto simp: keeps_rel_def commit_mutation_def transfer_coins_def debit_source_def
      credit_destination_def create_balance_def elim!: and_then_Some
      split: option.splits sum.splits if_splits)

interpretation cfg: vault_relation_all "\<lambda>v v'. vault_config v' = vault_config v" nd requester
  for nd requester
  by unfold_locales
    (auto intro: coin_programs_config simp: set_account_def insert_login_packet_def insert_data_def
      delete_data_def mock_create_balance_def)

subsection \<open>Several processes, one network\<close>

text \<open>A message that a client of process \<open>i\<close> sends, some time after the previous one.\<close>

datatype sent = Sent (sent_proc: nat) (sent_after: nat) (sent_by: public_id) (sent_msg: message)

definition net_access :: "safe_nd \<Rightarrow> sent \<Rightarrow> (snd_error + message) access" where
  "net_access nd s = Access (sent_proc s) (sent_after s) (is_writing nd (sent_msg s))
     (process_request nd (sent_by s) (sent_msg s))"

definition classified :: "safe_nd \<Rightarrow> sent \<Rightarrow> bool" where
  "classified nd s \<longleftrightarrow> is_writing nd (sent_msg s) \<or>
     (case sent_msg s of MsgRequest request _ _ \<Rightarrow> reads_only request | _ \<Rightarrow> True)"

lemma net_access_ok:
  assumes "0 < sent_after s" and "classified nd s"
  shows "access_ok (net_access nd s)"
  unfolding access_ok_def
proof (intro conjI allI impI)
  fix v r v' assume run: "acc_act (net_access nd s) v = Some (r, v')"
  then show "vault_config v' = vault_config v"
    using keeps_relD [OF cfg.process_request_rel] by (simp add: net_access_def)
  assume "\<not> acc_writing (net_access nd s)"
  with assms(2) run show "v' = v"
    by (cases "sent_msg s")
      (auto simp: net_access_def classified_def process_reads_only, simp_all add: process_request_def)
qed (simp add: net_access_def assms(1))

text \<open>
  (C5) Processes that start on the same new file, which each of them can open, read and write, share one network: for every interleaving
  of messages of their clients they get the answers that a single vault would give to the same sequence (and a panic where it panics), under these
  conditions: bincode decodes what it encodes, and encodes to more than nothing; some time on the clock of the modification times passes between two
  accesses; and each message is no request, or a request classed as a mutation or a transaction, or one of those that only read. So
  a listing of the authorised keys is not among the messages: it is classed as a read, but creates an account for a client the vault has not
  seen.
\<close>

theorem processes_share_one_network:
  assumes "codec_laws cd" and "path = path_join dir FILE_NAME" and "usable d path"
    and "files d path = None"
    and "\<forall>s \<in> set msgs. 0 < sent_after s \<and> classified nd s"
  shows "map_option fst (run_shared cd (map (net_access nd) msgs)
           (\<lambda>i. (vault_new c, FileStore (file_store_new dir)), d)) =
         map_option fst (run_single (map (net_access nd) msgs) (vault_new c))"
proof (rule run_shared_refines [OF assms(1)])
  show "shared_inv cd path (vault_new c) (\<lambda>i. (vault_new c, FileStore (file_store_new dir)), d)"
    using assms(2-4) by (simp add: shared_inv_def file_current_def proc_current_def file_store_new_def)
  show "\<forall>x \<in> set (map (net_access nd) msgs). access_ok x"
    using assms(5) by (auto intro: net_access_ok)
qed

text \<open>A codec for the instances: the contents of a file is the encoded cache, if there is one.\<close>

definition sample_codec :: "cache option codec" where
  "sample_codec = \<lparr>serialize = (\<lambda>c. Some (Some c)), deserialize = (\<lambda>raw. raw), no_bytes = None\<rparr>"

definition empty_disk :: "cache option disk" where
  "empty_disk = \<lparr>files = (\<lambda>p. None), clock = 0, can_open = (\<lambda>p. True), can_read = (\<lambda>p. True),
     can_write = (\<lambda>p. True)\<rparr>"

lemma sample_codec_laws: "codec_laws sample_codec"
  by (simp add: codec_laws_def sample_codec_def)

definition sample_session :: "sent list" where
  "sample_session =
     [Sent 0 1 (Client alice) (MsgRequest (CreateBalance (PublicKey [1]) 10 4) [0] (Some [1])),
      Sent 1 1 (Client alice) (MsgRequest GetBalance [1] (Some [1]))]"

theorem processes_share_one_network_witness:
  "map_option fst (run_shared sample_codec (map (net_access sample_nd) sample_session)
      (\<lambda>i. (vault_new plain_config, FileStore (file_store_new ''/tmp'')), empty_disk)) =
   Some [Ok (MsgResponse (RespTransaction (Ok (Transaction 4 10))) [0]),
         Ok (MsgResponse (RespGetBalance (Ok 10)) [1])]"
proof -
  have "map_option fst (run_shared sample_codec (map (net_access sample_nd) sample_session)
      (\<lambda>i. (vault_new plain_config, FileStore (file_store_new ''/tmp'')), empty_disk)) =
    map_option fst (run_single (map (net_access sample_nd) sample_session) (vault_new plain_config))"
    by (rule processes_share_one_network [OF sample_codec_laws HOL.refl])
      (auto simp: usable_def empty_disk_def sample_session_def classified_def is_writing_def
        sample_nd_def sample_type_def reads_only_def)
  then show ?thesis
    by (simp add: sample_session_def net_access_def vault_eval sample_simps Let_def
        req_create_balance_def req_get_balance_def)
qed

end
