(* ===== verification/Config_Handler.thy ===== *)
theory Config_Handler
  imports Mock_Network
begin

section \<open>Configuration files\<close>

text \<open>
  safe\_core/src/config\_handler.rs. The directories of the crate \<open>directories\<close>, the file system and the formats of the files are
  parameters; a configuration of quic-p2p is an opaque value with the operations that the code applies to it. \<open>custom\<close> is the value
  of the global \<open>CONFIG_DIR_PATH\<close>.
\<close>

record config_env =
  dirs_from_path :: "bytes \<Rightarrow> bytes option" \<comment> \<open>\<open>ProjectDirs::from_path\<close>, as the path of its configuration directory\<close>
  default_dirs :: "string \<Rightarrow> bytes option" \<comment> \<open>\<open>ProjectDirs::from\<close> for an application\<close>
  path_file :: "bytes \<Rightarrow> string \<Rightarrow> bytes" \<comment> \<open>a file in a directory\<close>
  path_to_str :: "bytes \<Rightarrow> bytes option" \<comment> \<open>a path that is valid UTF-8\<close>
  read_file :: "bytes \<Rightarrow> bytes + bytes"
  io_not_found :: "bytes \<Rightarrow> bool" \<comment> \<open>\<open>ErrorKind::NotFound\<close>\<close>
  parse_qp2p :: "bytes \<Rightarrow> (json_category \<times> bytes) + bytes"
  parse_node_info :: "bytes \<Rightarrow> (json_category \<times> bytes) + bytes"
  qp2p_default :: bytes
  qp2p_client :: "bytes option \<Rightarrow> bytes" \<comment> \<open>the default with the type client and a directory for the bootstrap cache\<close>
  qp2p_add_contact :: "bytes \<Rightarrow> bytes \<Rightarrow> bytes"

definition CONFIG_DIR_APPLICATION :: string where "CONFIG_DIR_APPLICATION = ''safe_core''"
definition CONFIG_FILE :: string where "CONFIG_FILE = ''safe_core.config''"
definition VAULT_CONFIG_DIR_APPLICATION :: string where "VAULT_CONFIG_DIR_APPLICATION = ''safe_vault''"
definition VAULT_CONNECTION_INFO_FILE :: string where "VAULT_CONNECTION_INFO_FILE = ''vault_connection_info.config''"

definition set_config_dir_path :: "bytes \<Rightarrow> bytes option \<Rightarrow> bytes option" where
  "set_config_dir_path path _ = Some path"

definition config_dirs :: "config_env \<Rightarrow> bytes option \<Rightarrow> bytes core_result" where
  "config_dirs ce custom =
     ok_or (core_error_from_str ''Cannot determine project directory paths'')
       (case custom of Some custom_path \<Rightarrow> dirs_from_path ce custom_path | None \<Rightarrow> default_dirs ce CONFIG_DIR_APPLICATION)"

definition vault_dirs :: "config_env \<Rightarrow> bytes option \<Rightarrow> bytes core_result" where
  "vault_dirs ce custom =
     ok_or (core_error_from_str ''Cannot determine vault directory paths'')
       (case custom of Some custom_path \<Rightarrow> dirs_from_path ce custom_path | None \<Rightarrow> default_dirs ce VAULT_CONFIG_DIR_APPLICATION)"

definition config_dir :: "config_env \<Rightarrow> bytes option \<Rightarrow> bytes core_result" where
  "config_dir ce custom = config_dirs ce custom"

definition read_config_file ::
  "config_env \<Rightarrow> (bytes \<Rightarrow> (json_category \<times> bytes) + 'a) \<Rightarrow> bytes \<Rightarrow> string \<Rightarrow> 'a core_result" where
  "read_config_file ce parse dirs file_name =
     res_and_then (res_map_err IoError (read_file ce (path_file ce dirs file_name))) (\<lambda>content.
       res_map_err (\<lambda>(category, err). core_error_from_json category err) (parse content))"

text \<open>\<open>mobile\<close> says whether the library is built for a platform on which the directory has to be set.\<close>

definition check_config_path_set :: "bytes \<Rightarrow> bytes option \<Rightarrow> unit core_result" where
  "check_config_path_set not_set custom = (if custom = None then Err (QuicP2p not_set) else Ok ())"

definition default_client_config :: "config_env \<Rightarrow> bytes option \<Rightarrow> bytes option \<Rightarrow> bytes core_result" where
  "default_client_config ce mobile custom =
     res_and_then (case mobile of Some not_set \<Rightarrow> check_config_path_set not_set custom | None \<Rightarrow> Ok ()) (\<lambda>_.
     res_map (qp2p_client ce) (case custom of
         Some custom_path \<Rightarrow> res_map Some (ok_or (core_error_from_str ''Config path is not a valid UTF-8 string'') (path_to_str ce custom_path))
       | None \<Rightarrow> Ok None))"

definition read_qp2p_from_file :: "config_env \<Rightarrow> bytes option \<Rightarrow> bytes option \<Rightarrow> bytes core_result" where
  "read_qp2p_from_file ce mobile custom =
     res_and_then (config_dirs ce custom) (\<lambda>dirs.
     res_and_then (case read_config_file ce (parse_qp2p ce) dirs CONFIG_FILE of
         Err (IoError err) \<Rightarrow> if io_not_found ce err then default_client_config ce mobile custom else Err (IoError err)
       | result \<Rightarrow> result) (\<lambda>cfg.
     res_map (\<lambda>dirs. case read_config_file ce (parse_node_info ce) dirs VAULT_CONNECTION_INFO_FILE of
         Ok node_info \<Rightarrow> qp2p_add_contact ce node_info cfg
       | Err _ \<Rightarrow> cfg) (vault_dirs ce custom)))"

definition config_new :: "config_env \<Rightarrow> bytes option \<Rightarrow> bytes option \<Rightarrow> config" where
  "config_new ce mobile custom =
     \<lparr>quic_p2p = (case read_qp2p_from_file ce mobile custom of Ok cfg \<Rightarrow> cfg | Err _ \<Rightarrow> qp2p_default ce), dev = None\<rparr>"

definition get_config :: "config_env \<Rightarrow> bytes option \<Rightarrow> bytes option \<Rightarrow> config" where
  "get_config ce mobile custom = config_new ce mobile custom"

text \<open>
  Whatever the files say, the options for developers are never set. The vault that a process makes of its configuration is therefore
  governed by the environment variables alone.
\<close>

lemma process_vault_store:
  "init_vault_store nd temp_dir (get_config ce mobile custom) =
     (if env_var nd ''SAFE_MOCK_IN_MEMORY_STORAGE'' = None
      then FileStore (file_store_new (case env_var nd ''SAFE_MOCK_VAULT_PATH'' of Some path \<Rightarrow> path | None \<Rightarrow> temp_dir))
      else MemoryStore)"
  by (simp add: get_config_def config_new_def init_vault_store_def init_vault_path_def split: option.split)

text \<open>Without a configuration file and without a local vault, a client uses the default configuration of clients.\<close>

lemma config_without_files:
  assumes "config_dirs ce custom = Ok dirs" "read_file ce (path_file ce dirs CONFIG_FILE) = Err err" "io_not_found ce err"
    and "vault_dirs ce custom = Ok vdirs" "read_file ce (path_file ce vdirs VAULT_CONNECTION_INFO_FILE) = Err err'"
    and "custom = None \<or> path_to_str ce (the custom) = Some p"
  shows "quic_p2p (get_config ce None custom) = qp2p_client ce (if custom = None then None else Some p)"
  using assms by (cases custom)
    (auto simp: get_config_def config_new_def read_qp2p_from_file_def read_config_file_def default_client_config_def ok_or_def)

end
