(* ===== verification/Client_Base.thy ===== *)
theory Client_Base
  imports Core_Error
begin

section \<open>Sending requests\<close>

text \<open>
  The part of safe\_core/src/client/mod.rs below the \<open>Client\<close> methods, and \<open>SafeKey\<close> of client/id.rs:
  composing and signing a message, sending it through the connection manager, and what a client does
  with a response of the wrong kind.

  The connection manager is the mock or the real one, chosen by a cargo feature; the client code
  is the same for both. It is an argument here (the \<open>tr_\<close> fields of \<open>client_env\<close>), and the mock
  manager is the instance in \<open>Client_Mock\<close>. The other fields are the third-party operations the
  client calls: keys and signatures, bincode, the LRU cache, random numbers. Random values are taken
  from a sequence, the number of draws so far being part of the state.
\<close>

datatype client_full_id = ClientFullId bytes
datatype app_full_id = AppFullId bytes

datatype safe_key = SafeApp app_full_id | SafeClient client_full_id

type_synonym lru = "(idata_address \<times> idata) list"

record key_ops =
  full_client_id :: "client_full_id \<Rightarrow> client_public_id"
  full_app_id :: "app_full_id \<Rightarrow> app_public_id"
  client_sign :: "client_full_id \<Rightarrow> bytes \<Rightarrow> signature"
  app_sign :: "app_full_id \<Rightarrow> bytes \<Rightarrow> signature"
  serialise_request :: "request \<Rightarrow> message_id \<Rightarrow> bytes option"

record local_ops = key_ops +
  new_message_id :: "nat \<Rightarrow> message_id"
  random_u64 :: "nat \<Rightarrow> u64"
  channel_closed_text :: string \<comment> \<open>how a failed send on a channel prints\<close>
  lru_get_mut :: "idata_address \<Rightarrow> lru \<Rightarrow> idata option \<times> lru"
  lru_insert :: "idata_address \<Rightarrow> idata \<Rightarrow> lru \<Rightarrow> lru"
  lru_remove :: "idata_address \<Rightarrow> lru \<Rightarrow> lru"

record 'n client_env = local_ops +
  ce_nd :: safe_nd
  tr_send :: "public_id \<Rightarrow> message \<Rightarrow> ('n, core_error, response) prog"
  tr_send_clone :: "public_id \<Rightarrow> message \<Rightarrow> ('n, core_error, response) prog"
    \<comment> \<open>\<open>send\<close> on a clone of the manager\<close>
  tr_bootstrap :: "safe_key \<Rightarrow> ('n, core_error, unit) prog"
  tr_disconnect :: "public_id \<Rightarrow> ('n, core_error, unit) prog"
  tr_new :: "'n \<Rightarrow> 'n core_result" \<comment> \<open>a new manager on the same network\<close>
  tr_drop :: "'n \<Rightarrow> 'n \<Rightarrow> 'n" \<comment> \<open>the first manager, after the second one is gone\<close>
  tr_restart :: "'n \<Rightarrow> 'n"

text \<open>The documented behaviour of a least-recently-used cache: an insertion may evict other keys.\<close>

definition lru_laws :: "'n client_env \<Rightarrow> bool" where
  "lru_laws env \<longleftrightarrow>
     (\<forall>k c. fst (lru_get_mut env k c) = map_of c k \<and> map_of (snd (lru_get_mut env k c)) = map_of c) \<and>
     (\<forall>k v c. map_of (lru_insert env k v c) k = Some v) \<and>
     (\<forall>k v c k'. k' \<noteq> k \<longrightarrow> map_of (lru_insert env k v c) k' = map_of c k' \<or>
        map_of (lru_insert env k v c) k' = None) \<and>
     (\<forall>k c. map_of (lru_remove env k c) = (map_of c)(k := None))"

subsection \<open>SafeKey\<close>

definition safe_key_public_id :: "'n client_env \<Rightarrow> safe_key \<Rightarrow> public_id" where
  "safe_key_public_id env k = (case k of
     SafeApp a \<Rightarrow> App (full_app_id env a)
   | SafeClient c \<Rightarrow> Client (full_client_id env c))"

definition safe_key_public_key :: "'n client_env \<Rightarrow> safe_key \<Rightarrow> public_key" where
  "safe_key_public_key env k = (case k of
     SafeApp a \<Rightarrow> app_public_key (ce_nd env) (full_app_id env a)
   | SafeClient c \<Rightarrow> client_public_key (ce_nd env) (full_client_id env c))"

definition safe_key_sign :: "'n client_env \<Rightarrow> safe_key \<Rightarrow> bytes \<Rightarrow> signature" where
  "safe_key_sign env k msg = (case k of
     SafeApp a \<Rightarrow> app_sign env a msg
   | SafeClient c \<Rightarrow> client_sign env c msg)"

subsection \<open>State\<close>

record 'n world =
  w_net :: 'n \<comment> \<open>the connection manager and the network behind it\<close>
  w_draws :: nat

record 'n client = "'n world" +
  cl_full_id :: safe_key
  cl_owner_key :: public_key
  cl_cache :: lru
  cl_timeout :: nat
  cl_events :: "network_event list" \<comment> \<open>what was sent on \<open>net_tx\<close>\<close>
  cl_rx_alive :: bool \<comment> \<open>the receiver of the events exists\<close>

type_synonym ('n, 'z, 'a) wm = "(('n, 'z) world_scheme, core_error, 'a) prog"
type_synonym ('n, 'a) cm = "('n client, core_error, 'a) prog"

definition on_net :: "('n, core_error, 'a) prog \<Rightarrow> ('n, 'z, 'a) wm" where
  "on_net m w = (case m (w_net w) of
     None \<Rightarrow> None
   | Some (r, n) \<Rightarrow> Some (r, w\<lparr>w_net := n\<rparr>))"

definition draw :: "(nat \<Rightarrow> 'a) \<Rightarrow> ('n, 'z, 'a) wm" where
  "draw f w = Some (Ok (f (w_draws w)), w\<lparr>w_draws := Suc (w_draws w)\<rparr>)"

text \<open>\<open>x.unwrap_or_else(rand::random)\<close>\<close>

definition or_random :: "'n client_env \<Rightarrow> u64 option \<Rightarrow> ('n, 'z, u64) wm" where
  "or_random env x = (case x of Some i \<Rightarrow> lift_res (Ok i) | None \<Rightarrow> draw (random_u64 env))"

subsection \<open>Messages\<close>

text \<open>A message signed with a key, or not signed. Serialisation is unwrapped.\<close>

definition signed_message :: "'n client_env \<Rightarrow> safe_key option \<Rightarrow> request \<Rightarrow> ('n, 'z, message) wm" where
  "signed_message env signer request =
     and_then (draw (new_message_id env)) (\<lambda>mid.
       case signer of
         None \<Rightarrow> lift_res (Ok (MsgRequest request mid None))
       | Some k \<Rightarrow> (case serialise_request env request mid of
           None \<Rightarrow> panic
         | Some b \<Rightarrow> lift_res (Ok (MsgRequest request mid (Some (safe_key_sign env k b))))))"

definition sign_request :: "'n client_env \<Rightarrow> request \<Rightarrow> client_full_id \<Rightarrow> ('n, 'z, message) wm" where
  "sign_request env request client_id = signed_message env (Some (SafeClient client_id)) request"

definition compose_message :: "'n client_env \<Rightarrow> request \<Rightarrow> bool \<Rightarrow> ('n, message) cm" where
  "compose_message env request sign c =
     signed_message env (if sign then Some (cl_full_id c) else None) request c"

definition own_public_id :: "'n client_env \<Rightarrow> 'n client \<Rightarrow> public_id" where
  "own_public_id env c = safe_key_public_id env (cl_full_id c)"

definition own_public_key :: "'n client_env \<Rightarrow> 'n client \<Rightarrow> public_key" where
  "own_public_key env c = safe_key_public_key env (cl_full_id c)"

subsection \<open>Sending\<close>

definition send :: "'n client_env \<Rightarrow> request \<Rightarrow> ('n, response) cm" where
  "send env request =
     and_then (compose_message env request (get_type (ce_nd env) request \<noteq> PublicGet)) (\<lambda>msg c.
       on_net (tr_send env (own_public_id env c) msg) c)"

text \<open>
  \<open>match res { Response::X(res) => res.map_err(CoreError::from), _ => Err(ReceivedUnexpectedEvent) }\<close>:
  the selector gives the result inside the variant the method expects.
\<close>

definition expect_response :: "(response \<Rightarrow> 'a snd_result option) \<Rightarrow> response \<Rightarrow> 'a core_result" where
  "expect_response sel res = (case sel res of
     Some r \<Rightarrow> res_map_err DataError r
   | None \<Rightarrow> Err ReceivedUnexpectedEvent)"

definition as_mutation :: "response \<Rightarrow> unit snd_result option" where
  "as_mutation res = (case res of RespMutation r \<Rightarrow> Some r | _ \<Rightarrow> None)"

definition send_mutation :: "'n client_env \<Rightarrow> request \<Rightarrow> ('n, unit) cm" where
  "send_mutation env req =
     and_then (send env req) (\<lambda>res. lift_res (expect_response as_mutation res))"

definition query :: "'n client_env \<Rightarrow> request \<Rightarrow> (response \<Rightarrow> 'a snd_result option) \<Rightarrow> ('n, 'a) cm" where
  "query env request sel =
     and_then (send env request) (\<lambda>res. lift_res (expect_response sel res))"

text \<open>The second projection of some methods, to the kind of data that was asked for.\<close>

definition query_kind ::
  "'n client_env \<Rightarrow> request \<Rightarrow> (response \<Rightarrow> 'a snd_result option) \<Rightarrow> ('a \<Rightarrow> 'b option) \<Rightarrow> ('n, 'b) cm" where
  "query_kind env request sel kind =
     and_then (query env request sel) (\<lambda>x. lift_res (ok_or ReceivedUnexpectedData (kind x)))"

definition send_as_helper :: "'n client_env \<Rightarrow> request \<Rightarrow> client_full_id option \<Rightarrow> ('n, response) cm" where
  "send_as_helper env request client_id c =
     and_then (case client_id of
         Some i \<Rightarrow> sign_request env request i
       | None \<Rightarrow> compose_message env request True) (\<lambda>msg.
       let identity = (case client_id of Some i \<Rightarrow> SafeClient i | None \<Rightarrow> cl_full_id c) in
       and_then (on_net (tr_bootstrap env identity)) (\<lambda>_.
         on_net (tr_send_clone env (safe_key_public_id env identity) msg))) c"

definition send_as ::
  "'n client_env \<Rightarrow> request \<Rightarrow> (response \<Rightarrow> 'a snd_result option) \<Rightarrow> client_full_id option \<Rightarrow> ('n, 'a) cm" where
  "send_as env request sel client_id =
     and_then (send_as_helper env request client_id) (\<lambda>res. lift_res (expect_response sel res))"

text \<open>\<open>req\<close>: a signed request through a given manager, blocking.\<close>

definition req :: "'n client_env \<Rightarrow> request \<Rightarrow> safe_key \<Rightarrow> ('n, 'z, response) wm" where
  "req env request full_id_new =
     and_then (signed_message env (Some full_id_new) request) (\<lambda>msg.
       on_net (tr_send env (safe_key_public_id env full_id_new) msg))"

end
