(* ===== verification/Client_Ops.thy ===== *)
theory Client_Ops
  imports Client_Base
begin

section \<open>The Client trait\<close>

text \<open>
  One definition per method of the traits \<open>Client\<close> and \<open>AuthActions\<close> of safe\_core/src/client/mod.rs
  (the prefix \<open>client_\<close> keeps them apart from the vault's operations of the same name), and the
  blocking wallet functions that use a throw-away client.
\<close>

subsection \<open>Selecting the result out of a response\<close>

definition as_get_idata :: "response \<Rightarrow> idata snd_result option" where
  "as_get_idata res = (case res of RespGetIData r \<Rightarrow> Some r | _ \<Rightarrow> None)"

definition as_transaction :: "response \<Rightarrow> transaction snd_result option" where
  "as_transaction res = (case res of RespTransaction r \<Rightarrow> Some r | _ \<Rightarrow> None)"

definition as_auth_keys :: "response \<Rightarrow> ((public_key \<Rightarrow> app_permissions option) \<times> u64) snd_result option" where
  "as_auth_keys res = (case res of RespListAuthKeysAndVersion r \<Rightarrow> Some r | _ \<Rightarrow> None)"

definition as_balance :: "response \<Rightarrow> coins snd_result option" where
  "as_balance res = (case res of RespGetBalance r \<Rightarrow> Some r | _ \<Rightarrow> None)"

definition as_login_packet :: "response \<Rightarrow> (bytes \<times> signature) snd_result option" where
  "as_login_packet res = (case res of RespGetLoginPacket r \<Rightarrow> Some r | _ \<Rightarrow> None)"

definition as_mdata :: "response \<Rightarrow> mdata snd_result option" where
  "as_mdata res = (case res of RespGetMData r \<Rightarrow> Some r | _ \<Rightarrow> None)"

definition as_mdata_value :: "response \<Rightarrow> mdata_value snd_result option" where
  "as_mdata_value res = (case res of RespGetMDataValue r \<Rightarrow> Some r | _ \<Rightarrow> None)"

definition as_mdata_shell :: "response \<Rightarrow> mdata snd_result option" where
  "as_mdata_shell res = (case res of RespGetMDataShell r \<Rightarrow> Some r | _ \<Rightarrow> None)"

definition as_mdata_version :: "response \<Rightarrow> u64 snd_result option" where
  "as_mdata_version res = (case res of RespGetMDataVersion r \<Rightarrow> Some r | _ \<Rightarrow> None)"

definition as_mdata_entries :: "response \<Rightarrow> mdata_entries snd_result option" where
  "as_mdata_entries res = (case res of RespListMDataEntries r \<Rightarrow> Some r | _ \<Rightarrow> None)"

definition as_mdata_keys :: "response \<Rightarrow> bytes list snd_result option" where
  "as_mdata_keys res = (case res of RespListMDataKeys r \<Rightarrow> Some r | _ \<Rightarrow> None)"

definition as_mdata_values :: "response \<Rightarrow> mdata_values snd_result option" where
  "as_mdata_values res = (case res of RespListMDataValues r \<Rightarrow> Some r | _ \<Rightarrow> None)"

definition as_mdata_user_perms :: "response \<Rightarrow> perm_set snd_result option" where
  "as_mdata_user_perms res = (case res of RespListMDataUserPermissions r \<Rightarrow> Some r | _ \<Rightarrow> None)"

definition as_mdata_perms :: "response \<Rightarrow> (public_key, perm_set) btree snd_result option" where
  "as_mdata_perms res = (case res of RespListMDataPermissions r \<Rightarrow> Some r | _ \<Rightarrow> None)"

definition as_adata :: "response \<Rightarrow> adata snd_result option" where
  "as_adata res = (case res of RespGetAData r \<Rightarrow> Some r | _ \<Rightarrow> None)"

definition as_adata_shell :: "response \<Rightarrow> adata snd_result option" where
  "as_adata_shell res = (case res of RespGetADataShell r \<Rightarrow> Some r | _ \<Rightarrow> None)"

definition as_adata_range :: "response \<Rightarrow> adata_entry list snd_result option" where
  "as_adata_range res = (case res of RespGetADataRange r \<Rightarrow> Some r | _ \<Rightarrow> None)"

definition as_adata_value :: "response \<Rightarrow> bytes snd_result option" where
  "as_adata_value res = (case res of RespGetADataValue r \<Rightarrow> Some r | _ \<Rightarrow> None)"

definition as_adata_indices :: "response \<Rightarrow> bytes snd_result option" where
  "as_adata_indices res = (case res of RespGetADataIndices r \<Rightarrow> Some r | _ \<Rightarrow> None)"

definition as_adata_last_entry :: "response \<Rightarrow> adata_entry snd_result option" where
  "as_adata_last_entry res = (case res of RespGetADataLastEntry r \<Rightarrow> Some r | _ \<Rightarrow> None)"

definition as_adata_perms :: "response \<Rightarrow> adata_permissions snd_result option" where
  "as_adata_perms res = (case res of RespGetADataPermissions r \<Rightarrow> Some r | _ \<Rightarrow> None)"

definition as_pub_adata_user_perms :: "response \<Rightarrow> bytes snd_result option" where
  "as_pub_adata_user_perms res = (case res of RespGetPubADataUserPermissions r \<Rightarrow> Some r | _ \<Rightarrow> None)"

definition as_unpub_adata_user_perms :: "response \<Rightarrow> bytes snd_result option" where
  "as_unpub_adata_user_perms res = (case res of RespGetUnpubADataUserPermissions r \<Rightarrow> Some r | _ \<Rightarrow> None)"

definition as_adata_owners :: "response \<Rightarrow> adata_owner snd_result option" where
  "as_adata_owners res = (case res of RespGetADataOwners r \<Rightarrow> Some r | _ \<Rightarrow> None)"

lemmas selector_defs = as_mutation_def as_get_idata_def as_transaction_def as_auth_keys_def as_balance_def
  as_login_packet_def as_mdata_def as_mdata_value_def as_mdata_shell_def
  as_mdata_version_def as_mdata_entries_def as_mdata_keys_def as_mdata_values_def
  as_mdata_user_perms_def as_mdata_perms_def as_adata_def as_adata_shell_def
  as_adata_range_def as_adata_value_def as_adata_indices_def as_adata_last_entry_def
  as_adata_perms_def as_pub_adata_user_perms_def as_unpub_adata_user_perms_def as_adata_owners_def

subsection \<open>Coins and login packets\<close>

definition client_transfer_coins ::
  "'n client_env \<Rightarrow> client_full_id option \<Rightarrow> xor_name \<Rightarrow> coins \<Rightarrow> u64 option \<Rightarrow> ('n, transaction) cm" where
  "client_transfer_coins env client_id destination amount transaction_id =
     and_then (or_random env transaction_id) (\<lambda>tid.
       send_as env (TransferCoins destination amount tid) as_transaction client_id)"

definition client_create_balance ::
  "'n client_env \<Rightarrow> client_full_id option \<Rightarrow> public_key \<Rightarrow> coins \<Rightarrow> u64 option \<Rightarrow> ('n, transaction) cm" where
  "client_create_balance env client_id new_balance_owner amount transaction_id =
     and_then (or_random env transaction_id) (\<lambda>tid.
       send_as env (CreateBalance new_balance_owner amount tid) as_transaction client_id)"

definition client_insert_login_packet_for ::
  "'n client_env \<Rightarrow> client_full_id option \<Rightarrow> public_key \<Rightarrow> coins \<Rightarrow> u64 option \<Rightarrow> login_packet \<Rightarrow> ('n, transaction) cm" where
  "client_insert_login_packet_for env client_id new_owner amount transaction_id new_login_packet =
     and_then (or_random env transaction_id) (\<lambda>tid.
       send_as env (CreateLoginPacketFor new_owner amount tid new_login_packet) as_transaction client_id)"

definition client_get_balance ::
  "'n client_env \<Rightarrow> client_full_id option \<Rightarrow> ('n, coins) cm" where
  "client_get_balance env client_id =
     send_as env GetBalance as_balance client_id"

definition client_test_set_balance ::
  "'n client_env \<Rightarrow> client_full_id option \<Rightarrow> coins \<Rightarrow> ('n, transaction) cm" where
  "client_test_set_balance env client_id amount c =
     (let new_balance_owner = (case client_id of
            None \<Rightarrow> own_public_key env c
          | Some i \<Rightarrow> client_public_key (ce_nd env) (full_client_id env i))
      in and_then (draw (random_u64 env)) (\<lambda>tid.
           send_as env (CreateBalance new_balance_owner amount tid) as_transaction client_id) c)"

subsection \<open>Immutable data\<close>

definition client_put_idata ::
  "'n client_env \<Rightarrow> idata \<Rightarrow> ('n, unit) cm" where
  "client_put_idata env data =
     send_mutation env (PutIData data)"

definition client_get_idata :: "'n client_env \<Rightarrow> idata_address \<Rightarrow> ('n, idata) cm" where
  "client_get_idata env address c =
     (case lru_get_mut env address (cl_cache c) of
        (Some data, cache) \<Rightarrow> Some (Ok data, c\<lparr>cl_cache := cache\<rparr>)
      | (None, cache) \<Rightarrow>
          and_then (query env (GetIData address) as_get_idata) (\<lambda>data c.
            Some (Ok data, c\<lparr>cl_cache :=
              lru_insert env (idata_addr (ce_nd env) data) data (cl_cache c)\<rparr>))
            (c\<lparr>cl_cache := cache\<rparr>))"

definition client_del_unpub_idata :: "'n client_env \<Rightarrow> xor_name \<Rightarrow> ('n, unit) cm" where
  "client_del_unpub_idata env name =
     and_then (modify (\<lambda>c. c\<lparr>cl_cache := lru_remove env (IUnpubAddr name) (cl_cache c)\<rparr>)) (\<lambda>_.
       send_mutation env (DeleteUnpubIData (IUnpubAddr name)))"

subsection \<open>Mutable data\<close>

definition seq_mdata :: "mdata \<Rightarrow> bytes option" where
  "seq_mdata m = (case m of MSeq d \<Rightarrow> Some d | MUnseq _ \<Rightarrow> None)"

definition unseq_mdata :: "mdata \<Rightarrow> bytes option" where
  "unseq_mdata m = (case m of MUnseq d \<Rightarrow> Some d | MSeq _ \<Rightarrow> None)"

definition seq_value :: "mdata_value \<Rightarrow> mdata_seq_value option" where
  "seq_value v = (case v of SeqValue x \<Rightarrow> Some x | UnseqValue _ \<Rightarrow> None)"

definition unseq_value :: "mdata_value \<Rightarrow> bytes option" where
  "unseq_value v = (case v of UnseqValue x \<Rightarrow> Some x | SeqValue _ \<Rightarrow> None)"

definition seq_entries_of :: "mdata_entries \<Rightarrow> seq_entries option" where
  "seq_entries_of e = (case e of SeqEntries x \<Rightarrow> Some x | UnseqEntries _ \<Rightarrow> None)"

definition unseq_entries_of :: "mdata_entries \<Rightarrow> unseq_entries option" where
  "unseq_entries_of e = (case e of UnseqEntries x \<Rightarrow> Some x | SeqEntries _ \<Rightarrow> None)"

definition seq_values_of :: "mdata_values \<Rightarrow> mdata_seq_value list option" where
  "seq_values_of e = (case e of SeqValues x \<Rightarrow> Some x | UnseqValues _ \<Rightarrow> None)"

definition unseq_values_of :: "mdata_values \<Rightarrow> bytes list option" where
  "unseq_values_of e = (case e of UnseqValues x \<Rightarrow> Some x | SeqValues _ \<Rightarrow> None)"

definition client_put_unseq_mutable_data ::
  "'n client_env \<Rightarrow> bytes \<Rightarrow> ('n, unit) cm" where
  "client_put_unseq_mutable_data env data =
     send_mutation env (PutMData (MUnseq data))"

definition client_put_seq_mutable_data ::
  "'n client_env \<Rightarrow> bytes \<Rightarrow> ('n, unit) cm" where
  "client_put_seq_mutable_data env data =
     send_mutation env (PutMData (MSeq data))"

definition client_get_unseq_mdata ::
  "'n client_env \<Rightarrow> xor_name \<Rightarrow> u64 \<Rightarrow> ('n, bytes) cm" where
  "client_get_unseq_mdata env name tag =
     query_kind env (GetMData (MUnseqAddr name tag)) as_mdata unseq_mdata"

definition client_get_seq_mdata_value ::
  "'n client_env \<Rightarrow> xor_name \<Rightarrow> u64 \<Rightarrow> bytes \<Rightarrow> ('n, mdata_seq_value) cm" where
  "client_get_seq_mdata_value env name tag key =
     query_kind env (GetMDataValue (MSeqAddr name tag) key) as_mdata_value seq_value"

definition client_get_unseq_mdata_value ::
  "'n client_env \<Rightarrow> xor_name \<Rightarrow> u64 \<Rightarrow> bytes \<Rightarrow> ('n, bytes) cm" where
  "client_get_unseq_mdata_value env name tag key =
     query_kind env (GetMDataValue (MUnseqAddr name tag) key) as_mdata_value unseq_value"

definition client_get_seq_mdata ::
  "'n client_env \<Rightarrow> xor_name \<Rightarrow> u64 \<Rightarrow> ('n, bytes) cm" where
  "client_get_seq_mdata env name tag =
     query_kind env (GetMData (MSeqAddr name tag)) as_mdata seq_mdata"

definition client_mutate_seq_mdata_entries ::
  "'n client_env \<Rightarrow> xor_name \<Rightarrow> u64 \<Rightarrow> seq_entry_actions \<Rightarrow> ('n, unit) cm" where
  "client_mutate_seq_mdata_entries env name tag actions =
     send_mutation env (MutateMDataEntries (MSeqAddr name tag) (SeqActions actions))"

definition client_mutate_unseq_mdata_entries ::
  "'n client_env \<Rightarrow> xor_name \<Rightarrow> u64 \<Rightarrow> bytes \<Rightarrow> ('n, unit) cm" where
  "client_mutate_unseq_mdata_entries env name tag actions =
     send_mutation env (MutateMDataEntries (MUnseqAddr name tag) (UnseqActions actions))"

definition client_get_seq_mdata_shell ::
  "'n client_env \<Rightarrow> xor_name \<Rightarrow> u64 \<Rightarrow> ('n, bytes) cm" where
  "client_get_seq_mdata_shell env name tag =
     query_kind env (GetMDataShell (MSeqAddr name tag)) as_mdata_shell seq_mdata"

definition client_get_unseq_mdata_shell ::
  "'n client_env \<Rightarrow> xor_name \<Rightarrow> u64 \<Rightarrow> ('n, bytes) cm" where
  "client_get_unseq_mdata_shell env name tag =
     query_kind env (GetMDataShell (MUnseqAddr name tag)) as_mdata_shell unseq_mdata"

definition client_get_mdata_version ::
  "'n client_env \<Rightarrow> mdata_address \<Rightarrow> ('n, u64) cm" where
  "client_get_mdata_version env address =
     query env (GetMDataVersion address) as_mdata_version"

definition client_list_unseq_mdata_entries ::
  "'n client_env \<Rightarrow> xor_name \<Rightarrow> u64 \<Rightarrow> ('n, unseq_entries) cm" where
  "client_list_unseq_mdata_entries env name tag =
     query_kind env (ListMDataEntries (MUnseqAddr name tag)) as_mdata_entries unseq_entries_of"

definition client_list_seq_mdata_entries ::
  "'n client_env \<Rightarrow> xor_name \<Rightarrow> u64 \<Rightarrow> ('n, seq_entries) cm" where
  "client_list_seq_mdata_entries env name tag =
     query_kind env (ListMDataEntries (MSeqAddr name tag)) as_mdata_entries seq_entries_of"

definition client_list_mdata_keys ::
  "'n client_env \<Rightarrow> mdata_address \<Rightarrow> ('n, bytes list) cm" where
  "client_list_mdata_keys env address =
     query env (ListMDataKeys address) as_mdata_keys"

definition client_list_seq_mdata_values ::
  "'n client_env \<Rightarrow> xor_name \<Rightarrow> u64 \<Rightarrow> ('n, mdata_seq_value list) cm" where
  "client_list_seq_mdata_values env name tag =
     query_kind env (ListMDataValues (MSeqAddr name tag)) as_mdata_values seq_values_of"

definition client_list_mdata_user_permissions ::
  "'n client_env \<Rightarrow> mdata_address \<Rightarrow> public_key \<Rightarrow> ('n, perm_set) cm" where
  "client_list_mdata_user_permissions env address user =
     query env (ListMDataUserPermissions address user) as_mdata_user_perms"

definition client_list_unseq_mdata_values ::
  "'n client_env \<Rightarrow> xor_name \<Rightarrow> u64 \<Rightarrow> ('n, bytes list) cm" where
  "client_list_unseq_mdata_values env name tag =
     query_kind env (ListMDataValues (MUnseqAddr name tag)) as_mdata_values unseq_values_of"

definition client_list_mdata_permissions ::
  "'n client_env \<Rightarrow> mdata_address \<Rightarrow> ('n, (public_key, perm_set) btree) cm" where
  "client_list_mdata_permissions env address =
     query env (ListMDataPermissions address) as_mdata_perms"

definition client_set_mdata_user_permissions ::
  "'n client_env \<Rightarrow> mdata_address \<Rightarrow> public_key \<Rightarrow> perm_set \<Rightarrow> u64 \<Rightarrow> ('n, unit) cm" where
  "client_set_mdata_user_permissions env address user permissions version =
     send_mutation env (SetMDataUserPermissions address user permissions version)"

definition client_del_mdata_user_permissions ::
  "'n client_env \<Rightarrow> mdata_address \<Rightarrow> public_key \<Rightarrow> u64 \<Rightarrow> ('n, unit) cm" where
  "client_del_mdata_user_permissions env address user version =
     send_mutation env (DelMDataUserPermissions address user version)"

text \<open>\<open>change_mdata_owner\<close> is \<open>unimplemented!()\<close>.\<close>

definition client_change_mdata_owner ::
  "'n client_env \<Rightarrow> xor_name \<Rightarrow> u64 \<Rightarrow> public_key \<Rightarrow> u64 \<Rightarrow> ('n, unit) cm" where
  "client_change_mdata_owner env name tag new_owner version = panic"

subsection \<open>Append-only data\<close>

definition client_put_adata ::
  "'n client_env \<Rightarrow> adata \<Rightarrow> ('n, unit) cm" where
  "client_put_adata env data =
     send_mutation env (PutAData data)"

definition client_get_adata ::
  "'n client_env \<Rightarrow> adata_address \<Rightarrow> ('n, adata) cm" where
  "client_get_adata env address =
     query env (GetAData address) as_adata"

definition client_get_adata_shell ::
  "'n client_env \<Rightarrow> adata_index \<Rightarrow> adata_address \<Rightarrow> ('n, adata) cm" where
  "client_get_adata_shell env data_index address =
     query env (GetADataShell address data_index) as_adata_shell"

definition client_get_adata_value ::
  "'n client_env \<Rightarrow> adata_address \<Rightarrow> bytes \<Rightarrow> ('n, bytes) cm" where
  "client_get_adata_value env address key =
     query env (GetADataValue address key) as_adata_value"

definition client_get_adata_range ::
  "'n client_env \<Rightarrow> adata_address \<Rightarrow> adata_index \<times> adata_index \<Rightarrow> ('n, adata_entry list) cm" where
  "client_get_adata_range env address rng =
     query env (GetADataRange address rng) as_adata_range"

definition client_get_adata_indices ::
  "'n client_env \<Rightarrow> adata_address \<Rightarrow> ('n, bytes) cm" where
  "client_get_adata_indices env address =
     query env (GetADataIndices address) as_adata_indices"

definition client_get_adata_last_entry ::
  "'n client_env \<Rightarrow> adata_address \<Rightarrow> ('n, adata_entry) cm" where
  "client_get_adata_last_entry env address =
     query env (GetADataLastEntry address) as_adata_last_entry"

definition unpub_permissions :: "adata_permissions \<Rightarrow> bytes option" where
  "unpub_permissions p = (case p of UnpubPermissions x \<Rightarrow> Some x | PubPermissions _ \<Rightarrow> None)"

definition pub_permissions :: "adata_permissions \<Rightarrow> bytes option" where
  "pub_permissions p = (case p of PubPermissions x \<Rightarrow> Some x | UnpubPermissions _ \<Rightarrow> None)"

definition client_get_unpub_adata_permissions_at_index ::
  "'n client_env \<Rightarrow> adata_address \<Rightarrow> adata_index \<Rightarrow> ('n, bytes) cm" where
  "client_get_unpub_adata_permissions_at_index env address permissions_index =
     query_kind env (GetADataPermissions address permissions_index) as_adata_perms unpub_permissions"

definition client_get_pub_adata_permissions_at_index ::
  "'n client_env \<Rightarrow> adata_address \<Rightarrow> adata_index \<Rightarrow> ('n, bytes) cm" where
  "client_get_pub_adata_permissions_at_index env address permissions_index =
     query_kind env (GetADataPermissions address permissions_index) as_adata_perms pub_permissions"

definition client_get_pub_adata_user_permissions ::
  "'n client_env \<Rightarrow> adata_address \<Rightarrow> adata_index \<Rightarrow> bytes \<Rightarrow> ('n, bytes) cm" where
  "client_get_pub_adata_user_permissions env address permissions_index user =
     query env (GetPubADataUserPermissions address permissions_index user) as_pub_adata_user_perms"

definition client_get_unpub_adata_user_permissions ::
  "'n client_env \<Rightarrow> adata_address \<Rightarrow> adata_index \<Rightarrow> public_key \<Rightarrow> ('n, bytes) cm" where
  "client_get_unpub_adata_user_permissions env address permissions_index public_key =
     query env (GetUnpubADataUserPermissions address permissions_index public_key) as_unpub_adata_user_perms"

definition client_add_unpub_adata_permissions ::
  "'n client_env \<Rightarrow> adata_address \<Rightarrow> bytes \<Rightarrow> u64 \<Rightarrow> ('n, unit) cm" where
  "client_add_unpub_adata_permissions env address permissions permissions_index =
     send_mutation env (AddUnpubADataPermissions address permissions permissions_index)"

definition client_add_pub_adata_permissions ::
  "'n client_env \<Rightarrow> adata_address \<Rightarrow> bytes \<Rightarrow> u64 \<Rightarrow> ('n, unit) cm" where
  "client_add_pub_adata_permissions env address permissions permissions_index =
     send_mutation env (AddPubADataPermissions address permissions permissions_index)"

definition client_set_adata_owners ::
  "'n client_env \<Rightarrow> adata_address \<Rightarrow> adata_owner \<Rightarrow> u64 \<Rightarrow> ('n, unit) cm" where
  "client_set_adata_owners env address owner owners_index =
     send_mutation env (SetADataOwner address owner owners_index)"

definition client_get_adata_owners ::
  "'n client_env \<Rightarrow> adata_address \<Rightarrow> adata_index \<Rightarrow> ('n, adata_owner) cm" where
  "client_get_adata_owners env address owners_index =
     query env (GetADataOwners address owners_index) as_adata_owners"

definition client_append_seq_adata ::
  "'n client_env \<Rightarrow> adata_append \<Rightarrow> u64 \<Rightarrow> ('n, unit) cm" where
  "client_append_seq_adata env append_op index =
     send_mutation env (AppendSeq append_op index)"

definition client_append_unseq_adata ::
  "'n client_env \<Rightarrow> adata_append \<Rightarrow> ('n, unit) cm" where
  "client_append_unseq_adata env append_op =
     send_mutation env (AppendUnseq append_op)"

subsection \<open>AuthActions\<close>

definition client_list_auth_keys_and_version ::
  "'n client_env \<Rightarrow> ('n, (public_key \<Rightarrow> app_permissions option) \<times> u64) cm" where
  "client_list_auth_keys_and_version env =
     query env ListAuthKeysAndVersion as_auth_keys"

definition client_ins_auth_key ::
  "'n client_env \<Rightarrow> public_key \<Rightarrow> app_permissions \<Rightarrow> u64 \<Rightarrow> ('n, unit) cm" where
  "client_ins_auth_key env key permissions version =
     send_mutation env (InsAuthKey key permissions version)"

definition client_del_auth_key ::
  "'n client_env \<Rightarrow> public_key \<Rightarrow> u64 \<Rightarrow> ('n, unit) cm" where
  "client_del_auth_key env key version =
     send_mutation env (DelAuthKey key version)"

definition client_delete_mdata ::
  "'n client_env \<Rightarrow> mdata_address \<Rightarrow> ('n, unit) cm" where
  "client_delete_mdata env address =
     send_mutation env (DeleteMData address)"

definition client_delete_adata ::
  "'n client_env \<Rightarrow> adata_address \<Rightarrow> ('n, unit) cm" where
  "client_delete_adata env address =
     send_mutation env (DeleteAData address)"

subsection \<open>Connection\<close>

definition client_set_timeout :: "nat \<Rightarrow> 'n client \<Rightarrow> 'n client" where
  "client_set_timeout duration c = c\<lparr>cl_timeout := duration\<rparr>"

definition client_restart_network :: "'n client_env \<Rightarrow> ('n, unit) cm" where
  "client_restart_network env =
     and_then (modify (\<lambda>c. c\<lparr>w_net := tr_restart env (w_net c)\<rparr>)) (\<lambda>_ c.
       if cl_rx_alive c then Some (Ok (), c\<lparr>cl_events := cl_events c @ [Connected]\<rparr>)
       else Some (Err (core_error_from_send_error (channel_closed_text env)), c))"

subsection \<open>Throw-away clients\<close>

text \<open>
  \<open>temp_client\<close> runs a function on a new connection manager and then disconnects it. If the function
  fails its error is returned after the disconnection.
\<close>

definition temp_client ::
  "'n client_env \<Rightarrow> client_full_id \<Rightarrow> (safe_key \<Rightarrow> ('n, 'z, 'a) wm) \<Rightarrow> ('n, 'z, 'a) wm" where
  "temp_client env identity func w =
     (let full_id = SafeClient identity in
      case tr_new env (w_net w) of
        Err e \<Rightarrow> Some (Err e, w)
      | Ok n \<Rightarrow>
          (case and_then (on_net (tr_bootstrap env full_id)) (\<lambda>_ w1.
                  case func full_id w1 of
                    None \<Rightarrow> None
                  | Some (res, w2) \<Rightarrow>
                      and_then (on_net (tr_disconnect env (safe_key_public_id env full_id)))
                        (\<lambda>_. lift_res res) w2) (w\<lparr>w_net := n\<rparr>) of
             None \<Rightarrow> None
           | Some (r, w3) \<Rightarrow> Some (r, w3\<lparr>w_net := tr_drop env (w_net w) (w_net w3)\<rparr>)))"

definition expect_or_str :: "(response \<Rightarrow> 'a snd_result option) \<Rightarrow> response \<Rightarrow> 'a core_result" where
  "expect_or_str sel res = (case sel res of
     Some r \<Rightarrow> res_map_err DataError r
   | None \<Rightarrow> Err (core_error_from_str ''Unexpected response''))"

definition test_create_balance :: "'n client_env \<Rightarrow> client_full_id \<Rightarrow> coins \<Rightarrow> ('n, 'z, unit) wm" where
  "test_create_balance env owner amount = temp_client env owner (\<lambda>full_id.
     case safe_key_public_id env full_id of
       Client i \<Rightarrow>
         and_then (draw (random_u64 env)) (\<lambda>tid.
         and_then (req env (CreateBalance (client_public_key (ce_nd env) i) amount tid) full_id) (\<lambda>res.
           lift_res (res_map (\<lambda>_. ()) (expect_or_str as_transaction res))))
     | x \<Rightarrow> lift_res (Err (core_error_from_str (''Unexpected ID type '' @ pid_debug (ce_nd env) x))))"

definition wallet_get_balance :: "'n client_env \<Rightarrow> client_full_id \<Rightarrow> ('n, 'z, coins) wm" where
  "wallet_get_balance env wallet_sk = temp_client env wallet_sk (\<lambda>full_id.
     and_then (req env GetBalance full_id) (\<lambda>res. lift_res (expect_or_str as_balance res)))"

definition wallet_create_balance ::
  "'n client_env \<Rightarrow> client_full_id \<Rightarrow> public_key \<Rightarrow> coins \<Rightarrow> u64 option \<Rightarrow> ('n, 'z, transaction) wm" where
  "wallet_create_balance env client_id new_balance_owner amount transaction_id =
     and_then (or_random env transaction_id) (\<lambda>tid. temp_client env client_id (\<lambda>full_id.
       and_then (req env (CreateBalance new_balance_owner amount tid) full_id) (\<lambda>res.
         lift_res (expect_or_str as_transaction res))))"

definition wallet_transfer_coins ::
  "'n client_env \<Rightarrow> client_full_id \<Rightarrow> xor_name \<Rightarrow> coins \<Rightarrow> u64 option \<Rightarrow> ('n, 'z, transaction) wm" where
  "wallet_transfer_coins env client_id destination amount transaction_id =
     and_then (or_random env transaction_id) (\<lambda>tid. temp_client env client_id (\<lambda>full_id.
       and_then (req env (TransferCoins destination amount tid) full_id) (\<lambda>res.
         lift_res (expect_or_str as_transaction res))))"

end
