(* ===== verification/Client_Mock.thy ===== *)
theory Client_Mock
  imports Client_Ops Mock_Network
begin

section \<open>Clients on the mock network\<close>

text \<open>
  The client code with the mock connection manager, and what the two guarantee together: the vault
  answers every request with the variant the client expects, and a client's cache of published
  immutable data is never stale.
\<close>

text \<open>A clone of the manager shares the hook, which is therefore not called (see \<open>intercept_request\<close>).\<close>

definition cm_send_clone :: "safe_nd \<Rightarrow> 'raw codec \<Rightarrow> public_id \<Rightarrow> message \<Rightarrow> ('raw, response) net" where
  "cm_send_clone nd cd pub_id msg cm =
     (case cm_send nd cd pub_id msg (cm\<lparr>hook_shared := True\<rparr>) of
        None \<Rightarrow> None
      | Some (r, cm') \<Rightarrow> Some (r, cm'\<lparr>hook_shared := hook_shared cm\<rparr>))"

definition mock_env :: "safe_nd \<Rightarrow> 'raw codec \<Rightarrow> local_ops \<Rightarrow> 'raw conn_manager client_env" where
  "mock_env nd cd lo = \<lparr>
     full_client_id = full_client_id lo, full_app_id = full_app_id lo, client_sign = client_sign lo,
     app_sign = app_sign lo, serialise_request = serialise_request lo,
     new_message_id = new_message_id lo, random_u64 = random_u64 lo,
     channel_closed_text = channel_closed_text lo, lru_get_mut = lru_get_mut lo,
     lru_insert = lru_insert lo, lru_remove = lru_remove lo,
     ce_nd = nd,
     tr_send = cm_send nd cd,
     tr_send_clone = cm_send_clone nd cd,
     tr_bootstrap = (\<lambda>k. cm_bootstrap (case k of
         SafeApp a \<Rightarrow> App (full_app_id lo a) | SafeClient c \<Rightarrow> Client (full_client_id lo c))),
     tr_disconnect = cm_disconnect,
     tr_new = (\<lambda>cm. Ok (cm_new (cm_vault cm))),
     tr_drop = (\<lambda>cm tmp. cm\<lparr>cm_vault := cm_vault tmp\<rparr>),
     tr_restart = cm_restart_network\<rparr>"

lemma mock_env_sel [simp]:
  "ce_nd (mock_env nd cd lo) = nd" "tr_send (mock_env nd cd lo) = cm_send nd cd"
  "tr_send_clone (mock_env nd cd lo) = cm_send_clone nd cd"
  "tr_disconnect (mock_env nd cd lo) = cm_disconnect"
  "lru_get_mut (mock_env nd cd lo) = lru_get_mut lo" "lru_insert (mock_env nd cd lo) = lru_insert lo"
  "lru_remove (mock_env nd cd lo) = lru_remove lo"
  by (simp_all add: mock_env_def)

subsection \<open>The response fits the request\<close>

definition fits :: "request \<Rightarrow> response \<Rightarrow> bool" where
  "fits request res = (case request of
     GetIData _ \<Rightarrow> as_get_idata res \<noteq> None
   | ListAuthKeysAndVersion \<Rightarrow> as_auth_keys res \<noteq> None
   | TransferCoins _ _ _ \<Rightarrow> as_transaction res \<noteq> None
   | CreateBalance _ _ _ \<Rightarrow> as_transaction res \<noteq> None
   | CreateLoginPacketFor _ _ _ _ \<Rightarrow> as_transaction res \<noteq> None
   | GetBalance \<Rightarrow> as_balance res \<noteq> None
   | GetLoginPacket _ \<Rightarrow> as_login_packet res \<noteq> None
   | GetMData _ \<Rightarrow> as_mdata res \<noteq> None
   | GetMDataValue _ _ \<Rightarrow> as_mdata_value res \<noteq> None
   | GetMDataShell _ \<Rightarrow> as_mdata_shell res \<noteq> None
   | GetMDataVersion _ \<Rightarrow> as_mdata_version res \<noteq> None
   | ListMDataEntries _ \<Rightarrow> as_mdata_entries res \<noteq> None
   | ListMDataKeys _ \<Rightarrow> as_mdata_keys res \<noteq> None
   | ListMDataValues _ \<Rightarrow> as_mdata_values res \<noteq> None
   | ListMDataUserPermissions _ _ \<Rightarrow> as_mdata_user_perms res \<noteq> None
   | ListMDataPermissions _ \<Rightarrow> as_mdata_perms res \<noteq> None
   | GetAData _ \<Rightarrow> as_adata res \<noteq> None
   | GetADataShell _ _ \<Rightarrow> as_adata_shell res \<noteq> None
   | GetADataRange _ _ \<Rightarrow> as_adata_range res \<noteq> None
   | GetADataValue _ _ \<Rightarrow> as_adata_value res \<noteq> None
   | GetADataIndices _ \<Rightarrow> as_adata_indices res \<noteq> None
   | GetADataLastEntry _ \<Rightarrow> as_adata_last_entry res \<noteq> None
   | GetADataPermissions _ _ \<Rightarrow> as_adata_perms res \<noteq> None
   | GetPubADataUserPermissions _ _ _ \<Rightarrow> as_pub_adata_user_perms res \<noteq> None
   | GetUnpubADataUserPermissions _ _ _ \<Rightarrow> as_unpub_adata_user_perms res \<noteq> None
   | GetADataOwners _ _ \<Rightarrow> as_adata_owners res \<noteq> None
   | _ \<Rightarrow> as_mutation res \<noteq> None)"

lemma respond_variant: "respond c m v = Some (res, v') \<Longrightarrow> \<exists>r. res = c r"
  by (auto simp: respond_def split: option.splits prod.splits)

lemmas all_arm_defs = read_arm_defs req_put_idata_def req_create_balance_def
  req_create_login_packet_for_def req_create_login_packet_def req_update_login_packet_def
  req_put_mdata_def req_delete_mdata_def req_set_mdata_user_permissions_def
  req_del_mdata_user_permissions_def req_mutate_mdata_entries_def req_put_adata_def
  req_append_seq_def req_append_unseq_def req_add_pub_adata_permissions_def
  req_add_unpub_adata_permissions_def req_set_adata_owner_def

lemma handle_request_fits:
  "handle_request nd requester rpk opk request v = Some (res, v') \<Longrightarrow> fits request res"
  unfolding handle_request_def fits_def
  by (cases request) (auto simp: all_arm_defs Let_def selector_defs dest!: respond_variant split: if_splits)

text \<open>\<open>Request::error_response\<close> answers with the error in the variant of its request.\<close>

definition error_laws :: "safe_nd \<Rightarrow> bool" where
  "error_laws nd \<longleftrightarrow> (\<forall>request e. fits request (error_response nd request e)) \<and>
     (\<forall>a e. error_response nd (GetIData a) e = RespGetIData (Err e))"

lemma process_request_fits:
  assumes "error_laws nd"
    and "process_request nd pid (MsgRequest request mid sig) v = Some (Ok msg, v')"
  shows "\<exists>res. msg = MsgResponse res mid \<and> fits request res"
  using assms handle_request_fits
  by (auto simp: process_request_def error_laws_def split: sum.splits option.splits prod.splits)

subsection \<open>A network in memory\<close>

definition vault_of :: "'raw conn_manager \<Rightarrow> vault" where
  "vault_of cm = fst (cm_vault cm)"

definition set_vault :: "vault \<Rightarrow> 'raw conn_manager \<Rightarrow> 'raw conn_manager" where
  "set_vault v cm = cm\<lparr>cm_vault := (v, snd (cm_vault cm))\<rparr>"

definition plain_net :: "'raw conn_manager \<Rightarrow> bool" where
  "plain_net cm \<longleftrightarrow> fst (snd (cm_vault cm)) = MemoryStore \<and> cm_request_hook cm = None"

lemma vault_of_set [simp]: "vault_of (set_vault v cm) = v" "plain_net (set_vault v cm) = plain_net cm"
  by (simp_all add: vault_of_def set_vault_def plain_net_def)

lemma guarded_memory:
  "guarded cd w act (v, MemoryStore, d) =
     (case act v of None \<Rightarrow> None | Some (r, v') \<Rightarrow> Some (r, v', MemoryStore, d))"
  by (auto simp: guarded_def lock_def drop_guard_def store_load_def store_save_def
      split: option.splits prod.splits)

lemma cm_send_plain:
  assumes "plain_net cm"
  shows "cm_send nd cd pid (MsgRequest request mid sig) cm =
    (case process_request nd pid (MsgRequest request mid sig) (vault_of cm) of
       Some (Ok (MsgResponse res _), v) \<Rightarrow> Some (Ok res, set_vault v cm)
     | _ \<Rightarrow> None)"
proof -
  obtain v d where "cm_vault cm = (v, MemoryStore, d)"
    using assms by (cases "cm_vault cm") (auto simp: plain_net_def)
  then show ?thesis
    using assms
    by (auto simp: cm_send_def intercept_request_def plain_net_def vault_of_def set_vault_def
        guarded_memory process_request_def split: option.splits sum.splits prod.splits)
qed

lemma cm_send_clone_plain:
  assumes "plain_net cm"
  shows "cm_send_clone nd cd pid (MsgRequest request mid sig) cm =
    cm_send nd cd pid (MsgRequest request mid sig) cm"
proof -
  have "plain_net (cm\<lparr>hook_shared := True\<rparr>)" "vault_of (cm\<lparr>hook_shared := True\<rparr>) = vault_of cm"
    "set_vault v (cm\<lparr>hook_shared := True\<rparr>)\<lparr>hook_shared := hook_shared cm\<rparr> = set_vault v cm" for v
    using assms by (simp_all add: plain_net_def vault_of_def set_vault_def)
  then show ?thesis
    using assms by (simp add: cm_send_clone_def cm_send_plain split: option.splits sum.splits message.splits)
qed

text \<open>What a client that sends a request does to the vault and what it gets.\<close>

lemma signed_message_Some:
  assumes "signed_message env k request w = Some (r, w')"
  obtains mid sig where "r = Ok (MsgRequest request mid sig)" "w' = w\<lparr>w_draws := Suc (w_draws w)\<rparr>"
  using assms by (auto simp: signed_message_def draw_def and_then_def split: option.splits)

lemma send_plain:
  assumes run: "send (mock_env nd cd lo) request c = Some (r, c')" and plain: "plain_net (w_net c)"
  obtains res mid mid' sig v' where "r = Ok res"
    "process_request nd (own_public_id (mock_env nd cd lo) c) (MsgRequest request mid sig)
       (vault_of (w_net c)) = Some (Ok (MsgResponse res mid'), v')"
    "c' = c\<lparr>w_draws := Suc (w_draws c), w_net := set_vault v' (w_net c)\<rparr>"
  using run unfolding send_def
proof (cases rule: and_then_Some)
  case (goes_on msg c1)
  then obtain mid sig where msg: "msg = MsgRequest request mid sig"
      and c1: "c1 = c\<lparr>w_draws := Suc (w_draws c)\<rparr>"
    by (auto simp: compose_message_def elim: signed_message_Some)
  with goes_on(2) plain that show ?thesis
    by (auto simp: on_net_def cm_send_plain own_public_id_def
        split: option.splits sum.splits prod.splits message.splits)
qed (auto simp: compose_message_def elim: signed_message_Some)

lemma query_plain:
  assumes "query (mock_env nd cd lo) request sel c = Some (r, c')" and "plain_net (w_net c)"
  obtains res mid mid' sig v' where "r = expect_response sel res"
    "process_request nd (own_public_id (mock_env nd cd lo) c) (MsgRequest request mid sig)
       (vault_of (w_net c)) = Some (Ok (MsgResponse res mid'), v')"
    "c' = c\<lparr>w_draws := Suc (w_draws c), w_net := set_vault v' (w_net c)\<rparr>"
  using assms(1) unfolding query_def
  by (cases rule: and_then_Some) (auto elim!: send_plain [OF _ assms(2)] intro: that)

subsection \<open>Clients whose signatures verify\<close>

text \<open>A message signed with a key verifies under it, and serialisation does not fail.\<close>

definition sign_laws :: "'n client_env \<Rightarrow> bool" where
  "sign_laws env \<longleftrightarrow> (\<forall>k request mid. \<exists>b. serialise_request env request mid = Some b \<and>
     verify_signature (ce_nd env) (safe_key_sign env k b) (safe_key_public_key env k) request mid = Ok ())"

text \<open>The request of such a client reaches the arm of its kind.\<close>

lemma send_authenticated:
  assumes "sign_laws (mock_env nd cd lo)" and "plain_net (w_net c)"
    and "get_type nd request \<noteq> PublicGet" and "cl_full_id c = SafeClient i"
    and cid: "cid = full_client_id lo i"
  shows "send (mock_env nd cd lo) request c =
    (case handle_request nd (Client cid) (client_public_key nd cid) (client_public_key nd cid) request
        (vault_of (w_net c)) of
       None \<Rightarrow> None
     | Some (res, v') \<Rightarrow> Some (Ok res, c\<lparr>w_draws := Suc (w_draws c), w_net := set_vault v' (w_net c)\<rparr>))"
proof -
  let ?env = "mock_env nd cd lo"
  let ?mid = "new_message_id ?env (w_draws c)"
  obtain b where b: "serialise_request ?env request ?mid = Some b"
      "verify_signature nd (safe_key_sign ?env (SafeClient i) b) (safe_key_public_key ?env (SafeClient i))
         request ?mid = Ok ()"
    using assms(1) unfolding sign_laws_def mock_env_sel by blast
  have pid: "own_public_id ?env c = Client cid" "safe_key_public_key ?env (SafeClient i) = client_public_key nd cid"
    using assms(4) cid by (simp_all add: own_public_id_def safe_key_public_id_def safe_key_public_key_def mock_env_def)
  have "compose_message ?env request True c =
      Some (Ok (MsgRequest request ?mid (Some (safe_key_sign ?env (SafeClient i) b))),
        c\<lparr>w_draws := Suc (w_draws c)\<rparr>)"
    using assms(4) b by (simp add: compose_message_def signed_message_def draw_def and_then_def)
  moreover have "process_request nd (Client cid) (MsgRequest request ?mid
      (Some (safe_key_sign ?env (SafeClient i) b))) v =
    (case handle_request nd (Client cid) (client_public_key nd cid) (client_public_key nd cid) request v of
       None \<Rightarrow> None | Some (res, v') \<Rightarrow> Some (Ok (MsgResponse res ?mid), v'))" for v
    using assms(3) b(2) by (simp add: process_request_def authenticate_def pid)
  ultimately show ?thesis
    using assms(2,3) pid(1)
    by (simp add: send_def and_then_def on_net_def cm_send_plain own_public_id_def split: option.splits)
qed

text \<open>So does the request of an application whose key the owner has authorised.\<close>

lemma send_app_authorised:
  assumes "sign_laws (mock_env nd cd lo)" and "plain_net (w_net c)"
    and "get_type nd request \<noteq> PublicGet" and "cl_full_id c = SafeApp i" and pid: "pid = full_app_id lo i"
    and auth: "get_account (vault_of (w_net c)) (public_id_name nd (App pid)) = Some account"
      "acc_auth_keys account (app_public_key nd pid) \<noteq> None"
  shows "send (mock_env nd cd lo) request c =
    (case handle_request nd (App pid) (app_public_key nd pid) (client_public_key nd (app_owner nd pid)) request
        (vault_of (w_net c)) of
       None \<Rightarrow> None
     | Some (res, v') \<Rightarrow> Some (Ok res, c\<lparr>w_draws := Suc (w_draws c), w_net := set_vault v' (w_net c)\<rparr>))"
proof -
  let ?env = "mock_env nd cd lo" and ?mid = "new_message_id (mock_env nd cd lo) (w_draws c)"
  obtain b where b: "serialise_request ?env request ?mid = Some b"
      "verify_signature nd (safe_key_sign ?env (SafeApp i) b) (safe_key_public_key ?env (SafeApp i)) request ?mid = Ok ()"
    using assms(1) unfolding sign_laws_def mock_env_sel by blast
  have ids: "own_public_id ?env c = App pid" "safe_key_public_key ?env (SafeApp i) = app_public_key nd pid"
    using assms(4) pid by (simp_all add: own_public_id_def safe_key_public_id_def safe_key_public_key_def mock_env_def)
  have "compose_message ?env request True c =
      Some (Ok (MsgRequest request ?mid (Some (safe_key_sign ?env (SafeApp i) b))), c\<lparr>w_draws := Suc (w_draws c)\<rparr>)"
    using assms(4) b by (simp add: compose_message_def signed_message_def draw_def and_then_def)
  moreover have "process_request nd (App pid) (MsgRequest request ?mid (Some (safe_key_sign ?env (SafeApp i) b))) (vault_of (w_net c)) =
    (case handle_request nd (App pid) (app_public_key nd pid) (client_public_key nd (app_owner nd pid)) request (vault_of (w_net c)) of
       None \<Rightarrow> None | Some (res, v') \<Rightarrow> Some (Ok (MsgResponse res ?mid), v'))"
    using assms(3) b(2) auth by (auto simp: process_request_def authenticate_def ids(2) Let_def)
  ultimately show ?thesis
    using assms(2,3) ids(1)
    by (simp add: send_def and_then_def on_net_def cm_send_plain own_public_id_def split: option.splits)
qed

lemma send_mutation_authenticated:
  assumes "sign_laws (mock_env nd cd lo)" and "plain_net (w_net c)"
    and "get_type nd request \<noteq> PublicGet" and "cl_full_id c = SafeClient i"
    and "cid = full_client_id lo i"
    and "handle_request nd (Client cid) (client_public_key nd cid) (client_public_key nd cid) request
      (vault_of (w_net c)) = Some (RespMutation r, v')"
  shows "send_mutation (mock_env nd cd lo) request c = Some (res_map_err DataError r,
    c\<lparr>w_draws := Suc (w_draws c), w_net := set_vault v' (w_net c)\<rparr>)"
  using send_authenticated [OF assms(1-5)] assms(6)
  by (simp add: send_mutation_def and_then_def expect_response_def as_mutation_def)

end
