(* ===== verification/Client_Props.thy ===== *)
theory Client_Props
  imports Client_Mock
begin

section \<open>Properties of clients on the mock network\<close>

text \<open>
  Two contracts between the client code and the vault: the variants of requests and responses agree,
  and the client's cache of immutable data agrees with the network where the data is published.
\<close>

subsection \<open>No unexpected events\<close>

definition surprised :: "('n, 'a) cm \<Rightarrow> 'n client \<Rightarrow> bool" where
  "surprised m c \<longleftrightarrow> (\<exists>c'. m c = Some (Err ReceivedUnexpectedEvent, c'))"

lemma expect_not_surprised:
  "sel res \<noteq> None \<Longrightarrow> expect_response sel res \<noteq> Err ReceivedUnexpectedEvent"
  by (auto simp: expect_response_def res_map_err_def split: sum.splits)

lemma query_not_surprised:
  assumes "error_laws nd" and "plain_net (w_net c)"
    and "\<And>res. fits request res \<Longrightarrow> sel res \<noteq> None"
  shows "\<not> surprised (query (mock_env nd cd lo) request sel) c"
proof
  assume "surprised (query (mock_env nd cd lo) request sel) c"
  then obtain c' where "query (mock_env nd cd lo) request sel c = Some (Err ReceivedUnexpectedEvent, c')"
    by (auto simp: surprised_def)
  then show False
    using assms(2)
  proof (rule query_plain)
    fix res mid mid' sig v'
    assume res: "Err ReceivedUnexpectedEvent = expect_response sel res"
      and run: "process_request nd (own_public_id (mock_env nd cd lo) c) (MsgRequest request mid sig)
        (vault_of (w_net c)) = Some (Ok (MsgResponse res mid'), v')"
    have "fits request res"
      using process_request_fits [OF assms(1) run] by simp
    then show False
      using expect_not_surprised [of sel res] assms(3) res by simp
  qed
qed

lemma query_kind_not_surprised:
  assumes "\<not> surprised (query env request sel) c"
  shows "\<not> surprised (query_kind env request sel kind) c"
  using assms
  by (auto simp: surprised_def query_kind_def ok_or_def elim!: and_then_Some split: option.splits)

lemma mutation_not_surprised:
  assumes "error_laws nd" and "plain_net (w_net c)"
    and "\<And>res. fits request res \<Longrightarrow> as_mutation res \<noteq> None"
  shows "\<not> surprised (send_mutation (mock_env nd cd lo) request) c"
  using query_not_surprised [OF assms(1-3)] by (simp add: query_def send_mutation_def)

text \<open>A request sent under a given identity is processed by the vault, and its response comes back.\<close>

lemma process_request_replies:
  "process_request nd pid (MsgRequest request mid sig) v = Some (q, v') \<Longrightarrow> \<exists>res. q = Ok (MsgResponse res mid)"
  by (auto simp: process_request_def split: sum.splits option.splits prod.splits)

lemma plain_groups [simp]:
  "plain_net (cm\<lparr>cm_groups := g\<rparr>) = plain_net cm" "vault_of (cm\<lparr>cm_groups := g\<rparr>) = vault_of cm"
  by (simp_all add: plain_net_def vault_of_def)

lemma send_as_plain:
  assumes run: "send_as_helper (mock_env nd cd lo) request i c = Some (r, c')" and plain: "plain_net (w_net c)"
  obtains pid mid sig res mid' v' where "r = Ok res"
    "process_request nd pid (MsgRequest request mid sig) (vault_of (w_net c)) = Some (Ok (MsgResponse res mid'), v')"
    "vault_of (w_net c') = v'" "plain_net (w_net c')" "cl_cache c' = cl_cache c"
proof -
  let ?m = "case i of Some i \<Rightarrow> sign_request (mock_env nd cd lo) request i
      | None \<Rightarrow> compose_message (mock_env nd cd lo) request True"
  let ?k = "case i of Some i \<Rightarrow> SafeClient i | None \<Rightarrow> cl_full_id c"
  let ?groups = "insert (safe_key_public_id (mock_env nd cd lo) ?k) (cm_groups (w_net c))"
  have msg: "\<exists>mid sig. x = Ok (MsgRequest request mid sig) \<and> c1 = c\<lparr>w_draws := Suc (w_draws c)\<rparr>"
    if "?m c = Some (x, c1)" for x c1
    using that by (auto simp: sign_request_def compose_message_def elim: signed_message_Some split: option.splits)
  have boot: "tr_bootstrap (mock_env nd cd lo) ?k = cm_bootstrap (safe_key_public_id (mock_env nd cd lo) ?k)"
    by (simp add: mock_env_def safe_key_public_id_def split: safe_key.splits)
  from run [unfolded send_as_helper_def] show ?thesis
  proof (cases rule: and_then_Some)
    case (goes_on m c1)
    then obtain mid sig where m: "m = MsgRequest request mid sig" and c1: "c1 = c\<lparr>w_draws := Suc (w_draws c)\<rparr>"
      using msg by blast
    obtain cm' where net: "cm_send nd cd (safe_key_public_id (mock_env nd cd lo) ?k) m
        ((w_net c)\<lparr>cm_groups := ?groups\<rparr>) = Some (r, cm')" and c': "c' = c1\<lparr>w_net := cm'\<rparr>"
      using goes_on(2) plain
      by (auto simp: Let_def boot on_net_def cm_bootstrap_def and_then_def c1 m cm_send_clone_plain
          split: option.splits)
    then show ?thesis
      using that [of _ "safe_key_public_id (mock_env nd cd lo) ?k" mid sig] plain
      by (auto simp: m c1 cm_send_plain dest: process_request_replies
          split: option.splits sum.splits message.splits)
  qed (use msg in blast)
qed

lemma send_as_not_surprised:
  assumes "error_laws nd" and "plain_net (w_net c)" and "\<And>res. fits request res \<Longrightarrow> sel res \<noteq> None"
  shows "\<not> surprised (send_as (mock_env nd cd lo) request sel i) c"
proof
  assume "surprised (send_as (mock_env nd cd lo) request sel i) c"
  then obtain c' where "send_as (mock_env nd cd lo) request sel i c = Some (Err ReceivedUnexpectedEvent, c')"
    by (auto simp: surprised_def)
  then show False
    unfolding send_as_def
  proof (cases rule: and_then_Some)
    case (fails e)
    show False
      by (rule send_as_plain [OF fails(1) assms(2)]) simp
  next
    case (goes_on res c1)
    have "fits request res"
      by (rule send_as_plain [OF goes_on(1) assms(2)]) (auto dest: process_request_fits [OF assms(1)])
    then show False
      using goes_on(2) expect_not_surprised [of sel res] assms(3) by simp
  qed
qed

lemma get_idata_not_surprised:
  assumes "error_laws nd" and "plain_net (w_net c)"
  shows "\<not> surprised (client_get_idata (mock_env nd cd lo) a) c"
proof
  let ?q = "query (mock_env nd cd lo) (GetIData a) as_get_idata"
  obtain hit cache where lru: "lru_get_mut (mock_env nd cd lo) a (cl_cache c) = (hit, cache)"
    by (rule prod.exhaust)
  have "\<not> surprised ?q (c\<lparr>cl_cache := cache\<rparr>)"
    using assms by (intro query_not_surprised) (simp_all add: fits_def)
  moreover assume "surprised (client_get_idata (mock_env nd cd lo) a) c"
  ultimately show False
    using lru by (cases hit) (auto simp: surprised_def client_get_idata_def elim!: and_then_Some)
qed

lemmas client_query_defs = client_get_unseq_mdata_def client_get_seq_mdata_value_def
  client_get_unseq_mdata_value_def client_get_seq_mdata_def client_get_seq_mdata_shell_def
  client_get_unseq_mdata_shell_def client_get_mdata_version_def client_list_unseq_mdata_entries_def
  client_list_seq_mdata_entries_def client_list_mdata_keys_def client_list_seq_mdata_values_def
  client_list_mdata_user_permissions_def client_list_unseq_mdata_values_def
  client_list_mdata_permissions_def client_get_adata_def client_get_adata_shell_def
  client_get_adata_value_def client_get_adata_range_def client_get_adata_indices_def
  client_get_adata_last_entry_def client_get_unpub_adata_permissions_at_index_def
  client_get_pub_adata_permissions_at_index_def client_get_pub_adata_user_permissions_def
  client_get_unpub_adata_user_permissions_def client_get_adata_owners_def
  client_list_auth_keys_and_version_def

lemmas client_mutation_defs = client_put_idata_def client_put_unseq_mutable_data_def
  client_put_seq_mutable_data_def client_mutate_seq_mdata_entries_def
  client_mutate_unseq_mdata_entries_def client_set_mdata_user_permissions_def
  client_del_mdata_user_permissions_def client_put_adata_def client_add_unpub_adata_permissions_def
  client_add_pub_adata_permissions_def client_set_adata_owners_def client_append_seq_adata_def
  client_append_unseq_adata_def client_ins_auth_key_def client_del_auth_key_def
  client_delete_mdata_def client_delete_adata_def

text \<open>
  (C31) None of the twenty-eight query methods of a client on the mock network (the methods named \<open>get_\<close> or \<open>list_\<close> of client/mod.rs that
  send a request, under the client's own or a given identity) fails with \<open>ReceivedUnexpectedEvent\<close>: for
  each of them the vault answers with the variant the method takes apart, for success and
  for every error.
\<close>

theorem client_queries_not_surprised:
  fixes c :: "'raw conn_manager client"
  assumes "error_laws nd" and "plain_net (w_net c)" and "env = mock_env nd cd lo"
  shows "\<not> surprised (client_get_unseq_mdata env name tag) c \<and>
    \<not> surprised (client_get_seq_mdata_value env name tag key) c \<and>
    \<not> surprised (client_get_unseq_mdata_value env name tag key) c \<and>
    \<not> surprised (client_get_seq_mdata env name tag) c \<and>
    \<not> surprised (client_get_seq_mdata_shell env name tag) c \<and>
    \<not> surprised (client_get_unseq_mdata_shell env name tag) c \<and>
    \<not> surprised (client_get_mdata_version env maddr) c \<and>
    \<not> surprised (client_list_unseq_mdata_entries env name tag) c \<and>
    \<not> surprised (client_list_seq_mdata_entries env name tag) c \<and>
    \<not> surprised (client_list_mdata_keys env maddr) c \<and>
    \<not> surprised (client_list_seq_mdata_values env name tag) c \<and>
    \<not> surprised (client_list_unseq_mdata_values env name tag) c \<and>
    \<not> surprised (client_list_mdata_user_permissions env maddr user) c \<and>
    \<not> surprised (client_list_mdata_permissions env maddr) c \<and>
    \<not> surprised (client_get_adata env addr) c \<and>
    \<not> surprised (client_get_adata_shell env i addr) c \<and>
    \<not> surprised (client_get_adata_value env addr key) c \<and>
    \<not> surprised (client_get_adata_range env addr (i, j)) c \<and>
    \<not> surprised (client_get_adata_indices env addr) c \<and>
    \<not> surprised (client_get_adata_last_entry env addr) c \<and>
    \<not> surprised (client_get_unpub_adata_permissions_at_index env addr i) c \<and>
    \<not> surprised (client_get_pub_adata_permissions_at_index env addr i) c \<and>
    \<not> surprised (client_get_pub_adata_user_permissions env addr i someone) c \<and>
    \<not> surprised (client_get_unpub_adata_user_permissions env addr i user) c \<and>
    \<not> surprised (client_get_adata_owners env addr i) c \<and>
    \<not> surprised (client_list_auth_keys_and_version env) c \<and>
    \<not> surprised (client_get_idata env iaddr) c \<and>
    \<not> surprised (client_get_balance env client_id) c"
  unfolding client_query_defs client_get_balance_def assms(3)
  by (intro conjI query_kind_not_surprised query_not_surprised [OF assms(1,2)]
      get_idata_not_surprised [OF assms(1,2)] send_as_not_surprised [OF assms(1,2)]) (simp_all add: fits_def)

text \<open>
  Every mutating method of a client on the mock network ends in success or in an error of the
  data, never in \<open>ReceivedUnexpectedEvent\<close>.
\<close>

theorem client_mutations_not_surprised:
  fixes c :: "'raw conn_manager client"
  assumes "error_laws nd" and "plain_net (w_net c)" and "env = mock_env nd cd lo"
  shows "\<not> surprised (client_put_idata env d) c \<and>
    \<not> surprised (client_put_unseq_mutable_data env b) c \<and>
    \<not> surprised (client_put_seq_mutable_data env b) c \<and>
    \<not> surprised (client_mutate_seq_mdata_entries env name tag actions) c \<and>
    \<not> surprised (client_mutate_unseq_mdata_entries env name tag b) c \<and>
    \<not> surprised (client_set_mdata_user_permissions env maddr user perms ver) c \<and>
    \<not> surprised (client_del_mdata_user_permissions env maddr user ver) c \<and>
    \<not> surprised (client_put_adata env x) c \<and>
    \<not> surprised (client_add_unpub_adata_permissions env addr b ver) c \<and>
    \<not> surprised (client_add_pub_adata_permissions env addr b ver) c \<and>
    \<not> surprised (client_set_adata_owners env addr owner ver) c \<and>
    \<not> surprised (client_append_seq_adata env op ver) c \<and>
    \<not> surprised (client_append_unseq_adata env op) c \<and>
    \<not> surprised (client_ins_auth_key env user app ver) c \<and>
    \<not> surprised (client_del_auth_key env user ver) c \<and>
    \<not> surprised (client_delete_mdata env maddr) c \<and>
    \<not> surprised (client_delete_adata env addr) c"
  unfolding client_mutation_defs assms(3)
  by (intro conjI mutation_not_surprised [OF assms(1,2)]) (simp_all add: fits_def)

subsection \<open>Instances\<close>

definition sample_ops :: local_ops where
  "sample_ops = \<lparr>
     full_client_id = (\<lambda>c. case c of ClientFullId b \<Rightarrow> ClientPublicId b),
     full_app_id = (\<lambda>a. case a of AppFullId b \<Rightarrow> AppPublicId b),
     client_sign = (\<lambda>c msg. case c of ClientFullId b \<Rightarrow> b),
     app_sign = (\<lambda>a msg. case a of AppFullId b \<Rightarrow> take 1 b),
     serialise_request = (\<lambda>r m. Some m),
     new_message_id = (\<lambda>n. [of_nat n]),
     random_u64 = of_nat,
     channel_closed_text = ''closed'',
     lru_get_mut = (\<lambda>k c. (map_of c k, c)),
     lru_insert = (\<lambda>k v c. (k, v) # c),
     lru_remove = (\<lambda>k c. filter (\<lambda>p. fst p \<noteq> k) c)\<rparr>"

definition memory_net :: "vault \<Rightarrow> cache option conn_manager" where
  "memory_net v = cm_new (v, MemoryStore, empty_disk)"

definition sample_client :: "vault \<Rightarrow> bytes \<Rightarrow> cache option conn_manager client" where
  "sample_client v b = \<lparr>w_net = memory_net v, w_draws = 0, cl_full_id = SafeClient (ClientFullId b),
     cl_owner_key = PublicKey b, cl_cache = [], cl_timeout = 0, cl_events = [], cl_rx_alive = True\<rparr>"

definition sample_env :: "cache option conn_manager client_env" where
  "sample_env = mock_env sample_nd sample_codec sample_ops"

lemma sample_error_laws: "error_laws sample_nd"
proof -
  have "fits request (error_response sample_nd request e)" for request e
    unfolding fits_def sample_nd_def
    by (cases request) (simp_all add: sample_error_response_def selector_defs)
  then show ?thesis
    by (simp add: error_laws_def) (simp add: sample_nd_def sample_error_response_def)
qed

lemma plain_sample [simp]: "plain_net (w_net (sample_client v b))"
  by (simp add: sample_client_def memory_net_def cm_new_def plain_net_def)

lemma sample_lru_laws: "lru_laws sample_env"
proof -
  have "map_of (filter (\<lambda>p. fst p \<noteq> k) c) = (map_of c)(k := None)" for c :: lru and k
    by (induction c) auto
  then show ?thesis
    by (auto simp: lru_laws_def sample_env_def sample_ops_def)
qed

theorem client_queries_not_surprised_witness:
  "\<not> surprised (client_get_mdata_version sample_env (MSeqAddr (XorName [3]) 0)) (sample_client sample_vault [1])"
  using client_queries_not_surprised [OF sample_error_laws plain_sample sample_env_def] by blast

theorem client_mutations_not_surprised_witness:
  "\<not> surprised (client_put_idata sample_env (IPub [9])) (sample_client sample_vault [1])"
  using client_mutations_not_surprised [OF sample_error_laws plain_sample sample_env_def] by blast

subsection \<open>The cache of immutable data\<close>

text \<open>
  A session of one client with the mock network: it fetches and deletes immutable data and sends
  requests of any kind, under its own identity or another, while other parties send theirs.
\<close>

inductive session :: "safe_nd \<Rightarrow> 'raw codec \<Rightarrow> local_ops \<Rightarrow> 'raw conn_manager client \<Rightarrow> bool"
  for nd cd lo where
  start: "vault_reachable nd cfg (vault_of (w_net c)) \<Longrightarrow> plain_net (w_net c) \<Longrightarrow> cl_cache c = [] \<Longrightarrow>
    session nd cd lo c"
| gets_idata: "session nd cd lo c \<Longrightarrow> client_get_idata (mock_env nd cd lo) a c = Some (x, c') \<Longrightarrow>
    session nd cd lo c'"
| deletes_idata: "session nd cd lo c \<Longrightarrow> client_del_unpub_idata (mock_env nd cd lo) n c = Some (y, c') \<Longrightarrow>
    session nd cd lo c'"
| sends: "session nd cd lo c \<Longrightarrow> send (mock_env nd cd lo) request c = Some (z, c') \<Longrightarrow>
    session nd cd lo c'"
| sends_as: "session nd cd lo c \<Longrightarrow> send_as_helper (mock_env nd cd lo) request i c = Some (z, c') \<Longrightarrow>
    session nd cd lo c'"
| others: "session nd cd lo c \<Longrightarrow> process_request nd pid msg (vault_of (w_net c)) = Some (r, v') \<Longrightarrow>
    session nd cd lo (c\<lparr>w_net := set_vault v' (w_net c)\<rparr>)"

definition cache_coherent :: "safe_nd \<Rightarrow> 'raw conn_manager client \<Rightarrow> bool" where
  "cache_coherent nd c \<longleftrightarrow> plain_net (w_net c) \<and> vault_wf nd (vault_of (w_net c)) \<and>
     (\<forall>a d. map_of (cl_cache c) a = Some d \<and> idata_addr_is_pub a \<longrightarrow>
        nae_manager (vault_of (w_net c)) (IdImmutable a) = Some (Immutable d))"

text \<open>A step that changes the vault by requests only and drops entries of the cache at most.\<close>

lemma coherent_step:
  assumes "cache_coherent nd c" and "idata_laws nd"
    and "process_request nd pid msg (vault_of (w_net c)) = Some (r, v')"
    and "vault_of (w_net c') = v'" and "plain_net (w_net c')"
    and "\<And>a. map_of (cl_cache c') a = map_of (cl_cache c) a \<or> map_of (cl_cache c') a = None"
  shows "cache_coherent nd c'"
  unfolding cache_coherent_def
proof (intro conjI allI impI)
  show "vault_wf nd (vault_of (w_net c'))"
    using assms(1,3,4) keeps_relD [OF wf.process_request_rel] by (auto simp: cache_coherent_def)
  fix a d assume a: "map_of (cl_cache c') a = Some d \<and> idata_addr_is_pub a"
  then have st: "nae_manager (vault_of (w_net c)) (IdImmutable a) = Some (Immutable d)"
    using assms(1) assms(6) [of a] by (auto simp: cache_coherent_def)
  then obtain x where "d = IPub x"
    using assms(1,2) a by (cases d) (force simp: cache_coherent_def vault_wf_def idata_laws_def)+
  then show "nae_manager (vault_of (w_net c')) (IdImmutable a) = Some (Immutable d)"
    using st assms(4) keeps_relD [OF pub.process_request_rel assms(3)] by (simp add: published_kept_def)
qed (rule assms(5))

lemma coherent_cache:
  assumes "cache_coherent nd c"
    and "\<And>a. map_of cache a = map_of (cl_cache c) a \<or> map_of cache a = None"
  shows "cache_coherent nd (c\<lparr>cl_cache := cache\<rparr>)"
proof -
  have "map_of (cl_cache c) a = Some d" if "map_of cache a = Some d" for a d
    using assms(2) [of a] that by auto
  with assms(1) show ?thesis
    by (simp add: cache_coherent_def)
qed

text \<open>What the vault answers to \<open>GetIData\<close> is what it stores.\<close>

lemma get_idata_stored:
  assumes "process_request nd pid (MsgRequest (GetIData a) mid sig) v = Some (Ok (MsgResponse res mid'), v')"
    and "expect_response as_get_idata res = Ok d" and "error_laws nd"
  shows "v' = v \<and> nae_manager v (IdImmutable a) = Some (Immutable d)"
proof -
  have "v' = v"
    using process_reads_only [OF assms(1)] by (simp add: reads_only_def)
  moreover have "res = RespGetIData (Ok d)"
    using assms(2) by (cases res) (auto simp: expect_response_def as_get_idata_def res_map_err_def
        split: sum.splits)
  then have "nae_manager v (IdImmutable a) = Some (Immutable d)"
    using assms(1,3)
    by (auto simp: error_laws_def process_request_def handle_request_def req_get_idata_def respond_def
        get_idata_def get_data_def and_then_def split: sum.splits option.splits prod.splits data.splits idata.splits if_splits)
  ultimately show ?thesis ..
qed

lemma coherent_query:
  assumes "cache_coherent nd c" and "idata_laws nd"
    and "query (mock_env nd cd lo) request sel c = Some (r, c')"
  shows "cache_coherent nd c'"
proof -
  have plain: "plain_net (w_net c)"
    using assms(1) by (simp add: cache_coherent_def)
  from assms(3) this show ?thesis
  proof (rule query_plain)
    fix res mid mid' sig v'
    assume run: "process_request nd (own_public_id (mock_env nd cd lo) c) (MsgRequest request mid sig)
        (vault_of (w_net c)) = Some (Ok (MsgResponse res mid'), v')"
      and "c' = c\<lparr>w_draws := Suc (w_draws c), w_net := set_vault v' (w_net c)\<rparr>"
    then show "cache_coherent nd c'"
      using plain by (intro coherent_step [OF assms(1,2) run]) simp_all
  qed
qed

lemma cache_coherent_get:
  assumes laws: "lru_laws (mock_env nd cd lo)" "idata_laws nd" "error_laws nd"
    and coh: "cache_coherent nd c" and run: "client_get_idata (mock_env nd cd lo) a c = Some (x, c')"
  shows "cache_coherent nd c' \<and> (\<forall>d. x = Ok d \<and> idata_addr_is_pub a \<longrightarrow>
    nae_manager (vault_of (w_net c')) (IdImmutable a) = Some (Immutable d))"
proof -
  let ?env = "mock_env nd cd lo"
  obtain hit cache where lru: "lru_get_mut ?env a (cl_cache c) = (hit, cache)"
    by (cases "lru_get_mut ?env a (cl_cache c)")
  then have same: "hit = map_of (cl_cache c) a" "map_of cache = map_of (cl_cache c)"
    using laws(1) by (auto simp: lru_laws_def dest!: spec [of _ a] spec [of _ "cl_cache c"])
  have coh1: "cache_coherent nd (c\<lparr>cl_cache := cache\<rparr>)"
    using coherent_cache [OF coh, of cache] same by simp
  show ?thesis
  proof (cases hit)
    case (Some d)
    then show ?thesis
      using run lru coh coh1 same by (auto simp: client_get_idata_def cache_coherent_def)
  next
    case None
    then have "and_then (query ?env (GetIData a) as_get_idata) (\<lambda>d c. Some (Ok d, c\<lparr>cl_cache :=
        lru_insert ?env (idata_addr nd d) d (cl_cache c)\<rparr>)) (c\<lparr>cl_cache := cache\<rparr>) = Some (x, c')"
      using run lru by (simp add: client_get_idata_def)
    then show ?thesis
    proof (cases rule: and_then_Some)
      case (fails e)
      then show ?thesis
        using coherent_query [OF coh1 laws(2)] by auto
    next
      case (goes_on d c1)
      have c1: "cache_coherent nd c1"
        using coherent_query [OF coh1 laws(2) goes_on(1)] .
      have st: "nae_manager (vault_of (w_net c1)) (IdImmutable a) = Some (Immutable d)"
        using goes_on(1)
      proof (rule query_plain)
        show "plain_net (w_net (c\<lparr>cl_cache := cache\<rparr>))"
          using coh by (simp add: cache_coherent_def)
      qed (auto dest!: get_idata_stored [OF _ sym laws(3)])
      then have addr: "idata_addr nd d = a"
        using c1 by (force simp: cache_coherent_def vault_wf_def)
      then have "cache_coherent nd (c1\<lparr>cl_cache := lru_insert ?env a d (cl_cache c1)\<rparr>)"
        using c1 st laws(1) unfolding cache_coherent_def lru_laws_def
        by simp (metis option.distinct(1) option.inject)
      with goes_on(2) addr st show ?thesis
        by auto
    qed
  qed
qed

lemma session_coherent:
  assumes laws: "lru_laws (mock_env nd cd lo)" "idata_laws nd" "error_laws nd"
    and "session nd cd lo c"
  shows "cache_coherent nd c"
  using assms(4)
proof induction
  case (start cfg c)
  then show ?case
    by (simp add: cache_coherent_def vault_reachable_wf)
next
  case (gets_idata c a x c')
  then show ?case
    using cache_coherent_get [OF laws] by blast
next
  case (deletes_idata c n y c')
  let ?c = "c\<lparr>cl_cache := lru_remove (mock_env nd cd lo) (IUnpubAddr n) (cl_cache c)\<rparr>"
  have "query (mock_env nd cd lo) (DeleteUnpubIData (IUnpubAddr n)) as_mutation ?c = Some (y, c')"
    using deletes_idata by (simp add: client_del_unpub_idata_def and_then_def query_def send_mutation_def)
  moreover have "cache_coherent nd ?c"
    using laws(1) by (intro coherent_cache deletes_idata) (auto simp: lru_laws_def)
  ultimately show ?case
    using coherent_query [OF _ laws(2)] by blast
next
  case (sends c request z c')
  have "query (mock_env nd cd lo) request (\<lambda>res. None) c = Some (Err ReceivedUnexpectedEvent, c') \<or>
      (\<exists>e. query (mock_env nd cd lo) request (\<lambda>res. None) c = Some (Err e, c'))"
    using sends(2) by (cases z) (simp_all add: query_def and_then_def expect_response_def)
  then show ?case
    using coherent_query [OF sends(3) laws(2)] by blast
next
  case (sends_as c request i z c')
  then have "plain_net (w_net c)"
    by (simp add: cache_coherent_def)
  from sends_as(2) this show ?case
    by (rule send_as_plain) (rule coherent_step [OF sends_as(3) laws(2)], assumption+, simp)
next
  case (others c pid msg r v')
  then show ?case
    by (intro coherent_step [OF others(3) laws(2) others(2)]) (auto simp: cache_coherent_def)
qed

text \<open>
  (C13) A client never serves stale published data: in any session on the mock network, with other
  parties sending requests in between, published immutable data that \<open>get_idata\<close> returns, from the
  cache or from the network, is what the network holds at that address.
\<close>

theorem published_idata_never_stale:
  assumes "lru_laws (mock_env nd cd lo)" and "idata_laws nd" and "error_laws nd"
    and "session nd cd lo c"
    and "client_get_idata (mock_env nd cd lo) a c = Some (Ok d, c')" and "idata_addr_is_pub a"
  shows "nae_manager (vault_of (w_net c')) (IdImmutable a) = Some (Immutable d)"
  using cache_coherent_get [OF assms(1-3) session_coherent [OF assms(1-4)] assms(5)] assms(6) by blast

definition after_put :: vault where
  "after_put = snd (the (process_request sample_nd (Client bob)
     (MsgRequest (PutIData (IPub [9])) [] (Some [2])) sample_vault))"

definition reader_client :: "cache option conn_manager client" where
  "reader_client = (let c = sample_client sample_vault [1] in c\<lparr>w_net := set_vault after_put (w_net c)\<rparr>)"

lemma vault_of_sample [simp]: "vault_of (w_net (sample_client v b)) = v"
  by (simp add: sample_client_def memory_net_def cm_new_def vault_of_def)

lemma reader_session: "session sample_nd sample_codec sample_ops reader_client"
proof -
  have "session sample_nd sample_codec sample_ops (sample_client sample_vault [1])"
    by (rule session.start [of _ plain_config])
      (simp_all add: sample_vault_reachable, simp add: sample_client_def)
  moreover have "process_request sample_nd (Client bob) (MsgRequest (PutIData (IPub [9])) [] (Some [2]))
      (vault_of (w_net (sample_client sample_vault [1]))) =
    Some (Ok (MsgResponse (RespMutation (Ok ())) []), after_put)"
    by (simp add: after_put_def vault_eval sample_simps Let_def req_put_idata_def)
  ultimately show ?thesis
    unfolding reader_client_def Let_def by (rule session.others)
qed

theorem published_idata_never_stale_witness:
  "nae_manager (vault_of (w_net (snd (the (client_get_idata sample_env (IPubAddr (XorName [9])) reader_client)))))
     (IdImmutable (IPubAddr (XorName [9]))) = Some (Immutable (IPub [9]))"
proof -
  let ?get = "client_get_idata sample_env (IPubAddr (XorName [9])) reader_client"
  have "?get = Some (Ok (IPub [9]), snd (the ?get))"
    by (simp add: client_get_idata_def reader_client_def sample_client_def memory_net_def cm_new_def
        sample_env_def mock_env_def query_def send_def compose_message_def signed_message_def draw_def
        on_net_def cm_send_def intercept_request_def set_vault_def guarded_memory is_writing_def
        expect_response_def as_get_idata_def own_public_id_def safe_key_public_id_def sample_ops_def
        after_put_def vault_eval sample_simps Let_def req_put_idata_def req_get_idata_def get_idata_def)
  then show ?thesis
    by (intro published_idata_never_stale [OF sample_lru_laws [unfolded sample_env_def]
          sample_idata_laws sample_error_laws reader_session]) (simp_all add: sample_env_def)
qed

end
