(* ===== verification/Recovery.thy ===== *)
theory Recovery
  imports Client_Ops
begin

section \<open>Operations with recovery\<close>

text \<open>
  safe\_core/src/client/recovery.rs: mutations that are repeated, with corrected arguments, when the
  network refuses them for a reason that can be repaired. \<open>MDataPermissionSet\<close> is a third-party type;
  its methods are the fields of \<open>perm_ops\<close>. Versions wrap as in a release build; the versions inside
  an \<open>EntryError\<close> are bytes, and are incremented as bytes before they are widened.
\<close>

record perm_ops =
  ps_new :: perm_set
  ps_allow :: "perm_set \<Rightarrow> mdata_action \<Rightarrow> perm_set"
  ps_deny :: "perm_set \<Rightarrow> mdata_action \<Rightarrow> perm_set"
  ps_is_allowed :: "perm_set \<Rightarrow> mdata_action \<Rightarrow> bool"

definition perm_laws :: "perm_ops \<Rightarrow> bool" where
  "perm_laws po \<longleftrightarrow> (\<forall>a. \<not> ps_is_allowed po (ps_new po) a) \<and>
     (\<forall>s a a'. ps_is_allowed po (ps_allow po s a) a' \<longleftrightarrow> a' = a \<or> ps_is_allowed po s a') \<and>
     (\<forall>s a a'. ps_is_allowed po (ps_deny po s a) a' \<longleftrightarrow> a' \<noteq> a \<and> ps_is_allowed po s a')"

definition MAX_ATTEMPTS :: nat where
  "MAX_ATTEMPTS = 10"

subsection \<open>The retry loop\<close>

text \<open>
  What the loop does with an error: go on with a new loop state if attempts are left, end with success,
  or give up. The first argument of \<open>retry\<close> is \<open>MAX_ATTEMPTS - attempts\<close>.
\<close>

datatype 'st recovery = RetryWith 'st | Finish | GiveUp

fun retry :: "nat \<Rightarrow> ('st \<Rightarrow> ('s, 'e, unit) prog) \<Rightarrow> ('st \<Rightarrow> 'e \<Rightarrow> 'st recovery) \<Rightarrow> 'st
    \<Rightarrow> ('s, 'e, unit) prog" where
  "retry left attempt recover st = or_else (attempt st) (\<lambda>e. case recover st e of
     RetryWith st' \<Rightarrow>
       (case left of 0 \<Rightarrow> lift_res (Err e) | Suc n \<Rightarrow> retry n attempt recover st')
   | Finish \<Rightarrow> lift_res (Ok ())
   | GiveUp \<Rightarrow> lift_res (Err e))"

declare retry.simps [simp del]

subsection \<open>Entry actions\<close>

definition fix_entry_action :: "seq_entry_action \<Rightarrow> entry_error \<Rightarrow> seq_entry_action option" where
  "fix_entry_action action error = (case (action, error) of
     (Ins value, EntryExists current_version) \<Rightarrow>
       Some (Update (MDataSeqValue (sv_data value) (ucast (current_version + 1))))
   | (Update value, EntryInvalidSuccessor current_version) \<Rightarrow>
       Some (Update (MDataSeqValue (sv_data value) (ucast (current_version + 1))))
   | (Update value, EntryNoSuchEntry) \<Rightarrow> Some (Ins value)
   | (Del _, EntryNoSuchEntry) \<Rightarrow> None
   | (Del _, EntryInvalidSuccessor current_version) \<Rightarrow> Some (Del (ucast (current_version + 1)))
   | (action, _) \<Rightarrow> Some action)"

text \<open>A fold that inserts the repaired action of each key, if any, into a new map.\<close>

definition fix_entry_actions ::
  "seq_entry_actions \<Rightarrow> (bytes, entry_error) btree \<Rightarrow> seq_entry_actions" where
  "fix_entry_actions actions errors = bt_collect (\<lambda>key action.
     case bt_get errors key of
       Some error \<Rightarrow> fix_entry_action action error
     | None \<Rightarrow> Some action) actions"

definition recover_entries :: "seq_entry_actions \<Rightarrow> core_error \<Rightarrow> seq_entry_actions recovery" where
  "recover_entries actions error = (case error of
     DataError (InvalidEntryActions errors) \<Rightarrow> RetryWith (fix_entry_actions actions errors)
   | RequestTimeout \<Rightarrow> RetryWith actions
   | _ \<Rightarrow> GiveUp)"

definition mutate_mdata_entries ::
  "'n client_env \<Rightarrow> mdata_address \<Rightarrow> seq_entry_actions \<Rightarrow> ('n, unit) cm" where
  "mutate_mdata_entries env address =
     retry MAX_ATTEMPTS (client_mutate_seq_mdata_entries env (md_name address) (md_tag address))
       recover_entries"

subsection \<open>Versions\<close>

definition recover_version :: "u64 \<Rightarrow> core_error \<Rightarrow> u64 recovery" where
  "recover_version version error = (case error of
     DataError (InvalidSuccessor current_version) \<Rightarrow> RetryWith (current_version + 1)
   | RequestTimeout \<Rightarrow> RetryWith version
   | _ \<Rightarrow> GiveUp)"

definition recover_version_or_gone :: "u64 \<Rightarrow> core_error \<Rightarrow> u64 recovery" where
  "recover_version_or_gone version error = (case error of
     DataError NoSuchKey \<Rightarrow> Finish
   | DataError (InvalidSuccessor current_version) \<Rightarrow> RetryWith (current_version + 1)
   | RequestTimeout \<Rightarrow> RetryWith version
   | _ \<Rightarrow> GiveUp)"

definition set_mdata_user_permissions ::
  "'n client_env \<Rightarrow> mdata_address \<Rightarrow> public_key \<Rightarrow> perm_set \<Rightarrow> u64 \<Rightarrow> ('n, unit) cm" where
  "set_mdata_user_permissions env address user permissions =
     retry MAX_ATTEMPTS (client_set_mdata_user_permissions env address user permissions) recover_version"

definition del_mdata_user_permissions ::
  "'n client_env \<Rightarrow> mdata_address \<Rightarrow> public_key \<Rightarrow> u64 \<Rightarrow> ('n, unit) cm" where
  "del_mdata_user_permissions env address user =
     retry MAX_ATTEMPTS (client_del_mdata_user_permissions env address user) recover_version_or_gone"

definition recovery_ins_auth_key ::
  "'n client_env \<Rightarrow> public_key \<Rightarrow> app_permissions \<Rightarrow> u64 \<Rightarrow> ('n, unit) cm" where
  "recovery_ins_auth_key env key permissions =
     retry MAX_ATTEMPTS (client_ins_auth_key env key permissions) recover_version"

subsection \<open>Updating existing data\<close>

definition update_actions :: "seq_entries \<Rightarrow> seq_entries \<Rightarrow> seq_entry_actions" where
  "update_actions current_entries desired_entries =
     bt_collect (\<lambda>key v.
       case bt_get current_entries key of
         Some current_value \<Rightarrow>
           (if sv_version current_value \<le> sv_version v then Some (Update v) else None)
       | None \<Rightarrow> Some (Ins v)) desired_entries"

definition update_mdata_entries ::
  "'n client_env \<Rightarrow> mdata_address \<Rightarrow> seq_entries \<Rightarrow> seq_entries \<Rightarrow> ('n, unit) cm" where
  "update_mdata_entries env address current_entries desired_entries =
     mutate_mdata_entries env address (update_actions current_entries desired_entries)"

definition union_permission_sets :: "perm_ops \<Rightarrow> perm_set \<Rightarrow> perm_set \<Rightarrow> perm_set" where
  "union_permission_sets po a b =
     fold (\<lambda>action s.
       if ps_is_allowed po a action \<or> ps_is_allowed po b action then ps_allow po s action
       else if \<not> ps_is_allowed po a action \<or> \<not> ps_is_allowed po b action then ps_deny po s action
       else s) [ActInsert, ActUpdate, ActDelete, ActManagePermissions] (ps_new po)"

definition merged_permissions ::
  "perm_ops \<Rightarrow> (public_key, perm_set) btree \<Rightarrow> (public_key, perm_set) btree \<Rightarrow> (public_key \<times> perm_set) list" where
  "merged_permissions po current_permissions desired_permissions =
     map (\<lambda>(user, desired_set). case bt_get current_permissions user of
         Some current_set \<Rightarrow> (user, union_permission_sets po current_set desired_set)
       | None \<Rightarrow> (user, desired_set)) desired_permissions"

text \<open>The loop pops the permissions from the end of the vector.\<close>

fun set_permissions_loop ::
  "'n client_env \<Rightarrow> mdata_address \<Rightarrow> (public_key \<times> perm_set) list \<Rightarrow> u64 \<Rightarrow> ('n, unit) cm" where
  "set_permissions_loop env address [] version = lift_res (Ok ())"
| "set_permissions_loop env address ((user, s) # popped) version =
     and_then (set_mdata_user_permissions env address user s version)
       (\<lambda>_. set_permissions_loop env address popped (version + 1))"

definition update_mdata_permissions ::
  "'n client_env \<Rightarrow> perm_ops \<Rightarrow> mdata_address \<Rightarrow> (public_key, perm_set) btree
     \<Rightarrow> (public_key, perm_set) btree \<Rightarrow> u64 \<Rightarrow> ('n, unit) cm" where
  "update_mdata_permissions env po address current_permissions desired_permissions version =
     set_permissions_loop env address
       (rev (merged_permissions po current_permissions desired_permissions)) version"

text \<open>\<open>f0.join3(f1, f2)\<close>: all three requests are sent; the first error in this order is the result.\<close>

definition join3 ::
  "('s, 'e, 'a) prog \<Rightarrow> ('s, 'e, 'b) prog \<Rightarrow> ('s, 'e, 'c) prog \<Rightarrow> ('s, 'e, 'a \<times> 'b \<times> 'c) prog" where
  "join3 f0 f1 f2 s = (case f0 s of
     None \<Rightarrow> None
   | Some (r0, s0) \<Rightarrow> (case f1 s0 of
       None \<Rightarrow> None
     | Some (r1, s1) \<Rightarrow> (case f2 s1 of
         None \<Rightarrow> None
       | Some (r2, s2) \<Rightarrow>
           Some (res_and_then r0 (\<lambda>a. res_and_then r1 (\<lambda>b. res_map (\<lambda>c. (a, b, c)) r2)), s2))))"

definition update_mdata :: "'n client_env \<Rightarrow> perm_ops \<Rightarrow> bytes \<Rightarrow> ('n, unit) cm" where
  "update_mdata env po data =
     (let nd = ce_nd env; address = md_address nd (MSeq data) in
      and_then (join3 (client_list_seq_mdata_entries env (md_name address) (md_tag address))
                      (client_list_mdata_permissions env address)
                      (client_get_mdata_version env address)) (\<lambda>(entries, permissions, version).
      and_then (update_mdata_permissions env po address permissions
                  (md_permissions nd (MSeq data)) (version + 1)) (\<lambda>_.
        update_mdata_entries env address entries (seq_entries nd data))))"

definition put_mdata :: "'n client_env \<Rightarrow> perm_ops \<Rightarrow> bytes \<Rightarrow> ('n, unit) cm" where
  "put_mdata env po data =
     or_else (client_put_seq_mutable_data env data) (\<lambda>error.
       if error = DataError DataExists then update_mdata env po data else lift_res (Err error))"

end
