(* ===== verification/Recovery_Props.thy ===== *)
theory Recovery_Props
  imports Recovery Client_Props
begin

section \<open>Properties of the operations with recovery\<close>

text \<open>
  The number of requests the retry loops send, their success against the vault where the version was
  wrong, and what the repairs of entry actions and permission sets do.
\<close>

subsection \<open>How many requests a program sends\<close>

text \<open>
  A program that returns after at least \<open>low\<close> and at most \<open>high\<close> requests, from every state. Every request takes one message
  identifier, so the number of requests is the number of identifiers drawn.
\<close>

definition sends :: "nat \<Rightarrow> nat \<Rightarrow> ('n, 'a) cm \<Rightarrow> bool" where
  "sends low high m \<longleftrightarrow>
     (\<forall>c. \<exists>r c'. m c = Some (r, c') \<and> w_draws c + low \<le> w_draws c' \<and> w_draws c' \<le> w_draws c + high)"

lemma sendsE:
  assumes "sends low high m"
  obtains r c' where "m c = Some (r, c')" "w_draws c + low \<le> w_draws c'" "w_draws c' \<le> w_draws c + high"
  using assms unfolding sends_def by blast

lemma sendsD:
  "sends low high m \<Longrightarrow> \<exists>r c'. m c = Some (r, c') \<and> w_draws c + low \<le> w_draws c' \<and> w_draws c' \<le> w_draws c + high"
  by (simp add: sends_def)

lemma sends_lift: "sends 0 high (lift_res r)"
  by (simp add: sends_def lift_res_def)

lemma sends_mono: "sends low high m \<Longrightarrow> low' \<le> low \<Longrightarrow> high \<le> high' \<Longrightarrow> sends low' high' m"
  unfolding sends_def by (meson add_left_mono order_trans)

lemma sends_and_then:
  assumes "sends low a m" and "\<And>x. sends 0 b (f x)"
  shows "sends low (a + b) (and_then m f)"
  unfolding sends_def
proof
  fix c
  obtain r c1 where m: "m c = Some (r, c1)" "w_draws c + low \<le> w_draws c1" "w_draws c1 \<le> w_draws c + a"
    by (rule sendsE [OF assms(1)])
  show "\<exists>r c'. and_then m f c = Some (r, c') \<and> w_draws c + low \<le> w_draws c' \<and> w_draws c' \<le> w_draws c + (a + b)"
  proof (cases r)
    case (Inr x)
    obtain q c2 where "f x c1 = Some (q, c2)" "w_draws c1 + 0 \<le> w_draws c2" "w_draws c2 \<le> w_draws c1 + b"
      by (rule sendsE [OF assms(2)])
    then show ?thesis using m Inr by (simp add: and_then_def)
  qed (use m in \<open>simp add: and_then_def\<close>)
qed

lemma sends_or_else:
  assumes "sends low a m" and "\<And>e. sends 0 b (h e)"
  shows "sends low (a + b) (or_else m h)"
  unfolding sends_def
proof
  fix c
  obtain r c1 where m: "m c = Some (r, c1)" "w_draws c + low \<le> w_draws c1" "w_draws c1 \<le> w_draws c + a"
    by (rule sendsE [OF assms(1)])
  show "\<exists>r c'. or_else m h c = Some (r, c') \<and> w_draws c + low \<le> w_draws c' \<and> w_draws c' \<le> w_draws c + (a + b)"
  proof (cases r)
    case (Inl e)
    obtain q c2 where "h e c1 = Some (q, c2)" "w_draws c1 + 0 \<le> w_draws c2" "w_draws c2 \<le> w_draws c1 + b"
      by (rule sendsE [OF assms(2)])
    then show ?thesis using m Inl by (simp add: or_else_def)
  qed (use m in \<open>simp add: or_else_def\<close>)
qed

lemma sends_join3:
  assumes "sends 1 1 f0" and "sends 1 1 f1" and "sends 1 1 f2"
  shows "sends 3 3 (join3 f0 f1 f2)"
  unfolding sends_def
proof
  fix c
  obtain r0 c0 where f0: "f0 c = Some (r0, c0)" "w_draws c + 1 \<le> w_draws c0" "w_draws c0 \<le> w_draws c + 1"
    by (rule sendsE [OF assms(1)])
  obtain r1 c1 where f1: "f1 c0 = Some (r1, c1)" "w_draws c0 + 1 \<le> w_draws c1" "w_draws c1 \<le> w_draws c0 + 1"
    by (rule sendsE [OF assms(2)])
  obtain r2 c2 where f2: "f2 c1 = Some (r2, c2)" "w_draws c1 + 1 \<le> w_draws c2" "w_draws c2 \<le> w_draws c1 + 1"
    by (rule sendsE [OF assms(3)])
  show "\<exists>r c'. join3 f0 f1 f2 c = Some (r, c') \<and> w_draws c + 3 \<le> w_draws c' \<and> w_draws c' \<le> w_draws c + 3"
    using f0 f1 f2 by (simp add: join3_def)
qed

text \<open>
  A network that answers: each message is answered with a response or an error, of whatever kind, and requests can be
  serialised.
\<close>

definition answering :: "'n client_env \<Rightarrow> bool" where
  "answering env \<longleftrightarrow> (\<forall>request mid. serialise_request env request mid \<noteq> None) \<and>
     (\<forall>pid msg n. tr_send env pid msg n \<noteq> None)"

lemma sends_send:
  assumes "answering env"
  shows "sends 1 1 (send env request)"
  unfolding sends_def
proof
  fix c :: "'a client"
  have net: "\<exists>r n'. tr_send env pid msg n = Some (r, n')" for pid msg n
    using assms by (auto simp: answering_def)
  obtain b where "serialise_request env request (new_message_id env (w_draws c)) = Some b"
    using assms unfolding answering_def by blast
  then have "\<exists>msg c1. compose_message env request (get_type (ce_nd env) request \<noteq> PublicGet) c = Some (Ok msg, c1) \<and>
      w_draws c1 = Suc (w_draws c)"
    by (simp add: compose_message_def signed_message_def draw_def and_then_def)
  then obtain msg c1 where "compose_message env request (get_type (ce_nd env) request \<noteq> PublicGet) c = Some (Ok msg, c1)"
    and "w_draws c1 = Suc (w_draws c)"
    by blast
  moreover obtain r n' where "tr_send env (own_public_id env c1) msg (w_net c1) = Some (r, n')"
    using net by blast
  ultimately show "\<exists>r c'. send env request c = Some (r, c') \<and> w_draws c + 1 \<le> w_draws c' \<and> w_draws c' \<le> w_draws c + 1"
    by (simp add: send_def and_then_def on_net_def)
qed

lemma sends_send_mutation: "answering env \<Longrightarrow> sends 1 1 (send_mutation env request)"
  unfolding send_mutation_def using sends_and_then [OF sends_send sends_lift [of 0]] by simp

lemma sends_query: "answering env \<Longrightarrow> sends 1 1 (query env request sel)"
  unfolding query_def using sends_and_then [OF sends_send sends_lift [of 0]] by simp

lemma sends_query_kind: "answering env \<Longrightarrow> sends 1 1 (query_kind env request sel kind)"
  unfolding query_kind_def using sends_and_then [OF sends_query sends_lift [of 0]] by simp

subsection \<open>The retry loop as a client of its attempts\<close>

text \<open>What the loop relies on: on a network that answers, an attempt returns after one request.\<close>

locale answered_attempts =
  fixes env :: "'n client_env" and attempt :: "'st \<Rightarrow> ('n, unit) cm"
  assumes attempt_sends: "answering env \<Longrightarrow> sends 1 1 (attempt st)"
begin

lemma retry_step:
  assumes "answering env" and "\<And>k st'. n = Suc k \<Longrightarrow> sends 1 (Suc k) (retry k attempt recover st')"
  shows "sends 1 (Suc n) (retry n attempt recover st)"
proof -
  have "sends 0 n (case recover st e of
      RetryWith st' \<Rightarrow> (case n of 0 \<Rightarrow> lift_res (Err e) | Suc n \<Rightarrow> retry n attempt recover st')
    | Finish \<Rightarrow> lift_res (Ok ()) | GiveUp \<Rightarrow> lift_res (Err e))" for e
    by (auto simp: sends_lift intro: sends_mono [OF assms(2)] split: recovery.split nat.split)
  then have "sends 1 (1 + n) (retry n attempt recover st)"
    unfolding retry.simps [of n] by (rule sends_or_else [OF attempt_sends [OF assms(1)]])
  then show ?thesis by simp
qed

lemma retry_sends: "answering env \<Longrightarrow> sends 1 (Suc n) (retry n attempt recover st)"
proof (induction n arbitrary: st)
  case (Suc n)
  then show ?case by (auto intro!: retry_step [of "Suc n"] simp del: One_nat_def)
qed (rule retry_step, simp_all)

end

interpretation entries: answered_attempts env "client_mutate_seq_mdata_entries env name tag"
  for env name tag
  by unfold_locales (unfold client_mutate_seq_mdata_entries_def, rule sends_send_mutation)

interpretation set_perms: answered_attempts env "client_set_mdata_user_permissions env address user perms"
  for env address user perms
  by unfold_locales (unfold client_set_mdata_user_permissions_def, rule sends_send_mutation)

interpretation del_perms: answered_attempts env "client_del_mdata_user_permissions env address user"
  for env address user
  by unfold_locales (unfold client_del_mdata_user_permissions_def, rule sends_send_mutation)

interpretation ins_key: answered_attempts env "client_ins_auth_key env key perms"
  for env key perms
  by unfold_locales (unfold client_ins_auth_key_def, rule sends_send_mutation)

lemma recovery_sends:
  assumes "answering env"
  shows "sends 1 11 (mutate_mdata_entries env address actions)"
    and "sends 1 11 (set_mdata_user_permissions env address user perms version)"
    and "sends 1 11 (del_mdata_user_permissions env address user version)"
    and "sends 1 11 (recovery_ins_auth_key env user app_perms version)"
  using entries.retry_sends [OF assms, of 10] set_perms.retry_sends [OF assms, of 10]
    del_perms.retry_sends [OF assms, of 10] ins_key.retry_sends [OF assms, of 10]
  by (simp_all add: mutate_mdata_entries_def set_mdata_user_permissions_def
      del_mdata_user_permissions_def recovery_ins_auth_key_def MAX_ATTEMPTS_def)

lemma set_permissions_loop_sends:
  assumes "answering env"
  shows "sends 0 (11 * length perms) (set_permissions_loop env address perms version)"
proof (induction perms arbitrary: version)
  case (Cons p perms)
  obtain user s where "p = (user, s)"
    by (rule prod.exhaust)
  then show ?case
    using sends_mono [OF sends_and_then [OF recovery_sends(2) [OF assms, of address user s version], of "11 * length perms"
        "\<lambda>_. set_permissions_loop env address perms (version + 1)"]] Cons [of "version + 1"] by simp
qed (simp add: sends_lift)

lemma update_mdata_sends:
  assumes "answering env"
  shows "sends 3 (14 + 11 * length (md_permissions (ce_nd env) (MSeq data))) (update_mdata env po data)"
proof -
  let ?perms = "md_permissions (ce_nd env) (MSeq data)" and ?a = "md_address (ce_nd env) (MSeq data)"
  have fetch: "sends 3 3 (join3 (client_list_seq_mdata_entries env (md_name ?a) (md_tag ?a))
      (client_list_mdata_permissions env ?a) (client_get_mdata_version env ?a))"
    unfolding client_list_seq_mdata_entries_def client_list_mdata_permissions_def client_get_mdata_version_def
    by (intro sends_join3 sends_query_kind sends_query assms)
  have "sends 0 (11 * length ?perms) (update_mdata_permissions env po ?a cur ?perms version)" for cur version
    using set_permissions_loop_sends [OF assms, of "rev (merged_permissions po cur ?perms)"]
    by (simp add: update_mdata_permissions_def merged_permissions_def)
  then have "sends 0 (11 * length ?perms + 11) (and_then (update_mdata_permissions env po ?a cur ?perms version)
      (\<lambda>_. update_mdata_entries env ?a ents (seq_entries (ce_nd env) data)))" for cur version ents
    using sends_mono [OF recovery_sends(1) [OF assms]]
    by (intro sends_and_then) (simp_all add: update_mdata_entries_def)
  then show ?thesis
    unfolding update_mdata_def Let_def
    by (intro sends_mono [OF sends_and_then [OF fetch, where b = "11 * length ?perms + 11"]]) (auto split: prod.split)
qed

lemma put_mdata_sends:
  assumes "answering env"
  shows "sends 1 (15 + 11 * length (md_permissions (ce_nd env) (MSeq data))) (put_mdata env po data)"
proof -
  have "sends 1 1 (client_put_seq_mutable_data env data)"
    unfolding client_put_seq_mutable_data_def by (rule sends_send_mutation [OF assms])
  then show ?thesis
    unfolding put_mdata_def
    by (intro sends_mono [OF sends_or_else [where b = "14 + 11 * length (md_permissions (ce_nd env) (MSeq data))"]])
      (auto simp: sends_lift intro: sends_mono [OF update_mdata_sends [OF assms]])
qed

text \<open>
  (C24) On a network that answers each message with some response or error, and where requests can be serialised, each operation of
  recovery.rs ends, and the number of requests it sends is bounded: mutating entries, setting and deleting
  the permissions of a user and authorising a key end after at least one and at most eleven requests (the first
  one and \<open>MAX_ATTEMPTS\<close> repetitions); putting mutable data ends after at least one and at most \<open>15 + 11 n\<close> requests, and
  its update of data that exists already after at least three and at most \<open>14 + 11 n\<close>, where the data gives permissions
  to \<open>n\<close> users.
\<close>

theorem recovery_requests_bounded:
  assumes "answering env"
  shows "(\<forall>m \<in> {mutate_mdata_entries env address actions,
      set_mdata_user_permissions env address user perms version,
      del_mdata_user_permissions env address user version,
      recovery_ins_auth_key env user app_perms version}.
        \<exists>r c'. m c = Some (r, c') \<and> w_draws c + 1 \<le> w_draws c' \<and> w_draws c' \<le> w_draws c + 11) \<and>
    (\<exists>r c'. put_mdata env po data c = Some (r, c') \<and> w_draws c + 1 \<le> w_draws c' \<and>
      w_draws c' \<le> w_draws c + (15 + 11 * length (md_permissions (ce_nd env) (MSeq data)))) \<and>
    (\<exists>r c'. update_mdata env po data c = Some (r, c') \<and> w_draws c + 3 \<le> w_draws c' \<and>
      w_draws c' \<le> w_draws c + (14 + 11 * length (md_permissions (ce_nd env) (MSeq data))))"
  by (intro conjI ballI sendsD put_mdata_sends [OF assms] update_mdata_sends [OF assms])
    (auto simp del: One_nat_def intro: recovery_sends [OF assms])

text \<open>A network on which every message times out: there all eleven requests are sent.\<close>

definition timeout_env :: "cache option conn_manager client_env" where
  "timeout_env = sample_env\<lparr>tr_send := (\<lambda>pid msg n. Some (Err RequestTimeout, n))\<rparr>"

lemma timeout_answering: "answering timeout_env"
  by (simp add: answering_def timeout_env_def sample_env_def mock_env_def sample_ops_def)

definition no_perms :: perm_ops where
  "no_perms = \<lparr>ps_new = [], ps_allow = (\<lambda>s a. s), ps_deny = (\<lambda>s a. s), ps_is_allowed = (\<lambda>s a. False)\<rparr>"

lemma timeout_mutation: "send_mutation timeout_env request c = Some (Err RequestTimeout, c\<lparr>w_draws := Suc (w_draws c)\<rparr>)"
  by (simp add: timeout_env_def sample_env_def mock_env_def sample_ops_def send_mutation_def send_def compose_message_def
      signed_message_def draw_def on_net_def and_then_def)

lemma timeout_retry:
  "retry n (client_mutate_seq_mdata_entries timeout_env name tag) recover_entries actions c =
     Some (Err RequestTimeout, c\<lparr>w_draws := w_draws c + Suc n\<rparr>)"
  by (induction n arbitrary: c)
    (subst retry.simps; simp add: or_else_def client_mutate_seq_mdata_entries_def timeout_mutation recover_entries_def)+

theorem recovery_requests_bounded_witness:
  "mutate_mdata_entries timeout_env (MSeqAddr (XorName [3]) 0) [([1], Del 4)] (sample_client sample_vault [1]) =
      Some (Err RequestTimeout, (sample_client sample_vault [1])\<lparr>w_draws := 11\<rparr>) \<and>
    (\<exists>r c'. update_mdata timeout_env no_perms [3, 1] (sample_client sample_vault [1]) = Some (r, c') \<and> 3 \<le> w_draws c')"
proof
  have draws: "w_draws (sample_client sample_vault [1]) = 0"
    by (simp add: sample_client_def)
  show "mutate_mdata_entries timeout_env (MSeqAddr (XorName [3]) 0) [([1], Del 4)] (sample_client sample_vault [1]) =
      Some (Err RequestTimeout, (sample_client sample_vault [1])\<lparr>w_draws := 11\<rparr>)"
    by (simp add: mutate_mdata_entries_def timeout_retry draws MAX_ATTEMPTS_def)
  show "\<exists>r c'. update_mdata timeout_env no_perms [3, 1] (sample_client sample_vault [1]) = Some (r, c') \<and> 3 \<le> w_draws c'"
    using recovery_requests_bounded [OF timeout_answering, THEN conjunct2, THEN conjunct2,
        of no_perms "[3, 1]" "sample_client sample_vault [1]"] draws by auto
qed

subsection \<open>Authorising a key\<close>

lemma retry_first:
  "attempt st s = Some (Ok (), s') \<Longrightarrow> retry n attempt recover st s = Some (Ok (), s')"
  by (subst retry.simps) (simp add: or_else_def)

lemma retry_second:
  assumes "attempt st s = Some (Err e, s1)" and "recover st e = RetryWith st'"
    and "attempt st' s1 = Some (Ok (), s2)"
  shows "retry (Suc n) attempt recover st s = Some (Ok (), s2)"
  using assms retry_first [of attempt st' s1 s2 n recover] by (subst retry.simps) (simp add: or_else_def)

lemma recovery_ins_auth_key_effect:
  assumes "sign_laws (mock_env nd cd lo)" and "plain_net (w_net c)"
    and types: "\<forall>k p ver. get_type nd (InsAuthKey k p ver) \<noteq> PublicGet"
    and "cl_full_id c = SafeClient i" and "name = public_id_name nd (Client (full_client_id lo i))"
  shows "\<exists>c' account. recovery_ins_auth_key (mock_env nd cd lo) key perms version c = Some (Ok (), c') \<and>
    client_manager (vault_of (w_net c')) name = Some account \<and>
    acc_auth_keys account key = Some perms \<and>
    acc_version account = keys_version (vault_of (w_net c)) name + 1 \<and>
    w_draws c' \<le> w_draws c + 2"
proof -
  let ?env = "mock_env nd cd lo" and ?v = "vault_of (w_net c)"
  obtain a where a: "client_manager (ensure_account name ?v) name = Some a"
    using ensure_account_Some by blast
  have ver: "acc_version a = keys_version ?v name"
    using keys_version_ensure [of name ?v] a by (simp add: keys_version_def)
  have idem: "ensure_account name (ensure_account name ?v) = ensure_account name ?v"
    using a by (simp add: ensure_account_def [of name "ensure_account name ?v"] get_account_def)
  define done_v where "done_v = set_account name
      (a\<lparr>acc_auth_keys := (acc_auth_keys a)(key \<mapsto> perms), acc_version := acc_version a + 1\<rparr>) (ensure_account name ?v)"
  note step = send_mutation_authenticated [OF assms(1) _ _ _ HOL.refl, of _ "InsAuthKey key perms ver" i for ver]
  note arm = handle_request_def req_ins_auth_key_def respond_def ins_auth_key_def Let_def get_account_def
    account_ins_auth_key_def validate_version_def res_and_then_def
  have ok: "client_ins_auth_key ?env key perms (acc_version a + 1) c0 =
      Some (Ok (), c0\<lparr>w_draws := Suc (w_draws c0), w_net := set_vault done_v (w_net c0)\<rparr>)"
    if "plain_net (w_net c0)" "cl_full_id c0 = cl_full_id c"
      "vault_of (w_net c0) = ?v \<or> vault_of (w_net c0) = ensure_account name ?v" for c0
    using that step [of c0 "acc_version a + 1" "Ok ()" done_v] assms(3-5) a idem
    by (auto simp: client_ins_auth_key_def arm done_v_def)
  show ?thesis
  proof (cases "version = acc_version a + 1")
    case True
    let ?c = "c\<lparr>w_draws := Suc (w_draws c), w_net := set_vault done_v (w_net c)\<rparr>"
    have "recovery_ins_auth_key ?env key perms version c = Some (Ok (), ?c)"
      unfolding recovery_ins_auth_key_def True using ok assms(2) by (intro retry_first) simp
    then show ?thesis
      using ver by (intro exI [of _ ?c]) (simp add: done_v_def set_account_def)
  next
    case False
    define c1 where "c1 = c\<lparr>w_draws := Suc (w_draws c), w_net := set_vault (ensure_account name ?v) (w_net c)\<rparr>"
    let ?c = "c1\<lparr>w_draws := Suc (w_draws c1), w_net := set_vault done_v (w_net c1)\<rparr>"
    have "client_ins_auth_key ?env key perms version c = Some (Err (DataError (InvalidSuccessor (acc_version a))), c1)"
      using step [of c version "Err (InvalidSuccessor (acc_version a))" "ensure_account name ?v"] False assms a
      by (simp add: client_ins_auth_key_def arm c1_def)
    moreover have "client_ins_auth_key ?env key perms (acc_version a + 1) c1 = Some (Ok (), ?c)"
      using assms(2) by (intro ok) (simp_all add: c1_def)
    ultimately have "recovery_ins_auth_key ?env key perms version c = Some (Ok (), ?c)"
      unfolding recovery_ins_auth_key_def MAX_ATTEMPTS_def eval_nat_numeral
      by (intro retry_second) (auto simp: recover_version_def)
    then show ?thesis
      using ver by (intro exI [of _ ?c]) (simp add: done_v_def set_account_def c1_def)
  qed
qed

text \<open>
  (C22) Authorising a key with recovery succeeds whatever version the caller passes: for a client
  that signs correctly, on the mock network with nobody else changing the account in between,
  the key is inserted with its permissions, the version of the keys grows by one, and at most two
  requests are sent.
\<close>

theorem recovery_ins_auth_key_succeeds:
  assumes "sign_laws (mock_env nd cd lo)" and "plain_net (w_net c)"
    and types: "\<forall>k p ver. get_type nd (InsAuthKey k p ver) \<noteq> PublicGet"
    and "cl_full_id c = SafeClient i" and "name = public_id_name nd (Client (full_client_id lo i))"
  shows "\<exists>c' account. recovery_ins_auth_key (mock_env nd cd lo) key perms version c = Some (Ok (), c') \<and>
    client_manager (vault_of (w_net c')) name = Some account \<and>
    acc_auth_keys account key = Some perms \<and>
    acc_version account = keys_version (vault_of (w_net c)) name + 1 \<and>
    w_draws c' \<le> w_draws c + 2"
  by (rule recovery_ins_auth_key_effect [OF assms])

lemma sample_sign_laws: "sign_laws sample_env"
  by (auto simp: sign_laws_def sample_env_def mock_env_def sample_ops_def sample_nd_def safe_key_sign_def
      safe_key_public_key_def split: safe_key.splits client_full_id.splits app_full_id.splits)

theorem recovery_ins_auth_key_succeeds_witness:
  "\<exists>c' account. recovery_ins_auth_key sample_env (PublicKey [7]) (AppPermissions True True False) 40
      (sample_client sample_vault [1]) = Some (Ok (), c') \<and>
    client_manager (vault_of (w_net c')) (XorName [1]) = Some account \<and>
    acc_auth_keys account (PublicKey [7]) = Some (AppPermissions True True False)"
  using recovery_ins_auth_key_succeeds [OF sample_sign_laws [unfolded sample_env_def] plain_sample,
      of sample_vault "[1]" "ClientFullId [1]" "XorName [1]" "PublicKey [7]" "AppPermissions True True False" 40]
  by (auto simp: sample_env_def sample_nd_def sample_type_def sample_client_def sample_ops_def)

subsection \<open>Repairing entry actions\<close>

text \<open>
  What the data type reports for an action on the present entries (its documented behaviour): an
  insertion needs an absent key, an update and a deletion need the successor of the present version.
  The reported version is the low byte of the present one.
\<close>

definition action_error :: "seq_entries \<Rightarrow> bytes \<Rightarrow> seq_entry_action \<Rightarrow> entry_error option" where
  "action_error entries key action = (case (action, bt_get entries key) of
     (Ins _, None) \<Rightarrow> None
   | (Ins _, Some cur) \<Rightarrow> Some (EntryExists (ucast (sv_version cur)))
   | (Update _, None) \<Rightarrow> Some EntryNoSuchEntry
   | (Update v, Some cur) \<Rightarrow> (if sv_version v = sv_version cur + 1 then None
       else Some (EntryInvalidSuccessor (ucast (sv_version cur))))
   | (Del _, None) \<Rightarrow> Some EntryNoSuchEntry
   | (Del ver, Some cur) \<Rightarrow> (if ver = sv_version cur + 1 then None
       else Some (EntryInvalidSuccessor (ucast (sv_version cur)))))"

lemma low_byte_successor:
  assumes "v < (255 :: u64)"
  shows "(ucast ((ucast v :: 8 word) + 1) :: u64) = v + 1"
proof -
  have v: "unat v < 255"
    using assms by (simp add: word_less_nat_alt)
  then have low: "unat (ucast v :: 8 word) = unat v"
    by (simp add: unsigned_ucast_eq take_bit_nat_eq_self)
  have "unat ((ucast v :: 8 word) + 1) = unat v + 1"
    using v low by (simp add: unat_word_ariths)
  then have "unat (ucast ((ucast v :: 8 word) + 1) :: u64) = unat v + 1"
    using v by (simp add: unsigned_ucast_eq take_bit_nat_eq_self)
  moreover have "unat (v + 1) = unat v + 1"
    using v by (simp add: unat_word_ariths)
  ultimately show ?thesis
    by (simp add: word_unat_eq_iff)
qed

text \<open>One repaired action raises no error on the same entries.\<close>

lemma fix_entry_action_accepted:
  assumes "action_error entries key action = Some error"
    and "\<And>cur. bt_get entries key = Some cur \<Longrightarrow> sv_version cur < 255"
  shows "Option.bind (fix_entry_action action error) (action_error entries key) = None"
  using assms
  by (cases action; cases "bt_get entries key")
    (auto simp: action_error_def fix_entry_action_def low_byte_successor split: if_splits)

text \<open>
  (C23) Repairing entry actions works: if the reported errors are those of the actions on the present
  entries and no present version is above 254, then the repaired actions raise no error on the same
  entries, so that the repeated mutation is accepted; the repaired map is sorted, an action
  without an error is unchanged, and the only actions dropped are deletions.
\<close>

theorem fixed_actions_accepted:
  assumes "bt_wf actions"
    and "\<forall>key. bt_get errors key = Option.bind (bt_get actions key) (action_error entries key)"
    and "\<forall>key cur. bt_get entries key = Some cur \<longrightarrow> sv_version cur < 255"
  shows "bt_wf (fix_entry_actions actions errors) \<and>
    Option.bind (bt_get (fix_entry_actions actions errors) key) (action_error entries key) = None \<and>
    (bt_get errors key = None \<longrightarrow> bt_get (fix_entry_actions actions errors) key = bt_get actions key) \<and>
    (bt_get (fix_entry_actions actions errors) key = None \<longrightarrow>
       (\<forall>action. bt_get actions key = Some action \<longrightarrow> (\<exists>ver. action = Del ver)))"
proof -
  have get: "bt_get (fix_entry_actions actions errors) key = (case bt_get actions key of
       None \<Rightarrow> None
     | Some action \<Rightarrow> (case action_error entries key action of
         None \<Rightarrow> Some action | Some error \<Rightarrow> fix_entry_action action error))"
    using assms(1,2) by (simp add: fix_entry_actions_def bt_get_collect split: option.split)
  have dropped: "\<exists>ver. action = Del ver" if "fix_entry_action action error = None" for action error
    using that by (cases action; cases error) (auto simp: fix_entry_action_def)
  show ?thesis
    using get assms(2,3) dropped fix_entry_action_accepted [of entries key]
    by (cases "bt_get actions key")
      (auto simp: fix_entry_actions_def bt_wf_collect split: option.splits)
qed

definition outdated_entries :: seq_entries where
  "outdated_entries = [([1], MDataSeqValue [5] 3), ([2], MDataSeqValue [6] 0)]"

definition outdated_actions :: seq_entry_actions where
  "outdated_actions = [([1], Ins (MDataSeqValue [8] 0)), ([2], Del 1), ([3], Del 1)]"

definition outdated_errors :: "(bytes, entry_error) btree" where
  "outdated_errors = [([1], EntryExists 3), ([3], EntryNoSuchEntry)]"

theorem fixed_actions_accepted_witness:
  "fix_entry_actions outdated_actions outdated_errors =
     [([1], Update (MDataSeqValue [8] 4)), ([2], Del 1)] \<and>
   Option.bind (bt_get (fix_entry_actions outdated_actions outdated_errors) [1])
     (action_error outdated_entries [1]) = None"
proof (rule conjI)
  have "bt_wf outdated_actions"
    by (simp add: bt_wf_def outdated_actions_def)
  moreover have "\<forall>key. bt_get outdated_errors key =
      Option.bind (bt_get outdated_actions key) (action_error outdated_entries key)"
    by (simp add: bt_get_def outdated_errors_def outdated_actions_def outdated_entries_def action_error_def)
  moreover have "\<forall>key cur. bt_get outdated_entries key = Some cur \<longrightarrow> sv_version cur < 255"
    by (simp add: bt_get_def outdated_entries_def)
  ultimately show "Option.bind (bt_get (fix_entry_actions outdated_actions outdated_errors) [1])
      (action_error outdated_entries [1]) = None"
    using fixed_actions_accepted [of outdated_actions outdated_errors outdated_entries "[1]"] by blast
qed (simp add: fix_entry_actions_def bt_collect_def outdated_actions_def outdated_errors_def bt_get_def
    fix_entry_action_def)

text \<open>
  The repair never succeeds where the present version is 255: the successor is computed on the
  byte of the error, so that the repaired action has version 0, which is refused with the same
  error, and repairing it again gives the same action.
\<close>

lemma fix_stuck_at_255:
  assumes "bt_get entries key = Some (MDataSeqValue d 255)"
  shows "fix_entry_action (Ins v) (EntryExists 255) = Some (Update (MDataSeqValue (sv_data v) 0)) \<and>
    action_error entries key (Ins v) = Some (EntryExists 255) \<and>
    action_error entries key (Update (MDataSeqValue (sv_data v) 0)) = Some (EntryInvalidSuccessor 255) \<and>
    fix_entry_action (Update (MDataSeqValue (sv_data v) 0)) (EntryInvalidSuccessor 255) =
      Some (Update (MDataSeqValue (sv_data v) 0))"
  using assms by (simp add: fix_entry_action_def action_error_def)

subsection \<open>Permission sets\<close>

text \<open>
  The union of two permission sets allows exactly the actions that one of them allows, except
  reading: the permission to read is dropped even where both sets have it.
\<close>

lemma union_drops_read:
  assumes "perm_laws po"
  shows "ps_is_allowed po (union_permission_sets po a b) act \<longleftrightarrow>
    act \<noteq> ActRead \<and> (ps_is_allowed po a act \<or> ps_is_allowed po b act)"
  using assms by (cases act) (simp_all add: perm_laws_def union_permission_sets_def)

text \<open>A permission set as the codes of the actions it allows.\<close>

definition action_code :: "mdata_action \<Rightarrow> 8 word" where
  "action_code act = (case act of
     ActRead \<Rightarrow> 0 | ActInsert \<Rightarrow> 1 | ActUpdate \<Rightarrow> 2 | ActDelete \<Rightarrow> 3 | ActManagePermissions \<Rightarrow> 4)"

definition sample_perms :: perm_ops where
  "sample_perms = \<lparr>ps_new = [], ps_allow = (\<lambda>s act. action_code act # s),
     ps_deny = (\<lambda>s act. removeAll (action_code act) s), ps_is_allowed = (\<lambda>s act. action_code act \<in> set s)\<rparr>"

lemma action_code_inj: "action_code a = action_code b \<longleftrightarrow> a = b"
  by (cases a; cases b) (simp_all add: action_code_def)

lemma sample_perm_laws: "perm_laws sample_perms"
  by (auto simp: perm_laws_def sample_perms_def action_code_inj)

end
