(* ===== verification/Crypto_Utils.thy ===== *)
theory Crypto_Utils
  imports Client_Base
begin

section \<open>Encryption utilities and the user account\<close>

text \<open>
  The symmetric encryption of safe\_core/src/utils/mod.rs and the encrypted user account of
  client/account.rs. Ciphers, hashes, key derivation and bincode are third-party: they are the fields
  of \<open>crypto_ops\<close>. Keys and nonces are byte strings; a random one is drawn from the sequence of
  the world (\<open>draw\<close>).
\<close>

definition SYM_ENC_KEY_LEN :: nat where "SYM_ENC_KEY_LEN = 32"
definition SYM_ENC_NONCE_LEN :: nat where "SYM_ENC_NONCE_LEN = 16"
definition SHA3_512_HASH_LEN :: nat where "SHA3_512_HASH_LEN = 64"

type_synonym sym_key = bytes
type_synonym sym_nonce = bytes

text \<open>\<open>MDataInfo\<close> of client/mdata\_info.rs; its operations are in \<open>MData_Info\<close>.\<close>

record mdata_info =
  mi_address :: mdata_address
  mi_enc_info :: "(sym_key \<times> sym_nonce) option"
  mi_new_enc_info :: "(sym_key \<times> sym_nonce) option"

record client_keys =
  ck_client_id :: client_full_id
  ck_enc_key :: sym_key
  ck_enc_pk :: bytes
  ck_enc_sk :: bytes

record user_account =
  maid_keys :: client_keys
  access_container :: mdata_info
  config_root :: mdata_info
  root_dirs_created :: bool

record crypto_ops =
  aead_seal :: "sym_key \<Rightarrow> sym_nonce \<Rightarrow> bytes \<Rightarrow> bytes"
  aead_open :: "sym_key \<Rightarrow> sym_nonce \<Rightarrow> bytes \<Rightarrow> bytes option"
  sha3_256 :: "bytes \<Rightarrow> bytes"
  sha3_512 :: "bytes \<Rightarrow> bytes"
  pbkdf2 :: "bytes \<Rightarrow> bytes \<Rightarrow> nat \<Rightarrow> nat \<Rightarrow> bytes" \<comment> \<open>input, salt, iterations, output length\<close>
  ser_enc :: "sym_nonce \<times> bytes \<Rightarrow> bytes + bytes" \<comment> \<open>\<open>serialize(&SymmetricEnc {..})\<close>\<close>
  de_enc :: "bytes \<Rightarrow> bytes + (sym_nonce \<times> bytes)"
  ser_account :: "user_account \<Rightarrow> bytes + bytes"
  de_account :: "bytes \<Rightarrow> bytes + user_account"
  rnd_key :: "nat \<Rightarrow> sym_key"
  rnd_nonce :: "nat \<Rightarrow> sym_nonce"
  rnd_name :: "nat \<Rightarrow> xor_name"

text \<open>
  Authenticated encryption: what is sealed opens under the same key and nonce and does not open under
  another key; bincode decodes the ciphertexts it encodes.
\<close>

definition crypto_laws :: "crypto_ops \<Rightarrow> bool" where
  "crypto_laws co \<longleftrightarrow>
     (\<forall>k n p. aead_open co k n (aead_seal co k n p) = Some p) \<and>
     (\<forall>k k' n n' p. k' \<noteq> k \<longrightarrow> aead_open co k' n' (aead_seal co k n p) = None) \<and>
     (\<forall>x. \<exists>b. ser_enc co x = Ok b \<and> de_enc co b = Ok x)"

subsection \<open>Symmetric encryption\<close>

definition symmetric_encrypt ::
  "crypto_ops \<Rightarrow> bytes \<Rightarrow> sym_key \<Rightarrow> sym_nonce option \<Rightarrow> ('n, 'z, bytes) wm" where
  "symmetric_encrypt co plain_text secret_key nonce =
     and_then (case nonce of Some n \<Rightarrow> lift_res (Ok n) | None \<Rightarrow> draw (rnd_nonce co)) (\<lambda>n.
       lift_res (res_map_err EncodeDecodeError
         (ser_enc co (n, aead_seal co secret_key n plain_text))))"

definition symmetric_decrypt :: "crypto_ops \<Rightarrow> bytes \<Rightarrow> sym_key \<Rightarrow> bytes core_result" where
  "symmetric_decrypt co cipher_text secret_key =
     res_and_then (res_map_err EncodeDecodeError (de_enc co cipher_text)) (\<lambda>(nonce, c).
       ok_or SymmetricDecipherFailure (aead_open co secret_key nonce c))"

definition derive_secrets :: "crypto_ops \<Rightarrow> bytes \<Rightarrow> bytes \<Rightarrow> bytes \<times> bytes \<times> bytes" where
  "derive_secrets co acc_locator acc_password =
     (let locator_hash = sha3_512 co acc_locator;
          pin = sha3_512 co (drop (SHA3_512_HASH_LEN div 2) locator_hash);
          keyword = locator_hash;
          password = sha3_512 co acc_password
      in (password, keyword, pin))"

subsection \<open>The user account\<close>

definition ITERATIONS :: nat where "ITERATIONS = 10000"
definition XOR_NAME_LEN :: nat where "XOR_NAME_LEN = 32"
definition DIR_TAG :: u64 where "DIR_TAG = 15000"

definition mdata_address_from_kind :: "mdata_kind \<Rightarrow> xor_name \<Rightarrow> u64 \<Rightarrow> mdata_address" where
  "mdata_address_from_kind kind name tag = (case kind of
     MKindSeq \<Rightarrow> MSeqAddr name tag | MKindUnseq \<Rightarrow> MUnseqAddr name tag)"

definition new_private :: "mdata_address \<Rightarrow> sym_key \<times> sym_nonce \<Rightarrow> mdata_info" where
  "new_private address enc_info =
     \<lparr>mi_address = address, mi_enc_info = Some enc_info, mi_new_enc_info = None\<rparr>"

definition random_private :: "crypto_ops \<Rightarrow> mdata_kind \<Rightarrow> u64 \<Rightarrow> ('n, 'z, mdata_info) wm" where
  "random_private co kind type_tag =
     and_then (draw (rnd_name co)) (\<lambda>name.
     and_then (draw (rnd_key co)) (\<lambda>key.
     and_then (draw (rnd_nonce co)) (\<lambda>nonce.
       lift_res (Ok (new_private (mdata_address_from_kind kind name type_tag) (key, nonce))))))"

definition user_account_new :: "crypto_ops \<Rightarrow> client_keys \<Rightarrow> ('n, 'z, user_account) wm" where
  "user_account_new co keys =
     and_then (random_private co MKindSeq DIR_TAG) (\<lambda>access.
     and_then (random_private co MKindSeq DIR_TAG) (\<lambda>root.
       lift_res (Ok \<lparr>maid_keys = keys, access_container = access, config_root = root,
                     root_dirs_created = False\<rparr>)))"

definition derive_key :: "crypto_ops \<Rightarrow> nat \<Rightarrow> bytes \<Rightarrow> bytes \<Rightarrow> bytes" where
  "derive_key co len input user_salt = pbkdf2 co input (sha3_256 co user_salt) ITERATIONS len"

definition generate_crypto_keys :: "crypto_ops \<Rightarrow> bytes \<Rightarrow> bytes \<Rightarrow> sym_key \<times> sym_nonce" where
  "generate_crypto_keys co password pin =
     (let output = derive_key co (SYM_ENC_KEY_LEN + SYM_ENC_NONCE_LEN) password pin
      in (take SYM_ENC_KEY_LEN output, drop SYM_ENC_KEY_LEN output))"

definition generate_network_id :: "crypto_ops \<Rightarrow> bytes \<Rightarrow> bytes \<Rightarrow> xor_name" where
  "generate_network_id co keyword pin = XorName (derive_key co XOR_NAME_LEN keyword pin)"

definition account_encrypt :: "crypto_ops \<Rightarrow> user_account \<Rightarrow> bytes \<Rightarrow> bytes \<Rightarrow> bytes core_result" where
  "account_encrypt co account password pin =
     res_and_then (res_map_err EncodeDecodeError (ser_account co account)) (\<lambda>serialised_self.
       case generate_crypto_keys co password pin of (key, nonce) \<Rightarrow>
         Ok (aead_seal co key nonce serialised_self))"

definition account_decrypt :: "crypto_ops \<Rightarrow> bytes \<Rightarrow> bytes \<Rightarrow> bytes \<Rightarrow> user_account core_result" where
  "account_decrypt co encrypted_self password pin =
     (case generate_crypto_keys co password pin of (key, nonce) \<Rightarrow>
       res_and_then (ok_or SymmetricDecipherFailure (aead_open co key nonce encrypted_self))
         (\<lambda>decrypted_self. res_map_err EncodeDecodeError (de_account co decrypted_self)))"

definition client_safe_key :: "client_keys \<Rightarrow> safe_key" where
  "client_safe_key keys = SafeClient (ck_client_id keys)"

definition keys_public_key :: "'n client_env \<Rightarrow> client_keys \<Rightarrow> public_key" where
  "keys_public_key env keys = client_public_key (ce_nd env) (full_client_id env (ck_client_id keys))"

lemma symmetric_encrypt_Some:
  assumes "crypto_laws co"
  obtains n b w' where "symmetric_encrypt co p k nonce w = Some (Ok b, w')"
    "de_enc co b = Ok (n, aead_seal co k n p)"
proof -
  let ?n = "case nonce of Some n \<Rightarrow> n | None \<Rightarrow> rnd_nonce co (w_draws w)"
  obtain b where b: "ser_enc co (?n, aead_seal co k ?n p) = Ok b" "de_enc co b = Ok (?n, aead_seal co k ?n p)"
    using assms unfolding crypto_laws_def by blast
  show ?thesis
    by (rule that [of b "case nonce of Some n \<Rightarrow> w | None \<Rightarrow> w\<lparr>w_draws := Suc (w_draws w)\<rparr>" ?n]) (use b in \<open>auto simp: symmetric_encrypt_def draw_def and_then_def split: option.splits\<close>)
qed

lemma symmetric_decrypt_sealed:
  assumes "crypto_laws co" and "de_enc co b = Ok (n, aead_seal co k n p)"
  shows "symmetric_decrypt co b k = Ok p"
    and "k' \<noteq> k \<Longrightarrow> symmetric_decrypt co b k' = Err SymmetricDecipherFailure"
  using assms by (auto simp: symmetric_decrypt_def crypto_laws_def)

text \<open>
  An account that was encrypted with the user's credentials is decrypted by the same credentials,
  and by credentials from which another key is derived it is refused.
\<close>

theorem account_roundtrip:
  assumes "crypto_laws co" and "ser_account co account = Ok b" and "de_account co b = Ok account"
  shows "\<exists>cipher. account_encrypt co account password pin = Ok cipher \<and>
    account_decrypt co cipher password pin = Ok account \<and>
    (\<forall>password' pin'. fst (generate_crypto_keys co password' pin') \<noteq> fst (generate_crypto_keys co password pin) \<longrightarrow>
       account_decrypt co cipher password' pin' = Err SymmetricDecipherFailure)"
  using assms by (auto simp: account_encrypt_def account_decrypt_def crypto_laws_def split: prod.splits)

subsection \<open>A concrete instance\<close>

text \<open>A pair of byte strings, the length of the first one in unary before them.\<close>

definition pair_enc :: "bytes \<times> bytes \<Rightarrow> bytes" where
  "pair_enc x = replicate (length (fst x)) 1 @ 0 # fst x @ snd x"

definition pair_dec :: "bytes \<Rightarrow> bytes \<times> bytes" where
  "pair_dec xs = (let n = length (takeWhile (\<lambda>b. b = 1) xs); ys = drop (Suc n) xs in (take n ys, drop n ys))"

lemma pair_dec_enc [simp]: "pair_dec (pair_enc x) = x"
proof -
  have "takeWhile (\<lambda>b. b = 1) (pair_enc x) = replicate (length (fst x)) 1"
    unfolding pair_enc_def by (subst takeWhile_append2) auto
  then show ?thesis
    by (simp add: pair_dec_def pair_enc_def)
qed

definition sample_account :: user_account where
  "sample_account = \<lparr>maid_keys = \<lparr>ck_client_id = ClientFullId [1], ck_enc_key = [2], ck_enc_pk = [3], ck_enc_sk = [4]\<rparr>,
     access_container = new_private (MSeqAddr (XorName [5]) DIR_TAG) ([6], [7]),
     config_root = new_private (MSeqAddr (XorName [8]) DIR_TAG) ([9], [10]), root_dirs_created = False\<rparr>"

definition sample_crypto :: crypto_ops where
  "sample_crypto = \<lparr>
     aead_seal = (\<lambda>k n p. pair_enc (k, p)),
     aead_open = (\<lambda>k n c. if fst (pair_dec c) = k then Some (snd (pair_dec c)) else None),
     sha3_256 = (\<lambda>b. b), sha3_512 = (\<lambda>b. b),
     pbkdf2 = (\<lambda>input salt n len. take len (input @ salt)),
     ser_enc = (\<lambda>x. Ok (pair_enc x)), de_enc = (\<lambda>b. Ok (pair_dec b)),
     ser_account = (\<lambda>a. Ok []), de_account = (\<lambda>b. Ok sample_account),
     rnd_key = (\<lambda>i. [of_nat i]), rnd_nonce = (\<lambda>i. [of_nat i]), rnd_name = (\<lambda>i. XorName [of_nat i])\<rparr>"

lemma sample_crypto_laws: "crypto_laws sample_crypto"
  by (simp add: crypto_laws_def sample_crypto_def)

theorem account_roundtrip_witness:
  "\<exists>cipher. account_encrypt sample_crypto sample_account [1] [2] = Ok cipher \<and>
    account_decrypt sample_crypto cipher [1] [2] = Ok sample_account \<and>
    account_decrypt sample_crypto cipher [3] [2] = Err SymmetricDecipherFailure"
proof -
  have "fst (generate_crypto_keys sample_crypto [3] [2]) \<noteq> fst (generate_crypto_keys sample_crypto [1] [2])"
    by (simp add: generate_crypto_keys_def derive_key_def sample_crypto_def SYM_ENC_KEY_LEN_def
        SYM_ENC_NONCE_LEN_def)
  moreover have "ser_account sample_crypto sample_account = Ok []" "de_account sample_crypto [] = Ok sample_account"
    by (simp_all add: sample_crypto_def)
  ultimately show ?thesis
    using account_roundtrip [OF sample_crypto_laws, of sample_account "[]" "[1]" "[2]"] by blast
qed

end
