(* ===== verification/Random_Utils.thy ===== *)
theory Random_Utils
  imports Crypto_Utils
begin

section \<open>Random strings and printing of bytes\<close>

text \<open>
  safe\_core/src/utils/mod.rs: the generators of strings and vectors, and the short form of binary data in logs. A generator is a function
  of the number of values that were drawn before; \<open>os_rng\<close> says whether the one of the operating system is available. A character is its code point.
\<close>

definition with_os_rng :: "bool \<Rightarrow> ('n, 'z, 'a) wm \<Rightarrow> ('n, 'z, 'a) wm" where
  "with_os_rng os_rng m = (if os_rng then m else lift_res (Err RandomDataGenerationFailure))"

text \<open>Null characters are skipped, so that a generator of nothing else would never stop.\<close>

partial_function (option) random_chars :: "(nat \<Rightarrow> u32) \<Rightarrow> nat \<Rightarrow> nat \<Rightarrow> (u32 list \<times> nat) option" where
  "random_chars gen len pos =
     (if len = 0 then Some ([], pos)
      else if gen pos = 0 then random_chars gen len (Suc pos)
      else Option.bind (random_chars gen (len - 1) (Suc pos)) (\<lambda>(cs, pos'). Some (gen pos # cs, pos')))"

definition generate_random_string_rng :: "(nat \<Rightarrow> u32) \<Rightarrow> nat \<Rightarrow> ('n, 'z, u32 list) wm" where
  "generate_random_string_rng gen len w = (case random_chars gen len (w_draws w) of
     None \<Rightarrow> None
   | Some (s, pos) \<Rightarrow> Some (Ok s, w\<lparr>w_draws := pos\<rparr>))"

definition generate_random_string :: "bool \<Rightarrow> (nat \<Rightarrow> u32) \<Rightarrow> nat \<Rightarrow> ('n, 'z, u32 list) wm" where
  "generate_random_string os_rng gen len = with_os_rng os_rng (generate_random_string_rng gen len)"

definition generate_random_vector_rng :: "(nat \<Rightarrow> 'a) \<Rightarrow> nat \<Rightarrow> ('n, 'z, 'a list) wm" where
  "generate_random_vector_rng gen len w =
     Some (Ok (map gen [w_draws w ..< w_draws w + len]), w\<lparr>w_draws := w_draws w + len\<rparr>)"

definition generate_random_vector :: "bool \<Rightarrow> (nat \<Rightarrow> 'a) \<Rightarrow> nat \<Rightarrow> ('n, 'z, 'a list) wm" where
  "generate_random_vector os_rng gen len = with_os_rng os_rng (generate_random_vector_rng gen len)"

text \<open>\<open>alphanumeric\<close> draws from the distribution \<open>Alphanumeric\<close>.\<close>

definition generate_readable_string_rng :: "(nat \<Rightarrow> char) \<Rightarrow> nat \<Rightarrow> ('n, 'z, string) wm" where
  "generate_readable_string_rng alphanumeric len = generate_random_vector_rng alphanumeric len"

definition generate_readable_string :: "bool \<Rightarrow> (nat \<Rightarrow> char) \<Rightarrow> nat \<Rightarrow> ('n, 'z, string) wm" where
  "generate_readable_string os_rng alphanumeric len = with_os_rng os_rng (generate_readable_string_rng alphanumeric len)"

subsection \<open>Printing\<close>

definition hex_digit :: "nat \<Rightarrow> char" where
  "hex_digit d = ''0123456789abcdef'' ! (d mod 16)"

definition hex_byte :: "8 word \<Rightarrow> string" where
  "hex_byte b = [hex_digit (unat b div 16), hex_digit (unat b)]"

fun show_nat :: "nat \<Rightarrow> string" where
  "show_nat n = (if n < 10 then [hex_digit n] else show_nat (n div 10) @ [hex_digit (n mod 10)])"

fun show_list :: "bytes \<Rightarrow> string" where
  "show_list [] = []"
| "show_list [b] = show_nat (unat b)"
| "show_list (b # bs) = show_nat (unat b) @ '', '' @ show_list bs"

definition bin_data_format :: "bytes \<Rightarrow> string" where
  "bin_data_format data = (let len = length data in
     if len < 8 then ''[ '' @ ''['' @ show_list data @ '']'' @ '' ]''
     else ''[ '' @ hex_byte (data ! 0) @ '' '' @ hex_byte (data ! 1) @ '' '' @ hex_byte (data ! 2) @ '' '' @ hex_byte (data ! 3) @ ''..''
       @ hex_byte (data ! (len - 4)) @ '' '' @ hex_byte (data ! (len - 3)) @ '' '' @ hex_byte (data ! (len - 2)) @ '' ''
       @ hex_byte (data ! (len - 1)) @ '' ]'')"

subsection \<open>What they give\<close>

text \<open>
  A generator that gives a character other than null again and again gives a string of the length asked for, which can become a C string.
\<close>

lemma random_chars_skip:
  assumes "gen q \<noteq> 0" "pos \<le> q" "\<forall>p. pos \<le> p \<and> p < q \<longrightarrow> gen p = 0"
  shows "random_chars gen (Suc len) pos = random_chars gen (Suc len) q"
  using assms
proof (induction "q - pos" arbitrary: pos)
  case (Suc d)
  then have "gen pos = 0"
    by simp
  then have "random_chars gen (Suc len) pos = random_chars gen (Suc len) (Suc pos)"
    by (subst random_chars.simps) simp
  then show ?case
    using Suc by auto
qed simp

lemma random_chars_returns:
  assumes live: "\<forall>p. \<exists>q \<ge> p. gen q \<noteq> 0"
  shows "\<exists>cs pos'. random_chars gen len pos = Some (cs, pos') \<and> length cs = len \<and> 0 \<notin> set cs \<and> pos + len \<le> pos'"
proof (induction len arbitrary: pos)
  case 0
  show ?case
    by (subst random_chars.simps) simp
next
  case (Suc len)
  define q where "q = (LEAST q. pos \<le> q \<and> gen q \<noteq> 0)"
  have q: "pos \<le> q" "gen q \<noteq> 0"
    using live LeastI_ex [of "\<lambda>q. pos \<le> q \<and> gen q \<noteq> 0"] by (auto simp: q_def)
  have "\<forall>p. pos \<le> p \<and> p < q \<longrightarrow> gen p = 0"
    using not_less_Least by (auto simp: q_def)
  then have "random_chars gen (Suc len) pos = random_chars gen (Suc len) q"
    using random_chars_skip q by blast
  moreover obtain cs pos' where "random_chars gen len (Suc q) = Some (cs, pos')" "length cs = len" "0 \<notin> set cs" "Suc q + len \<le> pos'"
    using Suc.IH by blast
  ultimately show ?case
    using q by (simp add: random_chars.simps [of gen "Suc len" q])
qed

lemma random_string_usable:
  assumes "\<forall>p. \<exists>q \<ge> p. gen q \<noteq> 0"
  shows "\<exists>s w'. generate_random_string True gen len w = Some (Ok s, w') \<and> length s = len \<and> 0 \<notin> set s \<and> w_net w' = w_net w"
  using random_chars_returns [OF assms, of len "w_draws w"]
  by (auto simp: generate_random_string_def with_os_rng_def generate_random_string_rng_def)

text \<open>The short form never reads outside of the data, and its length does not grow with the data.\<close>

lemma bin_data_format_length: "8 \<le> length data \<Longrightarrow> length (bin_data_format data) = 28"
  by (simp add: bin_data_format_def hex_byte_def Let_def)

end
