(* ===== verification/MData_Info.thy ===== *)
theory MData_Info
  imports Crypto_Utils
begin

section \<open>MDataInfo: locating and encrypting mutable data\<close>

text \<open>
  safe\_core/src/client/mdata\_info.rs: the address of a mutable data object together with its
  encryption keys, encryption of entries and entry actions, the two-phase change of the keys, and
  the conversion to and from the C representation (ffi/mod.rs).
\<close>

definition new_public :: "mdata_address \<Rightarrow> mdata_info" where
  "new_public address = \<lparr>mi_address = address, mi_enc_info = None, mi_new_enc_info = None\<rparr>"

definition random_public :: "crypto_ops \<Rightarrow> mdata_kind \<Rightarrow> u64 \<Rightarrow> ('n, 'z, mdata_info) wm" where
  "random_public co kind type_tag =
     and_then (draw (rnd_name co)) (\<lambda>name.
       lift_res (Ok (new_public (mdata_address_from_kind kind name type_tag))))"

definition mi_name :: "mdata_info \<Rightarrow> xor_name" where
  "mi_name info = md_name (mi_address info)"

definition mi_type_tag :: "mdata_info \<Rightarrow> u64" where
  "mi_type_tag info = md_tag (mi_address info)"

definition mi_kind :: "mdata_info \<Rightarrow> mdata_kind" where
  "mi_kind info = md_kind (mi_address info)"

definition mi_enc_key :: "mdata_info \<Rightarrow> sym_key option" where
  "mi_enc_key info = map_option fst (mi_enc_info info)"

definition mi_nonce :: "mdata_info \<Rightarrow> sym_nonce option" where
  "mi_nonce info = map_option snd (mi_enc_info info)"

subsection \<open>Entries\<close>

text \<open>
  The nonce of an entry key is derived from the key itself and the seed, so that a key is always
  encrypted to the same bytes and can be looked up.
\<close>

definition enc_entry_key_with ::
  "crypto_ops \<Rightarrow> bytes \<Rightarrow> sym_key \<Rightarrow> sym_nonce \<Rightarrow> ('n, 'z, bytes) wm" where
  "enc_entry_key_with co plain_text key seed =
     (let nonce = take SYM_ENC_NONCE_LEN (sha3_256 co (plain_text @ seed))
      in symmetric_encrypt co plain_text key (Some nonce))"

definition enc_entry_key :: "crypto_ops \<Rightarrow> mdata_info \<Rightarrow> bytes \<Rightarrow> ('n, 'z, bytes) wm" where
  "enc_entry_key co info plain_text = (case mi_new_enc_info info of
     Some (key, seed) \<Rightarrow> enc_entry_key_with co plain_text key seed
   | None \<Rightarrow> (case mi_enc_info info of
       Some (key, seed) \<Rightarrow> enc_entry_key_with co plain_text key seed
     | None \<Rightarrow> lift_res (Ok plain_text)))"

definition enc_entry_value :: "crypto_ops \<Rightarrow> mdata_info \<Rightarrow> bytes \<Rightarrow> ('n, 'z, bytes) wm" where
  "enc_entry_value co info plain_text = (case mi_new_enc_info info of
     Some (key, _) \<Rightarrow> symmetric_encrypt co plain_text key None
   | None \<Rightarrow> (case mi_enc_info info of
       Some (key, _) \<Rightarrow> symmetric_encrypt co plain_text key None
     | None \<Rightarrow> lift_res (Ok plain_text)))"

definition mi_decrypt :: "crypto_ops \<Rightarrow> mdata_info \<Rightarrow> bytes \<Rightarrow> bytes core_result" where
  "mi_decrypt co info cipher =
     (let fallback = (case mi_enc_info info of
            Some (key, _) \<Rightarrow> symmetric_decrypt co cipher key
          | None \<Rightarrow> Ok cipher)
      in case mi_new_enc_info info of
           Some (key, _) \<Rightarrow> (case symmetric_decrypt co cipher key of
               Ok plain \<Rightarrow> Ok plain
             | Err _ \<Rightarrow> fallback)
         | None \<Rightarrow> fallback)"



definition encrypt_value :: "crypto_ops \<Rightarrow> mdata_info \<Rightarrow> mdata_seq_value \<Rightarrow> ('n, 'z, mdata_seq_value) wm" where
  "encrypt_value co info v =
     map_prog (\<lambda>d. MDataSeqValue d (sv_version v)) (enc_entry_value co info (sv_data v))"

definition decrypt_value :: "crypto_ops \<Rightarrow> mdata_info \<Rightarrow> mdata_seq_value \<Rightarrow> mdata_seq_value core_result" where
  "decrypt_value co info v =
     res_map (\<lambda>d. MDataSeqValue d (sv_version v)) (mi_decrypt co info (sv_data v))"

fun encrypt_entries_loop ::
  "crypto_ops \<Rightarrow> mdata_info \<Rightarrow> seq_entries \<Rightarrow> seq_entries \<Rightarrow> ('n, 'z, seq_entries) wm" where
  "encrypt_entries_loop co info [] output = lift_res (Ok output)"
| "encrypt_entries_loop co info ((key, v) # entries) output =
     and_then (enc_entry_key co info key) (\<lambda>encrypted_key.
     and_then (encrypt_value co info v) (\<lambda>encrypted_value.
       encrypt_entries_loop co info entries (bt_insert encrypted_key encrypted_value output)))"

definition encrypt_entries :: "crypto_ops \<Rightarrow> mdata_info \<Rightarrow> seq_entries \<Rightarrow> ('n, 'z, seq_entries) wm" where
  "encrypt_entries co info entries = encrypt_entries_loop co info entries []"

definition encrypt_action ::
  "crypto_ops \<Rightarrow> mdata_info \<Rightarrow> seq_entry_action \<Rightarrow> ('n, 'z, seq_entry_action) wm" where
  "encrypt_action co info action = (case action of
     Ins v \<Rightarrow> map_prog Ins (encrypt_value co info v)
   | Update v \<Rightarrow> map_prog Update (encrypt_value co info v)
   | Del version \<Rightarrow> lift_res (Ok (Del version)))"

fun encrypt_actions_loop ::
  "crypto_ops \<Rightarrow> mdata_info \<Rightarrow> seq_entry_actions \<Rightarrow> seq_entry_actions \<Rightarrow> ('n, 'z, seq_entry_actions) wm" where
  "encrypt_actions_loop co info [] output = lift_res (Ok output)"
| "encrypt_actions_loop co info ((key, action) # actions) output =
     and_then (enc_entry_key co info key) (\<lambda>encrypted_key.
     and_then (encrypt_action co info action) (\<lambda>encrypted_action.
       encrypt_actions_loop co info actions (bt_insert encrypted_key encrypted_action output)))"

definition encrypt_entry_actions ::
  "crypto_ops \<Rightarrow> mdata_info \<Rightarrow> seq_entry_actions \<Rightarrow> ('n, 'z, seq_entry_actions) wm" where
  "encrypt_entry_actions co info actions = encrypt_actions_loop co info actions []"

definition decrypt_entries :: "crypto_ops \<Rightarrow> mdata_info \<Rightarrow> seq_entries \<Rightarrow> seq_entries core_result" where
  "decrypt_entries co info entries =
     try_fold (\<lambda>output (key, v).
       res_and_then (mi_decrypt co info key) (\<lambda>decrypted_key.
       res_map (\<lambda>decrypted_value. bt_insert decrypted_key decrypted_value output)
         (decrypt_value co info v))) [] entries"

text \<open>A \<open>BTreeSet\<close> is a sorted list without repetitions.\<close>

definition decrypt_keys :: "crypto_ops \<Rightarrow> mdata_info \<Rightarrow> bytes list \<Rightarrow> bytes list core_result" where
  "decrypt_keys co info keys =
     try_fold (\<lambda>output key. res_map (\<lambda>k. List.insort k (removeAll k output)) (mi_decrypt co info key)) [] keys"

definition decrypt_values ::
  "crypto_ops \<Rightarrow> mdata_info \<Rightarrow> mdata_seq_value list \<Rightarrow> mdata_seq_value list core_result" where
  "decrypt_values co info values =
     try_fold (\<lambda>output v. res_map (\<lambda>d. output @ [d]) (decrypt_value co info v)) [] values"

subsection \<open>The C representation\<close>

record ffi_mdata_info =
  fm_seq :: bool
  fm_name :: bytes
  fm_type_tag :: u64
  fm_has_enc_info :: bool
  fm_enc_key :: bytes
  fm_enc_nonce :: bytes
  fm_has_new_enc_info :: bool
  fm_new_enc_key :: bytes
  fm_new_enc_nonce :: bytes

definition md_kind_into_repr_c :: "mdata_kind \<Rightarrow> bool" where
  "md_kind_into_repr_c kind = (case kind of MKindSeq \<Rightarrow> True | MKindUnseq \<Rightarrow> False)"

definition md_kind_clone_from_repr_c :: "bool \<Rightarrow> mdata_kind" where
  "md_kind_clone_from_repr_c kind = (if kind then MKindSeq else MKindUnseq)"

definition enc_info_into_repr_c :: "(sym_key \<times> sym_nonce) option \<Rightarrow> bool \<times> bytes \<times> bytes" where
  "enc_info_into_repr_c info = (case info of
     Some (key, nonce) \<Rightarrow> (True, key, nonce)
   | None \<Rightarrow> (False, replicate SYM_ENC_KEY_LEN 0, replicate SYM_ENC_NONCE_LEN 0))"

definition enc_info_from_repr_c :: "bool \<Rightarrow> bytes \<Rightarrow> bytes \<Rightarrow> (sym_key \<times> sym_nonce) option" where
  "enc_info_from_repr_c is_set key nonce = (if is_set then Some (key, nonce) else None)"

definition mdata_info_into_repr_c :: "mdata_info \<Rightarrow> ffi_mdata_info" where
  "mdata_info_into_repr_c info =
     (let (has_enc_info, enc_key, enc_nonce) = enc_info_into_repr_c (mi_enc_info info);
          (has_new, new_key, new_nonce) = enc_info_into_repr_c (mi_new_enc_info info)
      in \<lparr>fm_seq = md_kind_into_repr_c (mi_kind info), fm_name = xn_bytes (mi_name info),
          fm_type_tag = mi_type_tag info,
          fm_has_enc_info = has_enc_info, fm_enc_key = enc_key, fm_enc_nonce = enc_nonce,
          fm_has_new_enc_info = has_new, fm_new_enc_key = new_key, fm_new_enc_nonce = new_nonce\<rparr>)"

definition mdata_info_clone_from_repr_c :: "ffi_mdata_info \<Rightarrow> mdata_info" where
  "mdata_info_clone_from_repr_c c =
     \<lparr>mi_address = mdata_address_from_kind (md_kind_clone_from_repr_c (fm_seq c)) (XorName (fm_name c))
        (fm_type_tag c),
      mi_enc_info = enc_info_from_repr_c (fm_has_enc_info c) (fm_enc_key c) (fm_enc_nonce c),
      mi_new_enc_info = enc_info_from_repr_c (fm_has_new_enc_info c) (fm_new_enc_key c) (fm_new_enc_nonce c)\<rparr>"

lemma decrypt_encrypted:
  assumes "crypto_laws co" and "de_enc co b = Ok (n, aead_seal co k n p)"
    and "case mi_new_enc_info info of Some (k', s) \<Rightarrow> k' = k
         | None \<Rightarrow> (case mi_enc_info info of Some (k', s) \<Rightarrow> k' = k | None \<Rightarrow> False)"
  shows "mi_decrypt co info b = Ok p"
  using assms symmetric_decrypt_sealed [OF assms(1,2)]
  by (auto simp: mi_decrypt_def split: option.splits)

text \<open>The ciphertext of an entry key depends on the key alone, and decrypts to it.\<close>

lemma enc_entry_key_pure:
  assumes "crypto_laws co"
  obtains ek where "\<And>k (w :: ('n, 'z) world_scheme). enc_entry_key co info k w = Some (Ok (ek k), w)"
    and "\<And>k. mi_decrypt co info (ek k) = Ok k"
proof -
  have "\<exists>c. (\<forall>w :: ('n, 'z) world_scheme. enc_entry_key co info k w = Some (Ok c, w)) \<and>
      mi_decrypt co info c = Ok k" for k
  proof (cases "case mi_new_enc_info info of Some e \<Rightarrow> Some e | None \<Rightarrow> mi_enc_info info")
    case None
    then show ?thesis
      by (intro exI [of _ k]) (simp add: enc_entry_key_def mi_decrypt_def split: option.splits)
  next
    case (Some e)
    obtain key seed where e: "e = (key, seed)"
      by (cases e)
    let ?n = "take SYM_ENC_NONCE_LEN (sha3_256 co (k @ seed))"
    obtain b where b: "ser_enc co (?n, aead_seal co key ?n k) = Ok b" "de_enc co b = Ok (?n, aead_seal co key ?n k)"
      using assms unfolding crypto_laws_def by blast
    have "enc_entry_key co info k w = Some (Ok b, w)" for w :: "('n, 'z) world_scheme"
      using Some b(1)
      by (auto simp: e enc_entry_key_def enc_entry_key_with_def symmetric_encrypt_def Let_def and_then_def
          split: option.splits)
    moreover have "mi_decrypt co info b = Ok k"
      by (rule decrypt_encrypted [OF assms b(2)]) (use Some in \<open>auto simp: e split: option.splits\<close>)
    ultimately show ?thesis
      by blast
  qed
  then show ?thesis
    using that by metis
qed

lemma encrypt_value_Some:
  assumes "crypto_laws co"
  obtains ev w' where "encrypt_value co info v w = Some (Ok ev, w')" "decrypt_value co info ev = Ok v"
proof (cases "case mi_new_enc_info info of Some e \<Rightarrow> Some e | None \<Rightarrow> mi_enc_info info")
  case None
  then show ?thesis
    using that [of v w]
    by (auto simp: encrypt_value_def enc_entry_value_def decrypt_value_def mi_decrypt_def map_prog_def
        split: option.splits)
next
  case (Some e)
  obtain key seed where e: "e = (key, seed)"
    by (cases e)
  obtain n b w' where b: "symmetric_encrypt co (sv_data v) key None w = Some (Ok b, w')"
      "de_enc co b = Ok (n, aead_seal co key n (sv_data v))"
    using symmetric_encrypt_Some [OF assms, of "sv_data v" key None w] by blast
  have "mi_decrypt co info b = Ok (sv_data v)"
    by (rule decrypt_encrypted [OF assms b(2)]) (use Some in \<open>auto simp: e split: option.splits\<close>)
  moreover have "enc_entry_value co info (sv_data v) w = Some (Ok b, w')"
    using Some b(1) by (auto simp: enc_entry_value_def e split: option.splits)
  ultimately show ?thesis
    using that [of "MDataSeqValue b (sv_version v)" w']
    by (simp add: encrypt_value_def decrypt_value_def map_prog_def)
qed

lemma encrypt_loop_Some:
  fixes w :: "('n, 'z) world_scheme"
  assumes laws: "crypto_laws co"
    and ek: "\<And>k (w :: ('n, 'z) world_scheme). enc_entry_key co info k w = Some (Ok (ek k), w)" and inj: "inj ek"
    and "distinct (map fst es)" and "bt_wf out"
  shows "\<exists>out' w'. encrypt_entries_loop co info es out w = Some (Ok out', w') \<and> bt_wf out' \<and>
    (\<forall>k v. (k, v) \<in> set es \<longrightarrow> (\<exists>ev. bt_get out' (ek k) = Some ev \<and> decrypt_value co info ev = Ok v)) \<and>
    (\<forall>c. c \<notin> ek ` fst ` set es \<longrightarrow> bt_get out' c = bt_get out c)"
  using assms(4,5)
proof (induction es arbitrary: out w)
  case (Cons e es)
  obtain k v where e: "e = (k, v)"
    by (cases e)
  obtain ev w1 where ev: "encrypt_value co info v w = Some (Ok ev, w1)" "decrypt_value co info ev = Ok v"
    using encrypt_value_Some [OF laws] by blast
  obtain out' w' where run: "encrypt_entries_loop co info es (bt_insert (ek k) ev out) w1 = Some (Ok out', w')"
      and wf: "bt_wf out'"
      and old: "\<forall>k v. (k, v) \<in> set es \<longrightarrow> (\<exists>ev. bt_get out' (ek k) = Some ev \<and> decrypt_value co info ev = Ok v)"
      and rest: "\<forall>c. c \<notin> ek ` fst ` set es \<longrightarrow> bt_get out' c = bt_get (bt_insert (ek k) ev out) c"
    using Cons.IH [of "bt_insert (ek k) ev out" w1] Cons.prems(1) bt_wf_insert [OF Cons.prems(2), of "ek k" ev]
    by (simp add: e) blast
  have "ek k \<notin> ek ` fst ` set es"
    using Cons.prems(1) inj by (simp add: e inj_image_mem_iff)
  then have "bt_get out' (ek k) = Some ev"
    using rest by (simp add: bt_get_insert)
  then show ?case
    using run wf old rest ev
    by (intro exI [of _ out'] exI [of _ w']) (auto simp: e ek and_then_def bt_get_insert)
qed simp

text \<open>Each entry of an encrypted map decrypts to an entry of the map, and each entry is among them.\<close>

lemma encrypt_entries_Some:
  fixes w :: "('n, 'z) world_scheme"
  assumes "crypto_laws co" and "bt_wf entries"
  obtains m w' h where "encrypt_entries co info entries w = Some (Ok m, w')" and "bt_wf m"
    and "\<And>x. x \<in> set m \<Longrightarrow> mi_decrypt co info (fst x) = Ok (fst (h x)) \<and> decrypt_value co info (snd x) = Ok (snd (h x))"
    and "h ` set m = set entries" and "distinct (map (\<lambda>x. fst (h x)) m)"
proof -
  obtain ek where ek: "\<And>k (w :: ('n, 'z) world_scheme). enc_entry_key co info k w = Some (Ok (ek k), w)"
      and dk: "\<And>k. mi_decrypt co info (ek k) = Ok k"
    using enc_entry_key_pure [OF assms(1)] by blast
  have inj: "inj ek"
    by (metis dk injI sum.inject(2))
  obtain m w' where run: "encrypt_entries co info entries w = Some (Ok m, w')" and wf: "bt_wf m"
      and all: "\<And>k v. (k, v) \<in> set entries \<Longrightarrow> \<exists>ev. bt_get m (ek k) = Some ev \<and> decrypt_value co info ev = Ok v"
      and only: "\<And>c. c \<notin> ek ` fst ` set entries \<Longrightarrow> bt_get m c = None"
    using encrypt_loop_Some [OF assms(1) ek inj bt_wf_distinct [OF assms(2)] bt_wf_Nil, where w = w]
    by (auto simp: encrypt_entries_def)
  define h where "h = (\<lambda>x. (projr (mi_decrypt co info (fst x)), projr (decrypt_value co info (snd x))))"
  have elem: "fst x = ek (fst (h x)) \<and> h x \<in> set entries \<and> decrypt_value co info (snd x) = Ok (snd (h x))"
    if x: "x \<in> set m" for x
  proof -
    have get: "bt_get m (fst x) = Some (snd x)"
      using x bt_get_Some [OF wf] by simp
    then obtain k v where kv: "fst x = ek k" "(k, v) \<in> set entries"
      using only [of "fst x"] by force
    with all [OF kv(2)] get show ?thesis
      by (auto simp: h_def dk)
  qed
  have "x \<in> h ` set m" if x: "x \<in> set entries" for x
  proof -
    obtain ev where "bt_get m (ek (fst x)) = Some ev" "decrypt_value co info ev = Ok (snd x)"
      using all [of "fst x" "snd x"] x by auto
    then have "(ek (fst x), ev) \<in> set m" "h (ek (fst x), ev) = x"
      using bt_get_Some [OF wf] by (auto simp: h_def dk)
    then show ?thesis
      by force
  qed
  then have "h ` set m = set entries"
    using elem by auto
  moreover have "distinct (map (\<lambda>x. fst (h x)) m)"
    using bt_wf_distinct [OF wf] elem by (auto simp: distinct_map inj_on_def dest!: prod_eqI)
  ultimately show ?thesis
    using that [OF run wf] elem dk by simp
qed

text \<open>
  (C27) Encrypting the entries of mutable data and decrypting them again gives the same entries:
  encryption does not fail, no two keys collide, and decryption restores keys, values, versions
  and order, for private data in either phase of a key change and for public data.
\<close>

theorem entries_roundtrip:
  fixes w :: "('n, 'z) world_scheme"
  assumes "crypto_laws co" and "bt_wf entries"
  shows "\<exists>encrypted w'. encrypt_entries co info entries w = Some (Ok encrypted, w') \<and>
    decrypt_entries co info encrypted = Ok entries"
proof -
  obtain m w' h where run: "encrypt_entries co info entries w = Some (Ok m, w')"
      and h: "\<And>x. x \<in> set m \<Longrightarrow> mi_decrypt co info (fst x) = Ok (fst (h x)) \<and> decrypt_value co info (snd x) = Ok (snd (h x))"
      and all: "h ` set m = set entries" "distinct (map (\<lambda>x. fst (h x)) m)"
    using encrypt_entries_Some [OF assms, where w = w and info = info] by metis
  have "decrypt_entries co info m = Ok (fold (\<lambda>x out. bt_insert (fst (h x)) (snd (h x)) out) m [])"
    unfolding decrypt_entries_def by (rule try_fold_Ok) (use h in \<open>auto simp: case_prod_beta\<close>)
  then have "decrypt_entries co info m = Ok entries"
    using bt_fold_recode [OF assms(2) all(2,1)] by simp
  with run show ?thesis
    by blast
qed

definition sample_entries :: seq_entries where
  "sample_entries = [([1], MDataSeqValue [5] 3), ([2], MDataSeqValue [6] 0)]"

theorem entries_roundtrip_witness:
  "\<exists>encrypted w'. encrypt_entries sample_crypto (config_root sample_account) sample_entries
      \<lparr>w_net = (), w_draws = 0\<rparr> = Some (Ok encrypted, w') \<and>
    decrypt_entries sample_crypto (config_root sample_account) encrypted = Ok sample_entries"
  by (rule entries_roundtrip [OF sample_crypto_laws]) (simp add: bt_wf_def sample_entries_def)



lemma mdata_info_repr_c_inverse:
  "mdata_info_clone_from_repr_c (mdata_info_into_repr_c info) = info"
  by (cases info; cases "mi_address info")
    (auto simp: mdata_info_clone_from_repr_c_def mdata_info_into_repr_c_def enc_info_into_repr_c_def
      enc_info_from_repr_c_def md_kind_into_repr_c_def md_kind_clone_from_repr_c_def
      mdata_address_from_kind_def mi_kind_def mi_name_def mi_type_tag_def split: option.splits)

end
