(* ===== verification/Immutable_Data.thy ===== *)
theory Immutable_Data
  imports Client_Ops Crypto_Utils
begin

section \<open>Immutable data of any size\<close>

text \<open>
  safe\_core/src/self\_encryption\_storage.rs and immutable\_data.rs: content is cut into encrypted chunks by the
  crate \<open>self_encryption\<close>, which stores them as immutable data through \<open>SelfEncryptionStorage\<close>; the data map
  that describes the chunks is packed into one piece of immutable data. Data maps that are still too
  large are cut again, so that \<open>pack\<close> and \<open>unpack\<close> recurse; both are partial functions, whose value
  None is a run that does not return or panics.

  The crate is an argument: \<open>se_ops\<close> has its operations, which get the three methods of the storage they call
  back. What it promises is \<open>se_laws\<close>, over any storage that keeps what is put (the locale \<open>chunk_storage\<close>).
  The clone of the client that a storage holds is the state of the programs. Constructors of
  immutable data and bincode are the fields of \<open>idata_ops\<close>.
\<close>

type_synonym data_map = bytes

text \<open>The methods of the trait \<open>Storage\<close>.\<close>

record 's storage_ops =
  so_get :: "bytes \<Rightarrow> ('s, core_error, bytes) prog"
  so_put :: "bytes \<Rightarrow> bytes \<Rightarrow> ('s, core_error, unit) prog"
  so_generate_address :: "bytes \<Rightarrow> 's \<Rightarrow> bytes"

type_synonym ('s, 'a) se_prog = "('s, core_error self_encryption_error, 'a) prog"

record 's se_ops =
  dm_none :: data_map \<comment> \<open>\<open>DataMap::None\<close>\<close>
  se_new :: "'s storage_ops \<Rightarrow> data_map \<Rightarrow> core_error self_encryption_error + bytes"
  se_write :: "'s storage_ops \<Rightarrow> bytes \<Rightarrow> bytes \<Rightarrow> u64 \<Rightarrow> ('s, bytes) se_prog" \<comment> \<open>the encryptor after the write\<close>
  se_close :: "'s storage_ops \<Rightarrow> bytes \<Rightarrow> ('s, data_map) se_prog"
  se_len :: "bytes \<Rightarrow> u64"
  se_read :: "'s storage_ops \<Rightarrow> bytes \<Rightarrow> u64 \<Rightarrow> u64 \<Rightarrow> ('s, bytes) se_prog"
  sq_new :: "'s storage_ops \<Rightarrow> data_map option \<Rightarrow> ('s, bytes) se_prog"
  sq_write :: "'s storage_ops \<Rightarrow> bytes \<Rightarrow> bytes \<Rightarrow> ('s, bytes) se_prog"
  sq_len :: "bytes \<Rightarrow> u64"
  sq_close :: "'s storage_ops \<Rightarrow> bytes \<Rightarrow> ('s, data_map) se_prog"

datatype data_type_encoding = Serialised bytes | DataMapEncoding data_map

record idata_ops =
  new_pub_idata :: "bytes \<Rightarrow> bytes"
  new_unpub_idata :: "bytes \<Rightarrow> public_key \<Rightarrow> bytes"
  idata_value :: "idata \<Rightarrow> bytes"
  validate_size :: "idata \<Rightarrow> bool"
  idata_serialised_size_of :: "idata \<Rightarrow> u64"
  ser_idata :: "idata \<Rightarrow> bytes + bytes"
  de_idata :: "bytes \<Rightarrow> bytes + idata"
  ser_data_map :: "data_map \<Rightarrow> bytes + bytes"
  de_data_map :: "bytes \<Rightarrow> bytes + data_map"
  ser_encoding :: "data_type_encoding \<Rightarrow> bytes + bytes"
  de_encoding :: "bytes \<Rightarrow> bytes + data_type_encoding"

fun idata_is_pub :: "idata \<Rightarrow> bool" where
  "idata_is_pub (IPub b) = True"
| "idata_is_pub (IUnpub b) = False"

fun idata_addr_name :: "idata_address \<Rightarrow> xor_name" where
  "idata_addr_name (IPubAddr n) = n"
| "idata_addr_name (IUnpubAddr n) = n"

definition idata_address_of :: "bool \<Rightarrow> xor_name \<Rightarrow> idata_address" where
  "idata_address_of published name = (if published then IPubAddr name else IUnpubAddr name)"

definition idata_name :: "safe_nd \<Rightarrow> idata \<Rightarrow> xor_name" where
  "idata_name nd d = idata_addr_name (idata_addr nd d)"

definition de_err :: "bytes + 'a \<Rightarrow> ('s, core_error, 'a) prog" where
  "de_err r = lift_res (res_map_err EncodeDecodeError r)"

subsection \<open>The storage of self-encryptors\<close>

text \<open>The piece of immutable data that the methods of the storage and \<open>pack\<close> build of some content.\<close>

definition new_idata :: "'n client_env \<Rightarrow> idata_ops \<Rightarrow> bool \<Rightarrow> bytes \<Rightarrow> 'n client \<Rightarrow> idata" where
  "new_idata env io published content c =
     (if published then IPub (new_pub_idata io content)
      else IUnpub (new_unpub_idata io content (own_public_key env c)))"

definition ses_get :: "'n client_env \<Rightarrow> idata_ops \<Rightarrow> bool \<Rightarrow> bytes \<Rightarrow> ('n, bytes) cm" where
  "ses_get env io published name =
     (if length name \<noteq> XOR_NAME_LEN then lift_res (Err (Unexpected ''Requested `name` is incorrect size.''))
      else map_prog (idata_value io) (client_get_idata env (idata_address_of published (XorName name))))"

definition ses_put :: "'n client_env \<Rightarrow> idata_ops \<Rightarrow> bool \<Rightarrow> bytes \<Rightarrow> bytes \<Rightarrow> ('n, unit) cm" where
  "ses_put env io published name content c =
     client_put_idata env (new_idata env io published content c) c"

definition ses_generate_address :: "'n client_env \<Rightarrow> idata_ops \<Rightarrow> bool \<Rightarrow> bytes \<Rightarrow> 'n client \<Rightarrow> bytes" where
  "ses_generate_address env io published content c =
     xn_bytes (idata_name (ce_nd env) (new_idata env io published content c))"

definition self_encryption_storage :: "'n client_env \<Rightarrow> idata_ops \<Rightarrow> bool \<Rightarrow> 'n client storage_ops" where
  "self_encryption_storage env io published =
     \<lparr>so_get = ses_get env io published, so_put = ses_put env io published,
      so_generate_address = ses_generate_address env io published\<rparr>"

subsection \<open>Content and data maps\<close>

text \<open>A new encryptor is given all of the content and closed; the content is read from a data map.\<close>

definition self_encrypt :: "'s se_ops \<Rightarrow> 's storage_ops \<Rightarrow> bytes \<Rightarrow> ('s, data_map) se_prog" where
  "self_encrypt so st content =
     and_then (lift_res (se_new so st (dm_none so))) (\<lambda>se.
     and_then (se_write so st se content 0) (se_close so st))"

definition self_decrypt :: "'s se_ops \<Rightarrow> 's storage_ops \<Rightarrow> data_map \<Rightarrow> ('s, bytes) se_prog" where
  "self_decrypt so st dm =
     and_then (lift_res (se_new so st dm)) (\<lambda>se. se_read so st se 0 (se_len so se))"

subsection \<open>Packing\<close>

partial_function (option) pack ::
  "'n client_env \<Rightarrow> idata_ops \<Rightarrow> 'n client se_ops \<Rightarrow> bool \<Rightarrow> bytes \<Rightarrow> ('n, idata) cm" where
  "pack env io so published content c =
     (let data = new_idata env io published content c in
      and_then (de_err (ser_idata io data)) (\<lambda>serialised_data c.
        if validate_size io data then Some (Ok data, c)
        else and_then (map_err SelfEncryption (self_encrypt so (self_encryption_storage env io published) serialised_data)) (\<lambda>dm.
          and_then (de_err (ser_encoding io (DataMapEncoding dm))) (\<lambda>v c. pack env io so published v c)) c) c)"

partial_function (option) unpack ::
  "'n client_env \<Rightarrow> idata_ops \<Rightarrow> 'n client se_ops \<Rightarrow> idata \<Rightarrow> ('n, bytes) cm" where
  "unpack env io so data c =
     and_then (de_err (de_encoding io (idata_value io data))) (\<lambda>enc c.
       case enc of
         Serialised v \<Rightarrow> Some (Ok v, c)
       | DataMapEncoding dm \<Rightarrow>
           and_then (map_err SelfEncryption (self_decrypt so (self_encryption_storage env io (idata_is_pub data)) dm)) (\<lambda>serialised_data.
           and_then (de_err (de_idata io serialised_data)) (\<lambda>d c. unpack env io so d c)) c) c"

subsection \<open>Creating and reading\<close>

definition idata_create ::
  "'n client_env \<Rightarrow> crypto_ops \<Rightarrow> idata_ops \<Rightarrow> 'n client se_ops \<Rightarrow> bytes \<Rightarrow> bool \<Rightarrow> sym_key option \<Rightarrow> ('n, idata) cm" where
  "idata_create env co io so content published encryption_key =
     and_then (map_err SelfEncryption (self_encrypt so (self_encryption_storage env io published) content)) (\<lambda>dm.
     and_then (de_err (ser_data_map io dm)) (\<lambda>serialised_data_map.
     and_then (case encryption_key of
         Some key \<Rightarrow> and_then (symmetric_encrypt co serialised_data_map key None) (\<lambda>cipher_text.
           de_err (ser_encoding io (Serialised cipher_text)))
       | None \<Rightarrow> de_err (ser_encoding io (Serialised serialised_data_map))) (\<lambda>v.
       pack env io so published v)))"

definition parse_data_map :: "crypto_ops \<Rightarrow> idata_ops \<Rightarrow> sym_key option \<Rightarrow> bytes \<Rightarrow> data_map core_result" where
  "parse_data_map co io decryption_key v = (case decryption_key of
     Some key \<Rightarrow> res_and_then (symmetric_decrypt co v key) (\<lambda>plain_text.
       res_map_err EncodeDecodeError (de_data_map io plain_text))
   | None \<Rightarrow> res_map_err EncodeDecodeError (de_data_map io v))"

definition extract_value ::
  "'n client_env \<Rightarrow> crypto_ops \<Rightarrow> idata_ops \<Rightarrow> 'n client se_ops \<Rightarrow> idata \<Rightarrow> sym_key option \<Rightarrow> ('n, bytes) cm" where
  "extract_value env co io so data decryption_key =
     and_then (unpack env io so data) (\<lambda>v.
     and_then (lift_res (parse_data_map co io decryption_key v)) (\<lambda>dm.
       map_err SelfEncryption (self_decrypt so (self_encryption_storage env io (idata_is_pub data)) dm)))"

definition get_value ::
  "'n client_env \<Rightarrow> crypto_ops \<Rightarrow> idata_ops \<Rightarrow> 'n client se_ops \<Rightarrow> idata_address \<Rightarrow> sym_key option \<Rightarrow> ('n, bytes) cm" where
  "get_value env co io so address decryption_key =
     and_then (client_get_idata env address) (\<lambda>data. extract_value env co io so data decryption_key)"

subsection \<open>What the storage and the crate promise\<close>

text \<open>A later state, and a program that returns a value and loses nothing.\<close>

definition later :: "('s \<Rightarrow> bool) \<Rightarrow> ('s \<Rightarrow> bytes \<rightharpoonup> bytes) \<Rightarrow> 's \<Rightarrow> 's \<Rightarrow> bool" where
  "later ready chunk s t \<longleftrightarrow> ready t \<and> chunk s \<subseteq>\<^sub>m chunk t"

definition gives :: "('s \<Rightarrow> bool) \<Rightarrow> ('s \<Rightarrow> bytes \<rightharpoonup> bytes) \<Rightarrow> ('s, 'e, 'a) prog \<Rightarrow> 'a \<Rightarrow> 's \<Rightarrow> bool" where
  "gives ready chunk m a s \<longleftrightarrow> (\<exists>t. m s = Some (Ok a, t) \<and> later ready chunk s t)"

text \<open>
  A storage that keeps what is put into it: \<open>chunk\<close> is what it holds under a name in a state that is
  \<open>ready\<close>; a successful put makes the content available at its address, and nothing is lost.
\<close>

locale chunk_storage =
  fixes ready :: "'s \<Rightarrow> bool" and chunk :: "'s \<Rightarrow> bytes \<rightharpoonup> bytes" and st :: "'s storage_ops"
  assumes put_keeps: "ready s \<Longrightarrow> so_put st name d s = Some (r, s') \<Longrightarrow> ready s' \<and> chunk s \<subseteq>\<^sub>m chunk s'"
    and put_stores: "ready s \<Longrightarrow> so_put st name d s = Some (Ok (), s') \<Longrightarrow>
      chunk s' (so_generate_address st d s) = Some d"
    and get_keeps: "ready s \<Longrightarrow> so_get st name s = Some (q, s') \<Longrightarrow> ready s' \<and> chunk s \<subseteq>\<^sub>m chunk s'"
    and get_finds: "ready s \<Longrightarrow> chunk s name = Some d \<Longrightarrow> \<exists>s'. so_get st name s = Some (Ok d, s')"
begin

lemma later_refl: "ready s \<Longrightarrow> later ready chunk s s"
  by (simp add: later_def)

lemma later_trans: "later ready chunk s t \<Longrightarrow> later ready chunk t u \<Longrightarrow> later ready chunk s u"
  by (auto simp: later_def intro: map_le_trans)

lemma later_ready: "later ready chunk s t \<Longrightarrow> ready t"
  by (simp add: later_def)

lemma gives_and_then:
  assumes "gives ready chunk m a s" and "\<And>t. later ready chunk s t \<Longrightarrow> gives ready chunk (f a) b t"
  shows "gives ready chunk (and_then m f) b s"
  using assms unfolding gives_def by (metis and_then_cases(3) later_trans)

lemma gives_map_err: "gives ready chunk (map_err f m) a s \<longleftrightarrow> gives ready chunk m a s"
  by (simp add: gives_def map_err_Ok)

lemma gives_lift: "ready s \<Longrightarrow> gives ready chunk (lift_res r) a s \<longleftrightarrow> r = Ok a"
  by (auto simp: gives_def later_refl)

lemma put_then_get:
  assumes "ready s" and "so_put st name d s = Some (Ok (), s')" and "later ready chunk s' t"
  shows "gives ready chunk (so_get st (so_generate_address st d s)) d t"
proof -
  have "chunk t (so_generate_address st d s) = Some d"
    using put_stores [OF assms(1,2)] assms(3) by (auto simp: later_def intro: map_leD)
  then show ?thesis
    using get_finds [of t] get_keeps [of t] assms(3) unfolding gives_def later_def by blast
qed

end

text \<open>The encryptor that is written in sequence, from the start or from a data map.\<close>

fun sq_write_all :: "'s se_ops \<Rightarrow> 's storage_ops \<Rightarrow> bytes list \<Rightarrow> bytes \<Rightarrow> ('s, bytes) se_prog" where
  "sq_write_all so st [] se = lift_res (Ok se)"
| "sq_write_all so st (d # ds) se = and_then (sq_write so st se d) (sq_write_all so st ds)"

definition sq_encrypt :: "'s se_ops \<Rightarrow> 's storage_ops \<Rightarrow> data_map option \<Rightarrow> bytes list \<Rightarrow> ('s, u64 \<times> data_map) se_prog" where
  "sq_encrypt so st base ds =
     and_then (sq_new so st base) (\<lambda>se.
     and_then (sq_write_all so st ds se) (\<lambda>se. map_prog (Pair (sq_len so se)) (sq_close so st se)))"

text \<open>A data map that describes some content, now and later.\<close>

definition describes ::
  "'s se_ops \<Rightarrow> ('s \<Rightarrow> bool) \<Rightarrow> ('s \<Rightarrow> bytes \<rightharpoonup> bytes) \<Rightarrow> 's storage_ops \<Rightarrow> data_map \<Rightarrow> bytes \<Rightarrow> 's \<Rightarrow> bool" where
  "describes so ready chunk st dm content s \<longleftrightarrow>
     (\<forall>t. later ready chunk s t \<longrightarrow> gives ready chunk (self_decrypt so st dm) content t)"

text \<open>
  The documented behaviour of self-encryption, on a storage that keeps its content: what is written can be read from
  the data map; and so for the encryptor that is written in sequence, which appends to the content of
  the data map it is given and counts the bytes.
\<close>

definition se_laws :: "'s se_ops \<Rightarrow> bool" where
  "se_laws so \<longleftrightarrow> (\<forall>ready chunk st s. chunk_storage ready chunk st \<and> ready s \<longrightarrow>
     (\<forall>content dm s'. self_encrypt so st content s = Some (Ok dm, s') \<longrightarrow>
        later ready chunk s s' \<and> describes so ready chunk st dm content s') \<and>
     (\<forall>base old ds n dm s'. (case base of None \<Rightarrow> old = [] | Some dm0 \<Rightarrow> describes so ready chunk st dm0 old s) \<and>
        sq_encrypt so st base ds s = Some (Ok (n, dm), s') \<longrightarrow>
        later ready chunk s s' \<and> describes so ready chunk st dm (old @ concat ds) s' \<and>
        n = of_nat (length (old @ concat ds))))"

end
