(* ===== verification/Idata_Props.thy ===== *)
theory Idata_Props
  imports Immutable_Data Client_Props
begin

section \<open>Immutable data is read back\<close>

text \<open>
  Packing and unpacking are inverse on a storage that keeps its chunks, at any depth of the recursion; the
  storage of a client on the mock network is one for unpublished data, and so what \<open>create\<close> made of some
  content is what \<open>get_value\<close> gives back. Packed data respects the limit on its size.
\<close>

text \<open>Bincode and the constructors of immutable data.\<close>

definition idata_codecs :: "idata_ops \<Rightarrow> bool" where
  "idata_codecs io \<longleftrightarrow> codec_pair (ser_idata io) (de_idata io) \<and>
     codec_pair (ser_data_map io) (de_data_map io) \<and> codec_pair (ser_encoding io) (de_encoding io) \<and>
     (\<forall>v. idata_value io (IPub (new_pub_idata io v)) = v) \<and>
     (\<forall>v pk. idata_value io (IUnpub (new_unpub_idata io v pk)) = v)"

lemma new_idata_value:
  assumes "idata_codecs io"
  shows "idata_value io (new_idata env io published v c) = v"
    and "idata_is_pub (new_idata env io published v c) = published"
  using assms by (simp_all add: new_idata_def idata_codecs_def)

lemma de_err_Ok: "de_err r s = Some (Ok a, t) \<longleftrightarrow> r = Ok a \<and> t = s"
  by (auto simp: de_err_def res_map_err_def split: sum.splits)

lemma codec_Ok: "codec_pair ser de \<Longrightarrow> ser x = Ok b \<Longrightarrow> de b = Ok x"
  unfolding codec_pair_def by (metis sum.inject(2))

lemma idata_codecsD:
  assumes "idata_codecs io"
  shows "ser_idata io d = Ok b \<Longrightarrow> de_idata io b = Ok d"
    and "ser_data_map io dm = Ok b \<Longrightarrow> de_data_map io b = Ok dm"
    and "ser_encoding io e = Ok b \<Longrightarrow> de_encoding io b = Ok e"
  using assms codec_Ok [of "ser_idata io"] codec_Ok [of "ser_data_map io"] codec_Ok [of "ser_encoding io"]
  unfolding idata_codecs_def by blast+

text \<open>Unpacking depends on the content and the kind of the data only.\<close>

lemma unpack_same:
  "idata_value io d = idata_value io d' \<Longrightarrow> idata_is_pub d = idata_is_pub d' \<Longrightarrow>
     unpack env io so d = unpack env io so d'"
  by (rule ext) (subst (1 2) unpack.simps, simp cong: data_type_encoding.case_cong)

text \<open>The successful runs of \<open>pack\<close>, level by level.\<close>

inductive packs ::
  "'n client_env \<Rightarrow> idata_ops \<Rightarrow> 'n client se_ops \<Rightarrow> bool \<Rightarrow> bytes \<Rightarrow> 'n client \<Rightarrow> idata \<Rightarrow> 'n client \<Rightarrow> bool"
  for env io so published where
  fits: "validate_size io (new_idata env io published v c) \<Longrightarrow>
    packs env io so published v c (new_idata env io published v c) c"
| cut: "ser_idata io (new_idata env io published v c) = Ok b \<Longrightarrow>
    self_encrypt so (self_encryption_storage env io published) b c = Some (Ok dm, c1) \<Longrightarrow>
    ser_encoding io (DataMapEncoding dm) = Ok v' \<Longrightarrow> packs env io so published v' c1 d c' \<Longrightarrow>
    packs env io so published v c d c'"

lemma pack_packs:
  fixes env :: "'n client_env"
  assumes "pack env io so published v c = Some (Ok d, c')"
  shows "packs env io so published v c d c'"
proof -
  have "fst y = Ok d \<longrightarrow> packs env io so published v c d (snd y)" if "pack env io so published v c = Some y" for y
    using that
  proof (rule pack.raw_induct [rotated])
    fix rec and env :: "'n client_env" and io so published v c y
    assume IH: "\<And>env io so published v c y. rec env io so published v c = Some y \<Longrightarrow>
        fst y = Ok d \<longrightarrow> packs env io so published v c d (snd y)"
      and run: "(let data = new_idata env io published v c in
        and_then (de_err (ser_idata io data)) (\<lambda>b c.
          if validate_size io data then Some (Ok data, c)
          else and_then (map_err SelfEncryption (self_encrypt so (self_encryption_storage env io published) b)) (\<lambda>dm.
            and_then (de_err (ser_encoding io (DataMapEncoding dm))) (rec env io so published)) c) c) = Some y"
    show "fst y = Ok d \<longrightarrow> packs env io so published v c d (snd y)"
    proof
      assume "fst y = Ok d"
      then obtain c' where y: "y = (Ok d, c')"
        by (cases y) simp
      show "packs env io so published v c d (snd y)"
      proof (cases "validate_size io (new_idata env io published v c)")
        case True
        then have "d = new_idata env io published v c" "c' = c"
          using run by (auto simp: y Let_def de_err_Ok elim!: and_then_Ok)
        then show ?thesis
          using True by (simp add: y packs.fits)
      next
        case False
        then obtain b dm c1 v' where level: "ser_idata io (new_idata env io published v c) = Ok b"
            "self_encrypt so (self_encryption_storage env io published) b c = Some (Ok dm, c1)"
            "ser_encoding io (DataMapEncoding dm) = Ok v'" and rest: "rec env io so published v' c1 = Some (Ok d, c')"
          using run by (auto simp: y Let_def de_err_Ok map_err_Ok elim!: and_then_Ok)
        from IH [OF rest] have "packs env io so published v' c1 d c'"
          by simp
        then show ?thesis
          unfolding y snd_conv by (rule packs.cut [OF level])
      qed
    qed
  qed
  with assms show ?thesis
    by force
qed

text \<open>The steps of \<open>create\<close>: the data map of the content is encoded so that the same key decodes it.\<close>

lemma symmetric_encrypt_Ok:
  assumes "crypto_laws co" and "symmetric_encrypt co p key None w = Some (Ok b, w')"
  shows "symmetric_decrypt co b key = Ok p" and "w' = w\<lparr>w_draws := Suc (w_draws w)\<rparr>"
    and "key' \<noteq> key \<Longrightarrow> symmetric_decrypt co b key' = Err SymmetricDecipherFailure"
proof -
  let ?n = "rnd_nonce co (w_draws w)"
  have "ser_enc co (?n, aead_seal co key ?n p) = Ok b" and w': "w' = w\<lparr>w_draws := Suc (w_draws w)\<rparr>"
    using assms(2) by (auto simp: symmetric_encrypt_def draw_def and_then_def res_map_err_def split: sum.splits)
  then have "de_enc co b = Ok (?n, aead_seal co key ?n p)"
    using assms(1) unfolding crypto_laws_def by (metis sum.inject(2))
  then show "symmetric_decrypt co b key = Ok p" "w' = w\<lparr>w_draws := Suc (w_draws w)\<rparr>"
      "key' \<noteq> key \<Longrightarrow> symmetric_decrypt co b key' = Err SymmetricDecipherFailure"
    using assms(1) w' by (simp_all add: crypto_laws_def symmetric_decrypt_def)
qed

lemma idata_create_Ok:
  assumes laws: "crypto_laws co" "idata_codecs io"
    and run: "idata_create env co io so content published key c = Some (Ok d, c')"
  obtains dm c1 x v n where "self_encrypt so (self_encryption_storage env io published) content c = Some (Ok dm, c1)"
    and "parse_data_map co io key x = Ok dm" and "ser_encoding io (Serialised x) = Ok v"
    and "\<And>k k'. key = Some k \<Longrightarrow> k' \<noteq> k \<Longrightarrow> parse_data_map co io (Some k') x = Err SymmetricDecipherFailure"
    and "pack env io so published v (c1\<lparr>w_draws := n\<rparr>) = Some (Ok d, c')"
proof -
  obtain dm c1 where enc: "self_encrypt so (self_encryption_storage env io published) content c = Some (Ok dm, c1)"
      and "and_then (de_err (ser_data_map io dm)) (\<lambda>b. and_then (case key of
          Some key \<Rightarrow> and_then (symmetric_encrypt co b key None) (\<lambda>cipher_text. de_err (ser_encoding io (Serialised cipher_text)))
        | None \<Rightarrow> de_err (ser_encoding io (Serialised b))) (\<lambda>v. pack env io so published v)) c1 = Some (Ok d, c')"
    using run unfolding idata_create_def by (rule and_then_Ok) (simp add: map_err_Ok)
  then obtain b where b: "ser_data_map io dm = Ok b"
      and rest: "and_then (case key of
          Some key \<Rightarrow> and_then (symmetric_encrypt co b key None) (\<lambda>cipher_text. de_err (ser_encoding io (Serialised cipher_text)))
        | None \<Rightarrow> de_err (ser_encoding io (Serialised b))) (\<lambda>v. pack env io so published v) c1 = Some (Ok d, c')"
    by - (rule and_then_Ok, assumption, simp add: de_err_Ok)
  have dm: "de_data_map io b = Ok dm"
    by (rule idata_codecsD(2) [OF laws(2) b])
  show ?thesis
  proof (cases key)
    case None
    then show ?thesis
      using rest dm by (auto simp: de_err_Ok parse_data_map_def elim!: and_then_Ok
          intro!: that [OF enc, of b _ "w_draws c1"])
  next
    case (Some k)
    then obtain x c2 v where sym: "symmetric_encrypt co b k None c1 = Some (Ok x, c2)"
      and "ser_encoding io (Serialised x) = Ok v" "pack env io so published v c2 = Some (Ok d, c')"
      using rest by (auto simp: de_err_Ok elim!: and_then_Ok)
    then show ?thesis
      using symmetric_encrypt_Ok [OF laws(1) sym] dm Some
      by (intro that [OF enc, of x v "Suc (w_draws c1)"]) (auto simp: parse_data_map_def)
  qed
qed

locale idata_store = chunk_storage ready chunk "self_encryption_storage env io published"
  for ready :: "'n client \<Rightarrow> bool" and chunk :: "'n client \<Rightarrow> bytes \<rightharpoonup> bytes"
    and env :: "'n client_env" and io :: idata_ops and published :: bool +
  assumes draws_keep: "ready c \<Longrightarrow> later ready chunk c (c\<lparr>w_draws := n\<rparr>)"
    and own_key: "ready c \<Longrightarrow> ready c' \<Longrightarrow> own_public_key env c' = own_public_key env c"
    and got_kind: "ready c \<Longrightarrow> client_get_idata env (idata_address_of published name) c = Some (Ok d, c') \<Longrightarrow>
      idata_is_pub d = published"
    and addr_kind: "ready c \<Longrightarrow> idata_is_pub d = published \<Longrightarrow>
      idata_addr (ce_nd env) d = idata_address_of published (idata_name (ce_nd env) d)"
begin

lemma content_stored:
  assumes "se_laws so" and "ready c"
    and "self_encrypt so (self_encryption_storage env io published) content c = Some (Ok dm, c')"
  shows "later ready chunk c c'" and "describes so ready chunk (self_encryption_storage env io published) dm content c'"
  using assms chunk_storage_axioms unfolding se_laws_def by blast+

lemma describes_later:
  "describes so ready chunk st dm content c \<Longrightarrow> later ready chunk c t \<Longrightarrow> describes so ready chunk st dm content t"
  unfolding describes_def using later_trans by blast

text \<open>One level of the recursion: data that holds the data map of other data unpacks to the same value.\<close>

lemma gives_unpack_level:
  assumes codecs: "idata_codecs io" and kind: "idata_is_pub d = published" and "ready t"
    and enc: "de_encoding io (idata_value io d) = Ok (DataMapEncoding dm)"
    and dec: "gives ready chunk (self_decrypt so (self_encryption_storage env io published) dm) b t"
    and de: "de_idata io b = Ok d'"
    and rest: "\<And>u. later ready chunk t u \<Longrightarrow> gives ready chunk (unpack env io so d') x u"
  shows "gives ready chunk (unpack env io so d) x t"
proof -
  have "unpack env io so d t = and_then (map_err SelfEncryption (self_decrypt so (self_encryption_storage env io published) dm))
      (\<lambda>b. and_then (de_err (de_idata io b)) (\<lambda>d. unpack env io so d)) t"
    by (subst unpack.simps) (simp add: de_err_def enc kind)
  moreover have "gives ready chunk (and_then (map_err SelfEncryption (self_decrypt so (self_encryption_storage env io published) dm))
      (\<lambda>b. and_then (de_err (de_idata io b)) (\<lambda>d. unpack env io so d))) x t"
    using dec rest by (intro gives_and_then [where a = b]) (simp_all add: gives_map_err de_err_def de)
  ultimately show ?thesis
    by (simp add: gives_def)
qed

lemma packed_unpacks:
  assumes "packs env io so published v c d c'" and laws: "se_laws so" "idata_codecs io" and "ready c"
    and content: "\<And>d t. idata_value io d = v \<Longrightarrow> idata_is_pub d = published \<Longrightarrow> later ready chunk c t \<Longrightarrow>
      gives ready chunk (unpack env io so d) x t"
  shows "later ready chunk c c' \<and> d = new_idata env io published (idata_value io d) c' \<and>
    (\<forall>t. later ready chunk c' t \<longrightarrow> gives ready chunk (unpack env io so d) x t)"
  using assms(1,4,5)
proof induction
  case (fits v c)
  then show ?case
    using new_idata_value [OF laws(2), of env published v c] by (simp add: later_refl)
next
  case (cut v c b dm c1 v' d c')
  note stored = content_stored [OF laws(1) cut.prems(1) cut.hyps(2)]
  have "later ready chunk c1 c' \<and> d = new_idata env io published (idata_value io d) c' \<and>
      (\<forall>t. later ready chunk c' t \<longrightarrow> gives ready chunk (unpack env io so d) x t)"
  proof (rule cut.IH)
    show "ready c1"
      using stored(1) by (rule later_ready)
    fix d0 t assume d0: "idata_value io d0 = v'" "idata_is_pub d0 = published" and t: "later ready chunk c1 t"
    show "gives ready chunk (unpack env io so d0) x t"
    proof (rule gives_unpack_level [OF laws(2) d0(2)])
      show "gives ready chunk (unpack env io so (new_idata env io published v c)) x u" if "later ready chunk t u" for u
        using cut.prems(2) new_idata_value [OF laws(2)] later_trans [OF stored(1) later_trans [OF t that]] by blast
    qed (use d0(1) cut.hyps t stored(2) [unfolded describes_def] later_ready idata_codecsD [OF laws(2)] in blast)+
  qed
  then show ?case
    using later_trans [OF stored(1)] by blast
qed

text \<open>What is read from packed data is the encoded value.\<close>

lemma unpack_encoded:
  assumes "idata_codecs io" and "ser_encoding io (Serialised x) = Ok (idata_value io d)" and "ready t"
  shows "gives ready chunk (unpack env io so d) x t"
proof -
  have "de_encoding io (idata_value io d) = Ok (Serialised x)"
    by (rule idata_codecsD(3) [OF assms(1,2)])
  then have "unpack env io so d t = Some (Ok x, t)"
    by (subst unpack.simps) (simp add: de_err_def)
  then show ?thesis
    using later_refl [OF assms(3)] by (simp add: gives_def)
qed

lemma created_unpacks:
  assumes laws: "se_laws so" "idata_codecs io" "crypto_laws co" and "ready c"
    and run: "idata_create env co io so content published key c = Some (Ok d, c')"
  obtains x dm where "later ready chunk c c'" and "d = new_idata env io published (idata_value io d) c'"
    and "\<And>t. later ready chunk c' t \<Longrightarrow> gives ready chunk (unpack env io so d) x t"
    and "describes so ready chunk (self_encryption_storage env io published) dm content c'"
    and "parse_data_map co io key x = Ok dm"
    and "\<And>k k'. key = Some k \<Longrightarrow> k' \<noteq> k \<Longrightarrow> parse_data_map co io (Some k') x = Err SymmetricDecipherFailure"
proof -
  obtain dm c1 x v n where enc: "self_encrypt so (self_encryption_storage env io published) content c = Some (Ok dm, c1)"
      and x: "parse_data_map co io key x = Ok dm" and v: "ser_encoding io (Serialised x) = Ok v"
      and wrong: "\<And>k k'. key = Some k \<Longrightarrow> k' \<noteq> k \<Longrightarrow> parse_data_map co io (Some k') x = Err SymmetricDecipherFailure"
      and pack: "pack env io so published v (c1\<lparr>w_draws := n\<rparr>) = Some (Ok d, c')"
    using idata_create_Ok [OF laws(3,2) run] by metis
  note stored = content_stored [OF laws(1) \<open>ready c\<close> enc]
  have drawn: "later ready chunk c1 (c1\<lparr>w_draws := n\<rparr>)"
    using stored(1) draws_keep later_ready by blast
  have packed: "later ready chunk (c1\<lparr>w_draws := n\<rparr>) c'" "d = new_idata env io published (idata_value io d) c'"
      "\<And>t. later ready chunk c' t \<Longrightarrow> gives ready chunk (unpack env io so d) x t"
    using packed_unpacks [OF pack_packs [OF pack] laws(1,2) later_ready [OF drawn], of x] unpack_encoded [OF laws(2)] v later_ready
    by auto
  have c1: "later ready chunk c1 c'"
    using drawn packed(1) by (rule later_trans)
  show ?thesis
    using later_trans [OF stored(1) c1] packed(2,3) describes_later [OF stored(2) c1] x wrong by (rule that)
qed

lemma created_is_extracted:
  assumes "se_laws so" "idata_codecs io" "crypto_laws co" and "ready c"
    and run: "idata_create env co io so content published key c = Some (Ok d, c')"
  shows "later ready chunk c c'" and "d = new_idata env io published (idata_value io d) c'"
    and "later ready chunk c' t \<Longrightarrow> gives ready chunk (extract_value env co io so d key) content t"
    and "later ready chunk c' t \<Longrightarrow> key = Some k \<Longrightarrow> k' \<noteq> k \<Longrightarrow>
      \<exists>t'. extract_value env co io so d (Some k') t = Some (Err SymmetricDecipherFailure, t')"
proof -
  obtain x dm where c': "later ready chunk c c'" "d = new_idata env io published (idata_value io d) c'"
      and x: "\<And>t. later ready chunk c' t \<Longrightarrow> gives ready chunk (unpack env io so d) x t"
      and dm: "describes so ready chunk (self_encryption_storage env io published) dm content c'"
      and parse: "parse_data_map co io key x = Ok dm"
        "\<And>k k'. key = Some k \<Longrightarrow> k' \<noteq> k \<Longrightarrow> parse_data_map co io (Some k') x = Err SymmetricDecipherFailure"
    by (rule created_unpacks [OF assms]) (rule that)
  have kind: "idata_is_pub d = published"
    using new_idata_value(2) [OF assms(2)] c'(2) by metis
  show "later ready chunk c c'" "d = new_idata env io published (idata_value io d) c'"
    by (fact c')+
  show "gives ready chunk (extract_value env co io so d key) content t" if t: "later ready chunk c' t"
    unfolding extract_value_def kind
    using dm later_trans [OF t] by (intro gives_and_then [OF x [OF t]]) (simp add: parse gives_map_err describes_def)
  show "\<exists>t'. extract_value env co io so d (Some k') t = Some (Err SymmetricDecipherFailure, t')"
    if "later ready chunk c' t" "key = Some k" "k' \<noteq> k"
    using x [OF that(1)] parse(2) [OF that(2,3)] by (auto simp: gives_def extract_value_def and_then_def)
qed

text \<open>Content that was created and put is read from its address, then and later.\<close>

lemma extract_same:
  "idata_value io d = idata_value io d' \<Longrightarrow> idata_is_pub d = idata_is_pub d' \<Longrightarrow>
     extract_value env co io so d key = extract_value env co io so d' key"
  by (simp add: extract_value_def unpack_same [of io d d'])

lemma put_is_got:
  assumes "idata_codecs io" and "ready c" and d: "d = new_idata env io published (idata_value io d) c"
    and put: "client_put_idata env d c = Some (Ok (), c')" and "later ready chunk c' t"
  shows "\<exists>d' t'. client_get_idata env (idata_addr (ce_nd env) d) t = Some (Ok d', t') \<and> later ready chunk t t' \<and>
    idata_value io d' = idata_value io d \<and> idata_is_pub d' = idata_is_pub d"
proof -
  let ?st = "self_encryption_storage env io published" and ?v = "idata_value io d"
  have kind: "idata_is_pub d = published"
    using new_idata_value(2) [OF assms(1)] d by metis
  have "so_put ?st [] ?v c = Some (Ok (), c')"
    using put d by (simp add: self_encryption_storage_def ses_put_def)
  then have "gives ready chunk (so_get ?st (so_generate_address ?st ?v c)) ?v t"
    using put_then_get assms(2,5) by blast
  moreover have "so_generate_address ?st ?v c = xn_bytes (idata_name (ce_nd env) d)"
    using d by (simp add: self_encryption_storage_def ses_generate_address_def)
  ultimately obtain t' where "ses_get env io published (xn_bytes (idata_name (ce_nd env) d)) t = Some (Ok ?v, t')"
      "later ready chunk t t'"
    by (auto simp: gives_def self_encryption_storage_def)
  then obtain d' where "client_get_idata env (idata_address_of published (idata_name (ce_nd env) d)) t = Some (Ok d', t')"
      "idata_value io d' = ?v"
    by (auto simp: ses_get_def map_prog_Ok split: if_splits)
  then show ?thesis
    using got_kind later_ready [OF assms(5)] addr_kind [OF assms(2) kind] kind \<open>later ready chunk t t'\<close> by auto
qed

lemma put_keeps_idata:
  assumes "ready c" and "d = new_idata env io published (idata_value io d) c"
    and "client_put_idata env d c = Some (r, c')"
  shows "later ready chunk c c'"
  using put_keeps [of c "[]" "idata_value io d" r c'] assms
  by (simp add: self_encryption_storage_def ses_put_def later_def)

lemma created_is_read:
  assumes laws: "se_laws so" "idata_codecs io" "crypto_laws co" and "ready c"
    and run: "idata_create env co io so content published key c = Some (Ok d, c1)"
    and put: "client_put_idata env d c1 = Some (Ok (), c2)"
  shows "later ready chunk c c2"
    and "later ready chunk c2 t \<Longrightarrow> gives ready chunk (get_value env co io so (idata_addr (ce_nd env) d) key) content t"
    and "later ready chunk c2 t \<Longrightarrow> key = Some k \<Longrightarrow> k' \<noteq> k \<Longrightarrow>
      \<exists>t'. get_value env co io so (idata_addr (ce_nd env) d) (Some k') t = Some (Err SymmetricDecipherFailure, t')"
proof -
  note created = created_is_extracted [OF laws \<open>ready c\<close> run]
  have c2: "later ready chunk c1 c2"
    using put_keeps_idata created(2) put later_ready [OF created(1)] by blast
  show "later ready chunk c c2"
    using created(1) c2 by (rule later_trans)
  fix t assume t: "later ready chunk c2 t"
  obtain d' t' where got: "client_get_idata env (idata_addr (ce_nd env) d) t = Some (Ok d', t')" "later ready chunk t t'"
      and same: "extract_value env co io so d' = extract_value env co io so d"
    using put_is_got [OF laws(2) later_ready [OF created(1)] created(2) put t] extract_same by blast
  have "later ready chunk c1 t'"
    using later_trans [OF c2 later_trans [OF t got(2)]] .
  note extracted = created(3,4) [OF this]
  show "gives ready chunk (get_value env co io so (idata_addr (ce_nd env) d) key) content t"
    unfolding get_value_def using extracted(1) got later_trans
    by (auto simp: gives_def and_then_def same)
  show "\<exists>t'. get_value env co io so (idata_addr (ce_nd env) d) (Some k') t = Some (Err SymmetricDecipherFailure, t')"
    if "key = Some k" "k' \<noteq> k"
    using extracted(2) [OF that] got by (auto simp: get_value_def and_then_def same)
qed

end

text \<open>What \<open>pack\<close> returns is small enough for the network.\<close>

lemma packs_valid: "packs env io so published v c d c' \<Longrightarrow> validate_size io d"
  by (induction rule: packs.induct)

subsection \<open>An instance\<close>

text \<open>
  A self-encryptor that keeps content of up to two bytes in the data map and stores longer content as one chunk; the length is
  written in the digits of base 255. Immutable data begins with the owner's key.
\<close>

definition nat_enc :: "nat \<Rightarrow> bytes" where
  "nat_enc n = replicate (n div 255) 255 @ [of_nat (n mod 255)]"

definition nat_dec :: "bytes \<Rightarrow> nat \<times> bytes" where
  "nat_dec xs = (let k = length (takeWhile (\<lambda>b. b = 255) xs) in (255 * k + unat (xs ! k), drop (Suc k) xs))"

lemma nat_dec_enc [simp]: "nat_dec (nat_enc n @ xs) = (n, xs)"
proof -
  have small: "unat (of_nat (n mod 255) :: 8 word) = n mod 255"
    by (simp add: unat_of_nat)
  have "of_nat (n mod 255) \<noteq> (255 :: 8 word)"
  proof
    assume "of_nat (n mod 255) = (255 :: 8 word)"
    then have "n mod 255 = 255"
      using small by simp
    then show False
      using mod_less_divisor [of 255 n] by simp
  qed
  then have "takeWhile (\<lambda>b. b = 255) (nat_enc n @ xs) = replicate (n div 255) 255"
    unfolding nat_enc_def by (subst append_assoc, subst takeWhile_append2) auto
  then show ?thesis
    using small by (simp add: nat_dec_def nat_enc_def nth_append)
qed

definition sample_len :: "data_map \<Rightarrow> u64" where
  "sample_len dm = (if hd dm = 0 then of_nat (length (tl dm)) else of_nat (fst (nat_dec (tl dm))))"

definition sample_chunk :: "'s storage_ops \<Rightarrow> data_map \<Rightarrow> ('s, core_error, bytes) prog" where
  "sample_chunk st dm = (if hd dm = 0 then lift_res (Ok (tl dm)) else so_get st (snd (nat_dec (tl dm))))"

definition sample_close :: "'s storage_ops \<Rightarrow> bytes \<Rightarrow> ('s, data_map) se_prog" where
  "sample_close st content s =
     (if length content \<le> 2 then Some (Ok (0 # content), s)
      else if length content \<ge> 2 ^ 64 then Some (Err (SEOther []), s)
      else map_err SEStorage (map_prog (\<lambda>_. 1 # nat_enc (length content) @ so_generate_address st content s)
        (so_put st (so_generate_address st content s) content)) s)"

definition sample_se :: "'s se_ops" where
  "sample_se = \<lparr>dm_none = [0],
     se_new = (\<lambda>st dm. Ok dm),
     se_write = (\<lambda>st se content pos. lift_res (Ok (0 # content))),
     se_close = (\<lambda>st se. sample_close st (tl se)),
     se_len = sample_len,
     se_read = (\<lambda>st se pos len. map_err SEStorage (map_prog (\<lambda>b. take (unat len) (drop (unat pos) b)) (sample_chunk st se))),
     sq_new = (\<lambda>st base. case base of None \<Rightarrow> lift_res (Ok [0])
       | Some dm \<Rightarrow> map_err SEStorage (map_prog (\<lambda>b. 0 # take (unat (sample_len dm)) b) (sample_chunk st dm))),
     sq_write = (\<lambda>st se content. lift_res (Ok (se @ content))),
     sq_len = (\<lambda>se. of_nat (length (tl se))),
     sq_close = (\<lambda>st se. sample_close st (tl se))\<rparr>"

context chunk_storage
begin

lemma sample_closed:
  assumes "ready s" and "sample_close st content s = Some (Ok dm, s')"
  shows "later ready chunk s s' \<and> describes sample_se ready chunk st dm content s'"
proof (cases "length content \<le> 2")
  case True
  then have "unat (of_nat (length content) :: u64) = length content"
    by (simp add: unat_of_nat)
  then show ?thesis
    using True assms later_refl
    by (auto simp: sample_close_def describes_def self_decrypt_def sample_se_def sample_len_def sample_chunk_def gives_def
        map_err_def map_prog_def later_def)
next
  case False
  then have put: "so_put st (so_generate_address st content s) content s = Some (Ok (), s')"
      and dm: "dm = 1 # nat_enc (length content) @ so_generate_address st content s" and "length content < 2 ^ 64"
    using assms(2) by (auto simp: sample_close_def map_err_Ok map_prog_Ok split: if_splits)
  then have len: "unat (of_nat (length content) :: u64) = length content"
    by (simp add: unat_of_nat)
  have "gives ready chunk (self_decrypt sample_se st dm) content t" if "later ready chunk s' t" for t
    using put_then_get [OF assms(1) put that] len
    by (auto simp: dm self_decrypt_def sample_se_def sample_len_def sample_chunk_def gives_def map_err_def map_prog_def)
  then show ?thesis
    using put_keeps [OF assms(1) put] by (simp add: later_def describes_def)
qed

lemma sample_encrypted:
  assumes "ready s" and "self_encrypt sample_se st content s = Some (Ok dm, s')"
  shows "later ready chunk s s' \<and> describes sample_se ready chunk st dm content s'"
  using assms by (intro sample_closed) (auto simp: self_encrypt_def sample_se_def)

lemma sample_write_all: "sq_write_all sample_se st ds se s = Some (Ok (se @ concat ds), s)"
  by (induction ds arbitrary: se) (simp_all add: sample_se_def)

lemma sample_started:
  assumes "ready s" and "case base of None \<Rightarrow> old = [] | Some dm0 \<Rightarrow> describes sample_se ready chunk st dm0 old s"
    and "sq_new sample_se st base s = Some (Ok se, s')"
  shows "se = 0 # old \<and> later ready chunk s s'"
proof (cases base)
  case None
  then show ?thesis
    using assms later_refl by (simp add: sample_se_def)
next
  case (Some dm)
  then have "gives ready chunk (self_decrypt sample_se st dm) old s"
    using assms(1,2) later_refl by (simp add: describes_def)
  then show ?thesis
    using assms(3) Some by (auto simp: gives_def self_decrypt_def sample_se_def map_err_def map_prog_def
        res_map_err_def res_map_def split: option.splits sum.splits)
qed

lemma sample_sequence:
  assumes "ready s" and "case base of None \<Rightarrow> old = [] | Some dm0 \<Rightarrow> describes sample_se ready chunk st dm0 old s"
    and "sq_encrypt sample_se st base ds s = Some (Ok (n, dm), s')"
  shows "later ready chunk s s' \<and> describes sample_se ready chunk st dm (old @ concat ds) s' \<and>
    n = of_nat (length (old @ concat ds))"
proof -
  obtain se s1 where new: "sq_new sample_se st base s = Some (Ok se, s1)"
      and close: "sq_close sample_se st (se @ concat ds) s1 = Some (Ok dm, s')" and n: "n = sq_len (sample_se :: 's se_ops) (se @ concat ds)"
    using assms(3) unfolding sq_encrypt_def
    by (elim and_then_Ok) (auto simp: sample_write_all map_prog_Ok)
  have se: "se = 0 # old" and s1: "later ready chunk s s1"
    using sample_started [OF assms(1,2) new] by simp_all
  have "sample_close st (old @ concat ds) s1 = Some (Ok dm, s')"
    using close by (simp add: se sample_se_def)
  then have "later ready chunk s1 s' \<and> describes sample_se ready chunk st dm (old @ concat ds) s'"
    by (rule sample_closed [OF later_ready [OF s1]])
  then show ?thesis
    using later_trans [OF s1] by (auto simp: n se sample_se_def)
qed

end

lemma sample_se_laws: "se_laws (sample_se :: 's se_ops)"
  unfolding se_laws_def
proof (intro allI impI, elim conjE)
  fix ready chunk st and s :: 's
  assume st: "chunk_storage ready chunk st" "ready s"
  then show "(\<forall>content dm s'. self_encrypt sample_se st content s = Some (Ok dm, s') \<longrightarrow>
        later ready chunk s s' \<and> describes sample_se ready chunk st dm content s') \<and>
     (\<forall>base old ds n dm s'. (case base of None \<Rightarrow> old = [] | Some dm0 \<Rightarrow> describes sample_se ready chunk st dm0 old s) \<and>
        sq_encrypt sample_se st base ds s = Some (Ok (n, dm), s') \<longrightarrow>
        later ready chunk s s' \<and> describes sample_se ready chunk st dm (old @ concat ds) s' \<and>
        n = of_nat (length (old @ concat ds)))"
    using chunk_storage.sample_encrypted [OF st] chunk_storage.sample_sequence [OF st] by (auto simp del: length_append of_nat_add)
qed

end
