(* ===== verification/Idata_Network.thy ===== *)
theory Idata_Network
  imports Idata_Props
begin

section \<open>Unpublished data on the mock network\<close>

text \<open>
  The storage of a client's self-encryptors, for unpublished data, keeps its chunks: the vault refuses to put
  unpublished data at an address that is taken, so that no chunk is lost, whatever the names are.
  The interpretation of \<open>idata_store\<close> carries the laws of the third-party functions in its predicate \<open>unpub_ready\<close>.
\<close>

definition unpub_laws :: "safe_nd \<Rightarrow> idata_ops \<Rightarrow> bool" where
  "unpub_laws nd io \<longleftrightarrow>
     (\<forall>v pk. unpub_idata_owner nd (new_unpub_idata io v pk) = pk) \<and>
     (\<forall>v pk. idata_value io (IUnpub (new_unpub_idata io v pk)) = v) \<and>
     (\<forall>u. length (xn_bytes (idata_name nd (IUnpub u))) = XOR_NAME_LEN) \<and>
     (\<forall>n. get_type nd (GetIData (IUnpubAddr n)) \<noteq> PublicGet) \<and> (\<forall>d. get_type nd (PutIData d) \<noteq> PublicGet)"

definition unpub_ready ::
  "safe_nd \<Rightarrow> 'raw codec \<Rightarrow> local_ops \<Rightarrow> idata_ops \<Rightarrow> client_full_id \<Rightarrow> 'raw conn_manager client \<Rightarrow> bool" where
  "unpub_ready nd cd lo io i c \<longleftrightarrow> unpub_laws nd io \<and> idata_laws nd \<and> sign_laws (mock_env nd cd lo) \<and> lru_laws (mock_env nd cd lo) \<and>
     plain_net (w_net c) \<and> cl_full_id c = SafeClient i \<and> vault_wf nd (vault_of (w_net c)) \<and>
     (\<forall>a d. map_of (cl_cache c) a = Some d \<and> \<not> idata_addr_is_pub a \<longrightarrow>
        nae_manager (vault_of (w_net c)) (IdImmutable a) = Some (Immutable d))"

definition unpub_chunk ::
  "safe_nd \<Rightarrow> local_ops \<Rightarrow> idata_ops \<Rightarrow> client_full_id \<Rightarrow> 'raw conn_manager client \<Rightarrow> bytes \<rightharpoonup> bytes" where
  "unpub_chunk nd lo io i c name =
     (case nae_manager (vault_of (w_net c)) (IdImmutable (IUnpubAddr (XorName name))) of
        Some (Immutable (IUnpub u)) \<Rightarrow>
          (if length name = XOR_NAME_LEN \<and> unpub_idata_owner nd u = client_public_key nd (full_client_id lo i)
           then Some (idata_value io (IUnpub u)) else None)
      | _ \<Rightarrow> None)"

text \<open>What a put does to the store.\<close>

lemma put_idata_store:
  assumes "put_data nd (IdImmutable a) d requester v = Some (r, v')"
  shows "nae_manager v \<subseteq>\<^sub>m nae_manager v'"
    and "r = Ok () \<Longrightarrow> \<not> idata_addr_is_pub a \<Longrightarrow> nae_manager v' (IdImmutable a) = Some d"
  using assms by (auto simp: put_data_def contains_data_def insert_data_def map_le_def elim!: and_then_Some and_then_Ok
      split: public_id.splits if_splits dest!: commit_nae)

lemma put_unpub:
  assumes ready: "unpub_ready nd cd lo io i c"
    and run: "client_put_idata (mock_env nd cd lo) d c = Some (r, c')"
  shows "unpub_ready nd cd lo io i c' \<and> nae_manager (vault_of (w_net c)) \<subseteq>\<^sub>m nae_manager (vault_of (w_net c')) \<and>
    (r = Ok () \<and> \<not> idata_addr_is_pub (idata_addr nd d) \<longrightarrow>
       nae_manager (vault_of (w_net c')) (IdImmutable (idata_addr nd d)) = Some (Immutable d)) \<and>
    (\<forall>u. r = Ok () \<and> d = IUnpub u \<longrightarrow> unpub_idata_owner nd u = client_public_key nd (full_client_id lo i))"
proof -
  let ?cid = "full_client_id lo i" and ?v = "vault_of (w_net c)"
  have laws: "sign_laws (mock_env nd cd lo)" "plain_net (w_net c)" "cl_full_id c = SafeClient i"
      "get_type nd (PutIData d) \<noteq> PublicGet"
    using ready by (auto simp: unpub_ready_def unpub_laws_def)
  obtain q v' where step: "handle_request nd (Client ?cid) (client_public_key nd ?cid) (client_public_key nd ?cid) (PutIData d) ?v = Some (RespMutation q, v')"
      and r: "r = res_map_err DataError q"
      and c': "c' = c\<lparr>w_draws := Suc (w_draws c), w_net := set_vault v' (w_net c)\<rparr>"
    using run send_authenticated [OF laws(1,2,4,3) HOL.refl]
    by (auto simp: client_put_idata_def send_mutation_def and_then_def handle_request_def req_put_idata_def respond_def
        expect_response_def as_mutation_def split: option.splits prod.splits)
  have wf: "vault_wf nd v'"
    using wf.handle_request_rel [of nd "client_public_key nd ?cid" "PutIData d" "Client ?cid"] step ready
    by (simp add: reply_keeps_def self_create_def requester_key_def unpub_ready_def)
  have "nae_manager ?v \<subseteq>\<^sub>m nae_manager v' \<and> (q = Ok () \<and> \<not> idata_addr_is_pub (idata_addr nd d) \<longrightarrow>
      nae_manager v' (IdImmutable (idata_addr nd d)) = Some (Immutable d)) \<and>
      (\<forall>u. q = Ok () \<and> d = IUnpub u \<longrightarrow> unpub_idata_owner nd u = client_public_key nd ?cid)"
    using step put_idata_store
    by (auto simp: handle_request_def req_put_idata_def respond_def Let_def split: option.splits if_splits)
  then show ?thesis
    using ready wf by (auto simp: r c' unpub_ready_def res_map_err_def intro: map_leD split: sum.splits)
qed

text \<open>At an address of unpublished data there is unpublished data.\<close>

lemma stored_unpub:
  assumes "unpub_ready nd cd lo io i c" and "nae_manager (vault_of (w_net c)) (IdImmutable (IUnpubAddr n)) = Some d"
  shows "\<exists>u. d = Immutable (IUnpub u)"
proof -
  have "id_matches nd (IdImmutable (IUnpubAddr n)) d"
    using assms by (simp add: unpub_ready_def vault_wf_def)
  then obtain x where "d = Immutable x" "idata_addr nd x = IUnpubAddr n"
    by (cases d) auto
  moreover have "idata_addr_is_pub (idata_addr nd (IPub b))" for b
    using assms(1) by (simp add: unpub_ready_def idata_laws_def)
  ultimately show ?thesis
    by (cases x) (metis idata_addr_is_pub.simps(2), simp)
qed

text \<open>What the network answers to a query for unpublished data.\<close>

lemma query_unpub:
  assumes ready: "unpub_ready nd cd lo io i c"
  shows "query (mock_env nd cd lo) (GetIData (IUnpubAddr n)) as_get_idata c = Some
    (case nae_manager (vault_of (w_net c)) (IdImmutable (IUnpubAddr n)) of
      Some (Immutable (IUnpub u)) \<Rightarrow>
        if unpub_idata_owner nd u = client_public_key nd (full_client_id lo i) then Ok (IUnpub u)
        else Err (DataError AccessDenied)
    | _ \<Rightarrow> Err (DataError NoSuchData), c\<lparr>w_draws := Suc (w_draws c)\<rparr>)"
proof -
  let ?v = "vault_of (w_net c)"
  have laws: "sign_laws (mock_env nd cd lo)" "plain_net (w_net c)" "cl_full_id c = SafeClient i"
      "get_type nd (GetIData (IUnpubAddr n)) \<noteq> PublicGet"
    using ready by (auto simp: unpub_ready_def unpub_laws_def)
  have same: "c\<lparr>w_draws := k, w_net := set_vault ?v (w_net c)\<rparr> = c\<lparr>w_draws := k\<rparr>" for k
    by (simp add: set_vault_def vault_of_def)
  show ?thesis
    using send_authenticated [OF laws(1,2,4,3) HOL.refl] stored_unpub [OF ready, of n]
    by (auto simp: query_def and_then_def handle_request_def req_get_idata_def get_idata_def get_data_def respond_def
        expect_response_def as_get_idata_def same split: option.splits)
qed

lemma get_unpub:
  assumes ready: "unpub_ready nd cd lo io i c"
  obtains r c' where "client_get_idata (mock_env nd cd lo) (IUnpubAddr n) c = Some (r, c')"
    and "unpub_ready nd cd lo io i c'" and "vault_of (w_net c') = vault_of (w_net c)"
    and "\<And>d. r = Ok d \<Longrightarrow> \<not> idata_is_pub d"
    and "\<And>u. nae_manager (vault_of (w_net c)) (IdImmutable (IUnpubAddr n)) = Some (Immutable (IUnpub u)) \<Longrightarrow>
      unpub_idata_owner nd u = client_public_key nd (full_client_id lo i) \<Longrightarrow> r = Ok (IUnpub u)"
proof -
  let ?env = "mock_env nd cd lo" and ?st = "nae_manager (vault_of (w_net c))"
  have lru: "lru_laws ?env" and wf: "vault_wf nd (vault_of (w_net c))"
    using ready by (simp_all add: unpub_ready_def)
  obtain hit cache where get: "lru_get_mut lo (IUnpubAddr n) (cl_cache c) = (hit, cache)"
    by (cases "lru_get_mut lo (IUnpubAddr n) (cl_cache c)")
  then have hit: "hit = map_of (cl_cache c) (IUnpubAddr n)" and cache: "map_of cache = map_of (cl_cache c)"
    using lru by (auto simp: lru_laws_def dest!: spec [of _ "IUnpubAddr n"] spec [of _ "cl_cache c"])
  have ready1: "unpub_ready nd cd lo io i (c\<lparr>cl_cache := cache\<rparr>)"
    using ready by (simp add: unpub_ready_def cache)
  show ?thesis
  proof (cases hit)
    case (Some d)
    then have "?st (IdImmutable (IUnpubAddr n)) = Some (Immutable d)"
      using ready hit by (simp add: unpub_ready_def)
    with Some show ?thesis
      using ready1 stored_unpub [OF ready, of n "Immutable d"] by (intro that [of "Ok d" "c\<lparr>cl_cache := cache\<rparr>"]) (auto simp: client_get_idata_def get)
  next
    case None
    note query = query_unpub [OF ready1, of n]
    show ?thesis
    proof (cases "\<exists>u. ?st (IdImmutable (IUnpubAddr n)) = Some (Immutable (IUnpub u)) \<and>
        unpub_idata_owner nd u = client_public_key nd (full_client_id lo i)")
      case True
      then obtain u where u: "?st (IdImmutable (IUnpubAddr n)) = Some (Immutable (IUnpub u))"
          "unpub_idata_owner nd u = client_public_key nd (full_client_id lo i)"
        by blast
      then have addr: "idata_addr nd (IUnpub u) = IUnpubAddr n"
        using wf by (force simp: vault_wf_def)
      let ?c = "c\<lparr>cl_cache := lru_insert ?env (IUnpubAddr n) (IUnpub u) cache, w_draws := Suc (w_draws c)\<rparr>"
      have "unpub_ready nd cd lo io i ?c"
        using ready1 u lru unfolding unpub_ready_def lru_laws_def by simp (metis option.distinct(1) option.inject)
      then show ?thesis
        using None query u by (intro that [of "Ok (IUnpub u)" ?c])
          (simp_all add: client_get_idata_def get and_then_def addr, metis idata_is_pub.simps(2))
    next
      case False
      then obtain e where "query ?env (GetIData (IUnpubAddr n)) as_get_idata (c\<lparr>cl_cache := cache\<rparr>) =
          Some (Err e, c\<lparr>cl_cache := cache, w_draws := Suc (w_draws c)\<rparr>)"
        using query by (auto split: option.splits data.splits idata.splits)
      then show ?thesis
        using None ready1 False
        by (intro that [of "Err e" "c\<lparr>cl_cache := cache, w_draws := Suc (w_draws c)\<rparr>"])
          (auto simp: client_get_idata_def get and_then_def unpub_ready_def)
    qed
  qed
qed

lemma unpub_chunk_mono:
  assumes "nae_manager (vault_of (w_net c)) \<subseteq>\<^sub>m nae_manager (vault_of (w_net c'))"
  shows "unpub_chunk nd lo io i c \<subseteq>\<^sub>m unpub_chunk nd lo io i c'"
  unfolding map_le_def
proof
  fix name assume "name \<in> dom (unpub_chunk nd lo io i c)"
  then obtain u where "nae_manager (vault_of (w_net c)) (IdImmutable (IUnpubAddr (XorName name))) = Some (Immutable (IUnpub u))"
    by (auto simp: unpub_chunk_def split: option.splits data.splits idata.splits)
  then show "unpub_chunk nd lo io i c name = unpub_chunk nd lo io i c' name"
    using map_leD [OF assms] by (simp add: unpub_chunk_def)
qed

interpretation unpub: idata_store "unpub_ready nd cd lo io i" "unpub_chunk nd lo io i" "mock_env nd cd lo" io False
  for nd cd lo io i
proof
  fix c c' :: "'a conn_manager client" and name d r
  let ?st = "self_encryption_storage (mock_env nd cd lo) io False"
  assume ready: "unpub_ready nd cd lo io i c"
  let ?d = "IUnpub (new_unpub_idata io d (client_public_key nd (full_client_id lo i)))"
  have new: "new_idata (mock_env nd cd lo) io False d c = ?d"
    using ready by (simp add: new_idata_def own_public_key_def safe_key_public_key_def unpub_ready_def mock_env_def)
  show "later (unpub_ready nd cd lo io i) (unpub_chunk nd lo io i) c (c\<lparr>w_draws := n\<rparr>)" for n
    using ready unpub_chunk_mono [of c "c\<lparr>w_draws := n\<rparr>"] by (simp add: later_def unpub_ready_def)
  show "unpub_ready nd cd lo io i c' \<and> unpub_chunk nd lo io i c \<subseteq>\<^sub>m unpub_chunk nd lo io i c'"
    if "so_put ?st name d c = Some (r, c')"
    using put_unpub [OF ready] that unpub_chunk_mono by (simp add: self_encryption_storage_def ses_put_def) blast
  show "unpub_chunk nd lo io i c' (so_generate_address ?st d c) = Some d" if "so_put ?st name d c = Some (Ok (), c')"
  proof -
    have "client_put_idata (mock_env nd cd lo) ?d c = Some (Ok (), c')"
      using that by (simp add: self_encryption_storage_def ses_put_def new)
    moreover obtain n where n: "idata_addr nd ?d = IUnpubAddr n"
      using ready by (cases "idata_addr nd ?d") (auto simp: unpub_ready_def idata_laws_def, metis idata_addr_is_pub.simps(1))
    ultimately have "nae_manager (vault_of (w_net c')) (IdImmutable (IUnpubAddr n)) = Some (Immutable ?d)"
      using put_unpub [OF ready] by fastforce
    moreover have "length (xn_bytes n) = XOR_NAME_LEN"
      using ready n unfolding unpub_ready_def unpub_laws_def idata_name_def by (metis idata_addr_name.simps(2))
    ultimately show ?thesis
      using ready by (simp add: self_encryption_storage_def ses_generate_address_def new idata_name_def n
          unpub_chunk_def unpub_ready_def unpub_laws_def)
  qed
  show "own_public_key (mock_env nd cd lo) c' = own_public_key (mock_env nd cd lo) c" if "unpub_ready nd cd lo io i c'"
    using ready that by (simp add: own_public_key_def unpub_ready_def)
  show "idata_addr (ce_nd (mock_env nd cd lo)) x = idata_address_of False (idata_name (ce_nd (mock_env nd cd lo)) x)"
    if "idata_is_pub x = False" for x
    using ready that by (cases x; cases "idata_addr nd x")
      (auto simp: unpub_ready_def idata_laws_def idata_name_def idata_address_of_def, metis idata_addr_is_pub.simps(1))
  show "idata_is_pub x = False" if run: "client_get_idata (mock_env nd cd lo) (idata_address_of False m) c = Some (Ok x, c')" for m x
    using get_unpub [OF ready, of m] run by (auto simp: idata_address_of_def)
  obtain q c1 where get: "client_get_idata (mock_env nd cd lo) (IUnpubAddr (XorName name)) c = Some (q, c1)"
      "unpub_ready nd cd lo io i c1" "vault_of (w_net c1) = vault_of (w_net c)"
      and found: "\<And>u. nae_manager (vault_of (w_net c)) (IdImmutable (IUnpubAddr (XorName name))) = Some (Immutable (IUnpub u)) \<Longrightarrow>
        unpub_idata_owner nd u = client_public_key nd (full_client_id lo i) \<Longrightarrow> q = Ok (IUnpub u)"
    by (rule get_unpub [OF ready]) (rule that; assumption)
  have run: "so_get ?st name c = (if length name \<noteq> XOR_NAME_LEN
      then Some (Err (Unexpected ''Requested `name` is incorrect size.''), c) else Some (res_map (idata_value io) q, c1))"
    by (simp add: self_encryption_storage_def ses_get_def idata_address_of_def map_prog_def get(1))
  show "unpub_ready nd cd lo io i c' \<and> unpub_chunk nd lo io i c \<subseteq>\<^sub>m unpub_chunk nd lo io i c'"
    if "so_get ?st name c = Some (p, c')" for p
    using that ready get(2,3) unpub_chunk_mono [of c c'] by (auto simp: run split: if_splits)
  show "\<exists>c'. so_get ?st name c = Some (Ok d, c')" if "unpub_chunk nd lo io i c name = Some d"
    using that found by (auto simp: run unpub_chunk_def split: option.splits data.splits idata.splits if_splits)
qed

text \<open>
  (C9) Unpublished content of any size, encrypted or not, is read back: what \<open>immutable_data::create\<close> made of it and
  \<open>put_idata\<close> stored gives the same content with \<open>get_value\<close> and the same key, however many times the data map had to
  be cut and packed again; with another key it gives the error of the cipher.
\<close>

theorem created_idata_is_read_back:
  assumes laws: "se_laws so" "idata_codecs io" "crypto_laws co" and ready: "unpub_ready nd cd lo io i c"
    and run: "idata_create (mock_env nd cd lo) co io so content False key c = Some (Ok d, c1)"
    and put: "client_put_idata (mock_env nd cd lo) d c1 = Some (Ok (), c2)"
  shows "(\<exists>c3. get_value (mock_env nd cd lo) co io so (idata_addr nd d) key c2 = Some (Ok content, c3)) \<and>
    (\<forall>k k'. key = Some k \<and> k' \<noteq> k \<longrightarrow>
       (\<exists>c3. get_value (mock_env nd cd lo) co io so (idata_addr nd d) (Some k') c2 = Some (Err SymmetricDecipherFailure, c3)))"
proof -
  note read = unpub.created_is_read [OF laws ready run put]
  then have "later (unpub_ready nd cd lo io i) (unpub_chunk nd lo io i) c2 c2"
    by (simp add: later_def)
  from read(2,3) [OF this] show ?thesis
    by (auto simp: gives_def)
qed

subsection \<open>Applications cannot store unpublished immutable data\<close>

text \<open>
  (C34) The chunks of a self-encryptor for unpublished data are owned by the key of the client that writes them. The
  vault accepts unpublished data only when it is owned by the key of the account, which for an application is the
  key of its owner and not its own. Hence no authorised application stores unpublished immutable data: every put of a
  chunk, and of the data that \<open>pack\<close> builds, is refused with \<open>InvalidOwners\<close> and changes nothing at the vault.
\<close>

theorem app_unpublished_idata_refused:
  assumes laws: "sign_laws (mock_env nd cd lo)" "\<forall>v pk. unpub_idata_owner nd (new_unpub_idata io v pk) = pk"
    and net: "plain_net (w_net c)" "\<forall>d. get_type nd (PutIData d) \<noteq> PublicGet"
    and app: "cl_full_id c = SafeApp i" "pid = full_app_id lo i" "app_public_key nd pid \<noteq> client_public_key nd (app_owner nd pid)"
    and auth: "get_account (vault_of (w_net c)) (public_id_name nd (App pid)) = Some account"
      "acc_auth_keys account (app_public_key nd pid) \<noteq> None"
  shows "so_put (self_encryption_storage (mock_env nd cd lo) io False) name d c =
      Some (Err (DataError InvalidOwners), c\<lparr>w_draws := Suc (w_draws c)\<rparr>) \<and>
    client_put_idata (mock_env nd cd lo) (new_idata (mock_env nd cd lo) io False d c) c =
      Some (Err (DataError InvalidOwners), c\<lparr>w_draws := Suc (w_draws c)\<rparr>)"
proof -
  let ?env = "mock_env nd cd lo" and ?d = "IUnpub (new_unpub_idata io d (app_public_key nd pid))"
  have new: "new_idata ?env io False d c = ?d"
    using app by (simp add: new_idata_def own_public_key_def safe_key_public_key_def mock_env_def)
  have "set_vault (vault_of (w_net c)) (w_net c) = w_net c"
    by (simp add: set_vault_def vault_of_def)
  then have "client_put_idata ?env ?d c = Some (Err (DataError InvalidOwners), c\<lparr>w_draws := Suc (w_draws c)\<rparr>)"
    using send_app_authorised [OF laws(1) net(1) spec [OF net(2)] app(1,2) auth] laws(2) app(3)
    by (simp add: client_put_idata_def send_mutation_def and_then_def expect_response_def as_mutation_def
        handle_request_def req_put_idata_def respond_def)
  then show ?thesis
    by (simp add: self_encryption_storage_def ses_put_def new)
qed

subsection \<open>Packing ends, within the limit\<close>

text \<open>
  (C25) Packing ends and respects the limit on the size of immutable data, as long as the self-encryptor returns and the
  encoded data map of data that is too large is shorter than its content.
\<close>

theorem pack_ends_within_limit:
  fixes env :: "'n client_env"
  assumes "ok c"
    and returns: "\<And>x c. ok c \<Longrightarrow> \<exists>r c'. self_encrypt so (self_encryption_storage env io published) x c = Some (r, c') \<and> ok c'"
    and shrinks: "\<And>v c b dm c1 v'. ok c \<Longrightarrow> \<not> validate_size io (new_idata env io published v c) \<Longrightarrow>
      ser_idata io (new_idata env io published v c) = Ok b \<Longrightarrow>
      self_encrypt so (self_encryption_storage env io published) b c = Some (Ok dm, c1) \<Longrightarrow>
      ser_encoding io (DataMapEncoding dm) = Ok v' \<Longrightarrow> length v' < length v"
  shows "\<exists>r c'. pack env io so published v c = Some (r, c') \<and> (\<forall>d. r = Ok d \<longrightarrow> validate_size io d)"
proof -
  let ?st = "self_encryption_storage env io published"
  have "\<exists>y. pack env io so published v c = Some y"
    using \<open>ok c\<close>
  proof (induction "length v" arbitrary: v c rule: less_induct)
    case less
    obtain r c1 where enc: "self_encrypt so ?st (projr (ser_idata io (new_idata env io published v c))) c = Some (r, c1)" "ok c1"
      using returns less.prems by blast
    have "\<exists>y. pack env io so published v' c1 = Some y" if "\<not> validate_size io (new_idata env io published v c)"
        "ser_idata io (new_idata env io published v c) = Ok b" "r = Ok dm" "ser_encoding io (DataMapEncoding dm) = Ok v'" for b dm v'
      using less shrinks [OF less.prems that(1,2) _ that(4), of c1] enc that by simp
    then show ?case
      using enc
      by (subst pack.simps, cases "ser_idata io (new_idata env io published v c)"; cases r;
          cases "ser_encoding io (DataMapEncoding (projr r))") (auto simp: Let_def de_err_def and_then_def map_err_def)
  qed
  then show ?thesis
    using packs_valid pack_packs by (metis prod.exhaust)
qed

subsection \<open>An instance\<close>

text \<open>
  Unpublished data begins with the key of its owner; its name is made of its length and its last byte. Forty bytes are the
  limit, so that the encrypted data map of the instance is cut and packed a second time.
\<close>

fun idata_payload :: "idata \<Rightarrow> bytes" where
  "idata_payload (IPub b) = b"
| "idata_payload (IUnpub b) = b"

definition idata_nd :: safe_nd where
  "idata_nd = sample_nd\<lparr>
     idata_addr := (\<lambda>d. case d of IPub b \<Rightarrow> IPubAddr (XorName b)
       | IUnpub b \<Rightarrow> IUnpubAddr (XorName (replicate 31 0 @ [of_nat (length b) + last (0 # b)]))),
     unpub_idata_owner := (\<lambda>b. PublicKey (fst (pair_dec b)))\<rparr>"

definition sample_idata :: idata_ops where
  "sample_idata = \<lparr>new_pub_idata = (\<lambda>v. v), new_unpub_idata = (\<lambda>v pk. pair_enc (pk_bytes pk, v)),
     idata_value = (\<lambda>d. case d of IPub b \<Rightarrow> b | IUnpub b \<Rightarrow> snd (pair_dec b)),
     validate_size = (\<lambda>d. length (idata_payload d) \<le> 40),
     idata_serialised_size_of = (\<lambda>d. of_nat (length (idata_payload d))),
     ser_idata = (\<lambda>d. Ok (case d of IPub b \<Rightarrow> 0 # b | IUnpub b \<Rightarrow> 1 # b)),
     de_idata = (\<lambda>b. Ok (if hd b = 0 then IPub (tl b) else IUnpub (tl b))),
     ser_data_map = Ok, de_data_map = Ok,
     ser_encoding = (\<lambda>e. Ok (case e of Serialised b \<Rightarrow> 0 # b | DataMapEncoding b \<Rightarrow> 1 # b)),
     de_encoding = (\<lambda>b. Ok (if hd b = 0 then Serialised (tl b) else DataMapEncoding (tl b)))\<rparr>"

definition idata_env :: "cache option conn_manager client_env" where
  "idata_env = mock_env idata_nd sample_codec sample_ops"

lemma sample_codecs: "idata_codecs sample_idata"
  by (auto simp: idata_codecs_def codec_pair_def sample_idata_def split: idata.split data_type_encoding.split)

lemma sample_unpub_laws: "unpub_laws idata_nd sample_idata"
  by (simp add: unpub_laws_def idata_nd_def sample_idata_def sample_nd_def sample_type_def idata_name_def XOR_NAME_LEN_def)

lemma pack_fits:
  "validate_size io (new_idata env io published v c) \<Longrightarrow> ser_idata io (new_idata env io published v c) = Ok b \<Longrightarrow>
     pack env io so published v c = Some (Ok (new_idata env io published v c), c)"
  by (subst pack.simps) (simp add: Let_def de_err_def)

lemma pack_cuts:
  "\<not> validate_size io (new_idata env io published v c) \<Longrightarrow> ser_idata io (new_idata env io published v c) = Ok b \<Longrightarrow>
     self_encrypt so (self_encryption_storage env io published) b c = Some (Ok dm, c1) \<Longrightarrow>
     ser_encoding io (DataMapEncoding dm) = Ok v' \<Longrightarrow> pack env io so published v c = pack env io so published v' c1"
  by (subst pack.simps) (simp add: Let_def de_err_def and_then_def map_err_def)

lemma length_pair_enc [simp]: "length (pair_enc x) = 2 * length (fst x) + 1 + length (snd x)"
  by (simp add: pair_enc_def)

lemma pair_enc_last [simp]: "pair_enc x \<noteq> []" "snd x \<noteq> [] \<Longrightarrow> last (pair_enc x) = last (snd x)"
  by (simp_all add: pair_enc_def)

text \<open>The name of the data made of some content.\<close>

definition key_of :: "bytes \<Rightarrow> 8 word" where
  "key_of b = of_nat (length b) + 3 + last (1 # b)"

lemma key_of_simp [simp]: "b \<noteq> [] \<Longrightarrow> key_of b = of_nat (length b) + 3 + last b"
  by (simp add: key_of_def)

lemma name_of_pair: "of_nat (length (pair_enc ([1], b))) + last (0 # pair_enc ([1], b)) = key_of b"
  by (simp add: pair_enc_def key_of_def)

text \<open>A client without a limit on its coins puts data at any address that is free.\<close>

definition rich_config :: config where
  "rich_config = \<lparr>quic_p2p = [], dev = Some \<lparr>mock_unlimited_coins = True, mock_in_memory_storage = True, mock_vault_path = None\<rparr>\<rparr>"

definition rich_vault :: vault where
  "rich_vault = mock_create_balance sample_nd (PublicKey [1]) 0 (vault_new rich_config)"

definition rich_client :: "cache option conn_manager client" where
  "rich_client = sample_client rich_vault [1]"

definition stored :: "cache option conn_manager client \<Rightarrow> 8 word \<rightharpoonup> data" where
  "stored c k = nae_manager (vault_of (w_net c)) (IdImmutable (IUnpubAddr (XorName (replicate 31 0 @ [k]))))"

definition chunk_of :: "bytes \<Rightarrow> data" where
  "chunk_of b = Immutable (IUnpub (pair_enc ([1], b)))"

definition rich :: "cache option conn_manager client \<Rightarrow> bool" where
  "rich c \<longleftrightarrow> unpub_ready idata_nd sample_codec sample_ops sample_idata (ClientFullId [1]) c \<and>
     vault_config (vault_of (w_net c)) = rich_config \<and> coin_balances (vault_of (w_net c)) (XorName [1]) \<noteq> None"

lemma rich_client_props: "rich c \<Longrightarrow> plain_net (w_net c) \<and> cl_full_id c = SafeClient (ClientFullId [1])"
  by (simp add: rich_def unpub_ready_def)

lemma rich_draws [simp]: "rich (c\<lparr>w_draws := n\<rparr>) = rich c" "stored (c\<lparr>w_draws := n\<rparr>) = stored c"
  by (auto simp: rich_def unpub_ready_def stored_def fun_eq_iff)

lemma idata_sign_laws: "sign_laws idata_env"
  by (auto simp: sign_laws_def idata_env_def mock_env_def sample_ops_def idata_nd_def sample_nd_def safe_key_sign_def
      safe_key_public_key_def split: safe_key.splits client_full_id.splits app_full_id.splits)

lemma idata_facts:
  "unlimited_coins idata_nd rich_config" "unpub_idata_owner idata_nd (pair_enc ([1], b)) = PublicKey [1]"
  "client_public_key idata_nd alice = PublicKey [1]" "client_name idata_nd alice = XorName [1]"
  "xor_name_of_pk idata_nd (PublicKey [1]) = XorName [1]" "public_id_name idata_nd (Client alice) = XorName [1]"
  "get_type idata_nd (PutIData d) \<noteq> PublicGet" "full_client_id sample_ops (ClientFullId [1]) = alice"
  by (simp_all add: unlimited_coins_def rich_config_def idata_nd_def sample_nd_def sample_type_def sample_ops_def)

lemma idata_name_pair: "idata_addr idata_nd (IUnpub (pair_enc ([1], b))) = IUnpubAddr (XorName (replicate 31 0 @ [key_of b]))"
  using name_of_pair [of b] by (simp add: idata_nd_def)

lemma rich_put_any:
  assumes rich: "rich c"
  obtains r c' where "client_put_idata idata_env (IUnpub (pair_enc ([1], b))) c = Some (r, c')" and "rich c'"
    and "stored c (key_of b) = None \<Longrightarrow> r = Ok () \<and> stored c' = (stored c)(key_of b \<mapsto> chunk_of b)"
proof -
  let ?v = "vault_of (w_net c)" and ?d = "IUnpub (pair_enc ([1], b))" and ?k = "key_of b"
  define q v' where "q = (if stored c ?k \<noteq> None then Err DataExists else Ok ())"
    and "v' = (if stored c ?k \<noteq> None then ?v else insert_data (IdImmutable (idata_addr idata_nd ?d)) (Immutable ?d) ?v)"
  let ?c' = "c\<lparr>w_draws := Suc (w_draws c), w_net := set_vault v' (w_net c)\<rparr>"
  obtain x where "coin_balances ?v (XorName [1]) = Some x" "vault_config ?v = rich_config"
    using rich by (auto simp: rich_def)
  then have "handle_request idata_nd (Client alice) (PublicKey [1]) (PublicKey [1]) (PutIData ?d) ?v = Some (RespMutation q, v')"
    by (auto simp: handle_request_def req_put_idata_def respond_def put_data_def and_then_def idata_facts idata_name_pair
        authorise_operations_def get_balance_def get_coin_balance_def has_sufficient_balance_def
        commit_mutation_def contains_data_def insert_data_def stored_def q_def v'_def)
  then have "send idata_env (PutIData ?d) c = Some (Ok (RespMutation q), ?c')"
    using send_authenticated [OF idata_sign_laws [unfolded idata_env_def], of c "PutIData ?d" "ClientFullId [1]" alice]
      rich_client_props [OF rich] by (simp add: idata_facts idata_env_def)
  then have put: "client_put_idata idata_env ?d c = Some (res_map_err DataError q, ?c')"
    by (simp add: client_put_idata_def send_mutation_def and_then_def expect_response_def as_mutation_def)
  then have "unpub_ready idata_nd sample_codec sample_ops sample_idata (ClientFullId [1]) ?c'"
    using put_unpub rich unfolding rich_def idata_env_def by blast
  then have "rich ?c'"
    using rich by (simp add: rich_def v'_def insert_data_def)
  moreover have "stored c ?k = None \<Longrightarrow> stored ?c' = (stored c)(?k \<mapsto> chunk_of b)"
    by (auto simp: stored_def v'_def insert_data_def idata_name_pair chunk_of_def fun_eq_iff)
  ultimately show ?thesis
    using that put by (simp add: q_def)
qed

lemma rich_put:
  assumes "rich c" and "stored c (key_of b) = None"
  obtains c' where "client_put_idata idata_env (IUnpub (pair_enc ([1], b))) c = Some (Ok (), c')" and "rich c'"
    and "stored c' = (stored c)(key_of b \<mapsto> chunk_of b)"
  using rich_put_any [OF assms(1)] assms(2) that by metis

lemma rich_get:
  assumes rich: "rich c" and "stored c k = Some (chunk_of b)"
  obtains c' where "client_get_idata idata_env (IUnpubAddr (XorName (replicate 31 0 @ [k]))) c = Some (Ok (IUnpub (pair_enc ([1], b))), c')"
    and "rich c'" and "stored c' = stored c"
proof -
  obtain r c' where get: "client_get_idata idata_env (IUnpubAddr (XorName (replicate 31 0 @ [k]))) c = Some (r, c')"
      and c': "unpub_ready idata_nd sample_codec sample_ops sample_idata (ClientFullId [1]) c'" "vault_of (w_net c') = vault_of (w_net c)"
      and r: "\<And>u. stored c k = Some (Immutable (IUnpub u)) \<Longrightarrow>
        unpub_idata_owner idata_nd u = client_public_key idata_nd (full_client_id sample_ops (ClientFullId [1])) \<Longrightarrow> r = Ok (IUnpub u)"
    using get_unpub [of idata_nd sample_codec sample_ops sample_idata "ClientFullId [1]" c "XorName (replicate 31 0 @ [k])"] rich
    unfolding rich_def idata_env_def stored_def by metis
  show ?thesis
  proof (rule that)
    show "client_get_idata idata_env (IUnpubAddr (XorName (replicate 31 0 @ [k]))) c = Some (Ok (IUnpub (pair_enc ([1], b))), c')"
      using get r [of "pair_enc ([1], b)"] assms(2) by (simp add: chunk_of_def idata_facts)
  qed (use c' rich in \<open>simp_all add: rich_def stored_def fun_eq_iff\<close>)
qed

lemma rich_new:
  "rich c \<Longrightarrow> new_idata idata_env sample_idata False b c = IUnpub (pair_enc ([1], b))"
  using rich_client_props [of c] by (simp add: new_idata_def own_public_key_def safe_key_public_key_def idata_env_def mock_env_def
      sample_ops_def sample_idata_def idata_nd_def sample_nd_def)

lemma rich_unpub_ready: "unpub_ready idata_nd sample_codec sample_ops sample_idata (ClientFullId [1]) rich_client"
proof -
  have "lru_laws idata_env"
    using sample_lru_laws by (simp add: lru_laws_def idata_env_def sample_env_def)
  moreover have "vault_wf idata_nd rich_vault"
    by (auto simp: vault_wf_def sample_simps rich_vault_def idata_nd_def balance_wf_def)
  moreover have "idata_laws idata_nd"
    by (simp add: idata_laws_def idata_nd_def)
  ultimately show ?thesis
    using sample_unpub_laws idata_sign_laws
    by (simp add: unpub_ready_def idata_env_def rich_client_def sample_client_def memory_net_def plain_net_def cm_new_def vault_of_def)
qed

text \<open>Content becomes one chunk; its data map holds the length and the name of the chunk.\<close>

definition map_of_chunk :: "nat \<Rightarrow> 8 word \<Rightarrow> bytes" where
  "map_of_chunk n k = 1 # of_nat n # replicate 31 0 @ [k]"

lemma length_map_of_chunk [simp]: "length (map_of_chunk n k) = 34" "last (map_of_chunk n k) = k" "map_of_chunk n k \<noteq> []"
  by (simp_all add: map_of_chunk_def)

lemma rich_close:
  assumes "rich c" and "2 < length b" "length b < 255" and "stored c (key_of b) = None"
  obtains c' where "sample_close (self_encryption_storage idata_env sample_idata False) b c =
      Some (Ok (map_of_chunk (length b) (key_of b)), c')" and "rich c'" and "stored c' = (stored c)(key_of b \<mapsto> chunk_of b)"
proof -
  obtain c' where put: "client_put_idata idata_env (IUnpub (pair_enc ([1], b))) c = Some (Ok (), c')" "rich c'"
      "stored c' = (stored c)(key_of b \<mapsto> chunk_of b)"
    using rich_put [OF assms(1,4)] .
  have "idata_name (ce_nd idata_env) (IUnpub (pair_enc ([1], b))) = XorName (replicate 31 0 @ [key_of b])"
    by (simp add: idata_name_def idata_env_def mock_env_def idata_name_pair)
  then show ?thesis
    using that [OF _ put(2,3)] put(1) assms(2,3)
    by (simp add: sample_close_def map_err_def map_prog_def self_encryption_storage_def
        ses_put_def ses_generate_address_def rich_new [OF assms(1)] nat_enc_def map_of_chunk_def)
qed

lemma sample_encrypt: "self_encrypt sample_se st b = sample_close st b"
  by (simp add: self_encrypt_def sample_se_def fun_eq_iff)

lemma rich_start: "rich rich_client" "stored rich_client = Map.empty"
  using rich_unpub_ready
  by (simp_all add: rich_def stored_def rich_client_def sample_client_def memory_net_def cm_new_def plain_net_def vault_of_def
      rich_vault_def mock_create_balance_def set_coin_balance_def vault_new_def sample_nd_def fun_eq_iff)

lemma sample_created:
  obtains d c1 c2 where
    "idata_create idata_env sample_crypto sample_idata sample_se [7, 8, 9] False (Some [9]) rich_client = Some (Ok d, c1)"
    and "client_put_idata idata_env d c1 = Some (Ok (), c2)"
proof -
  let ?st = "self_encryption_storage idata_env sample_idata False"
  let ?dm = "map_of_chunk 3 15" and ?v = "1 # map_of_chunk 45 63"
  obtain c1 where 1: "sample_close ?st [7, 8, 9] rich_client = Some (Ok ?dm, c1)" "rich c1" "stored c1 = [15 \<mapsto> chunk_of [7, 8, 9]]"
    by (rule rich_close [OF rich_start(1), of "[7, 8, 9]"]) (simp_all add: rich_start(2) numeral_3_eq_3)
  define c2 where "c2 = c1\<lparr>w_draws := Suc (w_draws c1)\<rparr>"
  let ?x = "0 # pair_enc ([of_nat (w_draws c1)], pair_enc ([9], ?dm))"
  have 2: "symmetric_encrypt sample_crypto ?dm [9] None c1 = Some (Ok (tl ?x), c2)"
    by (simp add: symmetric_encrypt_def draw_def and_then_def sample_crypto_def c2_def)
  have c2: "rich c2" "stored c2 = [15 \<mapsto> chunk_of [7, 8, 9]]"
    using 1 by (simp_all add: c2_def)
  let ?y = "1 # pair_enc ([1], ?x)"
  obtain c3 where 3: "sample_close ?st ?y c2 = Some (Ok (map_of_chunk 45 63), c3)" "rich c3"
      "stored c3 = [15 \<mapsto> chunk_of [7, 8, 9], 63 \<mapsto> chunk_of ?y]"
    by (rule rich_close [OF c2(1), of ?y]) (simp_all add: c2(2))
  have 4: "pack idata_env sample_idata sample_se False ?x c2 = pack idata_env sample_idata sample_se False ?v c3"
    by (rule pack_cuts [OF _ _ 3(1) [folded sample_encrypt]]) (simp_all add: rich_new [OF c2(1)], simp_all add: sample_idata_def)
  have 5: "pack idata_env sample_idata sample_se False ?v c3 = Some (Ok (IUnpub (pair_enc ([1], ?v))), c3)"
    using pack_fits [of sample_idata idata_env False ?v c3] by (simp add: rich_new [OF 3(2)]) (simp add: sample_idata_def)
  have "ser_data_map sample_idata b = Ok b" "ser_encoding sample_idata (Serialised b) = Ok (0 # b)" for b
    by (simp_all add: sample_idata_def)
  then have "idata_create idata_env sample_crypto sample_idata sample_se [7, 8, 9] False (Some [9]) rich_client =
      Some (Ok (IUnpub (pair_enc ([1], ?v))), c3)"
    using 4 5 by (simp add: idata_create_def map_err_def sample_encrypt 1 2 de_err_def and_then_def)
  moreover obtain c4 where "client_put_idata idata_env (IUnpub (pair_enc ([1], ?v))) c3 = Some (Ok (), c4)"
    by (rule rich_put [OF 3(2), of ?v]) (simp_all add: 3(3))
  ultimately show ?thesis
    using that by blast
qed

theorem created_idata_is_read_back_witness:
  "\<exists>d c1 c2 c3. idata_create idata_env sample_crypto sample_idata sample_se [7, 8, 9] False (Some [9]) rich_client = Some (Ok d, c1) \<and>
     client_put_idata idata_env d c1 = Some (Ok (), c2) \<and>
     get_value idata_env sample_crypto sample_idata sample_se (idata_addr idata_nd d) (Some [9]) c2 = Some (Ok [7, 8, 9], c3)"
proof -
  obtain d c1 c2 where run:
      "idata_create idata_env sample_crypto sample_idata sample_se [7, 8, 9] False (Some [9]) rich_client = Some (Ok d, c1)"
      "client_put_idata idata_env d c1 = Some (Ok (), c2)"
    by (rule sample_created)
  with created_idata_is_read_back [OF sample_se_laws sample_codecs sample_crypto_laws rich_unpub_ready] show ?thesis
    unfolding idata_env_def by blast
qed

theorem pack_ends_within_limit_witness:
  "\<exists>r c'. pack idata_env sample_idata sample_se False (replicate 100 7) rich_client = Some (r, c') \<and>
     (\<forall>d. r = Ok d \<longrightarrow> validate_size sample_idata d)"
proof (rule pack_ends_within_limit [of rich, OF rich_start(1)])
  let ?st = "self_encryption_storage idata_env sample_idata False"
  fix c assume rich: "rich c"
  show "\<exists>r c'. self_encrypt sample_se ?st x c = Some (r, c') \<and> rich c'" for x
  proof -
    obtain r c' where "client_put_idata idata_env (IUnpub (pair_enc ([1], x))) c = Some (r, c')" "rich c'"
      using rich_put_any [OF rich] .
    with rich show ?thesis
      by (simp add: self_encrypt_def sample_se_def sample_close_def map_err_def map_prog_def
          self_encryption_storage_def ses_put_def rich_new)
  qed
  show "length v' < length v" if "\<not> validate_size sample_idata (new_idata idata_env sample_idata False v c)"
      "ser_idata sample_idata (new_idata idata_env sample_idata False v c) = Ok b"
      "self_encrypt sample_se ?st b c = Some (Ok dm, c1)" "ser_encoding sample_idata (DataMapEncoding dm) = Ok v'" for v b dm c1 v'
  proof -
    have v: "37 < length v" and b: "length b = length v + 4"
      using that(1,2) unfolding rich_new [OF rich] by (auto simp: sample_idata_def)
    have "idata_name (ce_nd idata_env) (IUnpub (pair_enc ([1], b))) = XorName (replicate 31 0 @ [key_of b])"
      by (simp add: idata_name_def idata_name_pair idata_env_def mock_env_def)
    then have "length dm = length b div 255 + 34"
      using that(3) v b rich by (auto simp: self_encrypt_def sample_se_def sample_close_def map_err_def map_prog_def
          self_encryption_storage_def ses_put_def ses_generate_address_def rich_new nat_enc_def res_map_err_def res_map_def
          split: if_splits option.splits sum.splits)
    moreover have "length v' = Suc (length dm)"
      using that(4) by (auto simp: sample_idata_def)
    ultimately show ?thesis
      using v b by simp
  qed
qed

text \<open>An application whose key the owner has authorised.\<close>

definition app_rich_client :: "cache option conn_manager client" where
  "app_rich_client = (sample_client (set_account (XorName [1])
     \<lparr>acc_auth_keys = [PublicKey [9] \<mapsto> AppPermissions True True True], acc_version = 1, acc_config = rich_config\<rparr> rich_vault) [1])
     \<lparr>cl_full_id := SafeApp (AppFullId [9, 1])\<rparr>"

theorem app_unpublished_idata_refused_witness:
  "so_put (self_encryption_storage idata_env sample_idata False) [5] [7, 8] app_rich_client =
     Some (Err (DataError InvalidOwners), app_rich_client\<lparr>w_draws := Suc (w_draws app_rich_client)\<rparr>)"
proof -
  let ?pid = "full_app_id sample_ops (AppFullId [9, 1])"
    and ?account = "\<lparr>acc_auth_keys = [PublicKey [9] \<mapsto> AppPermissions True True True], acc_version = 1, acc_config = rich_config\<rparr>"
  have "\<forall>v pk. unpub_idata_owner idata_nd (new_unpub_idata sample_idata v pk) = pk" "plain_net (w_net app_rich_client)"
      "\<forall>d. get_type idata_nd (PutIData d) \<noteq> PublicGet" "cl_full_id app_rich_client = SafeApp (AppFullId [9, 1])"
    using sample_unpub_laws by (auto simp: unpub_laws_def app_rich_client_def)
  moreover have "app_public_key idata_nd ?pid \<noteq> client_public_key idata_nd (app_owner idata_nd ?pid)"
      "get_account (vault_of (w_net app_rich_client)) (public_id_name idata_nd (App ?pid)) = Some ?account"
      "acc_auth_keys ?account (app_public_key idata_nd ?pid) \<noteq> None"
    by (simp_all add: app_rich_client_def get_account_def set_account_def idata_nd_def sample_nd_def sample_ops_def)
  ultimately show ?thesis
    using app_unpublished_idata_refused [OF idata_sign_laws [unfolded idata_env_def]] unfolding idata_env_def by blast
qed

end
