(* ===== verification/Nfs.thy ===== *)
theory Nfs
  imports MData_Info Client_Ops
begin

section \<open>Files in directories\<close>

text \<open>
  safe\_core/src/nfs: a directory is a mutable data object whose entries are encrypted file records
  (\<open>file.rs\<close>), created by \<open>dir.rs\<close>; \<open>file_helper.rs\<close> inserts, fetches, updates and deletes them;
  what a file contains is in \<open>Nfs_Content\<close>. Serialisation of a \<open>File\<close>, the clock and the construction of a
  \<open>SeqMutableData\<close> are third-party and are the fields of \<open>nfs_ops\<close>.
\<close>

record datetime =
  dt_sec :: "64 word" \<comment> \<open>seconds, \<open>i64\<close>\<close>
  dt_nsec :: u32

record nfs_file =
  f_size :: u64
  f_created :: datetime
  f_modified :: datetime
  f_user_metadata :: bytes
  f_data_map_name :: xor_name
  f_published :: bool

record nfs_ops =
  ser_file :: "nfs_file \<Rightarrow> bytes + bytes"
  de_file :: "bytes \<Rightarrow> bytes + nfs_file"
  utc_now :: "nat \<Rightarrow> datetime"
  from_timestamp_opt :: "64 word \<Rightarrow> u32 \<Rightarrow> datetime option"
  new_seq_mdata :: "xor_name \<Rightarrow> u64 \<Rightarrow> seq_entries \<Rightarrow> (public_key, perm_set) btree \<Rightarrow> public_key \<Rightarrow> bytes"

type_synonym ('n, 'a) nm = "('n client, nfs_error, 'a) prog"

subsection \<open>File\<close>

definition file_new :: "nfs_ops \<Rightarrow> bytes \<Rightarrow> bool \<Rightarrow> ('n, 'z, nfs_file) wm" where
  "file_new no user_metadata published =
     and_then (draw (utc_now no)) (\<lambda>created. and_then (draw (utc_now no)) (\<lambda>modified.
       lift_res (Ok \<lparr>f_size = 0, f_created = created, f_modified = modified,
         f_user_metadata = user_metadata, f_data_map_name = XorName (replicate XOR_NAME_LEN 0),
         f_published = published\<rparr>)))"

definition data_address :: "nfs_file \<Rightarrow> idata_address" where
  "data_address file =
     (if f_published file then IPubAddr (f_data_map_name file) else IUnpubAddr (f_data_map_name file))"

record ffi_file =
  ff_size :: u64
  ff_created_sec :: "64 word"
  ff_created_nsec :: u32
  ff_modified_sec :: "64 word"
  ff_modified_nsec :: u32
  ff_user_metadata :: bytes \<comment> \<open>pointer and length\<close>
  ff_data_map_name :: bytes
  ff_published :: bool

definition file_into_repr_c :: "nfs_file \<Rightarrow> ffi_file" where
  "file_into_repr_c file = \<lparr>ff_size = f_size file,
     ff_created_sec = dt_sec (f_created file), ff_created_nsec = dt_nsec (f_created file),
     ff_modified_sec = dt_sec (f_modified file), ff_modified_nsec = dt_nsec (f_modified file),
     ff_user_metadata = f_user_metadata file, ff_data_map_name = xn_bytes (f_data_map_name file),
     ff_published = f_published file\<rparr>"

definition convert_date_time :: "nfs_ops \<Rightarrow> 64 word \<Rightarrow> u32 \<Rightarrow> datetime nfs_result" where
  "convert_date_time no sec nsec =
     ok_or (NfsUnexpected ''Invalid date format'') (from_timestamp_opt no sec nsec)"

definition file_clone_from_repr_c :: "nfs_ops \<Rightarrow> ffi_file \<Rightarrow> nfs_file nfs_result" where
  "file_clone_from_repr_c no c =
     res_and_then (convert_date_time no (ff_created_sec c) (ff_created_nsec c)) (\<lambda>created.
     res_and_then (convert_date_time no (ff_modified_sec c) (ff_modified_nsec c)) (\<lambda>modified.
       Ok \<lparr>f_size = ff_size c, f_created = created, f_modified = modified,
         f_user_metadata = ff_user_metadata c, f_data_map_name = XorName (ff_data_map_name c),
         f_published = ff_published c\<rparr>))"

subsection \<open>Directories\<close>

definition create_dir ::
  "'n client_env \<Rightarrow> nfs_ops \<Rightarrow> mdata_info \<Rightarrow> seq_entries \<Rightarrow> (public_key, perm_set) btree \<Rightarrow> ('n, unit) nm" where
  "create_dir env no dir contents perms c =
     (let dir_md = new_seq_mdata no (mi_name dir) (mi_type_tag dir) contents perms (cl_owner_key c) in
      map_err NfsCoreError (or_else (client_put_seq_mutable_data env dir_md) (\<lambda>e.
        if e = DataError DataExists then lift_res (Ok ()) else lift_res (Err e))) c)"

subsection \<open>Files of a directory\<close>

datatype version = GetNext | Custom u64

definition convert_error :: "core_error \<Rightarrow> nfs_error" where
  "convert_error err = (if err = DataError NoSuchEntry then FileNotFound else NfsCoreError err)"

text \<open>The serialised file as an encrypted entry of the parent directory.\<close>

definition encode_entry ::
  "crypto_ops \<Rightarrow> nfs_ops \<Rightarrow> mdata_info \<Rightarrow> bytes \<Rightarrow> nfs_file \<Rightarrow> ('n, bytes \<times> bytes) cm" where
  "encode_entry co no parent name file =
     and_then (lift_res (res_map_err EncodeDecodeError (ser_file no file))) (\<lambda>encoded.
     and_then (enc_entry_key co parent name) (\<lambda>key.
     and_then (enc_entry_value co parent encoded) (\<lambda>content.
       lift_res (Ok (key, content)))))"

definition nfs_insert ::
  "'n client_env \<Rightarrow> crypto_ops \<Rightarrow> nfs_ops \<Rightarrow> mdata_info \<Rightarrow> bytes \<Rightarrow> nfs_file \<Rightarrow> ('n, unit) nm" where
  "nfs_insert env co no parent name file = map_err NfsCoreError
     (and_then (encode_entry co no parent name file) (\<lambda>(key, content).
        client_mutate_seq_mdata_entries env (mi_name parent) (mi_type_tag parent)
          [(key, Ins (MDataSeqValue content 0))]))"

definition nfs_fetch ::
  "'n client_env \<Rightarrow> crypto_ops \<Rightarrow> nfs_ops \<Rightarrow> mdata_info \<Rightarrow> bytes \<Rightarrow> ('n, u64 \<times> nfs_file) nm" where
  "nfs_fetch env co no parent name = map_err convert_error
     (and_then (enc_entry_key co parent name) (\<lambda>key.
      and_then (client_get_seq_mdata_value env (mi_name parent) (mi_type_tag parent) key) (\<lambda>v.
        lift_res (res_and_then (mi_decrypt co parent (sv_data v)) (\<lambda>plaintext.
          res_map (Pair (sv_version v)) (res_map_err EncodeDecodeError (de_file no plaintext)))))))"

definition next_version :: "'n client_env \<Rightarrow> mdata_info \<Rightarrow> bytes \<Rightarrow> version \<Rightarrow> ('n, u64) cm" where
  "next_version env parent key version = (case version of
     GetNext \<Rightarrow> map_prog (\<lambda>v. sv_version v + 1)
       (client_get_seq_mdata_value env (mi_name parent) (mi_type_tag parent) key)
   | Custom ver \<Rightarrow> lift_res (Ok ver))"

text \<open>The contents of an unpublished file are deleted before its entry is.\<close>

definition nfs_delete ::
  "'n client_env \<Rightarrow> crypto_ops \<Rightarrow> nfs_ops \<Rightarrow> mdata_info \<Rightarrow> bytes \<Rightarrow> bool \<Rightarrow> version \<Rightarrow> ('n, u64) nm" where
  "nfs_delete env co no parent name published version =
     and_then (map_err NfsCoreError (enc_entry_key co parent name)) (\<lambda>key.
     and_then (map_err NfsCoreError (next_version env parent key version)) (\<lambda>ver.
     and_then (if \<not> published
         then and_then (nfs_fetch env co no parent name) (\<lambda>(_, file).
                map_err NfsCoreError (client_del_unpub_idata env (f_data_map_name file)))
         else lift_res (Ok ())) (\<lambda>_.
       map_err convert_error (map_prog (\<lambda>_. ver)
         (client_mutate_seq_mdata_entries env (mi_name parent) (mi_type_tag parent)
            [(key, Del ver)])))))"

definition nfs_update ::
  "'n client_env \<Rightarrow> crypto_ops \<Rightarrow> nfs_ops \<Rightarrow> mdata_info \<Rightarrow> bytes \<Rightarrow> nfs_file \<Rightarrow> version \<Rightarrow> ('n, u64) nm" where
  "nfs_update env co no parent name file version = map_err convert_error
     (and_then (encode_entry co no parent name file) (\<lambda>(key, content).
      and_then (next_version env parent key version) (\<lambda>ver.
        map_prog (\<lambda>_. ver)
          (client_mutate_seq_mdata_entries env (mi_name parent) (mi_type_tag parent)
             [(key, Update (MDataSeqValue content ver))]))))"

text \<open>
  A file record survives the conversion to its C representation and back, since chrono
  accepts the time stamps of the date-times it made.
\<close>

lemma file_repr_c_roundtrip:
  assumes "\<forall>d. from_timestamp_opt no (dt_sec d) (dt_nsec d) = Some d"
  shows "file_clone_from_repr_c no (file_into_repr_c file) = Ok file"
  using assms by (simp add: file_clone_from_repr_c_def file_into_repr_c_def convert_date_time_def)

definition sample_nfs :: nfs_ops where
  "sample_nfs = \<lparr>ser_file = (\<lambda>f. Ok []), de_file = (\<lambda>b. Err b),
     utc_now = (\<lambda>i. \<lparr>dt_sec = of_nat i, dt_nsec = 0\<rparr>),
     from_timestamp_opt = (\<lambda>s n. Some \<lparr>dt_sec = s, dt_nsec = n\<rparr>),
     new_seq_mdata = (\<lambda>n t e p pk. xn_bytes n)\<rparr>"

definition sample_file :: nfs_file where
  "sample_file = \<lparr>f_size = 3, f_created = \<lparr>dt_sec = 5, dt_nsec = 6\<rparr>, f_modified = \<lparr>dt_sec = 7, dt_nsec = 8\<rparr>,
     f_user_metadata = [1], f_data_map_name = XorName [2], f_published = True\<rparr>"

end
