(* ===== verification/Nfs_Props.thy ===== *)
theory Nfs_Props
  imports Nfs Recovery_Props
begin

section \<open>Files on the mock network\<close>

text \<open>
  A file inserted into a directory is found there: the client's encryption, the request, the vault
  and the way back together.
\<close>

text \<open>
  The documented behaviour of mutating the entries of sequenced data: the new entries are those of the
  actions, and address and permissions stay.
\<close>

definition entry_laws :: "safe_nd \<Rightarrow> bool" where
  "entry_laws nd \<longleftrightarrow> (\<forall>d actions pk m. md_mutate_entries nd (MSeq d) (SeqActions actions) pk = Ok m \<longrightarrow>
     (\<exists>d'. m = MSeq d' \<and> md_address nd m = md_address nd (MSeq d) \<and>
        (\<forall>a u. md_check_permissions nd m a u = md_check_permissions nd (MSeq d) a u) \<and>
        (\<forall>k v. bt_get actions k = Some (Ins v) \<or> bt_get actions k = Some (Update v) \<longrightarrow>
           seq_get nd d' k = Some v)))"

lemma enc_entry_value_decrypts:
  assumes "crypto_laws co" and "enc_entry_value co info p w = Some (r, w')"
  obtains b n where "r = Ok b" "mi_decrypt co info b = Ok p" "w' = w\<lparr>w_draws := n\<rparr>"
proof -
  obtain ev w'' where "encrypt_value co info (MDataSeqValue p 0) w = Some (Ok ev, w'')"
      "decrypt_value co info ev = Ok (MDataSeqValue p 0)"
    using encrypt_value_Some [OF assms(1)] by blast
  then have "\<exists>b. r = Ok b \<and> mi_decrypt co info b = Ok p"
    using assms(2) by (auto simp: encrypt_value_def decrypt_value_def map_prog_def res_map_eq_Ok)
  moreover have "\<exists>n. w' = w\<lparr>w_draws := n\<rparr>"
    using assms(2)
    by (auto simp: enc_entry_value_def symmetric_encrypt_def draw_def and_then_def
        split: option.splits sum.splits intro: exI [of _ "w_draws w"])
  ultimately show ?thesis
    using that by blast
qed

subsection \<open>Changing stored mutable data\<close>

lemma rewrite_request:
  assumes run: "and_then (checked_mdata nd a pk rq) (\<lambda>d. rewrite_mdata nd requester a (f d)) v = Some (r, v')"
    and stored: "nae_manager v (IdMutable a) = Some (Mutable d)"
  shows "case r of
      Ok _ \<Rightarrow> \<exists>m. f d = Ok m \<and> nae_manager v' (IdMutable a) = Some (Mutable m)
    | Err e \<Rightarrow> nae_manager v' = nae_manager v"
  using run
proof (cases rule: and_then_Some)
  case (goes_on d' v1)
  have "v1 = v \<and> d' = d"
    using checked_mdata_Ok [OF goes_on(1)] stored by auto
  then have run2: "rewrite_mdata nd requester a (f d) v = Some (r, v')"
    using goes_on(2) by simp
  show ?thesis
  proof (cases r)
    case (Inl e)
    then show ?thesis
      using run2 by (auto simp: rewrite_mdata_def commit_mutation_no_Err elim!: and_then_Some)
  next
    case (Inr u)
    then show ?thesis
      using run2 by (auto simp: rewrite_mdata_def insert_data_def dest!: commit_nae elim!: and_then_Ok)
  qed
qed (auto dest!: checked_mdata_state)

text \<open>A client of the network that is the owner of its requests.\<close>

definition owner_client :: "client_full_id \<Rightarrow> 'raw conn_manager client \<Rightarrow> bool" where
  "owner_client i c \<longleftrightarrow> plain_net (w_net c) \<and> cl_full_id c = SafeClient i"

definition stored_mdata :: "'raw conn_manager client \<Rightarrow> mdata_address \<Rightarrow> mdata option" where
  "stored_mdata c a = (case nae_manager (vault_of (w_net c)) (IdMutable a) of
     Some (Mutable d) \<Rightarrow> Some d
   | _ \<Rightarrow> None)"

lemma mutation_run:
  assumes "sign_laws (mock_env nd cd lo)" and "get_type nd request \<noteq> PublicGet" and "owner_client i c"
    and arm: "\<And>v. handle_request nd (Client (full_client_id lo i)) pk pk request v =
        respond RespMutation (and_then (checked_mdata nd a pk request) (\<lambda>d. rewrite_mdata nd (Client (full_client_id lo i)) a (f d))) v"
    and pk: "pk = client_public_key nd (full_client_id lo i)"
    and run: "send_mutation (mock_env nd cd lo) request c = Some (r, c')" and "stored_mdata c a = Some d"
  shows "owner_client i c' \<and> (case r of
      Ok _ \<Rightarrow> \<exists>m. f d = Ok m \<and> stored_mdata c' a = Some m
    | Err e \<Rightarrow> stored_mdata c' a = Some d)"
proof -
  have stored: "nae_manager (vault_of (w_net c)) (IdMutable a) = Some (Mutable d)"
    using assms(7) by (auto simp: stored_mdata_def split: option.splits data.splits)
  obtain res v' where step: "and_then (checked_mdata nd a pk request)
        (\<lambda>d. rewrite_mdata nd (Client (full_client_id lo i)) a (f d)) (vault_of (w_net c)) = Some (res, v')"
      and r: "r = res_map_err DataError res"
      and c': "c' = c\<lparr>w_draws := Suc (w_draws c), w_net := set_vault v' (w_net c)\<rparr>"
    using run assms(2,3) arm pk send_authenticated [OF assms(1) _ assms(2) _ HOL.refl, of c i]
    by (auto simp: owner_client_def send_mutation_def and_then_def respond_def expect_response_def as_mutation_def
        split: option.splits prod.splits)
  show ?thesis
    using rewrite_request [OF step stored] assms(3) stored
    by (auto simp: c' r owner_client_def stored_mdata_def res_map_err_def split: sum.splits)
qed

lemma mutate_attempt:
  assumes "sign_laws (mock_env nd cd lo)" and "\<forall>a x. get_type nd (MutateMDataEntries a x) \<noteq> PublicGet"
    and "owner_client i c" and "stored_mdata c (MSeqAddr n t) = Some d"
    and "client_mutate_seq_mdata_entries (mock_env nd cd lo) n t acts c = Some (r, c')"
  shows "owner_client i c' \<and> (case r of
      Ok _ \<Rightarrow> \<exists>m. md_mutate_entries nd d (SeqActions acts) (client_public_key nd (full_client_id lo i)) = Ok m \<and>
        stored_mdata c' (MSeqAddr n t) = Some m
    | Err e \<Rightarrow> stored_mdata c' (MSeqAddr n t) = Some d)"
  using assms(2-5) unfolding client_mutate_seq_mdata_entries_def
  by (intro mutation_run [OF assms(1), where request = "MutateMDataEntries (MSeqAddr n t) (SeqActions acts)"
        and pk = "client_public_key nd (full_client_id lo i)"
        and f = "\<lambda>d. md_mutate_entries nd d (SeqActions acts) (client_public_key nd (full_client_id lo i))"])
    (auto simp: handle_request_def req_mutate_mdata_entries_def)

text \<open>What the vault answers to a query for an entry.\<close>

lemma get_value_answered:
  assumes "nae_manager v (IdMutable (MSeqAddr n t)) = Some (Mutable (MSeq d))"
    and "md_check_permissions nd (MSeq d) ActRead pk = Ok ()" and "seq_get nd d key = Some x"
  shows "handle_request nd requester pk opk (GetMDataValue (MSeqAddr n t) key) v =
    Some (RespGetMDataValue (Ok (SeqValue x)), v)"
  using assms
  by (simp add: handle_request_def req_get_mdata_value_def respond_def and_then_def get_mdata_def
      get_data_def check_perms_mdata_def Let_def)

lemma value_found:
  assumes "sign_laws (mock_env nd cd lo)" and "\<forall>a k. get_type nd (GetMDataValue a k) \<noteq> PublicGet"
    and "owner_client i c" and "stored_mdata c (MSeqAddr n t) = Some (MSeq d)"
    and "md_check_permissions nd (MSeq d) ActRead (client_public_key nd (full_client_id lo i)) = Ok ()" and "seq_get nd d key = Some x"
  shows "\<exists>c'. client_get_seq_mdata_value (mock_env nd cd lo) n t key c = Some (Ok x, c')"
proof -
  have "nae_manager (vault_of (w_net c)) (IdMutable (MSeqAddr n t)) = Some (Mutable (MSeq d))"
    using assms(4) by (auto simp: stored_mdata_def split: option.splits data.splits)
  then show ?thesis
    using send_authenticated [OF assms(1) _ _ _ HOL.refl, of c "GetMDataValue (MSeqAddr n t) key" i]
      get_value_answered [of "vault_of (w_net c)" n t d nd "client_public_key nd (full_client_id lo i)" key x] assms(2,3,5,6)
    by (simp add: owner_client_def client_get_seq_mdata_value_def query_kind_def query_def and_then_def
        expect_response_def as_mdata_value_def seq_value_def)
qed

text \<open>
  (C26) A file that was inserted into a directory is fetched back unchanged, with version 0: the entry
  key is encrypted to the same bytes both times and the value is decrypted to the serialised file.
\<close>

theorem inserted_file_is_fetched:
  fixes c :: "'raw conn_manager client"
  assumes laws: "crypto_laws co" "sign_laws (mock_env nd cd lo)" "entry_laws nd"
    and types: "\<forall>a x. get_type nd (MutateMDataEntries a x) \<noteq> PublicGet" "\<forall>a k. get_type nd (GetMDataValue a k) \<noteq> PublicGet"
    and client: "plain_net (w_net c)" "cl_full_id c = SafeClient i"
    and parent: "mi_address parent = MSeqAddr n t"
    and stored: "nae_manager (vault_of (w_net c)) (IdMutable (MSeqAddr n t)) = Some (Mutable (MSeq d))"
    and readable: "md_check_permissions nd (MSeq d) ActRead (client_public_key nd (full_client_id lo i)) = Ok ()"
    and codec: "ser_file no file = Ok b" "de_file no b = Ok file"
    and ins: "nfs_insert (mock_env nd cd lo) co no parent name file c = Some (Ok (), c')"
  shows "\<exists>c''. nfs_fetch (mock_env nd cd lo) co no parent name c' = Some (Ok (0, file), c'')"
proof -
  let ?env = "mock_env nd cd lo" and ?pk = "client_public_key nd (full_client_id lo i)"
  obtain ek where ek: "\<And>w :: 'raw conn_manager client. enc_entry_key co parent name w = Some (Ok (ek name), w)"
    using enc_entry_key_pure [OF laws(1)] by metis
  have addr: "mi_name parent = n" "mi_type_tag parent = t"
    using parent by (simp_all add: mi_name_def mi_type_tag_def)
  from ins have
    run: "and_then (encode_entry co no parent name file) (\<lambda>(key, content).
        client_mutate_seq_mdata_entries ?env n t [(key, Ins (MDataSeqValue content 0))]) c = Some (Ok (), c')"
    by (simp add: nfs_insert_def map_err_Ok addr)
  then obtain kv c1 where "encode_entry co no parent name file c = Some (Ok kv, c1)"
      and mut: "client_mutate_seq_mdata_entries ?env n t [(fst kv, Ins (MDataSeqValue (snd kv) 0))] c1 = Some (Ok (), c')"
    by (rule and_then_Ok) (auto simp: case_prod_beta)
  then obtain content m where kv: "kv = (ek name, content)" and dec: "mi_decrypt co parent content = Ok b"
      and c1: "c1 = c\<lparr>w_draws := m\<rparr>"
    using codec(1) by (auto simp: encode_entry_def and_then_def ek split: option.splits sum.splits prod.splits
        elim!: enc_entry_value_decrypts [OF laws(1)])
  have own: "owner_client i c1" "stored_mdata c1 (MSeqAddr n t) = Some (MSeq d)"
    using client stored by (simp_all add: c1 owner_client_def stored_mdata_def)
  obtain d' where "owner_client i c'" "stored_mdata c' (MSeqAddr n t) = Some (MSeq d')"
      "md_check_permissions nd (MSeq d') ActRead ?pk = Ok ()" "seq_get nd d' (ek name) = Some (MDataSeqValue content 0)"
    using mutate_attempt [OF laws(2) types(1) own mut] laws(3) readable
    unfolding entry_laws_def kv by (fastforce simp: bt_get_def)
  then obtain c'' where "client_get_seq_mdata_value ?env n t (ek name) c' = Some (Ok (MDataSeqValue content 0), c'')"
    using value_found [OF laws(2) types(2)] by blast
  then show ?thesis
    using dec codec(2) by (simp add: nfs_fetch_def map_err_def and_then_def ek addr)
qed

text \<open>Sequenced data with one entry, for the instance: the owner's byte, then the entry.\<close>

definition dir_nd :: safe_nd where
  "dir_nd = sample_nd\<lparr>
     md_mutate_entries := (\<lambda>m acts pk. case (m, acts) of
         (MSeq d, SeqActions [(k, Ins v)]) \<Rightarrow>
           (if sv_version v = 0 \<and> d \<noteq> [] then Ok (MSeq (take 1 d @ pair_enc (k, sv_data v))) else Err InvalidOperation)
       | _ \<Rightarrow> Err InvalidOperation),
     seq_get := (\<lambda>d k. if fst (pair_dec (drop 1 d)) = k
       then Some (MDataSeqValue (snd (pair_dec (drop 1 d))) 0) else None)\<rparr>"

lemma dir_entry_laws: "entry_laws dir_nd"
proof -
  have "\<exists>d'. m = MSeq d' \<and> md_address dir_nd m = md_address dir_nd (MSeq d) \<and>
      (\<forall>a u. md_check_permissions dir_nd m a u = md_check_permissions dir_nd (MSeq d) a u) \<and>
      (\<forall>k v. bt_get actions k = Some (Ins v) \<or> bt_get actions k = Some (Update v) \<longrightarrow> seq_get dir_nd d' k = Some v)"
    if run: "md_mutate_entries dir_nd (MSeq d) (SeqActions actions) pk = Ok m" for d actions pk m
  proof -
    obtain k v where acts: "actions = [(k, Ins v)]" "sv_version v = 0" "d \<noteq> []"
        "m = MSeq (take 1 d @ pair_enc (k, sv_data v))"
      using run by (auto simp: dir_nd_def split: list.splits prod.splits seq_entry_action.splits if_splits)
    then show ?thesis
      by (cases d; cases v) (auto simp: dir_nd_def sample_nd_def bt_get_def only_owner_def split: if_splits)
  qed
  then show ?thesis
    by (auto simp: entry_laws_def)
qed

definition dir_vault :: vault where
  "dir_vault = insert_data (IdMutable (MSeqAddr (XorName [1]) 0)) (Mutable (MSeq [1])) sample_vault"

definition dir_info :: mdata_info where
  "dir_info = new_private (MSeqAddr (XorName [1]) 0) ([9], [10])"

definition dir_env :: "cache option conn_manager client_env" where
  "dir_env = mock_env dir_nd sample_codec sample_ops"

definition dir_nfs :: nfs_ops where
  "dir_nfs = sample_nfs\<lparr>de_file := (\<lambda>b. Ok sample_file)\<rparr>"

lemma dir_sign_laws: "sign_laws dir_env"
  by (auto simp: sign_laws_def dir_env_def mock_env_def sample_ops_def dir_nd_def sample_nd_def safe_key_sign_def
      safe_key_public_key_def split: safe_key.splits client_full_id.splits app_full_id.splits)

theorem inserted_file_is_fetched_witness:
  "\<exists>c''. nfs_fetch dir_env sample_crypto dir_nfs dir_info [5]
      (snd (the (nfs_insert dir_env sample_crypto dir_nfs dir_info [5] sample_file (sample_client dir_vault [1])))) =
    Some (Ok (0, sample_file), c'')"
proof -
  let ?ins = "nfs_insert dir_env sample_crypto dir_nfs dir_info [5] sample_file (sample_client dir_vault [1])"
  have "?ins = Some (Ok (), snd (the ?ins))"
    by (simp add: nfs_insert_def map_err_def encode_entry_def enc_entry_key_def enc_entry_key_with_def
        enc_entry_value_def symmetric_encrypt_def new_private_def sample_crypto_def pair_enc_def dir_nfs_def
        sample_nfs_def dir_info_def SYM_ENC_NONCE_LEN_def mi_name_def mi_type_tag_def
        client_mutate_seq_mdata_entries_def send_mutation_def sample_client_def memory_net_def cm_new_def
        dir_env_def mock_env_def send_def compose_message_def signed_message_def draw_def
        on_net_def cm_send_def intercept_request_def set_vault_def guarded_memory is_writing_def
        expect_response_def as_mutation_def own_public_id_def safe_key_public_id_def safe_key_sign_def sample_ops_def
        vault_eval sample_simps dir_nd_def dir_vault_def Let_def req_mutate_mdata_entries_def checked_mdata_def
        get_mdata_def check_perms_mdata_def rewrite_mdata_def)
  then show ?thesis
    unfolding dir_env_def
    by (rule inserted_file_is_fetched [OF sample_crypto_laws dir_sign_laws [unfolded dir_env_def] dir_entry_laws,
          where d = "[1]" and i = "ClientFullId [1]" and n = "XorName [1]" and t = 0 and b = "[]", rotated -1])
      (simp_all add: dir_nd_def sample_nd_def sample_type_def dir_info_def new_private_def dir_vault_def
        dir_nfs_def sample_nfs_def sample_ops_def only_owner_def insert_data_def, simp add: sample_client_def)
qed

end
