(* ===== verification/Nfs_Content.thy ===== *)
theory Nfs_Content
  imports Nfs Immutable_Data
begin

section \<open>The contents of files\<close>

text \<open>
  safe\_core/src/nfs/data\_map.rs, reader.rs, writer.rs and the two functions of file\_helper.rs that make them: a
  writer cuts what it is given into chunks as it goes, stores the data map when it is closed and returns the file with the
  name of its data map, its size and the time of the change; a reader reads ranges of a file from its data map.
  The encryptors have a state of their own, which a write changes through a shared reference: \<open>writer_write\<close>
  returns the writer after it. The third-party operations are the fields of \<open>content_params\<close>.
\<close>

record 'n content_params =
  np_env :: "'n client_env"
  np_co :: crypto_ops
  np_io :: idata_ops
  np_so :: "'n client se_ops"
  np_no :: nfs_ops

text \<open>An encryptor with the storage it was made with, which is known by its flag.\<close>

record self_encryptor =
  se_published :: bool
  se_state :: bytes

definition np_storage :: "'n content_params \<Rightarrow> bool \<Rightarrow> 'n client storage_ops" where
  "np_storage P = self_encryption_storage (np_env P) (np_io P)"

subsection \<open>Data maps\<close>

definition data_map_get :: "'n content_params \<Rightarrow> idata_address \<Rightarrow> sym_key option \<Rightarrow> ('n, data_map) nm" where
  "data_map_get P address encryption_key =
     and_then (map_err NfsCoreError (get_value (np_env P) (np_co P) (np_io P) (np_so P) address encryption_key)) (\<lambda>content.
       lift_res (res_map_err NfsEncodeDecodeError (de_data_map (np_io P) content)))"

definition data_map_put :: "'n content_params \<Rightarrow> data_map \<Rightarrow> bool \<Rightarrow> sym_key option \<Rightarrow> ('n, xor_name) nm" where
  "data_map_put P dm published encryption_key = map_err NfsCoreError
     (and_then (de_err (ser_data_map (np_io P) dm)) (\<lambda>encoded.
      and_then (idata_create (np_env P) (np_co P) (np_io P) (np_so P) encoded published encryption_key) (\<lambda>d.
        map_prog (\<lambda>_. idata_name (ce_nd (np_env P)) d) (client_put_idata (np_env P) d))))"

subsection \<open>Reader\<close>

definition reader_new ::
  "'n content_params \<Rightarrow> bool \<Rightarrow> nfs_file \<Rightarrow> sym_key option \<Rightarrow> ('n, self_encryptor) nm" where
  "reader_new P published file encryption_key =
     and_then (data_map_get P (data_address file) encryption_key) (\<lambda>dm.
       lift_res (res_map_err NfsSelfEncryption (res_map (\<lambda>b. \<lparr>se_published = published, se_state = b\<rparr>)
         (se_new (np_so P) (np_storage P published) dm))))"

definition reader_size :: "'n content_params \<Rightarrow> self_encryptor \<Rightarrow> u64" where
  "reader_size P r = se_len (np_so P) (se_state r)"

definition reader_read :: "'n content_params \<Rightarrow> self_encryptor \<Rightarrow> u64 \<Rightarrow> u64 \<Rightarrow> ('n, bytes) nm" where
  "reader_read P r position len =
     (if position + len > reader_size P r then lift_res (Err InvalidRange)
      else map_err NfsSelfEncryption (se_read (np_so P) (np_storage P (se_published r)) (se_state r) position len))"

definition nfs_read :: "'n content_params \<Rightarrow> nfs_file \<Rightarrow> sym_key option \<Rightarrow> ('n, self_encryptor) nm" where
  "nfs_read P file encryption_key = reader_new P (f_published file) file encryption_key"

subsection \<open>Writer\<close>

datatype write_mode = Overwrite | Append

record nfs_writer =
  wr_file :: nfs_file
  wr_self_encryptor :: self_encryptor
  wr_encryption_key :: "sym_key option"

text \<open>In the mode \<open>Append\<close>, a file whose data is not on the network is written from the start.\<close>

definition writer_new ::
  "'n content_params \<Rightarrow> bool \<Rightarrow> nfs_file \<Rightarrow> write_mode \<Rightarrow> sym_key option \<Rightarrow> ('n, nfs_writer) nm" where
  "writer_new P published file mode encryption_key =
     and_then (or_else (case mode of
           Append \<Rightarrow> map_prog Some (data_map_get P (data_address file) encryption_key)
         | Overwrite \<Rightarrow> lift_res (Ok None))
       (\<lambda>err. if err = NfsCoreError (DataError NoSuchData) then lift_res (Ok None) else lift_res (Err err))) (\<lambda>dm.
     map_prog (\<lambda>b. \<lparr>wr_file = file, wr_self_encryptor = \<lparr>se_published = published, se_state = b\<rparr>,
         wr_encryption_key = encryption_key\<rparr>)
       (map_err NfsSelfEncryption (sq_new (np_so P) (np_storage P published) dm)))"

definition writer_write :: "'n content_params \<Rightarrow> bytes \<Rightarrow> nfs_writer \<Rightarrow> ('n, nfs_writer) nm" where
  "writer_write P data w = (let se = wr_self_encryptor w in
     map_prog (\<lambda>b. w\<lparr>wr_self_encryptor := se\<lparr>se_state := b\<rparr>\<rparr>)
       (map_err NfsSelfEncryption (sq_write (np_so P) (np_storage P (se_published se)) (se_state se) data)))"

definition writer_close :: "'n content_params \<Rightarrow> nfs_writer \<Rightarrow> ('n, nfs_file) nm" where
  "writer_close P w =
     (let file = wr_file w; se = wr_self_encryptor w; size = sq_len (np_so P) (se_state se) in
      and_then (map_err NfsSelfEncryption (sq_close (np_so P) (np_storage P (se_published se)) (se_state se))) (\<lambda>dm.
      and_then (data_map_put P dm (f_published file) (wr_encryption_key w)) (\<lambda>data_map_name.
      and_then (map_err NfsCoreError (draw (utc_now (np_no P)))) (\<lambda>now.
        lift_res (Ok (file\<lparr>f_data_map_name := data_map_name, f_modified := now, f_size := size\<rparr>))))))"

definition nfs_write :: "'n content_params \<Rightarrow> nfs_file \<Rightarrow> write_mode \<Rightarrow> sym_key option \<Rightarrow> ('n, nfs_writer) nm" where
  "nfs_write P file mode encryption_key = writer_new P (f_published file) file mode encryption_key"

subsection \<open>Whole files\<close>

text \<open>How a client uses them: a file is opened, written piece by piece and closed; a file is opened and read to its end.\<close>

fun writer_write_all :: "'n content_params \<Rightarrow> bytes list \<Rightarrow> nfs_writer \<Rightarrow> ('n, nfs_writer) nm" where
  "writer_write_all P [] w = lift_res (Ok w)"
| "writer_write_all P (d # ds) w = and_then (writer_write P d w) (writer_write_all P ds)"

definition write_file :: "'n content_params \<Rightarrow> nfs_file \<Rightarrow> write_mode \<Rightarrow> sym_key option \<Rightarrow> bytes list \<Rightarrow> ('n, nfs_file) nm" where
  "write_file P file mode key ds =
     and_then (nfs_write P file mode key) (\<lambda>w. and_then (writer_write_all P ds w) (writer_close P))"

definition read_file :: "'n content_params \<Rightarrow> nfs_file \<Rightarrow> sym_key option \<Rightarrow> ('n, bytes) nm" where
  "read_file P file key = and_then (nfs_read P file key) (\<lambda>r. reader_read P r 0 (reader_size P r))"

end
