(* ===== verification/Content_Props.thy ===== *)
theory Content_Props
  imports Nfs_Content Idata_Network
begin

section \<open>What a file contains\<close>

text \<open>
  Ranges that are read, and that a file that was written is read back, after \<open>Overwrite\<close> and after \<open>Append\<close>: first
  for any client whose storage keeps its chunks, then on the mock network for unpublished files.
\<close>

subsection \<open>Ranges\<close>

text \<open>
  A read is refused exactly when it reaches past the end, as long as the end of the range fits
  into 64 bits; where it does not, the sum wraps around and a range outside of the file is passed
  on to the self-encryptor.
\<close>

theorem reader_range_check:
  "(unat position + unat len < 2 ^ 64 \<longrightarrow>
      reader_read P r position len c =
        (if unat position + unat len > unat (reader_size P r) then Some (Err InvalidRange, c)
         else map_err NfsSelfEncryption (se_read (np_so P) (np_storage P (se_published r)) (se_state r) position len) c)) \<and>
   (unat position + unat len \<ge> 2 ^ 64 \<and> unat position + unat len - 2 ^ 64 \<le> unat (reader_size P r) \<longrightarrow>
      reader_read P r position len = map_err NfsSelfEncryption (se_read (np_so P) (np_storage P (se_published r)) (se_state r) position len))"
proof (intro conjI impI)
  assume fits: "unat position + unat len < 2 ^ 64"
  then have "unat (position + len) = unat position + unat len"
    by (simp add: unat_word_ariths)
  then show "reader_read P r position len c =
        (if unat position + unat len > unat (reader_size P r) then Some (Err InvalidRange, c)
         else map_err NfsSelfEncryption (se_read (np_so P) (np_storage P (se_published r)) (se_state r) position len) c)"
    by (simp add: reader_read_def word_less_nat_alt)
next
  assume wraps: "unat position + unat len \<ge> 2 ^ 64 \<and> unat position + unat len - 2 ^ 64 \<le> unat (reader_size P r)"
  have "unat position < 2 ^ 64" "unat len < 2 ^ 64"
    using unsigned_less [of position] unsigned_less [of len] by simp_all
  then have "(unat position + unat len) mod 2 ^ 64 = unat position + unat len - 2 ^ 64"
    using wraps by (subst mod_if) (simp add: mod_less)
  then have "unat (position + len) = unat position + unat len - 2 ^ 64"
    by (simp add: unat_word_ariths)
  then show "reader_read P r position len = map_err NfsSelfEncryption (se_read (np_so P) (np_storage P (se_published r)) (se_state r) position len)"
    using wraps by (simp add: reader_read_def word_less_nat_alt)
qed

subsection \<open>Files are read back\<close>

text \<open>The content of a file, now and later.\<close>

definition file_holds ::
  "('n client \<Rightarrow> bool) \<Rightarrow> ('n client \<Rightarrow> bytes \<rightharpoonup> bytes) \<Rightarrow> 'n content_params \<Rightarrow> nfs_file \<Rightarrow> sym_key option \<Rightarrow> bytes \<Rightarrow> 'n client \<Rightarrow> bool" where
  "file_holds ready chunk P file key content c \<longleftrightarrow>
     (\<exists>dm. describes (np_so P) ready chunk (np_storage P (f_published file)) dm content c \<and>
       (\<forall>t. later ready chunk c t \<longrightarrow> gives ready chunk (data_map_get P (data_address file) key) dm t))"

lemma data_address_of: "data_address file = idata_address_of (f_published file) (f_data_map_name file)"
  by (simp add: data_address_def idata_address_of_def)

text \<open>Writing is the encryptor in sequence and the storing of its data map; reading is the inverse.\<close>

lemma writer_write_all_sq:
  "writer_write_all P ds w c = (let se = wr_self_encryptor w in
     map_prog (\<lambda>b. w\<lparr>wr_self_encryptor := se\<lparr>se_state := b\<rparr>\<rparr>)
       (map_err NfsSelfEncryption (sq_write_all (np_so P) (np_storage P (se_published se)) ds (se_state se))) c)"
proof (induction ds arbitrary: w c)
  case Nil
  then show ?case
    by (simp add: Let_def map_prog_def map_err_def)
next
  case (Cons d ds)
  then show ?case
    by (auto simp: Let_def writer_write_def and_then_def map_prog_def map_err_def res_map_def res_map_err_def
        split: option.split sum.split prod.split)
qed

definition writer_base :: "'n content_params \<Rightarrow> nfs_file \<Rightarrow> write_mode \<Rightarrow> sym_key option \<Rightarrow> ('n, data_map option) nm" where
  "writer_base P file mode key = or_else (case mode of
      Append \<Rightarrow> map_prog Some (data_map_get P (data_address file) key)
    | Overwrite \<Rightarrow> lift_res (Ok None))
    (\<lambda>err. if err = NfsCoreError (DataError NoSuchData) then lift_res (Ok None) else lift_res (Err err))"

lemma write_file_Ok:
  assumes "write_file P file mode key ds c = Some (Ok f, c')"
  obtains base c1 n dm c2 name c3 now where "writer_base P file mode key c = Some (Ok base, c1)"
    and "sq_encrypt (np_so P) (np_storage P (f_published file)) base ds c1 = Some (Ok (n, dm), c2)"
    and "data_map_put P dm (f_published file) key c2 = Some (Ok name, c3)"
    and "f = file\<lparr>f_data_map_name := name, f_modified := now, f_size := n\<rparr>" and "c' = c3\<lparr>w_draws := Suc (w_draws c3)\<rparr>"
  using assms
  by (auto simp: write_file_def nfs_write_def writer_new_def writer_base_def [symmetric] writer_write_all_sq Let_def
      writer_close_def map_prog_Ok map_err_Ok sq_encrypt_def draw_def and_then_def elim!: and_then_Ok intro!: that
      split: option.splits prod.splits sum.splits)

lemma read_file_decrypts:
  "read_file P file key = and_then (data_map_get P (data_address file) key) (\<lambda>dm.
     map_err NfsSelfEncryption (self_decrypt (np_so P) (np_storage P (f_published file)) dm))"
  by (rule ext) (auto simp: read_file_def nfs_read_def reader_new_def self_decrypt_def reader_read_def reader_size_def and_then_def
      map_err_def res_map_def res_map_err_def split: option.split sum.split prod.split)

context idata_store
begin

lemma data_map_is_got:
  assumes laws: "se_laws (np_so P)" "idata_codecs io" "crypto_laws (np_co P)" and P: "np_env P = env" "np_io P = io"
    and "ready c" and run: "data_map_put P dm published key c = Some (Ok name, c')"
  shows "later ready chunk c c'"
    and "later ready chunk c' t \<Longrightarrow> gives ready chunk (data_map_get P (idata_address_of published name) key) dm t"
proof -
  obtain b d c1 where b: "ser_data_map io dm = Ok b"
      and d: "idata_create env (np_co P) io (np_so P) b published key c = Some (Ok d, c1)"
      and put: "client_put_idata env d c1 = Some (Ok (), c')" and name: "name = idata_name (ce_nd env) d"
    using run by (auto simp: data_map_put_def P map_err_Ok map_prog_Ok de_err_def res_map_err_eq_Ok elim!: and_then_Ok)
  note read = created_is_read [OF laws \<open>ready c\<close> d put]
  note created = created_is_extracted [OF laws \<open>ready c\<close> d]
  have "idata_is_pub d = published"
    using new_idata_value(2) [OF laws(2)] created(2) by metis
  then have addr: "idata_addr (ce_nd env) d = idata_address_of published name"
    using addr_kind later_ready [OF created(1)] name by blast
  show "later ready chunk c c'"
    by (fact read(1))
  show "gives ready chunk (data_map_get P (idata_address_of published name) key) dm t" if t: "later ready chunk c' t"
    unfolding data_map_get_def P
  proof (rule gives_and_then)
    show "gives ready chunk (map_err NfsCoreError (get_value env (np_co P) io (np_so P) (idata_address_of published name) key)) b t"
      using read(2) [OF t] by (simp add: gives_map_err addr)
    show "gives ready chunk (lift_res (res_map_err NfsEncodeDecodeError (de_data_map io b))) dm u" if "later ready chunk t u" for u
      using idata_codecsD [OF laws(2)] b later_ready [OF that] by (simp add: gives_lift res_map_err_def)
  qed
qed

lemma base_held:
  assumes "ready c" and "writer_base P file mode key c = Some (Ok base, c1)"
    and old: "case mode of Overwrite \<Rightarrow> old = [] | Append \<Rightarrow> file_holds ready chunk P file key old c"
  shows "later ready chunk c c1 \<and>
    (case base of None \<Rightarrow> old = [] | Some dm \<Rightarrow> describes (np_so P) ready chunk (np_storage P (f_published file)) dm old c1)"
proof (cases mode)
  case Overwrite
  then show ?thesis
    using assms later_refl by (simp add: writer_base_def or_else_def)
next
  case Append
  then obtain dm t where "describes (np_so P) ready chunk (np_storage P (f_published file)) dm old c"
      "data_map_get P (data_address file) key c = Some (Ok dm, t)" "later ready chunk c t"
    using old later_refl [OF \<open>ready c\<close>] by (auto simp: file_holds_def gives_def)
  then show ?thesis
    using Append assms(2) describes_later by (auto simp: writer_base_def or_else_def map_prog_def)
qed

lemma written_file_holds:
  assumes laws: "se_laws (np_so P)" "idata_codecs io" "crypto_laws (np_co P)" and P: "np_env P = env" "np_io P = io"
    and "ready c" and kind: "f_published file = published"
    and old: "case mode of Overwrite \<Rightarrow> old = [] | Append \<Rightarrow> file_holds ready chunk P file key old c"
    and run: "write_file P file mode key ds c = Some (Ok f, c')"
  shows "later ready chunk c c'" and "file_holds ready chunk P f key (old @ concat ds) c'"
    and "f_size f = of_nat (length (old @ concat ds))" and "f_published f = published"
proof -
  let ?st = "self_encryption_storage env io published"
  have st: "np_storage P published = ?st"
    by (simp add: np_storage_def P)
  obtain base c1 n dm c2 name c3 now where base: "writer_base P file mode key c = Some (Ok base, c1)"
      and enc: "sq_encrypt (np_so P) ?st base ds c1 = Some (Ok (n, dm), c2)"
      and put: "data_map_put P dm published key c2 = Some (Ok name, c3)"
      and f: "f = file\<lparr>f_data_map_name := name, f_modified := now, f_size := n\<rparr>" and c': "c' = c3\<lparr>w_draws := Suc (w_draws c3)\<rparr>"
    by (rule write_file_Ok [OF run, unfolded kind st])
  have c1: "later ready chunk c c1" and held: "case base of None \<Rightarrow> old = [] | Some dm0 \<Rightarrow> describes (np_so P) ready chunk ?st dm0 old c1"
    using base_held [OF \<open>ready c\<close> base old, unfolded kind st] by blast+
  have enc': "later ready chunk c1 c2" "describes (np_so P) ready chunk ?st dm (old @ concat ds) c2" "n = of_nat (length (old @ concat ds))"
    using laws(1) chunk_storage_axioms later_ready [OF c1] held enc unfolding se_laws_def by blast+
  note got = data_map_is_got [OF laws P later_ready [OF enc'(1)] put]
  have c3: "later ready chunk c3 c'"
    unfolding c' by (rule draws_keep) (rule later_ready [OF got(1)])
  show "later ready chunk c c'"
    using later_trans [OF c1 later_trans [OF enc'(1) later_trans [OF got(1) c3]]] .
  show "file_holds ready chunk P f key (old @ concat ds) c'"
    unfolding file_holds_def using describes_later [OF enc'(2) later_trans [OF got(1) c3]] got(2) later_trans [OF c3]
    by (auto simp: f kind st data_address_of)
  show "f_size f = of_nat (length (old @ concat ds))" "f_published f = published"
    by (simp_all add: f enc'(3) kind)
qed

lemma held_file_is_read:
  assumes "np_env P = env" "np_io P = io" and "f_published file = published"
    and holds: "file_holds ready chunk P file key content c" and "later ready chunk c t"
  shows "gives ready chunk (read_file P file key) content t"
  using holds unfolding file_holds_def read_file_decrypts
  by (auto intro!: gives_and_then simp: gives_map_err describes_def intro: later_trans [OF assms(5)] assms(5))

end

text \<open>
  (C10) A file is read back as it was written: after unpublished content has been written piece by piece to a file and more
  has been appended to it, the size in the file is the number of bytes, reading the file to its end gives
  all of the pieces in order, and the file from before the second write still gives what the first one wrote.
\<close>

theorem written_file_is_read_back:
  assumes laws: "se_laws (np_so P)" "idata_codecs io" "crypto_laws (np_co P)"
    and P: "np_env P = mock_env nd cd lo" "np_io P = io" and ready: "unpub_ready nd cd lo io i c" and kind: "\<not> f_published file"
    and first: "write_file P file Overwrite key ds c = Some (Ok f1, c1)"
    and second: "write_file P f1 Append key ds' c1 = Some (Ok f2, c2)"
  shows "f_size f1 = of_nat (length (concat ds)) \<and> f_size f2 = of_nat (length (concat (ds @ ds'))) \<and>
    (\<exists>c3. read_file P f2 key c2 = Some (Ok (concat (ds @ ds')), c3)) \<and>
    (\<exists>c3. read_file P f1 key c2 = Some (Ok (concat ds), c3))"
proof -
  let ?ready = "unpub_ready nd cd lo io i" and ?chunk = "unpub_chunk nd lo io i"
  have kind': "f_published file = False"
    using kind by simp
  have f1: "later ?ready ?chunk c c1" "file_holds ?ready ?chunk P f1 key (concat ds) c1"
      "f_size f1 = of_nat (length (concat ds))" "f_published f1 = False"
    using unpub.written_file_holds [OF laws P ready kind' _ first, of "[]"] by simp_all
  have f2: "later ?ready ?chunk c1 c2" "file_holds ?ready ?chunk P f2 key (concat (ds @ ds')) c2"
      "f_size f2 = of_nat (length (concat (ds @ ds')))" "f_published f2 = False"
    using unpub.written_file_holds [OF laws P unpub.later_ready [OF f1(1)] f1(4) _ second, of "concat ds"] f1(2) by simp_all
  have c2: "later ?ready ?chunk c2 c2"
    using f2(1) by (simp add: later_def)
  have "gives ?ready ?chunk (read_file P f2 key) (concat (ds @ ds')) c2"
    by (rule unpub.held_file_is_read [OF P f2(4) f2(2) c2])
  moreover have "gives ?ready ?chunk (read_file P f1 key) (concat ds) c2"
    by (rule unpub.held_file_is_read [OF P f1(4) f1(2) f2(1)])
  ultimately show ?thesis
    using f1(3) f2(3) by (auto simp: gives_def)
qed

subsection \<open>An instance\<close>

definition sample_content :: "cache option conn_manager content_params" where
  "sample_content = \<lparr>np_env = idata_env, np_co = sample_crypto, np_io = sample_idata, np_so = sample_se, np_no = sample_nfs\<rparr>"

lemma sample_content_sel [simp]:
  "np_env sample_content = idata_env" "np_co sample_content = sample_crypto" "np_io sample_content = sample_idata"
  "np_so sample_content = sample_se" "np_no sample_content = sample_nfs"
  "np_storage sample_content = self_encryption_storage idata_env sample_idata"
  by (simp_all add: sample_content_def np_storage_def)

lemma sample_idata_codec [simp]:
  "ser_data_map sample_idata b = Ok b" "de_data_map sample_idata b = Ok b" "ser_encoding sample_idata (Serialised b) = Ok (0 # b)"
  "de_encoding sample_idata (0 # b) = Ok (Serialised b)" "idata_value sample_idata (IUnpub (pair_enc ([1], b))) = b"
  by (simp_all add: sample_idata_def)

text \<open>The data map of a chunk is stored in two pieces of data.\<close>

definition map_pieces :: "nat \<Rightarrow> 8 word \<Rightarrow> 8 word \<rightharpoonup> data" where
  "map_pieces n k = [k + 37 \<mapsto> chunk_of (map_of_chunk n k), k + 75 \<mapsto> chunk_of (0 # map_of_chunk 34 (k + 37))]"

lemma rich_put_map:
  assumes rich: "rich c" and free: "stored c (k + 37) = None" "stored c (k + 75) = None"
  obtains c' where "data_map_put sample_content (map_of_chunk n k) False None c = Some (Ok (XorName (replicate 31 0 @ [k + 75])), c')"
    and "rich c'" and "stored c' = stored c ++ map_pieces n k"
proof -
  let ?dm = "map_of_chunk n k" and ?v = "0 # map_of_chunk 34 (k + 37)"
  obtain c1 where 1: "sample_close (self_encryption_storage idata_env sample_idata False) ?dm c = Some (Ok (map_of_chunk 34 (k + 37)), c1)"
      "rich c1" "stored c1 = (stored c)(k + 37 \<mapsto> chunk_of ?dm)"
    by (rule rich_close [OF rich, of ?dm]) (simp_all add: free add.commute)
  have pack: "pack idata_env sample_idata sample_se False ?v c1 = Some (Ok (IUnpub (pair_enc ([1], ?v))), c1)"
    using pack_fits [of sample_idata idata_env False ?v c1] by (simp add: rich_new [OF 1(2)]) (simp add: sample_idata_def)
  have ne: "k + 75 \<noteq> k + 37"
    by simp
  obtain c2 where 2: "client_put_idata idata_env (IUnpub (pair_enc ([1], ?v))) c1 = Some (Ok (), c2)" "rich c2"
      "stored c2 = (stored c1)(k + 75 \<mapsto> chunk_of ?v)"
    by (rule rich_put [OF 1(2), of ?v]) (use free ne in \<open>simp_all add: 1(3) add.commute\<close>)
  have name: "idata_name (ce_nd idata_env) (IUnpub (pair_enc ([1], ?v))) = XorName (replicate 31 0 @ [k + 75])"
    by (simp add: idata_name_def idata_env_def mock_env_def idata_name_pair add.commute)
  show ?thesis
  proof (rule that [OF _ 2(2)])
    show "data_map_put sample_content ?dm False None c = Some (Ok (XorName (replicate 31 0 @ [k + 75])), c2)"
      by (simp add: data_map_put_def idata_create_def sample_encrypt de_err_def map_err_def map_prog_def and_then_def 1(1) pack 2(1) name)
    show "stored c2 = stored c ++ map_pieces n k"
      by (simp add: 2(3) 1(3) map_pieces_def)
  qed
qed

lemma rich_chunk:
  assumes "rich c" and "stored c k = Some (chunk_of b)" and "length b = n" "n < 255"
  obtains c' where "sample_chunk (self_encryption_storage idata_env sample_idata False) (map_of_chunk n k) c = Some (Ok b, c')"
    and "rich c'" and "stored c' = stored c"
proof -
  obtain c' where get: "client_get_idata idata_env (IUnpubAddr (XorName (replicate 31 0 @ [k]))) c = Some (Ok (IUnpub (pair_enc ([1], b))), c')"
      and c': "rich c'" "stored c' = stored c"
    using rich_get [OF assms(1,2)] .
  have "nat_dec (of_nat n # replicate 31 0 @ [k]) = (n, replicate 31 0 @ [k])"
    using nat_dec_enc [of n "replicate 31 0 @ [k]"] assms(4) by (simp add: nat_enc_def)
  then show ?thesis
    using get by (intro that [OF _ c']) (simp add: sample_chunk_def map_of_chunk_def self_encryption_storage_def ses_get_def
        XOR_NAME_LEN_def idata_address_of_def map_prog_def)
qed

lemma sample_len_chunk: "n < 255 \<Longrightarrow> unat (sample_len (map_of_chunk n k)) = n"
proof -
  assume n: "n < 255"
  then have "nat_dec (of_nat n # replicate 31 0 @ [k]) = (n, replicate 31 0 @ [k])"
    using nat_dec_enc [of n "replicate 31 0 @ [k]"] by (simp add: nat_enc_def)
  with n show ?thesis
    by (simp add: sample_len_def map_of_chunk_def unat_of_nat)
qed

lemma rich_get_map:
  assumes rich: "rich c" and pieces: "stored c (k + 37) = Some (chunk_of (map_of_chunk n k))"
      "stored c (k + 75) = Some (chunk_of (0 # map_of_chunk 34 (k + 37)))"
  obtains c' where "data_map_get sample_content (IUnpubAddr (XorName (replicate 31 0 @ [k + 75]))) None c = Some (Ok (map_of_chunk n k), c')"
    and "rich c'" and "stored c' = stored c"
proof -
  let ?st = "self_encryption_storage idata_env sample_idata False" and ?dm = "map_of_chunk 34 (k + 37)"
  obtain c1 where 1: "client_get_idata idata_env (IUnpubAddr (XorName (replicate 31 0 @ [k + 75]))) c =
      Some (Ok (IUnpub (pair_enc ([1], 0 # ?dm))), c1)" "rich c1" "stored c1 = stored c"
    using rich_get [OF rich pieces(2)] .
  obtain c2 where 2: "sample_chunk ?st ?dm c1 = Some (Ok (map_of_chunk n k), c2)" "rich c2" "stored c2 = stored c"
    by (rule rich_chunk [OF 1(2), of "k + 37" "map_of_chunk n k" 34]) (simp_all add: pieces(1) 1(3))
  have "unpack idata_env sample_idata sample_se (IUnpub (pair_enc ([1], 0 # ?dm))) c1 = Some (Ok ?dm, c1)"
    by (subst unpack.simps) (simp add: de_err_def)
  moreover have "self_decrypt sample_se ?st ?dm c1 = Some (Ok (map_of_chunk n k), c2)"
    using 2(1) sample_len_chunk [of 34] by (simp add: self_decrypt_def sample_se_def map_err_def map_prog_def)
  ultimately show ?thesis
    using 1(1) by (intro that [OF _ 2(2,3)])
      (simp add: data_map_get_def get_value_def extract_value_def parse_data_map_def map_err_def and_then_def)
qed

text \<open>One write of a file of the instance, from the start or from content that is stored.\<close>

lemma rich_write:
  assumes kind: "\<not> f_published file"
    and start: "writer_base sample_content file mode None c = Some (Ok base, c0)" "rich c0"
      "sq_new sample_se (self_encryption_storage idata_env sample_idata False) base c0 = Some (Ok (0 # old), c1)" "rich c1"
    and size: "2 < length (old @ concat ds)" "length (old @ concat ds) < 255"
    and free: "stored c1 (key_of (old @ concat ds)) = None" "stored c1 (key_of (old @ concat ds) + 37) = None"
      "stored c1 (key_of (old @ concat ds) + 75) = None"
  obtains f c' where "write_file sample_content file mode None ds c = Some (Ok f, c')" and "rich c'" and "\<not> f_published f"
    and "f_data_map_name f = XorName (replicate 31 0 @ [key_of (old @ concat ds) + 75])"
    and "stored c' = (stored c1)(key_of (old @ concat ds) \<mapsto> chunk_of (old @ concat ds)) ++
      map_pieces (length (old @ concat ds)) (key_of (old @ concat ds))"
proof -
  let ?st = "self_encryption_storage idata_env sample_idata False" and ?b = "old @ concat ds"
  have all: "sq_write_all sample_se ?st ds se c = Some (Ok (se @ concat ds), c)" for se c
    by (induction ds arbitrary: se) (simp_all add: sample_se_def and_then_def)
  obtain c2 where 2: "sample_close ?st ?b c1 = Some (Ok (map_of_chunk (length ?b) (key_of ?b)), c2)" "rich c2"
      "stored c2 = (stored c1)(key_of ?b \<mapsto> chunk_of ?b)"
    using rich_close [OF start(4) size free(1)] .
  obtain c3 where 3: "data_map_put sample_content (map_of_chunk (length ?b) (key_of ?b)) False None c2 =
      Some (Ok (XorName (replicate 31 0 @ [key_of ?b + 75])), c3)" "rich c3"
      "stored c3 = stored c2 ++ map_pieces (length ?b) (key_of ?b)"
    by (rule rich_put_map [OF 2(2), of "key_of ?b" "length ?b"]) (use free in \<open>simp_all add: 2(3)\<close>)
  have close: "sq_close sample_se st se = sample_close st (tl se)" for st se
    by (simp add: sample_se_def)
  let ?f = "file\<lparr>f_data_map_name := XorName (replicate 31 0 @ [key_of ?b + 75]), f_modified := utc_now sample_nfs (w_draws c3),
      f_size := sq_len (sample_se :: cache option conn_manager client se_ops) (0 # ?b)\<rparr>"
  have "write_file sample_content file mode None ds c = Some (Ok ?f, c3\<lparr>w_draws := Suc (w_draws c3)\<rparr>)"
    using start(1,3) kind 2(1) 3(1) all [of "0 # old" c1]
    by (simp add: write_file_def nfs_write_def writer_new_def writer_base_def [symmetric] writer_write_all_sq Let_def
        writer_close_def and_then_def map_prog_def map_err_def draw_def close)
  then show ?thesis
    using 3(2,3) 2(3) kind by (intro that [of ?f "c3\<lparr>w_draws := Suc (w_draws c3)\<rparr>"]) simp_all
qed

lemma sample_written:
  obtains f1 c1 f2 c2 where
    "write_file sample_content (sample_file\<lparr>f_published := False\<rparr>) Overwrite None [[7, 8], [9]] rich_client = Some (Ok f1, c1)"
    and "write_file sample_content f1 Append None [[5]] c1 = Some (Ok f2, c2)"
proof -
  let ?file = "sample_file\<lparr>f_published := False\<rparr>" and ?st = "self_encryption_storage idata_env sample_idata False"
  have fresh: "writer_base sample_content ?file Overwrite None rich_client = Some (Ok None, rich_client)"
      "sq_new sample_se ?st None rich_client = Some (Ok (0 # []), rich_client)"
    by (simp_all add: writer_base_def or_else_def sample_se_def)
  obtain f1 c1 where 1: "write_file sample_content ?file Overwrite None [[7, 8], [9]] rich_client = Some (Ok f1, c1)" "rich c1"
      "\<not> f_published f1" "f_data_map_name f1 = XorName (replicate 31 0 @ [90])"
      "stored c1 = [15 \<mapsto> chunk_of [7, 8, 9]] ++ map_pieces 3 15"
    by (rule rich_write [OF _ fresh(1) rich_start(1) fresh(2) rich_start(1), where ds = "[[7, 8], [9]]"])
      (simp_all add: rich_start(2) numeral_3_eq_3)
  have "stored c1 90 = Some (chunk_of (0 # map_of_chunk 34 52))" "stored c1 52 = Some (chunk_of (map_of_chunk 3 15))"
      "stored c1 15 = Some (chunk_of [7, 8, 9])"
    by (simp_all add: 1(5) map_pieces_def)
  note held = this
  obtain t1 where t1: "data_map_get sample_content (IUnpubAddr (XorName (replicate 31 0 @ [90]))) None c1 = Some (Ok (map_of_chunk 3 15), t1)"
      "rich t1" "stored t1 = stored c1"
    by (rule rich_get_map [OF 1(2), of 15 3]) (simp_all add: held)
  obtain t2 where t2: "sample_chunk ?st (map_of_chunk 3 15) t1 = Some (Ok [7, 8, 9], t2)" "rich t2" "stored t2 = stored c1"
    by (rule rich_chunk [OF t1(2), of 15 "[7, 8, 9]" 3]) (simp_all add: held t1(3))
  have more: "writer_base sample_content f1 Append None c1 = Some (Ok (Some (map_of_chunk 3 15)), t1)"
    using t1(1) 1(3,4) by (simp add: writer_base_def or_else_def map_prog_def data_address_def)
  have old: "sq_new sample_se ?st (Some (map_of_chunk 3 15)) t1 = Some (Ok (0 # [7, 8, 9]), t2)"
    using t2(1) sample_len_chunk [of 3 15] by (simp add: sample_se_def map_err_def map_prog_def)
  obtain f2 c2 where 2: "write_file sample_content f1 Append None [[5]] c1 = Some (Ok f2, c2)"
    by (rule rich_write [OF 1(3) more t1(2) old t2(2), where ds = "[[5]]"]) (simp_all add: t2(3) 1(5) map_pieces_def)
  show ?thesis
    using 1(1) 2 by (rule that)
qed

theorem written_file_is_read_back_witness:
  "\<exists>f1 c1 f2 c2 c3. write_file sample_content (sample_file\<lparr>f_published := False\<rparr>) Overwrite None [[7, 8], [9]] rich_client = Some (Ok f1, c1) \<and>
     write_file sample_content f1 Append None [[5]] c1 = Some (Ok f2, c2) \<and>
     read_file sample_content f2 None c2 = Some (Ok [7, 8, 9, 5], c3)"
proof -
  obtain f1 c1 f2 c2 where 1: "write_file sample_content (sample_file\<lparr>f_published := False\<rparr>) Overwrite None [[7, 8], [9]] rich_client = Some (Ok f1, c1)"
      and 2: "write_file sample_content f1 Append None [[5]] c1 = Some (Ok f2, c2)"
    by (rule sample_written)
  show ?thesis
    using written_file_is_read_back [OF _ _ _ _ _ _ _ 1 2, of sample_idata idata_nd sample_codec sample_ops "ClientFullId [1]"]
      sample_se_laws sample_codecs sample_crypto_laws rich_unpub_ready 1 2 by (auto simp: idata_env_def)
qed

theorem reader_range_check_witness:
  "(\<forall>c. reader_read sample_content \<lparr>se_published = True, se_state = [0, 1, 2, 3]\<rparr> 2 2 c = Some (Err InvalidRange, c)) \<and>
   reader_read sample_content \<lparr>se_published = True, se_state = [0, 1, 2, 3]\<rparr> 18446744073709551615 2 =
     map_err NfsSelfEncryption (se_read sample_se (self_encryption_storage idata_env sample_idata True) [0, 1, 2, 3] 18446744073709551615 2)"
proof (intro conjI allI)
  let ?r = "\<lparr>se_published = True, se_state = [0, 1, 2, 3]\<rparr>"
  have size: "unat (reader_size sample_content ?r) = 3"
    by (simp add: reader_size_def sample_se_def sample_len_def)
  show "reader_read sample_content ?r 2 2 c = Some (Err InvalidRange, c)" for c
    using reader_range_check [of 2 2 sample_content ?r c] size by simp
  show "reader_read sample_content ?r 18446744073709551615 2 =
     map_err NfsSelfEncryption (se_read sample_se (self_encryption_storage idata_env sample_idata True) [0, 1, 2, 3] 18446744073709551615 2)"
    using reader_range_check [of 18446744073709551615 2 sample_content ?r] size by simp
qed

end
