(* ===== verification/Ipc_Req.thy ===== *)
theory Ipc_Req
  imports Recovery_Props MData_Info
begin

section \<open>IPC requests\<close>

text \<open>
  The requests an application sends to the authenticator (safe\_core/src/ipc/req/, errors of
  ipc/errors.rs) and their C representation (ffi/ipc/req.rs). A Rust \<open>String\<close> is the list of its UTF-8
  bytes, a C string the bytes before the terminating zero, a pointer that may be null an option, a
  pointer with a length a list. Reading a C string into a \<open>String\<close> and the errors of that are functions of
  the crate \<open>ffi_utils\<close>, the fields of \<open>ffi_ops\<close>.
\<close>

subsection \<open>Strings\<close>

text \<open>Well-formed UTF-8, as \<open>std::str::from_utf8\<close> checks it.\<close>

definition utf8_tail :: "8 word \<Rightarrow> bool" where
  "utf8_tail b \<longleftrightarrow> 0x80 \<le> b \<and> b \<le> 0xBF"

fun is_utf8 :: "bytes \<Rightarrow> bool" where
  "is_utf8 [] \<longleftrightarrow> True"
| "is_utf8 (b # bs) \<longleftrightarrow>
     (if b < 0x80 then is_utf8 bs
      else if 0xC2 \<le> b \<and> b \<le> 0xDF then
        (case bs of c # cs \<Rightarrow> utf8_tail c \<and> is_utf8 cs | _ \<Rightarrow> False)
      else if 0xE0 \<le> b \<and> b \<le> 0xEF then
        (case bs of c # d # cs \<Rightarrow> utf8_tail c \<and> utf8_tail d \<and>
             (b = 0xE0 \<longrightarrow> 0xA0 \<le> c) \<and> (b = 0xED \<longrightarrow> c \<le> 0x9F) \<and> is_utf8 cs
         | _ \<Rightarrow> False)
      else if 0xF0 \<le> b \<and> b \<le> 0xF4 then
        (case bs of c # d # e # cs \<Rightarrow> utf8_tail c \<and> utf8_tail d \<and> utf8_tail e \<and>
             (b = 0xF0 \<longrightarrow> 0x90 \<le> c) \<and> (b = 0xF4 \<longrightarrow> c \<le> 0x8F) \<and> is_utf8 cs
         | _ \<Rightarrow> False)
      else False)"

record ffi_ops =
  string_error_from_nul :: "bytes \<Rightarrow> bytes" \<comment> \<open>\<open>StringError::from(NulError)\<close>\<close>
  read_c_string :: "bytes \<Rightarrow> bytes + bytes" \<comment> \<open>\<open>String::clone_from_repr_c\<close>\<close>

definition ffi_laws :: "ffi_ops \<Rightarrow> bool" where
  "ffi_laws ff \<longleftrightarrow> (\<forall>s. is_utf8 s \<and> 0 \<notin> set s \<longrightarrow> read_c_string ff s = Ok s)"

text \<open>The name of the container of an app (lib.rs): \<open>apps/\<close> and the identifier.\<close>

definition app_container_name :: "bytes \<Rightarrow> bytes" where
  "app_container_name app_id = [0x61, 0x70, 0x70, 0x73, 0x2F] @ app_id" \<comment> \<open>\<open>apps/\<close>\<close>

text \<open>\<open>CString::new\<close>; the error carries the string.\<close>

definition cstring_new :: "bytes \<Rightarrow> bytes + bytes" where
  "cstring_new s = (if 0 \<in> set s then Err s else Ok s)"

subsection \<open>Errors\<close>

text \<open>\<open>IpcError\<close>. A \<open>StringError\<close> is opaque.\<close>

datatype ipc_error =
    AuthDenied | ContainersDenied | InvalidMsg | IpcEncodeDecodeError | StringError bytes
  | AlreadyAuthorised | UnknownApp | ShareMDataDenied | InvalidOwner "(xor_name \<times> u64) list"
  | IncompatibleMockStatus | IpcUnexpected string

type_synonym 'a ipc_result = "ipc_error + 'a"

definition ipc_error_from_str :: "string \<Rightarrow> ipc_error" where
  "ipc_error_from_str s = IpcUnexpected s"

definition ipc_error_from_nul :: "bytes \<Rightarrow> ipc_error" where
  "ipc_error_from_nul e = ipc_error_from_str ''nul byte found in data''"

definition cstring_or_string_error :: "ffi_ops \<Rightarrow> bytes \<Rightarrow> bytes ipc_result" where
  "cstring_or_string_error ff s = res_map_err (\<lambda>e. StringError (string_error_from_nul ff e)) (cstring_new s)"

definition clone_string :: "ffi_ops \<Rightarrow> bytes \<Rightarrow> bytes ipc_result" where
  "clone_string ff s = res_map_err StringError (read_c_string ff s)"

text \<open>A pointer that is null for \<open>None\<close>.\<close>

definition into_nullable :: "('a \<Rightarrow> 'e + 'b) \<Rightarrow> 'a option \<Rightarrow> 'e + 'b option" where
  "into_nullable f x = (case x of None \<Rightarrow> Ok None | Some a \<Rightarrow> res_map Some (f a))"

subsection \<open>Permissions\<close>

datatype permission = PermRead | PermInsert | PermUpdate | PermDelete | PermManagePermissions

text \<open>The derived order of the enum, which a \<open>BTreeSet\<close> iterates in.\<close>

definition permission_rank :: "permission \<Rightarrow> nat" where
  "permission_rank p = (case p of
     PermRead \<Rightarrow> 0 | PermInsert \<Rightarrow> 1 | PermUpdate \<Rightarrow> 2 | PermDelete \<Rightarrow> 3 | PermManagePermissions \<Rightarrow> 4)"

lemma permission_rank_eq: "permission_rank p = permission_rank q \<longleftrightarrow> p = q"
  by (cases p; cases q) (simp_all add: permission_rank_def)

instantiation permission :: linorder
begin

definition less_eq_permission :: "permission \<Rightarrow> permission \<Rightarrow> bool" where
  "less_eq_permission p q \<longleftrightarrow> permission_rank p \<le> permission_rank q"

definition less_permission :: "permission \<Rightarrow> permission \<Rightarrow> bool" where
  "less_permission p q \<longleftrightarrow> permission_rank p < permission_rank q"

instance
  by standard (auto simp: less_eq_permission_def less_permission_def permission_rank_eq)

end

type_synonym container_permissions = "permission list"

definition bset_wf :: "'a::linorder list \<Rightarrow> bool" where
  "bset_wf s \<longleftrightarrow> sorted_wrt (<) s"

record ffi_permission_set =
  fp_read :: bool
  fp_insert :: bool
  fp_update :: bool
  fp_delete :: bool
  fp_manage_permissions :: bool

definition ffi_permission_set_default :: ffi_permission_set where
  "ffi_permission_set_default = \<lparr>fp_read = False, fp_insert = False, fp_update = False,
     fp_delete = False, fp_manage_permissions = False\<rparr>"

definition container_perms_into_repr_c :: "container_permissions \<Rightarrow> ffi_permission_set" where
  "container_perms_into_repr_c perms = fold (\<lambda>perm out. case perm of
       PermRead \<Rightarrow> out\<lparr>fp_read := True\<rparr>
     | PermInsert \<Rightarrow> out\<lparr>fp_insert := True\<rparr>
     | PermUpdate \<Rightarrow> out\<lparr>fp_update := True\<rparr>
     | PermDelete \<Rightarrow> out\<lparr>fp_delete := True\<rparr>
     | PermManagePermissions \<Rightarrow> out\<lparr>fp_manage_permissions := True\<rparr>) perms ffi_permission_set_default"

definition insert_if :: "bool \<Rightarrow> 'a::linorder \<Rightarrow> 'a list \<Rightarrow> 'a list" where
  "insert_if b p s = (if b then insort_insert p s else s)"

definition container_perms_from_repr_c :: "ffi_permission_set \<Rightarrow> container_permissions ipc_result" where
  "container_perms_from_repr_c perms =
     (let out = insert_if (fp_read perms) PermRead [];
          out = insert_if (fp_insert perms) PermInsert out;
          out = insert_if (fp_update perms) PermUpdate out;
          out = insert_if (fp_delete perms) PermDelete out;
          out = insert_if (fp_manage_permissions perms) PermManagePermissions out
      in if out = [] then Err (ipc_error_from_str ''No permissions were provided'') else Ok out)"

definition permission_action :: "permission \<Rightarrow> mdata_action" where
  "permission_action p = (case p of
     PermRead \<Rightarrow> ActRead | PermInsert \<Rightarrow> ActInsert | PermUpdate \<Rightarrow> ActUpdate | PermDelete \<Rightarrow> ActDelete
   | PermManagePermissions \<Rightarrow> ActManagePermissions)"

definition container_perms_into_permission_set :: "perm_ops \<Rightarrow> container_permissions \<Rightarrow> perm_set" where
  "container_perms_into_permission_set po permissions =
     fold (\<lambda>access ps. ps_allow po ps (permission_action access)) permissions (ps_new po)"

definition permission_set_into_repr_c :: "perm_ops \<Rightarrow> perm_set \<Rightarrow> ffi_permission_set" where
  "permission_set_into_repr_c po perms =
     \<lparr>fp_read = ps_is_allowed po perms ActRead, fp_insert = ps_is_allowed po perms ActInsert,
      fp_update = ps_is_allowed po perms ActUpdate, fp_delete = ps_is_allowed po perms ActDelete,
      fp_manage_permissions = ps_is_allowed po perms ActManagePermissions\<rparr>"

definition permission_set_clone_from_repr_c :: "perm_ops \<Rightarrow> ffi_permission_set \<Rightarrow> perm_set ipc_result" where
  "permission_set_clone_from_repr_c po perms =
     (if fp_read perms \<and> \<not> fp_insert perms \<and> \<not> fp_update perms \<and> \<not> fp_delete perms \<and>
         \<not> fp_manage_permissions perms
      then Err (ipc_error_from_str ''Can't convert only the read permission'')
      else (let allow_if = (\<lambda>b act pm. if b then ps_allow po pm act else pm) in
        Ok (allow_if (fp_manage_permissions perms) ActManagePermissions
           (allow_if (fp_delete perms) ActDelete
           (allow_if (fp_update perms) ActUpdate
           (allow_if (fp_insert perms) ActInsert
           (allow_if (fp_read perms) ActRead (ps_new po))))))))"

subsection \<open>Containers\<close>

record ffi_container_permissions =
  fc_cont_name :: bytes
  fc_access :: ffi_permission_set

type_synonym containers = "(bytes, container_permissions) hashmap"

definition container_into_repr_c :: "bytes \<times> container_permissions \<Rightarrow> bytes + ffi_container_permissions" where
  "container_into_repr_c = (\<lambda>(cont_name, access).
     res_map (\<lambda>n. \<lparr>fc_cont_name = n, fc_access = container_perms_into_repr_c access\<rparr>)
       (cstring_new cont_name))"

definition container_from_repr_c ::
  "ffi_ops \<Rightarrow> ffi_container_permissions \<Rightarrow> (bytes \<times> container_permissions) ipc_result" where
  "container_from_repr_c ff c =
     res_and_then (clone_string ff (fc_cont_name c)) (\<lambda>n.
     res_map (Pair n) (container_perms_from_repr_c (fc_access c)))"

definition containers_into_vec :: "containers \<Rightarrow> bytes + ffi_container_permissions list" where
  "containers_into_vec containers = try_map container_into_repr_c containers"

definition containers_from_repr_c :: "ffi_ops \<Rightarrow> ffi_container_permissions list \<Rightarrow> containers ipc_result" where
  "containers_from_repr_c ff raw =
     res_map (\<lambda>kvs. fold (\<lambda>(k, v). hm_insert k v) kvs []) (try_map (container_from_repr_c ff) raw)"

subsection \<open>Requests\<close>

record app_exchange_info =
  ai_id :: bytes
  ai_scope :: "bytes option"
  ai_name :: bytes
  ai_vendor :: bytes

record ffi_app_exchange_info =
  fa_id :: bytes
  fa_scope :: "bytes option"
  fa_name :: bytes
  fa_vendor :: bytes

definition app_exchange_info_into_repr_c :: "ffi_ops \<Rightarrow> app_exchange_info \<Rightarrow> ffi_app_exchange_info ipc_result" where
  "app_exchange_info_into_repr_c ff info =
     res_and_then (cstring_or_string_error ff (ai_id info)) (\<lambda>i.
     res_and_then (into_nullable (cstring_or_string_error ff) (ai_scope info)) (\<lambda>s.
     res_and_then (cstring_or_string_error ff (ai_name info)) (\<lambda>n.
     res_map (\<lambda>v. \<lparr>fa_id = i, fa_scope = s, fa_name = n, fa_vendor = v\<rparr>)
       (cstring_or_string_error ff (ai_vendor info)))))"

definition app_exchange_info_clone_from_repr_c ::
  "ffi_ops \<Rightarrow> ffi_app_exchange_info \<Rightarrow> app_exchange_info ipc_result" where
  "app_exchange_info_clone_from_repr_c ff c =
     res_and_then (clone_string ff (fa_id c)) (\<lambda>i.
     res_and_then (into_nullable (clone_string ff) (fa_scope c)) (\<lambda>s.
     res_and_then (clone_string ff (fa_name c)) (\<lambda>n.
     res_map (\<lambda>v. \<lparr>ai_id = i, ai_scope = s, ai_name = n, ai_vendor = v\<rparr>)
       (clone_string ff (fa_vendor c)))))"

record auth_req =
  ar_app :: app_exchange_info
  ar_app_container :: bool
  ar_app_permissions :: app_permissions
  ar_containers :: containers

record ffi_auth_req =
  fr_app :: ffi_app_exchange_info
  fr_app_container :: bool
  fr_app_permission_transfer_coins :: bool
  fr_app_permission_perform_mutations :: bool
  fr_app_permission_get_balance :: bool
  fr_containers :: "ffi_container_permissions list"

definition auth_req_into_repr_c :: "ffi_ops \<Rightarrow> auth_req \<Rightarrow> ffi_auth_req ipc_result" where
  "auth_req_into_repr_c ff rq =
     res_and_then (res_map_err (\<lambda>e. StringError (string_error_from_nul ff e))
       (containers_into_vec (ar_containers rq))) (\<lambda>containers.
     res_map (\<lambda>app. \<lparr>fr_app = app, fr_app_container = ar_app_container rq,
         fr_app_permission_transfer_coins = transfer_coins_perm (ar_app_permissions rq),
         fr_app_permission_perform_mutations = perform_mutations (ar_app_permissions rq),
         fr_app_permission_get_balance = get_balance_perm (ar_app_permissions rq),
         fr_containers = containers\<rparr>)
       (app_exchange_info_into_repr_c ff (ar_app rq)))"

definition auth_req_clone_from_repr_c :: "ffi_ops \<Rightarrow> ffi_auth_req \<Rightarrow> auth_req ipc_result" where
  "auth_req_clone_from_repr_c ff c =
     res_and_then (app_exchange_info_clone_from_repr_c ff (fr_app c)) (\<lambda>app.
     res_map (\<lambda>containers. \<lparr>ar_app = app, ar_app_container = fr_app_container c,
         ar_app_permissions = AppPermissions (fr_app_permission_get_balance c)
           (fr_app_permission_perform_mutations c) (fr_app_permission_transfer_coins c),
         ar_containers = containers\<rparr>)
       (containers_from_repr_c ff (fr_containers c)))"

record containers_req =
  cr_app :: app_exchange_info
  cr_containers :: containers

record ffi_containers_req =
  fcr_app :: ffi_app_exchange_info
  fcr_containers :: "ffi_container_permissions list"

definition containers_req_into_repr_c :: "ffi_ops \<Rightarrow> containers_req \<Rightarrow> ffi_containers_req ipc_result" where
  "containers_req_into_repr_c ff rq =
     res_and_then (res_map_err (\<lambda>e. StringError (string_error_from_nul ff e))
       (containers_into_vec (cr_containers rq))) (\<lambda>containers.
     res_map (\<lambda>app. \<lparr>fcr_app = app, fcr_containers = containers\<rparr>)
       (app_exchange_info_into_repr_c ff (cr_app rq)))"

definition containers_req_clone_from_repr_c :: "ffi_ops \<Rightarrow> ffi_containers_req \<Rightarrow> containers_req ipc_result" where
  "containers_req_clone_from_repr_c ff c =
     res_and_then (app_exchange_info_clone_from_repr_c ff (fcr_app c)) (\<lambda>app.
     res_map (\<lambda>containers. \<lparr>cr_app = app, cr_containers = containers\<rparr>)
       (containers_from_repr_c ff (fcr_containers c)))"

record share_mdata =
  sm_type_tag :: u64
  sm_name :: xor_name
  sm_perms :: perm_set

record share_mdata_req =
  sr_app :: app_exchange_info
  sr_mdata :: "share_mdata list"

record ffi_share_mdata =
  fs_type_tag :: u64
  fs_name :: bytes
  fs_perms :: ffi_permission_set

record ffi_share_mdata_req =
  fsr_app :: ffi_app_exchange_info
  fsr_mdata :: "ffi_share_mdata list"

definition share_mdata_into_repr_c :: "perm_ops \<Rightarrow> share_mdata \<Rightarrow> ffi_share_mdata ipc_result" where
  "share_mdata_into_repr_c po m = Ok \<lparr>fs_type_tag = sm_type_tag m, fs_name = xn_bytes (sm_name m),
     fs_perms = permission_set_into_repr_c po (sm_perms m)\<rparr>"

definition share_mdata_clone_from_repr_c :: "perm_ops \<Rightarrow> ffi_share_mdata \<Rightarrow> share_mdata ipc_result" where
  "share_mdata_clone_from_repr_c po c =
     res_map (\<lambda>perms. \<lparr>sm_type_tag = fs_type_tag c, sm_name = XorName (fs_name c), sm_perms = perms\<rparr>)
       (permission_set_clone_from_repr_c po (fs_perms c))"

definition share_mdata_req_into_repr_c ::
  "ffi_ops \<Rightarrow> perm_ops \<Rightarrow> share_mdata_req \<Rightarrow> ffi_share_mdata_req ipc_result" where
  "share_mdata_req_into_repr_c ff po rq =
     res_and_then (try_map (share_mdata_into_repr_c po) (sr_mdata rq)) (\<lambda>mdata.
     res_map (\<lambda>app. \<lparr>fsr_app = app, fsr_mdata = mdata\<rparr>)
       (app_exchange_info_into_repr_c ff (sr_app rq)))"

definition share_mdata_req_clone_from_repr_c ::
  "ffi_ops \<Rightarrow> perm_ops \<Rightarrow> ffi_share_mdata_req \<Rightarrow> share_mdata_req ipc_result" where
  "share_mdata_req_clone_from_repr_c ff po c =
     res_and_then (app_exchange_info_clone_from_repr_c ff (fsr_app c)) (\<lambda>app.
     res_map (\<lambda>mdata. \<lparr>sr_app = app, sr_mdata = mdata\<rparr>)
       (try_map (share_mdata_clone_from_repr_c po) (fsr_mdata c)))"

datatype ipc_req =
    ReqAuth auth_req | ReqContainers containers_req | ReqUnregistered bytes
  | ReqShareMData share_mdata_req

subsection \<open>Round trips\<close>

lemma bset_wf_iff: "bset_wf s \<longleftrightarrow> sorted s \<and> distinct s"
  by (simp add: bset_wf_def strict_sorted_iff)

lemma insert_if_props:
  "set (insert_if b p s) = (if b then insert p (set s) else set s)"
  "bset_wf s \<Longrightarrow> bset_wf (insert_if b p s)"
  by (simp_all add: insert_if_def set_insort_insert bset_wf_iff sorted_insort_insert distinct_insort_insert)

lemma container_perms_into_repr_c_mem:
  "container_perms_into_repr_c perms = \<lparr>fp_read = PermRead \<in> set perms, fp_insert = PermInsert \<in> set perms,
     fp_update = PermUpdate \<in> set perms, fp_delete = PermDelete \<in> set perms,
     fp_manage_permissions = PermManagePermissions \<in> set perms\<rparr>"
proof -
  have "fold (\<lambda>perm out. case perm of
       PermRead \<Rightarrow> out\<lparr>fp_read := True\<rparr> | PermInsert \<Rightarrow> out\<lparr>fp_insert := True\<rparr>
     | PermUpdate \<Rightarrow> out\<lparr>fp_update := True\<rparr> | PermDelete \<Rightarrow> out\<lparr>fp_delete := True\<rparr>
     | PermManagePermissions \<Rightarrow> out\<lparr>fp_manage_permissions := True\<rparr>) perms out =
     \<lparr>fp_read = fp_read out \<or> PermRead \<in> set perms, fp_insert = fp_insert out \<or> PermInsert \<in> set perms,
      fp_update = fp_update out \<or> PermUpdate \<in> set perms, fp_delete = fp_delete out \<or> PermDelete \<in> set perms,
      fp_manage_permissions = fp_manage_permissions out \<or> PermManagePermissions \<in> set perms\<rparr>"
    for out :: ffi_permission_set
    by (induction perms arbitrary: out) (auto split: permission.split)
  then show ?thesis
    by (simp add: container_perms_into_repr_c_def ffi_permission_set_default_def)
qed

lemma container_perms_roundtrip:
  assumes "bset_wf perms"
  shows "container_perms_from_repr_c (container_perms_into_repr_c perms) =
    (if perms = [] then Err (ipc_error_from_str ''No permissions were provided'') else Ok perms)"
proof -
  let ?c = "container_perms_into_repr_c perms"
  let ?out = "insert_if (fp_manage_permissions ?c) PermManagePermissions (insert_if (fp_delete ?c) PermDelete
    (insert_if (fp_update ?c) PermUpdate (insert_if (fp_insert ?c) PermInsert (insert_if (fp_read ?c) PermRead []))))"
  have "x \<in> set ?out \<longleftrightarrow> x \<in> set perms" for x
    by (cases x) (simp_all add: insert_if_props container_perms_into_repr_c_mem)
  moreover have "bset_wf ?out"
    by (intro insert_if_props) (simp add: bset_wf_def)
  ultimately have "?out = perms"
    using assms by (intro sorted_distinct_set_unique) (auto simp: bset_wf_iff)
  then show ?thesis
    by (simp add: container_perms_from_repr_c_def Let_def)
qed

text \<open>A set of permissions survives its C representation unless it allows reading only.\<close>

lemma permission_set_roundtrip:
  assumes "perm_laws po"
  shows "let c = permission_set_clone_from_repr_c po (permission_set_into_repr_c po s) in
    if \<forall>act. ps_is_allowed po s act \<longleftrightarrow> act = ActRead then \<exists>e. c = Err e
    else c = Ok (projr c) \<and> (\<forall>act. ps_is_allowed po (projr c) act \<longleftrightarrow> ps_is_allowed po s act)"
proof -
  have all_acts: "(\<forall>act. P act) \<longleftrightarrow> P ActRead \<and> P ActInsert \<and> P ActUpdate \<and> P ActDelete \<and> P ActManagePermissions" for P
    by (metis mdata_action.exhaust)
  show ?thesis
    using assms unfolding all_acts
    by (simp add: permission_set_clone_from_repr_c_def permission_set_into_repr_c_def perm_laws_def Let_def)
qed

definition app_strings :: "app_exchange_info \<Rightarrow> bytes set" where
  "app_strings info = {ai_id info, ai_name info, ai_vendor info} \<union> set_option (ai_scope info)"

definition auth_req_strings :: "auth_req \<Rightarrow> bytes set" where
  "auth_req_strings rq = app_strings (ar_app rq) \<union> fst ` set (ar_containers rq)"

definition containers_wf :: "containers \<Rightarrow> bool" where
  "containers_wf cs \<longleftrightarrow> distinct (map fst cs) \<and> (\<forall>a \<in> snd ` set cs. bset_wf a)"

lemma app_exchange_info_roundtrip:
  assumes "ffi_laws ff" and "\<forall>s \<in> app_strings info. is_utf8 s \<and> 0 \<notin> set s"
  shows "\<exists>c. app_exchange_info_into_repr_c ff info = Ok c \<and> app_exchange_info_clone_from_repr_c ff c = Ok info"
  using assms
  by (cases "ai_scope info") (simp_all add: app_exchange_info_into_repr_c_def app_exchange_info_clone_from_repr_c_def
      app_strings_def cstring_or_string_error_def cstring_new_def clone_string_def ffi_laws_def into_nullable_def)

lemma app_exchange_info_nul:
  assumes "s \<in> app_strings info" and "0 \<in> set s"
  shows "\<exists>e. app_exchange_info_into_repr_c ff info = Err e"
  using assms
  by (cases "ai_scope info") (auto simp: app_exchange_info_into_repr_c_def app_strings_def cstring_or_string_error_def
      cstring_new_def into_nullable_def)

lemma containers_roundtrip:
  assumes "ffi_laws ff" and "containers_wf cs" and "\<forall>s \<in> fst ` set cs. is_utf8 s \<and> 0 \<notin> set s"
  shows "\<exists>c. containers_into_vec cs = Ok c \<and>
    (if [] \<in> snd ` set cs then \<exists>e. containers_from_repr_c ff c = Err e else containers_from_repr_c ff c = Ok cs)"
proof -
  let ?g = "\<lambda>(n, a). \<lparr>fc_cont_name = n, fc_access = container_perms_into_repr_c a\<rparr>"
  have into: "containers_into_vec cs = Ok (map ?g cs)"
    unfolding containers_into_vec_def using assms(3)
    by (intro try_map_Ok) (auto simp: container_into_repr_c_def cstring_new_def)
  have each: "container_from_repr_c ff (?g x) =
      (if snd x = [] then Err (ipc_error_from_str ''No permissions were provided'') else Ok x)"
    if "x \<in> set cs" for x
    using assms that
    by (cases x) (force simp: container_from_repr_c_def clone_string_def ffi_laws_def containers_wf_def
        container_perms_roundtrip)
  have "\<exists>e. containers_from_repr_c ff (map ?g cs) = Err e" if empty: "[] \<in> snd ` set cs"
  proof -
    obtain x where x: "x \<in> set cs" "snd x = []"
      using empty by force
    then have "\<exists>e. try_map (container_from_repr_c ff) (map ?g cs) = Err e"
      using each [OF x(1)] by (intro try_map_Err [where x = "?g x"]) auto
    then show ?thesis
      by (auto simp: containers_from_repr_c_def)
  qed
  moreover have "containers_from_repr_c ff (map ?g cs) = Ok cs" if full: "[] \<notin> snd ` set cs"
  proof -
    have "try_map (container_from_repr_c ff \<circ> ?g) cs = Ok (map (\<lambda>x. x) cs)"
      using full each by (intro try_map_Ok) (force simp: image_iff)
    then show ?thesis
      using assms(2) hm_collect [of "[]" cs] by (simp add: containers_from_repr_c_def try_map_map containers_wf_def)
  qed
  ultimately show ?thesis
    using into by auto
qed

text \<open>
  An authorisation request that is converted to its C representation and back is unchanged,
  unless a string contains a zero byte or a container is asked for without any permission: then one of the
  two conversions fails.
\<close>

theorem auth_req_repr_c_roundtrip:
  assumes "ffi_laws ff" and "containers_wf (ar_containers rq)" and "\<forall>s \<in> auth_req_strings rq. is_utf8 s"
  shows "let converted = res_and_then (auth_req_into_repr_c ff rq) (auth_req_clone_from_repr_c ff) in
    if (\<forall>s \<in> auth_req_strings rq. 0 \<notin> set s) \<and> [] \<notin> snd ` set (ar_containers rq)
    then converted = Ok rq else \<exists>e. converted = Err e"
proof (cases "\<forall>s \<in> auth_req_strings rq. 0 \<notin> set s")
  case True
  obtain app where app: "app_exchange_info_into_repr_c ff (ar_app rq) = Ok app"
      "app_exchange_info_clone_from_repr_c ff app = Ok (ar_app rq)"
    using app_exchange_info_roundtrip [OF assms(1), of "ar_app rq"] assms(3) True by (auto simp: auth_req_strings_def)
  obtain cs where cs: "containers_into_vec (ar_containers rq) = Ok cs"
      "if [] \<in> snd ` set (ar_containers rq) then \<exists>e. containers_from_repr_c ff cs = Err e
       else containers_from_repr_c ff cs = Ok (ar_containers rq)"
    using containers_roundtrip [OF assms(1,2)] assms(3) True by (auto simp: auth_req_strings_def)
  show ?thesis
    using True cs(2) by (auto simp: auth_req_into_repr_c_def auth_req_clone_from_repr_c_def app cs(1) Let_def)
next
  case False
  then consider s where "s \<in> app_strings (ar_app rq)" "0 \<in> set s"
    | x where "x \<in> set (ar_containers rq)" "0 \<in> set (fst x)"
    by (auto simp: auth_req_strings_def)
  then have "\<exists>e. auth_req_into_repr_c ff rq = Err e"
  proof cases
    case 1
    then obtain e where "app_exchange_info_into_repr_c ff (ar_app rq) = Err e"
      using app_exchange_info_nul by blast
    then show ?thesis
      by (cases "containers_into_vec (ar_containers rq)") (simp_all add: auth_req_into_repr_c_def)
  next
    case 2
    then have "\<exists>e. containers_into_vec (ar_containers rq) = Err e"
      unfolding containers_into_vec_def
      by (intro try_map_Err [where x = x]) (auto simp: container_into_repr_c_def cstring_new_def case_prod_beta)
    then show ?thesis
      by (auto simp: auth_req_into_repr_c_def)
  qed
  then show ?thesis
    using False by auto
qed

definition sample_ffi :: ffi_ops where
  "sample_ffi = \<lparr>string_error_from_nul = (\<lambda>s. s), read_c_string = (\<lambda>s. if is_utf8 s then Ok s else Err s)\<rparr>"

lemma sample_ffi_laws: "ffi_laws sample_ffi"
  by (simp add: ffi_laws_def sample_ffi_def)

definition sample_auth_req :: "bytes \<Rightarrow> auth_req" where
  "sample_auth_req name = \<lparr>ar_app = \<lparr>ai_id = [97], ai_scope = None, ai_name = name, ai_vendor = []\<rparr>,
     ar_app_container = True, ar_app_permissions = AppPermissions True False True,
     ar_containers = [([95, 112], [PermRead, PermInsert])]\<rparr>"

theorem auth_req_repr_c_roundtrip_witness:
  "res_and_then (auth_req_into_repr_c sample_ffi (sample_auth_req [195, 169])) (auth_req_clone_from_repr_c sample_ffi)
     = Ok (sample_auth_req [195, 169]) \<and>
   (\<exists>e. res_and_then (auth_req_into_repr_c sample_ffi (sample_auth_req [0])) (auth_req_clone_from_repr_c sample_ffi) = Err e)"
  using auth_req_repr_c_roundtrip [OF sample_ffi_laws, of "sample_auth_req [195, 169]"]
    auth_req_repr_c_roundtrip [OF sample_ffi_laws, of "sample_auth_req [0]"]
  by (simp add: sample_auth_req_def containers_wf_def bset_wf_def less_permission_def permission_rank_def
      auth_req_strings_def app_strings_def utf8_tail_def)

text \<open>
  A request for sharing data that is converted to its C representation and back asks for
  the same data with the same permissions; it is refused exactly when some datum is asked for with
  the permission to read and no other.
\<close>

theorem share_mdata_req_repr_c_roundtrip:
  assumes "ffi_laws ff" and "perm_laws po" and "\<forall>s \<in> app_strings (sr_app rq). is_utf8 s \<and> 0 \<notin> set s"
  shows "let converted = res_and_then (share_mdata_req_into_repr_c ff po rq) (share_mdata_req_clone_from_repr_c ff po) in
    if \<exists>m \<in> set (sr_mdata rq). \<forall>act. ps_is_allowed po (sm_perms m) act \<longleftrightarrow> act = ActRead
    then \<exists>e. converted = Err e
    else \<exists>rq'. converted = Ok rq' \<and> sr_app rq' = sr_app rq \<and>
      list_all2 (\<lambda>m m'. sm_name m' = sm_name m \<and> sm_type_tag m' = sm_type_tag m \<and>
        (\<forall>act. ps_is_allowed po (sm_perms m') act \<longleftrightarrow> ps_is_allowed po (sm_perms m) act)) (sr_mdata rq) (sr_mdata rq')"
proof -
  define conv where "conv m = permission_set_clone_from_repr_c po (permission_set_into_repr_c po (sm_perms m))" for m :: share_mdata
  have each: "if \<forall>act. ps_is_allowed po (sm_perms m) act \<longleftrightarrow> act = ActRead then \<exists>e. conv m = Err e
      else conv m = Ok (projr (conv m)) \<and>
        (\<forall>act. ps_is_allowed po (projr (conv m)) act \<longleftrightarrow> ps_is_allowed po (sm_perms m) act)" for m
    using permission_set_roundtrip [OF assms(2)] unfolding conv_def Let_def .
  obtain app where app: "app_exchange_info_into_repr_c ff (sr_app rq) = Ok app"
      "app_exchange_info_clone_from_repr_c ff app = Ok (sr_app rq)"
    using app_exchange_info_roundtrip [OF assms(1,3)] by blast
  let ?g = "\<lambda>m. \<lparr>fs_type_tag = sm_type_tag m, fs_name = xn_bytes (sm_name m), fs_perms = permission_set_into_repr_c po (sm_perms m)\<rparr>"
  let ?h = "\<lambda>m. \<lparr>sm_type_tag = sm_type_tag m, sm_name = sm_name m, sm_perms = projr (conv m)\<rparr>"
  have into: "share_mdata_req_into_repr_c ff po rq = Ok \<lparr>fsr_app = app, fsr_mdata = map ?g (sr_mdata rq)\<rparr>"
    using try_map_Ok [of "sr_mdata rq" "share_mdata_into_repr_c po" ?g]
    by (simp add: share_mdata_req_into_repr_c_def share_mdata_into_repr_c_def app)
  have conv_back: "share_mdata_clone_from_repr_c po (?g m) = res_map (\<lambda>s. ?h m\<lparr>sm_perms := s\<rparr>) (conv m)" for m
    by (simp add: share_mdata_clone_from_repr_c_def conv_def)
  show ?thesis
  proof (cases "\<exists>m \<in> set (sr_mdata rq). \<forall>act. ps_is_allowed po (sm_perms m) act \<longleftrightarrow> act = ActRead")
    case True
    then obtain m e where "m \<in> set (sr_mdata rq)" "conv m = Err e"
      using each by meson
    then have "\<exists>e. try_map (share_mdata_clone_from_repr_c po \<circ> ?g) (sr_mdata rq) = Err e"
      using conv_back [of m] by (intro try_map_Err) auto
    then show ?thesis
      using True by (auto simp: into share_mdata_req_clone_from_repr_c_def app try_map_map)
  next
    case False
    then have ok: "conv m = Ok (projr (conv m))"
        "ps_is_allowed po (projr (conv m)) act \<longleftrightarrow> ps_is_allowed po (sm_perms m) act" if "m \<in> set (sr_mdata rq)" for m act
      using each [of m] that by metis+
    have "(share_mdata_clone_from_repr_c po \<circ> ?g) m = Ok (?h m)" if "m \<in> set (sr_mdata rq)" for m
      unfolding comp_def conv_back by (subst ok(1) [OF that]) simp
    then have "try_map (share_mdata_clone_from_repr_c po \<circ> ?g) (sr_mdata rq) = Ok (map ?h (sr_mdata rq))"
      by (intro try_map_Ok)
    then show ?thesis
      using False ok(2)
      by (simp add: into share_mdata_req_clone_from_repr_c_def app try_map_map list_all2_map2 list_all2_same Let_def)
  qed
qed

theorem share_mdata_req_repr_c_roundtrip_witness:
  "\<exists>e. res_and_then (share_mdata_req_into_repr_c sample_ffi sample_perms
       \<lparr>sr_app = ar_app (sample_auth_req [98]), sr_mdata = [\<lparr>sm_type_tag = 1, sm_name = XorName [2], sm_perms = [0]\<rparr>]\<rparr>)
     (share_mdata_req_clone_from_repr_c sample_ffi sample_perms) = Err e"
proof -
  have "\<forall>act. ps_is_allowed sample_perms [0] act \<longleftrightarrow> act = ActRead"
    by (auto simp: sample_perms_def action_code_def split: mdata_action.splits)
  then show ?thesis
    using share_mdata_req_repr_c_roundtrip [OF sample_ffi_laws sample_perm_laws,
        of "\<lparr>sr_app = ar_app (sample_auth_req [98]), sr_mdata = [\<lparr>sm_type_tag = 1, sm_name = XorName [2], sm_perms = [0]\<rparr>]\<rparr>"]
    by (simp add: app_strings_def sample_auth_req_def)
qed

end
