(* ===== verification/Error_Codes.thy ===== *)
theory Error_Codes
  imports Ipc_Req
begin

section \<open>Error codes of the foreign function interface\<close>

text \<open>
  The errors of the application library (safe\_app/src/errors.rs) and of the authenticator
  (safe\_authenticator/src/errors.rs), their conversions, and the codes by which the C interface reports
  them. Zero is the code of success.
\<close>

named_theorems error_code_defs "the numbers behind the names of the error codes"

subsection \<open>The application library\<close>

datatype app_error =
    AppCoreError core_error | AppIpcError ipc_error | AppNfsError nfs_error | AppEncodeDecodeError
  | AppOperationForbidden | AppNoSuchContainer bytes | InvalidFileMode | UnregisteredClientAccess
  | InvalidCipherOptHandle | InvalidEncryptPubKeyHandle | InvalidEncryptSecKeyHandle
  | InvalidMDataEntriesHandle | InvalidMDataEntryActionsHandle | InvalidMDataPermissionsHandle
  | InvalidSelfEncryptorHandle | InvalidSignPubKeyHandle | InvalidSignSecKeyHandle
  | InvalidPubKeyHandle | InvalidFileContextHandle
  | AppSelfEncryption "core_error self_encryption_error" | InvalidSelfEncryptorReadOffsets
  | AppIoError bytes | AppUnexpected string

type_synonym 'a app_result = "app_error + 'a"

definition app_error_from_core :: "core_error \<Rightarrow> app_error" where
  "app_error_from_core err = (case err of
     Unexpected reason \<Rightarrow> AppUnexpected reason
   | _ \<Rightarrow> AppCoreError err)"

definition app_error_from_ipc :: "ipc_error \<Rightarrow> app_error" where
  "app_error_from_ipc err = (case err of
     IpcEncodeDecodeError \<Rightarrow> AppEncodeDecodeError
   | IpcUnexpected reason \<Rightarrow> AppUnexpected reason
   | _ \<Rightarrow> AppIpcError err)"

definition app_error_from_nfs :: "nfs_error \<Rightarrow> app_error" where
  "app_error_from_nfs err = (case err of
     NfsCoreError e \<Rightarrow> AppCoreError e
   | NfsEncodeDecodeError _ \<Rightarrow> AppEncodeDecodeError
   | NfsSelfEncryption e \<Rightarrow> AppSelfEncryption e
   | NfsUnexpected reason \<Rightarrow> AppUnexpected reason
   | _ \<Rightarrow> AppNfsError err)"

definition app_error_from_str :: "string \<Rightarrow> app_error" where
  "app_error_from_str s = AppUnexpected s"

definition app_error_from_nul :: "bytes \<Rightarrow> app_error" where
  "app_error_from_nul e = app_error_from_str ''nul byte found in data''"

definition app_ERR_ENCODE_DECODE_ERROR :: int where [error_code_defs]: "app_ERR_ENCODE_DECODE_ERROR = - 1"
definition app_ERR_ASYMMETRIC_DECIPHER_FAILURE :: int where [error_code_defs]: "app_ERR_ASYMMETRIC_DECIPHER_FAILURE = - 2"
definition app_ERR_SYMMETRIC_DECIPHER_FAILURE :: int where [error_code_defs]: "app_ERR_SYMMETRIC_DECIPHER_FAILURE = - 3"
definition app_ERR_RECEIVED_UNEXPECTED_DATA :: int where [error_code_defs]: "app_ERR_RECEIVED_UNEXPECTED_DATA = - 4"
definition app_ERR_RECEIVED_UNEXPECTED_EVENT :: int where [error_code_defs]: "app_ERR_RECEIVED_UNEXPECTED_EVENT = - 5"
definition app_ERR_VERSION_CACHE_MISS :: int where [error_code_defs]: "app_ERR_VERSION_CACHE_MISS = - 6"
definition app_ERR_ROOT_DIRECTORY_EXISTS :: int where [error_code_defs]: "app_ERR_ROOT_DIRECTORY_EXISTS = - 7"
definition app_ERR_RANDOM_DATA_GENERATION_FAILURE :: int where [error_code_defs]: "app_ERR_RANDOM_DATA_GENERATION_FAILURE = - 8"
definition app_ERR_OPERATION_FORBIDDEN :: int where [error_code_defs]: "app_ERR_OPERATION_FORBIDDEN = - 9"
definition app_ERR_UNSUPPORTED_SALT_SIZE_FOR_PW_HASH :: int where [error_code_defs]: "app_ERR_UNSUPPORTED_SALT_SIZE_FOR_PW_HASH = - 10"
definition app_ERR_UNSUCCESSFUL_PW_HASH :: int where [error_code_defs]: "app_ERR_UNSUCCESSFUL_PW_HASH = - 11"
definition app_ERR_OPERATION_ABORTED :: int where [error_code_defs]: "app_ERR_OPERATION_ABORTED = - 12"
definition app_ERR_SELF_ENCRYPTION :: int where [error_code_defs]: "app_ERR_SELF_ENCRYPTION = - 13"
definition app_ERR_REQUEST_TIMEOUT :: int where [error_code_defs]: "app_ERR_REQUEST_TIMEOUT = - 14"
definition app_ERR_CONFIG_FILE :: int where [error_code_defs]: "app_ERR_CONFIG_FILE = - 15"
definition app_ERR_IO :: int where [error_code_defs]: "app_ERR_IO = - 16"
definition app_ERR_ACCESS_DENIED :: int where [error_code_defs]: "app_ERR_ACCESS_DENIED = - 100"
definition app_ERR_NO_SUCH_ACCOUNT :: int where [error_code_defs]: "app_ERR_NO_SUCH_ACCOUNT = - 101"
definition app_ERR_ACCOUNT_EXISTS :: int where [error_code_defs]: "app_ERR_ACCOUNT_EXISTS = - 102"
definition app_ERR_NO_SUCH_DATA :: int where [error_code_defs]: "app_ERR_NO_SUCH_DATA = - 103"
definition app_ERR_DATA_EXISTS :: int where [error_code_defs]: "app_ERR_DATA_EXISTS = - 104"
definition app_ERR_DATA_TOO_LARGE :: int where [error_code_defs]: "app_ERR_DATA_TOO_LARGE = - 105"
definition app_ERR_NO_SUCH_ENTRY :: int where [error_code_defs]: "app_ERR_NO_SUCH_ENTRY = - 106"
definition app_ERR_INVALID_ENTRY_ACTIONS :: int where [error_code_defs]: "app_ERR_INVALID_ENTRY_ACTIONS = - 107"
definition app_ERR_TOO_MANY_ENTRIES :: int where [error_code_defs]: "app_ERR_TOO_MANY_ENTRIES = - 108"
definition app_ERR_NO_SUCH_KEY :: int where [error_code_defs]: "app_ERR_NO_SUCH_KEY = - 109"
definition app_ERR_INVALID_OWNERS :: int where [error_code_defs]: "app_ERR_INVALID_OWNERS = - 110"
definition app_ERR_INVALID_SUCCESSOR :: int where [error_code_defs]: "app_ERR_INVALID_SUCCESSOR = - 111"
definition app_ERR_INVALID_OPERATION :: int where [error_code_defs]: "app_ERR_INVALID_OPERATION = - 112"
definition app_ERR_LOW_BALANCE :: int where [error_code_defs]: "app_ERR_LOW_BALANCE = - 113"
definition app_ERR_NETWORK_FULL :: int where [error_code_defs]: "app_ERR_NETWORK_FULL = - 114"
definition app_ERR_NETWORK_OTHER :: int where [error_code_defs]: "app_ERR_NETWORK_OTHER = - 115"
definition app_ERR_INVALID_INVITATION :: int where [error_code_defs]: "app_ERR_INVALID_INVITATION = - 116"
definition app_ERR_INVITATION_ALREADY_CLAIMED :: int where [error_code_defs]: "app_ERR_INVITATION_ALREADY_CLAIMED = - 117"
definition app_ERR_DUPLICATE_MSG_ID :: int where [error_code_defs]: "app_ERR_DUPLICATE_MSG_ID = - 118"
definition app_ERR_DUPLICATE_ENTRY_KEYS :: int where [error_code_defs]: "app_ERR_DUPLICATE_ENTRY_KEYS = - 119"
definition app_ERR_KEYS_EXIST :: int where [error_code_defs]: "app_ERR_KEYS_EXIST = - 120"
definition app_ERR_AUTH_DENIED :: int where [error_code_defs]: "app_ERR_AUTH_DENIED = - 200"
definition app_ERR_CONTAINERS_DENIED :: int where [error_code_defs]: "app_ERR_CONTAINERS_DENIED = - 201"
definition app_ERR_INVALID_MSG :: int where [error_code_defs]: "app_ERR_INVALID_MSG = - 202"
definition app_ERR_ALREADY_AUTHORISED :: int where [error_code_defs]: "app_ERR_ALREADY_AUTHORISED = - 203"
definition app_ERR_UNKNOWN_APP :: int where [error_code_defs]: "app_ERR_UNKNOWN_APP = - 204"
definition app_ERR_STRING_ERROR :: int where [error_code_defs]: "app_ERR_STRING_ERROR = - 205"
definition app_ERR_SHARE_MDATA_DENIED :: int where [error_code_defs]: "app_ERR_SHARE_MDATA_DENIED = - 206"
definition app_ERR_INVALID_OWNER :: int where [error_code_defs]: "app_ERR_INVALID_OWNER = - 207"
definition app_ERR_INCOMPATIBLE_MOCK_STATUS :: int where [error_code_defs]: "app_ERR_INCOMPATIBLE_MOCK_STATUS = - 208"
definition app_ERR_FILE_EXISTS :: int where [error_code_defs]: "app_ERR_FILE_EXISTS = - 300"
definition app_ERR_FILE_NOT_FOUND :: int where [error_code_defs]: "app_ERR_FILE_NOT_FOUND = - 301"
definition app_ERR_INVALID_RANGE :: int where [error_code_defs]: "app_ERR_INVALID_RANGE = - 302"
definition app_ERR_NO_SUCH_CONTAINER :: int where [error_code_defs]: "app_ERR_NO_SUCH_CONTAINER = - 1002"
definition app_ERR_INVALID_CIPHER_OPT_HANDLE :: int where [error_code_defs]: "app_ERR_INVALID_CIPHER_OPT_HANDLE = - 1003"
definition app_ERR_INVALID_ENCRYPT_PUB_KEY_HANDLE :: int where [error_code_defs]: "app_ERR_INVALID_ENCRYPT_PUB_KEY_HANDLE = - 1004"
definition app_ERR_INVALID_MDATA_INFO_HANDLE :: int where [error_code_defs]: "app_ERR_INVALID_MDATA_INFO_HANDLE = - 1005"
definition app_ERR_INVALID_MDATA_ENTRIES_HANDLE :: int where [error_code_defs]: "app_ERR_INVALID_MDATA_ENTRIES_HANDLE = - 1006"
definition app_ERR_INVALID_MDATA_ENTRY_ACTIONS_HANDLE :: int where [error_code_defs]: "app_ERR_INVALID_MDATA_ENTRY_ACTIONS_HANDLE = - 1007"
definition app_ERR_INVALID_MDATA_PERMISSIONS_HANDLE :: int where [error_code_defs]: "app_ERR_INVALID_MDATA_PERMISSIONS_HANDLE = - 1008"
definition app_ERR_INVALID_MDATA_PERMISSION_SET_HANDLE :: int where [error_code_defs]: "app_ERR_INVALID_MDATA_PERMISSION_SET_HANDLE = - 1009"
definition app_ERR_INVALID_SELF_ENCRYPTOR_HANDLE :: int where [error_code_defs]: "app_ERR_INVALID_SELF_ENCRYPTOR_HANDLE = - 1010"
definition app_ERR_INVALID_SIGN_PUB_KEY_HANDLE :: int where [error_code_defs]: "app_ERR_INVALID_SIGN_PUB_KEY_HANDLE = - 1011"
definition app_ERR_INVALID_SELF_ENCRYPTOR_READ_OFFSETS :: int where [error_code_defs]: "app_ERR_INVALID_SELF_ENCRYPTOR_READ_OFFSETS = - 1012"
definition app_ERR_IO_ERROR :: int where [error_code_defs]: "app_ERR_IO_ERROR = - 1013"
definition app_ERR_INVALID_ENCRYPT_SEC_KEY_HANDLE :: int where [error_code_defs]: "app_ERR_INVALID_ENCRYPT_SEC_KEY_HANDLE = - 1014"
definition app_ERR_INVALID_FILE_CONTEXT_HANDLE :: int where [error_code_defs]: "app_ERR_INVALID_FILE_CONTEXT_HANDLE = - 1015"
definition app_ERR_INVALID_FILE_MODE :: int where [error_code_defs]: "app_ERR_INVALID_FILE_MODE = - 1016"
definition app_ERR_INVALID_SIGN_SEC_KEY_HANDLE :: int where [error_code_defs]: "app_ERR_INVALID_SIGN_SEC_KEY_HANDLE = - 1017"
definition app_ERR_UNREGISTERED_CLIENT_ACCESS :: int where [error_code_defs]: "app_ERR_UNREGISTERED_CLIENT_ACCESS = - 1018"
definition app_ERR_INVALID_PUB_KEY_HANDLE :: int where [error_code_defs]: "app_ERR_INVALID_PUB_KEY_HANDLE = - 1019"
definition app_ERR_UNEXPECTED :: int where [error_code_defs]: "app_ERR_UNEXPECTED = - 2000"
definition app_ERR_INVALID_OWNERS_SUCCESSOR :: int where [error_code_defs]: "app_ERR_INVALID_OWNERS_SUCCESSOR = - 3001"
definition app_ERR_INVALID_PERMISSIONS_SUCCESSOR :: int where [error_code_defs]: "app_ERR_INVALID_PERMISSIONS_SUCCESSOR = - 3002"
definition app_ERR_SIGN_KEYTYPE_MISMATCH :: int where [error_code_defs]: "app_ERR_SIGN_KEYTYPE_MISMATCH = - 3003"
definition app_ERR_INVALID_SIGNATURE :: int where [error_code_defs]: "app_ERR_INVALID_SIGNATURE = - 3004"
definition app_ERR_LOSS_OF_PRECISION :: int where [error_code_defs]: "app_ERR_LOSS_OF_PRECISION = - 4000"
definition app_ERR_EXCESSIVE_VALUE :: int where [error_code_defs]: "app_ERR_EXCESSIVE_VALUE = - 4001"
definition app_ERR_FAILED_TO_PARSE :: int where [error_code_defs]: "app_ERR_FAILED_TO_PARSE = - 4002"
definition app_ERR_TRANSACTION_ID_EXISTS :: int where [error_code_defs]: "app_ERR_TRANSACTION_ID_EXISTS = - 4003"
definition app_ERR_INSUFFICIENT_BALANCE :: int where [error_code_defs]: "app_ERR_INSUFFICIENT_BALANCE = - 4004"
definition app_ERR_BALANCE_EXISTS :: int where [error_code_defs]: "app_ERR_BALANCE_EXISTS = - 4005"
definition app_ERR_NO_SUCH_BALANCE :: int where [error_code_defs]: "app_ERR_NO_SUCH_BALANCE = - 4006"
definition app_ERR_EXCEEDED_SIZE :: int where [error_code_defs]: "app_ERR_EXCEEDED_SIZE = - 5001"
definition app_ERR_NO_SUCH_LOGIN_PACKET :: int where [error_code_defs]: "app_ERR_NO_SUCH_LOGIN_PACKET = - 5002"
definition app_ERR_LOGIN_PACKET_EXISTS :: int where [error_code_defs]: "app_ERR_LOGIN_PACKET_EXISTS = - 5003"
definition app_ERR_QUIC_P2P :: int where [error_code_defs]: "app_ERR_QUIC_P2P = - 6000"

definition app_snd_error_code :: "snd_error \<Rightarrow> int" where
  "app_snd_error_code err = (case err of
     AccessDenied \<Rightarrow> app_ERR_ACCESS_DENIED
   | NoSuchLoginPacket \<Rightarrow> app_ERR_NO_SUCH_LOGIN_PACKET
   | LoginPacketExists \<Rightarrow> app_ERR_LOGIN_PACKET_EXISTS
   | NoSuchData \<Rightarrow> app_ERR_NO_SUCH_DATA
   | DataExists \<Rightarrow> app_ERR_DATA_EXISTS
   | NoSuchEntry \<Rightarrow> app_ERR_NO_SUCH_ENTRY
   | TooManyEntries \<Rightarrow> app_ERR_TOO_MANY_ENTRIES
   | InvalidEntryActions _ \<Rightarrow> app_ERR_INVALID_ENTRY_ACTIONS
   | NoSuchKey \<Rightarrow> app_ERR_NO_SUCH_KEY
   | KeysExist _ \<Rightarrow> app_ERR_KEYS_EXIST
   | DuplicateEntryKeys \<Rightarrow> app_ERR_DUPLICATE_ENTRY_KEYS
   | DuplicateMessageId \<Rightarrow> app_ERR_DUPLICATE_MSG_ID
   | InvalidOwners \<Rightarrow> app_ERR_INVALID_OWNERS
   | InvalidSuccessor _ \<Rightarrow> app_ERR_INVALID_SUCCESSOR
   | InvalidOperation \<Rightarrow> app_ERR_INVALID_OPERATION
   | NetworkOther _ \<Rightarrow> app_ERR_NETWORK_OTHER
   | InvalidOwnersSuccessor _ \<Rightarrow> app_ERR_INVALID_OWNERS_SUCCESSOR
   | InvalidPermissionsSuccessor _ \<Rightarrow> app_ERR_INVALID_PERMISSIONS_SUCCESSOR
   | SigningKeyTypeMismatch \<Rightarrow> app_ERR_SIGN_KEYTYPE_MISMATCH
   | InvalidSignature \<Rightarrow> app_ERR_INVALID_SIGNATURE
   | LossOfPrecision \<Rightarrow> app_ERR_LOSS_OF_PRECISION
   | ExcessiveValue \<Rightarrow> app_ERR_EXCESSIVE_VALUE
   | NoSuchBalance \<Rightarrow> app_ERR_NO_SUCH_BALANCE
   | BalanceExists \<Rightarrow> app_ERR_BALANCE_EXISTS
   | FailedToParse _ \<Rightarrow> app_ERR_FAILED_TO_PARSE
   | TransactionIdExists \<Rightarrow> app_ERR_TRANSACTION_ID_EXISTS
   | InsufficientBalance \<Rightarrow> app_ERR_INSUFFICIENT_BALANCE
   | ExceededSize \<Rightarrow> app_ERR_EXCEEDED_SIZE)"

definition app_core_error_code :: "core_error \<Rightarrow> int" where
  "app_core_error_code err = (case err of
     EncodeDecodeError _ \<Rightarrow> app_ERR_ENCODE_DECODE_ERROR
   | AsymmetricDecipherFailure \<Rightarrow> app_ERR_ASYMMETRIC_DECIPHER_FAILURE
   | SymmetricDecipherFailure \<Rightarrow> app_ERR_SYMMETRIC_DECIPHER_FAILURE
   | ReceivedUnexpectedData \<Rightarrow> app_ERR_RECEIVED_UNEXPECTED_DATA
   | ReceivedUnexpectedEvent \<Rightarrow> app_ERR_RECEIVED_UNEXPECTED_EVENT
   | VersionCacheMiss \<Rightarrow> app_ERR_VERSION_CACHE_MISS
   | RootDirectoryExists \<Rightarrow> app_ERR_ROOT_DIRECTORY_EXISTS
   | RandomDataGenerationFailure \<Rightarrow> app_ERR_RANDOM_DATA_GENERATION_FAILURE
   | OperationForbidden \<Rightarrow> app_ERR_OPERATION_FORBIDDEN
   | DataError e \<Rightarrow> app_snd_error_code e
   | QuicP2p _ \<Rightarrow> app_ERR_QUIC_P2P
   | UnsupportedSaltSizeForPwHash \<Rightarrow> app_ERR_UNSUPPORTED_SALT_SIZE_FOR_PW_HASH
   | UnsuccessfulPwHash \<Rightarrow> app_ERR_UNSUCCESSFUL_PW_HASH
   | OperationAborted \<Rightarrow> app_ERR_OPERATION_ABORTED
   | SelfEncryption _ \<Rightarrow> app_ERR_SELF_ENCRYPTION
   | RequestTimeout \<Rightarrow> app_ERR_REQUEST_TIMEOUT
   | ConfigError _ \<Rightarrow> app_ERR_CONFIG_FILE
   | IoError _ \<Rightarrow> app_ERR_IO
   | Unexpected _ \<Rightarrow> app_ERR_UNEXPECTED)"

definition app_ipc_error_code :: "ipc_error \<Rightarrow> int" where
  "app_ipc_error_code err = (case err of
     AuthDenied \<Rightarrow> app_ERR_AUTH_DENIED
   | ContainersDenied \<Rightarrow> app_ERR_CONTAINERS_DENIED
   | InvalidMsg \<Rightarrow> app_ERR_INVALID_MSG
   | IpcEncodeDecodeError \<Rightarrow> app_ERR_ENCODE_DECODE_ERROR
   | AlreadyAuthorised \<Rightarrow> app_ERR_ALREADY_AUTHORISED
   | UnknownApp \<Rightarrow> app_ERR_UNKNOWN_APP
   | IpcUnexpected _ \<Rightarrow> app_ERR_UNEXPECTED
   | StringError _ \<Rightarrow> app_ERR_STRING_ERROR
   | ShareMDataDenied \<Rightarrow> app_ERR_SHARE_MDATA_DENIED
   | InvalidOwner _ \<Rightarrow> app_ERR_INVALID_OWNER
   | IncompatibleMockStatus \<Rightarrow> app_ERR_INCOMPATIBLE_MOCK_STATUS)"

definition app_nfs_error_code :: "nfs_error \<Rightarrow> int" where
  "app_nfs_error_code err = (case err of
     NfsCoreError e \<Rightarrow> app_core_error_code e
   | FileExists \<Rightarrow> app_ERR_FILE_EXISTS
   | FileNotFound \<Rightarrow> app_ERR_FILE_NOT_FOUND
   | InvalidRange \<Rightarrow> app_ERR_INVALID_RANGE
   | NfsEncodeDecodeError _ \<Rightarrow> app_ERR_ENCODE_DECODE_ERROR
   | NfsSelfEncryption _ \<Rightarrow> app_ERR_SELF_ENCRYPTION
   | NfsUnexpected _ \<Rightarrow> app_ERR_UNEXPECTED)"

definition app_error_code :: "app_error \<Rightarrow> int" where
  "app_error_code err = (case err of
     AppCoreError e \<Rightarrow> app_core_error_code e
   | AppIpcError e \<Rightarrow> app_ipc_error_code e
   | AppNfsError e \<Rightarrow> app_nfs_error_code e
   | AppEncodeDecodeError \<Rightarrow> app_ERR_ENCODE_DECODE_ERROR
   | AppOperationForbidden \<Rightarrow> app_ERR_OPERATION_FORBIDDEN
   | AppNoSuchContainer _ \<Rightarrow> app_ERR_NO_SUCH_CONTAINER
   | InvalidCipherOptHandle \<Rightarrow> app_ERR_INVALID_CIPHER_OPT_HANDLE
   | InvalidEncryptPubKeyHandle \<Rightarrow> app_ERR_INVALID_ENCRYPT_PUB_KEY_HANDLE
   | InvalidMDataEntriesHandle \<Rightarrow> app_ERR_INVALID_MDATA_ENTRIES_HANDLE
   | InvalidMDataEntryActionsHandle \<Rightarrow> app_ERR_INVALID_MDATA_ENTRY_ACTIONS_HANDLE
   | InvalidMDataPermissionsHandle \<Rightarrow> app_ERR_INVALID_MDATA_PERMISSIONS_HANDLE
   | InvalidSelfEncryptorHandle \<Rightarrow> app_ERR_INVALID_SELF_ENCRYPTOR_HANDLE
   | InvalidSignPubKeyHandle \<Rightarrow> app_ERR_INVALID_SIGN_PUB_KEY_HANDLE
   | InvalidSignSecKeyHandle \<Rightarrow> app_ERR_INVALID_SIGN_SEC_KEY_HANDLE
   | InvalidEncryptSecKeyHandle \<Rightarrow> app_ERR_INVALID_ENCRYPT_SEC_KEY_HANDLE
   | InvalidPubKeyHandle \<Rightarrow> app_ERR_INVALID_PUB_KEY_HANDLE
   | InvalidFileContextHandle \<Rightarrow> app_ERR_INVALID_FILE_CONTEXT_HANDLE
   | InvalidFileMode \<Rightarrow> app_ERR_INVALID_FILE_MODE
   | UnregisteredClientAccess \<Rightarrow> app_ERR_UNREGISTERED_CLIENT_ACCESS
   | AppSelfEncryption _ \<Rightarrow> app_ERR_SELF_ENCRYPTION
   | InvalidSelfEncryptorReadOffsets \<Rightarrow> app_ERR_INVALID_SELF_ENCRYPTOR_READ_OFFSETS
   | AppIoError _ \<Rightarrow> app_ERR_IO_ERROR
   | AppUnexpected _ \<Rightarrow> app_ERR_UNEXPECTED)"

subsection \<open>The authenticator\<close>

datatype auth_error =
    AuthUnexpected string | AuthCoreError core_error | AuthSndError snd_error | AuthIoError bytes
  | AuthNfsError nfs_error | AuthEncodeDecodeError | AuthIpcError ipc_error
  | AccountContainersCreation string | AuthNoSuchContainer bytes | PendingRevocation

type_synonym 'a auth_result = "auth_error + 'a"

definition auth_error_from_str :: "string \<Rightarrow> auth_error" where
  "auth_error_from_str error = AuthUnexpected error"

text \<open>\<open>Into<IpcError>\<close>; the argument is the \<open>Debug\<close> text of an error.\<close>

definition auth_error_into_ipc :: "(auth_error \<Rightarrow> string) \<Rightarrow> auth_error \<Rightarrow> ipc_error" where
  "auth_error_into_ipc dbg err = (case err of
     AuthUnexpected desc \<Rightarrow> IpcUnexpected desc
   | AuthIpcError e \<Rightarrow> e
   | _ \<Rightarrow> IpcUnexpected (dbg err))"

definition auth_ERR_ENCODE_DECODE_ERROR :: int where [error_code_defs]: "auth_ERR_ENCODE_DECODE_ERROR = - 1"
definition auth_ERR_ASYMMETRIC_DECIPHER_FAILURE :: int where [error_code_defs]: "auth_ERR_ASYMMETRIC_DECIPHER_FAILURE = - 2"
definition auth_ERR_SYMMETRIC_DECIPHER_FAILURE :: int where [error_code_defs]: "auth_ERR_SYMMETRIC_DECIPHER_FAILURE = - 3"
definition auth_ERR_RECEIVED_UNEXPECTED_DATA :: int where [error_code_defs]: "auth_ERR_RECEIVED_UNEXPECTED_DATA = - 4"
definition auth_ERR_RECEIVED_UNEXPECTED_EVENT :: int where [error_code_defs]: "auth_ERR_RECEIVED_UNEXPECTED_EVENT = - 5"
definition auth_ERR_VERSION_CACHE_MISS :: int where [error_code_defs]: "auth_ERR_VERSION_CACHE_MISS = - 6"
definition auth_ERR_ROOT_DIRECTORY_EXISTS :: int where [error_code_defs]: "auth_ERR_ROOT_DIRECTORY_EXISTS = - 7"
definition auth_ERR_RANDOM_DATA_GENERATION_FAILURE :: int where [error_code_defs]: "auth_ERR_RANDOM_DATA_GENERATION_FAILURE = - 8"
definition auth_ERR_OPERATION_FORBIDDEN :: int where [error_code_defs]: "auth_ERR_OPERATION_FORBIDDEN = - 9"
definition auth_ERR_UNSUPPORTED_SALT_SIZE_FOR_PW_HASH :: int where [error_code_defs]: "auth_ERR_UNSUPPORTED_SALT_SIZE_FOR_PW_HASH = - 10"
definition auth_ERR_UNSUCCESSFUL_PW_HASH :: int where [error_code_defs]: "auth_ERR_UNSUCCESSFUL_PW_HASH = - 11"
definition auth_ERR_OPERATION_ABORTED :: int where [error_code_defs]: "auth_ERR_OPERATION_ABORTED = - 12"
definition auth_ERR_SELF_ENCRYPTION :: int where [error_code_defs]: "auth_ERR_SELF_ENCRYPTION = - 13"
definition auth_ERR_REQUEST_TIMEOUT :: int where [error_code_defs]: "auth_ERR_REQUEST_TIMEOUT = - 14"
definition auth_ERR_CONFIG_FILE :: int where [error_code_defs]: "auth_ERR_CONFIG_FILE = - 15"
definition auth_ERR_IO :: int where [error_code_defs]: "auth_ERR_IO = - 16"
definition auth_ERR_ACCESS_DENIED :: int where [error_code_defs]: "auth_ERR_ACCESS_DENIED = - 100"
definition auth_ERR_NO_SUCH_DATA :: int where [error_code_defs]: "auth_ERR_NO_SUCH_DATA = - 101"
definition auth_ERR_DATA_EXISTS :: int where [error_code_defs]: "auth_ERR_DATA_EXISTS = - 102"
definition auth_ERR_NO_SUCH_ENTRY :: int where [error_code_defs]: "auth_ERR_NO_SUCH_ENTRY = - 103"
definition auth_ERR_TOO_MANY_ENTRIES :: int where [error_code_defs]: "auth_ERR_TOO_MANY_ENTRIES = - 104"
definition auth_ERR_NO_SUCH_KEY :: int where [error_code_defs]: "auth_ERR_NO_SUCH_KEY = - 105"
definition auth_ERR_INVALID_OWNERS :: int where [error_code_defs]: "auth_ERR_INVALID_OWNERS = - 106"
definition auth_ERR_INVALID_SUCCESSOR :: int where [error_code_defs]: "auth_ERR_INVALID_SUCCESSOR = - 107"
definition auth_ERR_INVALID_OPERATION :: int where [error_code_defs]: "auth_ERR_INVALID_OPERATION = - 108"
definition auth_ERR_NETWORK_OTHER :: int where [error_code_defs]: "auth_ERR_NETWORK_OTHER = - 109"
definition auth_ERR_INVALID_ENTRY_ACTIONS :: int where [error_code_defs]: "auth_ERR_INVALID_ENTRY_ACTIONS = - 110"
definition auth_ERR_DUPLICATE_MSG_ID :: int where [error_code_defs]: "auth_ERR_DUPLICATE_MSG_ID = - 111"
definition auth_ERR_DUPLICATE_ENTRY_KEYS :: int where [error_code_defs]: "auth_ERR_DUPLICATE_ENTRY_KEYS = - 112"
definition auth_ERR_KEYS_EXIST :: int where [error_code_defs]: "auth_ERR_KEYS_EXIST = - 113"
definition auth_ERR_AUTH_DENIED :: int where [error_code_defs]: "auth_ERR_AUTH_DENIED = - 200"
definition auth_ERR_CONTAINERS_DENIED :: int where [error_code_defs]: "auth_ERR_CONTAINERS_DENIED = - 201"
definition auth_ERR_INVALID_MSG :: int where [error_code_defs]: "auth_ERR_INVALID_MSG = - 202"
definition auth_ERR_ALREADY_AUTHORISED :: int where [error_code_defs]: "auth_ERR_ALREADY_AUTHORISED = - 203"
definition auth_ERR_UNKNOWN_APP :: int where [error_code_defs]: "auth_ERR_UNKNOWN_APP = - 204"
definition auth_ERR_STRING_ERROR :: int where [error_code_defs]: "auth_ERR_STRING_ERROR = - 205"
definition auth_ERR_SHARE_MDATA_DENIED :: int where [error_code_defs]: "auth_ERR_SHARE_MDATA_DENIED = - 206"
definition auth_ERR_INVALID_OWNER :: int where [error_code_defs]: "auth_ERR_INVALID_OWNER = - 207"
definition auth_ERR_INCOMPATIBLE_MOCK_STATUS :: int where [error_code_defs]: "auth_ERR_INCOMPATIBLE_MOCK_STATUS = - 208"
definition auth_ERR_FILE_EXISTS :: int where [error_code_defs]: "auth_ERR_FILE_EXISTS = - 300"
definition auth_ERR_FILE_NOT_FOUND :: int where [error_code_defs]: "auth_ERR_FILE_NOT_FOUND = - 301"
definition auth_ERR_INVALID_RANGE :: int where [error_code_defs]: "auth_ERR_INVALID_RANGE = - 302"
definition auth_ERR_IO_ERROR :: int where [error_code_defs]: "auth_ERR_IO_ERROR = - 1013"
definition auth_ERR_ACCOUNT_CONTAINERS_CREATION :: int where [error_code_defs]: "auth_ERR_ACCOUNT_CONTAINERS_CREATION = - 1014"
definition auth_ERR_NO_SUCH_CONTAINER :: int where [error_code_defs]: "auth_ERR_NO_SUCH_CONTAINER = - 1015"
definition auth_ERR_PENDING_REVOCATION :: int where [error_code_defs]: "auth_ERR_PENDING_REVOCATION = - 1016"
definition auth_ERR_UNEXPECTED :: int where [error_code_defs]: "auth_ERR_UNEXPECTED = - 2000"
definition auth_ERR_INVALID_OWNERS_SUCCESSOR :: int where [error_code_defs]: "auth_ERR_INVALID_OWNERS_SUCCESSOR = - 3001"
definition auth_ERR_INVALID_PERMISSIONS_SUCCESSOR :: int where [error_code_defs]: "auth_ERR_INVALID_PERMISSIONS_SUCCESSOR = - 3002"
definition auth_ERR_SIGN_KEYTYPE_MISMATCH :: int where [error_code_defs]: "auth_ERR_SIGN_KEYTYPE_MISMATCH = - 3003"
definition auth_ERR_INVALID_SIGNATURE :: int where [error_code_defs]: "auth_ERR_INVALID_SIGNATURE = - 3004"
definition auth_ERR_LOSS_OF_PRECISION :: int where [error_code_defs]: "auth_ERR_LOSS_OF_PRECISION = - 4000"
definition auth_ERR_EXCESSIVE_VALUE :: int where [error_code_defs]: "auth_ERR_EXCESSIVE_VALUE = - 4001"
definition auth_ERR_FAILED_TO_PARSE :: int where [error_code_defs]: "auth_ERR_FAILED_TO_PARSE = - 4002"
definition auth_ERR_TRANSACTION_ID_EXISTS :: int where [error_code_defs]: "auth_ERR_TRANSACTION_ID_EXISTS = - 4003"
definition auth_ERR_INSUFFICIENT_BALANCE :: int where [error_code_defs]: "auth_ERR_INSUFFICIENT_BALANCE = - 4004"
definition auth_ERR_BALANCE_EXISTS :: int where [error_code_defs]: "auth_ERR_BALANCE_EXISTS = - 4005"
definition auth_ERR_NO_SUCH_BALANCE :: int where [error_code_defs]: "auth_ERR_NO_SUCH_BALANCE = - 4006"
definition auth_ERR_EXCEEDED_SIZE :: int where [error_code_defs]: "auth_ERR_EXCEEDED_SIZE = - 5001"
definition auth_ERR_NO_SUCH_LOGIN_PACKET :: int where [error_code_defs]: "auth_ERR_NO_SUCH_LOGIN_PACKET = - 5002"
definition auth_ERR_LOGIN_PACKET_EXISTS :: int where [error_code_defs]: "auth_ERR_LOGIN_PACKET_EXISTS = - 5003"
definition auth_ERR_QUIC_P2P :: int where [error_code_defs]: "auth_ERR_QUIC_P2P = - 6000"

definition auth_snd_error_code :: "snd_error \<Rightarrow> int" where
  "auth_snd_error_code err = (case err of
     AccessDenied \<Rightarrow> auth_ERR_ACCESS_DENIED
   | NoSuchLoginPacket \<Rightarrow> auth_ERR_NO_SUCH_LOGIN_PACKET
   | LoginPacketExists \<Rightarrow> auth_ERR_LOGIN_PACKET_EXISTS
   | NoSuchData \<Rightarrow> auth_ERR_NO_SUCH_DATA
   | DataExists \<Rightarrow> auth_ERR_DATA_EXISTS
   | NoSuchEntry \<Rightarrow> auth_ERR_NO_SUCH_ENTRY
   | TooManyEntries \<Rightarrow> auth_ERR_TOO_MANY_ENTRIES
   | InvalidEntryActions _ \<Rightarrow> auth_ERR_INVALID_ENTRY_ACTIONS
   | NoSuchKey \<Rightarrow> auth_ERR_NO_SUCH_KEY
   | KeysExist _ \<Rightarrow> auth_ERR_KEYS_EXIST
   | DuplicateEntryKeys \<Rightarrow> auth_ERR_DUPLICATE_ENTRY_KEYS
   | DuplicateMessageId \<Rightarrow> auth_ERR_DUPLICATE_MSG_ID
   | InvalidOwners \<Rightarrow> auth_ERR_INVALID_OWNERS
   | InvalidSuccessor _ \<Rightarrow> auth_ERR_INVALID_SUCCESSOR
   | InvalidOperation \<Rightarrow> auth_ERR_INVALID_OPERATION
   | NetworkOther _ \<Rightarrow> auth_ERR_NETWORK_OTHER
   | InvalidOwnersSuccessor _ \<Rightarrow> auth_ERR_INVALID_OWNERS_SUCCESSOR
   | InvalidPermissionsSuccessor _ \<Rightarrow> auth_ERR_INVALID_PERMISSIONS_SUCCESSOR
   | SigningKeyTypeMismatch \<Rightarrow> auth_ERR_SIGN_KEYTYPE_MISMATCH
   | InvalidSignature \<Rightarrow> auth_ERR_INVALID_SIGNATURE
   | LossOfPrecision \<Rightarrow> auth_ERR_LOSS_OF_PRECISION
   | ExcessiveValue \<Rightarrow> auth_ERR_EXCESSIVE_VALUE
   | NoSuchBalance \<Rightarrow> auth_ERR_NO_SUCH_BALANCE
   | BalanceExists \<Rightarrow> auth_ERR_BALANCE_EXISTS
   | FailedToParse _ \<Rightarrow> auth_ERR_FAILED_TO_PARSE
   | TransactionIdExists \<Rightarrow> auth_ERR_TRANSACTION_ID_EXISTS
   | InsufficientBalance \<Rightarrow> auth_ERR_INSUFFICIENT_BALANCE
   | ExceededSize \<Rightarrow> auth_ERR_EXCEEDED_SIZE)"

definition auth_core_error_code :: "core_error \<Rightarrow> int" where
  "auth_core_error_code err = (case err of
     EncodeDecodeError _ \<Rightarrow> auth_ERR_ENCODE_DECODE_ERROR
   | AsymmetricDecipherFailure \<Rightarrow> auth_ERR_ASYMMETRIC_DECIPHER_FAILURE
   | SymmetricDecipherFailure \<Rightarrow> auth_ERR_SYMMETRIC_DECIPHER_FAILURE
   | ReceivedUnexpectedData \<Rightarrow> auth_ERR_RECEIVED_UNEXPECTED_DATA
   | ReceivedUnexpectedEvent \<Rightarrow> auth_ERR_RECEIVED_UNEXPECTED_EVENT
   | VersionCacheMiss \<Rightarrow> auth_ERR_VERSION_CACHE_MISS
   | RootDirectoryExists \<Rightarrow> auth_ERR_ROOT_DIRECTORY_EXISTS
   | RandomDataGenerationFailure \<Rightarrow> auth_ERR_RANDOM_DATA_GENERATION_FAILURE
   | OperationForbidden \<Rightarrow> auth_ERR_OPERATION_FORBIDDEN
   | DataError e \<Rightarrow> auth_snd_error_code e
   | QuicP2p _ \<Rightarrow> auth_ERR_QUIC_P2P
   | UnsupportedSaltSizeForPwHash \<Rightarrow> auth_ERR_UNSUPPORTED_SALT_SIZE_FOR_PW_HASH
   | UnsuccessfulPwHash \<Rightarrow> auth_ERR_UNSUCCESSFUL_PW_HASH
   | OperationAborted \<Rightarrow> auth_ERR_OPERATION_ABORTED
   | SelfEncryption _ \<Rightarrow> auth_ERR_SELF_ENCRYPTION
   | RequestTimeout \<Rightarrow> auth_ERR_REQUEST_TIMEOUT
   | ConfigError _ \<Rightarrow> auth_ERR_CONFIG_FILE
   | IoError _ \<Rightarrow> auth_ERR_IO
   | Unexpected _ \<Rightarrow> auth_ERR_UNEXPECTED)"

definition auth_ipc_error_code :: "ipc_error \<Rightarrow> int" where
  "auth_ipc_error_code err = (case err of
     AuthDenied \<Rightarrow> auth_ERR_AUTH_DENIED
   | ContainersDenied \<Rightarrow> auth_ERR_CONTAINERS_DENIED
   | InvalidMsg \<Rightarrow> auth_ERR_INVALID_MSG
   | IpcEncodeDecodeError \<Rightarrow> auth_ERR_ENCODE_DECODE_ERROR
   | AlreadyAuthorised \<Rightarrow> auth_ERR_ALREADY_AUTHORISED
   | UnknownApp \<Rightarrow> auth_ERR_UNKNOWN_APP
   | IpcUnexpected _ \<Rightarrow> auth_ERR_UNEXPECTED
   | StringError _ \<Rightarrow> auth_ERR_STRING_ERROR
   | ShareMDataDenied \<Rightarrow> auth_ERR_SHARE_MDATA_DENIED
   | InvalidOwner _ \<Rightarrow> auth_ERR_INVALID_OWNER
   | IncompatibleMockStatus \<Rightarrow> auth_ERR_INCOMPATIBLE_MOCK_STATUS)"

definition auth_nfs_error_code :: "nfs_error \<Rightarrow> int" where
  "auth_nfs_error_code err = (case err of
     NfsCoreError e \<Rightarrow> auth_core_error_code e
   | FileExists \<Rightarrow> auth_ERR_FILE_EXISTS
   | FileNotFound \<Rightarrow> auth_ERR_FILE_NOT_FOUND
   | InvalidRange \<Rightarrow> auth_ERR_INVALID_RANGE
   | NfsEncodeDecodeError _ \<Rightarrow> auth_ERR_ENCODE_DECODE_ERROR
   | NfsSelfEncryption _ \<Rightarrow> auth_ERR_SELF_ENCRYPTION
   | NfsUnexpected _ \<Rightarrow> auth_ERR_UNEXPECTED)"

definition auth_error_code :: "auth_error \<Rightarrow> int" where
  "auth_error_code err = (case err of
     AuthCoreError e \<Rightarrow> auth_core_error_code e
   | AuthSndError e \<Rightarrow> auth_snd_error_code e
   | AuthIpcError e \<Rightarrow> auth_ipc_error_code e
   | AuthNfsError e \<Rightarrow> auth_nfs_error_code e
   | AuthEncodeDecodeError \<Rightarrow> auth_ERR_ENCODE_DECODE_ERROR
   | AuthIoError _ \<Rightarrow> auth_ERR_IO_ERROR
   | AccountContainersCreation _ \<Rightarrow> auth_ERR_ACCOUNT_CONTAINERS_CREATION
   | AuthNoSuchContainer _ \<Rightarrow> auth_ERR_NO_SUCH_CONTAINER
   | PendingRevocation \<Rightarrow> auth_ERR_PENDING_REVOCATION
   | AuthUnexpected _ \<Rightarrow> auth_ERR_UNEXPECTED)"

subsection \<open>What the codes tell\<close>

lemmas app_code_defs = app_error_code_def app_core_error_code_def app_snd_error_code_def
  app_ipc_error_code_def app_nfs_error_code_def
lemmas auth_code_defs = auth_error_code_def auth_core_error_code_def auth_snd_error_code_def
  auth_ipc_error_code_def auth_nfs_error_code_def

text \<open>
  Converting an error of the core library, of IPC or of NFS into an error of the application
  library keeps its code, although several variants are merged.
\<close>

lemma app_error_conversions_keep_code:
  "app_error_code (app_error_from_core e) = app_core_error_code e \<and>
   app_error_code (app_error_from_ipc i) = app_ipc_error_code i \<and>
   app_error_code (app_error_from_nfs n) = app_nfs_error_code n"
  by (cases e; cases i; cases n)
    (simp_all add: app_error_from_core_def app_error_from_ipc_def app_error_from_nfs_def app_code_defs)

text \<open>The same data error, up to its payload.\<close>

definition same_snd_variant :: "snd_error \<Rightarrow> snd_error \<Rightarrow> bool" where
  "same_snd_variant a b = (case (a, b) of
     (InvalidEntryActions _, InvalidEntryActions _) \<Rightarrow> True
   | (KeysExist _, KeysExist _) \<Rightarrow> True
   | (InvalidSuccessor _, InvalidSuccessor _) \<Rightarrow> True
   | (NetworkOther _, NetworkOther _) \<Rightarrow> True
   | (InvalidOwnersSuccessor _, InvalidOwnersSuccessor _) \<Rightarrow> True
   | (InvalidPermissionsSuccessor _, InvalidPermissionsSuccessor _) \<Rightarrow> True
   | (FailedToParse _, FailedToParse _) \<Rightarrow> True
   | _ \<Rightarrow> a = b)"

text \<open>
  Every code is negative, so that it is told from success, and within either library two data
  errors have the same code only if they are the same variant.
\<close>

theorem error_codes_identify_data_errors:
  "app_error_code err < 0 \<and> auth_error_code err' < 0 \<and>
   (app_snd_error_code a = app_snd_error_code b \<longleftrightarrow> same_snd_variant a b) \<and>
   (auth_snd_error_code a = auth_snd_error_code b \<longleftrightarrow> same_snd_variant a b)"
proof (intro conjI)
  have snd_neg: "app_snd_error_code a < 0" "auth_snd_error_code a < 0" for a
    by (cases a; simp add: app_code_defs auth_code_defs error_code_defs)+
  have core_neg: "app_core_error_code e < 0" "auth_core_error_code e < 0" for e
    by (cases e; simp add: app_core_error_code_def auth_core_error_code_def snd_neg error_code_defs)+
  have ipc_neg: "app_ipc_error_code e < 0" "auth_ipc_error_code e < 0" for e
    by (cases e; simp add: app_ipc_error_code_def auth_ipc_error_code_def error_code_defs)+
  have nfs_neg: "app_nfs_error_code e < 0" "auth_nfs_error_code e < 0" for e
    by (cases e; simp add: app_nfs_error_code_def auth_nfs_error_code_def core_neg error_code_defs)+
  show "app_error_code err < 0"
    by (cases err) (simp_all add: app_error_code_def core_neg ipc_neg nfs_neg error_code_defs)
  show "auth_error_code err' < 0"
    by (cases err') (simp_all add: auth_error_code_def core_neg ipc_neg nfs_neg snd_neg error_code_defs)
  show "app_snd_error_code a = app_snd_error_code b \<longleftrightarrow> same_snd_variant a b"
    by (cases a; cases b) (simp_all add: app_snd_error_code_def same_snd_variant_def error_code_defs)
  show "auth_snd_error_code a = auth_snd_error_code b \<longleftrightarrow> same_snd_variant a b"
    by (cases a; cases b) (simp_all add: auth_snd_error_code_def same_snd_variant_def error_code_defs)
qed

end
