(* ===== verification/Event_Loop.thy ===== *)
theory Event_Loop
  imports Error_Codes "HOL-Library.Sublist"
begin

section \<open>The event loop\<close>

text \<open>
  safe\_core/src/event\_loop.rs, and the parts of safe\_app/src/lib.rs and safe\_authenticator/src/lib.rs that run on it. A thread owns
  the client and its context (the state \<open>'s\<close>); the handles send it closures over a channel. A closure is called when its message
  is received and may return a future, which the runtime polls, in an order of its own choice, until it is ready. A future
  may stay pending for ever, so futures are a codatatype. Calling a closure or polling a future may panic (\<open>None\<close>), which ends the thread.
\<close>

codatatype ('s, 'a) fut = Ready 'a | Pending "'s \<Rightarrow> ('s \<times> ('s, 'a) fut) option"

type_synonym 's tail_future = "('s, unit) fut"

datatype 's core_msg = CoreMsg "'s \<Rightarrow> ('s \<times> 's tail_future option) option" | Terminator

text \<open>
  \<open>el_queue\<close> has the messages that were sent and not yet received, the oldest first, \<open>el_tasks\<close> the futures that were spawned and are not
  yet ready. The loop keeps a sender in its client, so that the channel is not closed while it runs; it ends by
  dropping the receiver, and the runtime with its futures.
\<close>

record 's event_loop =
  el_state :: 's
  el_queue :: "'s core_msg list"
  el_tasks :: "'s tail_future list"
  el_running :: bool

definition new_loop :: "'s \<Rightarrow> 's event_loop" where
  "new_loop s = \<lparr>el_state = s, el_queue = [], el_tasks = [], el_running = True\<rparr>"

definition unbounded_send :: "'s core_msg \<Rightarrow> 's event_loop \<Rightarrow> (unit + unit) \<times> 's event_loop" where
  "unbounded_send msg el =
     (if el_running el then (Ok (), el\<lparr>el_queue := el_queue el @ [msg]\<rparr>) else (Err (), el))"

definition end_loop :: "'s event_loop \<Rightarrow> 's event_loop" where
  "end_loop el = el\<lparr>el_queue := [], el_tasks := [], el_running := False\<rparr>"

definition handle_msg :: "'s core_msg \<Rightarrow> 's event_loop \<Rightarrow> 's event_loop" where
  "handle_msg core_msg el = (case core_msg of
     Terminator \<Rightarrow> end_loop el
   | CoreMsg f \<Rightarrow> (case f (el_state el) of
       None \<Rightarrow> end_loop el
     | Some (s, None) \<Rightarrow> el\<lparr>el_state := s\<rparr>
     | Some (s, Some tail) \<Rightarrow> el\<lparr>el_state := s, el_tasks := el_tasks el @ [tail]\<rparr>))"

definition poll_task :: "nat \<Rightarrow> 's event_loop \<Rightarrow> 's event_loop" where
  "poll_task i el = (case el_tasks el ! i of
     Ready _ \<Rightarrow> el\<lparr>el_tasks := take i (el_tasks el) @ drop (Suc i) (el_tasks el)\<rparr>
   | Pending poll \<Rightarrow> (case poll (el_state el) of
       None \<Rightarrow> end_loop el
     | Some (s, fut) \<Rightarrow> el\<lparr>el_state := s, el_tasks := (el_tasks el)[i := fut]\<rparr>))"

text \<open>What happens to a loop, in any order: a handle sends, the loop receives, the runtime polls.\<close>

datatype 's loop_event = Sent "'s core_msg" bool | Received "'s core_msg" | Polled nat

inductive loop_step :: "'s event_loop \<Rightarrow> 's loop_event \<Rightarrow> 's event_loop \<Rightarrow> bool" where
  send: "unbounded_send msg el = (r, el') \<Longrightarrow> loop_step el (Sent msg (is_ok r)) el'"
| receive: "el_running el \<Longrightarrow> el_queue el = msg # queue \<Longrightarrow>
    loop_step el (Received msg) (handle_msg msg (el\<lparr>el_queue := queue\<rparr>))"
| poll: "el_running el \<Longrightarrow> i < length (el_tasks el) \<Longrightarrow> loop_step el (Polled i) (poll_task i el)"

inductive loop_run :: "'s event_loop \<Rightarrow> 's loop_event list \<Rightarrow> 's event_loop \<Rightarrow> bool" where
  idle: "loop_run el [] el"
| step: "loop_run el tr el1 \<Longrightarrow> loop_step el1 ev el2 \<Longrightarrow> loop_run el (tr @ [ev]) el2"

subsection \<open>The handles of applications and authenticators\<close>

text \<open>
  \<open>App::new\<close>: the thread and its runtime may fail to start (\<open>spawned\<close>, \<open>runtime\<close>), then the client is set up in the thread; when this
  panics, the channel on which the caller waits is closed. A network observer calls the notifier once for each disconnection.
  \<open>send_desc\<close> and \<open>recv_desc\<close> are the descriptions of the errors of the channels.
\<close>

definition app_new ::
  "string \<Rightarrow> (bytes + unit) \<Rightarrow> (bytes + unit) \<Rightarrow> ('w, app_error, 's) prog \<Rightarrow> ('w, app_error, 's event_loop) prog" where
  "app_new recv_desc spawned runtime setup =
     and_then (lift_res (res_map_err AppIoError spawned)) (\<lambda>_.
     and_then (lift_res (res_map_err AppIoError runtime)) (\<lambda>_ w.
       case setup w of
         None \<Rightarrow> Some (Err (app_error_from_str recv_desc), w)
       | Some (r, w') \<Rightarrow> Some (res_map new_loop r, w')))"

definition disconnect_notifications :: "network_event list \<Rightarrow> nat" where
  "disconnect_notifications events = length (filter (\<lambda>event. event = Disconnected) events)"

definition app_send ::
  "string \<Rightarrow> ('s \<Rightarrow> ('s \<times> 's tail_future option) option) \<Rightarrow> 's event_loop \<Rightarrow> (app_error + unit) \<times> 's event_loop" where
  "app_send send_desc f el = (case unbounded_send (CoreMsg f) el of
     (r, el') \<Rightarrow> (res_map_err (\<lambda>_. app_error_from_str send_desc) r, el'))"

definition app_drop :: "'s event_loop \<Rightarrow> 's event_loop" where
  "app_drop el = snd (unbounded_send Terminator el)"

definition auth_send ::
  "string \<Rightarrow> ('s \<Rightarrow> ('s \<times> 's tail_future option) option) \<Rightarrow> 's event_loop \<Rightarrow> (auth_error + unit) \<times> 's event_loop" where
  "auth_send send_desc f el = (case unbounded_send (CoreMsg f) el of
     (r, el') \<Rightarrow> (res_map_err (\<lambda>_. AuthUnexpected send_desc) r, el'))"

definition auth_drop :: "'s event_loop \<Rightarrow> 's event_loop" where
  "auth_drop el = snd (unbounded_send Terminator el)"

text \<open>
  The last part of \<open>create_acc_impl\<close> and \<open>login_impl\<close>: the message of the thread says that the client is ready, or gives an error,
  together with a sender when the loop is running, which is then told to end.
\<close>

definition auth_started ::
  "string \<Rightarrow> string \<Rightarrow> ((bool \<times> auth_error) + unit) option \<Rightarrow> 's event_loop \<Rightarrow> (auth_error + unit) \<times> 's event_loop" where
  "auth_started send_desc recv_desc received el = (case received of
     None \<Rightarrow> (Err (auth_error_from_str recv_desc), el)
   | Some (Ok _) \<Rightarrow> (Ok (), el)
   | Some (Err (False, e)) \<Rightarrow> (Err e, el)
   | Some (Err (True, e)) \<Rightarrow> (case unbounded_send Terminator el of
       (Ok _, el') \<Rightarrow> (Err e, el')
     | (Err _, el') \<Rightarrow> (Err (AuthUnexpected send_desc), el')))"

text \<open>
  \<open>run\<close>: the closure's future is followed by one that sends its result to the caller, who waits for it; \<open>reply\<close> puts the result
  into the state, where the caller finds it.
\<close>

primcorec fut_then :: "('s, 'a) fut \<Rightarrow> ('a \<Rightarrow> 's \<Rightarrow> 's) \<Rightarrow> 's tail_future" where
  "fut_then fut reply = Pending (case fut of
     Ready result \<Rightarrow> (\<lambda>s. Some (reply result s, Ready ()))
   | Pending poll \<Rightarrow> (\<lambda>s. map_option (map_prod (\<lambda>s. s) (\<lambda>fut. fut_then fut reply)) (poll s)))"

definition run_closure ::
  "('s \<Rightarrow> ('s \<times> ('s, 'a) fut) option) \<Rightarrow> ('a \<Rightarrow> 's \<Rightarrow> 's) \<Rightarrow> 's \<Rightarrow> ('s \<times> 's tail_future option) option" where
  "run_closure f reply s = map_option (\<lambda>(s, fut). (s, Some (fut_then fut reply))) (f s)"

definition app_run ::
  "string \<Rightarrow> ('s \<Rightarrow> ('s \<times> ('s, 'a) fut) option) \<Rightarrow> ('a \<Rightarrow> 's \<Rightarrow> 's) \<Rightarrow> 's event_loop \<Rightarrow> (app_error + unit) \<times> 's event_loop" where
  "app_run send_desc f reply = app_send send_desc (run_closure f reply)"

text \<open>The answer for the caller: what was sent, or the error of a channel whose sender is gone.\<close>

definition app_run_recv :: "string \<Rightarrow> 'a app_result option \<Rightarrow> 'a app_result" where
  "app_run_recv recv_desc slot = (case slot of
     Some result \<Rightarrow> result
   | None \<Rightarrow> Err (app_error_from_str recv_desc))"

definition auth_run ::
  "('s \<Rightarrow> ('s \<times> ('s, 'a) fut) option) \<Rightarrow> ('a \<Rightarrow> 's \<Rightarrow> 's) \<Rightarrow> 's event_loop \<Rightarrow> 's event_loop option" where
  "auth_run f reply el = (case unbounded_send (CoreMsg (run_closure f reply)) el of
     (Ok _, el') \<Rightarrow> Some el'
   | (Err _, _) \<Rightarrow> None)"

end
