(* ===== verification/Event_Loop_Props.thy ===== *)
theory Event_Loop_Props
  imports Event_Loop
begin

section \<open>What the handles of an event loop can rely on\<close>

text \<open>
  The messages of a run: those the channel has taken and those the loop has received. The calls are started in the order in which they were
  sent, and none after the message that ends the loop.
\<close>

fun accepted :: "'s loop_event list \<Rightarrow> 's core_msg list" where
  "accepted [] = []"
| "accepted (Sent msg ok # tr) = (if ok then msg # accepted tr else accepted tr)"
| "accepted (Received msg # tr) = accepted tr"
| "accepted (Polled i # tr) = accepted tr"

fun received :: "'s loop_event list \<Rightarrow> 's core_msg list" where
  "received [] = []"
| "received (Sent msg ok # tr) = received tr"
| "received (Received msg # tr) = msg # received tr"
| "received (Polled i # tr) = received tr"

lemma accepted_append [simp]: "accepted (tr @ tr') = accepted tr @ accepted tr'"
  by (induction tr rule: accepted.induct) auto

lemma received_append [simp]: "received (tr @ tr') = received tr @ received tr'"
  by (induction tr rule: received.induct) auto

inductive_cases loop_stepE: "loop_step el ev el'"

lemma end_loop_sel [simp]:
  "el_running (end_loop el) = False" "el_queue (end_loop el) = []" "el_tasks (end_loop el) = []" "el_state (end_loop el) = el_state el"
  by (simp_all add: end_loop_def)

text \<open>A loop that goes on after a message or a poll keeps the messages that wait, and the message did not end it.\<close>

lemma handle_msg_cases:
  "(el_running (handle_msg msg el) \<longrightarrow> msg \<noteq> Terminator \<and> el_queue (handle_msg msg el) = el_queue el)"
  by (cases msg) (auto simp: handle_msg_def split: option.splits)

lemma poll_task_queue: "el_running (poll_task i el) \<Longrightarrow> el_queue (poll_task i el) = el_queue el"
  by (auto simp: poll_task_def split: fut.splits option.splits)

definition in_order :: "'s loop_event list \<Rightarrow> 's event_loop \<Rightarrow> bool" where
  "in_order tr el \<longleftrightarrow> prefix (received tr) (accepted tr) \<and> Terminator \<notin> set (butlast (received tr)) \<and>
     (el_running el \<longrightarrow> accepted tr = received tr @ el_queue el \<and> Terminator \<notin> set (received tr))"

lemma in_order_step:
  assumes ordered: "in_order tr el" and step: "loop_step el ev el'"
  shows "in_order (tr @ [ev]) el'"
  using step
proof (cases rule: loop_step.cases)
  case (send msg r)
  then show ?thesis
    using ordered by (auto simp: in_order_def unbounded_send_def is_ok_def split: if_splits)
next
  case (receive msg queue)
  then show ?thesis
    using ordered handle_msg_cases [of msg "el\<lparr>el_queue := queue\<rparr>"] by (auto simp: in_order_def butlast_append)
next
  case (poll i)
  then show ?thesis
    using ordered poll_task_queue [of i el] by (auto simp: in_order_def)
qed

lemma loop_run_in_order:
  assumes "loop_run el0 tr el" "el0 = new_loop s"
  shows "in_order tr el"
  using assms
proof (induction rule: loop_run.induct)
  case (idle el)
  then show ?case
    by (simp add: in_order_def new_loop_def)
qed (blast intro: in_order_step)

lemma ended_loop_step: "loop_step el ev el' \<Longrightarrow> \<not> el_running el \<Longrightarrow> el' = el \<and> received [ev] = [] \<and> accepted [ev] = []"
  by (erule loop_stepE) (auto simp: unbounded_send_def is_ok_def)

lemma ended_loop_run:
  assumes "loop_run el tr el'" "\<not> el_running el"
  shows "el' = el \<and> received tr = [] \<and> accepted tr = []"
  using assms by (induction rule: loop_run.induct) (auto dest: ended_loop_step)

lemma prefix_upto:
  assumes "prefix xs (before @ x # later)" "x \<notin> set (butlast xs)"
  shows "prefix xs (before @ [x])"
proof (cases "length xs \<le> Suc (length before)")
  case True
  have "prefix (before @ [x]) (before @ x # later)"
    by simp
  then show ?thesis
    using True assms(1) by (metis length_append_singleton prefix_length_prefix)
next
  case False
  have "prefix (before @ [x]) (before @ x # later)"
    by simp
  then have "prefix (before @ [x]) xs"
    using False assms(1) by (metis length_append_singleton nle_le prefix_length_prefix)
  then obtain ys where "xs = before @ x # ys" "ys \<noteq> []"
    using False by (auto simp: prefix_def)
  then show ?thesis
    using assms(2) by (auto simp: butlast_append)
qed

text \<open>
  (C18) The event loop of an application: in every run, whatever the order in which its futures are polled, the calls are started in the
  order in which they were sent and each at most once; as long as the loop runs, every call that was accepted is started or still waits. After
  the message that dropping the handle sends no later call is started, and once it is received the loop has ended. When the loop
  has ended, for whatever reason, nothing touches the client and its context any more, and every further call is refused with an error.
\<close>

theorem calls_in_order:
  assumes run: "loop_run (new_loop s) tr el"
  shows "prefix (received tr) (accepted tr) \<and>
    (el_running el \<longrightarrow> accepted tr = received tr @ el_queue el \<and> Terminator \<notin> set (received tr)) \<and>
    (\<forall>before later. accepted tr = before @ Terminator # later \<longrightarrow> prefix (received tr) (before @ [Terminator])) \<and>
    (\<not> el_running el \<longrightarrow> (\<forall>tr' el'. loop_run el tr' el' \<longrightarrow>
       el_state el' = el_state el \<and> received tr' = [] \<and> app_send desc f el' = (Err (AppUnexpected desc), el')))"
proof -
  have order: "prefix (received tr) (accepted tr)" "Terminator \<notin> set (butlast (received tr))"
      "el_running el \<longrightarrow> accepted tr = received tr @ el_queue el \<and> Terminator \<notin> set (received tr)"
    using loop_run_in_order [OF run] by (simp_all add: in_order_def)
  have "prefix (received tr) (before @ [Terminator])" if "accepted tr = before @ Terminator # later" for before later
    using prefix_upto order(1,2) that by metis
  moreover have "el_state el' = el_state el \<and> received tr' = [] \<and> app_send desc f el' = (Err (AppUnexpected desc), el')"
    if "\<not> el_running el" "loop_run el tr' el'" for tr' el'
    using ended_loop_run [OF that(2,1)] that(1) by (simp add: app_send_def unbounded_send_def app_error_from_str_def)
  ultimately show ?thesis
    using order(1,3) by blast
qed

text \<open>A handle is dropped between two calls: the first is started, the second is accepted but never started.\<close>

definition add_call :: "nat \<Rightarrow> nat core_msg" where
  "add_call n = CoreMsg (\<lambda>s. Some (s + n, None))"

lemma sample_loop_run:
  "\<exists>el. loop_run (new_loop 0) [Sent (add_call 1) True, Sent Terminator True, Sent (add_call 5) True, Received (add_call 1), Received Terminator] el \<and>
     \<not> el_running el \<and> el_state el = 1"
proof -
  define ms where "ms = [add_call 1, Terminator, add_call 5]"
  define q where "q n st = \<lparr>el_state = st, el_queue = drop n ms, el_tasks = [], el_running = True\<rparr>" for n :: nat and st :: nat
  have sent: "loop_run (new_loop 0) [Sent (add_call 1) True, Sent Terminator True, Sent (add_call 5) True] (q 0 0)"
    using loop_run.step [OF loop_run.step [OF loop_run.step [OF loop_run.idle loop_step.send] loop_step.send] loop_step.send,
        of "add_call 1" "new_loop 0" "Ok ()" _ Terminator "Ok ()" _ "add_call 5" "Ok ()" "q 0 0"]
    by (simp add: unbounded_send_def new_loop_def q_def ms_def)
  have first: "loop_step (q 0 0) (Received (add_call 1)) (q 1 1)"
    using loop_step.receive [of "q 0 0" "add_call 1" "drop 1 ms"]
    by (simp add: q_def ms_def handle_msg_def add_call_def)
  have last_one: "loop_step (q 1 1) (Received Terminator) (end_loop (q 2 1))"
    using loop_step.receive [of "q 1 1" Terminator "drop 2 ms"]
    by (simp add: q_def ms_def handle_msg_def)
  show ?thesis
    using loop_run.step [OF loop_run.step [OF sent first] last_one] by (auto simp: q_def)
qed

theorem calls_in_order_witness:
  "\<exists>tr el. loop_run (new_loop (0 :: nat)) tr el \<and> \<not> el_running el \<and> el_state el = 1 \<and> add_call 5 \<in> set (accepted tr) \<and>
     prefix (received tr) [add_call 1, Terminator] \<and> app_send ''send failed'' (\<lambda>s. None) el = (Err (AppUnexpected ''send failed''), el)"
proof -
  define tr where "tr = [Sent (add_call 1) True, Sent Terminator True, Sent (add_call 5) True, Received (add_call 1), Received Terminator]"
  obtain el where run: "loop_run (new_loop 0) tr el" "\<not> el_running el" "el_state el = 1"
    using sample_loop_run unfolding tr_def by blast
  have all: "accepted tr = [add_call 1] @ Terminator # [add_call 5]"
    by (simp add: tr_def)
  show ?thesis
  proof (intro exI conjI)
    show "prefix (received tr) [add_call 1, Terminator]"
      using calls_in_order [OF run(1), of "[]" "\<lambda>s. None"] all by (metis append_Cons append_Nil)
    show "app_send ''send failed'' (\<lambda>s. None) el = (Err (AppUnexpected ''send failed''), el)"
      using calls_in_order [OF run(1), of "''send failed''" "\<lambda>s. None"] run(2) loop_run.idle by blast
  qed (use run all in auto)
qed

subsection \<open>Waiting for a result\<close>

text \<open>\<open>resolves fut s n r s'\<close>: polled on its own from \<open>s\<close>, the future is ready with \<open>r\<close> after \<open>n\<close> polls, in \<open>s'\<close>.\<close>

inductive resolves :: "('s, 'a) fut \<Rightarrow> 's \<Rightarrow> nat \<Rightarrow> 'a \<Rightarrow> 's \<Rightarrow> bool" where
  ready: "resolves (Ready r) s 0 r s"
| pending: "poll s = Some (s1, fut) \<Longrightarrow> resolves fut s1 n r s' \<Longrightarrow> resolves (Pending poll) s (Suc n) r s'"

definition is_sent :: "'s loop_event \<Rightarrow> bool" where
  "is_sent ev = (case ev of Sent _ _ \<Rightarrow> True | _ \<Rightarrow> False)"

definition idle_loop :: "'s \<Rightarrow> 's tail_future list \<Rightarrow> 's event_loop" where
  "idle_loop s tasks = \<lparr>el_state = s, el_queue = [], el_tasks = tasks, el_running = True\<rparr>"

lemma loop_run_trans: "loop_run el tr el1 \<Longrightarrow> loop_run el1 tr' el2 \<Longrightarrow> loop_run el (tr @ tr') el2"
  by (rotate_tac, induction rule: loop_run.induct) (auto intro: loop_run.step simp flip: append_assoc)

lemma loop_run_Nil: "loop_run el [] el' \<longleftrightarrow> el' = el"
  by (auto elim: loop_run.cases intro: loop_run.idle)

lemma loop_run_Cons: "loop_run el (ev # tr) el2 \<longleftrightarrow> (\<exists>el1. loop_step el ev el1 \<and> loop_run el1 tr el2)"
proof
  show "loop_run el (ev # tr) el2 \<Longrightarrow> \<exists>el1. loop_step el ev el1 \<and> loop_run el1 tr el2"
  proof (induction tr arbitrary: el2 rule: rev_induct)
    case Nil
    from Nil.prems obtain el' where "loop_run el [] el'" "loop_step el' ev el2"
      by (cases rule: loop_run.cases) auto
    then show ?case
      by (auto simp: loop_run_Nil)
  next
    case (snoc ev' tr)
    from snoc.prems obtain el' where "loop_run el (ev # tr) el'" "loop_step el' ev' el2"
      by (cases rule: loop_run.cases) auto
    then show ?case
      using snoc.IH by (blast intro: loop_run.step)
  qed
  show "\<exists>el1. loop_step el ev el1 \<and> loop_run el1 tr el2 \<Longrightarrow> loop_run el (ev # tr) el2"
    using loop_run_trans [OF loop_run.step [OF loop_run.idle], of el ev _ tr el2] by auto
qed

text \<open>A loop with nothing to receive and one future does nothing but poll it.\<close>

lemma idle_step:
  assumes "\<not> is_sent ev"
  shows "loop_step (idle_loop s []) ev el \<longleftrightarrow> False"
    "loop_step (idle_loop s [t]) ev el \<longleftrightarrow> ev = Polled 0 \<and> el = poll_task 0 (idle_loop s [t])"
  using assms by (auto simp: idle_loop_def is_sent_def intro: loop_step.poll elim!: loop_stepE)

lemma poll_fut_then:
  "poll_task 0 (idle_loop s [fut_then (Ready r) reply]) = idle_loop (reply r s) [Ready ()]"
  "poll s = Some (s1, fut) \<Longrightarrow> poll_task 0 (idle_loop s [fut_then (Pending poll) reply]) = idle_loop s1 [fut_then fut reply]"
  "poll_task 0 (idle_loop s [Ready ()]) = idle_loop s []"
  by (simp_all add: poll_task_def idle_loop_def fut_then.code)

definition progresses :: "nat \<Rightarrow> 's event_loop \<Rightarrow> 's event_loop \<Rightarrow> bool" where
  "progresses n el el_done \<longleftrightarrow> (\<forall>tr el'. loop_run el tr el' \<and> (\<forall>ev \<in> set tr. \<not> is_sent ev) \<longrightarrow>
     (length tr = n \<and> el' = el_done) \<or> (length tr < n \<and> (\<exists>ev el2. \<not> is_sent ev \<and> loop_step el' ev el2)))"

lemma progresses_done: "progresses 0 (idle_loop s []) (idle_loop s [])"
  unfolding progresses_def
proof (intro allI impI)
  fix tr el' assume "loop_run (idle_loop s []) tr el' \<and> (\<forall>ev \<in> set tr. \<not> is_sent ev)"
  then show "(length tr = 0 \<and> el' = idle_loop s []) \<or> (length tr < 0 \<and> (\<exists>ev el2. \<not> is_sent ev \<and> loop_step el' ev el2))"
    by (cases tr) (auto simp: loop_run_Nil loop_run_Cons idle_step)
qed

lemma progresses_step:
  assumes step: "\<And>ev el'. \<not> is_sent ev \<Longrightarrow> loop_step el ev el' \<longleftrightarrow> ev = e \<and> el' = next_el"
    and first: "\<not> is_sent e" and rest: "progresses n next_el el_done"
  shows "progresses (Suc n) el el_done"
  unfolding progresses_def
proof (intro allI impI)
  fix tr el' assume run: "loop_run el tr el' \<and> (\<forall>ev \<in> set tr. \<not> is_sent ev)"
  show "(length tr = Suc n \<and> el' = el_done) \<or> (length tr < Suc n \<and> (\<exists>ev el2. \<not> is_sent ev \<and> loop_step el' ev el2))"
  proof (cases tr)
    case Nil
    then show ?thesis
      using run step first by (auto simp: loop_run_Nil)
  next
    case (Cons ev tr1)
    then have "loop_run next_el tr1 el' \<and> (\<forall>ev \<in> set tr1. \<not> is_sent ev)"
      using run step by (auto simp: loop_run_Cons)
    then have "(length tr1 = n \<and> el' = el_done) \<or> (length tr1 < n \<and> (\<exists>ev el2. \<not> is_sent ev \<and> loop_step el' ev el2))"
      using rest unfolding progresses_def by blast
    then show ?thesis
      unfolding Cons by auto
  qed
qed

lemma progresses_poll:
  "progresses n (poll_task 0 (idle_loop s [t])) el_done \<Longrightarrow> progresses (Suc n) (idle_loop s [t]) el_done"
  by (rule progresses_step [where e = "Polled 0"]) (auto simp: idle_step is_sent_def)

lemma progresses_future:
  "resolves fut s n r s' \<Longrightarrow> progresses (Suc (Suc n)) (idle_loop s [fut_then fut reply]) (idle_loop (reply r s') [])"
  by (induction rule: resolves.induct) (auto intro!: progresses_poll progresses_done simp: poll_fut_then)

text \<open>
  (C19) Waiting for the result of a call terminates: when a closure is run on an idle loop and its future, polled on its own, is ready with a
  result after \<open>n\<close> polls, then \<open>n + 3\<close> steps of the loop, in any run without further calls, hand exactly this result to the caller and leave the
  client in exactly the state that the future left, with nothing else to do; before that, a step is always possible.
\<close>

theorem run_is_answered:
  assumes closure: "f s = Some (s1, fut)" "resolves fut s1 n r s'"
    and sent: "app_run desc f reply (new_loop s) = (Ok (), el)"
    and run: "loop_run el tr el'" "\<forall>ev \<in> set tr. \<not> is_sent ev"
  shows "(length tr = n + 3 \<and> el' = new_loop (reply r s')) \<or>
    (length tr < n + 3 \<and> (\<exists>ev el2. \<not> is_sent ev \<and> loop_step el' ev el2))"
proof -
  let ?msg = "CoreMsg (run_closure f reply)"
  have el: "el = \<lparr>el_state = s, el_queue = [?msg], el_tasks = [], el_running = True\<rparr>"
    using sent by (simp add: app_run_def app_send_def unbounded_send_def new_loop_def)
  have received: "handle_msg ?msg (idle_loop s []) = idle_loop s1 [fut_then fut reply]"
    using closure(1) by (simp add: handle_msg_def run_closure_def idle_loop_def)
  have "loop_step el ev el2 \<longleftrightarrow> ev = Received ?msg \<and> el2 = idle_loop s1 [fut_then fut reply]" if "\<not> is_sent ev" for ev el2
    using that received loop_step.receive [of el ?msg "[]"] by (auto simp: el is_sent_def idle_loop_def elim!: loop_stepE)
  then have "progresses (Suc (Suc (Suc n))) el (idle_loop (reply r s') [])"
    by (rule progresses_step) (auto simp: is_sent_def intro: progresses_future closure(2))
  moreover have "Suc (Suc (Suc n)) = n + 3" "idle_loop (reply r s') [] = new_loop (reply r s')"
    by (simp_all add: new_loop_def idle_loop_def)
  ultimately show ?thesis
    using run unfolding progresses_def by metis
qed

text \<open>A future that is ready after one poll, which adds two to the state; the result is kept in the second component.\<close>

definition add_future :: "nat \<times> nat option \<Rightarrow> ((nat \<times> nat option) \<times> (nat \<times> nat option, nat) fut) option" where
  "add_future s = Some (s, Pending (\<lambda>(v, slot). Some ((v + 2, slot), Ready (v + 2))))"

theorem run_is_answered_witness:
  "\<exists>el tr el'. app_run [] add_future (\<lambda>r (v, slot). (v, Some r)) (new_loop (5, None)) = (Ok (), el) \<and>
     loop_run el tr el' \<and> el' = new_loop (7, Some 7)"
proof -
  let ?reply = "\<lambda>r (v, slot). (v, Some r)"
  obtain el where sent: "app_run [] add_future ?reply (new_loop (5, None)) = (Ok (), el)"
    by (simp add: app_run_def app_send_def unbounded_send_def new_loop_def)
  have fut: "resolves (Pending (\<lambda>(v, slot). Some ((v + 2, slot), Ready (v + 2)))) (5 :: nat, None :: nat option) 1 7 (7, None)"
    by (rule resolves.pending [of _ _ "(7, None)" "Ready 7" 0, unfolded One_nat_def [symmetric]]) (simp_all add: resolves.ready)
  note answered = run_is_answered [OF _ fut sent, unfolded add_future_def, OF HOL.refl]
  have "\<exists>tr el'. loop_run el tr el' \<and> (\<forall>ev \<in> set tr. \<not> is_sent ev) \<and> length tr = k" if "k \<le> 4" for k
    using that
  proof (induction k)
    case 0
    show ?case
      using loop_run.idle by fastforce
  next
    case (Suc k)
    then obtain tr el' where tr: "loop_run el tr el'" "\<forall>ev \<in> set tr. \<not> is_sent ev" "length tr = k"
      by auto
    with Suc.prems obtain ev el2 where "\<not> is_sent ev" "loop_step el' ev el2"
      using answered [OF tr(1,2)] by auto
    then show ?case
      using tr by (intro exI [of _ "tr @ [ev]"] exI [of _ el2]) (auto intro: loop_run.step)
  qed
  from this [of 4] obtain tr el' where tr: "loop_run el tr el'" "\<forall>ev \<in> set tr. \<not> is_sent ev" "length tr = 4"
    by auto
  then show ?thesis
    using answered [OF tr(1,2)] sent by auto
qed

end
