(* ===== verification/Ipc_Resp.thy ===== *)
theory Ipc_Resp
  imports Ipc_Req
begin

section \<open>IPC responses and messages\<close>

text \<open>
  What the authenticator sends back to an application (safe\_core/src/ipc/resp.rs), the C
  representations (ffi/ipc/resp.rs), and the encoding of messages (ipc/mod.rs). The serialisers of the
  keys and of the list of bootstrap nodes, the conversions of BLS keys and the generation of keys are
  the fields of \<open>ipc_ops\<close>; the list of bootstrap nodes is an opaque byte string.
\<close>

type_synonym bootstrap_config = bytes

record app_keys =
  ak_app_full_id :: app_full_id
  ak_enc_key :: sym_key
  ak_enc_pk :: bytes
  ak_enc_sk :: bytes

record ipc_ops = ffi_ops +
  rnd_app_full_id :: "nat \<Rightarrow> client_public_id \<Rightarrow> app_full_id"
  rnd_keypair :: "nat \<Rightarrow> bytes \<times> bytes"
  ser_full_id :: "app_full_id \<Rightarrow> bytes + bytes"
  de_full_id :: "bytes \<Rightarrow> bytes + app_full_id"
  ser_sk :: "bytes \<Rightarrow> bytes + bytes"
  de_sk :: "bytes \<Rightarrow> bytes + bytes"
  ser_bootstrap :: "bootstrap_config \<Rightarrow> bytes + bytes"
  de_bootstrap :: "bytes \<Rightarrow> bytes + bootstrap_config"
  bls_to_bytes :: "bytes \<Rightarrow> bytes"
  bls_from_bytes :: "bytes \<Rightarrow> string + bytes" \<comment> \<open>with the text of the error\<close>
  pk_bls :: "public_key \<Rightarrow> bytes option" \<comment> \<open>the key inside \<open>PublicKey::Bls\<close>\<close>
  pk_from_bls :: "bytes \<Rightarrow> public_key"

text \<open>Each decoder undoes its encoder.\<close>

definition ipc_laws :: "ipc_ops \<Rightarrow> bool" where
  "ipc_laws io \<longleftrightarrow> ffi_laws (ffi_ops.truncate io) \<and>
     codec_pair (ser_full_id io) (de_full_id io) \<and> codec_pair (ser_sk io) (de_sk io) \<and>
     codec_pair (ser_bootstrap io) (de_bootstrap io) \<and>
     (\<forall>k. bls_from_bytes io (bls_to_bytes io k) = Ok k) \<and>
     (\<forall>k b. pk_bls io k = Some b \<longrightarrow> pk_from_bls io b = k)"

abbreviation ffi :: "ipc_ops \<Rightarrow> ffi_ops" where
  "ffi io \<equiv> ffi_ops.truncate io"

definition from_serialisation :: "'e + 'a \<Rightarrow> 'a ipc_result" where
  "from_serialisation r = res_map_err (\<lambda>_. IpcEncodeDecodeError) r"

subsection \<open>Keys of an application\<close>

definition app_keys_new :: "crypto_ops \<Rightarrow> ipc_ops \<Rightarrow> client_public_id \<Rightarrow> ('n, 'z, app_keys) wm" where
  "app_keys_new co io client_public_id =
     and_then (draw (rnd_keypair io)) (\<lambda>(pk, sk).
     and_then (draw (\<lambda>i. rnd_app_full_id io i client_public_id)) (\<lambda>full_id.
     and_then (draw (rnd_key co)) (\<lambda>key.
       lift_res (Ok \<lparr>ak_app_full_id = full_id, ak_enc_key = key, ak_enc_pk = pk, ak_enc_sk = sk\<rparr>))))"

definition app_safe_key :: "app_keys \<Rightarrow> safe_key" where
  "app_safe_key keys = SafeApp (ak_app_full_id keys)"

definition app_keys_public_key :: "'n client_env \<Rightarrow> app_keys \<Rightarrow> public_key" where
  "app_keys_public_key env keys = app_public_key (ce_nd env) (full_app_id env (ak_app_full_id keys))"

record ffi_app_keys =
  fk_full_id :: bytes
  fk_enc_key :: bytes
  fk_enc_pk :: bytes
  fk_enc_sk :: bytes

definition app_keys_into_repr_c :: "ipc_ops \<Rightarrow> app_keys \<Rightarrow> ffi_app_keys ipc_result" where
  "app_keys_into_repr_c io keys =
     res_and_then (from_serialisation (ser_full_id io (ak_app_full_id keys))) (\<lambda>full_id.
     res_map (\<lambda>sk. \<lparr>fk_full_id = full_id, fk_enc_key = ak_enc_key keys,
         fk_enc_pk = bls_to_bytes io (ak_enc_pk keys), fk_enc_sk = sk\<rparr>)
       (from_serialisation (ser_sk io (ak_enc_sk keys))))"

definition app_keys_clone_from_repr_c :: "ipc_ops \<Rightarrow> ffi_app_keys \<Rightarrow> app_keys ipc_result" where
  "app_keys_clone_from_repr_c io c =
     res_and_then (from_serialisation (de_full_id io (fk_full_id c))) (\<lambda>full_id.
     res_and_then (from_serialisation (de_sk io (fk_enc_sk c))) (\<lambda>sk.
     res_map (\<lambda>pk. \<lparr>ak_app_full_id = full_id, ak_enc_key = fk_enc_key c, ak_enc_pk = pk, ak_enc_sk = sk\<rparr>)
       (res_map_err ipc_error_from_str (bls_from_bytes io (fk_enc_pk c)))))"

subsection \<open>The entry of an application in the access container\<close>

type_synonym access_container_entry = "(bytes, mdata_info \<times> container_permissions) hashmap"

record ffi_container_info =
  fci_name :: bytes
  fci_mdata_info :: ffi_mdata_info
  fci_permissions :: ffi_permission_set

definition container_info_into_repr_c ::
  "bytes \<times> mdata_info \<times> container_permissions \<Rightarrow> bytes + ffi_container_info" where
  "container_info_into_repr_c = (\<lambda>(name, info, permissions).
     res_map (\<lambda>n. \<lparr>fci_name = n, fci_mdata_info = mdata_info_into_repr_c info,
         fci_permissions = container_perms_into_repr_c permissions\<rparr>)
       (cstring_new name))"

definition container_info_from_repr_c ::
  "ipc_ops \<Rightarrow> ffi_container_info \<Rightarrow> (bytes \<times> mdata_info \<times> container_permissions) ipc_result" where
  "container_info_from_repr_c io c =
     res_and_then (clone_string (ffi io) (fci_name c)) (\<lambda>name.
     res_map (\<lambda>permissions. (name, mdata_info_clone_from_repr_c (fci_mdata_info c), permissions))
       (container_perms_from_repr_c (fci_permissions c)))"

definition access_container_entry_into_repr_c ::
  "access_container_entry \<Rightarrow> bytes + ffi_container_info list" where
  "access_container_entry_into_repr_c entry = try_map container_info_into_repr_c entry"

definition access_container_entry_clone_from_repr_c ::
  "ipc_ops \<Rightarrow> ffi_container_info list \<Rightarrow> access_container_entry ipc_result" where
  "access_container_entry_clone_from_repr_c io input =
     res_map (\<lambda>kvs. fold (\<lambda>(k, v). hm_insert k v) kvs []) (try_map (container_info_from_repr_c io) input)"

record access_cont_info =
  ac_id :: xor_name
  ac_tag :: u64
  ac_nonce :: sym_nonce

record ffi_access_cont_info =
  fac_id :: bytes
  fac_tag :: u64
  fac_nonce :: bytes

definition access_cont_info_into_repr_c :: "access_cont_info \<Rightarrow> ffi_access_cont_info" where
  "access_cont_info_into_repr_c info = \<lparr>fac_id = xn_bytes (ac_id info), fac_tag = ac_tag info, fac_nonce = ac_nonce info\<rparr>"

definition access_cont_info_clone_from_repr_c :: "ffi_access_cont_info \<Rightarrow> access_cont_info" where
  "access_cont_info_clone_from_repr_c c = \<lparr>ac_id = XorName (fac_id c), ac_tag = fac_tag c, ac_nonce = fac_nonce c\<rparr>"

definition into_mdata_info :: "access_cont_info \<Rightarrow> sym_key \<Rightarrow> mdata_info" where
  "into_mdata_info info enc_key = new_private (MSeqAddr (ac_id info) (ac_tag info)) (enc_key, ac_nonce info)"

definition from_mdata_info :: "mdata_info \<Rightarrow> access_cont_info ipc_result" where
  "from_mdata_info md = (case mi_enc_info md of
     Some (_, nonce) \<Rightarrow> Ok \<lparr>ac_id = mi_name md, ac_tag = mi_type_tag md, ac_nonce = nonce\<rparr>
   | None \<Rightarrow> Err (IpcUnexpected ''MDataInfo doesn't contain nonce''))"

definition access_container_enc_key ::
  "crypto_ops \<Rightarrow> bytes \<Rightarrow> sym_key \<Rightarrow> sym_nonce \<Rightarrow> ('n, 'z, bytes) wm" where
  "access_container_enc_key co app_id app_enc_key access_container_nonce =
     (let key_nonce = take SYM_ENC_NONCE_LEN (sha3_256 co (app_id @ access_container_nonce)) in
      symmetric_encrypt co app_id app_enc_key (Some key_nonce))"

subsection \<open>A granted authorisation\<close>

record auth_granted =
  ag_app_keys :: app_keys
  ag_bootstrap_config :: bootstrap_config
  ag_access_container_info :: access_cont_info
  ag_access_container_entry :: access_container_entry

record ffi_auth_granted =
  fg_app_keys :: ffi_app_keys
  fg_access_container_info :: ffi_access_cont_info
  fg_access_container_entry :: "ffi_container_info list"
  fg_bootstrap_config :: bytes

definition auth_granted_into_repr_c :: "ipc_ops \<Rightarrow> auth_granted \<Rightarrow> ffi_auth_granted ipc_result" where
  "auth_granted_into_repr_c io granted =
     res_and_then (from_serialisation (ser_bootstrap io (ag_bootstrap_config granted))) (\<lambda>config.
     res_and_then (app_keys_into_repr_c io (ag_app_keys granted)) (\<lambda>keys.
     res_map (\<lambda>entry. \<lparr>fg_app_keys = keys,
         fg_access_container_info = access_cont_info_into_repr_c (ag_access_container_info granted),
         fg_access_container_entry = entry, fg_bootstrap_config = config\<rparr>)
       (res_map_err ipc_error_from_nul (access_container_entry_into_repr_c (ag_access_container_entry granted)))))"

definition auth_granted_clone_from_repr_c :: "ipc_ops \<Rightarrow> ffi_auth_granted \<Rightarrow> auth_granted ipc_result" where
  "auth_granted_clone_from_repr_c io c =
     res_and_then (from_serialisation (de_bootstrap io (fg_bootstrap_config c))) (\<lambda>config.
     res_and_then (app_keys_clone_from_repr_c io (fg_app_keys c)) (\<lambda>keys.
     res_map (\<lambda>entry. \<lparr>ag_app_keys = keys, ag_bootstrap_config = config,
         ag_access_container_info = access_cont_info_clone_from_repr_c (fg_access_container_info c),
         ag_access_container_entry = entry\<rparr>)
       (access_container_entry_clone_from_repr_c io (fg_access_container_entry c))))"

subsection \<open>Applications that have access to data\<close>

record app_access =
  aa_sign_key :: public_key
  aa_permissions :: perm_set
  aa_name :: "bytes option"
  aa_app_id :: "bytes option"

record ffi_app_access =
  fpa_sign_key :: bytes
  fpa_permissions :: ffi_permission_set
  fpa_name :: "bytes option"
  fpa_app_id :: "bytes option"

definition app_access_into_repr_c :: "ipc_ops \<Rightarrow> perm_ops \<Rightarrow> app_access \<Rightarrow> ffi_app_access ipc_result" where
  "app_access_into_repr_c io po access =
     res_and_then (into_nullable (cstring_or_string_error (ffi io)) (aa_name access)) (\<lambda>name.
     res_and_then (into_nullable (cstring_or_string_error (ffi io)) (aa_app_id access)) (\<lambda>app_id.
     res_map (\<lambda>sign_key. \<lparr>fpa_sign_key = sign_key,
         fpa_permissions = permission_set_into_repr_c po (aa_permissions access),
         fpa_name = name, fpa_app_id = app_id\<rparr>)
       (res_map (bls_to_bytes io)
         (ok_or (ipc_error_from_str ''Unsupported key type'') (pk_bls io (aa_sign_key access))))))"

text \<open>
  The pointer of the identifier is read when the pointer of the name is not null. \<open>None\<close> is the
  dereference of a null pointer.
\<close>

definition app_access_clone_from_repr_c ::
  "ipc_ops \<Rightarrow> perm_ops \<Rightarrow> ffi_app_access \<Rightarrow> app_access ipc_result option" where
  "app_access_clone_from_repr_c io po c =
     (case res_map_err (\<lambda>_. IpcEncodeDecodeError) (bls_from_bytes io (fpa_sign_key c)) of
        Err e \<Rightarrow> Some (Err e)
      | Ok key \<Rightarrow>
     (case permission_set_clone_from_repr_c po (fpa_permissions c) of
        Err e \<Rightarrow> Some (Err e)
      | Ok permissions \<Rightarrow>
     (case into_nullable (clone_string (ffi io)) (fpa_name c) of
        Err e \<Rightarrow> Some (Err e)
      | Ok name \<Rightarrow>
          let access = (\<lambda>i. \<lparr>aa_sign_key = pk_from_bls io key, aa_permissions = permissions, aa_name = name, aa_app_id = i\<rparr>) in
          if fpa_name c = None then Some (Ok (access None))
          else (case fpa_app_id c of
              None \<Rightarrow> None
            | Some i \<Rightarrow> Some (res_map (\<lambda>i. access (Some i)) (clone_string (ffi io) i))))))"

subsection \<open>Metadata and entries\<close>

record user_metadata =
  um_name :: "bytes option"
  um_description :: "bytes option"

record ffi_metadata_response =
  fmr_name :: "bytes option"
  fmr_description :: "bytes option"
  fmr_xor_name :: bytes
  fmr_type_tag :: u64

definition METADATA_KEY :: bytes where
  "METADATA_KEY = [0x5F, 0x6D, 0x65, 0x74, 0x61, 0x64, 0x61, 0x74, 0x61]" \<comment> \<open>\<open>_metadata\<close>\<close>

definition METADATA_KEY_LEN :: nat where
  "METADATA_KEY_LEN = 9"

definition into_md_response :: "user_metadata \<Rightarrow> xor_name \<Rightarrow> u64 \<Rightarrow> bytes + ffi_metadata_response" where
  "into_md_response md xor_name type_tag =
     res_and_then (into_nullable cstring_new (um_name md)) (\<lambda>name.
     res_map (\<lambda>description. \<lparr>fmr_name = name, fmr_description = description,
         fmr_xor_name = xn_bytes xor_name, fmr_type_tag = type_tag\<rparr>)
       (into_nullable cstring_new (um_description md)))"

definition user_metadata_clone_from_repr_c :: "ipc_ops \<Rightarrow> ffi_metadata_response \<Rightarrow> user_metadata ipc_result" where
  "user_metadata_clone_from_repr_c io c =
     res_and_then (into_nullable (clone_string (ffi io)) (fmr_name c)) (\<lambda>name.
     res_map (\<lambda>description. \<lparr>um_name = name, um_description = description\<rparr>)
       (into_nullable (clone_string (ffi io)) (fmr_description c)))"

definition metadata_response_invalid :: ffi_metadata_response where
  "metadata_response_invalid = \<lparr>fmr_name = None, fmr_description = None, fmr_xor_name = replicate XOR_NAME_LEN 0, fmr_type_tag = 0\<rparr>"

subsection \<open>Messages\<close>

datatype ipc_resp =
    IpcAuth "auth_granted ipc_result" | IpcContainers "unit ipc_result"
  | IpcUnregistered "bootstrap_config ipc_result" | IpcShareMData "unit ipc_result"

datatype ipc_msg =
    IpcReqMsg (im_req_id: u32) ipc_req | IpcRespMsg (im_resp_id: u32) ipc_resp
  | IpcRevoked bytes | IpcErr ipc_error

record msg_ops =
  ser_msg :: "ipc_msg \<times> bool \<Rightarrow> bytes + bytes"
  de_msg :: "bytes \<Rightarrow> bytes + (ipc_msg \<times> bool)"
  b32_encode :: "bytes \<Rightarrow> bytes" \<comment> \<open>\<open>BASE32_NOPAD\<close>\<close>
  b32_decode :: "bytes \<Rightarrow> bytes + bytes"

text \<open>The second argument is the feature \<open>mock-network\<close> of the build.\<close>

definition encode_msg :: "msg_ops \<Rightarrow> bool \<Rightarrow> ipc_msg \<Rightarrow> bytes ipc_result" where
  "encode_msg mo mock msg =
     res_map (\<lambda>b. 0x62 # b32_encode mo b) (from_serialisation (ser_msg mo (msg, mock)))"

definition decode_msg :: "msg_ops \<Rightarrow> bool \<Rightarrow> bytes \<Rightarrow> ipc_msg ipc_result" where
  "decode_msg mo mock encoded = (case encoded of
     [] \<Rightarrow> Err InvalidMsg
   | c # chars \<Rightarrow>
       if c = 0x62 \<or> c = 0x42 then
         res_and_then (from_serialisation (b32_decode mo chars)) (\<lambda>decoded.
         res_and_then (from_serialisation (de_msg mo decoded)) (\<lambda>(msg, is_mock).
           if is_mock \<noteq> mock then Err IncompatibleMockStatus else Ok msg))
       else Err IpcEncodeDecodeError)"

text \<open>\<open>gen_range(0, u32::MAX) + 1\<close>, where the argument is the number drawn.\<close>

definition gen_req_id :: "u32 \<Rightarrow> u32" where
  "gen_req_id r = r + 1"

end
