(* ===== verification/Ipc_Props.thy ===== *)
theory Ipc_Props
  imports Ipc_Resp
begin

section \<open>Properties of the IPC messages\<close>

text \<open>
  Messages decode to what was encoded, and to an error where the two sides were built for different
  networks; a granted authorisation survives its C representation; where the record of an
  application with access does not.
\<close>

text \<open>
  (C30) A message that one side encodes is decoded to itself by a side built for the same network, and
  refused as incompatible by a side built for the other one (mock or real); the encoding succeeds and is
  never empty, and the prefix may be in upper case.
\<close>

theorem ipc_msg_roundtrip:
  assumes "ser_msg mo (msg, mock) = Ok b" and "de_msg mo b = Ok (msg, mock)"
    and "\<forall>b. b32_decode mo (b32_encode mo b) = Ok b"
  shows "\<exists>text. encode_msg mo mock msg = Ok (0x62 # text) \<and>
    (\<forall>c mock'. c = 0x62 \<or> c = 0x42 \<longrightarrow>
       decode_msg mo mock' (c # text) = (if mock' = mock then Ok msg else Err IncompatibleMockStatus)) \<and>
    (\<forall>c. c \<noteq> 0x62 \<and> c \<noteq> 0x42 \<longrightarrow> decode_msg mo mock (c # text) = Err IpcEncodeDecodeError)"
  using assms
  by (intro exI [of _ "b32_encode mo b"]) (auto simp: encode_msg_def decode_msg_def from_serialisation_def)

definition sample_msg_ops :: msg_ops where
  "sample_msg_ops = \<lparr>
     ser_msg = (\<lambda>x. case x of (IpcRevoked app_id, mock) \<Rightarrow> Ok ((if mock then 1 else 0) # app_id) | _ \<Rightarrow> Err []),
     de_msg = (\<lambda>b. case b of m # app_id \<Rightarrow> Ok (IpcRevoked app_id, m = 1) | [] \<Rightarrow> Err []),
     b32_encode = rev, b32_decode = (\<lambda>b. Ok (rev b))\<rparr>"

theorem ipc_msg_roundtrip_witness:
  "encode_msg sample_msg_ops True (IpcRevoked [97]) = Ok [0x62, 97, 1] \<and>
   decode_msg sample_msg_ops True [0x62, 97, 1] = Ok (IpcRevoked [97]) \<and>
   decode_msg sample_msg_ops False [0x42, 97, 1] = Err IncompatibleMockStatus"
proof -
  have "encode_msg sample_msg_ops True (IpcRevoked [97]) = Ok [0x62, 97, 1]"
    by (simp add: encode_msg_def sample_msg_ops_def from_serialisation_def)
  then show ?thesis
    using ipc_msg_roundtrip [of sample_msg_ops "IpcRevoked [97]" True "[1, 97]"] by (simp add: sample_msg_ops_def)
qed

lemma app_keys_roundtrip:
  assumes "ipc_laws io"
  shows "\<exists>c. app_keys_into_repr_c io keys = Ok c \<and> app_keys_clone_from_repr_c io c = Ok keys"
proof -
  from assms obtain b s where "ser_full_id io (ak_app_full_id keys) = Ok b" "de_full_id io b = Ok (ak_app_full_id keys)"
      "ser_sk io (ak_enc_sk keys) = Ok s" "de_sk io s = Ok (ak_enc_sk keys)"
    unfolding ipc_laws_def by (meson codec_pairD)
  then show ?thesis
    using assms by (simp add: app_keys_into_repr_c_def app_keys_clone_from_repr_c_def from_serialisation_def ipc_laws_def)
qed

definition entry_wf :: "access_container_entry \<Rightarrow> bool" where
  "entry_wf entry \<longleftrightarrow> distinct (map fst entry) \<and>
     (\<forall>(name, info, permissions) \<in> set entry.
        is_utf8 name \<and> 0 \<notin> set name \<and> bset_wf permissions \<and> permissions \<noteq> [])"

lemma access_container_entry_roundtrip:
  assumes "ipc_laws io" and "entry_wf entry"
  shows "\<exists>c. access_container_entry_into_repr_c entry = Ok c \<and> access_container_entry_clone_from_repr_c io c = Ok entry"
proof -
  let ?g = "\<lambda>(n, i, p). \<lparr>fci_name = n, fci_mdata_info = mdata_info_into_repr_c i, fci_permissions = container_perms_into_repr_c p\<rparr>"
  have "access_container_entry_into_repr_c entry = Ok (map ?g entry)"
    unfolding access_container_entry_into_repr_c_def using assms(2)
    by (intro try_map_Ok) (auto simp: container_info_into_repr_c_def cstring_new_def entry_wf_def)
  moreover have "try_map (container_info_from_repr_c io \<circ> ?g) entry = Ok (map (\<lambda>x. x) entry)"
    using assms
    by (intro try_map_Ok) (auto simp: container_info_from_repr_c_def clone_string_def entry_wf_def ipc_laws_def
        ffi_laws_def container_perms_roundtrip mdata_info_repr_c_inverse)
  ultimately show ?thesis
    using assms(2) hm_collect [of "[]" entry]
    by (simp add: access_container_entry_clone_from_repr_c_def try_map_map entry_wf_def)
qed

text \<open>
  A granted authorisation survives the conversion to its C representation and back: keys,
  bootstrap nodes, the description of the access container and the entry of the application.
\<close>

lemma auth_granted_repr_c_roundtrip:
  assumes "ipc_laws io" and "entry_wf (ag_access_container_entry granted)"
  shows "\<exists>c. auth_granted_into_repr_c io granted = Ok c \<and> auth_granted_clone_from_repr_c io c = Ok granted"
proof -
  obtain k where "app_keys_into_repr_c io (ag_app_keys granted) = Ok k" "app_keys_clone_from_repr_c io k = Ok (ag_app_keys granted)"
    using app_keys_roundtrip [OF assms(1)] by blast
  moreover obtain e where "access_container_entry_into_repr_c (ag_access_container_entry granted) = Ok e"
      "access_container_entry_clone_from_repr_c io e = Ok (ag_access_container_entry granted)"
    using access_container_entry_roundtrip [OF assms] by blast
  moreover obtain b where "ser_bootstrap io (ag_bootstrap_config granted) = Ok b" "de_bootstrap io b = Ok (ag_bootstrap_config granted)"
    using assms(1) unfolding ipc_laws_def by (meson codec_pairD)
  ultimately show ?thesis
    by (simp add: auth_granted_into_repr_c_def auth_granted_clone_from_repr_c_def from_serialisation_def
        access_cont_info_into_repr_c_def access_cont_info_clone_from_repr_c_def)
qed

lemma app_access_strings:
  assumes "ipc_laws io" and "\<forall>s \<in> set_option x. is_utf8 s"
  shows "if \<exists>s \<in> set_option x. 0 \<in> set s then \<exists>e. into_nullable (cstring_or_string_error (ffi io)) x = Err e
    else into_nullable (cstring_or_string_error (ffi io)) x = Ok x \<and> into_nullable (clone_string (ffi io)) x = Ok x"
  using assms
  by (cases x; simp add: into_nullable_def cstring_or_string_error_def cstring_new_def clone_string_def ipc_laws_def ffi_laws_def)+

text \<open>
  (C40) The conversion of the record of an application with access to its C representation and back. The
  conversion fails where a string has a nul byte or the key is not a BLS key. Where it succeeds, the conversion
  back fails if the permission set allows reading and nothing else, before it looks at the name and the identifier. Otherwise
  the key, the name and the permissions come back, but the identifier follows the name: without a name the
  identifier is lost, and with a name but no identifier a null pointer is read. (The strings are UTF-8, as all strings of Rust.)
\<close>

theorem app_access_repr_c_follows_name:
  assumes "ipc_laws io" and "perm_laws po"
    and "\<forall>s \<in> set_option (aa_name access) \<union> set_option (aa_app_id access). is_utf8 s"
  shows "if (\<exists>s \<in> set_option (aa_name access) \<union> set_option (aa_app_id access). 0 \<in> set s) \<or> pk_bls io (aa_sign_key access) = None
    then \<exists>e. app_access_into_repr_c io po access = Err e
    else \<exists>c. app_access_into_repr_c io po access = Ok c \<and>
      (if \<forall>act. ps_is_allowed po (aa_permissions access) act \<longleftrightarrow> act = ActRead
       then \<exists>e. app_access_clone_from_repr_c io po c = Some (Err e)
       else case (aa_name access, aa_app_id access) of
         (Some _, None) \<Rightarrow> app_access_clone_from_repr_c io po c = None
       | (name, app_id) \<Rightarrow> (\<exists>access'. app_access_clone_from_repr_c io po c = Some (Ok access') \<and>
           aa_sign_key access' = aa_sign_key access \<and> aa_name access' = name \<and>
           aa_app_id access' = (if name = None then None else app_id) \<and>
           (\<forall>act. ps_is_allowed po (aa_permissions access') act \<longleftrightarrow> ps_is_allowed po (aa_permissions access) act)))"
proof (cases "(\<exists>s \<in> set_option (aa_name access) \<union> set_option (aa_app_id access). 0 \<in> set s) \<or> pk_bls io (aa_sign_key access) = None")
  case True
  then have "\<exists>e. app_access_into_repr_c io po access = Err e"
    using app_access_strings [OF assms(1), of "aa_name access"] app_access_strings [OF assms(1), of "aa_app_id access"] assms(3)
    by (auto simp: app_access_into_repr_c_def split: if_splits)
  then show ?thesis using True by simp
next
  case False
  then obtain k where k: "pk_bls io (aa_sign_key access) = Some k" "pk_from_bls io k = aa_sign_key access"
      "bls_from_bytes io (bls_to_bytes io k) = Ok k"
    using assms(1) by (auto simp: ipc_laws_def)
  let ?perms = "permission_set_into_repr_c po (aa_permissions access)"
  have strings: "into_nullable (cstring_or_string_error (ffi io)) x = Ok x" "into_nullable (clone_string (ffi io)) x = Ok x"
    if "x = aa_name access \<or> x = aa_app_id access" for x
    using app_access_strings [OF assms(1), of x] that False assms(3) by (auto split: if_splits)
  have into: "app_access_into_repr_c io po access = Ok \<lparr>fpa_sign_key = bls_to_bytes io k, fpa_permissions = ?perms,
      fpa_name = aa_name access, fpa_app_id = aa_app_id access\<rparr>" (is "_ = Ok ?c")
    by (simp add: app_access_into_repr_c_def strings k)
  note perms = permission_set_roundtrip [OF assms(2), of "aa_permissions access", unfolded Let_def]
  show ?thesis
  proof (cases "\<forall>act. ps_is_allowed po (aa_permissions access) act \<longleftrightarrow> act = ActRead")
    case True
    then have "\<exists>e. app_access_clone_from_repr_c io po ?c = Some (Err e)"
      using perms by (auto simp: app_access_clone_from_repr_c_def k)
    then show ?thesis using True False into by simp
  next
    case no_read: False
    then obtain s where s: "permission_set_clone_from_repr_c po ?perms = Ok s"
        "\<And>act. ps_is_allowed po s act \<longleftrightarrow> ps_is_allowed po (aa_permissions access) act"
      using perms by metis
    have "case (aa_name access, aa_app_id access) of
        (Some _, None) \<Rightarrow> app_access_clone_from_repr_c io po ?c = None
      | (name, app_id) \<Rightarrow> (\<exists>access'. app_access_clone_from_repr_c io po ?c = Some (Ok access') \<and>
          aa_sign_key access' = aa_sign_key access \<and> aa_name access' = name \<and>
          aa_app_id access' = (if name = None then None else app_id) \<and>
          (\<forall>act. ps_is_allowed po (aa_permissions access') act \<longleftrightarrow> ps_is_allowed po (aa_permissions access) act))"
      using strings [of "aa_name access"] strings [of "aa_app_id access"]
      by (cases "aa_name access"; cases "aa_app_id access")
        (simp_all add: app_access_clone_from_repr_c_def k s Let_def, auto simp: into_nullable_def s(2) res_map_eq_Ok)
    then show ?thesis
      unfolding if_not_P [OF False] if_not_P [OF no_read] using into by blast
  qed
qed

definition sample_ipc :: ipc_ops where
  "sample_ipc = \<lparr>string_error_from_nul = (\<lambda>s. s), read_c_string = (\<lambda>s. if is_utf8 s then Ok s else Err s),
     rnd_app_full_id = (\<lambda>i c. AppFullId [of_nat i]), rnd_keypair = (\<lambda>i. ([of_nat i], [of_nat i])),
     ser_full_id = (\<lambda>i. case i of AppFullId b \<Rightarrow> Ok b), de_full_id = (\<lambda>b. Ok (AppFullId b)),
     ser_sk = Ok, de_sk = Ok, ser_bootstrap = Ok, de_bootstrap = Ok, bls_to_bytes = rev,
     bls_from_bytes = (\<lambda>b. Ok (rev b)), pk_bls = (\<lambda>k. Some (pk_bytes k)), pk_from_bls = PublicKey\<rparr>"

lemma sample_ipc_laws: "ipc_laws sample_ipc"
  by (auto simp: ipc_laws_def sample_ipc_def codec_pair_def ffi_laws_def ffi_ops.truncate_def split: app_full_id.split)

definition sample_granted :: auth_granted where
  "sample_granted = \<lparr>ag_app_keys = \<lparr>ak_app_full_id = AppFullId [1], ak_enc_key = [2], ak_enc_pk = [3, 4], ak_enc_sk = [5]\<rparr>,
     ag_bootstrap_config = [6], ag_access_container_info = \<lparr>ac_id = XorName [7], ac_tag = 8, ac_nonce = [9]\<rparr>,
     ag_access_container_entry = [([97], new_private (MSeqAddr (XorName [1]) 2) ([3], [4]), [PermRead, PermDelete])]\<rparr>"

lemma sample_entry_wf: "entry_wf (ag_access_container_entry sample_granted)"
  by (simp add: entry_wf_def sample_granted_def bset_wf_def less_permission_def permission_rank_def)

definition no_id_access :: app_access where
  "no_id_access = \<lparr>aa_sign_key = PublicKey [1], aa_permissions = [1], aa_name = Some [97], aa_app_id = None\<rparr>"

theorem app_access_repr_c_follows_name_witness:
  "\<exists>c. app_access_into_repr_c sample_ipc sample_perms no_id_access = Ok c \<and>
    app_access_clone_from_repr_c sample_ipc sample_perms c = None"
proof -
  have fields: "aa_name no_id_access = Some [97]" "aa_app_id no_id_access = None" "is_utf8 [97]"
    by (simp_all add: no_id_access_def)
  have bls: "pk_bls sample_ipc (aa_sign_key no_id_access) \<noteq> None"
    by (simp add: sample_ipc_def)
  have perms: "\<not> (\<forall>act. ps_is_allowed sample_perms (aa_permissions no_id_access) act \<longleftrightarrow> act = ActRead)"
    by (auto simp: sample_perms_def action_code_def no_id_access_def intro!: exI [of _ ActInsert])
  show ?thesis
    using app_access_repr_c_follows_name [OF sample_ipc_laws sample_perm_laws, of no_id_access] bls perms
    by (simp add: fields)
qed

end
