(* ===== verification/Error_Texts.thy ===== *)
theory Error_Texts
  imports Error_Codes
begin

section \<open>The texts of errors\<close>

text \<open>
  \<open>Display\<close> and \<open>Debug\<close> of the error types (safe\_core/src/errors.rs, nfs/errors.rs, safe\_app/src/errors.rs,
  safe\_authenticator/src/errors.rs). How the errors of other crates print, and the derived \<open>Debug\<close> of strings and of IPC errors, are parameters.
\<close>

record text_ops =
  tx_error :: "bytes \<Rightarrow> string" \<comment> \<open>\<open>Display\<close> of an error of another crate\<close>
  tx_error_debug :: "bytes \<Rightarrow> string"
  tx_snd :: "snd_error \<Rightarrow> string"
  tx_snd_debug :: "snd_error \<Rightarrow> string"
  tx_self_encryption :: "core_error self_encryption_error \<Rightarrow> string"
  tx_self_encryption_debug :: "core_error self_encryption_error \<Rightarrow> string"
  tx_error_description :: "bytes \<Rightarrow> string" \<comment> \<open>\<open>Error::description\<close>\<close>
  tx_snd_description :: "snd_error \<Rightarrow> string"
  tx_self_encryption_description :: "core_error self_encryption_error \<Rightarrow> string"
  tx_string_debug :: "string \<Rightarrow> string"
  tx_ipc_debug :: "ipc_error \<Rightarrow> string"
  tx_name :: "bytes \<Rightarrow> string" \<comment> \<open>the characters of a string\<close>

definition core_error_display :: "text_ops \<Rightarrow> core_error \<Rightarrow> string" where
  "core_error_display tx err = (case err of
     EncodeDecodeError error \<Rightarrow> ''Error while serialising/deserialising: '' @ tx_error tx error
   | AsymmetricDecipherFailure \<Rightarrow> ''Asymmetric decryption failed''
   | SymmetricDecipherFailure \<Rightarrow> ''Symmetric decryption failed''
   | ReceivedUnexpectedData \<Rightarrow> ''Received unexpected data''
   | ReceivedUnexpectedEvent \<Rightarrow> ''Received unexpected event''
   | VersionCacheMiss \<Rightarrow> ''No such data found in local version cache''
   | RootDirectoryExists \<Rightarrow> ''Cannot overwrite a root directory if it already exists''
   | RandomDataGenerationFailure \<Rightarrow> ''Unable to obtain generator for random data''
   | OperationForbidden \<Rightarrow> ''Forbidden operation requested''
   | Unexpected error \<Rightarrow> ''Unexpected: '' @ error
   | DataError error \<Rightarrow> ''Data error -> '' @ tx_snd tx error
   | UnsupportedSaltSizeForPwHash \<Rightarrow> ''Unable to pack into or operate with size of Salt''
   | UnsuccessfulPwHash \<Rightarrow> ''Unable to complete computation for password hashing''
   | OperationAborted \<Rightarrow> ''Blocking operation was cancelled''
   | SelfEncryption error \<Rightarrow> ''Self-encryption error: '' @ tx_self_encryption tx error
   | RequestTimeout \<Rightarrow> ''RequestTimeout''
   | ConfigError error \<Rightarrow> ''Config file error: '' @ tx_error tx error
   | IoError error \<Rightarrow> ''Io error: '' @ tx_error tx error
   | QuicP2p error \<Rightarrow> ''QuicP2P error: '' @ tx_error tx error)"

definition core_error_debug :: "text_ops \<Rightarrow> core_error \<Rightarrow> string" where
  "core_error_debug tx err =
     core_error_description (tx_snd_description tx) (tx_error_description tx) (tx_self_encryption_description tx) err @ '' - '' @ (case err of
     EncodeDecodeError error \<Rightarrow> ''CoreError::EncodeDecodeError -> '' @ tx_error_debug tx error
   | AsymmetricDecipherFailure \<Rightarrow> ''CoreError::AsymmetricDecipherFailure''
   | SymmetricDecipherFailure \<Rightarrow> ''CoreError::SymmetricDecipherFailure''
   | ReceivedUnexpectedData \<Rightarrow> ''CoreError::ReceivedUnexpectedData''
   | ReceivedUnexpectedEvent \<Rightarrow> ''CoreError::ReceivedUnexpectedEvent''
   | VersionCacheMiss \<Rightarrow> ''CoreError::VersionCacheMiss''
   | RootDirectoryExists \<Rightarrow> ''CoreError::RootDirectoryExists''
   | RandomDataGenerationFailure \<Rightarrow> ''CoreError::RandomDataGenerationFailure''
   | OperationForbidden \<Rightarrow> ''CoreError::OperationForbidden''
   | Unexpected error \<Rightarrow> ''CoreError::Unexpected::{'' @ tx_string_debug tx error @ ''}''
   | DataError error \<Rightarrow> ''CoreError::DataError -> '' @ tx_snd_debug tx error
   | UnsupportedSaltSizeForPwHash \<Rightarrow> ''CoreError::UnsupportedSaltSizeForPwHash''
   | UnsuccessfulPwHash \<Rightarrow> ''CoreError::UnsuccessfulPwHash''
   | OperationAborted \<Rightarrow> ''CoreError::OperationAborted''
   | SelfEncryption error \<Rightarrow> ''CoreError::SelfEncryption -> '' @ tx_self_encryption_debug tx error
   | RequestTimeout \<Rightarrow> ''CoreError::RequestTimeout''
   | ConfigError error \<Rightarrow> ''CoreError::ConfigError -> '' @ tx_error_debug tx error
   | IoError error \<Rightarrow> ''CoreError::IoError -> '' @ tx_error_debug tx error
   | QuicP2p error \<Rightarrow> ''CoreError::QuicP2p -> '' @ tx_error_debug tx error)"

text \<open>The error that caused an error.\<close>

datatype error_cause = CauseOther bytes | CauseSelfEncryption "core_error self_encryption_error" | CauseData snd_error

definition core_error_cause :: "core_error \<Rightarrow> error_cause option" where
  "core_error_cause err = (case err of
     EncodeDecodeError e \<Rightarrow> Some (CauseOther e)
   | SelfEncryption e \<Rightarrow> Some (CauseSelfEncryption e)
   | DataError e \<Rightarrow> Some (CauseData e)
   | QuicP2p e \<Rightarrow> Some (CauseOther e)
   | _ \<Rightarrow> None)"

definition nfs_error_display :: "text_ops \<Rightarrow> nfs_error \<Rightarrow> string" where
  "nfs_error_display tx err = (case err of
     NfsCoreError error \<Rightarrow> ''Client Errror: '' @ core_error_display tx error
   | FileExists \<Rightarrow> ''File already exists with the same name in a directory''
   | FileNotFound \<Rightarrow> ''File not found''
   | InvalidRange \<Rightarrow> ''Invalid byte range specified''
   | NfsUnexpected error \<Rightarrow> ''Unexpected error - '' @ tx_string_debug tx error
   | NfsEncodeDecodeError error \<Rightarrow> ''Unsuccessful Serialisation or Deserialisation: '' @ tx_error_debug tx error
   | NfsSelfEncryption error \<Rightarrow> ''Error while self-encrypting/-decrypting data: '' @ tx_self_encryption_debug tx error)"

definition nfs_error_debug :: "text_ops \<Rightarrow> nfs_error \<Rightarrow> string" where
  "nfs_error_debug tx err = (case err of
     NfsCoreError error \<Rightarrow> ''NfsError::CoreError -> '' @ core_error_debug tx error
   | FileExists \<Rightarrow> ''NfsError::FileExists''
   | FileNotFound \<Rightarrow> ''NfsError::FileNotFound''
   | InvalidRange \<Rightarrow> ''NfsError::InvalidRange''
   | NfsUnexpected error \<Rightarrow> ''NfsError::Unexpected -> '' @ tx_string_debug tx error
   | NfsEncodeDecodeError error \<Rightarrow> ''NfsError::EncodeDecodeError -> '' @ tx_error_debug tx error
   | NfsSelfEncryption error \<Rightarrow> ''NfsError::SelfEncrpytion -> '' @ tx_self_encryption_debug tx error)"

definition app_error_display :: "text_ops \<Rightarrow> app_error \<Rightarrow> string" where
  "app_error_display tx err = (case err of
     AppCoreError error \<Rightarrow> ''Core error: '' @ core_error_display tx error
   | AppIpcError error \<Rightarrow> ''IPC error: '' @ tx_ipc_debug tx error
   | AppNfsError error \<Rightarrow> ''NFS error: '' @ nfs_error_display tx error
   | AppEncodeDecodeError \<Rightarrow> ''Serialisation error''
   | AppOperationForbidden \<Rightarrow> ''Forbidden operation''
   | AppNoSuchContainer name \<Rightarrow> CHR 0x27 # tx_name tx name @ [CHR 0x27] @ '' not found in the access container''
   | InvalidCipherOptHandle \<Rightarrow> ''Invalid CipherOpt handle''
   | InvalidFileMode \<Rightarrow> ''Invalid file mode (e.g. trying to write when file is opened for reading only)''
   | UnregisteredClientAccess \<Rightarrow> ''Tried to access a client key from an unregistered client''
   | InvalidEncryptPubKeyHandle \<Rightarrow> ''Invalid encrypt (threshold_crypto) key handle''
   | InvalidMDataEntriesHandle \<Rightarrow> ''Invalid MutableData entries handle''
   | InvalidMDataEntryActionsHandle \<Rightarrow> ''Invalid MutableData entry actions handle''
   | InvalidMDataPermissionsHandle \<Rightarrow> ''Invalid MutableData permissions handle''
   | InvalidSelfEncryptorHandle \<Rightarrow> ''Invalid Self Encryptor handle''
   | InvalidSignPubKeyHandle \<Rightarrow> ''Invalid sign public key handle''
   | InvalidSignSecKeyHandle \<Rightarrow> ''Invalid sign secret key handle''
   | InvalidPubKeyHandle \<Rightarrow> ''Invalid public key handle''
   | InvalidEncryptSecKeyHandle \<Rightarrow> ''Invalid secret key handle''
   | InvalidFileContextHandle \<Rightarrow> ''Invalid file context handle''
   | AppSelfEncryption error \<Rightarrow> ''Self-encryption error: '' @ tx_self_encryption tx error
   | InvalidSelfEncryptorReadOffsets \<Rightarrow> ''Invalid offsets (from-position and length combination) provided for reading form SelfEncryptor. Would have probably caused an overflow.''
   | AppIoError error \<Rightarrow> ''I/O error: '' @ tx_error tx error
   | AppUnexpected error \<Rightarrow> ''Unexpected (probably a logic error): '' @ error)"

definition auth_error_display :: "text_ops \<Rightarrow> auth_error \<Rightarrow> string" where
  "auth_error_display tx err = (case err of
     AuthUnexpected error \<Rightarrow> ''Unexpected (probably a logic error): '' @ error
   | AuthCoreError error \<Rightarrow> ''Core error: '' @ core_error_display tx error
   | AuthSndError error \<Rightarrow> ''Safe ND error: '' @ tx_snd tx error
   | AuthIoError error \<Rightarrow> ''I/O error: '' @ tx_error tx error
   | AuthNfsError error \<Rightarrow> ''NFS error: '' @ nfs_error_debug tx error
   | AuthEncodeDecodeError \<Rightarrow> ''Serialisation error''
   | AuthIpcError error \<Rightarrow> ''IPC error: '' @ tx_ipc_debug tx error
   | AccountContainersCreation reason \<Rightarrow> ''Account containers creation error: '' @ reason @ ''. Login to attempt recovery.''
   | AuthNoSuchContainer name \<Rightarrow> CHR 0x27 # tx_name tx name @ [CHR 0x27] @ '' not found in the access container''
   | PendingRevocation \<Rightarrow> ''Couldn'' @ CHR 0x27 # ''t authenticate app that is pending revocation'')"

end
