(* ===== verification/Auth_Client.thy ===== *)
theory Auth_Client
  imports Error_Codes Ipc_Resp
begin

section \<open>The authenticator's client\<close>

text \<open>
  safe\_authenticator/src/client.rs: registering an account, logging in, updating the account
  packet. The account is stored on the network as a login packet, encrypted with keys derived from the
  user's credentials; it is signed by an identity derived from its location. \<open>LoginPacket\<close>, the seeded
  key generation and the verification of signatures are third-party, the fields of \<open>auth_ops\<close>.
\<close>

record auth_ops =
  lp_new :: "xor_name \<Rightarrow> public_key \<Rightarrow> bytes \<Rightarrow> signature \<Rightarrow> login_packet snd_result"
  seeded_client_id :: "bytes \<Rightarrow> client_full_id" \<comment> \<open>\<open>ClientFullId::new_bls\<close> of a seeded generator\<close>
  rnd_client_id :: "nat \<Rightarrow> client_full_id" \<comment> \<open>\<open>ClientFullId::new_bls\<close> of the generator of the thread\<close>
  rnd_enc_keypair :: "nat \<Rightarrow> bytes \<times> bytes" \<comment> \<open>\<open>shared_box::gen_keypair\<close>\<close>
  pk_verify :: "public_key \<Rightarrow> signature \<Rightarrow> bytes \<Rightarrow> unit snd_result"

record user_cred =
  uc_pin :: bytes
  uc_password :: bytes

record 'n auth_client =
  au_client :: "'n client"
  au_acc :: user_account
  au_acc_loc :: xor_name
  au_user_cred :: user_cred

type_synonym ('n, 'a) am = "('n auth_client, auth_error, 'a) prog"
type_synonym ('n, 'a) gateway = "('n world, auth_error, 'a) prog"

text \<open>The methods of the trait \<open>Client\<close> act on the client inside.\<close>

definition with_client :: "('n client, 'e, 'a) prog \<Rightarrow> ('n auth_client, 'e, 'a) prog" where
  "with_client m a = (case m (au_client a) of
     None \<Rightarrow> None
   | Some (r, c) \<Rightarrow> Some (r, a\<lparr>au_client := c\<rparr>))"

definition create_client_id :: "crypto_ops \<Rightarrow> auth_ops \<Rightarrow> bytes \<Rightarrow> client_full_id" where
  "create_client_id co ao seeder = seeded_client_id ao (sha3_256 co seeder)"

text \<open>\<open>ClientKeys::new\<close>, with a generator that is seeded or not: only the identity comes from the generator.\<close>

definition client_keys_new :: "crypto_ops \<Rightarrow> auth_ops \<Rightarrow> bytes option \<Rightarrow> ('n, 'z, client_keys) wm" where
  "client_keys_new co ao seed =
     and_then (draw (rnd_enc_keypair ao)) (\<lambda>(enc_pk, enc_sk).
     and_then (draw (rnd_key co)) (\<lambda>enc_key.
     and_then (case seed of Some s \<Rightarrow> lift_res (Ok (seeded_client_id ao s)) | None \<Rightarrow> draw (rnd_client_id ao)) (\<lambda>client_id.
       lift_res (Ok \<lparr>ck_client_id = client_id, ck_enc_key = enc_key, ck_enc_pk = enc_pk, ck_enc_sk = enc_sk\<rparr>))))"

text \<open>A new connection manager, changed by the hook of the tests (the identity otherwise).\<close>

definition new_manager :: "'n client_env \<Rightarrow> ('n \<Rightarrow> 'n) \<Rightarrow> ('n, unit) gateway" where
  "new_manager env wrap w = (case tr_new env (w_net w) of
     Err e \<Rightarrow> Some (Err (AuthCoreError e), w)
   | Ok n \<Rightarrow> Some (Ok (), w\<lparr>w_net := wrap n\<rparr>))"

definition auth_bootstrap :: "'n client_env \<Rightarrow> safe_key \<Rightarrow> ('n, unit) gateway" where
  "auth_bootstrap env full_id = map_err AuthCoreError (on_net (tr_bootstrap env full_id))"

definition auth_disconnect :: "'n client_env \<Rightarrow> safe_key \<Rightarrow> ('n, unit) gateway" where
  "auth_disconnect env full_id =
     map_err AuthCoreError (on_net (tr_disconnect env (safe_key_public_id env full_id)))"

definition expect_auth :: "(response \<Rightarrow> 'a snd_result option) \<Rightarrow> response \<Rightarrow> 'a auth_result" where
  "expect_auth sel res = (case sel res of
     Some r \<Rightarrow> res_map_err AuthSndError r
   | None \<Rightarrow> Err (auth_error_from_str ''Unexpected response''))"

definition new_auth_client ::
  "'n client_env \<Rightarrow> user_account \<Rightarrow> xor_name \<Rightarrow> user_cred \<Rightarrow> ('n, 'n auth_client) gateway" where
  "new_auth_client env acc acc_loc cred w = Some (Ok
     \<lparr>au_client = \<lparr>w_net = w_net w, w_draws = w_draws w,
        cl_full_id = client_safe_key (maid_keys acc), cl_owner_key = keys_public_key env (maid_keys acc),
        cl_cache = [], cl_timeout = 180, cl_events = [], cl_rx_alive = True\<rparr>,
      au_acc = acc, au_acc_loc = acc_loc, au_user_cred = cred\<rparr>, w)"

subsection \<open>Joined futures\<close>

text \<open>
  A joined future has a part that runs when it is built (its first request) and a part that runs when it
  is polled. All first parts run, in order; then the second parts are polled in order, and the first
  error ends the polling. On the mock network no future is ever pending.
\<close>

fun start_all :: "('s, 'e, 'a) prog list \<Rightarrow> 's \<Rightarrow> (('e + 'a) list \<times> 's) option" where
  "start_all [] s = Some ([], s)"
| "start_all (m # ms) s = (case m s of
     None \<Rightarrow> None
   | Some (r, s1) \<Rightarrow> (case start_all ms s1 of
       None \<Rightarrow> None
     | Some (rs, s2) \<Rightarrow> Some (r # rs, s2)))"

fun poll_all :: "(('e + 'a) \<times> ('a \<Rightarrow> ('s, 'e, 'b) prog)) list \<Rightarrow> ('s, 'e, 'b list) prog" where
  "poll_all [] = lift_res (Ok [])"
| "poll_all ((r, k) # ms) =
     and_then (and_then (lift_res r) k) (\<lambda>x. map_prog (\<lambda>xs. x # xs) (poll_all ms))"

definition join_all :: "(('s, 'e, 'a) prog \<times> ('a \<Rightarrow> ('s, 'e, 'b) prog)) list \<Rightarrow> ('s, 'e, 'b list) prog" where
  "join_all ms s = (case start_all (map fst ms) s of
     None \<Rightarrow> None
   | Some (rs, s1) \<Rightarrow> poll_all (zip rs (map snd ms)) s1)"

subsection \<open>Registration and login\<close>

definition registered_impl ::
  "'n client_env \<Rightarrow> crypto_ops \<Rightarrow> auth_ops \<Rightarrow> bytes \<Rightarrow> bytes \<Rightarrow> client_full_id \<Rightarrow> bytes option \<Rightarrow> ('n \<Rightarrow> 'n)
     \<Rightarrow> ('n, 'n auth_client) gateway" where
  "registered_impl env co ao acc_locator acc_password client_id seed wrap =
     (case derive_secrets co acc_locator acc_password of (password, keyword, pin) \<Rightarrow>
      let acc_loc = generate_network_id co keyword pin;
          user_cred = \<lparr>uc_pin = pin, uc_password = password\<rparr> in
      and_then (map_err AuthCoreError (client_keys_new co ao seed)) (\<lambda>new_keys.
      let keys = new_keys\<lparr>ck_client_id := client_id\<rparr>;
          balance_full_id = SafeClient client_id in
      and_then (map_err AuthCoreError (user_account_new co keys)) (\<lambda>acc.
      and_then (lift_res (res_map_err AuthCoreError (account_encrypt co acc password pin))) (\<lambda>acc_ciphertext.
      let transient_id = create_client_id co ao (xn_bytes acc_loc);
          sig = client_sign env transient_id acc_ciphertext;
          transient_pk = client_public_key (ce_nd env) (full_client_id env transient_id) in
      and_then (lift_res (res_map_err AuthSndError (lp_new ao acc_loc transient_pk acc_ciphertext sig))) (\<lambda>packet.
      and_then (new_manager env wrap) (\<lambda>_.
      and_then (auth_bootstrap env balance_full_id) (\<lambda>_.
      and_then (map_err AuthCoreError (req env (CreateLoginPacket packet) balance_full_id)) (\<lambda>response.
      and_then (lift_res (expect_auth as_mutation response)) (\<lambda>_.
      and_then (auth_disconnect env balance_full_id) (\<lambda>_.
      and_then (auth_bootstrap env (client_safe_key keys)) (\<lambda>_.
        new_auth_client env acc acc_loc user_cred)))))))))))"

definition registered ::
  "'n client_env \<Rightarrow> crypto_ops \<Rightarrow> auth_ops \<Rightarrow> bytes \<Rightarrow> bytes \<Rightarrow> client_full_id \<Rightarrow> ('n, 'n auth_client) gateway" where
  "registered env co ao acc_locator acc_password client_id =
     registered_impl env co ao acc_locator acc_password client_id None (\<lambda>cm. cm)"

definition login_impl ::
  "'n client_env \<Rightarrow> crypto_ops \<Rightarrow> auth_ops \<Rightarrow> bytes \<Rightarrow> bytes \<Rightarrow> ('n \<Rightarrow> 'n) \<Rightarrow> ('n, 'n auth_client) gateway" where
  "login_impl env co ao acc_locator acc_password wrap =
     (case derive_secrets co acc_locator acc_password of (password, keyword, pin) \<Rightarrow>
      let acc_loc = generate_network_id co keyword pin;
          client_full_id = create_client_id co ao (xn_bytes acc_loc);
          client_pk = client_public_key (ce_nd env) (full_client_id env client_full_id);
          full_id = SafeClient client_full_id;
          user_cred = \<lparr>uc_pin = pin, uc_password = password\<rparr> in
      and_then (new_manager env wrap) (\<lambda>_.
      and_then (auth_bootstrap env full_id) (\<lambda>_.
      and_then (map_err AuthCoreError (req env (GetLoginPacket acc_loc) full_id)) (\<lambda>response.
      and_then (auth_disconnect env full_id) (\<lambda>_.
      and_then (lift_res (expect_auth as_login_packet response)) (\<lambda>(account_buffer, signature).
      and_then (lift_res (res_map_err AuthSndError (pk_verify ao client_pk signature account_buffer))) (\<lambda>_.
      and_then (lift_res (res_map_err AuthCoreError (account_decrypt co account_buffer password pin))) (\<lambda>acc.
      and_then (auth_bootstrap env (client_safe_key (maid_keys acc))) (\<lambda>_.
        new_auth_client env acc acc_loc user_cred)))))))))"

definition login ::
  "'n client_env \<Rightarrow> crypto_ops \<Rightarrow> auth_ops \<Rightarrow> bytes \<Rightarrow> bytes \<Rightarrow> ('n, 'n auth_client) gateway" where
  "login env co ao acc_locator acc_password = login_impl env co ao acc_locator acc_password (\<lambda>cm. cm)"

subsection \<open>The account packet\<close>

definition config_root_dir :: "'n auth_client \<Rightarrow> mdata_info" where
  "config_root_dir a = config_root (au_acc a)"

definition set_config_root_dir :: "mdata_info \<Rightarrow> 'n auth_client \<Rightarrow> bool \<times> 'n auth_client" where
  "set_config_root_dir dir a =
     (if config_root (au_acc a) \<noteq> dir then (True, a\<lparr>au_acc := (au_acc a)\<lparr>config_root := dir\<rparr>\<rparr>) else (False, a))"

definition auth_access_container :: "'n auth_client \<Rightarrow> mdata_info" where
  "auth_access_container a = access_container (au_acc a)"

definition set_access_container :: "mdata_info \<Rightarrow> 'n auth_client \<Rightarrow> bool \<times> 'n auth_client" where
  "set_access_container dir a =
     (if access_container (au_acc a) \<noteq> dir
      then (True, a\<lparr>au_acc := (au_acc a)\<lparr>access_container := dir\<rparr>\<rparr>) else (False, a))"

definition std_dirs_created :: "'n auth_client \<Rightarrow> bool" where
  "std_dirs_created a = root_dirs_created (au_acc a)"

definition set_std_dirs_created :: "bool \<Rightarrow> 'n auth_client \<Rightarrow> 'n auth_client" where
  "set_std_dirs_created val a = a\<lparr>au_acc := (au_acc a)\<lparr>root_dirs_created := val\<rparr>\<rparr>"

definition secret_symmetric_key :: "'n auth_client \<Rightarrow> sym_key" where
  "secret_symmetric_key a = ck_enc_key (maid_keys (au_acc a))"

text \<open>\<open>None\<close> is the panic for an identity that is not a client.\<close>

definition prepare_account_packet_update ::
  "'n client_env \<Rightarrow> crypto_ops \<Rightarrow> auth_ops \<Rightarrow> xor_name \<Rightarrow> user_account \<Rightarrow> user_cred \<Rightarrow> safe_key
     \<Rightarrow> login_packet auth_result option" where
  "prepare_account_packet_update env co ao acc_loc account keys full_id =
     (case account_encrypt co account (uc_password keys) (uc_pin keys) of
        Err e \<Rightarrow> Some (Err (AuthCoreError e))
      | Ok encrypted_account \<Rightarrow>
          (let sig = safe_key_sign env full_id encrypted_account in
           case safe_key_public_id env full_id of
             Client i \<Rightarrow> Some (res_map_err AuthSndError
               (lp_new ao acc_loc (client_public_key (ce_nd env) i) encrypted_account sig))
           | _ \<Rightarrow> None))"

text \<open>The message is sent on a clone of the connection manager; the answer comes as a \<open>CoreError\<close>.\<close>

definition update_account_packet :: "'n client_env \<Rightarrow> crypto_ops \<Rightarrow> auth_ops \<Rightarrow> ('n, unit) am" where
  "update_account_packet env co ao a =
     (let account_packet_id = SafeClient (create_client_id co ao (xn_bytes (au_acc_loc a)));
          account_pub_id = safe_key_public_id env account_packet_id in
      case prepare_account_packet_update env co ao (au_acc_loc a) (au_acc a) (au_user_cred a) account_packet_id of
        None \<Rightarrow> None
      | Some (Err e) \<Rightarrow> Some (Err e, a)
      | Some (Ok packet) \<Rightarrow>
          map_err AuthCoreError (with_client
            (and_then (signed_message env (Some account_packet_id) (UpdateLoginPacket packet)) (\<lambda>msg.
             and_then (on_net (tr_bootstrap env account_packet_id)) (\<lambda>_.
             and_then (on_net (tr_send_clone env account_pub_id msg)) (\<lambda>resp.
             and_then (lift_res (expect_or_str as_mutation resp)) (\<lambda>_.
               on_net (tr_disconnect env account_pub_id))))))) a)"

end
