(* ===== verification/Auth_Client_Props.thy ===== *)
theory Auth_Client_Props
  imports Auth_Client Ipc_Props Nfs_Props
begin

section \<open>Registration and login on the mock network\<close>

text \<open>
  An account that was registered is found again by the same credentials and by no others, and its
  place cannot be taken a second time.
\<close>

text \<open>The documented behaviour of login packets and of the signatures on them.\<close>

definition packet_laws :: "'n client_env \<Rightarrow> auth_ops \<Rightarrow> bool" where
  "packet_laws env ao \<longleftrightarrow>
     (\<forall>d pk b s p. lp_new ao d pk b s = Ok p \<longrightarrow> lp_destination (ce_nd env) p = d \<and>
        lp_authorised_getter (ce_nd env) p = pk \<and> lp_data (ce_nd env) p = b \<and> lp_signature (ce_nd env) p = s) \<and>
     (\<forall>i b. pk_verify ao (client_public_key (ce_nd env) (full_client_id env i)) (client_sign env i b) b = Ok ())"

definition memory_world :: "'raw conn_manager world \<Rightarrow> bool" where
  "memory_world w \<longleftrightarrow> fst (snd (cm_vault (w_net w))) = MemoryStore"

lemma mock_env_keys:
  "full_client_id (mock_env nd cd lo) = full_client_id lo" "client_sign (mock_env nd cd lo) = client_sign lo"
  by (simp_all add: mock_env_def)

lemma req_authenticated:
  assumes "sign_laws (mock_env nd cd lo)" and "plain_net (w_net w)" and "get_type nd request \<noteq> PublicGet"
    and cid: "cid = full_client_id lo i"
  shows "req (mock_env nd cd lo) request (SafeClient i) w =
    (case handle_request nd (Client cid) (client_public_key nd cid) (client_public_key nd cid) request
        (vault_of (w_net w)) of
       None \<Rightarrow> None
     | Some (res, v') \<Rightarrow> Some (Ok res, w\<lparr>w_draws := Suc (w_draws w), w_net := set_vault v' (w_net w)\<rparr>))"
proof -
  let ?env = "mock_env nd cd lo"
  let ?mid = "new_message_id ?env (w_draws w)"
  obtain b where b: "serialise_request ?env request ?mid = Some b"
      "verify_signature nd (safe_key_sign ?env (SafeClient i) b) (safe_key_public_key ?env (SafeClient i))
         request ?mid = Ok ()"
    using assms(1) unfolding sign_laws_def mock_env_sel by blast
  have pid: "safe_key_public_id ?env (SafeClient i) = Client cid"
      "safe_key_public_key ?env (SafeClient i) = client_public_key nd cid"
    using cid by (simp_all add: safe_key_public_id_def safe_key_public_key_def mock_env_def)
  have "signed_message ?env (Some (SafeClient i)) request w =
      Some (Ok (MsgRequest request ?mid (Some (safe_key_sign ?env (SafeClient i) b))), w\<lparr>w_draws := Suc (w_draws w)\<rparr>)"
    using b by (simp add: signed_message_def draw_def and_then_def)
  moreover have "process_request nd (Client cid) (MsgRequest request ?mid
      (Some (safe_key_sign ?env (SafeClient i) b))) v =
    (case handle_request nd (Client cid) (client_public_key nd cid) (client_public_key nd cid) request v of
       None \<Rightarrow> None | Some (res, v') \<Rightarrow> Some (Ok (MsgResponse res ?mid), v'))" for v
    using assms(3) b(2) by (simp add: process_request_def authenticate_def pid)
  ultimately show ?thesis
    using assms(2) pid(1) by (simp add: req_def and_then_def on_net_def cm_send_plain split: option.splits)
qed

text \<open>The steps that only change connections.\<close>

lemma new_manager_mock:
  "new_manager (mock_env nd cd lo) (\<lambda>cm. cm) w = Some (Ok (), w\<lparr>w_net := cm_new (cm_vault (w_net w))\<rparr>)"
  by (simp add: new_manager_def mock_env_def)

lemma auth_bootstrap_mock:
  obtains n where "auth_bootstrap (mock_env nd cd lo) k w = Some (Ok (), w\<lparr>w_net := n\<rparr>)"
    "vault_of n = vault_of (w_net w)" "plain_net n = plain_net (w_net w)" "cm_vault n = cm_vault (w_net w)"
proof (rule that)
  let ?n = "snd (the (tr_bootstrap (mock_env nd cd lo) k (w_net w)))"
  show "auth_bootstrap (mock_env nd cd lo) k w = Some (Ok (), w\<lparr>w_net := ?n\<rparr>)"
    by (simp add: auth_bootstrap_def map_err_def on_net_def cm_bootstrap_def mock_env_def)
qed (simp_all add: cm_bootstrap_def mock_env_def vault_of_def plain_net_def)

lemma auth_disconnect_mock:
  obtains n where "auth_disconnect (mock_env nd cd lo) k w = Some (Ok (), w\<lparr>w_net := n\<rparr>)"
    "vault_of n = vault_of (w_net w)" "plain_net n = plain_net (w_net w)" "cm_vault n = cm_vault (w_net w)"
proof (rule that)
  let ?n = "snd (the (cm_disconnect (safe_key_public_id (mock_env nd cd lo) k) (w_net w)))"
  show "auth_disconnect (mock_env nd cd lo) k w = Some (Ok (), w\<lparr>w_net := ?n\<rparr>)"
    by (simp add: auth_disconnect_def map_err_def on_net_def cm_disconnect_def Let_def)
qed (simp_all add: cm_disconnect_def vault_of_def plain_net_def Let_def)

lemma login_packet_stored:
  assumes "handle_request nd requester pk opk (CreateLoginPacket p) v = Some (RespMutation (Ok ()), v')"
  shows "login_packets v (lp_destination nd p) = None" "login_packets v' (lp_destination nd p) = Some p"
  using assms
  by (auto simp: handle_request_def req_create_login_packet_def respond_def Let_def get_login_packet_def
      insert_login_packet_def elim!: and_then_Ok split: option.splits if_splits)

lemma cm_new_plain:
  "memory_world w \<Longrightarrow> plain_net (cm_new (cm_vault (w_net w)))"
  "vault_of (cm_new (cm_vault n)) = vault_of n"
  by (simp_all add: plain_net_def cm_new_def memory_world_def vault_of_def)

lemma user_account_new_Ok:
  assumes "user_account_new co keys w = Some (Ok acc, w')"
  shows "maid_keys acc = keys" "w_net w' = w_net w"
  using assms by (auto simp: user_account_new_def random_private_def draw_def and_then_def)

lemma client_keys_new_net: "client_keys_new co ao seed w = Some (Ok keys, w') \<Longrightarrow> w_net w' = w_net w"
  by (auto simp: client_keys_new_def draw_def and_then_def split: prod.splits option.splits)

lemma map_err_eq_Ok: "map_err f m s = Some (Ok a, s') \<Longrightarrow> m s = Some (Ok a, s')"
  by (simp add: map_err_Ok)

lemma expect_auth_Ok: "expect_auth sel res = Ok a \<longleftrightarrow> sel res = Some (Ok a)"
  by (auto simp: expect_auth_def res_map_err_eq_Ok split: option.split)

text \<open>What a successful registration has done to the vault.\<close>

lemma registered_Ok:
  fixes w :: "'raw conn_manager world"
  assumes laws: "sign_laws (mock_env nd cd lo)" "packet_laws (mock_env nd cd lo) ao"
    and mem: "memory_world w" and type: "\<forall>p. get_type nd (CreateLoginPacket p) \<noteq> PublicGet"
    and run: "registered (mock_env nd cd lo) co ao loc pass i w = Some (Ok a, w1)"
    and secrets: "derive_secrets co loc pass = (password, keyword, pin)"
    and tid: "tid = create_client_id co ao (xn_bytes (generate_network_id co keyword pin))"
  shows "\<exists>p cipher. au_acc_loc a = generate_network_id co keyword pin \<and>
    account_encrypt co (au_acc a) password pin = Ok cipher \<and> cl_full_id (au_client a) = SafeClient i \<and>
    client_safe_key (maid_keys (au_acc a)) = SafeClient i \<and>
    lp_new ao (au_acc_loc a) (client_public_key nd (full_client_id lo tid)) cipher (client_sign lo tid cipher) = Ok p \<and>
    login_packets (vault_of (w_net w)) (au_acc_loc a) = None \<and>
    login_packets (vault_of (w_net w1)) (au_acc_loc a) = Some p \<and> memory_world w1"
  using run unfolding registered_def registered_impl_def secrets Let_def prod.case option.case tid [symmetric]
proof (elim and_then_Ok, goal_cases)
  case (1 keys0 wa acc wb cipher wc p wd u1 we u2 wf response wg u3 wh u4 wi u5 wj)
  let ?env = "mock_env nd cd lo" and ?cid = "full_client_id lo i"
  have acc: "maid_keys acc = keys0\<lparr>ck_client_id := i\<rparr>" "w_net wb = w_net w"
    using client_keys_new_net [OF map_err_eq_Ok [OF 1(1)]] user_account_new_Ok [OF map_err_eq_Ok [OF 1(2)]] by auto
  have pure: "account_encrypt co acc password pin = Ok cipher" "wc = wb" "wd = wb"
      "lp_new ao (generate_network_id co keyword pin) (client_public_key nd (full_client_id lo tid)) cipher (client_sign lo tid cipher) = Ok p"
    using 1(3,4) by (auto simp: res_map_err_eq_Ok mock_env_def)
  have we: "w_net we = cm_new (cm_vault (w_net w))"
    using 1(5) acc(2) by (auto simp: new_manager_mock pure)
  obtain n1 where "auth_bootstrap ?env (SafeClient i) we = Some (Ok (), we\<lparr>w_net := n1\<rparr>)"
      "vault_of n1 = vault_of (w_net we)" "plain_net n1 = plain_net (w_net we)" "cm_vault n1 = cm_vault (w_net we)"
    by (rule auth_bootstrap_mock)
  then have wf: "plain_net (w_net wf)" "vault_of (w_net wf) = vault_of (w_net w)" "fst (snd (cm_vault (w_net wf))) = MemoryStore"
    using 1(6) cm_new_plain(1) [OF mem] cm_new_plain(2) [of "w_net w"] mem
    by (auto simp: we memory_world_def cm_new_def)
  have rq: "req ?env (CreateLoginPacket p) (SafeClient i) wf = Some (Ok response, wg)" and wh: "wh = wg"
      and ok: "response = RespMutation (Ok ())"
    using 1(7,8) by (auto dest: map_err_eq_Ok simp: expect_auth_Ok as_mutation_def split: response.splits)
  obtain v where v: "handle_request nd (Client ?cid) (client_public_key nd ?cid) (client_public_key nd ?cid)
        (CreateLoginPacket p) (vault_of (w_net w)) = Some (RespMutation (Ok ()), v)"
      and wg: "w_net wg = set_vault v (w_net wf)"
    using rq unfolding req_authenticated [OF laws(1) wf(1) type [rule_format] HOL.refl] wf(2) ok
    by (auto split: option.splits)
  have ends: "w_net w1 = w_net wj" "au_acc a = acc" "au_acc_loc a = generate_network_id co keyword pin"
      "cl_full_id (au_client a) = client_safe_key (maid_keys acc)"
    using 1(11) by (auto simp: new_auth_client_def)
  obtain n2 where "auth_disconnect ?env (SafeClient i) wh = Some (Ok (), wh\<lparr>w_net := n2\<rparr>)" "cm_vault n2 = cm_vault (w_net wh)"
    by (rule auth_disconnect_mock)
  moreover obtain n3 where "auth_bootstrap ?env (client_safe_key (keys0\<lparr>ck_client_id := i\<rparr>)) wi = Some (Ok (), wi\<lparr>w_net := n3\<rparr>)"
      "cm_vault n3 = cm_vault (w_net wi)"
    by (rule auth_bootstrap_mock)
  ultimately have "cm_vault (w_net wj) = cm_vault (w_net wg)"
    using 1(9,10) wh by auto
  then have "vault_of (w_net w1) = v" "memory_world w1"
    using wf(3) by (simp_all add: ends vault_of_def wg set_vault_def memory_world_def)
  moreover have "lp_destination nd p = generate_network_id co keyword pin"
    using laws(2) pure(4) by (auto simp: packet_laws_def)
  ultimately show ?case
    using login_packet_stored [OF v] pure(1,4) ends acc(1) by (simp add: client_safe_key_def)
qed

text \<open>A login with a stored packet comes down to decrypting the account.\<close>

lemma login_stored:
  fixes w1 :: "'raw conn_manager world"
  assumes laws: "sign_laws (mock_env nd cd lo)" "packet_laws (mock_env nd cd lo) ao" "\<forall>n. get_type nd (GetLoginPacket n) \<noteq> PublicGet"
    and w1: "memory_world w1" and sec: "derive_secrets co loc q = (password, keyword, pin)"
    and acc_loc: "acc_loc = generate_network_id co keyword pin" and tid: "tid = create_client_id co ao (xn_bytes acc_loc)"
    and lp: "lp_new ao acc_loc (client_public_key nd (full_client_id lo tid)) cipher (client_sign lo tid cipher) = Ok p"
    and stored: "login_packets (vault_of (w_net w1)) acc_loc = Some p"
  shows "\<exists>w2. login (mock_env nd cd lo) co ao loc q w1 =
      and_then (lift_res (res_map_err AuthCoreError (account_decrypt co cipher password pin))) (\<lambda>acc.
        and_then (auth_bootstrap (mock_env nd cd lo) (client_safe_key (maid_keys acc))) (\<lambda>_.
          new_auth_client (mock_env nd cd lo) acc acc_loc \<lparr>uc_pin = pin, uc_password = password\<rparr>)) w2"
proof -
  let ?env = "mock_env nd cd lo" and ?pk = "client_public_key nd (full_client_id lo tid)"
  have packet: "lp_destination nd p = acc_loc" "lp_authorised_getter nd p = ?pk"
      "lp_data nd p = cipher" "lp_signature nd p = client_sign lo tid cipher"
    using laws(2) lp by (auto simp: packet_laws_def)
  have verified: "pk_verify ao ?pk (client_sign lo tid cipher) cipher = Ok ()"
    using laws(2) by (auto simp: packet_laws_def mock_env_def)
  let ?w0 = "w1\<lparr>w_net := cm_new (cm_vault (w_net w1))\<rparr>"
  obtain n where boot: "auth_bootstrap ?env (SafeClient tid) ?w0 = Some (Ok (), ?w0\<lparr>w_net := n\<rparr>)"
      "vault_of n = vault_of (w_net w1)" "plain_net n"
    using auth_bootstrap_mock [of nd cd lo "SafeClient tid" ?w0] cm_new_plain(1) [OF w1] cm_new_plain(2) [of "w_net w1"]
    by (metis world.select_convs(1) world.surjective world.update_convs(1))
  have "handle_request nd (Client (full_client_id lo tid)) ?pk ?pk (GetLoginPacket acc_loc) (vault_of (w_net w1)) =
    Some (RespGetLoginPacket (Ok (cipher, client_sign lo tid cipher)), vault_of (w_net w1))"
    using stored packet by (simp add: handle_request_def req_get_login_packet_def respond_def get_login_packet_def)
  then obtain w2 where rq: "req ?env (GetLoginPacket acc_loc) (SafeClient tid) (?w0\<lparr>w_net := n\<rparr>) =
      Some (Ok (RespGetLoginPacket (Ok (cipher, client_sign lo tid cipher))), w2)"
    using req_authenticated [OF laws(1) _ laws(3) [rule_format] HOL.refl, of "?w0\<lparr>w_net := n\<rparr>"] boot(2,3) by simp
  obtain n' where disc: "auth_disconnect ?env (SafeClient tid) w2 = Some (Ok (), w2\<lparr>w_net := n'\<rparr>)"
    by (rule auth_disconnect_mock)
  show ?thesis
    using rq boot(1) disc verified
    by (intro exI [of _ "w2\<lparr>w_net := n'\<rparr>"], subst login_def, subst login_impl_def, subst sec,
        simp only: prod.case Let_def acc_loc [symmetric] tid [symmetric])
      (simp add: and_then_def new_manager_mock map_err_def expect_auth_def as_login_packet_def mock_env_keys)
qed

text \<open>
  (C15) After a registration, logging in with the same credentials gives the account that was
  registered, under the same identity; logging in with another password, from which another key is
  derived, is refused; and nobody can register at the same place again.
\<close>

theorem login_after_registration:
  fixes w :: "'raw conn_manager world"
  assumes laws: "crypto_laws co" "sign_laws (mock_env nd cd lo)" "packet_laws (mock_env nd cd lo) ao"
    and types: "\<forall>p. get_type nd (CreateLoginPacket p) \<noteq> PublicGet" "\<forall>n. get_type nd (GetLoginPacket n) \<noteq> PublicGet"
    and mem: "memory_world w"
    and reg: "registered (mock_env nd cd lo) co ao loc pass i w = Some (Ok a, w1)"
    and codec: "ser_account co (au_acc a) = Ok b" "de_account co b = Ok (au_acc a)"
  shows "(\<exists>a' w2. login (mock_env nd cd lo) co ao loc pass w1 = Some (Ok a', w2) \<and> au_acc a' = au_acc a \<and>
        cl_full_id (au_client a') = SafeClient i) \<and>
    (\<forall>pass'. fst (generate_crypto_keys co (fst (derive_secrets co loc pass')) (snd (snd (derive_secrets co loc pass)))) \<noteq>
        fst (generate_crypto_keys co (fst (derive_secrets co loc pass)) (snd (snd (derive_secrets co loc pass)))) \<longrightarrow>
      (\<exists>w2. login (mock_env nd cd lo) co ao loc pass' w1 = Some (Err (AuthCoreError SymmetricDecipherFailure), w2))) \<and>
    (\<forall>pass' i' r w2. registered (mock_env nd cd lo) co ao loc pass' i' w1 = Some (r, w2) \<longrightarrow> \<not> is_ok r)"
proof -
  let ?env = "mock_env nd cd lo"
  obtain password keyword pin where sec: "derive_secrets co loc pass = (password, keyword, pin)"
    by (metis prod.exhaust)
  have sec': "derive_secrets co loc q = (fst (derive_secrets co loc q), keyword, pin)" for q
    using sec by (auto simp: derive_secrets_def Let_def)
  define tid where "tid = create_client_id co ao (xn_bytes (generate_network_id co keyword pin))"
  obtain p cipher where a: "au_acc_loc a = generate_network_id co keyword pin"
      "account_encrypt co (au_acc a) password pin = Ok cipher" "client_safe_key (maid_keys (au_acc a)) = SafeClient i"
      and lp: "lp_new ao (au_acc_loc a) (client_public_key nd (full_client_id lo tid)) cipher (client_sign lo tid cipher) = Ok p"
      and stored: "login_packets (vault_of (w_net w1)) (au_acc_loc a) = Some p" and w1: "memory_world w1"
    using registered_Ok [OF laws(2,3) mem types(1) reg sec tid_def] by blast
  have tid: "tid = create_client_id co ao (xn_bytes (au_acc_loc a))"
    by (simp add: tid_def a(1))
  note run = login_stored [OF laws(2,3) types(2) w1 sec' a(1) tid lp stored]
  have decrypts: "account_decrypt co cipher password pin = Ok (au_acc a)"
      "fst (generate_crypto_keys co q pin) \<noteq> fst (generate_crypto_keys co password pin) \<Longrightarrow>
        account_decrypt co cipher q pin = Err SymmetricDecipherFailure" for q
    using a(2) codec laws(1)
    by (auto simp: account_encrypt_def account_decrypt_def crypto_laws_def split: prod.splits)
  have "\<exists>a' w2. login ?env co ao loc pass w1 = Some (Ok a', w2) \<and> au_acc a' = au_acc a \<and>
      cl_full_id (au_client a') = SafeClient i"
  proof -
    obtain w2 where w2: "login ?env co ao loc pass w1 =
        and_then (auth_bootstrap ?env (SafeClient i)) (\<lambda>_. new_auth_client ?env (au_acc a) (au_acc_loc a)
          \<lparr>uc_pin = pin, uc_password = password\<rparr>) w2"
      using run [of pass] by (auto simp: sec decrypts(1) a(3))
    obtain n2 where "auth_bootstrap ?env (SafeClient i) w2 = Some (Ok (), w2\<lparr>w_net := n2\<rparr>)"
      by (rule auth_bootstrap_mock)
    then show ?thesis
      by (simp add: w2 and_then_def new_auth_client_def a(3))
  qed
  moreover have "\<exists>w2. login ?env co ao loc q w1 = Some (Err (AuthCoreError SymmetricDecipherFailure), w2)"
    if "fst (generate_crypto_keys co (fst (derive_secrets co loc q)) pin) \<noteq> fst (generate_crypto_keys co password pin)" for q
    using run [of q] decrypts(2) [OF that] by (auto simp: and_then_def)
  moreover have "\<not> is_ok r" if "registered ?env co ao loc pass' i' w1 = Some (r, w3)" for pass' i' r w3
    using registered_Ok [OF laws(2,3) w1 types(1) _ sec' tid_def] that stored a(1) by (cases r) fastforce+
  ultimately show ?thesis
    by (simp add: sec)
qed

text \<open>A login packet as its four parts one after the other.\<close>

definition packet_nd :: safe_nd where
  "packet_nd = sample_nd\<lparr>
     lp_destination := (\<lambda>p. XorName (fst (pair_dec p))),
     lp_authorised_getter := (\<lambda>p. PublicKey (fst (pair_dec (snd (pair_dec p))))),
     lp_data := (\<lambda>p. snd (pair_dec (snd (pair_dec (snd (pair_dec p)))))),
     lp_signature := (\<lambda>p. fst (pair_dec (snd (pair_dec (snd (pair_dec p))))))\<rparr>"

definition sample_auth :: auth_ops where
  "sample_auth = \<lparr>
     lp_new = (\<lambda>d pk b s. Ok (pair_enc (xn_bytes d, pair_enc (pk_bytes pk, pair_enc (s, b))))),
     seeded_client_id = (\<lambda>b. ClientFullId b), rnd_client_id = (\<lambda>i. ClientFullId [of_nat i]),
     rnd_enc_keypair = (\<lambda>i. ([of_nat i], [of_nat i])),
     pk_verify = (\<lambda>pk s b. if s = pk_bytes pk then Ok () else Err InvalidSignature)\<rparr>"

definition packet_env :: "cache option conn_manager client_env" where
  "packet_env = mock_env packet_nd sample_codec sample_ops"

definition sample_world :: "cache option conn_manager world" where
  "sample_world = \<lparr>w_net = w_net (sample_client sample_vault [1]), w_draws = 0\<rparr>"

lemma packet_env_laws: "sign_laws packet_env" "packet_laws packet_env sample_auth" "memory_world sample_world"
  by (auto simp: sign_laws_def packet_laws_def packet_env_def mock_env_def sample_ops_def packet_nd_def sample_nd_def
      safe_key_sign_def safe_key_public_key_def sample_auth_def memory_world_def sample_world_def sample_client_def
      memory_net_def cm_new_def
      split: safe_key.splits client_full_id.splits app_full_id.splits)

text \<open>The account that the first registration draws.\<close>

definition first_account :: user_account where
  "first_account = \<lparr>maid_keys = \<lparr>ck_client_id = ClientFullId [1], ck_enc_key = [1], ck_enc_pk = [0], ck_enc_sk = [0]\<rparr>,
     access_container = new_private (MSeqAddr (XorName [3]) DIR_TAG) ([4], [5]),
     config_root = new_private (MSeqAddr (XorName [6]) DIR_TAG) ([7], [8]), root_dirs_created = False\<rparr>"

definition first_crypto :: crypto_ops where
  "first_crypto = sample_crypto\<lparr>de_account := (\<lambda>b. Ok first_account)\<rparr>"

lemma first_crypto_laws: "crypto_laws first_crypto"
  by (simp add: crypto_laws_def first_crypto_def sample_crypto_def)

lemma first_registration:
  "\<exists>a w1. registered packet_env first_crypto sample_auth [7] [8] (ClientFullId [1]) sample_world = Some (Ok a, w1) \<and>
     au_acc a = first_account"
  by (simp add: registered_def registered_impl_def client_keys_new_def derive_secrets_def generate_network_id_def derive_key_def first_crypto_def
      sample_crypto_def SHA3_512_HASH_LEN_def user_account_new_def random_private_def draw_def and_then_def map_err_def
      account_encrypt_def generate_crypto_keys_def create_client_id_def sample_auth_def new_manager_def packet_env_def
      mock_env_def auth_bootstrap_def auth_disconnect_def on_net_def cm_bootstrap_def cm_disconnect_def req_def
      signed_message_def cm_send_def intercept_request_def sample_world_def sample_client_def memory_net_def cm_new_def
      guarded_memory is_writing_def sample_ops_def safe_key_public_id_def safe_key_sign_def expect_auth_def as_mutation_def
      new_auth_client_def client_safe_key_def first_account_def mdata_address_from_kind_def new_private_def
      XOR_NAME_LEN_def SYM_ENC_KEY_LEN_def SYM_ENC_NONCE_LEN_def
      vault_eval sample_simps packet_nd_def Let_def req_create_login_packet_def)

theorem login_after_registration_witness:
  "\<exists>a w1 a' w2. registered packet_env first_crypto sample_auth [7] [8] (ClientFullId [1]) sample_world = Some (Ok a, w1) \<and>
     login packet_env first_crypto sample_auth [7] [8] w1 = Some (Ok a', w2) \<and> au_acc a' = first_account \<and>
     (\<exists>w3. login packet_env first_crypto sample_auth [7] [9] w1 = Some (Err (AuthCoreError SymmetricDecipherFailure), w3))"
proof -
  obtain a w1 where reg: "registered packet_env first_crypto sample_auth [7] [8] (ClientFullId [1]) sample_world = Some (Ok a, w1)"
      and acc: "au_acc a = first_account"
    using first_registration by blast
  have codec: "ser_account first_crypto (au_acc a) = Ok []" "de_account first_crypto [] = Ok (au_acc a)"
    by (simp_all add: acc first_crypto_def sample_crypto_def)
  have types: "\<forall>p. get_type packet_nd (CreateLoginPacket p) \<noteq> PublicGet" "\<forall>n. get_type packet_nd (GetLoginPacket n) \<noteq> PublicGet"
    by (simp_all add: packet_nd_def sample_nd_def sample_type_def)
  have keys: "fst (generate_crypto_keys first_crypto (fst (derive_secrets first_crypto [7] [9])) (snd (snd (derive_secrets first_crypto [7] [8])))) \<noteq>
      fst (generate_crypto_keys first_crypto (fst (derive_secrets first_crypto [7] [8])) (snd (snd (derive_secrets first_crypto [7] [8]))))"
    by (simp add: generate_crypto_keys_def derive_key_def derive_secrets_def first_crypto_def sample_crypto_def
        SYM_ENC_KEY_LEN_def SYM_ENC_NONCE_LEN_def Let_def)
  note main = login_after_registration [OF first_crypto_laws packet_env_laws(1,2) [unfolded packet_env_def] types
      packet_env_laws(3) reg [unfolded packet_env_def] codec, folded packet_env_def]
  obtain a' w2 where "login packet_env first_crypto sample_auth [7] [8] w1 = Some (Ok a', w2)" "au_acc a' = first_account"
    using main acc by auto
  moreover obtain w3 where "login packet_env first_crypto sample_auth [7] [9] w1 = Some (Err (AuthCoreError SymmetricDecipherFailure), w3)"
    using main keys by blast
  ultimately show ?thesis
    using reg by blast
qed

end
