(* ===== verification/Core_Client.thy ===== *)
theory Core_Client
  imports Auth_Client
begin

section \<open>The client of the tests of the core library\<close>

text \<open>
  safe\_core/src/client/core\_client.rs: \<open>CoreClient\<close> creates an account with a balance of its own and logs in with it. The identity that
  signs the account is seeded with the credentials themselves, not with the location of the account as in the authenticator.
\<close>

record 'n core_client =
  co_inner :: "'n client"
  co_keys :: client_keys

definition core_client_seed :: "crypto_ops \<Rightarrow> auth_ops \<Rightarrow> bytes \<Rightarrow> bytes \<Rightarrow> client_full_id" where
  "core_client_seed co ao acc_locator acc_password = seeded_client_id ao (sha3_256 co (acc_locator @ acc_password))"

definition core_client_new_impl ::
  "'n client_env \<Rightarrow> crypto_ops \<Rightarrow> auth_ops \<Rightarrow> bytes \<Rightarrow> bytes \<Rightarrow> ('n \<Rightarrow> 'n) \<Rightarrow> ('n world, core_error, 'n core_client) prog" where
  "core_client_new_impl env co ao acc_locator acc_password wrap =
     (case derive_secrets co acc_locator acc_password of (password, keyword, pin) \<Rightarrow>
      let acc_loc = generate_network_id co keyword pin in
      and_then (client_keys_new co ao None) (\<lambda>keys.
      and_then (user_account_new co keys) (\<lambda>acc.
      and_then (lift_res (account_encrypt co acc password pin)) (\<lambda>acc_ciphertext.
      let client_full_id = core_client_seed co ao acc_locator acc_password;
          client_pk = client_public_key (ce_nd env) (full_client_id env client_full_id);
          sig = client_sign env client_full_id acc_ciphertext;
          balance_client_id = client_safe_key keys;
          new_balance_owner = keys_public_key env keys in
      and_then (lift_res (res_map_err DataError (lp_new ao acc_loc client_pk acc_ciphertext sig))) (\<lambda>new_login_packet.
      and_then (\<lambda>w. case tr_new env (w_net w) of
          Err e \<Rightarrow> Some (Err e, w)
        | Ok n \<Rightarrow> Some (Ok (), w\<lparr>w_net := wrap n\<rparr>)) (\<lambda>_.
      and_then (on_net (tr_bootstrap env balance_client_id)) (\<lambda>_.
      and_then (unwrap (lift_res (coins_from_str (ce_nd env) ''10''))) (\<lambda>amount.
      and_then (draw (random_u64 env)) (\<lambda>transaction_id.
      and_then (req env (CreateBalance new_balance_owner amount transaction_id) balance_client_id) (\<lambda>response.
      and_then (lift_res (expect_or_str as_transaction response)) (\<lambda>_.
      and_then (req env (CreateLoginPacket new_login_packet) balance_client_id) (\<lambda>response.
      and_then (lift_res (expect_or_str as_mutation response)) (\<lambda>_.
      and_then (on_net (tr_disconnect env (safe_key_public_id env balance_client_id))) (\<lambda>_.
      and_then (on_net (tr_bootstrap env (client_safe_key keys))) (\<lambda>_ w.
        Some (Ok \<lparr>co_inner = \<lparr>w_net = w_net w, w_draws = w_draws w, cl_full_id = client_safe_key keys,
               cl_owner_key = keys_public_key env keys, cl_cache = [], cl_timeout = 180, cl_events = [], cl_rx_alive = True\<rparr>,
             co_keys = keys\<rparr>, w))))))))))))))))"

definition core_client_new ::
  "'n client_env \<Rightarrow> crypto_ops \<Rightarrow> auth_ops \<Rightarrow> bytes \<Rightarrow> bytes \<Rightarrow> ('n world, core_error, 'n core_client) prog" where
  "core_client_new env co ao acc_locator acc_password =
     core_client_new_impl env co ao acc_locator acc_password (\<lambda>cm. cm)"

text \<open>The methods that the traits \<open>Client\<close> require of a client of this kind and of the authenticator's.\<close>

definition core_client_encryption_keypair :: "'n core_client \<Rightarrow> bytes \<times> bytes" where
  "core_client_encryption_keypair c = (ck_enc_pk (co_keys c), ck_enc_sk (co_keys c))"

definition core_client_secret_symmetric_key :: "'n core_client \<Rightarrow> sym_key" where
  "core_client_secret_symmetric_key c = ck_enc_key (co_keys c)"

end
