(* ===== verification/Auth_Config.thy ===== *)
theory Auth_Config
  imports Auth_Client
begin

section \<open>The authenticator's configuration\<close>

text \<open>
  safe\_authenticator/src/config.rs: the registered apps and the revocation queue, two entries of the
  configuration directory. An entry is read, changed and written back; when its version turns out to
  be outdated it is read again and the change is repeated. The type of an entry and its serialiser are an
  \<open>entry_codec\<close>. \<open>mutate_entry\<close> has no bound on its repetitions: it is a partial function whose
  value \<open>None\<close> covers not returning, beside panics.
\<close>

record app_info =
  api_info :: app_exchange_info
  api_keys :: app_keys

type_synonym apps = "(bytes, app_info) hashmap"
type_synonym revocation_queue = "bytes list"

definition KEY_APPS :: bytes where
  "KEY_APPS = [0x61, 0x70, 0x70, 0x73]" \<comment> \<open>\<open>apps\<close>\<close>

definition KEY_APP_REVOCATION_QUEUE :: bytes where
  "KEY_APP_REVOCATION_QUEUE = [0x72, 0x65, 0x76, 0x6F, 0x63, 0x61, 0x74, 0x69, 0x6F, 0x6E, 0x2D,
     0x71, 0x75, 0x65, 0x75, 0x65]" \<comment> \<open>\<open>revocation-queue\<close>\<close>

record 't entry_codec =
  ec_ser :: "'t \<Rightarrow> bytes + bytes"
  ec_de :: "bytes \<Rightarrow> bytes + 't"
  ec_default :: 't

definition next_version_of :: "u64 option \<Rightarrow> u64" where
  "next_version_of version = (case version of Some v \<Rightarrow> v + 1 | None \<Rightarrow> 0)"

subsection \<open>Entries\<close>

definition get_entry ::
  "'n client_env \<Rightarrow> crypto_ops \<Rightarrow> 't entry_codec \<Rightarrow> bytes \<Rightarrow> ('n, u64 option \<times> 't) am" where
  "get_entry env co ec key a =
     (let parent = config_root_dir a in
      and_then (map_err AuthCoreError (with_client (enc_entry_key co parent key))) (\<lambda>k.
        or_else (with_client
          (and_then (client_get_seq_mdata_value env (mi_name parent) (mi_type_tag parent) k) (\<lambda>v.
             lift_res (res_and_then (mi_decrypt co parent (sv_data v)) (\<lambda>decoded.
               res_map (Pair (Some (sv_version v)))
                 (if decoded \<noteq> [] then res_map_err EncodeDecodeError (ec_de ec decoded)
                  else Ok (ec_default ec)))))))
          (\<lambda>error. lift_res (if error = DataError NoSuchEntry then Ok (None, ec_default ec)
                            else Err (AuthCoreError error)))) a)"

text \<open>The errors about the version of the one entry become \<open>InvalidSuccessor\<close>.\<close>

definition entry_version_error :: "bytes \<Rightarrow> core_error \<Rightarrow> core_error" where
  "entry_version_error key error = (case error of
     DataError (InvalidEntryActions errors) \<Rightarrow>
       (case bt_get errors key of
          Some (EntryInvalidSuccessor version) \<Rightarrow> DataError (InvalidSuccessor (ucast version))
        | Some (EntryExists version) \<Rightarrow> DataError (InvalidSuccessor (ucast version))
        | _ \<Rightarrow> error)
   | _ \<Rightarrow> error)"

definition update_entry ::
  "'n client_env \<Rightarrow> crypto_ops \<Rightarrow> 't entry_codec \<Rightarrow> bytes \<Rightarrow> 't \<Rightarrow> u64 \<Rightarrow> ('n, unit) am" where
  "update_entry env co ec key content new_version a =
     (let parent = config_root_dir a in
      and_then (map_err AuthCoreError (with_client (enc_entry_key co parent key))) (\<lambda>k.
      and_then (lift_res (res_map_err (\<lambda>_. AuthEncodeDecodeError) (ec_ser ec content))) (\<lambda>encoded.
      and_then (map_err AuthCoreError (with_client (enc_entry_value co parent encoded))) (\<lambda>c.
        map_err (\<lambda>e. AuthCoreError (entry_version_error k e))
          (with_client (client_mutate_seq_mdata_entries env (mi_name parent) (mi_type_tag parent)
             [(k, if new_version = 0 then Ins (MDataSeqValue c 0)
                  else Update (MDataSeqValue c new_version))]))))) a)"

definition outdated :: "auth_error \<Rightarrow> bool" where
  "outdated error = (case error of
     AuthCoreError (DataError (InvalidSuccessor _)) \<Rightarrow> True
   | _ \<Rightarrow> False)"

partial_function (option) mutate_entry ::
  "'n client_env \<Rightarrow> crypto_ops \<Rightarrow> 't entry_codec \<Rightarrow> bytes \<Rightarrow> ('t \<Rightarrow> bool \<times> 't) \<Rightarrow> u64 \<Rightarrow> 't
     \<Rightarrow> 'n auth_client \<Rightarrow> ((auth_error + (u64 \<times> 't)) \<times> 'n auth_client) option" where
  "mutate_entry env co ec key f new_version item a =
     (if fst (f item)
      then Option.bind (update_entry env co ec key (snd (f item)) new_version a) (\<lambda>(r, a1).
        case r of
          Inr _ \<Rightarrow> Some (Inr (new_version, snd (f item)), a1)
        | Inl error \<Rightarrow>
            if outdated error
            then Option.bind (get_entry env co ec key a1) (\<lambda>(r2, a2).
              case r2 of
                Inl e \<Rightarrow> Some (Inl e, a2)
              | Inr vi \<Rightarrow> mutate_entry env co ec key f (next_version_of (fst vi)) (snd vi) a2)
            else Some (Inl error, a1))
      else Some (Inr (new_version - 1, snd (f item)), a))"

subsection \<open>Registered apps\<close>

record config_ops =
  apps_codec :: "apps entry_codec"
  queue_codec :: "revocation_queue entry_codec"

definition list_apps :: "'n client_env \<Rightarrow> crypto_ops \<Rightarrow> config_ops \<Rightarrow> ('n, u64 option \<times> apps) am" where
  "list_apps env co cfg = get_entry env co (apps_codec cfg) KEY_APPS"

definition get_app :: "'n client_env \<Rightarrow> crypto_ops \<Rightarrow> config_ops \<Rightarrow> bytes \<Rightarrow> ('n, app_info) am" where
  "get_app env co cfg app_id =
     and_then (list_apps env co cfg) (\<lambda>(_, config).
       lift_res (ok_or (AuthIpcError UnknownApp) (map_of config (sha3_256 co app_id))))"

definition insert_app ::
  "'n client_env \<Rightarrow> crypto_ops \<Rightarrow> config_ops \<Rightarrow> apps \<Rightarrow> u64 \<Rightarrow> app_info \<Rightarrow> ('n, u64 \<times> apps) am" where
  "insert_app env co cfg apps new_version app =
     (let hash = sha3_256 co (ai_id (api_info app)) in
      mutate_entry env co (apps_codec cfg) KEY_APPS
        (\<lambda>apps. (map_of apps hash = None, hm_insert hash app apps)) new_version apps)"

definition remove_app ::
  "'n client_env \<Rightarrow> crypto_ops \<Rightarrow> config_ops \<Rightarrow> apps \<Rightarrow> u64 \<Rightarrow> bytes \<Rightarrow> ('n, u64 \<times> apps) am" where
  "remove_app env co cfg apps new_version app_id =
     (let hash = sha3_256 co app_id in
      mutate_entry env co (apps_codec cfg) KEY_APPS
        (\<lambda>apps. (map_of apps hash \<noteq> None, hm_remove hash apps)) new_version apps)"

subsection \<open>The revocation queue\<close>

definition get_app_revocation_queue ::
  "'n client_env \<Rightarrow> crypto_ops \<Rightarrow> config_ops \<Rightarrow> ('n, u64 option \<times> revocation_queue) am" where
  "get_app_revocation_queue env co cfg = get_entry env co (queue_codec cfg) KEY_APP_REVOCATION_QUEUE"

definition mutate_queue ::
  "'n client_env \<Rightarrow> crypto_ops \<Rightarrow> config_ops \<Rightarrow> (revocation_queue \<Rightarrow> bool \<times> revocation_queue)
     \<Rightarrow> revocation_queue \<Rightarrow> u64 \<Rightarrow> ('n, u64 \<times> revocation_queue) am" where
  "mutate_queue env co cfg f queue new_version =
     mutate_entry env co (queue_codec cfg) KEY_APP_REVOCATION_QUEUE f new_version queue"

definition queue_push :: "bytes \<Rightarrow> revocation_queue \<Rightarrow> bool \<times> revocation_queue" where
  "queue_push app_id queue =
     (if app_id \<notin> set queue then (True, queue @ [app_id]) else (False, queue))"

text \<open>\<open>position\<close> and \<open>remove\<close>: the first occurrence is taken out.\<close>

definition queue_remove :: "bytes \<Rightarrow> revocation_queue \<Rightarrow> bool \<times> revocation_queue" where
  "queue_remove app_id queue =
     (if app_id \<in> set queue then (True, remove1 app_id queue) else (False, queue))"

definition queue_repush :: "bytes \<Rightarrow> revocation_queue \<Rightarrow> bool \<times> revocation_queue" where
  "queue_repush app_id queue =
     (if app_id \<in> set queue then (True, remove1 app_id queue @ [app_id]) else (False, queue))"

definition push_to_app_revocation_queue ::
  "'n client_env \<Rightarrow> crypto_ops \<Rightarrow> config_ops \<Rightarrow> revocation_queue \<Rightarrow> u64 \<Rightarrow> bytes
     \<Rightarrow> ('n, u64 \<times> revocation_queue) am" where
  "push_to_app_revocation_queue env co cfg queue new_version app_id =
     mutate_queue env co cfg (queue_push app_id) queue new_version"

definition remove_from_app_revocation_queue ::
  "'n client_env \<Rightarrow> crypto_ops \<Rightarrow> config_ops \<Rightarrow> revocation_queue \<Rightarrow> u64 \<Rightarrow> bytes
     \<Rightarrow> ('n, u64 \<times> revocation_queue) am" where
  "remove_from_app_revocation_queue env co cfg queue new_version app_id =
     mutate_queue env co cfg (queue_remove app_id) queue new_version"

definition repush_to_app_revocation_queue ::
  "'n client_env \<Rightarrow> crypto_ops \<Rightarrow> config_ops \<Rightarrow> revocation_queue \<Rightarrow> u64 \<Rightarrow> bytes
     \<Rightarrow> ('n, u64 \<times> revocation_queue) am" where
  "repush_to_app_revocation_queue env co cfg queue new_version app_id =
     mutate_queue env co cfg (queue_repush app_id) queue new_version"

end
