(* ===== verification/Access_Container.thy ===== *)
theory Access_Container
  imports Auth_Config
begin

section \<open>The access container\<close>

text \<open>
  safe\_authenticator/src/access\_container.rs: the directory that holds, for each app, the encrypted
  list of the containers it may use, and one entry of the authenticator itself with all containers of the
  user. The key of an entry is the encrypted identifier of the app, its value is encrypted with the
  key of the app.
\<close>

type_synonym root_containers = "(bytes, mdata_info) hashmap"

record ac_ops =
  authenticator_codec :: "root_containers entry_codec"
  app_codec :: "access_container_entry entry_codec"

definition AUTHENTICATOR_ENTRY :: bytes where
  "AUTHENTICATOR_ENTRY = [0x61, 0x75, 0x74, 0x68, 0x65, 0x6E, 0x74, 0x69, 0x63, 0x61, 0x74, 0x6F, 0x72]"
    \<comment> \<open>\<open>authenticator\<close>\<close>

definition ac_enc_key :: "crypto_ops \<Rightarrow> mdata_info \<Rightarrow> bytes \<Rightarrow> sym_key \<Rightarrow> ('n, bytes) am" where
  "ac_enc_key co container app_id secret_key =
     and_then (lift_res (ok_or (auth_error_from_str ''No valid nonce for access container'') (mi_nonce container))) (\<lambda>nonce.
       map_err AuthCoreError (with_client (access_container_enc_key co app_id secret_key nonce)))"

subsection \<open>Encoding entries\<close>

definition decode_ac_entry :: "crypto_ops \<Rightarrow> 't entry_codec \<Rightarrow> bytes \<Rightarrow> sym_key \<Rightarrow> 't auth_result" where
  "decode_ac_entry co ec encoded enc_key =
     res_and_then (res_map_err AuthCoreError (symmetric_decrypt co encoded enc_key)) (\<lambda>plaintext.
       res_map_err (\<lambda>_. AuthEncodeDecodeError) (ec_de ec plaintext))"

definition encode_ac_entry :: "crypto_ops \<Rightarrow> 't entry_codec \<Rightarrow> 't \<Rightarrow> sym_key \<Rightarrow> ('n, bytes) am" where
  "encode_ac_entry co ec decoded enc_key =
     and_then (lift_res (res_map_err (\<lambda>_. AuthEncodeDecodeError) (ec_ser ec decoded))) (\<lambda>plaintext.
       map_err AuthCoreError (with_client (symmetric_encrypt co plaintext enc_key None)))"

definition decode_authenticator_entry ::
  "crypto_ops \<Rightarrow> ac_ops \<Rightarrow> bytes \<Rightarrow> sym_key \<Rightarrow> root_containers auth_result" where
  "decode_authenticator_entry co ac = decode_ac_entry co (authenticator_codec ac)"

definition encode_authenticator_entry ::
  "crypto_ops \<Rightarrow> ac_ops \<Rightarrow> root_containers \<Rightarrow> sym_key \<Rightarrow> ('n, bytes) am" where
  "encode_authenticator_entry co ac = encode_ac_entry co (authenticator_codec ac)"

definition decode_app_entry ::
  "crypto_ops \<Rightarrow> ac_ops \<Rightarrow> bytes \<Rightarrow> sym_key \<Rightarrow> access_container_entry auth_result" where
  "decode_app_entry co ac = decode_ac_entry co (app_codec ac)"

definition encode_app_entry ::
  "crypto_ops \<Rightarrow> ac_ops \<Rightarrow> access_container_entry \<Rightarrow> sym_key \<Rightarrow> ('n, bytes) am" where
  "encode_app_entry co ac = encode_ac_entry co (app_codec ac)"

text \<open>Version 0 means a new entry.\<close>

definition entry_action :: "bytes \<Rightarrow> bytes \<Rightarrow> u64 \<Rightarrow> seq_entry_actions" where
  "entry_action key ciphertext version =
     [(key, if version = 0 then Ins (MDataSeqValue ciphertext 0) else Update (MDataSeqValue ciphertext version))]"

subsection \<open>The entry of the authenticator\<close>

definition fetch_authenticator_entry ::
  "'n client_env \<Rightarrow> crypto_ops \<Rightarrow> ac_ops \<Rightarrow> ('n, u64 \<times> root_containers) am" where
  "fetch_authenticator_entry env co ac a =
     (let container = auth_access_container a; sk = secret_symmetric_key a in
      and_then (ac_enc_key co container AUTHENTICATOR_ENTRY sk) (\<lambda>key.
      and_then (map_err AuthCoreError
        (with_client (client_get_seq_mdata_value env (mi_name container) (mi_type_tag container) key))) (\<lambda>v.
        lift_res (res_map (Pair (sv_version v)) (decode_authenticator_entry co ac (sv_data v) sk)))) a)"

definition put_authenticator_entry ::
  "'n client_env \<Rightarrow> crypto_ops \<Rightarrow> ac_ops \<Rightarrow> root_containers \<Rightarrow> u64 \<Rightarrow> ('n, unit) am" where
  "put_authenticator_entry env co ac new_value version a =
     (let container = auth_access_container a; sk = secret_symmetric_key a in
      and_then (ac_enc_key co container AUTHENTICATOR_ENTRY sk) (\<lambda>key.
      and_then (encode_authenticator_entry co ac new_value sk) (\<lambda>ciphertext.
        map_err AuthCoreError (with_client
          (mutate_mdata_entries env (mi_address container) (entry_action key ciphertext version))))) a)"

subsection \<open>The entries of the apps\<close>

definition fetch_entry ::
  "'n client_env \<Rightarrow> crypto_ops \<Rightarrow> ac_ops \<Rightarrow> bytes \<Rightarrow> app_keys \<Rightarrow> ('n, u64 \<times> access_container_entry option) am" where
  "fetch_entry env co ac app_id keys a =
     (let container = auth_access_container a in
      and_then (ac_enc_key co container app_id (ak_enc_key keys)) (\<lambda>key.
      and_then (or_else
        (map_prog Some (with_client (client_get_seq_mdata_value env (mi_name container) (mi_type_tag container) key)))
        (\<lambda>err. lift_res (if err = DataError NoSuchEntry then Ok None else Err (AuthCoreError err)))) (\<lambda>found.
        lift_res (case found of
            None \<Rightarrow> Ok (0, None)
          | Some v \<Rightarrow> res_map (\<lambda>decoded. (sv_version v, Some decoded))
              (decode_app_entry co ac (sv_data v) (ak_enc_key keys))))) a)"

text \<open>The shell's version is read, then the permission is changed with the next one.\<close>

definition put_entry ::
  "'n client_env \<Rightarrow> crypto_ops \<Rightarrow> ac_ops \<Rightarrow> perm_ops \<Rightarrow> bytes \<Rightarrow> app_keys \<Rightarrow> access_container_entry \<Rightarrow> u64
     \<Rightarrow> ('n, unit) am" where
  "put_entry env co ac po app_id keys permissions version a =
     (let container = auth_access_container a in
      and_then (ac_enc_key co container app_id (ak_enc_key keys)) (\<lambda>key.
      and_then (encode_app_entry co ac permissions (ak_enc_key keys)) (\<lambda>ciphertext.
        map_err AuthCoreError (with_client
          (and_then (client_get_mdata_version env (mi_address container)) (\<lambda>shell_version.
           and_then (client_set_mdata_user_permissions env (mi_address container) (app_keys_public_key env keys)
              (ps_allow po (ps_new po) ActRead) (shell_version + 1)) (\<lambda>_.
             mutate_mdata_entries env (mi_address container) (entry_action key ciphertext version))))))) a)"

definition delete_entry ::
  "'n client_env \<Rightarrow> crypto_ops \<Rightarrow> bytes \<Rightarrow> app_keys \<Rightarrow> u64 \<Rightarrow> ('n, unit) am" where
  "delete_entry env co app_id keys version a =
     (let container = auth_access_container a in
      and_then (ac_enc_key co container app_id (ak_enc_key keys)) (\<lambda>key.
        map_err AuthCoreError (with_client
          (and_then (client_get_mdata_version env (mi_address container)) (\<lambda>shell_version.
           and_then (client_del_mdata_user_permissions env (mi_address container) (app_keys_public_key env keys)
              (shell_version + 1)) (\<lambda>_.
             mutate_mdata_entries env (mi_address container) [(key, Del version)]))))) a)"

end
