(* ===== verification/Revocation.thy ===== *)
theory Revocation
  imports Access_Container
begin

section \<open>Revoking apps\<close>

text \<open>
  safe\_authenticator/src/revocation.rs: the apps to revoke stand in a queue on the network, so that a
  revocation that fails is taken up again later. The loop over the queue is a partial function: the
  queue it continues with is the one on the network, which other authenticators may change.
\<close>

definition delete_app_auth_key :: "'n client_env \<Rightarrow> public_key \<Rightarrow> ('n, unit) am" where
  "delete_app_auth_key env key =
     or_else (with_client
       (and_then (client_list_auth_keys_and_version env) (\<lambda>(listed_keys, version).
          if listed_keys key \<noteq> None then client_del_auth_key env key (version + 1)
          else lift_res (Ok ()))))
       (\<lambda>error. lift_res (if error = DataError NoSuchKey then Ok () else Err (AuthCoreError error)))"

definition revoke_container_perms ::
  "'n client_env \<Rightarrow> root_containers \<Rightarrow> public_key \<Rightarrow> ('n, unit) am" where
  "revoke_container_perms env containers pk =
     map_prog (\<lambda>_. ()) (join_all (map (\<lambda>(_, info).
       (map_err AuthCoreError (with_client (client_get_mdata_version env (mi_address info))),
        \<lambda>version. map_err AuthCoreError (with_client
          (del_mdata_user_permissions env (mi_address info) pk (version + 1))))) containers))"

definition clear_from_access_container_entry ::
  "'n client_env \<Rightarrow> crypto_ops \<Rightarrow> app_info \<Rightarrow> u64 \<Rightarrow> root_containers \<Rightarrow> ('n, unit) am" where
  "clear_from_access_container_entry env co app ac_entry_version containers =
     and_then (revoke_container_perms env containers (app_keys_public_key env (api_keys app))) (\<lambda>_.
       delete_entry env co (ai_id (api_info app)) (api_keys app) (ac_entry_version + 1))"

definition revoke_single_app ::
  "'n client_env \<Rightarrow> crypto_ops \<Rightarrow> config_ops \<Rightarrow> ac_ops \<Rightarrow> bytes \<Rightarrow> ('n, unit) am" where
  "revoke_single_app env co cfg ac app_id =
     and_then (get_app env co cfg app_id) (\<lambda>app.
     and_then (delete_app_auth_key env (app_keys_public_key env (api_keys app))) (\<lambda>_.
     and_then (fetch_entry env co ac (ai_id (api_info app)) (api_keys app)) (\<lambda>(version, ac_entry).
       case ac_entry of
         Some entry \<Rightarrow> clear_from_access_container_entry env co app version
             (map (\<lambda>(name, info, _). (name, info)) entry)
       | None \<Rightarrow> lift_res (Ok ()))))"

text \<open>One round of the loop: \<open>Inl\<close> ends it, \<open>Inr\<close> is the state of the next round.\<close>

type_synonym flush_state = "revocation_queue \<times> u64 \<times> bytes list"

definition flush_round ::
  "(bytes \<Rightarrow> ('s, auth_error, unit) prog) \<Rightarrow> (revocation_queue \<Rightarrow> u64 \<Rightarrow> bytes \<Rightarrow> ('s, auth_error, u64 \<times> revocation_queue) prog)
     \<Rightarrow> (revocation_queue \<Rightarrow> u64 \<Rightarrow> bytes \<Rightarrow> ('s, auth_error, u64 \<times> revocation_queue) prog)
     \<Rightarrow> flush_state \<Rightarrow> 's \<Rightarrow> ((auth_error + (unit + flush_state)) \<times> 's) option" where
  "flush_round revoke remove repush = (\<lambda>(queue, version, moved_apps) s.
     (case queue of
        [] \<Rightarrow> Some (Ok (Inl ()), s)
      | app_id # _ \<Rightarrow>
          (case revoke app_id s of
             None \<Rightarrow> None
           | Some (Ok _, s1) \<Rightarrow>
               map_prog (\<lambda>(v, q). Inr (q, v + 1, moved_apps)) (remove queue version app_id) s1
           | Some (Err error, s1) \<Rightarrow>
               if error = AuthCoreError SymmetricDecipherFailure
               then and_then (remove queue version app_id) (\<lambda>_. lift_res (Err error)) s1
               else if app_id \<in> set moved_apps then Some (Err error, s1)
               else map_prog (\<lambda>(v, q). Inr (q, v + 1, moved_apps @ [app_id])) (repush queue version app_id) s1)))"

partial_function (option) flush_loop ::
  "(bytes \<Rightarrow> ('s, auth_error, unit) prog) \<Rightarrow> (revocation_queue \<Rightarrow> u64 \<Rightarrow> bytes \<Rightarrow> ('s, auth_error, u64 \<times> revocation_queue) prog)
     \<Rightarrow> (revocation_queue \<Rightarrow> u64 \<Rightarrow> bytes \<Rightarrow> ('s, auth_error, u64 \<times> revocation_queue) prog)
     \<Rightarrow> flush_state \<Rightarrow> 's \<Rightarrow> ((auth_error + unit) \<times> 's) option" where
  "flush_loop revoke remove repush st s =
     Option.bind (flush_round revoke remove repush st s) (\<lambda>(r, s1).
       case r of
         Inl e \<Rightarrow> Some (Inl e, s1)
       | Inr next \<Rightarrow> (case next of
           Inl _ \<Rightarrow> Some (Inr (), s1)
         | Inr st' \<Rightarrow> flush_loop revoke remove repush st' s1))"

definition flush_app_revocation_queue_impl ::
  "'n client_env \<Rightarrow> crypto_ops \<Rightarrow> config_ops \<Rightarrow> ac_ops \<Rightarrow> revocation_queue \<Rightarrow> u64 \<Rightarrow> ('n, unit) am" where
  "flush_app_revocation_queue_impl env co cfg ac queue version =
     flush_loop (revoke_single_app env co cfg ac) (remove_from_app_revocation_queue env co cfg)
       (repush_to_app_revocation_queue env co cfg) (queue, version, [])"

definition flush_app_revocation_queue ::
  "'n client_env \<Rightarrow> crypto_ops \<Rightarrow> config_ops \<Rightarrow> ac_ops \<Rightarrow> ('n, unit) am" where
  "flush_app_revocation_queue env co cfg ac =
     and_then (get_app_revocation_queue env co cfg) (\<lambda>(version, queue).
       case version of
         Some v \<Rightarrow> flush_app_revocation_queue_impl env co cfg ac queue (v + 1)
       | None \<Rightarrow> lift_res (Ok ()))"

definition revoke_app ::
  "'n client_env \<Rightarrow> crypto_ops \<Rightarrow> config_ops \<Rightarrow> ac_ops \<Rightarrow> bytes \<Rightarrow> ('n, unit) am" where
  "revoke_app env co cfg ac app_id =
     and_then (get_app_revocation_queue env co cfg) (\<lambda>(version, queue).
     and_then (push_to_app_revocation_queue env co cfg queue (next_version_of version) app_id) (\<lambda>(version, queue).
       flush_app_revocation_queue_impl env co cfg ac queue (version + 1)))"

end
