(* ===== verification/App_Auth.thy ===== *)
theory App_Auth
  imports Revocation Nfs
begin

section \<open>Authorising apps\<close>

text \<open>
  safe\_authenticator/src/app\_container.rs (the dedicated container of an app), the permissions on
  containers of ipc.rs, and app\_auth.rs: an app that asks for authorisation is registered in the
  configuration, its key is authorised, the containers it asks for are opened to it, and its entry is
  written to the access container.
\<close>

text \<open>The third-party functions, and the contacts that the configuration file lists, in one place.\<close>

record 'n auth_params =
  ap_env :: "'n client_env"
  ap_co :: crypto_ops
  ap_cfg :: config_ops
  ap_ac :: ac_ops
  ap_po :: perm_ops
  ap_no :: nfs_ops
  ap_io :: ipc_ops
  ap_contacts :: bootstrap_config
  ap_de_metadata :: "bytes \<Rightarrow> bytes + user_metadata"

definition client_bootstrap_config :: "'n auth_params \<Rightarrow> bootstrap_config core_result" where
  "client_bootstrap_config P = Ok (ap_contacts P)"

subsection \<open>The container of an app\<close>

definition all_permissions :: "perm_ops \<Rightarrow> perm_set" where
  "all_permissions po =
     ps_allow po (ps_allow po (ps_allow po (ps_allow po (ps_allow po (ps_new po) ActRead) ActInsert) ActUpdate)
       ActDelete) ActManagePermissions"

definition app_container_create :: "'n auth_params \<Rightarrow> public_key \<Rightarrow> ('n, mdata_info) am" where
  "app_container_create P app_pk =
     and_then (map_err AuthCoreError (with_client (random_private (ap_co P) MKindSeq DIR_TAG))) (\<lambda>dir.
       map_prog (\<lambda>_. dir) (map_err AuthNfsError
         (with_client (create_dir (ap_env P) (ap_no P) dir [] [(app_pk, all_permissions (ap_po P))]))))"

definition app_container_fetch_or_create :: "'n auth_params \<Rightarrow> bytes \<Rightarrow> public_key \<Rightarrow> ('n, mdata_info) am" where
  "app_container_fetch_or_create P app_id app_pk =
     and_then (fetch_authenticator_entry (ap_env P) (ap_co P) (ap_ac P)) (\<lambda>(ac_entry_version, ac_entries).
       case map_of ac_entries (app_container_name app_id) of
         Some mdata_info \<Rightarrow>
           map_err AuthCoreError (with_client
             (and_then (client_get_mdata_version (ap_env P) (mi_address mdata_info)) (\<lambda>version.
                map_prog (\<lambda>_. mdata_info)
                  (client_set_mdata_user_permissions (ap_env P) (mi_address mdata_info) app_pk
                    (all_permissions (ap_po P)) (version + 1)))))
       | None \<Rightarrow>
           and_then (app_container_create P app_pk) (\<lambda>md_info.
             map_prog (\<lambda>_. md_info)
               (put_authenticator_entry (ap_env P) (ap_co P) (ap_ac P)
                 (hm_insert (app_container_name app_id) md_info ac_entries) (ac_entry_version + 1))))"

definition app_container_remove :: "'n auth_params \<Rightarrow> bytes \<Rightarrow> ('n, bool) am" where
  "app_container_remove P app_id =
     and_then (fetch_authenticator_entry (ap_env P) (ap_co P) (ap_ac P)) (\<lambda>(ac_entry_version, ac_entries).
       case map_of ac_entries (app_container_name app_id) of
         None \<Rightarrow> lift_res (Ok False)
       | Some mdata_info \<Rightarrow>
           and_then (map_err AuthCoreError (with_client
             (and_then (client_list_seq_mdata_entries (ap_env P) (mi_name mdata_info) (mi_type_tag mdata_info)) (\<lambda>entries.
                client_mutate_seq_mdata_entries (ap_env P) (mi_name mdata_info) (mi_type_tag mdata_info)
                  (map (\<lambda>(entry_name, val). (entry_name, Del (sv_version val + 1))) entries))))) (\<lambda>_.
             map_prog (\<lambda>_. True)
               (put_authenticator_entry (ap_env P) (ap_co P) (ap_ac P)
                 (hm_remove (app_container_name app_id) ac_entries) (ac_entry_version + 1))))"

subsection \<open>Permissions on containers\<close>

text \<open>
  The loop that builds the requests: the first request of each, for the version of the container, is
  sent at once; a container that does not exist ends the loop.
\<close>

fun start_perm_requests ::
  "'n client_env \<Rightarrow> containers \<Rightarrow> root_containers
     \<Rightarrow> ('n, (bytes \<times> mdata_info \<times> container_permissions \<times> u64 auth_result) list) am" where
  "start_perm_requests env [] root_containers = lift_res (Ok [])"
| "start_perm_requests env ((container_key, access) # permissions) root_containers =
     (case map_of root_containers container_key of
        None \<Rightarrow> lift_res (Err (AuthNoSuchContainer container_key))
      | Some mdata_info \<Rightarrow> (\<lambda>a.
          case with_client (client_get_mdata_version env (mi_address mdata_info)) a of
            None \<Rightarrow> None
          | Some (r, a1) \<Rightarrow>
              map_prog (\<lambda>reqs. (container_key, mdata_info, access, res_map_err AuthCoreError r) # reqs)
                (start_perm_requests env permissions (hm_remove container_key root_containers)) a1))"

definition update_container_perms ::
  "'n auth_params \<Rightarrow> containers \<Rightarrow> public_key \<Rightarrow> ('n, access_container_entry) am" where
  "update_container_perms P permissions app_pk =
     map_prog (\<lambda>perms. fold (\<lambda>(container_key, dir, access). hm_insert container_key (dir, access)) perms [])
       (and_then (fetch_authenticator_entry (ap_env P) (ap_co P) (ap_ac P)) (\<lambda>(_, root_containers).
        and_then (start_perm_requests (ap_env P) permissions root_containers) (\<lambda>reqs.
          poll_all (map (\<lambda>(container_key, mdata_info, access, r). (r, \<lambda>version.
            map_prog (\<lambda>_. (container_key, mdata_info, access)) (map_err AuthCoreError (with_client
              (set_mdata_user_permissions (ap_env P) (mi_address mdata_info) app_pk
                (container_perms_into_permission_set (ap_po P) access) (version + 1)))))) reqs))))"

subsection \<open>The state of an app\<close>

datatype app_state = Authenticated | Revoked | NotAuthenticated

definition get_app_state :: "'n auth_params \<Rightarrow> apps \<Rightarrow> bytes \<Rightarrow> ('n, app_state) am" where
  "get_app_state P apps app_id = (case map_of apps (sha3_256 (ap_co P) app_id) of
     Some app \<Rightarrow>
       map_prog (\<lambda>(_, entry). case entry of Some _ \<Rightarrow> Authenticated | None \<Rightarrow> Revoked)
         (fetch_entry (ap_env P) (ap_co P) (ap_ac P) app_id (api_keys app))
   | None \<Rightarrow> lift_res (Ok NotAuthenticated))"

definition app_container_access :: container_permissions where
  "app_container_access = [PermRead, PermInsert, PermUpdate, PermDelete, PermManagePermissions]"

definition app_container_exists :: "access_container_entry \<Rightarrow> bytes \<Rightarrow> bool" where
  "app_container_exists permissions app_id =
     (case map_of permissions (app_container_name app_id) of
        Some (_, access) \<Rightarrow> access = app_container_access
      | None \<Rightarrow> False)"

definition insert_app_container ::
  "access_container_entry \<Rightarrow> bytes \<Rightarrow> mdata_info \<Rightarrow> access_container_entry" where
  "insert_app_container permissions app_id app_container_info =
     hm_insert (app_container_name app_id) (app_container_info, app_container_access) permissions"

definition update_access_container ::
  "'n auth_params \<Rightarrow> app_info \<Rightarrow> access_container_entry \<Rightarrow> ('n, unit) am" where
  "update_access_container P app permissions =
     (let app_id = ai_id (api_info app); app_keys = api_keys app in
      and_then (fetch_entry (ap_env P) (ap_co P) (ap_ac P) app_id app_keys) (\<lambda>(version, entry).
        put_entry (ap_env P) (ap_co P) (ap_ac P) (ap_po P) app_id app_keys permissions
          (case entry of Some _ \<Rightarrow> version + 1 | None \<Rightarrow> 0)))"

subsection \<open>Authorisation\<close>

definition granted ::
  "'n auth_params \<Rightarrow> app_keys \<Rightarrow> access_container_entry \<Rightarrow> ('n, auth_granted) am" where
  "granted P keys entry a =
     (let info = res_map_err AuthIpcError (from_mdata_info (auth_access_container a)) in
      Some (res_and_then info (\<lambda>info.
        res_map (\<lambda>contacts. \<lparr>ag_app_keys = keys, ag_bootstrap_config = contacts,
            ag_access_container_info = info, ag_access_container_entry = entry\<rparr>)
          (res_map_err AuthCoreError (client_bootstrap_config P))), a))"

definition authenticated_app ::
  "'n auth_params \<Rightarrow> app_info \<Rightarrow> bytes \<Rightarrow> bool \<Rightarrow> app_permissions \<Rightarrow> ('n, auth_granted) am" where
  "authenticated_app P app app_id app_container app_permissions =
     (let keys = api_keys app; app_pk = app_keys_public_key (ap_env P) keys in
      and_then (lift_res (res_map_err AuthCoreError (client_bootstrap_config P))) (\<lambda>_.
      and_then (fetch_entry (ap_env P) (ap_co P) (ap_ac P) app_id keys) (\<lambda>(_, entry).
        let perms = (case entry of Some p \<Rightarrow> p | None \<Rightarrow> []) in
        and_then
          (if app_container \<and> \<not> app_container_exists perms app_id
           then and_then (app_container_fetch_or_create P app_id app_pk) (\<lambda>mdata_info.
             let perms = insert_app_container perms app_id mdata_info in
             map_prog (\<lambda>_. perms) (update_access_container P app perms))
           else lift_res (Ok perms)) (\<lambda>perms.
          granted P keys perms))))"

definition authenticate_new_app ::
  "'n auth_params \<Rightarrow> app_info \<Rightarrow> bool \<Rightarrow> app_permissions \<Rightarrow> containers \<Rightarrow> ('n, auth_granted) am" where
  "authenticate_new_app P app app_container app_permissions permissions =
     (let keys = api_keys app; app_pk = app_keys_public_key (ap_env P) keys; app_id = ai_id (api_info app) in
      and_then (map_err AuthCoreError (with_client
        (and_then (client_list_auth_keys_and_version (ap_env P)) (\<lambda>(_, version).
          recovery_ins_auth_key (ap_env P) app_pk app_permissions (version + 1))))) (\<lambda>_.
      and_then (if permissions = [] then lift_res (Ok []) else update_container_perms P permissions app_pk) (\<lambda>perms.
      and_then (if app_container
          then map_prog (insert_app_container perms app_id) (app_container_fetch_or_create P app_id app_pk)
          else lift_res (Ok perms)) (\<lambda>perms.
      and_then (update_access_container P app perms) (\<lambda>_.
        granted P keys perms)))))"

definition check_revocation :: "'n auth_params \<Rightarrow> bytes \<Rightarrow> ('n, unit) am" where
  "check_revocation P app_id =
     and_then (get_app_revocation_queue (ap_env P) (ap_co P) (ap_cfg P)) (\<lambda>(_, queue).
       lift_res (if app_id \<in> set queue then Err PendingRevocation else Ok ()))"

text \<open>A client of the authenticator has a client's identity; otherwise \<open>unwrap!\<close> panics.\<close>

definition register_app ::
  "'n auth_params \<Rightarrow> app_exchange_info \<Rightarrow> apps \<Rightarrow> u64 option \<Rightarrow> ('n, app_info) am" where
  "register_app P info apps apps_version a =
     (case own_public_id (ap_env P) (au_client a) of
        Client public_id \<Rightarrow>
          and_then (map_err AuthCoreError (with_client (app_keys_new (ap_co P) (ap_io P) public_id))) (\<lambda>keys.
            let app = \<lparr>api_info = info, api_keys = keys\<rparr> in
            map_prog (\<lambda>_. app) (insert_app (ap_env P) (ap_co P) (ap_cfg P) apps (next_version_of apps_version) app)) a
      | _ \<Rightarrow> None)"

definition authenticate_app :: "'n auth_params \<Rightarrow> auth_req \<Rightarrow> ('n, auth_granted) am" where
  "authenticate_app P auth_req =
     (let app_id = ai_id (ar_app auth_req) in
      and_then (join2 (list_apps (ap_env P) (ap_co P) (ap_cfg P)) (check_revocation P app_id))
        (\<lambda>((apps_version, apps), _).
      and_then (get_app_state P apps app_id) (\<lambda>state.
      and_then (case state of
          NotAuthenticated \<Rightarrow> register_app P (ar_app auth_req) apps apps_version
        | _ \<Rightarrow> lift_res (ok_or (auth_error_from_str ''Logical error - couldn't find a revoked app in config'')
            (map_of apps (sha3_256 (ap_co P) app_id)))) (\<lambda>app.
        case state of
          Authenticated \<Rightarrow>
            authenticated_app P app app_id (ar_app_container auth_req) (ar_app_permissions auth_req)
        | _ \<Rightarrow>
            authenticate_new_app P app (ar_app_container auth_req) (ar_app_permissions auth_req)
              (ar_containers auth_req)))))"

end
