(* ===== verification/App_Lifecycle.thy ===== *)
theory App_Lifecycle
  imports App_Auth Recovery_Props Auth_Client_Props
begin

section \<open>Authorised and revoked apps on the mock network\<close>

text \<open>
  The vault accepts the messages of an app exactly as long as its key is among the keys of its owner's
  account. Everything the authenticator does besides authorising and deleting a key leaves all accounts
  as they are; so an app that was authorised can act, and one that was revoked cannot.
\<close>

subsection \<open>Programs that leave the accounts alone\<close>

definition data_request :: "request \<Rightarrow> bool" where
  "data_request request \<longleftrightarrow> \<not> key_request request \<and> (\<forall>owner amount t. request \<noteq> CreateBalance owner amount t)"

lemma data_request_accounts:
  assumes "process_request nd requester (MsgRequest request mid sig) v = Some (r, v')" and "data_request request"
  shows "client_manager v' = client_manager v"
proof -
  have "\<not> self_create nd opk request" for opk
    using assms(2) by (cases request) (simp_all add: self_create_def data_request_def)
  then have rel: "reply_keeps same_accounts (handle_request nd requester (requester_key nd requester) opk request)" for opk
    using assms(2) by (intro accounts.data_request_rel) (simp_all add: data_request_def)
  show ?thesis
    using assms(1) reply_keepsD [OF rel] unfolding process_request_def
    by (auto simp: same_accounts_def dest!: authenticate_key split: sum.splits option.splits)
qed

definition same_keys :: "'raw conn_manager client \<Rightarrow> 'raw conn_manager client \<Rightarrow> bool" where
  "same_keys c c' \<longleftrightarrow> (plain_net (w_net c) \<longrightarrow>
     plain_net (w_net c') \<and> client_manager (vault_of (w_net c')) = client_manager (vault_of (w_net c)) \<and>
     cl_full_id c' = cl_full_id c)"

interpretation client_keys: state_relation same_keys
  by unfold_locales (auto simp: same_keys_def)

definition auth_same_keys :: "'raw conn_manager auth_client \<Rightarrow> 'raw conn_manager auth_client \<Rightarrow> bool" where
  "auth_same_keys a a' \<longleftrightarrow> same_keys (au_client a) (au_client a') \<and> au_acc a' = au_acc a"

interpretation auth_keys: state_relation auth_same_keys
  by unfold_locales (auto simp: auth_same_keys_def intro: client_keys.refl client_keys.trans)

named_theorems keeps_keys "programs that leave the accounts alone"

lemma send_keeps [keeps_keys]:
  "data_request request \<Longrightarrow> keeps_rel same_keys (send (mock_env nd cd lo) request)"
  by (rule keeps_relI) (auto simp: same_keys_def elim!: send_plain dest: data_request_accounts)

lemma query_keeps [keeps_keys]:
  "data_request request \<Longrightarrow> keeps_rel same_keys (query (mock_env nd cd lo) request sel)"
  "data_request request \<Longrightarrow> keeps_rel same_keys (query_kind (mock_env nd cd lo) request sel kind)"
  "data_request request \<Longrightarrow> keeps_rel same_keys (send_mutation (mock_env nd cd lo) request)"
  by (auto simp: query_def query_kind_def send_mutation_def intro!: client_keys.rel_rules send_keeps)

lemma draw_keeps [keeps_keys]:
  "keeps_rel same_keys (draw f)" "keeps_rel same_keys (or_random env x)"
  "keeps_rel same_keys (symmetric_encrypt co p k n)"
  by (auto simp: symmetric_encrypt_def or_random_def draw_def same_keys_def Let_def keeps_rel_def and_then_def
      split: option.splits sum.splits)

lemma client_ops_keep [keeps_keys]:
  "keeps_rel same_keys (client_get_mdata_version (mock_env nd cd lo) addr)"
  "keeps_rel same_keys (client_get_seq_mdata_value (mock_env nd cd lo) name tag key)"
  "keeps_rel same_keys (client_list_seq_mdata_entries (mock_env nd cd lo) name tag)"
  "keeps_rel same_keys (client_mutate_seq_mdata_entries (mock_env nd cd lo) name tag acts)"
  "keeps_rel same_keys (client_set_mdata_user_permissions (mock_env nd cd lo) addr user perms ver)"
  "keeps_rel same_keys (client_del_mdata_user_permissions (mock_env nd cd lo) addr user ver)"
  "keeps_rel same_keys (client_put_seq_mutable_data (mock_env nd cd lo) d)"
  by (auto simp: client_get_mdata_version_def client_get_seq_mdata_value_def client_list_seq_mdata_entries_def
      client_mutate_seq_mdata_entries_def client_set_mdata_user_permissions_def client_del_mdata_user_permissions_def
      client_put_seq_mutable_data_def data_request_def key_request_def intro!: keeps_keys)

context state_relation
begin

lemma rel_retry: "(\<And>st. keeps_rel R (attempt st)) \<Longrightarrow> keeps_rel R (retry n attempt recover st)"
  by (induction n arbitrary: st; subst retry.simps) (auto intro!: rel_rules split: recovery.split)

end

lemma recovery_ops_keep [keeps_keys]:
  "keeps_rel same_keys (mutate_mdata_entries (mock_env nd cd lo) addr acts)"
  "keeps_rel same_keys (set_mdata_user_permissions (mock_env nd cd lo) addr user perms ver)"
  "keeps_rel same_keys (del_mdata_user_permissions (mock_env nd cd lo) addr user ver)"
  by (simp_all add: mutate_mdata_entries_def set_mdata_user_permissions_def del_mdata_user_permissions_def
      client_keys.rel_retry client_ops_keep)

lemma crypto_keeps [keeps_keys]:
  "keeps_rel same_keys (enc_entry_key co info k)" "keeps_rel same_keys (enc_entry_value co info k)"
  "keeps_rel same_keys (access_container_enc_key co app_id key nonce)"
  "keeps_rel same_keys (random_private co kind tag)"
  by (auto simp: enc_entry_key_def enc_entry_value_def enc_entry_key_with_def access_container_enc_key_def Let_def
      random_private_def intro!: client_keys.rel_rules keeps_keys split: option.split)

lemma create_dir_keeps [keeps_keys]: "keeps_rel same_keys (create_dir (mock_env nd cd lo) no dir contents perms)"
  unfolding create_dir_def Let_def
  by (rule client_keys.rel_read [where g = cl_owner_key]) (auto intro!: client_keys.rel_rules keeps_keys)

lemma with_client_keeps: "keeps_rel same_keys m \<Longrightarrow> keeps_rel auth_same_keys (with_client m)"
  by (rule keeps_relI) (auto simp: with_client_def auth_same_keys_def dest: keeps_relD split: option.splits)

lemma start_all_keeps:
  assumes "\<And>m. m \<in> set ms \<Longrightarrow> keeps_rel auth_same_keys m" and "start_all ms a = Some (rs, a')"
  shows "auth_same_keys a a'"
  using assms
proof (induction ms arbitrary: a rs)
  case (Cons m ms)
  from Cons.prems(2) obtain r a1 rs' where "m a = Some (r, a1)" "start_all ms a1 = Some (rs', a')"
    by (auto split: option.splits)
  then show ?case
    using Cons.prems(1) [of m] Cons.prems(1) Cons.IH [of a1 rs'] by (auto dest: keeps_relD intro: auth_keys.trans)
qed (simp add: auth_keys.refl)

lemma poll_all_keeps:
  "(\<And>r k x. (r, k) \<in> set ms \<Longrightarrow> keeps_rel auth_same_keys (k x)) \<Longrightarrow> keeps_rel auth_same_keys (poll_all ms)"
  by (induction ms rule: poll_all.induct) (auto intro!: auth_keys.rel_rules)

lemma join_all_keeps:
  assumes "\<And>m k. (m, k) \<in> set ms \<Longrightarrow> keeps_rel auth_same_keys m \<and> (\<forall>x. keeps_rel auth_same_keys (k x))"
  shows "keeps_rel auth_same_keys (join_all ms)"
proof (rule keeps_relI)
  fix a r a' assume "join_all ms a = Some (r, a')"
  then obtain rs a1 where run: "start_all (map fst ms) a = Some (rs, a1)" "poll_all (zip rs (map snd ms)) a1 = Some (r, a')"
    by (auto simp: join_all_def split: option.splits)
  have "keeps_rel auth_same_keys (poll_all (zip rs (map snd ms)))"
    using assms by (intro poll_all_keeps) (force dest: set_zip_rightD)
  moreover have "auth_same_keys a a1"
    using assms by (intro start_all_keeps [OF _ run(1)]) auto
  ultimately show "auth_same_keys a a'"
    using run(2) by (auto dest: keeps_relD intro: auth_keys.trans)
qed

lemma access_container_keeps [keeps_keys]:
  "keeps_rel auth_same_keys (ac_enc_key co container app_id key)"
  "keeps_rel auth_same_keys (encode_ac_entry co ec decoded key)"
  by (auto simp: ac_enc_key_def encode_ac_entry_def intro!: auth_keys.rel_rules with_client_keeps keeps_keys)

lemma access_entries_keep [keeps_keys]:
  "keeps_rel auth_same_keys (fetch_authenticator_entry (mock_env nd cd lo) co ac)"
  "keeps_rel auth_same_keys (put_authenticator_entry (mock_env nd cd lo) co ac containers ver)"
  "keeps_rel auth_same_keys (fetch_entry (mock_env nd cd lo) co ac app_id keys)"
  "keeps_rel auth_same_keys (put_entry (mock_env nd cd lo) co ac po app_id keys perms ver)"
  "keeps_rel auth_same_keys (delete_entry (mock_env nd cd lo) co app_id keys ver)"
  unfolding fetch_authenticator_entry_def [abs_def] put_authenticator_entry_def [abs_def] fetch_entry_def [abs_def]
    put_entry_def [abs_def] delete_entry_def [abs_def] encode_authenticator_entry_def encode_app_entry_def
  by (intro auth_keys.rel_let auth_keys.rel_rules with_client_keeps client_keys.rel_rules keeps_keys)+

lemma config_keeps [keeps_keys]:
  "keeps_rel auth_same_keys (get_entry (mock_env nd cd lo) co ec key)"
  "keeps_rel auth_same_keys (update_entry (mock_env nd cd lo) co ec key item ver)"
  unfolding get_entry_def [abs_def] update_entry_def [abs_def]
  by (intro auth_keys.rel_let auth_keys.rel_rules with_client_keeps client_keys.rel_rules keeps_keys)+

lemma get_app_keeps [keeps_keys]: "keeps_rel auth_same_keys (get_app (mock_env nd cd lo) co cfg app_id)"
  unfolding get_app_def list_apps_def by (intro auth_keys.rel_rules auth_keys.rel_prod keeps_keys)

lemma containers_keep [keeps_keys]:
  "keeps_rel auth_same_keys (revoke_container_perms (mock_env nd cd lo) containers pk)"
  "keeps_rel auth_same_keys (clear_from_access_container_entry (mock_env nd cd lo) co app ver containers)"
proof -
  show perms: "keeps_rel auth_same_keys (revoke_container_perms (mock_env nd cd lo) containers pk)" for containers pk
    unfolding revoke_container_perms_def
    by (intro auth_keys.rel_map_prog join_all_keeps)
      (auto intro!: auth_keys.rel_map_err with_client_keeps keeps_keys)
  show "keeps_rel auth_same_keys (clear_from_access_container_entry (mock_env nd cd lo) co app ver containers)"
    unfolding clear_from_access_container_entry_def by (intro auth_keys.rel_and_then perms keeps_keys)
qed

subsection \<open>Deleting a key\<close>

definition key_absent :: "xor_name \<Rightarrow> public_key \<Rightarrow> vault \<Rightarrow> bool" where
  "key_absent name key v \<longleftrightarrow> (\<forall>account. client_manager v name = Some account \<longrightarrow> acc_auth_keys account key = None)"

lemma ensure_account_keys: "key_absent name key v \<Longrightarrow> key_absent name key (ensure_account other v)"
  by (auto simp: key_absent_def ensure_account_def insert_account_def set_account_def account_new_def get_account_def
      split: if_splits)

lemma del_auth_key_absent:
  assumes "del_auth_key name key ver v = Some (r, v')" and "r = Ok () \<or> r = Err NoSuchKey"
  shows "key_absent name key v'"
  using assms
  by (auto simp: del_auth_key_def account_del_auth_key_def validate_version_def key_absent_def set_account_def
      get_account_def Let_def split: option.splits sum.splits if_splits)

lemma list_auth_keys_run:
  assumes laws: "sign_laws (mock_env nd cd lo)" and type: "get_type nd ListAuthKeysAndVersion \<noteq> PublicGet"
    and c: "plain_net (w_net c)" "cl_full_id c = SafeClient i"
    and name: "name = public_id_name nd (Client (full_client_id lo i))"
  obtains account where "client_manager (ensure_account name (vault_of (w_net c))) name = Some account"
    "client_list_auth_keys_and_version (mock_env nd cd lo) c = Some (Ok (acc_auth_keys account, acc_version account),
       c\<lparr>w_draws := Suc (w_draws c), w_net := set_vault (ensure_account name (vault_of (w_net c))) (w_net c)\<rparr>)"
proof -
  obtain account where acc: "client_manager (ensure_account name (vault_of (w_net c))) name = Some account"
    using ensure_account_Some by blast
  then show thesis
    using that send_authenticated [OF laws c(1) type c(2) HOL.refl] name
    by (simp add: client_list_auth_keys_and_version_def query_def and_then_def handle_request_def
        req_list_auth_keys_and_version_def respond_def list_auth_keys_and_version_def get_account_def Let_def
        expect_response_def as_auth_keys_def)
qed

lemma delete_app_auth_key_Ok:
  assumes laws: "sign_laws (mock_env nd cd lo)"
    and types: "get_type nd ListAuthKeysAndVersion \<noteq> PublicGet" "\<And>k ver. get_type nd (DelAuthKey k ver) \<noteq> PublicGet"
    and plain: "plain_net (w_net (au_client a))" and id: "cl_full_id (au_client a) = SafeClient i"
    and run: "delete_app_auth_key (mock_env nd cd lo) key a = Some (Ok (), a')"
  shows "plain_net (w_net (au_client a')) \<and>
    key_absent (public_id_name nd (Client (full_client_id lo i))) key (vault_of (w_net (au_client a')))"
proof -
  let ?env = "mock_env nd cd lo" and ?cid = "full_client_id lo i" and ?c = "au_client a"
  let ?name = "public_id_name nd (Client ?cid)" and ?v = "vault_of (w_net ?c)"
  let ?c1 = "?c\<lparr>w_draws := Suc (w_draws ?c), w_net := set_vault (ensure_account ?name ?v) (w_net ?c)\<rparr>"
  obtain account where acc: "client_manager (ensure_account ?name ?v) ?name = Some account"
      and listed: "client_list_auth_keys_and_version ?env ?c = Some (Ok (acc_auth_keys account, acc_version account), ?c1)"
    by (rule list_auth_keys_run [OF laws types(1) plain id HOL.refl])
  show ?thesis
  proof (cases "acc_auth_keys account key")
    case None
    then show ?thesis
      using run plain acc
      by (auto simp: delete_app_auth_key_def or_else_def with_client_def and_then_def listed key_absent_def)
  next
    case (Some p)
    have del: "handle_request nd (Client ?cid) (client_public_key nd ?cid) (client_public_key nd ?cid)
        (DelAuthKey key (acc_version account + 1)) (vault_of (w_net ?c1)) =
      (case del_auth_key ?name key (acc_version account + 1) (ensure_account ?name ?v) of
         None \<Rightarrow> None | Some (r, v') \<Rightarrow> Some (RespMutation r, v'))"
      by (simp add: handle_request_def req_del_auth_key_def respond_def)
    have sent: "client_del_auth_key ?env key (acc_version account + 1) ?c1 =
      (case del_auth_key ?name key (acc_version account + 1) (ensure_account ?name ?v) of
         None \<Rightarrow> None
       | Some (r, v') \<Rightarrow> Some (res_map_err DataError r,
           ?c1\<lparr>w_draws := Suc (w_draws ?c1), w_net := set_vault v' (w_net ?c1)\<rparr>))"
      using send_authenticated [OF laws _ types(2) _ HOL.refl, of ?c1 i key "acc_version account + 1"] plain id del
      by (auto simp: client_del_auth_key_def send_mutation_def and_then_def expect_response_def as_mutation_def
          split: option.splits)
    show ?thesis
      using run plain Some del_auth_key_absent [of ?name key "acc_version account + 1" "ensure_account ?name ?v"]
      by (auto simp: delete_app_auth_key_def or_else_def with_client_def and_then_def listed sent res_map_err_def
          split: option.splits sum.splits if_splits)
  qed
qed

text \<open>A key that is absent stays absent until it is authorised again.\<close>

lemma key_absent_same: "client_manager v' = client_manager v \<Longrightarrow> key_absent name key v \<Longrightarrow> key_absent name key v'"
  by (simp add: key_absent_def)

lemma create_balance_accounts:
  assumes "handle_request nd requester (requester_key nd requester) opk (CreateBalance owner amount t) v = Some (r, v')"
  shows "client_manager v' = client_manager v"
proof (cases "xor_name_of_pk nd opk = xor_name_of_pk nd owner")
  case True
  with assms show ?thesis
    by (auto simp: handle_request_def req_create_balance_def respond_def mock_create_balance_def)
next
  case False
  then have "reply_keeps same_accounts (handle_request nd requester (requester_key nd requester) opk (CreateBalance owner amount t))"
    by (intro accounts.data_request_rel) (simp_all add: self_create_def key_request_def)
  from reply_keepsD [OF this assms] show ?thesis
    by (simp add: same_accounts_def)
qed

lemma key_request_absent:
  assumes "handle_request nd requester rpk opk request v = Some (r, v')" and "key_request request"
    and "key_absent name key v" and "\<forall>p ver. request \<noteq> InsAuthKey key p ver"
  shows "key_absent name key v'"
proof -
  note ensure = ensure_account_keys [OF assms(3)]
  have kept: "key_absent name key (set_account other account' w)"
    if "client_manager w other = Some account" "key_absent name key w"
      "acc_auth_keys account key = None \<Longrightarrow> acc_auth_keys account' key = None" for other account account' w
    using that by (auto simp: key_absent_def set_account_def)
  show ?thesis
    using assms ensure
    by (cases request)
      (auto simp: key_request_def handle_request_def req_list_auth_keys_and_version_def req_ins_auth_key_def
        req_del_auth_key_def respond_def list_auth_keys_and_version_def ins_auth_key_def del_auth_key_def Let_def
        account_ins_auth_key_Ok account_del_auth_key_Ok get_account_def intro!: kept
        split: if_splits option.splits sum.splits)
qed

lemma absent_kept:
  assumes run: "process_request nd requester message v = Some (r, v')" and "key_absent name key v"
    and no_ins: "\<And>p ver mid sig. message \<noteq> MsgRequest (InsAuthKey key p ver) mid sig"
  shows "key_absent name key v'"
proof (cases message)
  case (MsgRequest request mid sig)
  show ?thesis
  proof (cases "data_request request")
    case True
    then show ?thesis
      using data_request_accounts run assms(2) MsgRequest key_absent_same by blast
  next
    case False
    have "key_absent name key v'"
      if "handle_request nd requester (requester_key nd requester) opk request v = Some (res, v')" for opk res
    proof (cases "key_request request")
      case True
      then show ?thesis
        using key_request_absent [OF that True assms(2)] no_ins MsgRequest by blast
    next
      case not_key: False
      with False obtain owner amount t where "request = CreateBalance owner amount t"
        by (auto simp: data_request_def)
      then show ?thesis
        using create_balance_accounts key_absent_same that assms(2) by blast
    qed
    then show ?thesis
      using run assms(2) MsgRequest
      by (auto simp: process_request_def dest!: authenticate_key split: sum.splits option.splits)
  qed
qed (use run assms(2) in \<open>auto simp: process_request_def\<close>)

text \<open>The vault after some messages, of any senders.\<close>

fun process_all :: "safe_nd \<Rightarrow> (public_id \<times> message) list \<Rightarrow> vault \<Rightarrow> vault option" where
  "process_all nd [] v = Some v"
| "process_all nd ((requester, message) # ms) v = (case process_request nd requester message v of
     None \<Rightarrow> None
   | Some (_, v') \<Rightarrow> process_all nd ms v')"

lemma process_all_absent:
  assumes "process_all nd ms v = Some v'" and "key_absent name key v"
    and "\<forall>p ver mid sig. MsgRequest (InsAuthKey key p ver) mid sig \<notin> snd ` set ms"
  shows "key_absent name key v'"
  using assms
proof (induction ms arbitrary: v)
  case (Cons m ms)
  obtain pid msg where m: "m = (pid, msg)"
    by (cases m)
  from Cons.prems(1) m obtain r v1 where "process_request nd pid msg v = Some (r, v1)" "process_all nd ms v1 = Some v'"
    by (auto split: option.splits)
  moreover have "key_absent name key v1"
    using absent_kept [OF calculation(1) Cons.prems(2)] Cons.prems(3) m by auto
  ultimately show ?case
    using Cons.IH Cons.prems(3) by auto
qed simp

lemma absent_app_refused:
  assumes "id_laws nd" and "key_absent (public_id_name nd (Client (app_owner nd app))) (app_public_key nd app) v"
    and "get_type nd request \<noteq> PublicGet"
  shows "process_request nd (App app) (MsgRequest request mid sig) v =
    Some (Ok (MsgResponse (error_response nd request AccessDenied) mid), v)"
  using assms id_lawsD [OF assms(1)]
  by (auto simp: process_request_def authenticate_def key_absent_def get_account_def split: option.split)

text \<open>The key of an app whose revocation succeeded is not among the authorised keys any more.\<close>

lemma revoked_key_absent:
  fixes a :: "'raw conn_manager auth_client"
  assumes laws: "sign_laws (mock_env nd cd lo)"
    and types: "get_type nd ListAuthKeysAndVersion \<noteq> PublicGet" "\<forall>k ver. get_type nd (DelAuthKey k ver) \<noteq> PublicGet"
    and start: "plain_net (w_net (au_client a))" "cl_full_id (au_client a) = SafeClient i"
    and registered: "get_app (mock_env nd cd lo) co cfg app_id a = Some (Ok app, a0)"
    and pid: "pid = full_app_id lo (ak_app_full_id (api_keys app))"
    and revoked: "revoke_single_app (mock_env nd cd lo) co cfg ac app_id a = Some (Ok (), a')"
  shows "key_absent (public_id_name nd (Client (full_client_id lo i))) (app_public_key nd pid) (vault_of (w_net (au_client a')))"
proof -
  let ?env = "mock_env nd cd lo" and ?name = "public_id_name nd (Client (full_client_id lo i))"
  have key: "app_keys_public_key ?env (api_keys app) = app_public_key nd pid"
    by (simp add: app_keys_public_key_def pid mock_env_def)
  have found: "auth_same_keys a a0"
    by (rule keeps_relD [OF get_app_keeps registered])
  define clear where "clear = and_then (fetch_entry ?env co ac (ai_id (api_info app)) (api_keys app)) (\<lambda>(version, ac_entry).
    case ac_entry of
      Some entry \<Rightarrow> clear_from_access_container_entry ?env co app version (map (\<lambda>(name, info, _). (name, info)) entry)
    | None \<Rightarrow> lift_res (Ok ()))"
  have clear: "keeps_rel auth_same_keys clear"
    unfolding clear_def by (intro auth_keys.rel_rules auth_keys.rel_prod keeps_keys)
  obtain a1 where del: "delete_app_auth_key ?env (app_public_key nd pid) a0 = Some (Ok (), a1)" and rest: "clear a1 = Some (Ok (), a')"
    using revoked registered key unfolding revoke_single_app_def clear_def
    by (auto simp: and_then_def [of "get_app ?env co cfg app_id"] elim: and_then_Ok [of "delete_app_auth_key ?env key" for key])
  have absent: "plain_net (w_net (au_client a1))" "key_absent ?name (app_public_key nd pid) (vault_of (w_net (au_client a1)))"
    using delete_app_auth_key_Ok [OF laws types(1) types(2) [rule_format] _ _ del, of i] found start
    by (auto simp: auth_same_keys_def same_keys_def)
  show ?thesis
    using absent keeps_relD [OF clear rest] by (auto simp: auth_same_keys_def same_keys_def intro: key_absent_same)
qed

text \<open>
  (C6) A revoked app is locked out: once the authenticator has revoked an app, the vault answers
  every message of the app that needs authorisation with \<open>AccessDenied\<close> and is not changed by it. This
  stays so whatever messages others (and the app itself) send, as long as the key is not authorised again.
\<close>

theorem revoked_app_locked_out:
  fixes a :: "'raw conn_manager auth_client"
  assumes laws: "sign_laws (mock_env nd cd lo)" "id_laws nd"
    and types: "get_type nd ListAuthKeysAndVersion \<noteq> PublicGet" "\<forall>k ver. get_type nd (DelAuthKey k ver) \<noteq> PublicGet"
    and start: "plain_net (w_net (au_client a))" "cl_full_id (au_client a) = SafeClient i"
    and registered: "get_app (mock_env nd cd lo) co cfg app_id a = Some (Ok app, a0)"
    and pid: "pid = full_app_id lo (ak_app_full_id (api_keys app))" "app_owner nd pid = full_client_id lo i"
    and revoked: "revoke_single_app (mock_env nd cd lo) co cfg ac app_id a = Some (Ok (), a')"
    and later: "process_all nd ms (vault_of (w_net (au_client a'))) = Some v"
      "\<forall>p ver mid sig. MsgRequest (InsAuthKey (app_public_key nd pid) p ver) mid sig \<notin> snd ` set ms"
    and needs_auth: "get_type nd request \<noteq> PublicGet"
  shows "process_request nd (App pid) (MsgRequest request mid sig) v =
    Some (Ok (MsgResponse (error_response nd request AccessDenied) mid), v)"
  using process_all_absent [OF later(1) revoked_key_absent [OF laws(1) types start registered pid(1) revoked] later(2)]
    absent_app_refused [OF laws(2) _ needs_auth] pid(2) by simp

subsection \<open>Authorising a new app\<close>

lemma join2_keeps:
  "keeps_rel auth_same_keys m1 \<Longrightarrow> keeps_rel auth_same_keys m2 \<Longrightarrow> keeps_rel auth_same_keys (join2 m1 m2)"
  unfolding keeps_rel_def join2_def by (auto split: option.splits) (metis auth_keys.trans)

lemma mutate_entry_keeps [keeps_keys]:
  "keeps_rel auth_same_keys (mutate_entry (mock_env nd cd lo) co ec key f ver item)"
proof (rule keeps_relI)
  fix a r a' assume "mutate_entry (mock_env nd cd lo) co ec key f ver item a = Some (r, a')"
  then show "auth_same_keys a a'"
  proof (induction "mock_env nd cd lo" co ec key f ver item a "(r, a')"
      rule: mutate_entry.raw_induct [rotated, consumes 1, case_names step])
    case (step mutate co ec key f ver item a)
    show ?case
    proof (cases "fst (f item)")
      case True
      with step(2) obtain r1 a1 where upd: "update_entry (mock_env nd cd lo) co ec key (snd (f item)) ver a = Some (r1, a1)"
        by (auto simp: Option.bind_eq_Some_conv)
      note keep = keeps_relD [OF config_keeps(2) upd]
      show ?thesis
      proof (cases "\<exists>e. r1 = Err e \<and> outdated e")
        case out: True
        with step(2) True upd obtain r2 a2 where got: "get_entry (mock_env nd cd lo) co ec key a1 = Some (r2, a2)"
          by (auto simp: Option.bind_eq_Some_conv)
        have "auth_same_keys a2 a'"
          using step(2) True upd out got step(1) by (auto split: sum.splits intro: auth_keys.refl)
        then show ?thesis
          using auth_keys.trans keep keeps_relD [OF config_keeps(1) got] by blast
      next
        case False
        then have "a' = a1"
          using step(2) True upd by (auto split: sum.splits if_splits)
        then show ?thesis
          using keep by simp
      qed
    next
      case False
      then show ?thesis
        using step(2) by (simp add: auth_keys.refl)
    qed
  qed
qed

lemma perm_requests_keep [keeps_keys]:
  "keeps_rel auth_same_keys (start_perm_requests (mock_env nd cd lo) permissions containers)"
proof (induction permissions arbitrary: containers)
  case (Cons x permissions)
  obtain key access where x: "x = (key, access)"
    by (cases x)
  have "keeps_rel auth_same_keys (start_perm_requests (mock_env nd cd lo) (x # permissions) containers)"
    if found: "map_of containers key = Some info" for info
  proof (rule keeps_relI)
    fix a r a' assume "start_perm_requests (mock_env nd cd lo) (x # permissions) containers a = Some (r, a')"
    then obtain q a1 where get: "with_client (client_get_mdata_version (mock_env nd cd lo) (mi_address info)) a = Some (q, a1)"
        and rest: "map_prog (\<lambda>reqs. (key, info, access, res_map_err AuthCoreError q) # reqs)
          (start_perm_requests (mock_env nd cd lo) permissions (hm_remove key containers)) a1 = Some (r, a')"
      using found by (auto simp: x split: option.splits)
    from keeps_relD [OF with_client_keeps [OF client_ops_keep(1)] get] keeps_relD [OF auth_keys.rel_map_prog [OF Cons.IH] rest]
    show "auth_same_keys a a'"
      by (rule auth_keys.trans)
  qed
  then show ?case
    by (cases "map_of containers key") (auto simp: x keeps_rel_def auth_keys.refl)
qed (simp add: keeps_rel_def auth_keys.refl)

lemma container_ops_keep:
  assumes "ap_env P = mock_env nd cd lo"
  shows "keeps_rel auth_same_keys (update_container_perms P permissions pk)"
    and "keeps_rel auth_same_keys (app_container_fetch_or_create P app_id pk)"
    and "keeps_rel auth_same_keys (update_access_container P app perms)"
proof -
  show "keeps_rel auth_same_keys (update_container_perms P permissions pk)"
    unfolding update_container_perms_def assms
    by (intro auth_keys.rel_map_prog auth_keys.rel_and_then auth_keys.rel_prod keeps_keys poll_all_keeps)
      (auto intro!: auth_keys.rel_map_prog auth_keys.rel_map_err with_client_keeps keeps_keys)
  show "keeps_rel auth_same_keys (app_container_fetch_or_create P app_id pk)"
    unfolding app_container_fetch_or_create_def app_container_create_def assms
    by (intro auth_keys.rel_rules auth_keys.rel_prod with_client_keeps client_keys.rel_rules keeps_keys)
  show "keeps_rel auth_same_keys (update_access_container P app perms)"
    unfolding update_access_container_def assms Let_def
    by (intro auth_keys.rel_rules auth_keys.rel_prod keeps_keys)
qed

text \<open>Any request leaves the network plain.\<close>

definition same_net :: "'raw conn_manager client \<Rightarrow> 'raw conn_manager client \<Rightarrow> bool" where
  "same_net c c' \<longleftrightarrow> (plain_net (w_net c) \<longrightarrow> plain_net (w_net c'))"

interpretation client_net: state_relation same_net
  by unfold_locales (auto simp: same_net_def)

lemma recovery_ins_auth_key_net:
  "keeps_rel same_net (recovery_ins_auth_key (mock_env nd cd lo) key perms ver)"
proof -
  have "keeps_rel same_net (client_ins_auth_key (mock_env nd cd lo) key perms ver)" for ver
    unfolding client_ins_auth_key_def send_mutation_def
    by (intro client_net.rel_rules, rule keeps_relI) (auto simp: same_net_def elim!: send_plain)
  then show ?thesis
    unfolding recovery_ins_auth_key_def by (rule client_net.rel_retry)
qed

text \<open>What a successful authorisation leaves behind.\<close>

lemma authenticate_new_app_Ok:
  assumes laws: "sign_laws (mock_env nd cd lo)" and env: "ap_env P = mock_env nd cd lo"
    and types: "get_type nd ListAuthKeysAndVersion \<noteq> PublicGet" "\<forall>k p ver. get_type nd (InsAuthKey k p ver) \<noteq> PublicGet"
    and start: "plain_net (w_net (au_client a))" "cl_full_id (au_client a) = SafeClient i"
    and run: "authenticate_new_app P app app_container perms containers a = Some (Ok g, a')"
  shows "ag_app_keys g = api_keys app \<and>
    (\<exists>account. client_manager (vault_of (w_net (au_client a'))) (public_id_name nd (Client (full_client_id lo i))) = Some account \<and>
       acc_auth_keys account (app_keys_public_key (mock_env nd cd lo) (api_keys app)) = Some perms)"
  using run unfolding authenticate_new_app_def Let_def
proof (elim and_then_Ok, goal_cases)
  case (1 u a1 entry a2 entry' a3 u' a4)
  let ?env = "mock_env nd cd lo" and ?c = "au_client a" and ?name = "public_id_name nd (Client (full_client_id lo i))"
  let ?c1 = "?c\<lparr>w_draws := Suc (w_draws ?c), w_net := set_vault (ensure_account ?name (vault_of (w_net ?c))) (w_net ?c)\<rparr>"
  obtain account where "client_manager (ensure_account ?name (vault_of (w_net ?c))) ?name = Some account"
      and listed: "client_list_auth_keys_and_version ?env ?c = Some (Ok (acc_auth_keys account, acc_version account), ?c1)"
    by (rule list_auth_keys_run [OF laws types(1) start HOL.refl])
  have c1: "plain_net (w_net ?c1)" "cl_full_id ?c1 = SafeClient i"
    using start by simp_all
  obtain c2 account' where ins: "recovery_ins_auth_key ?env (app_keys_public_key ?env (api_keys app)) perms
        (acc_version account + 1) ?c1 = Some (Ok (), c2)" "client_manager (vault_of (w_net c2)) ?name = Some account'"
      "acc_auth_keys account' (app_keys_public_key ?env (api_keys app)) = Some perms"
    using recovery_ins_auth_key_effect [OF laws c1(1) types(2) c1(2) HOL.refl,
        of "app_keys_public_key ?env (api_keys app)" perms "acc_version account + 1"] by blast
  have a1: "au_client a1 = c2"
    using 1(1) by (auto simp: map_err_def with_client_def and_then_def env listed ins(1) split: option.splits)
  note keep = container_ops_keep [OF env]
  have "plain_net (w_net (au_client a1))"
    using keeps_relD [OF recovery_ins_auth_key_net ins(1)] start a1 by (simp add: same_net_def)
  moreover have "auth_same_keys a1 a2"
    using 1(2) by (auto split: if_splits intro: auth_keys.refl keeps_relD [OF keep(1)])
  moreover have "auth_same_keys a2 a3"
    using 1(3) by (auto split: if_splits intro: auth_keys.refl keeps_relD [OF auth_keys.rel_map_prog [OF keep(2)]])
  moreover have "auth_same_keys a3 a4" "a' = a4" "ag_app_keys g = api_keys app"
    using keeps_relD [OF keep(3) 1(4)] 1(5)
    by (auto simp: granted_def res_and_then_eq_Ok res_map_eq_Ok Let_def)
  ultimately show ?case
    using ins(2,3) a1 by (auto simp: auth_same_keys_def same_keys_def)
qed

lemma register_app_Ok:
  assumes "ap_env P = mock_env nd cd lo" and "register_app P info apps ver a = Some (Ok app, a')"
    and "cl_full_id (au_client a) = SafeClient i"
  shows "auth_same_keys a a' \<and> (\<exists>n. ak_app_full_id (api_keys app) = rnd_app_full_id (ap_io P) n (full_client_id lo i))"
proof -
  have id: "own_public_id (mock_env nd cd lo) (au_client a) = Client (full_client_id lo i)"
    using assms(3) by (simp add: own_public_id_def safe_key_public_id_def mock_env_def)
  have "and_then (map_err AuthCoreError (with_client (app_keys_new (ap_co P) (ap_io P) (full_client_id lo i)))) (\<lambda>keys.
      map_prog (\<lambda>_. \<lparr>api_info = info, api_keys = keys\<rparr>) (insert_app (mock_env nd cd lo) (ap_co P) (ap_cfg P) apps
        (next_version_of ver) \<lparr>api_info = info, api_keys = keys\<rparr>)) a = Some (Ok app, a')"
    using assms(1,2) id by (simp add: register_app_def Let_def)
  then show ?thesis
  proof (rule and_then_Ok)
    fix keys a1
    assume new: "map_err AuthCoreError (with_client (app_keys_new (ap_co P) (ap_io P) (full_client_id lo i))) a = Some (Ok keys, a1)"
      and ins: "map_prog (\<lambda>_. \<lparr>api_info = info, api_keys = keys\<rparr>) (insert_app (mock_env nd cd lo) (ap_co P) (ap_cfg P) apps
        (next_version_of ver) \<lparr>api_info = info, api_keys = keys\<rparr>) a1 = Some (Ok app, a')"
    have "auth_same_keys a a1" "\<exists>n. ak_app_full_id keys = rnd_app_full_id (ap_io P) n (full_client_id lo i)"
      using new by (auto simp: map_err_Ok with_client_def app_keys_new_def draw_def and_then_def auth_same_keys_def
          same_keys_def split: prod.splits)
    moreover have "auth_same_keys a1 a'"
      by (rule keeps_relD [OF auth_keys.rel_map_prog [OF mutate_entry_keeps] ins [unfolded insert_app_def Let_def]])
    moreover have "api_keys app = keys"
      using ins by (auto simp: map_prog_Some eq_commute [of "Ok app"] res_map_eq_Ok)
    ultimately show ?thesis
      using auth_keys.trans by blast
  qed
qed

text \<open>
  (C7) An app that the configuration does not know yet and that is authorised can act: its new key is
  among the authorised keys of the owner's account, with the permissions that were asked for, so that the vault
  accepts every message that is signed with it; and the app is handed out the keys this holds for.
\<close>

theorem new_app_authorised:
  fixes a :: "'raw conn_manager auth_client"
  assumes laws: "sign_laws (mock_env nd cd lo)" "id_laws nd"
      "\<forall>n cid. app_owner nd (full_app_id lo (rnd_app_full_id (ap_io P) n cid)) = cid"
    and env: "ap_env P = mock_env nd cd lo"
    and types: "get_type nd ListAuthKeysAndVersion \<noteq> PublicGet" "\<forall>k p ver. get_type nd (InsAuthKey k p ver) \<noteq> PublicGet"
    and start: "plain_net (w_net (au_client a))" "cl_full_id (au_client a) = SafeClient i"
    and unknown: "list_apps (mock_env nd cd lo) (ap_co P) (ap_cfg P) a = Some (Ok (ver, apps), a0)"
      "map_of apps (sha3_256 (ap_co P) (ai_id (ar_app rq))) = None"
    and run: "authenticate_app P rq a = Some (Ok g, a')"
    and pid: "pid = full_app_id lo (ak_app_full_id (ag_app_keys g))" and v: "v = vault_of (w_net (au_client a'))"
  shows "(\<exists>account. get_account v (public_id_name nd (App pid)) = Some account \<and>
      acc_auth_keys account (app_public_key nd pid) = Some (ar_app_permissions rq)) \<and>
    (\<forall>request mid sig. verify_signature nd sig (app_public_key nd pid) request mid = Ok () \<longrightarrow>
      authenticate nd (App pid) request mid (Some sig) v =
        Ok (app_public_key nd pid, client_public_key nd (full_client_id lo i)))"
proof -
  let ?env = "mock_env nd cd lo" and ?id = "ai_id (ar_app rq)"
  have check: "keeps_rel auth_same_keys (join2 (list_apps ?env (ap_co P) (ap_cfg P)) (check_revocation P ?id))"
    unfolding list_apps_def check_revocation_def get_app_revocation_queue_def env
    by (intro join2_keeps auth_keys.rel_rules auth_keys.rel_prod keeps_keys)
  obtain u a1 where checked: "join2 (list_apps ?env (ap_co P) (ap_cfg P)) (check_revocation P ?id) a = Some (Ok ((ver, apps), u), a1)"
    using run unknown(1) unfolding authenticate_app_def Let_def env
    by (auto simp: join2_def res_and_then_eq_Ok res_map_eq_Ok and_then_def split: option.splits sum.splits)
  obtain app a2 where reg: "register_app P (ar_app rq) apps ver a1 = Some (Ok app, a2)"
      and new: "authenticate_new_app P app (ar_app_container rq) (ar_app_permissions rq) (ar_containers rq) a2 = Some (Ok g, a')"
    using run checked unknown(2) unfolding authenticate_app_def Let_def env
    by (auto simp: and_then_def [of "join2 x y" for x y] get_app_state_def elim: and_then_Ok)
  have a1: "plain_net (w_net (au_client a1))" "cl_full_id (au_client a1) = SafeClient i"
    using keeps_relD [OF check checked] start by (auto simp: auth_same_keys_def same_keys_def)
  obtain n where keys: "ak_app_full_id (api_keys app) = rnd_app_full_id (ap_io P) n (full_client_id lo i)"
      and a2: "plain_net (w_net (au_client a2))" "cl_full_id (au_client a2) = SafeClient i"
    using register_app_Ok [OF env reg a1(2)] a1 by (auto simp: auth_same_keys_def same_keys_def)
  note effect = authenticate_new_app_Ok [OF laws(1) env types a2 new]
  then have "app_owner nd pid = full_client_id lo i" "app_keys_public_key ?env (api_keys app) = app_public_key nd pid"
    using laws(3) keys by (simp_all add: pid app_keys_public_key_def mock_env_def)
  then show ?thesis
    using effect id_lawsD [OF laws(2)] by (auto simp: v get_account_def authenticate_def Let_def)
qed

text \<open>An account with one registered app, and an access container without an entry for it.\<close>

definition app_nd :: safe_nd where
  "app_nd = sample_nd\<lparr>seq_get := (\<lambda>b k. if k = KEY_APPS then Some (MDataSeqValue [1] 0) else None)\<rparr>"

definition app_env :: "cache option conn_manager client_env" where
  "app_env = mock_env app_nd sample_codec sample_ops"

definition sample_app :: app_info where
  "sample_app = \<lparr>api_info = \<lparr>ai_id = [7], ai_scope = None, ai_name = [8], ai_vendor = [9]\<rparr>,
     api_keys = \<lparr>ak_app_full_id = AppFullId [9, 1], ak_enc_key = [4], ak_enc_pk = [5], ak_enc_sk = [6]\<rparr>\<rparr>"

definition app_cfg :: config_ops where
  "app_cfg = \<lparr>
     apps_codec = \<lparr>ec_ser = (\<lambda>_. Ok [1]), ec_de = (\<lambda>_. Ok [([7], sample_app)]), ec_default = []\<rparr>,
     queue_codec = \<lparr>ec_ser = (\<lambda>q. Ok (concat q)), ec_de = (\<lambda>b. Ok (map (\<lambda>x. [x]) b)), ec_default = []\<rparr>\<rparr>"

definition empty_ac :: ac_ops where
  "empty_ac = \<lparr>
     authenticator_codec = \<lparr>ec_ser = (\<lambda>_. Ok []), ec_de = (\<lambda>_. Ok []), ec_default = []\<rparr>,
     app_codec = \<lparr>ec_ser = (\<lambda>_. Ok []), ec_de = (\<lambda>_. Ok []), ec_default = []\<rparr>\<rparr>"

definition app_vault :: vault where
  "app_vault = set_account (XorName [1])
     \<lparr>acc_auth_keys = [PublicKey [9] \<mapsto> AppPermissions True True True], acc_version = 1, acc_config = plain_config\<rparr> dir_vault"

definition app_owner_client :: "cache option conn_manager auth_client" where
  "app_owner_client = \<lparr>au_client = sample_client app_vault [1],
     au_acc = sample_account\<lparr>config_root := new_public (MSeqAddr (XorName [1]) 0),
       access_container := new_private (MSeqAddr (XorName [1]) 0) ([2], [3])\<rparr>,
     au_acc_loc = XorName [1], au_user_cred = \<lparr>uc_pin = [], uc_password = []\<rparr>\<rparr>"

lemma app_env_laws: "sign_laws app_env" "id_laws app_nd"
  using sample_id_laws
  by (auto simp: sign_laws_def id_laws_def app_env_def mock_env_def app_nd_def sample_ops_def sample_nd_def safe_key_sign_def
      safe_key_public_key_def split: safe_key.splits client_full_id.splits app_full_id.splits)

lemmas app_eval = and_then_def map_err_def or_else_def with_client_def Let_def
  query_kind_def query_def send_mutation_def send_def compose_message_def signed_message_def draw_def
  on_net_def app_env_def mock_env_def sample_client_def memory_net_def cm_new_def cm_send_def intercept_request_def
  set_vault_def guarded_memory is_writing_def expect_response_def own_public_id_def safe_key_public_id_def
  safe_key_sign_def sample_ops_def app_nd_def app_vault_def dir_vault_def app_owner_client_def

lemma sample_app_registered:
  "\<exists>a0. get_app app_env sample_crypto app_cfg [7] app_owner_client = Some (Ok sample_app, a0)"
  by (simp add: get_app_def list_apps_def get_entry_def config_root_dir_def enc_entry_key_def new_public_def
      mi_decrypt_def mi_name_def mi_type_tag_def client_get_seq_mdata_value_def as_mdata_value_def seq_value_def
      app_cfg_def sample_crypto_def req_get_mdata_value_def get_mdata_def checked_mdata_def check_perms_mdata_def
      app_eval vault_eval sample_simps)

lemma sample_app_revoked:
  "\<exists>a'. revoke_single_app app_env sample_crypto app_cfg empty_ac [7] app_owner_client = Some (Ok (), a')"
  by (simp add: revoke_single_app_def get_app_def list_apps_def get_entry_def config_root_dir_def enc_entry_key_def
      new_public_def mi_decrypt_def mi_name_def mi_type_tag_def client_get_seq_mdata_value_def as_mdata_value_def
      seq_value_def app_cfg_def sample_crypto_def req_get_mdata_value_def get_mdata_def checked_mdata_def
      check_perms_mdata_def delete_app_auth_key_def client_list_auth_keys_and_version_def as_auth_keys_def
      client_del_auth_key_def as_mutation_def req_list_auth_keys_and_version_def req_del_auth_key_def
      list_auth_keys_and_version_def del_auth_key_def account_del_auth_key_def validate_version_def ensure_account_def
      get_account_def set_account_def fetch_entry_def ac_enc_key_def auth_access_container_def mi_nonce_def
      new_private_def access_container_enc_key_def symmetric_encrypt_def app_keys_public_key_def sample_app_def
      insert_data_def KEY_APPS_def pair_enc_def SYM_ENC_NONCE_LEN_def map_prog_def
      app_eval vault_eval sample_simps)

theorem revoked_app_locked_out_witness:
  "\<exists>a'. revoke_single_app app_env sample_crypto app_cfg empty_ac [7] app_owner_client = Some (Ok (), a') \<and>
     process_request app_nd (App (AppPublicId [9, 1])) (MsgRequest (PutIData (IPub [5])) [0] (Some [9]))
       (vault_of (w_net (au_client a'))) =
     Some (Ok (MsgResponse (RespMutation (Err AccessDenied)) [0]), vault_of (w_net (au_client a')))"
proof -
  obtain a' where revoked: "revoke_single_app app_env sample_crypto app_cfg empty_ac [7] app_owner_client = Some (Ok (), a')"
    using sample_app_revoked by blast
  obtain a0 where reg: "get_app app_env sample_crypto app_cfg [7] app_owner_client = Some (Ok sample_app, a0)"
    using sample_app_registered by blast
  have "plain_net (w_net (au_client app_owner_client))"
    by (simp add: app_owner_client_def plain_sample)
  then show ?thesis
    using revoked revoked_app_locked_out [OF app_env_laws(1) [unfolded app_env_def] app_env_laws(2) _ _ _ _
        reg [unfolded app_env_def] HOL.refl _ revoked [unfolded app_env_def], of "ClientFullId [1]" "[]" _ "PutIData (IPub [5])" "[0]" "Some [9]"]
    by (simp add: app_nd_def sample_nd_def sample_type_def sample_error_response_def app_owner_client_def sample_client_def
        sample_app_def sample_ops_def)
qed

text \<open>A request of another app, on the same account.\<close>

definition sample_ipc_ids :: ipc_ops where
  "sample_ipc_ids = sample_ipc\<lparr>rnd_app_full_id := (\<lambda>_ cid. case cid of ClientPublicId b \<Rightarrow> AppFullId (9 # b))\<rparr>"

definition app_params :: "cache option conn_manager auth_params" where
  "app_params = \<lparr>ap_env = app_env, ap_co = sample_crypto, ap_cfg = app_cfg, ap_ac = empty_ac, ap_po = sample_perms,
     ap_no = dir_nfs, ap_io = sample_ipc_ids, ap_contacts = [], ap_de_metadata = (\<lambda>_. Err [])\<rparr>"

definition new_app_req :: auth_req where
  "new_app_req = \<lparr>ar_app = \<lparr>ai_id = [6], ai_scope = None, ai_name = [8], ai_vendor = [9]\<rparr>, ar_app_container = False,
     ar_app_permissions = AppPermissions True False True, ar_containers = []\<rparr>"

lemma mutate_entry_accepted:
  "fst (f item) \<Longrightarrow> update_entry env co ec key (snd (f item)) ver a = Some (Ok (), a') \<Longrightarrow>
   mutate_entry env co ec key f ver item a = Some (Ok (ver, snd (f item)), a')"
  by (subst mutate_entry.simps) simp

lemma new_app_listed:
  "\<exists>a0. list_apps app_env sample_crypto app_cfg app_owner_client = Some (Ok (Some 0, [([7], sample_app)]), a0)"
  by (simp add: list_apps_def get_entry_def config_root_dir_def enc_entry_key_def new_public_def
      mi_decrypt_def mi_name_def mi_type_tag_def client_get_seq_mdata_value_def as_mdata_value_def seq_value_def
      app_cfg_def sample_crypto_def req_get_mdata_value_def get_mdata_def checked_mdata_def check_perms_mdata_def
      app_eval vault_eval sample_simps)

lemma new_app_granted:
  "\<exists>g a'. authenticate_app app_params new_app_req app_owner_client = Some (Ok g, a') \<and>
     ak_app_full_id (ag_app_keys g) = AppFullId [9, 1] \<and> ag_access_container_entry g = []"
  by (simp add: authenticate_app_def app_params_def new_app_req_def join2_def check_revocation_def
      get_app_revocation_queue_def get_app_state_def register_app_def app_keys_new_def insert_app_def
      mutate_entry_accepted update_entry_def hm_insert_def authenticate_new_app_def update_access_container_def
      recovery_ins_auth_key_def MAX_ATTEMPTS_def retry.simps client_ins_auth_key_def fetch_entry_def put_entry_def
      encode_app_entry_def encode_ac_entry_def client_get_mdata_version_def client_set_mdata_user_permissions_def
      mutate_mdata_entries_def client_mutate_seq_mdata_entries_def entry_action_def granted_def from_mdata_info_def
      client_bootstrap_config_def sample_ipc_ids_def sample_ipc_def next_version_of_def empty_ac_def
      list_apps_def get_entry_def config_root_dir_def enc_entry_key_def new_public_def enc_entry_value_def
      mi_decrypt_def mi_name_def mi_type_tag_def client_get_seq_mdata_value_def as_mdata_value_def seq_value_def
      app_cfg_def sample_crypto_def req_get_mdata_value_def get_mdata_def checked_mdata_def check_perms_mdata_def
      client_list_auth_keys_and_version_def as_auth_keys_def as_mutation_def as_mdata_version_def
      req_list_auth_keys_and_version_def req_ins_auth_key_def req_mutate_mdata_entries_def req_get_mdata_version_def
      req_set_mdata_user_permissions_def rewrite_mdata_def
      list_auth_keys_and_version_def ins_auth_key_def account_ins_auth_key_def validate_version_def ensure_account_def
      get_account_def set_account_def ac_enc_key_def auth_access_container_def mi_nonce_def
      new_private_def access_container_enc_key_def symmetric_encrypt_def app_keys_public_key_def
      insert_data_def KEY_APPS_def KEY_APP_REVOCATION_QUEUE_def pair_enc_def SYM_ENC_NONCE_LEN_def map_prog_def
      app_eval vault_eval sample_simps)

theorem new_app_authorised_witness:
  "\<exists>g a' account. authenticate_app app_params new_app_req app_owner_client = Some (Ok g, a') \<and>
     get_account (vault_of (w_net (au_client a'))) (XorName [1]) = Some account \<and>
     acc_auth_keys account (PublicKey [9]) = Some (AppPermissions True False True) \<and>
     authenticate app_nd (App (AppPublicId [9, 1])) GetBalance [0] (Some [9]) (vault_of (w_net (au_client a'))) =
       Ok (PublicKey [9], PublicKey [1])"
proof -
  obtain g a' where run: "authenticate_app app_params new_app_req app_owner_client = Some (Ok g, a')"
      and keys: "ak_app_full_id (ag_app_keys g) = AppFullId [9, 1]"
    using new_app_granted by blast
  obtain a0 where listed: "list_apps app_env sample_crypto app_cfg app_owner_client = Some (Ok (Some 0, [([7], sample_app)]), a0)"
    using new_app_listed by blast
  have ids: "\<forall>n cid. app_owner app_nd (full_app_id sample_ops (rnd_app_full_id (ap_io app_params) n cid)) = cid"
    by (simp add: app_params_def sample_ipc_ids_def sample_ops_def app_nd_def sample_nd_def split: client_public_id.splits)
  have env: "ap_env app_params = mock_env app_nd sample_codec sample_ops"
    by (simp add: app_params_def app_env_def)
  have start: "get_type app_nd ListAuthKeysAndVersion \<noteq> PublicGet" "\<forall>k p ver. get_type app_nd (InsAuthKey k p ver) \<noteq> PublicGet"
      "plain_net (w_net (au_client app_owner_client))" "cl_full_id (au_client app_owner_client) = SafeClient (ClientFullId [1])"
      "map_of [([7], sample_app)] (sha3_256 (ap_co app_params) (ai_id (ar_app new_app_req))) = None"
      "list_apps (mock_env app_nd sample_codec sample_ops) (ap_co app_params) (ap_cfg app_params) app_owner_client =
        Some (Ok (Some 0, [([7], sample_app)]), a0)"
    using listed by (simp_all add: app_nd_def sample_nd_def sample_type_def app_owner_client_def app_params_def
        new_app_req_def sample_crypto_def app_env_def) (simp add: sample_client_def)
  note main = new_app_authorised [OF app_env_laws(1) [unfolded app_env_def] app_env_laws(2) ids env start(1-4) start(6,5) run
      HOL.refl HOL.refl]
  have "\<exists>account. get_account (vault_of (w_net (au_client a'))) (XorName [1]) = Some account \<and>
      acc_auth_keys account (PublicKey [9]) = Some (AppPermissions True False True)"
      "authenticate app_nd (App (AppPublicId [9, 1])) GetBalance [0] (Some [9]) (vault_of (w_net (au_client a'))) =
        Ok (PublicKey [9], PublicKey [1])"
    using main keys by (simp_all add: app_nd_def sample_nd_def sample_ops_def new_app_req_def)
  then show ?thesis
    using run by blast
qed

end
