(* ===== verification/Revocation_Props.thy ===== *)
theory Revocation_Props
  imports Revocation App_Lifecycle
begin

section \<open>Properties of the revocation of apps\<close>

subsection \<open>The loop over the queue\<close>

text \<open>
  The reference: one pass over the queue, in which the apps whose revocation fails are put aside, and
  a second pass over these, which ends at the first failure. The rest of the queue is written to the network after
  each app, by \<open>update\<close> with the next version; a write that fails ends the passes with its error.
\<close>

fun second_pass ::
  "(bytes \<Rightarrow> ('s, auth_error, unit) prog) \<Rightarrow> (revocation_queue \<Rightarrow> u64 \<Rightarrow> ('s, auth_error, unit) prog) \<Rightarrow> bytes list \<Rightarrow> u64
     \<Rightarrow> ('s, auth_error, unit) prog" where
  "second_pass revoke update [] v s = Some (Ok (), s)"
| "second_pass revoke update (x # xs) v s = (case revoke x s of
     None \<Rightarrow> None
   | Some (Ok _, s1) \<Rightarrow> and_then (update xs v) (\<lambda>_. second_pass revoke update xs (v + 1)) s1
   | Some (Err e, s1) \<Rightarrow>
       if e = AuthCoreError SymmetricDecipherFailure then and_then (update xs v) (\<lambda>_. lift_res (Err e)) s1
       else Some (Err e, s1))"

fun first_pass ::
  "(bytes \<Rightarrow> ('s, auth_error, unit) prog) \<Rightarrow> (revocation_queue \<Rightarrow> u64 \<Rightarrow> ('s, auth_error, unit) prog) \<Rightarrow> bytes list \<Rightarrow> bytes list
     \<Rightarrow> u64 \<Rightarrow> ('s, auth_error, unit) prog" where
  "first_pass revoke update [] failed v s = second_pass revoke update failed v s"
| "first_pass revoke update (x # xs) failed v s = (case revoke x s of
     None \<Rightarrow> None
   | Some (Ok _, s1) \<Rightarrow> and_then (update (xs @ failed) v) (\<lambda>_. first_pass revoke update xs failed (v + 1)) s1
   | Some (Err e, s1) \<Rightarrow>
       if e = AuthCoreError SymmetricDecipherFailure then and_then (update (xs @ failed) v) (\<lambda>_. lift_res (Err e)) s1
       else and_then (update (xs @ failed @ [x]) v) (\<lambda>_. first_pass revoke update xs (failed @ [x]) (v + 1)) s1)"

text \<open>
  The network refuses a write as outdated when the version is not the next one, so when somebody else has written the entry
  since. \<open>unless_outdated\<close>: a result agrees with that of the reference, or the reference ends with such an error.
\<close>

definition unless_outdated :: "((auth_error + 'a) \<times> 's) option \<Rightarrow> ((auth_error + 'a) \<times> 's) option \<Rightarrow> bool" where
  "unless_outdated res ref \<longleftrightarrow> res = ref \<or> (\<exists>e s. ref = Some (Err e, s) \<and> outdated e)"

lemma unless_outdated_same [simp]: "unless_outdated x x"
  by (simp add: unless_outdated_def)

text \<open>What the loop relies on: unless the write is refused as outdated, taking an app out of the queue, and putting it at the end, are writes of the changed queue.\<close>

locale revocation_queue =
  fixes update :: "revocation_queue \<Rightarrow> u64 \<Rightarrow> ('s, auth_error, unit) prog"
    and remove repush :: "revocation_queue \<Rightarrow> u64 \<Rightarrow> bytes \<Rightarrow> ('s, auth_error, u64 \<times> revocation_queue) prog"
  assumes remove_writes:
      "x \<in> set q \<Longrightarrow> unless_outdated (remove q v x s) (map_prog (\<lambda>_. (v, remove1 x q)) (update (remove1 x q) v) s)"
    and repush_writes:
      "x \<in> set q \<Longrightarrow> unless_outdated (repush q v x s) (map_prog (\<lambda>_. (v, remove1 x q @ [x])) (update (remove1 x q @ [x]) v) s)"
begin

text \<open>A write in a round, and what the loop does afterwards.\<close>

lemma write_then:
  assumes wr: "unless_outdated (m s) (map_prog (\<lambda>_. (v, q)) (update q v) s)"
    and rest: "\<And>s1. unless_outdated (f (v, q) s1) (k s1)"
  shows "unless_outdated (and_then m f s) (and_then (update q v) (\<lambda>_. k) s)"
proof (cases "update q v s")
  case None
  then show ?thesis
    using wr by (auto simp: unless_outdated_def map_prog_def and_then_def)
next
  case (Some p)
  obtain r s1 where p: "p = (r, s1)"
    by (rule prod.exhaust)
  show ?thesis
    using Some wr rest [of s1] unfolding p
    by (cases r) (auto simp: unless_outdated_def map_prog_def and_then_def)
qed

lemma flush_loop_round:
  "flush_loop revoke remove repush (x # q, v, moved) s = (case revoke x s of
     None \<Rightarrow> None
   | Some (Ok _, s1) \<Rightarrow> and_then (remove (x # q) v x) (\<lambda>(v, q). flush_loop revoke remove repush (q, v + 1, moved)) s1
   | Some (Err e, s1) \<Rightarrow>
       if e = AuthCoreError SymmetricDecipherFailure then and_then (remove (x # q) v x) (\<lambda>_. lift_res (Err e)) s1
       else if x \<in> set moved then Some (Err e, s1)
       else and_then (repush (x # q) v x) (\<lambda>(v, q). flush_loop revoke remove repush (q, v + 1, moved @ [x])) s1)"
  by (subst flush_loop.simps)
    (auto simp: flush_round_def map_prog_def and_then_def split: option.split sum.split)

lemma flush_second_pass:
  assumes "set q \<subseteq> set moved"
  shows "unless_outdated (flush_loop revoke remove repush (q, v, moved) s) (second_pass revoke update q v s)"
  using assms
proof (induction q arbitrary: v s)
  case Nil
  then show ?case
    by (simp add: flush_loop.simps flush_round_def)
next
  case (Cons x q)
  have rem: "unless_outdated (remove (x # q) v x s) (map_prog (\<lambda>_. (v, q)) (update q v) s)" for s
    using remove_writes [of x "x # q" v s] by simp
  have go: "unless_outdated (and_then (remove (x # q) v x) (\<lambda>(v, q). flush_loop revoke remove repush (q, v + 1, moved)) s)
      (and_then (update q v) (\<lambda>_. second_pass revoke update q (v + 1)) s)" for s
    using Cons by (intro write_then rem) simp
  have stop: "unless_outdated (and_then (remove (x # q) v x) (\<lambda>_. lift_res (Err e)) s) (and_then (update q v) (\<lambda>_. lift_res (Err e)) s)"
    for e s
    by (intro write_then rem) simp
  show ?case
    using Cons.prems by (auto simp: flush_loop_round go stop split: option.split sum.split)
qed

lemma flush_two_passes:
  assumes "distinct (todo @ failed)" and "set failed \<subseteq> set moved" and "set moved \<inter> set todo = {}"
  shows "unless_outdated (flush_loop revoke remove repush (todo @ failed, v, moved) s) (first_pass revoke update todo failed v s)"
  using assms
proof (induction todo arbitrary: failed moved v s)
  case Nil
  then show ?case
    using flush_second_pass by simp
next
  case (Cons x xs)
  have rem: "unless_outdated (remove (x # xs @ failed) v x s) (map_prog (\<lambda>_. (v, xs @ failed)) (update (xs @ failed) v) s)"
      "unless_outdated (repush (x # xs @ failed) v x s) (map_prog (\<lambda>_. (v, xs @ failed @ [x])) (update (xs @ failed @ [x]) v) s)" for s
    using remove_writes [of x "x # xs @ failed" v s] repush_writes [of x "x # xs @ failed" v s] by simp_all
  have go: "unless_outdated
      (and_then (remove (x # xs @ failed) v x) (\<lambda>(v, q). flush_loop revoke remove repush (q, v + 1, moved)) s)
      (and_then (update (xs @ failed) v) (\<lambda>_. first_pass revoke update xs failed (v + 1)) s)" for s
    using Cons by (intro write_then rem) auto
  have aside: "unless_outdated
      (and_then (repush (x # xs @ failed) v x) (\<lambda>(v, q). flush_loop revoke remove repush (q, v + 1, moved @ [x])) s)
      (and_then (update (xs @ failed @ [x]) v) (\<lambda>_. first_pass revoke update xs (failed @ [x]) (v + 1)) s)" for s
    using Cons.prems by (intro write_then rem) (auto intro!: Cons.IH [of "failed @ [x]" "moved @ [x]"])
  have stop: "unless_outdated (and_then (remove (x # xs @ failed) v x) (\<lambda>_. lift_res (Err e)) s)
      (and_then (update (xs @ failed) v) (\<lambda>_. lift_res (Err e)) s)" for e s
    by (intro write_then rem) simp
  show ?case
    using Cons.prems by (auto simp: flush_loop_round go aside stop split: option.split sum.split)
qed

end

lemma mutate_entry_writes:
  assumes "fst (f item)"
  shows "unless_outdated (mutate_entry env co ec key f v item a) (map_prog (\<lambda>_. (v, snd (f item))) (update_entry env co ec key (snd (f item)) v) a)"
  using assms by (subst mutate_entry.simps)
    (auto simp: unless_outdated_def map_prog_def split: option.split sum.split prod.split)

interpretation queue_entry: revocation_queue
    "update_entry env co (queue_codec cfg) KEY_APP_REVOCATION_QUEUE"
    "remove_from_app_revocation_queue env co cfg" "repush_to_app_revocation_queue env co cfg"
  for env co cfg
proof unfold_locales
  fix x :: bytes and q v s
  assume x: "x \<in> set q"
  show "unless_outdated (remove_from_app_revocation_queue env co cfg q v x s)
      (map_prog (\<lambda>_. (v, remove1 x q)) (update_entry env co (queue_codec cfg) KEY_APP_REVOCATION_QUEUE (remove1 x q) v) s)"
    using mutate_entry_writes [of "queue_remove x" q env co "queue_codec cfg" KEY_APP_REVOCATION_QUEUE v s] x
    by (simp add: remove_from_app_revocation_queue_def mutate_queue_def queue_remove_def)
  show "unless_outdated (repush_to_app_revocation_queue env co cfg q v x s)
      (map_prog (\<lambda>_. (v, remove1 x q @ [x])) (update_entry env co (queue_codec cfg) KEY_APP_REVOCATION_QUEUE (remove1 x q @ [x]) v) s)"
    using mutate_entry_writes [of "queue_repush x" q env co "queue_codec cfg" KEY_APP_REVOCATION_QUEUE v s] x
    by (simp add: repush_to_app_revocation_queue_def mutate_queue_def queue_repush_def)
qed

text \<open>The passes return if each revocation and each write does.\<close>

lemma passes_return:
  assumes "\<And>x s. revoke x s \<noteq> None" and "\<And>q v s. update q v s \<noteq> None"
  shows "second_pass revoke update q v s \<noteq> None" "first_pass revoke update todo failed v s \<noteq> None"
proof -
  define rv up where "rv x s = the (revoke x s)" and "up q v s = the (update q v s)" for x q v s
  then have returns: "revoke x s = Some (rv x s)" "update q v s = Some (up q v s)" for x q v s
    using assms by simp_all
  show second: "second_pass revoke update q v s \<noteq> None" for q v s
  proof (induction q arbitrary: v s)
    case (Cons x q)
    then show ?case
      by (simp add: and_then_def returns split: prod.split sum.split)
  qed simp
  show "first_pass revoke update todo failed v s \<noteq> None"
  proof (induction todo arbitrary: failed v s)
    case (Cons x xs)
    then show ?case
      by (simp add: and_then_def returns split: prod.split sum.split)
  qed (simp add: second)
qed

text \<open>
  (C16) Emptying the revocation queue. For a queue without duplicates, on any network, the loop that rotates
  the queue does what two passes over it do, unless one of the passes' writes of the queue is refused as outdated, which
  happens when somebody else has written it in between: every app is tried once, those that fail are tried once more
  after all others, and the first one that fails again, or whose entry cannot be decrypted, or whose write of the queue fails, ends
  the loop with its error. The passes end, and so does the loop unless a write is outdated, if each revocation and each write returns.
\<close>

theorem flush_is_two_passes:
  assumes "distinct queue" and "revoke = revoke_single_app env co cfg ac"
    and "update = update_entry env co (queue_codec cfg) KEY_APP_REVOCATION_QUEUE"
  shows "(flush_app_revocation_queue_impl env co cfg ac queue version a = first_pass revoke update queue [] version a \<or>
      (\<exists>e a'. first_pass revoke update queue [] version a = Some (Err e, a') \<and> outdated e)) \<and>
    ((\<forall>x a. revoke x a \<noteq> None) \<and> (\<forall>q v a. update q v a \<noteq> None) \<longrightarrow>
      first_pass revoke update queue [] version a \<noteq> None)"
  using queue_entry.flush_two_passes [of queue "[]" "[]" "revoke_single_app env co cfg ac" env co cfg version a] assms
    passes_return(2) [of revoke update queue "[]" version a]
  by (auto simp: flush_app_revocation_queue_impl_def unless_outdated_def)

text \<open>
  An account of the mock network with an app that is registered and one that is not in its queue: the first is revoked, the
  second is tried twice.
\<close>

lemma unknown_app_tried_twice:
  "\<exists>a'. first_pass (revoke_single_app app_env sample_crypto app_cfg empty_ac)
     (update_entry app_env sample_crypto (queue_codec app_cfg) KEY_APP_REVOCATION_QUEUE) [[8], [7]] [] 0 app_owner_client =
     Some (Err (AuthIpcError UnknownApp), a')"
  by (simp add: revoke_single_app_def get_app_def list_apps_def get_entry_def config_root_dir_def enc_entry_key_def
      new_public_def mi_decrypt_def mi_name_def mi_type_tag_def client_get_seq_mdata_value_def as_mdata_value_def
      seq_value_def app_cfg_def sample_crypto_def req_get_mdata_value_def get_mdata_def checked_mdata_def
      check_perms_mdata_def delete_app_auth_key_def client_list_auth_keys_and_version_def as_auth_keys_def
      client_del_auth_key_def as_mutation_def req_list_auth_keys_and_version_def req_del_auth_key_def
      list_auth_keys_and_version_def del_auth_key_def account_del_auth_key_def validate_version_def ensure_account_def
      get_account_def set_account_def fetch_entry_def ac_enc_key_def auth_access_container_def mi_nonce_def
      new_private_def access_container_enc_key_def symmetric_encrypt_def app_keys_public_key_def sample_app_def
      update_entry_def enc_entry_value_def client_mutate_seq_mdata_entries_def req_mutate_mdata_entries_def rewrite_mdata_def
      insert_data_def KEY_APPS_def KEY_APP_REVOCATION_QUEUE_def pair_enc_def SYM_ENC_NONCE_LEN_def map_prog_def
      app_eval vault_eval sample_simps)

theorem flush_is_two_passes_witness:
  "\<exists>a'. flush_app_revocation_queue_impl app_env sample_crypto app_cfg empty_ac [[8], [7]] 0 app_owner_client =
     Some (Err (AuthIpcError UnknownApp), a')"
proof -
  obtain a' where ref: "first_pass (revoke_single_app app_env sample_crypto app_cfg empty_ac)
      (update_entry app_env sample_crypto (queue_codec app_cfg) KEY_APP_REVOCATION_QUEUE) [[8], [7]] [] 0 app_owner_client =
      Some (Err (AuthIpcError UnknownApp), a')"
    using unknown_app_tried_twice by blast
  have "\<not> outdated (AuthIpcError UnknownApp)"
    by (simp add: outdated_def)
  then show ?thesis
    using flush_is_two_passes [OF _ HOL.refl HOL.refl, of "[[8], [7]]" app_env sample_crypto app_cfg empty_ac 0 app_owner_client] ref
    by auto
qed

end
