(* ===== verification/Auth_Apps.thy ===== *)
theory Auth_Apps
  imports App_Auth
begin

section \<open>Messages of apps and lists of apps\<close>

text \<open>
  The rest of safe\_authenticator/src/ipc.rs (what the authenticator does with a message from an app)
  and apps.rs (removing and listing the registered and the revoked apps).
\<close>

subsection \<open>Messages\<close>

text \<open>\<open>mock\<close> is the feature of the build, as in \<open>encode_msg\<close>.\<close>

definition encode_response :: "ipc_ops \<Rightarrow> msg_ops \<Rightarrow> bool \<Rightarrow> ipc_msg \<Rightarrow> bytes ipc_result" where
  "encode_response io mo mock msg = res_and_then (encode_msg mo mock msg) (cstring_or_string_error (ffi io))"

text \<open>
  The inner result is what is shown to the user; on the right the request, on the left the code and the
  text of an error with the response to the app. \<open>auth_error_code\<close> and the literal are \<open>ffi_error!\<close>.
\<close>

definition decode_ipc_msg ::
  "'n auth_params \<Rightarrow> msg_ops \<Rightarrow> bool \<Rightarrow> ipc_msg \<Rightarrow> ('n, (int \<times> string \<times> bytes) + ipc_msg) am" where
  "decode_ipc_msg P mo mock msg = (case msg of
     IpcReqMsg req_id request \<Rightarrow> (case request of
         ReqContainers cont_req \<Rightarrow>
           and_then (list_apps (ap_env P) (ap_co P) (ap_cfg P)) (\<lambda>(_, config).
           and_then (get_app_state P config (ai_id (cr_app cont_req))) (\<lambda>state.
             lift_res (case state of
                 Authenticated \<Rightarrow> Ok (Inr (IpcReqMsg req_id (ReqContainers cont_req)))
               | _ \<Rightarrow> res_map (\<lambda>resp. Inl (auth_error_code (AuthIpcError UnknownApp), ''IPC error: UnknownApp'', resp))
                   (res_map_err AuthIpcError
                     (encode_response (ap_io P) mo mock (IpcRespMsg req_id (IpcAuth (Err UnknownApp))))))))
       | _ \<Rightarrow> lift_res (Ok (Inr (IpcReqMsg req_id request))))
   | _ \<Rightarrow> lift_res (Err (AuthIpcError InvalidMsg)))"

datatype share_mdata_error = ShareInvalidOwner xor_name u64 | ShareInvalidMetadata

text \<open>What happens with one datum once its shell was fetched.\<close>

definition share_metadata ::
  "'n auth_params \<Rightarrow> public_key \<Rightarrow> share_mdata \<Rightarrow> bytes
     \<Rightarrow> ('n, share_mdata_error + ffi_metadata_response) am" where
  "share_metadata P user mdata shell =
     (let name = sm_name mdata; type_tag = sm_type_tag mdata;
          response = (\<lambda>md. res_map_err (\<lambda>_. ShareInvalidMetadata) (into_md_response md name type_tag)) in
      if md_owner (ce_nd (ap_env P)) (MSeq shell) = user
      then or_else
        (map_prog (\<lambda>v. res_and_then
            (res_map_err (\<lambda>_. ShareInvalidMetadata) (ap_de_metadata P (sv_data v))) response)
          (with_client (client_get_seq_mdata_value (ap_env P) name type_tag METADATA_KEY)))
        (\<lambda>error. lift_res (if error = DataError NoSuchEntry
           then Ok (response \<lparr>um_name = None, um_description = None\<rparr>) else Err (AuthCoreError error)))
      else lift_res (Ok (Err (ShareInvalidOwner name type_tag))))"

definition share_results ::
  "(share_mdata_error + ffi_metadata_response) list \<Rightarrow> ffi_metadata_response option list auth_result" where
  "share_results results =
     (let invalids = List.map_filter (\<lambda>r. case r of
            Inl (ShareInvalidOwner name type_tag) \<Rightarrow> Some (name, type_tag)
          | _ \<Rightarrow> None) results in
      if invalids = []
      then Ok (List.map_filter (\<lambda>r. case r of
            Inr metadata \<Rightarrow> Some (Some metadata)
          | Inl ShareInvalidMetadata \<Rightarrow> Some None
          | _ \<Rightarrow> None) results)
      else Err (AuthIpcError (InvalidOwner invalids)))"

definition decode_share_mdata_req ::
  "'n auth_params \<Rightarrow> share_mdata_req \<Rightarrow> ('n, ffi_metadata_response option list) am" where
  "decode_share_mdata_req P request a =
     (let user = own_public_key (ap_env P) (au_client a) in
      and_then (join_all (map (\<lambda>mdata.
          (map_err AuthCoreError (with_client
             (client_get_seq_mdata_shell (ap_env P) (sm_name mdata) (sm_type_tag mdata))),
           share_metadata P user mdata)) (sr_mdata request)))
        (\<lambda>results. lift_res (share_results results)) a)"

subsection \<open>Registered apps in C\<close>

record registered_app =
  ra_app_info :: app_exchange_info
  ra_containers :: containers

record ffi_registered_app =
  fra_app_info :: ffi_app_exchange_info
  fra_containers :: "ffi_container_permissions list"

definition registered_app_into_repr_c :: "ffi_ops \<Rightarrow> registered_app \<Rightarrow> ffi_registered_app ipc_result" where
  "registered_app_into_repr_c ff app =
     res_and_then (res_map_err ipc_error_from_nul (containers_into_vec (ra_containers app))) (\<lambda>containers.
     res_map (\<lambda>info. \<lparr>fra_app_info = info, fra_containers = containers\<rparr>)
       (app_exchange_info_into_repr_c ff (ra_app_info app)))"

definition registered_app_clone_from_repr_c :: "ffi_ops \<Rightarrow> ffi_registered_app \<Rightarrow> registered_app ipc_result" where
  "registered_app_clone_from_repr_c ff c =
     res_and_then (app_exchange_info_clone_from_repr_c ff (fra_app_info c)) (\<lambda>info.
     res_map (\<lambda>containers. \<lparr>ra_app_info = info, ra_containers = containers\<rparr>)
       (containers_from_repr_c ff (fra_containers c)))"

subsection \<open>Removing and listing\<close>

definition remove_revoked_app :: "'n auth_params \<Rightarrow> bytes \<Rightarrow> ('n, unit) am" where
  "remove_revoked_app P app_id =
     and_then (list_apps (ap_env P) (ap_co P) (ap_cfg P)) (\<lambda>(apps_version, apps).
     and_then (get_app_state P apps app_id) (\<lambda>state.
     and_then (lift_res (case state of
         Revoked \<Rightarrow> Ok ()
       | Authenticated \<Rightarrow> Err (auth_error_from_str ''App is not revoked'')
       | NotAuthenticated \<Rightarrow> Err (AuthIpcError UnknownApp))) (\<lambda>_.
     and_then (remove_app (ap_env P) (ap_co P) (ap_cfg P) apps (next_version_of apps_version) app_id) (\<lambda>_.
       map_prog (\<lambda>_. ()) (app_container_remove P app_id)))))"

text \<open>The part that \<open>list_revoked\<close> and \<open>list_registered\<close> share: the entries of the access container.\<close>

definition access_entries :: "'n auth_params \<Rightarrow> ('n, apps \<times> mdata_info \<times> seq_entries) am" where
  "access_entries P =
     and_then (list_apps (ap_env P) (ap_co P) (ap_cfg P)) (\<lambda>(_, auth_cfg) a.
       let container = auth_access_container a in
       map_prog (\<lambda>entries. (auth_cfg, container, entries)) (map_err AuthCoreError (with_client
         (client_list_seq_mdata_entries (ap_env P) (mi_name container) (mi_type_tag container)))) a)"

text \<open>The loops over the apps; \<open>entry_of\<close> is the entry of an app unless it is missing or empty.\<close>

definition entry_of :: "'n auth_params \<Rightarrow> seq_entries \<Rightarrow> sym_nonce \<Rightarrow> app_info \<Rightarrow> ('n, mdata_seq_value option) am" where
  "entry_of P entries nonce app =
     map_prog (\<lambda>key. case bt_get entries key of
         Some entry \<Rightarrow> if sv_data entry = [] then None else Some entry
       | None \<Rightarrow> None)
       (map_err AuthCoreError (with_client
         (access_container_enc_key (ap_co P) (ai_id (api_info app)) (ak_enc_key (api_keys app)) nonce)))"

fun for_each_app :: "(app_info \<Rightarrow> ('s, 'e, 'b option) prog) \<Rightarrow> app_info list \<Rightarrow> ('s, 'e, 'b list) prog" where
  "for_each_app f [] = lift_res (Ok [])"
| "for_each_app f (app # apps) =
     and_then (f app) (\<lambda>r. map_prog (\<lambda>rs. case r of Some x \<Rightarrow> x # rs | None \<Rightarrow> rs) (for_each_app f apps))"

definition no_container_nonce :: auth_error where
  "no_container_nonce = auth_error_from_str ''No nonce on access container's MDataInfo''"

definition list_revoked :: "'n auth_params \<Rightarrow> ('n, app_exchange_info list) am" where
  "list_revoked P =
     and_then (access_entries P) (\<lambda>(auth_cfg, container, entries).
     and_then (lift_res (ok_or no_container_nonce (mi_nonce container))) (\<lambda>nonce.
       for_each_app (\<lambda>app.
         map_prog (\<lambda>entry. if entry = None then Some (api_info app) else None) (entry_of P entries nonce app))
         (map snd auth_cfg)))"

definition registered_entry :: "'n auth_params \<Rightarrow> app_info \<Rightarrow> mdata_seq_value \<Rightarrow> registered_app auth_result" where
  "registered_entry P app entry =
     res_map (\<lambda>app_access. \<lparr>ra_app_info = api_info app,
         ra_containers = fold (\<lambda>(name, _, permission_set). hm_insert name permission_set) app_access []\<rparr>)
       (decode_app_entry (ap_co P) (ap_ac P) (sv_data entry) (ak_enc_key (api_keys app)))"

definition list_registered :: "'n auth_params \<Rightarrow> ('n, registered_app list) am" where
  "list_registered P =
     and_then (access_entries P) (\<lambda>(auth_cfg, container, entries).
     and_then (lift_res (ok_or no_container_nonce (mi_nonce container))) (\<lambda>nonce.
       for_each_app (\<lambda>app.
         and_then (entry_of P entries nonce app) (\<lambda>entry.
           lift_res (case entry of
               Some e \<Rightarrow> res_map Some (registered_entry P app e)
             | None \<Rightarrow> Ok None)))
         (map snd auth_cfg)))"

definition app_access_of :: "(public_key, app_exchange_info) hashmap \<Rightarrow> public_key \<times> perm_set \<Rightarrow> app_access" where
  "app_access_of apps = (\<lambda>(user, perm_set).
     case map_of apps user of
       Some info \<Rightarrow> \<lparr>aa_sign_key = user, aa_permissions = perm_set, aa_name = Some (ai_name info),
          aa_app_id = Some (ai_id info)\<rparr>
     | None \<Rightarrow> \<lparr>aa_sign_key = user, aa_permissions = perm_set, aa_name = None, aa_app_id = None\<rparr>)"

definition apps_accessing_mutable_data ::
  "'n auth_params \<Rightarrow> xor_name \<Rightarrow> u64 \<Rightarrow> ('n, app_access list) am" where
  "apps_accessing_mutable_data P name type_tag =
     map_prog (\<lambda>(permissions, apps). map (app_access_of apps) permissions)
       (join2
         (map_err AuthCoreError (with_client (client_list_mdata_permissions (ap_env P) (MSeqAddr name type_tag))))
         (map_prog (\<lambda>(_, apps). fold (\<lambda>(_, app).
             hm_insert (app_keys_public_key (ap_env P) (api_keys app)) (api_info app)) apps [])
           (list_apps (ap_env P) (ap_co P) (ap_cfg P))))"

end
