(* ===== verification/Std_Dirs.thy ===== *)
theory Std_Dirs
  imports App_Auth "HOL-Library.Sublist"
begin

section \<open>Standard directories and new accounts\<close>

text \<open>
  safe\_authenticator/src/std\_dirs.rs: the standard directories, the access container and the
  configuration directory of a new account; and what creating an account or logging in does with
  them (lib.rs; the threads and channels around it are not modelled).
\<close>

definition DEFAULT_PRIVATE_DIRS :: "string list" where
  "DEFAULT_PRIVATE_DIRS =
     [''_documents'', ''_downloads'', ''_music'', ''_pictures'', ''_videos'', ''_publicNames'']"

definition DEFAULT_PUBLIC_DIRS :: "string list" where
  "DEFAULT_PUBLIC_DIRS = [''_public'']"

definition string_bytes :: "string \<Rightarrow> bytes" where
  "string_bytes s = map of_char s"

fun random_dirs :: "('n, mdata_info) cm \<Rightarrow> string list \<Rightarrow> ('n, (string \<times> mdata_info) list) cm" where
  "random_dirs new_dir [] = lift_res (Ok [])"
| "random_dirs new_dir (name # names) =
     and_then new_dir (\<lambda>dir. map_prog (\<lambda>dirs. (name, dir) # dirs) (random_dirs new_dir names))"

definition random_std_dirs :: "crypto_ops \<Rightarrow> ('n, (string \<times> mdata_info) list) cm" where
  "random_std_dirs co =
     and_then (random_dirs (random_private co MKindSeq DIR_TAG) DEFAULT_PRIVATE_DIRS) (\<lambda>priv_dirs.
       map_prog (\<lambda>pub_dirs. priv_dirs @ pub_dirs)
         (random_dirs (random_public co MKindSeq DIR_TAG) DEFAULT_PUBLIC_DIRS))"

text \<open>All requests are sent when the futures are built.\<close>

definition create_std_dirs :: "'n auth_params \<Rightarrow> root_containers \<Rightarrow> ('n, unit) am" where
  "create_std_dirs P md_infos =
     map_prog (\<lambda>_. ()) (join_all (map (\<lambda>(_, md_info).
       (map_err AuthNfsError (with_client (create_dir (ap_env P) (ap_no P) md_info [] [])),
        \<lambda>_. lift_res (Ok ()))) md_infos))"

definition create_config_dir :: "'n auth_params \<Rightarrow> mdata_info \<Rightarrow> ('n, unit) am" where
  "create_config_dir P config_dir =
     and_then (map_err AuthCoreError (with_client
       (encrypt_entries (ap_co P) config_dir [(KEY_APPS, MDataSeqValue [] 0)]))) (\<lambda>config_dir_entries.
       map_err AuthNfsError (with_client (create_dir (ap_env P) (ap_no P) config_dir config_dir_entries [])))"

definition create_access_container ::
  "'n auth_params \<Rightarrow> mdata_info \<Rightarrow> root_containers \<Rightarrow> ('n, unit) am" where
  "create_access_container P container default_entries a =
     (let enc_key = secret_symmetric_key a in
      and_then (lift_res (ok_or (auth_error_from_str ''Expected to have nonce on access container MDataInfo'')
        (mi_nonce container))) (\<lambda>nonce.
      and_then (map_err AuthCoreError (with_client
        (access_container_enc_key (ap_co P) AUTHENTICATOR_ENTRY enc_key nonce))) (\<lambda>authenticator_key.
      and_then (encode_authenticator_entry (ap_co P) (ap_ac P) default_entries enc_key) (\<lambda>access_cont_value.
        map_err AuthNfsError (with_client (create_dir (ap_env P) (ap_no P) container
          [(authenticator_key, MDataSeqValue access_cont_value 0)] []))))) a)"

text \<open>
  What follows on the attempt to read the authenticator's entry. For a new account the directories
  and the access container are created by two futures whose requests are all sent before the first
  result is looked at.
\<close>

definition access_container_future ::
  "'n auth_params \<Rightarrow> mdata_info \<Rightarrow> (u64 \<times> root_containers) auth_result \<Rightarrow> ('n, unit) am" where
  "access_container_future P container res = (case res of
     Ok (_, default_containers) \<Rightarrow> create_std_dirs P default_containers
   | Err e \<Rightarrow>
       if e = AuthCoreError (DataError NoSuchData)
       then and_then (map_err AuthCoreError (with_client (random_std_dirs (ap_co P)))) (\<lambda>dirs.
         let value = fold (\<lambda>(name, md_info). hm_insert (string_bytes name) md_info) dirs [] in
         map_prog (\<lambda>_. ()) (join2 (create_std_dirs P value) (create_access_container P container value)))
       else lift_res (Err e))"

definition create_dirs_and_config :: "'n auth_params \<Rightarrow> ('n, unit) am" where
  "create_dirs_and_config P a =
     (let container = auth_access_container a; config_dir = config_root_dir a in
      case fetch_authenticator_entry (ap_env P) (ap_co P) (ap_ac P) a of
        None \<Rightarrow> None
      | Some (res, a1) \<Rightarrow> (case create_config_dir P config_dir a1 of
          None \<Rightarrow> None
        | Some (config_res, a2) \<Rightarrow>
            and_then (access_container_future P container res) (\<lambda>_. lift_res config_res) a2))"

definition std_dirs_create :: "'n auth_params \<Rightarrow> auth_ops \<Rightarrow> ('n, unit) am" where
  "std_dirs_create P ao =
     and_then (create_dirs_and_config P) (\<lambda>_ a.
       update_account_packet (ap_env P) (ap_co P) ao (set_std_dirs_created True a))"

subsection \<open>Creating an account and logging in\<close>

text \<open>The state that is left of a client which is dropped.\<close>

definition dropped :: "'n auth_client \<Rightarrow> 'n world" where
  "dropped a = \<lparr>w_net = w_net (au_client a), w_draws = w_draws (au_client a)\<rparr>"

definition run_std_dirs ::
  "(auth_error \<Rightarrow> auth_error) \<Rightarrow> 'n auth_params \<Rightarrow> auth_ops \<Rightarrow> 'n auth_client \<Rightarrow> (('n auth_client) auth_result \<times> 'n world) option" where
  "run_std_dirs wrap P ao a = (case std_dirs_create P ao a of
     None \<Rightarrow> None
   | Some (r, a') \<Rightarrow> Some (res_map_err wrap (res_map (\<lambda>_. a') r), dropped a'))"

text \<open>
  The parts of \<open>create_acc_impl\<close> and \<open>login_impl\<close> that run on the new thread: the client is created, then the directories, if they do not
  exist. \<open>show_error\<close> is the text of an error.
\<close>

definition create_acc_impl ::
  "(auth_error \<Rightarrow> string) \<Rightarrow> 'n auth_params \<Rightarrow> auth_ops \<Rightarrow> ('n, 'n auth_client) gateway \<Rightarrow> ('n, 'n auth_client) gateway" where
  "create_acc_impl show_error P ao create_client_fn w =
     (case create_client_fn w of
        None \<Rightarrow> None
      | Some (Err e, w1) \<Rightarrow> Some (Err e, w1)
      | Some (Ok a, w1) \<Rightarrow> run_std_dirs (\<lambda>e. AccountContainersCreation (show_error e)) P ao a)"

definition create_acc ::
  "(auth_error \<Rightarrow> string) \<Rightarrow> 'n auth_params \<Rightarrow> auth_ops \<Rightarrow> bytes \<Rightarrow> bytes \<Rightarrow> client_full_id \<Rightarrow> ('n, 'n auth_client) gateway" where
  "create_acc show_error P ao locator password client_id =
     create_acc_impl show_error P ao (registered (ap_env P) (ap_co P) ao locator password client_id)"

definition authenticator_login_impl ::
  "'n auth_params \<Rightarrow> auth_ops \<Rightarrow> ('n, 'n auth_client) gateway \<Rightarrow> ('n, 'n auth_client) gateway" where
  "authenticator_login_impl P ao create_client_fn w =
     (case create_client_fn w of
        None \<Rightarrow> None
      | Some (Err e, w1) \<Rightarrow> Some (Err e, w1)
      | Some (Ok a, w1) \<Rightarrow>
          if \<not> std_dirs_created a then run_std_dirs (\<lambda>e. e) P ao a else Some (Ok a, w1))"

definition authenticator_login ::
  "'n auth_params \<Rightarrow> auth_ops \<Rightarrow> bytes \<Rightarrow> bytes \<Rightarrow> ('n, 'n auth_client) gateway" where
  "authenticator_login P ao locator password =
     authenticator_login_impl P ao (login (ap_env P) (ap_co P) ao locator password)"

subsection \<open>Accounts of tests\<close>

text \<open>
  The variants with a seed take the credentials, and the keys of a new account, from parts of the seed; those with a hook change the
  connection manager before it is used. \<open>show_len\<close> is the decimal text of a number.
\<close>

definition SEED_SUBPARTS :: nat where "SEED_SUBPARTS = 4"

definition divide_seed :: "(nat \<Rightarrow> string) \<Rightarrow> bytes \<Rightarrow> bytes list auth_result" where
  "divide_seed show_len seed =
     (if length seed < SEED_SUBPARTS
      then Err (AuthUnexpected (''Improper Seed length of '' @ show_len (length seed) @ ''. Please supply bigger Seed.''))
      else let interval = length seed div SEED_SUBPARTS in
        Ok (map (\<lambda>i. take interval (drop (interval * i) seed)) [0..<SEED_SUBPARTS]))"

definition registered_with_seed ::
  "(nat \<Rightarrow> string) \<Rightarrow> 'n client_env \<Rightarrow> crypto_ops \<Rightarrow> auth_ops \<Rightarrow> bytes \<Rightarrow> client_full_id \<Rightarrow> ('n, 'n auth_client) gateway" where
  "registered_with_seed show_len env co ao seed client_id =
     and_then (lift_res (divide_seed show_len seed)) (\<lambda>arr.
       registered_impl env co ao (arr ! 0) (arr ! 1) client_id (Some (sha3_256 co seed)) (\<lambda>cm. cm))"

definition login_with_seed ::
  "(nat \<Rightarrow> string) \<Rightarrow> 'n client_env \<Rightarrow> crypto_ops \<Rightarrow> auth_ops \<Rightarrow> bytes \<Rightarrow> ('n, 'n auth_client) gateway" where
  "login_with_seed show_len env co ao seed =
     and_then (lift_res (divide_seed show_len seed)) (\<lambda>arr.
       login_impl env co ao (arr ! 0) (arr ! 1) (\<lambda>routing. routing))"

definition registered_with_hook ::
  "'n client_env \<Rightarrow> crypto_ops \<Rightarrow> auth_ops \<Rightarrow> bytes \<Rightarrow> bytes \<Rightarrow> client_full_id \<Rightarrow> ('n \<Rightarrow> 'n) \<Rightarrow> ('n, 'n auth_client) gateway" where
  "registered_with_hook env co ao acc_locator acc_password client_id wrap =
     registered_impl env co ao acc_locator acc_password client_id None wrap"

definition login_with_hook ::
  "'n client_env \<Rightarrow> crypto_ops \<Rightarrow> auth_ops \<Rightarrow> bytes \<Rightarrow> bytes \<Rightarrow> ('n \<Rightarrow> 'n) \<Rightarrow> ('n, 'n auth_client) gateway" where
  "login_with_hook env co ao acc_locator acc_password wrap = login_impl env co ao acc_locator acc_password wrap"

text \<open>An account with a seed is created by the function that opens accounts.\<close>

definition create_acc_with_seed ::
  "(nat \<Rightarrow> string) \<Rightarrow> (nat \<Rightarrow> client_full_id) \<Rightarrow> 'n auth_params \<Rightarrow> auth_ops \<Rightarrow> bytes \<Rightarrow> ('n, 'n auth_client) gateway" where
  "create_acc_with_seed show_len gen_client_id P ao seed =
     and_then (map_err AuthCoreError (draw gen_client_id)) (\<lambda>client_id.
       authenticator_login_impl P ao (registered_with_seed show_len (ap_env P) (ap_co P) ao seed client_id))"

definition authenticator_login_with_seed ::
  "(nat \<Rightarrow> string) \<Rightarrow> 'n auth_params \<Rightarrow> auth_ops \<Rightarrow> bytes \<Rightarrow> ('n, 'n auth_client) gateway" where
  "authenticator_login_with_seed show_len P ao seed =
     authenticator_login_impl P ao (login_with_seed show_len (ap_env P) (ap_co P) ao seed)"

definition create_acc_with_hook ::
  "(auth_error \<Rightarrow> string) \<Rightarrow> 'n auth_params \<Rightarrow> auth_ops \<Rightarrow> bytes \<Rightarrow> bytes \<Rightarrow> client_full_id \<Rightarrow> ('n \<Rightarrow> 'n) \<Rightarrow> ('n, 'n auth_client) gateway" where
  "create_acc_with_hook show_error P ao locator password client_id wrap =
     create_acc_impl show_error P ao (registered_with_hook (ap_env P) (ap_co P) ao locator password client_id wrap)"

definition authenticator_login_with_hook ::
  "'n auth_params \<Rightarrow> auth_ops \<Rightarrow> bytes \<Rightarrow> bytes \<Rightarrow> ('n \<Rightarrow> 'n) \<Rightarrow> ('n, 'n auth_client) gateway" where
  "authenticator_login_with_hook P ao locator password wrap =
     authenticator_login_impl P ao (login_with_hook (ap_env P) (ap_co P) ao locator password wrap)"

text \<open>The parts of a seed follow each other; less than one part is left over.\<close>

lemma concat_parts: "concat (map (\<lambda>i. take n (drop (n * i) xs)) [0..<k]) = take (n * k) xs"
  by (induction k) (simp_all add: take_add [of "n * _" n, symmetric] add.commute)

lemma divide_seed_parts:
  assumes "divide_seed show_len seed = Ok arr"
  shows "length arr = SEED_SUBPARTS \<and> prefix (concat arr) seed \<and> length seed < length (concat arr) + SEED_SUBPARTS \<and>
    (\<forall>part \<in> set arr. length part = length seed div SEED_SUBPARTS \<and> part \<noteq> [])"
proof -
  define n where "n = length seed div SEED_SUBPARTS"
  have long: "SEED_SUBPARTS \<le> length seed" and arr: "arr = map (\<lambda>i. take n (drop (n * i) seed)) [0..<SEED_SUBPARTS]"
    using assms by (auto simp: divide_seed_def Let_def n_def split: if_splits)
  have bounds: "n * SEED_SUBPARTS \<le> length seed" "length seed < n * SEED_SUBPARTS + SEED_SUBPARTS" "0 < n"
    using long by (auto simp: n_def SEED_SUBPARTS_def)
  have part: "length (take n (drop (n * i) seed)) = n" if "i < SEED_SUBPARTS" for i
  proof -
    have "n * Suc i \<le> n * SEED_SUBPARTS"
      using that by (intro mult_le_mono) auto
    then show ?thesis
      using bounds(1) by simp
  qed
  have "length p = n \<and> p \<noteq> []" if "p \<in> set arr" for p
  proof -
    have "length p = n"
      using that part by (auto simp: arr)
    then show ?thesis
      using bounds(3) by auto
  qed
  moreover have "concat arr = take (n * SEED_SUBPARTS) seed" "length arr = SEED_SUBPARTS"
    using concat_parts [of n seed SEED_SUBPARTS] by (simp_all add: arr)
  ultimately show ?thesis
    unfolding n_def [symmetric] using bounds(1,2) by (simp add: take_is_prefix)
qed

end
