(* ===== verification/Connection_Group.thy ===== *)
theory Connection_Group
  imports Client_Base
begin

section \<open>The connections to the network\<close>

text \<open>
  The connection manager for the real network (safe\_core/src/connection\_manager.rs) and the group of
  QUIC connections behind it (connection\_manager/connection\_group.rs): a client is introduced to a vault,
  answers its challenge, sends requests, and every response is passed to the future of the request with
  the same message identifier.

  \<^item> The crate \<open>quic-p2p\<close> is outside: what the code tells it is the list \<open>w_quic\<close>, what it reports are the
    events \<open>quic_event\<close>. Serialisation and whether a QUIC endpoint can be built are fields of \<open>conn_ops\<close>.
  \<^item> A one-shot channel is a number, an index into the list of all channels of its kind; a \<open>Sender\<close> is that
    number. A sender that is dropped cancels its channel.
  \<^item> The events of a group are handled by a thread of its own under a mutex. A panic of that thread
    ends it and poisons the mutex, so that every later \<open>unwrap!(self.inner.lock())\<close> panics.
\<close>

subsection \<open>Third-party types\<close>

type_synonym socket_addr = bytes
type_synonym token = u64

datatype node_info = NodeInfo (ni_peer_addr: socket_addr) (ni_peer_cert: bytes)
datatype peer = PeerNode node_info | PeerClient socket_addr

fun peer_addr :: "peer \<Rightarrow> socket_addr" where
  "peer_addr (PeerNode node_info) = ni_peer_addr node_info"
| "peer_addr (PeerClient a) = a"

datatype quic_error = ConnectionCancelled | OtherQuicError bytes

datatype quic_event =
    BootstrapFailure
  | BootstrappedTo node_info
  | SentUserMessage socket_addr bytes token
  | UnsentUserMessage socket_addr bytes token
  | NewMessage socket_addr bytes
  | Finish
  | ConnectionFailure socket_addr quic_error
  | ConnectedTo peer

datatype challenge = ChallengeRequest public_id bytes | ChallengeResponse public_id signature bool

datatype quic_call = QuicBootstrap | QuicSend peer bytes token | QuicDisconnectFrom socket_addr

record conn_ops =
  ser_message :: "message \<Rightarrow> bytes + bytes"
  de_message :: "bytes \<Rightarrow> bytes + message"
  ser_challenge :: "challenge \<Rightarrow> bytes + bytes"
  de_challenge :: "bytes \<Rightarrow> bytes + challenge"
  quic_build :: "bytes \<Rightarrow> bytes + unit" \<comment> \<open>by the configuration, whose port was cleared\<close>
  clear_port :: "bytes \<Rightarrow> bytes"
  random_token :: "nat \<Rightarrow> token"
  canceled_text :: string

text \<open>What serialisation is relied on for: it does not fail on a challenge response.\<close>

definition challenge_serialises :: "conn_ops \<Rightarrow> bool" where
  "challenge_serialises ops \<longleftrightarrow> (\<forall>id s b. \<exists>bs. ser_challenge ops (ChallengeResponse id s b) = Ok bs)"

subsection \<open>Channels\<close>

datatype 'v oneshot = Waiting | Fulfilled 'v | Canceled | Elapsed

record conn_world =
  w_responses :: "response oneshot list"
  w_connected :: "unit core_result oneshot list"
  w_disconnected :: "unit oneshot list"
  w_quic :: "(u64 \<times> quic_call) list"
  w_tokens :: nat
  w_group_counter :: u64

definition settle :: "nat \<Rightarrow> 'v oneshot \<Rightarrow> 'v oneshot list \<Rightarrow> 'v oneshot list" where
  "settle c x chans = (if c < length chans \<and> chans ! c = Waiting then chans[c := x] else chans)"

definition drop_sender :: "nat option \<Rightarrow> 'v oneshot list \<Rightarrow> 'v oneshot list" where
  "drop_sender s chans = (case s of None \<Rightarrow> chans | Some c \<Rightarrow> settle c Canceled chans)"

subsection \<open>Groups\<close>

record elder =
  el_peer :: peer
  el_public_id :: "bytes option"

definition elder_new :: "node_info \<Rightarrow> elder" where
  "elder_new node_info = \<lparr>el_peer = PeerNode node_info, el_public_id = None\<rparr>"

record conn_inner =
  cg_full_id :: safe_key
  cg_elders :: "(socket_addr, elder) hashmap"
  cg_hooks :: "(message_id, nat) hashmap"
  cg_connection_hook :: "nat option"
  cg_disconnect_tx :: "nat option"
  cg_id :: u64

record conn_group =
  cg_inner :: conn_inner
  cg_poisoned :: bool
  cg_loop_alive :: bool

definition quic_do :: "u64 \<Rightarrow> quic_call list \<Rightarrow> conn_world \<Rightarrow> conn_world" where
  "quic_do i calls w = w\<lparr>w_quic := w_quic w @ map (Pair i) calls\<rparr>"

text \<open>\<open>Builder::build()?\<close>, \<open>bootstrap()\<close>; the thread of the events is started.\<close>

definition conn_group_new ::
  "conn_ops \<Rightarrow> bytes \<Rightarrow> safe_key \<Rightarrow> node_info list \<Rightarrow> nat \<Rightarrow> conn_world \<Rightarrow> conn_group core_result \<times> conn_world" where
  "conn_group_new ops config full_id elders connection_hook w = (case quic_build ops config of
     Err e \<Rightarrow> (Err (QuicP2p e), w\<lparr>w_connected := settle connection_hook Canceled (w_connected w)\<rparr>)
   | Ok _ \<Rightarrow>
       let i = w_group_counter w;
         inner = \<lparr>cg_full_id = full_id,
           cg_elders = fold (\<lambda>node_info. hm_insert (ni_peer_addr node_info) (elder_new node_info)) elders [],
           cg_hooks = [], cg_connection_hook = Some connection_hook, cg_disconnect_tx = None,
           cg_id = i\<rparr>
       in (Ok \<lparr>cg_inner = inner, cg_poisoned = False, cg_loop_alive = True\<rparr>,
           quic_do i [QuicBootstrap] (w\<lparr>w_group_counter := i + 1\<rparr>)))"

definition peers :: "conn_inner \<Rightarrow> peer list" where
  "peers g = map (el_peer \<circ> snd) (cg_elders g)"

definition terminate :: "conn_inner \<Rightarrow> conn_world \<Rightarrow> conn_world" where
  "terminate g = quic_do (cg_id g) (map (QuicDisconnectFrom \<circ> peer_addr) (peers g))"

text \<open>The random tokens of the messages that are sent to the peers, one for each.\<close>

definition send_to :: "conn_ops \<Rightarrow> u64 \<Rightarrow> peer list \<Rightarrow> bytes \<Rightarrow> conn_world \<Rightarrow> conn_world" where
  "send_to ops i ps b w = (quic_do i
     (map (\<lambda>(p, n). QuicSend p b (random_token ops n)) (zip ps [w_tokens w ..< w_tokens w + length ps])) w)
     \<lparr>w_tokens := w_tokens w + length ps\<rparr>"

text \<open>
  \<open>Inner::send\<close>: the hook is registered under the identifier of the message, and an older hook of the same
  identifier is dropped. The number that is returned is the channel the future waits on.
\<close>

definition inner_send ::
  "conn_ops \<Rightarrow> message_id \<Rightarrow> message \<Rightarrow> conn_inner \<Rightarrow> conn_world \<Rightarrow> (nat \<times> conn_inner \<times> conn_world) option" where
  "inner_send ops msg_id msg g w =
     (let c = length (w_responses w);
        g1 = g\<lparr>cg_hooks := hm_insert msg_id c (cg_hooks g)\<rparr>;
        w1 = w\<lparr>w_responses := drop_sender (map_of (cg_hooks g) msg_id) (w_responses w @ [Waiting])\<rparr>
      in case ser_message ops msg of
           Err _ \<Rightarrow> None
         | Ok b \<Rightarrow> Some (c, g1, send_to ops (cg_id g) (peers g) b w1))"

definition inner_close :: "conn_inner \<Rightarrow> conn_world \<Rightarrow> nat \<times> conn_inner \<times> conn_world" where
  "inner_close g w =
     (let c = length (w_disconnected w);
        w1 = terminate g (w\<lparr>w_disconnected := w_disconnected w @ [Waiting]\<rparr>)
      in (c, g\<lparr>cg_disconnect_tx := Some c\<rparr>,
          w1\<lparr>w_disconnected := drop_sender (cg_disconnect_tx g) (w_disconnected w1)\<rparr>))"

subsection \<open>Events\<close>

definition handle_bootstrapped_to :: "node_info \<Rightarrow> conn_inner \<Rightarrow> conn_inner" where
  "handle_bootstrapped_to node_info g =
     g\<lparr>cg_elders := hm_insert (ni_peer_addr node_info) (elder_new node_info) (cg_elders g)\<rparr>"

text \<open>\<open>self.connection_hook.take().map(|hook| hook.send(result))\<close>\<close>

definition fire_connection_hook ::
  "unit core_result \<Rightarrow> conn_inner \<Rightarrow> conn_world \<Rightarrow> conn_inner \<times> conn_world" where
  "fire_connection_hook result g w = (case cg_connection_hook g of
     None \<Rightarrow> (g, w)
   | Some hook \<Rightarrow>
       (g\<lparr>cg_connection_hook := None\<rparr>, w\<lparr>w_connected := settle hook (Fulfilled result) (w_connected w)\<rparr>))"

definition handle_bootstrap_failure :: "conn_inner \<Rightarrow> conn_world \<Rightarrow> conn_inner \<times> conn_world" where
  "handle_bootstrap_failure = fire_connection_hook (Err (core_error_from_str ''Bootstrap failure''))"

definition handle_response ::
  "message_id \<Rightarrow> response \<Rightarrow> conn_inner \<Rightarrow> conn_world \<Rightarrow> conn_inner \<times> conn_world" where
  "handle_response msg_id response g w = (case map_of (cg_hooks g) msg_id of
     None \<Rightarrow> (g, w)
   | Some c \<Rightarrow> (g\<lparr>cg_hooks := hm_remove msg_id (cg_hooks g)\<rparr>,
       w\<lparr>w_responses := settle c (Fulfilled response) (w_responses w)\<rparr>))"

definition handle_challenge ::
  "'n client_env \<Rightarrow> conn_ops \<Rightarrow> socket_addr \<Rightarrow> bytes \<Rightarrow> bytes \<Rightarrow> conn_inner \<Rightarrow> conn_world
     \<Rightarrow> (conn_inner \<times> conn_world) option" where
  "handle_challenge env ops sender_addr sender_id challenge g w = (case map_of (cg_elders g) sender_addr of
     None \<Rightarrow> None
   | Some elder \<Rightarrow>
       let g1 = g\<lparr>cg_elders := hm_insert sender_addr (elder\<lparr>el_public_id := Some sender_id\<rparr>) (cg_elders g)\<rparr>;
         response = ChallengeResponse (safe_key_public_id env (cg_full_id g))
           (safe_key_sign env (cg_full_id g) challenge) False
       in case ser_challenge ops response of
            Err _ \<Rightarrow> None
          | Ok msg \<Rightarrow> Some (fire_connection_hook (Ok ()) g1 (send_to ops (cg_id g) [el_peer elder] msg w)))"

definition have_handled_challenge :: "socket_addr \<Rightarrow> conn_inner \<Rightarrow> bool" where
  "have_handled_challenge a g = (case map_of (cg_elders g) a of
     None \<Rightarrow> False
   | Some elder \<Rightarrow> el_public_id elder \<noteq> None)"

definition handle_new_message ::
  "'n client_env \<Rightarrow> conn_ops \<Rightarrow> socket_addr \<Rightarrow> bytes \<Rightarrow> conn_inner \<Rightarrow> conn_world
     \<Rightarrow> (conn_inner \<times> conn_world) option" where
  "handle_new_message env ops a msg g w =
     (if have_handled_challenge a g
      then case de_message ops msg of
             Ok (MsgResponse response msg_id) \<Rightarrow> Some (handle_response msg_id response g w)
           | _ \<Rightarrow> Some (g, w)
      else case de_challenge ops msg of
             Ok (ChallengeRequest (Node node_public_id) challenge) \<Rightarrow>
               handle_challenge env ops a node_public_id challenge g w
           | _ \<Rightarrow> Some (g, w))"

text \<open>The handlers of sent and unsent messages only write to the log.\<close>

definition handle_connection_failure ::
  "quic_error \<Rightarrow> conn_inner \<Rightarrow> conn_world \<Rightarrow> conn_inner \<times> conn_world" where
  "handle_connection_failure err g w = (case (err, cg_disconnect_tx g) of
     (ConnectionCancelled, Some tx) \<Rightarrow>
       (g\<lparr>cg_disconnect_tx := None\<rparr>, w\<lparr>w_disconnected := settle tx (Fulfilled ()) (w_disconnected w)\<rparr>)
   | _ \<Rightarrow> (g, w))"

definition handle_quic_p2p_event ::
  "'n client_env \<Rightarrow> conn_ops \<Rightarrow> quic_event \<Rightarrow> conn_inner \<Rightarrow> conn_world \<Rightarrow> (conn_inner \<times> conn_world) option" where
  "handle_quic_p2p_event env ops event g w = (case event of
     BootstrapFailure \<Rightarrow> Some (handle_bootstrap_failure g w)
   | BootstrappedTo node \<Rightarrow> Some (handle_bootstrapped_to node g, w)
   | SentUserMessage a msg token \<Rightarrow> Some (g, w)
   | UnsentUserMessage a msg token \<Rightarrow> Some (g, w)
   | NewMessage a msg \<Rightarrow> handle_new_message env ops a msg g w
   | Finish \<Rightarrow> Some (g, w)
   | ConnectionFailure a err \<Rightarrow> Some (handle_connection_failure err g w)
   | ConnectedTo p \<Rightarrow> Some (g, w))"

text \<open>One round of the thread of a group.\<close>

definition event_loop_round ::
  "'n client_env \<Rightarrow> conn_ops \<Rightarrow> quic_event \<Rightarrow> conn_group \<Rightarrow> conn_world \<Rightarrow> conn_group \<times> conn_world" where
  "event_loop_round env ops event g w =
     (if \<not> cg_loop_alive g then (g, w)
      else if event = Finish \<or> cg_poisoned g then (g\<lparr>cg_loop_alive := False\<rparr>, w)
      else case handle_quic_p2p_event env ops event (cg_inner g) w of
             None \<Rightarrow> (g\<lparr>cg_poisoned := True, cg_loop_alive := False\<rparr>, w)
           | Some (inner, w') \<Rightarrow> (g\<lparr>cg_inner := inner\<rparr>, w'))"

definition group_send ::
  "conn_ops \<Rightarrow> message_id \<Rightarrow> message \<Rightarrow> conn_group \<Rightarrow> conn_world \<Rightarrow> (nat \<times> conn_group \<times> conn_world) option" where
  "group_send ops msg_id msg g w =
     (if cg_poisoned g then None
      else map_option (\<lambda>(c, inner, w'). (c, g\<lparr>cg_inner := inner\<rparr>, w')) (inner_send ops msg_id msg (cg_inner g) w))"

definition group_close :: "conn_group \<Rightarrow> conn_world \<Rightarrow> (nat \<times> conn_group \<times> conn_world) option" where
  "group_close g w =
     (if cg_poisoned g then None
      else Some (case inner_close (cg_inner g) w of (c, inner, w') \<Rightarrow> (c, g\<lparr>cg_inner := inner\<rparr>, w')))"

subsection \<open>Dropping a group\<close>

text \<open>\<open>Drop for Inner\<close> disconnects from the peers; the fields are dropped with it, the senders among them.\<close>

definition inner_drop :: "conn_inner \<Rightarrow> conn_world \<Rightarrow> conn_world" where
  "inner_drop g w =
     (let w1 = terminate g w
      in w1\<lparr>w_responses := fold (\<lambda>c. settle c Canceled) (map snd (cg_hooks g)) (w_responses w1),
            w_connected := drop_sender (cg_connection_hook g) (w_connected w1),
            w_disconnected := drop_sender (cg_disconnect_tx g) (w_disconnected w1)\<rparr>)"

subsection \<open>The connection manager\<close>

record net_manager =
  nm_config :: bytes
  nm_groups :: "(public_id, conn_group) hashmap"
  nm_events :: "network_event list" \<comment> \<open>what was sent on \<open>net_tx\<close>\<close>

definition net_manager_new :: "conn_ops \<Rightarrow> bytes \<Rightarrow> net_manager" where
  "net_manager_new ops config = \<lparr>nm_config = clear_port ops config, nm_groups = [], nm_events = []\<rparr>"

definition net_has_connection_to :: "net_manager \<Rightarrow> public_id \<Rightarrow> bool" where
  "net_has_connection_to m pub_id \<longleftrightarrow> map_of (nm_groups m) pub_id \<noteq> None"

text \<open>The futures that the manager returns: they have a result at once, or wait for a channel.\<close>

datatype 'r conn_future = Ready 'r | Wait nat

text \<open>
  The channel is made before the entry of the group is looked up. All errors of the waiting future, that of
  the channel among them, become \<open>RequestTimeout\<close>.
\<close>

definition net_bootstrap ::
  "'n client_env \<Rightarrow> conn_ops \<Rightarrow> safe_key \<Rightarrow> net_manager \<Rightarrow> conn_world
     \<Rightarrow> unit core_result conn_future \<times> net_manager \<times> conn_world" where
  "net_bootstrap env ops full_id m w =
     (let c = length (w_connected w);
        w1 = w\<lparr>w_connected := w_connected w @ [Waiting]\<rparr>;
        pub_id = safe_key_public_id env full_id
      in case map_of (nm_groups m) pub_id of
           None \<Rightarrow> (case conn_group_new ops (nm_config m) full_id [] c w1 of
               (Err e, w2) \<Rightarrow> (Ready (Err e), m, w2)
             | (Ok g, w2) \<Rightarrow> (Wait c, m\<lparr>nm_groups := hm_insert pub_id g (nm_groups m)\<rparr>, w2))
         | Some _ \<Rightarrow> (Ready (Ok ()), m, w\<lparr>w_connected := w_connected w @ [Canceled]\<rparr>))"

definition poll_bootstrap :: "conn_world \<Rightarrow> unit core_result conn_future \<Rightarrow> unit core_result option" where
  "poll_bootstrap w f = (case f of
     Ready r \<Rightarrow> Some r
   | Wait c \<Rightarrow> (case w_connected w ! c of
       Waiting \<Rightarrow> None
     | Fulfilled (Ok _) \<Rightarrow> Some (Ok ())
     | Fulfilled (Err _) \<Rightarrow> Some (Err RequestTimeout)
     | Canceled \<Rightarrow> Some (Err RequestTimeout)
     | Elapsed \<Rightarrow> Some (Err RequestTimeout)))"

definition net_send ::
  "conn_ops \<Rightarrow> public_id \<Rightarrow> message \<Rightarrow> net_manager \<Rightarrow> conn_world
     \<Rightarrow> (response core_result conn_future \<times> net_manager \<times> conn_world) option" where
  "net_send ops pub_id msg m w = (case msg of
     MsgRequest _ msg_id _ \<Rightarrow> (case map_of (nm_groups m) pub_id of
         None \<Rightarrow> Some (Ready (Err (Unexpected ''No connection group found - did you call `bootstrap`?'')), m, w)
       | Some g \<Rightarrow> map_option (\<lambda>(c, g', w'). (Wait c, m\<lparr>nm_groups := hm_insert pub_id g' (nm_groups m)\<rparr>, w'))
           (group_send ops msg_id msg g w))
   | _ \<Rightarrow> Some (Ready (Err (Unexpected ''Not a Request'')), m, w))"

definition poll_response :: "conn_world \<Rightarrow> response core_result conn_future \<Rightarrow> response core_result option" where
  "poll_response w f = (case f of
     Ready r \<Rightarrow> Some r
   | Wait c \<Rightarrow> (case w_responses w ! c of
       Waiting \<Rightarrow> None
     | Fulfilled r \<Rightarrow> Some (Ok r)
     | Canceled \<Rightarrow> Some (Err RequestTimeout)
     | Elapsed \<Rightarrow> Some (Err RequestTimeout)))"

text \<open>The future keeps the group that was removed until it is resolved, and drops it then.\<close>

definition net_disconnect ::
  "public_id \<Rightarrow> net_manager \<Rightarrow> conn_world
     \<Rightarrow> ((unit core_result conn_future \<times> conn_group option) \<times> net_manager \<times> conn_world) option" where
  "net_disconnect pub_id m w = (case map_of (nm_groups m) pub_id of
     None \<Rightarrow> Some ((Ready (Ok ()), None), m, w)
   | Some g \<Rightarrow> map_option (\<lambda>(c, g', w'). ((Wait c, Some g'), m\<lparr>nm_groups := hm_remove pub_id (nm_groups m)\<rparr>, w'))
       (group_close g w))"

definition poll_disconnect ::
  "conn_ops \<Rightarrow> conn_world \<Rightarrow> unit core_result conn_future \<times> conn_group option
     \<Rightarrow> (unit core_result \<times> conn_world) option" where
  "poll_disconnect ops w f = (case f of
     (Ready r, _) \<Rightarrow> Some (r, w)
   | (Wait c, held) \<Rightarrow>
       let freed = (case held of None \<Rightarrow> w | Some g \<Rightarrow> inner_drop (cg_inner g) w)
       in case w_disconnected w ! c of
         Fulfilled _ \<Rightarrow> Some (Ok (), freed)
       | Canceled \<Rightarrow> Some (Err (Unexpected (canceled_text ops)), freed)
       | _ \<Rightarrow> None)"

definition net_manager_drop :: "net_manager \<Rightarrow> conn_world \<Rightarrow> net_manager \<times> conn_world" where
  "net_manager_drop m w =
     (m\<lparr>nm_groups := [], nm_events := nm_events m @ [Disconnected]\<rparr>,
      fold (\<lambda>(_, g). inner_drop (cg_inner g)) (nm_groups m) w)"

end
