(* ===== verification/Connection_Props.thy ===== *)
theory Connection_Props
  imports Connection_Group Client_Props
begin

section \<open>What a group of connections guarantees\<close>

text \<open>
  The runs of a group as a transition system: requests of the client, its disconnecting, the events of
  \<open>quic-p2p\<close> in any order and with any content, the timers of the waiting futures. The invariant of the runs
  says where each hook and each elder comes from, and gives that a future is resolved only by the
  response of an elder whose challenge was answered.
\<close>

datatype cg_label =
    LSend message_id message
  | LClose
  | LEvent quic_event
  | LRequestTimer nat
  | LConnectTimer nat

definition cg_step ::
  "'n client_env \<Rightarrow> conn_ops \<Rightarrow> cg_label \<Rightarrow> conn_group \<Rightarrow> conn_world \<Rightarrow> (conn_group \<times> conn_world) option" where
  "cg_step env ops l g w = (case l of
     LSend msg_id msg \<Rightarrow> map_option snd (group_send ops msg_id msg g w)
   | LClose \<Rightarrow> map_option snd (group_close g w)
   | LEvent event \<Rightarrow> Some (event_loop_round env ops event g w)
   | LRequestTimer c \<Rightarrow> Some (g, w\<lparr>w_responses := settle c Elapsed (w_responses w)\<rparr>)
   | LConnectTimer c \<Rightarrow> Some (g, w\<lparr>w_connected := settle c Elapsed (w_connected w)\<rparr>))"

inductive cg_run ::
  "'n client_env \<Rightarrow> conn_ops \<Rightarrow> conn_group \<Rightarrow> conn_world \<Rightarrow> cg_label list \<Rightarrow> conn_group \<Rightarrow> conn_world \<Rightarrow> bool"
  for env :: "'n client_env" and ops :: conn_ops and g0 :: conn_group and w0 :: conn_world where
  cg_start: "cg_run env ops g0 w0 [] g0 w0"
| cg_next: "cg_run env ops g0 w0 ls g w \<Longrightarrow> cg_step env ops l g w = Some (g', w') \<Longrightarrow>
    cg_run env ops g0 w0 (ls @ [l]) g' w'"

inductive_cases cg_run_NilE: "cg_run env ops g0 w0 [] g w"

text \<open>The same run, computed.\<close>

fun cg_exec ::
  "'n client_env \<Rightarrow> conn_ops \<Rightarrow> cg_label list \<Rightarrow> conn_group \<times> conn_world \<Rightarrow> (conn_group \<times> conn_world) option" where
  "cg_exec env ops [] s = Some s"
| "cg_exec env ops (l # ls) s = Option.bind (cg_step env ops l (fst s) (snd s)) (cg_exec env ops ls)"

lemma cg_exec_snoc:
  "cg_exec env ops (ls @ [l]) s =
     Option.bind (cg_exec env ops ls s) (\<lambda>s'. cg_step env ops l (fst s') (snd s'))"
  by (induction ls arbitrary: s) (auto split: bind_splits)

lemma cg_run_exec: "cg_exec env ops ls (g0, w0) = Some (g, w) \<Longrightarrow> cg_run env ops g0 w0 ls g w"
proof (induction ls arbitrary: g w rule: rev_induct)
  case (snoc l ls)
  then show ?case
    by (auto simp: cg_exec_snoc bind_eq_Some_conv intro: cg_next)
qed (auto intro: cg_start)

subsection \<open>Where hooks and elders come from\<close>

definition is_send :: "cg_label \<Rightarrow> bool" where
  "is_send l \<longleftrightarrow> (\<exists>m msg. l = LSend m msg)"

definition introduced :: "node_info list \<Rightarrow> cg_label list \<Rightarrow> socket_addr \<Rightarrow> bool" where
  "introduced elders ls a \<longleftrightarrow> (\<exists>node. ni_peer_addr node = a \<and>
     (node \<in> set elders \<or> LEvent (BootstrappedTo node) \<in> set ls))"

text \<open>
  The challenge of a node at the address \<open>a\<close>, which was introduced before, was received, and the step that handled it sent to this
  address, through the group's own connections, the response signed with the key of the client.
\<close>

definition challenge_answered ::
  "'n client_env \<Rightarrow> conn_ops \<Rightarrow> safe_key \<Rightarrow> node_info list \<Rightarrow> conn_group \<Rightarrow> conn_world \<Rightarrow> cg_label list \<Rightarrow> socket_addr \<Rightarrow> bool" where
  "challenge_answered env ops full_id elders g0 w0 ls a \<longleftrightarrow> (\<exists>before b nid ch after g w g' w' p msg tok.
     ls = before @ LEvent (NewMessage a b) # after \<and> introduced elders before a \<and>
     de_challenge ops b = Ok (ChallengeRequest (Node nid) ch) \<and>
     cg_run env ops g0 w0 before g w \<and> cg_step env ops (LEvent (NewMessage a b)) g w = Some (g', w') \<and>
     ser_challenge ops (ChallengeResponse (safe_key_public_id env full_id) (safe_key_sign env full_id ch) False) = Ok msg \<and>
     peer_addr p = a \<and> w_quic w' = w_quic w @ [(cg_id (cg_inner g0), QuicSend p msg tok)])"

text \<open>The request with the number \<open>c\<close> has the identifier \<open>m\<close>, and no later one has it.\<close>

definition requested :: "cg_label list \<Rightarrow> nat \<Rightarrow> message_id \<Rightarrow> bool" where
  "requested ls c m \<longleftrightarrow> (\<exists>before msg after.
     ls = before @ LSend m msg # after \<and> length (filter is_send before) = c \<and>
     (\<forall>msg'. LSend m msg' \<notin> set after))"

definition answered ::
  "'n client_env \<Rightarrow> conn_ops \<Rightarrow> safe_key \<Rightarrow> node_info list \<Rightarrow> conn_group \<Rightarrow> conn_world \<Rightarrow> cg_label list \<Rightarrow> nat \<Rightarrow> response \<Rightarrow> bool" where
  "answered env ops full_id elders g0 w0 ls c r \<longleftrightarrow> (\<exists>before a b m after.
     ls = before @ LEvent (NewMessage a b) # after \<and> de_message ops b = Ok (MsgResponse r m) \<and>
     requested before c m \<and> challenge_answered env ops full_id elders g0 w0 before a)"

lemma introduced_mono: "introduced elders ls a \<Longrightarrow> introduced elders (ls @ [l]) a"
  by (auto simp: introduced_def)

lemma challenge_answered_mono: "challenge_answered env ops full_id elders g0 w0 ls a \<Longrightarrow> challenge_answered env ops full_id elders g0 w0 (ls @ [l]) a"
  unfolding challenge_answered_def by (metis append_Cons append_assoc)

lemma requested_mono:
  assumes "requested ls c m" and "\<And>msg. l \<noteq> LSend m msg"
  shows "requested (ls @ [l]) c m"
proof -
  obtain before msg after where "ls = before @ LSend m msg # after"
    and "length (filter is_send before) = c" and "\<forall>msg'. LSend m msg' \<notin> set after"
    using assms(1) by (auto simp: requested_def)
  then have "ls @ [l] = before @ LSend m msg # (after @ [l]) \<and> length (filter is_send before) = c \<and>
      (\<forall>msg'. LSend m msg' \<notin> set (after @ [l]))"
    using assms(2) by auto
  then show ?thesis
    unfolding requested_def by blast
qed

lemma answered_mono: "answered env ops full_id elders g0 w0 ls c r \<Longrightarrow> answered env ops full_id elders g0 w0 (ls @ [l]) c r"
  unfolding answered_def by (metis append_Cons append_assoc)

lemmas provenance_mono = introduced_mono challenge_answered_mono requested_mono answered_mono

lemma requested_now: "requested (ls @ [LSend m msg]) (length (filter is_send ls)) m"
  unfolding requested_def by fastforce

definition cg_inv ::
  "'n client_env \<Rightarrow> conn_ops \<Rightarrow> safe_key \<Rightarrow> node_info list \<Rightarrow> conn_group \<Rightarrow> conn_world \<Rightarrow> cg_label list \<Rightarrow> conn_inner \<Rightarrow> conn_world \<Rightarrow> bool" where
  "cg_inv env ops full_id elders g0 w0 ls g w \<longleftrightarrow>
     length (w_responses w) = length (filter is_send ls) \<and>
     (\<forall>m c. map_of (cg_hooks g) m = Some c \<longrightarrow> requested ls c m) \<and>
     (\<forall>c r. c < length (w_responses w) \<longrightarrow> w_responses w ! c = Fulfilled r \<longrightarrow> answered env ops full_id elders g0 w0 ls c r) \<and>
     (\<forall>a e. map_of (cg_elders g) a = Some e \<longrightarrow>
        introduced elders ls a \<and> peer_addr (el_peer e) = a \<and>
        (el_public_id e \<noteq> None \<longrightarrow> challenge_answered env ops full_id elders g0 w0 ls a)) \<and>
     cg_full_id g = full_id \<and> cg_id g = cg_id (cg_inner g0)"

text \<open>A step that is no request and leaves hooks, elders and delivered responses alone keeps the invariant.\<close>

lemma length_settle [simp]: "length (settle c x chans) = length chans"
  by (simp add: settle_def)

lemma settle_Fulfilled:
  "settle c x chans ! i = Fulfilled r \<Longrightarrow> i < length chans \<Longrightarrow> chans ! i = Fulfilled r \<or> (i = c \<and> x = Fulfilled r)"
  by (auto simp: settle_def nth_list_update split: if_splits)

lemma length_drop_sender [simp]: "length (drop_sender s chans) = length chans"
  by (simp add: drop_sender_def split: option.split)

lemma drop_sender_Fulfilled:
  "drop_sender s chans ! i = Fulfilled r \<Longrightarrow> i < length chans \<Longrightarrow> chans ! i = Fulfilled r"
  by (auto simp: drop_sender_def dest!: settle_Fulfilled split: option.splits)

lemma effects_simps [simp]:
  "w_responses (quic_do i calls w) = w_responses w"
  "w_responses (send_to ops i ps b w) = w_responses w"
  "w_responses (terminate g w) = w_responses w"
  by (simp_all add: quic_do_def send_to_def terminate_def)

lemma cg_inv_idle:
  assumes "cg_inv env ops full_id elders g0 w0 ls g w" and "\<not> is_send l"
    and "cg_hooks g' = cg_hooks g" and "cg_elders g' = cg_elders g" and "cg_full_id g' = cg_full_id g" and "cg_id g' = cg_id g"
    and "length (w_responses w') = length (w_responses w)"
    and "\<And>c r. c < length (w_responses w) \<Longrightarrow> w_responses w' ! c = Fulfilled r \<Longrightarrow> w_responses w ! c = Fulfilled r"
  shows "cg_inv env ops full_id elders g0 w0 (ls @ [l]) g' w'"
  using assms by (auto simp: cg_inv_def is_send_def intro: provenance_mono)

lemma cg_inv_send:
  assumes "cg_inv env ops full_id elders g0 w0 ls g w" and "inner_send ops m msg g w = Some (c, g', w')"
  shows "cg_inv env ops full_id elders g0 w0 (ls @ [LSend m msg]) g' w'"
proof -
  have hooks: "map_of (cg_hooks g') m' = (if m' = m then Some (length (w_responses w)) else map_of (cg_hooks g) m')"
    and rest: "cg_elders g' = cg_elders g \<and> cg_full_id g' = cg_full_id g \<and> cg_id g' = cg_id g"
      "w_responses w' = drop_sender (map_of (cg_hooks g) m) (w_responses w @ [Waiting])" for m'
    using assms(2) by (auto simp: inner_send_def Let_def hashmap.get_put split: sum.splits)
  have "w_responses w' ! c = Fulfilled r \<Longrightarrow> c < length (w_responses w') \<Longrightarrow>
      c < length (w_responses w) \<and> w_responses w ! c = Fulfilled r" for c r
    unfolding rest by (auto simp: nth_append less_Suc_eq dest!: drop_sender_Fulfilled split: if_splits)
  moreover have "length (w_responses w') = Suc (length (w_responses w))"
    by (simp add: rest)
  ultimately show ?thesis
    using assms(1)
    by (auto simp: cg_inv_def hooks rest(1) is_send_def requested_now intro: provenance_mono split: if_splits)
qed

lemma cg_inv_response:
  assumes inv: "cg_inv env ops full_id elders g0 w0 ls g w" and "have_handled_challenge a g"
    and "de_message ops b = Ok (MsgResponse r m)"
    and run: "handle_response m r g w = (g', w')"
  shows "cg_inv env ops full_id elders g0 w0 (ls @ [LEvent (NewMessage a b)]) g' w'"
proof (cases "map_of (cg_hooks g) m")
  case None
  then show ?thesis
    using run by (auto simp: handle_response_def is_send_def intro: cg_inv_idle [OF inv])
next
  case (Some c)
  have "requested ls c m" and "challenge_answered env ops full_id elders g0 w0 ls a"
    using assms(1,2) Some by (auto simp: cg_inv_def have_handled_challenge_def split: option.splits)
  then have now: "answered env ops full_id elders g0 w0 (ls @ [LEvent (NewMessage a b)]) c r"
    using assms(3) unfolding answered_def by blast
  have new: "g' = g\<lparr>cg_hooks := hm_remove m (cg_hooks g)\<rparr>"
      "w_responses w' = settle c (Fulfilled r) (w_responses w)"
    using run Some by (auto simp: handle_response_def)
  have "answered env ops full_id elders g0 w0 (ls @ [LEvent (NewMessage a b)]) i r'"
    if "i < length (w_responses w)" "w_responses w' ! i = Fulfilled r'" for i r'
    using settle_Fulfilled [OF that(2) [unfolded new(2)] that(1)] now inv that(1)
    by (auto simp: cg_inv_def intro: answered_mono)
  then show ?thesis
    using inv by (auto simp: new cg_inv_def is_send_def hashmap.get_del intro: provenance_mono split: if_splits)
qed

lemma cg_inv_elder:
  assumes inv: "cg_inv env ops full_id elders g0 w0 ls g w" and "\<not> is_send l"
    and "introduced elders (ls @ [l]) a" and "peer_addr (el_peer e) = a" and "el_public_id e \<noteq> None \<Longrightarrow> challenge_answered env ops full_id elders g0 w0 (ls @ [l]) a"
    and "cg_hooks g' = cg_hooks g" and "cg_elders g' = hm_insert a e (cg_elders g)" and "cg_full_id g' = cg_full_id g" and "cg_id g' = cg_id g"
    and "w_responses w' = w_responses w"
  shows "cg_inv env ops full_id elders g0 w0 (ls @ [l]) g' w'"
  using assms by (auto simp: cg_inv_def is_send_def hashmap.get_put intro: provenance_mono split: if_splits)

lemma fire_connection_hook_simps [simp]:
  "cg_hooks (fst (fire_connection_hook res g w)) = cg_hooks g"
  "cg_elders (fst (fire_connection_hook res g w)) = cg_elders g"
  "cg_full_id (fst (fire_connection_hook res g w)) = cg_full_id g"
  "cg_id (fst (fire_connection_hook res g w)) = cg_id g"
  "w_responses (snd (fire_connection_hook res g w)) = w_responses w"
  "w_quic (snd (fire_connection_hook res g w)) = w_quic w"
  by (simp_all add: fire_connection_hook_def split: option.split)

text \<open>What answering a challenge sends.\<close>

lemma challenge_response_sent:
  assumes "map_of (cg_elders g) a = Some e" and "handle_challenge env ops a nid ch g w = Some (g', w')"
  obtains msg tok where
    "ser_challenge ops (ChallengeResponse (safe_key_public_id env (cg_full_id g)) (safe_key_sign env (cg_full_id g) ch) False) = Ok msg"
    "w_quic w' = w_quic w @ [(cg_id g, QuicSend (el_peer e) msg tok)]"
proof -
  obtain msg where msg: "ser_challenge ops (ChallengeResponse (safe_key_public_id env (cg_full_id g))
      (safe_key_sign env (cg_full_id g) ch) False) = Ok msg"
    using assms by (auto simp: handle_challenge_def Let_def split: sum.splits)
  then have "w' = snd (fire_connection_hook (Ok ()) (g\<lparr>cg_elders := hm_insert a (e\<lparr>el_public_id := Some nid\<rparr>) (cg_elders g)\<rparr>)
      (send_to ops (cg_id g) [el_peer e] msg w))"
    using assms by (auto simp: handle_challenge_def Let_def prod_eq_iff)
  then have "w_quic w' = w_quic w @ [(cg_id g, QuicSend (el_peer e) msg (random_token ops (w_tokens w)))]"
    by (simp add: send_to_def quic_do_def)
  with msg show ?thesis by (rule that)
qed

lemma cg_inv_challenge:
  assumes inv: "cg_inv env ops full_id elders g0 w0 ls (cg_inner g) w" and reached: "cg_run env ops g0 w0 ls g w"
    and "de_challenge ops b = Ok (ChallengeRequest (Node nid) ch)"
    and run: "handle_challenge env ops a nid ch (cg_inner g) w = Some (i', w')"
    and step: "cg_step env ops (LEvent (NewMessage a b)) g w = Some (g', w')"
  shows "cg_inv env ops full_id elders g0 w0 (ls @ [LEvent (NewMessage a b)]) i' w'"
proof -
  obtain e where e: "map_of (cg_elders (cg_inner g)) a = Some e"
    using run by (auto simp: handle_challenge_def split: option.splits)
  then have known: "introduced elders ls a" "peer_addr (el_peer e) = a" "cg_full_id (cg_inner g) = full_id"
      "cg_id (cg_inner g) = cg_id (cg_inner g0)"
    using inv by (auto simp: cg_inv_def)
  obtain msg tok where "ser_challenge ops (ChallengeResponse (safe_key_public_id env full_id) (safe_key_sign env full_id ch) False) = Ok msg"
      "w_quic w' = w_quic w @ [(cg_id (cg_inner g0), QuicSend (el_peer e) msg tok)]"
    using challenge_response_sent [OF e run] unfolding known(3,4) .
  then have "challenge_answered env ops full_id elders g0 w0 (ls @ [LEvent (NewMessage a b)]) a"
    using assms(3) known(1,2) reached step unfolding challenge_answered_def by blast
  then show ?thesis
    using run e known
    by (intro cg_inv_elder [OF inv, where a = a and e = "e\<lparr>el_public_id := Some nid\<rparr>"])
      (auto simp: handle_challenge_def Let_def is_send_def introduced_mono prod_eq_iff split: sum.splits)
qed

lemma cg_inv_event:
  assumes inv: "cg_inv env ops full_id elders g0 w0 ls (cg_inner g) w" and reached: "cg_run env ops g0 w0 ls g w"
    and run: "handle_quic_p2p_event env ops ev (cg_inner g) w = Some (i', w')"
    and step: "cg_step env ops (LEvent ev) g w = Some (g', w')"
  shows "cg_inv env ops full_id elders g0 w0 (ls @ [LEvent ev]) i' w'"
proof -
  have idle: "cg_inv env ops full_id elders g0 w0 (ls @ [LEvent ev]) (cg_inner g) w" for ev
    by (rule cg_inv_idle [OF inv]) (simp_all add: is_send_def)
  show ?thesis
  proof (cases ev)
    case BootstrapFailure
    then show ?thesis
      using run by (intro cg_inv_idle [OF inv])
        (auto simp: handle_quic_p2p_event_def handle_bootstrap_failure_def is_send_def prod_eq_iff)
  next
    case (BootstrappedTo node)
    then show ?thesis
      using run by (intro cg_inv_elder [OF inv, where a = "ni_peer_addr node" and e = "elder_new node"])
        (auto simp: handle_quic_p2p_event_def handle_bootstrapped_to_def elder_new_def is_send_def introduced_def)
  next
    case (NewMessage a b)
    show ?thesis
    proof (cases "have_handled_challenge a (cg_inner g)")
      case True
      then show ?thesis
        using run NewMessage cg_inv_response [OF inv True] idle
        by (auto simp: handle_quic_p2p_event_def handle_new_message_def split: sum.splits message.splits)
    next
      case False
      then show ?thesis
        using run step NewMessage idle
        by (auto simp: handle_quic_p2p_event_def handle_new_message_def intro: cg_inv_challenge [OF inv reached]
            split: sum.splits challenge.splits public_id.splits)
    qed
  next
    case (ConnectionFailure a err)
    then show ?thesis
      using run by (intro cg_inv_idle [OF inv])
        (auto simp: handle_quic_p2p_event_def handle_connection_failure_def is_send_def
          split: quic_error.splits option.splits)
  qed (use run idle in \<open>auto simp: handle_quic_p2p_event_def\<close>)
qed

lemma cg_inv_step:
  assumes inv: "cg_inv env ops full_id elders g0 w0 ls (cg_inner g) w" and reached: "cg_run env ops g0 w0 ls g w" and run: "cg_step env ops l g w = Some (g', w')"
  shows "cg_inv env ops full_id elders g0 w0 (ls @ [l]) (cg_inner g') w'"
proof (cases l)
  case (LSend m msg)
  then show ?thesis
    using run by (auto simp: cg_step_def group_send_def split: if_splits intro: cg_inv_send [OF inv])
next
  case LClose
  then show ?thesis
    using run by (intro cg_inv_idle [OF inv])
      (auto simp: cg_step_def group_close_def inner_close_def Let_def is_send_def split: if_splits)
next
  case (LEvent ev)
  have "cg_inv env ops full_id elders g0 w0 (ls @ [LEvent ev]) (cg_inner g) w"
    by (rule cg_inv_idle [OF inv]) (simp_all add: is_send_def)
  then show ?thesis
    using run LEvent
    by (auto simp: cg_step_def event_loop_round_def intro: cg_inv_event [OF inv reached] split: if_splits option.splits)
qed (use run in \<open>auto simp: cg_step_def is_send_def dest: settle_Fulfilled intro!: cg_inv_idle [OF inv]\<close>)

lemma introduced_initially:
  "map_of (fold (\<lambda>node. hm_insert (ni_peer_addr node) (elder_new node)) nodes m) a = Some e \<Longrightarrow>
     map_of m a = Some e \<or> (el_public_id e = None \<and> peer_addr (el_peer e) = a \<and> (\<exists>node \<in> set nodes. ni_peer_addr node = a))"
  by (induction nodes arbitrary: m) (fastforce simp: hashmap.get_put elder_new_def split: if_splits)+

lemma cg_inv_start:
  assumes "conn_group_new ops config full_id elders hook w = (Ok g0, w0)" and "w_responses w = []"
  shows "cg_inv env ops full_id elders g0 w0 [] (cg_inner g0) w0"
  using assms
  by (auto simp: conn_group_new_def cg_inv_def introduced_def Let_def split: sum.splits dest!: introduced_initially)

lemma cg_run_inv:
  assumes "cg_run env ops g0 w0 ls g w"
    and "conn_group_new ops config full_id elders hook w00 = (Ok g0, w0)" and "w_responses w00 = []"
  shows "cg_inv env ops full_id elders g0 w0 ls (cg_inner g) w"
  using assms by (induction rule: cg_run.induct) (blast intro: cg_inv_start cg_inv_step)+

subsection \<open>Responses\<close>

lemma fire_connection_hook_responses:
  "fire_connection_hook x g w = (g1, w1) \<Longrightarrow> w_responses w1 = w_responses w"
  using fire_connection_hook_simps(5) [of x g w] by simp

lemma settle_keeps_Fulfilled: "chans ! c = Fulfilled r \<Longrightarrow> settle i x chans ! c = Fulfilled r"
  by (auto simp: settle_def nth_list_update)

lemma drop_sender_keeps_Fulfilled: "chans ! c = Fulfilled r \<Longrightarrow> drop_sender i chans ! c = Fulfilled r"
  by (simp add: drop_sender_def settle_keeps_Fulfilled split: option.split)

lemma resolved_event:
  assumes "handle_quic_p2p_event env ops ev g w = Some (g', w')" and "w_responses w ! c = Fulfilled r"
  shows "length (w_responses w') = length (w_responses w) \<and> w_responses w' ! c = Fulfilled r"
  using assms
  by (cases ev)
    (auto simp: handle_quic_p2p_event_def handle_bootstrap_failure_def handle_new_message_def
      handle_response_def handle_challenge_def handle_connection_failure_def Let_def settle_keeps_Fulfilled
      dest: fire_connection_hook_responses
      split: if_splits sum.splits option.splits quic_error.splits message.splits challenge.splits public_id.splits)

lemma resolved_step:
  assumes "cg_step env ops l g w = Some (g', w')" and "c < length (w_responses w)"
    and "w_responses w ! c = Fulfilled r"
  shows "c < length (w_responses w') \<and> w_responses w' ! c = Fulfilled r"
  using assms
  by (cases l)
    (auto simp: cg_step_def group_send_def inner_send_def group_close_def inner_close_def
      event_loop_round_def Let_def nth_append settle_keeps_Fulfilled drop_sender_keeps_Fulfilled
      dest: resolved_event split: if_splits sum.splits option.splits)

lemma resolved_final:
  assumes "cg_run env ops g w ls g' w'" and "c < length (w_responses w)" and "w_responses w ! c = Fulfilled r"
  shows "c < length (w_responses w') \<and> w_responses w' ! c = Fulfilled r"
  using assms by (induction rule: cg_run.induct) (blast dest: resolved_step)+

text \<open>
  (C14) The future of a request on the real network gets a response only if the group received a message
  with that response and the identifier of this very request, sent after it (a later request with the
  same identifier would have taken its place), from an address that the network had introduced to the group
  and whose challenge had been answered before: the group had received the challenge of a node from this address, and had then sent to this
  address the response to it, with the client's identity and its signature of the challenge. Once resolved, a future keeps its result
  whatever happens afterwards.
\<close>

theorem responses_authentic:
  assumes "conn_group_new ops config full_id elders hook w = (Ok g0, w0)" and "w_responses w = []"
    and "cg_run env ops g0 w0 ls g1 w1"
    and "c < length (w_responses w1)" and "poll_response w1 (Wait c) = Some (Ok r)"
  shows "(\<exists>before a b m after. ls = before @ LEvent (NewMessage a b) # after \<and>
      de_message ops b = Ok (MsgResponse r m) \<and> requested before c m \<and>
      challenge_answered env ops full_id elders g0 w0 before a) \<and>
    (\<forall>ls' g' w'. cg_run env ops g1 w1 ls' g' w' \<longrightarrow> poll_response w' (Wait c) = Some (Ok r))"
proof -
  have resolved: "w_responses w1 ! c = Fulfilled r"
    using assms(5) by (auto simp: poll_response_def split: oneshot.splits)
  have "cg_inv env ops full_id elders g0 w0 ls (cg_inner g1) w1"
    by (rule cg_run_inv [OF assms(3,1,2)])
  then have "answered env ops full_id elders g0 w0 ls c r"
    using assms(4) resolved by (auto simp: cg_inv_def)
  moreover have "poll_response w' (Wait c) = Some (Ok r)" if "cg_run env ops g1 w1 ls' g' w'" for ls' g' w'
    using resolved_final [OF that assms(4) resolved] by (simp add: poll_response_def)
  ultimately show ?thesis
    unfolding answered_def by blast
qed

subsection \<open>Panics of the thread\<close>

lemma event_panics_iff:
  assumes "challenge_serialises ops"
  shows "handle_quic_p2p_event env ops ev g w = None \<longleftrightarrow>
    (\<exists>a b nid ch. ev = NewMessage a b \<and> map_of (cg_elders g) a = None \<and>
       de_challenge ops b = Ok (ChallengeRequest (Node nid) ch))"
proof -
  have serialised: "\<exists>bs. ser_challenge ops (ChallengeResponse i s b) = Ok bs" for i s b
    using assms by (simp add: challenge_serialises_def)
  have challenge: "handle_challenge env ops a nid ch g w = None \<longleftrightarrow> map_of (cg_elders g) a = None" for a nid ch
    using serialised [of "safe_key_public_id env (cg_full_id g)" "safe_key_sign env (cg_full_id g) ch" False]
    by (auto simp: handle_challenge_def split: option.split)
  show ?thesis
    by (cases ev)
      (auto simp: handle_quic_p2p_event_def handle_new_message_def have_handled_challenge_def challenge
        split: sum.splits message.splits challenge.splits public_id.splits option.splits)
qed

lemma poisoned_forever:
  "cg_run env ops g w ls g' w' \<Longrightarrow> cg_poisoned g \<Longrightarrow> cg_poisoned g'"
  by (induction rule: cg_run.induct)
    (auto simp: cg_step_def event_loop_round_def group_send_def group_close_def
      split: cg_label.splits if_splits option.splits)

text \<open>
  (C33) The thread that handles the events of a group panics exactly when a message from an address that is not
  among the elders decodes as the challenge of a node; the lookup that decided to treat it as a challenge gives
  the same answer for an unknown address and for an elder whose challenge is still to come. From then on every request and the
  closing of the group panic, whatever happens.
\<close>

theorem unknown_challenge_kills_group:
  assumes "challenge_serialises ops" and "cg_loop_alive g" and "\<not> cg_poisoned g" and "ev \<noteq> Finish"
    and "event_loop_round env ops ev g w = (g1, w1)"
  shows "(cg_poisoned g1 \<longleftrightarrow> (\<exists>a b nid ch. ev = NewMessage a b \<and> map_of (cg_elders (cg_inner g)) a = None \<and>
       de_challenge ops b = Ok (ChallengeRequest (Node nid) ch))) \<and>
    (cg_poisoned g1 \<longrightarrow> (\<forall>ls g2 w2. cg_run env ops g1 w1 ls g2 w2 \<longrightarrow>
       group_send ops m msg g2 w2 = None \<and> group_close g2 w2 = None))"
proof -
  have "cg_poisoned g1 \<longleftrightarrow> handle_quic_p2p_event env ops ev (cg_inner g) w = None"
    using assms(2-5) by (auto simp: event_loop_round_def split: option.splits)
  then show ?thesis
    unfolding event_panics_iff [OF assms(1)]
    using poisoned_forever [of env ops g1 w1] by (auto simp: group_send_def group_close_def)
qed

subsection \<open>Connecting again after a failure\<close>

text \<open>
  (C35) A failed attempt to connect leaves its group behind: the future of the attempt reports a timeout
  (not the failure that the group was told of), and the next attempt of the same client reports success at once although
  no vault is connected; the requests that follow go to nobody.
\<close>

theorem bootstrap_retry_reports_success:
  assumes "map_of (nm_groups m) (safe_key_public_id env full_id) = None" and "quic_build ops (nm_config m) = Ok ()"
    and "net_bootstrap env ops full_id m w = (fut, m1, w1)"
    and "map_of (nm_groups m1) (safe_key_public_id env full_id) = Some g1"
    and "event_loop_round env ops BootstrapFailure g1 w1 = (g2, w2)"
    and "m2 = m1\<lparr>nm_groups := hm_insert (safe_key_public_id env full_id) g2 (nm_groups m1)\<rparr>"
    and "ser_message ops (MsgRequest request mid sig) = Ok b"
  shows "poll_bootstrap w1 fut = None \<and> poll_bootstrap w2 fut = Some (Err RequestTimeout) \<and>
    (\<exists>w3. net_bootstrap env ops full_id m2 w2 = (Ready (Ok ()), m2, w3) \<and>
      (\<exists>fut' m4 w4. net_send ops (safe_key_public_id env full_id) (MsgRequest request mid sig) m2 w3 = Some (fut', m4, w4) \<and>
        poll_response w4 fut' = None \<and> w_quic w4 = w_quic w3))"
  using assms
  by (auto simp: net_bootstrap_def conn_group_new_def Let_def hashmap.get_put event_loop_round_def
      handle_quic_p2p_event_def handle_bootstrap_failure_def fire_connection_hook_def settle_def quic_do_def
      poll_bootstrap_def net_send_def group_send_def inner_send_def drop_sender_def send_to_def peers_def
      poll_response_def nth_append)

subsection \<open>Instances\<close>

definition sample_conn :: conn_ops where
  "sample_conn = \<lparr>ser_message = (\<lambda>_. Ok [1]),
     de_message = (\<lambda>b. if b = [7] then Ok (MsgResponse (RespMutation (Ok ())) [5]) else Err []),
     ser_challenge = (\<lambda>_. Ok [2]),
     de_challenge = (\<lambda>b. if b = [9] then Ok (ChallengeRequest (Node [3]) [4]) else Err []),
     quic_build = (\<lambda>_. Ok ()), clear_port = id, random_token = of_nat, canceled_text = ''canceled''\<rparr>"

definition sample_conn_world :: conn_world where
  "sample_conn_world = \<lparr>w_responses = [], w_connected = [Waiting], w_disconnected = [], w_quic = [],
     w_tokens = 0, w_group_counter = 0\<rparr>"

definition sample_group :: "conn_group \<times> conn_world" where
  "sample_group = (case conn_group_new sample_conn [] (SafeClient (ClientFullId [1])) [] 0 sample_conn_world of
     (Ok g, w) \<Rightarrow> (g, w))"

definition sample_labels :: "cg_label list" where
  "sample_labels = [LEvent (BootstrappedTo (NodeInfo [8] [])), LEvent (NewMessage [8] [9]),
     LSend [5] (MsgRequest ListAuthKeysAndVersion [5] None), LEvent (NewMessage [8] [7])]"

lemmas conn_eval = sample_group_def sample_conn_def sample_conn_world_def sample_labels_def conn_group_new_def
  quic_do_def cg_step_def event_loop_round_def handle_quic_p2p_event_def handle_bootstrapped_to_def
  handle_new_message_def have_handled_challenge_def handle_challenge_def handle_response_def
  fire_connection_hook_def group_send_def inner_send_def send_to_def peers_def settle_def drop_sender_def
  hm_insert_def hm_remove_def elder_new_def Let_def

theorem responses_authentic_witness:
  "\<exists>g w. cg_run sample_env sample_conn (fst sample_group) (snd sample_group) sample_labels g w \<and>
     poll_response w (Wait 0) = Some (Ok (RespMutation (Ok ()))) \<and>
     (\<exists>before a b m after. sample_labels = before @ LEvent (NewMessage a b) # after \<and>
       de_message sample_conn b = Ok (MsgResponse (RespMutation (Ok ())) m) \<and> requested before 0 m \<and>
       challenge_answered sample_env sample_conn (SafeClient (ClientFullId [1])) [] (fst sample_group) (snd sample_group) before a)"
proof -
  obtain g w where run: "cg_exec sample_env sample_conn sample_labels sample_group = Some (g, w)"
    and result: "c < length (w_responses w) \<and> w_responses w ! c = Fulfilled (RespMutation (Ok ()))" if "c = 0" for c
    by (simp add: conn_eval)
  then have steps: "cg_run sample_env sample_conn (fst sample_group) (snd sample_group) sample_labels g w"
    by (simp add: cg_run_exec)
  have new: "conn_group_new sample_conn [] (SafeClient (ClientFullId [1])) [] 0 sample_conn_world =
      (Ok (fst sample_group), snd sample_group)"
    by (simp add: conn_eval)
  have poll: "poll_response w (Wait 0) = Some (Ok (RespMutation (Ok ())))"
    using result by (simp add: poll_response_def)
  show ?thesis
    using responses_authentic [OF new _ steps _ poll] steps poll result
    by (auto simp: sample_conn_world_def)
qed

theorem unknown_challenge_kills_group_witness:
  "challenge_serialises sample_conn \<and>
   (\<exists>g w. event_loop_round sample_env sample_conn (NewMessage [8] [9]) (fst sample_group) (snd sample_group) = (g, w) \<and>
     cg_poisoned g \<and> group_close g w = None)"
proof -
  obtain g w where round:
    "event_loop_round sample_env sample_conn (NewMessage [8] [9]) (fst sample_group) (snd sample_group) = (g, w)"
    by (rule prod.exhaust)
  have laws: "challenge_serialises sample_conn"
    by (simp add: challenge_serialises_def sample_conn_def)
  have ready: "cg_loop_alive (fst sample_group)" "\<not> cg_poisoned (fst sample_group)" "NewMessage [8] [9] \<noteq> Finish"
    by (simp_all add: conn_eval)
  note ended = unknown_challenge_kills_group [OF laws ready round]
  have dead: "cg_poisoned g"
    using ended by (simp add: conn_eval)
  then have "group_close g w = None"
    using ended cg_start by blast
  then show ?thesis
    using laws round dead by blast
qed

theorem bootstrap_retry_reports_success_witness:
  "\<exists>fut m1 w1 g1 g2 w2. net_bootstrap sample_env sample_conn (SafeClient (ClientFullId [1]))
       (net_manager_new sample_conn []) sample_conn_world = (fut, m1, w1) \<and>
     map_of (nm_groups m1) (Client (ClientPublicId [1])) = Some g1 \<and>
     event_loop_round sample_env sample_conn BootstrapFailure g1 w1 = (g2, w2) \<and>
     poll_bootstrap w2 fut = Some (Err RequestTimeout)"
proof -
  obtain fut m1 w1 where boot: "net_bootstrap sample_env sample_conn (SafeClient (ClientFullId [1]))
      (net_manager_new sample_conn []) sample_conn_world = (fut, m1, w1)"
    by (metis prod.exhaust)
  then obtain g1 where g1: "map_of (nm_groups m1) (safe_key_public_id sample_env (SafeClient (ClientFullId [1]))) = Some g1"
    by (auto simp: net_bootstrap_def net_manager_new_def conn_eval)
  obtain g2 w2 where round: "event_loop_round sample_env sample_conn BootstrapFailure g1 w1 = (g2, w2)"
    by (rule prod.exhaust)
  show ?thesis
    using bootstrap_retry_reports_success [OF _ _ boot g1 round refl, of ListAuthKeysAndVersion "[]" None "[1]"] boot round g1
    by (auto simp: net_manager_new_def sample_conn_def safe_key_public_id_def sample_env_def mock_env_def sample_ops_def)
qed

end
