(* ===== verification/Object_Cache.thy ===== *)
theory Object_Cache
  imports Error_Codes Nfs_Content
begin

section \<open>The object cache of an application\<close>

text \<open>
  safe\_app/src/object\_cache.rs and ffi/object\_cache.rs: the objects that the C interface refers to by
  handles. The thirteen stores draw their handles from one generator, a counter of 64 bits that
  wraps around. The operations of a store are generated by the macro \<open>impl_cache\<close>, which is the three functions
  \<open>impl_insert\<close>, \<open>impl_get\<close> and \<open>impl_remove\<close> here. \<open>get\<close> returns a mutable reference; \<open>impl_write\<close> is
  the change of the object through it.

  The locale \<open>handle_store\<close> states what each store is relied on for; it is interpreted on every store.
\<close>

type_synonym object_handle = u64
type_synonym 'v object_store = "object_handle \<rightharpoonup> 'v"

definition NULL_OBJECT_HANDLE :: object_handle where
  "NULL_OBJECT_HANDLE = 0"

text \<open>\<open>CipherOpt\<close> of cipher\_opt.rs; its operations are in \<open>App_Context\<close>.\<close>

datatype cipher_opt = PlainText | Symmetric | Asymmetric (peer_encrypt_key: bytes)

text \<open>\<open>FileContext\<close> of ffi/nfs.rs; readers and the two kinds of encryptors are known by the record \<open>self_encryptor\<close>.\<close>

record file_context =
  fc_reader :: "self_encryptor option"
  fc_writer :: "nfs_writer option"
  fc_original_file :: nfs_file

record object_cache =
  handle_gen :: object_handle
  st_cipher_opt :: "cipher_opt object_store"
  st_encrypt_key :: "bytes object_store"
  st_secret_key :: "bytes object_store"
  st_seq_mdata_entries :: "seq_entries object_store"
  st_seq_mdata_entry_actions :: "seq_entry_actions object_store"
  st_unseq_mdata_entries :: "unseq_entries object_store"
  st_unseq_mdata_entry_actions :: "bytes object_store"
  st_mdata_permissions :: "((public_key, perm_set) btree) object_store"
  st_se_reader :: "self_encryptor object_store"
  st_se_writer :: "self_encryptor object_store"
  st_pub_sign_key :: "public_key object_store"
  st_sec_sign_key :: "client_full_id object_store"
  st_file :: "file_context object_store"

definition object_cache_new :: object_cache where
  "object_cache_new = \<lparr>handle_gen = NULL_OBJECT_HANDLE, st_cipher_opt = Map.empty, st_encrypt_key =
     Map.empty, st_secret_key = Map.empty, st_seq_mdata_entries = Map.empty, st_seq_mdata_entry_actions =
     Map.empty, st_unseq_mdata_entries = Map.empty, st_unseq_mdata_entry_actions = Map.empty,
     st_mdata_permissions = Map.empty, st_se_reader = Map.empty, st_se_writer = Map.empty, st_pub_sign_key =
     Map.empty, st_sec_sign_key = Map.empty, st_file = Map.empty\<rparr>"

text \<open>\<open>reset\<close> empties the stores and starts the generator anew.\<close>

definition object_cache_reset :: "object_cache \<Rightarrow> object_cache" where
  "object_cache_reset c = c\<lparr>handle_gen := NULL_OBJECT_HANDLE, st_cipher_opt := Map.empty,
  st_encrypt_key := Map.empty, st_secret_key := Map.empty, st_seq_mdata_entries := Map.empty,
     st_seq_mdata_entry_actions := Map.empty, st_unseq_mdata_entries := Map.empty,
     st_unseq_mdata_entry_actions := Map.empty, st_mdata_permissions := Map.empty, st_se_reader := Map.empty,
     st_se_writer := Map.empty, st_pub_sign_key := Map.empty, st_sec_sign_key := Map.empty, st_file :=
     Map.empty\<rparr>"

subsection \<open>Generator\<close>

definition gen_handle :: "object_cache \<Rightarrow> object_handle \<times> object_cache" where
  "gen_handle c = (let value = handle_gen c + 1 in (value, c\<lparr>handle_gen := value\<rparr>))"

subsection \<open>The macro\<close>

definition impl_insert ::
  "(('v object_store \<Rightarrow> 'v object_store) \<Rightarrow> object_cache \<Rightarrow> object_cache) \<Rightarrow> 'v \<Rightarrow> object_cache \<Rightarrow> object_handle \<times> object_cache" where
  "impl_insert upd value c = (case gen_handle c of (handle, c1) \<Rightarrow> (handle, upd (\<lambda>s. s(handle \<mapsto> value)) c1))"

definition impl_get ::
  "(object_cache \<Rightarrow> 'v object_store) \<Rightarrow> app_error \<Rightarrow> object_handle \<Rightarrow> object_cache \<Rightarrow> 'v app_result" where
  "impl_get sel err handle c = ok_or err (sel c handle)"

definition impl_remove ::
  "(object_cache \<Rightarrow> 'v object_store) \<Rightarrow> (('v object_store \<Rightarrow> 'v object_store) \<Rightarrow> object_cache \<Rightarrow> object_cache) \<Rightarrow> app_error \<Rightarrow> object_handle
     \<Rightarrow> object_cache \<Rightarrow> 'v app_result \<times> object_cache" where
  "impl_remove sel upd err handle c = (ok_or err (sel c handle), upd (\<lambda>s. s(handle := None)) c)"

definition impl_write ::
  "(('v object_store \<Rightarrow> 'v object_store) \<Rightarrow> object_cache \<Rightarrow> object_cache) \<Rightarrow> object_handle \<Rightarrow> 'v \<Rightarrow> object_cache \<Rightarrow> object_cache" where
  "impl_write upd handle value = upd (\<lambda>s. s(handle \<mapsto> value))"

lemmas impl_cache_defs = impl_insert_def impl_get_def impl_remove_def impl_write_def gen_handle_def

subsection \<open>What a store guarantees\<close>

locale handle_store =
  fixes sel :: "object_cache \<Rightarrow> 'v object_store"
    and upd :: "('v object_store \<Rightarrow> 'v object_store) \<Rightarrow> object_cache \<Rightarrow> object_cache"
    and err :: app_error
  assumes sel_upd: "sel (upd f c) = f (sel c)"
    and sel_gen: "sel (c\<lparr>handle_gen := h\<rparr>) = sel c"
    and gen_upd: "handle_gen (upd f c) = handle_gen c"
    and sel_reset: "sel (object_cache_reset c) = Map.empty"
begin

lemma insert_fresh_handle: "impl_insert upd v c = (h, c') \<Longrightarrow> h = handle_gen c + 1 \<and> handle_gen c' = h"
  by (auto simp: impl_cache_defs Let_def gen_upd)

lemma get_inserted: "impl_insert upd v c = (h, c') \<Longrightarrow> impl_get sel err h c' = Ok v"
  by (auto simp: impl_cache_defs Let_def sel_upd)

lemma get_other_inserted:
  "impl_insert upd v c = (h, c') \<Longrightarrow> h' \<noteq> h \<Longrightarrow> impl_get sel err h' c' = impl_get sel err h' c"
  by (auto simp: impl_cache_defs Let_def sel_upd sel_gen)

lemma get_written: "impl_get sel err h' (impl_write upd h v c) = (if h' = h then Ok v else impl_get sel err h' c)"
  by (simp add: impl_cache_defs sel_upd)

lemma get_removed:
  "impl_remove sel upd err h c = (r, c') \<Longrightarrow>
     r = impl_get sel err h c \<and> impl_get sel err h' c' = (if h' = h then Err err else impl_get sel err h' c)"
  by (auto simp: impl_cache_defs sel_upd)

lemma get_after_reset: "impl_get sel err h (object_cache_reset c) = Err err"
  by (simp add: impl_get_def sel_reset)

end

subsection \<open>The stores\<close>

interpretation oc_cipher_opt: handle_store st_cipher_opt st_cipher_opt_update InvalidCipherOptHandle
  by unfold_locales (simp_all add: object_cache_reset_def)

interpretation oc_encrypt_key: handle_store st_encrypt_key st_encrypt_key_update InvalidEncryptPubKeyHandle
  by unfold_locales (simp_all add: object_cache_reset_def)

interpretation oc_secret_key: handle_store st_secret_key st_secret_key_update InvalidEncryptSecKeyHandle
  by unfold_locales (simp_all add: object_cache_reset_def)

interpretation oc_seq_mdata_entries: handle_store st_seq_mdata_entries st_seq_mdata_entries_update InvalidMDataEntriesHandle
  by unfold_locales (simp_all add: object_cache_reset_def)

interpretation oc_seq_mdata_entry_actions: handle_store st_seq_mdata_entry_actions st_seq_mdata_entry_actions_update InvalidMDataEntryActionsHandle
  by unfold_locales (simp_all add: object_cache_reset_def)

interpretation oc_unseq_mdata_entries: handle_store st_unseq_mdata_entries st_unseq_mdata_entries_update InvalidMDataEntriesHandle
  by unfold_locales (simp_all add: object_cache_reset_def)

interpretation oc_unseq_mdata_entry_actions: handle_store st_unseq_mdata_entry_actions st_unseq_mdata_entry_actions_update InvalidMDataEntryActionsHandle
  by unfold_locales (simp_all add: object_cache_reset_def)

interpretation oc_mdata_permissions: handle_store st_mdata_permissions st_mdata_permissions_update InvalidMDataPermissionsHandle
  by unfold_locales (simp_all add: object_cache_reset_def)

interpretation oc_se_reader: handle_store st_se_reader st_se_reader_update InvalidSelfEncryptorHandle
  by unfold_locales (simp_all add: object_cache_reset_def)

interpretation oc_se_writer: handle_store st_se_writer st_se_writer_update InvalidSelfEncryptorHandle
  by unfold_locales (simp_all add: object_cache_reset_def)

interpretation oc_pub_sign_key: handle_store st_pub_sign_key st_pub_sign_key_update InvalidSignPubKeyHandle
  by unfold_locales (simp_all add: object_cache_reset_def)

interpretation oc_sec_sign_key: handle_store st_sec_sign_key st_sec_sign_key_update InvalidSignSecKeyHandle
  by unfold_locales (simp_all add: object_cache_reset_def)

interpretation oc_file: handle_store st_file st_file_update InvalidFileContextHandle
  by unfold_locales (simp_all add: object_cache_reset_def)

definition get_cipher_opt :: "object_handle \<Rightarrow> object_cache \<Rightarrow> cipher_opt app_result" where
  "get_cipher_opt = impl_get st_cipher_opt InvalidCipherOptHandle"

definition insert_cipher_opt :: "cipher_opt \<Rightarrow> object_cache \<Rightarrow> object_handle \<times> object_cache" where
  "insert_cipher_opt = impl_insert st_cipher_opt_update"

definition remove_cipher_opt :: "object_handle \<Rightarrow> object_cache \<Rightarrow> cipher_opt app_result \<times> object_cache" where
  "remove_cipher_opt = impl_remove st_cipher_opt st_cipher_opt_update InvalidCipherOptHandle"

definition get_encrypt_key :: "object_handle \<Rightarrow> object_cache \<Rightarrow> bytes app_result" where
  "get_encrypt_key = impl_get st_encrypt_key InvalidEncryptPubKeyHandle"

definition insert_encrypt_key :: "bytes \<Rightarrow> object_cache \<Rightarrow> object_handle \<times> object_cache" where
  "insert_encrypt_key = impl_insert st_encrypt_key_update"

definition remove_encrypt_key :: "object_handle \<Rightarrow> object_cache \<Rightarrow> bytes app_result \<times> object_cache" where
  "remove_encrypt_key = impl_remove st_encrypt_key st_encrypt_key_update InvalidEncryptPubKeyHandle"

definition get_secret_key :: "object_handle \<Rightarrow> object_cache \<Rightarrow> bytes app_result" where
  "get_secret_key = impl_get st_secret_key InvalidEncryptSecKeyHandle"

definition insert_secret_key :: "bytes \<Rightarrow> object_cache \<Rightarrow> object_handle \<times> object_cache" where
  "insert_secret_key = impl_insert st_secret_key_update"

definition remove_secret_key :: "object_handle \<Rightarrow> object_cache \<Rightarrow> bytes app_result \<times> object_cache" where
  "remove_secret_key = impl_remove st_secret_key st_secret_key_update InvalidEncryptSecKeyHandle"

definition get_seq_mdata_entries :: "object_handle \<Rightarrow> object_cache \<Rightarrow> seq_entries app_result" where
  "get_seq_mdata_entries = impl_get st_seq_mdata_entries InvalidMDataEntriesHandle"

definition insert_seq_mdata_entries :: "seq_entries \<Rightarrow> object_cache \<Rightarrow> object_handle \<times> object_cache" where
  "insert_seq_mdata_entries = impl_insert st_seq_mdata_entries_update"

definition remove_seq_mdata_entries :: "object_handle \<Rightarrow> object_cache \<Rightarrow> seq_entries app_result \<times> object_cache" where
  "remove_seq_mdata_entries = impl_remove st_seq_mdata_entries st_seq_mdata_entries_update InvalidMDataEntriesHandle"

definition get_seq_mdata_entry_actions :: "object_handle \<Rightarrow> object_cache \<Rightarrow> seq_entry_actions app_result" where
  "get_seq_mdata_entry_actions = impl_get st_seq_mdata_entry_actions InvalidMDataEntryActionsHandle"

definition insert_seq_mdata_entry_actions :: "seq_entry_actions \<Rightarrow> object_cache \<Rightarrow> object_handle \<times> object_cache" where
  "insert_seq_mdata_entry_actions = impl_insert st_seq_mdata_entry_actions_update"

definition remove_seq_mdata_entry_actions :: "object_handle \<Rightarrow> object_cache \<Rightarrow> seq_entry_actions app_result \<times> object_cache" where
  "remove_seq_mdata_entry_actions = impl_remove st_seq_mdata_entry_actions st_seq_mdata_entry_actions_update InvalidMDataEntryActionsHandle"

definition get_unseq_mdata_entries :: "object_handle \<Rightarrow> object_cache \<Rightarrow> unseq_entries app_result" where
  "get_unseq_mdata_entries = impl_get st_unseq_mdata_entries InvalidMDataEntriesHandle"

definition insert_unseq_mdata_entries :: "unseq_entries \<Rightarrow> object_cache \<Rightarrow> object_handle \<times> object_cache" where
  "insert_unseq_mdata_entries = impl_insert st_unseq_mdata_entries_update"

definition remove_unseq_mdata_entries :: "object_handle \<Rightarrow> object_cache \<Rightarrow> unseq_entries app_result \<times> object_cache" where
  "remove_unseq_mdata_entries = impl_remove st_unseq_mdata_entries st_unseq_mdata_entries_update InvalidMDataEntriesHandle"

definition get_unseq_mdata_entry_actions :: "object_handle \<Rightarrow> object_cache \<Rightarrow> bytes app_result" where
  "get_unseq_mdata_entry_actions = impl_get st_unseq_mdata_entry_actions InvalidMDataEntryActionsHandle"

definition insert_unseq_mdata_entry_actions :: "bytes \<Rightarrow> object_cache \<Rightarrow> object_handle \<times> object_cache" where
  "insert_unseq_mdata_entry_actions = impl_insert st_unseq_mdata_entry_actions_update"

definition remove_unseq_mdata_entry_actions :: "object_handle \<Rightarrow> object_cache \<Rightarrow> bytes app_result \<times> object_cache" where
  "remove_unseq_mdata_entry_actions = impl_remove st_unseq_mdata_entry_actions st_unseq_mdata_entry_actions_update InvalidMDataEntryActionsHandle"

definition get_mdata_permissions :: "object_handle \<Rightarrow> object_cache \<Rightarrow> ((public_key, perm_set) btree) app_result" where
  "get_mdata_permissions = impl_get st_mdata_permissions InvalidMDataPermissionsHandle"

definition insert_mdata_permissions :: "((public_key, perm_set) btree) \<Rightarrow> object_cache \<Rightarrow> object_handle \<times> object_cache" where
  "insert_mdata_permissions = impl_insert st_mdata_permissions_update"

definition remove_mdata_permissions :: "object_handle \<Rightarrow> object_cache \<Rightarrow> ((public_key, perm_set) btree) app_result \<times> object_cache" where
  "remove_mdata_permissions = impl_remove st_mdata_permissions st_mdata_permissions_update InvalidMDataPermissionsHandle"

definition get_se_reader :: "object_handle \<Rightarrow> object_cache \<Rightarrow> self_encryptor app_result" where
  "get_se_reader = impl_get st_se_reader InvalidSelfEncryptorHandle"

definition insert_se_reader :: "self_encryptor \<Rightarrow> object_cache \<Rightarrow> object_handle \<times> object_cache" where
  "insert_se_reader = impl_insert st_se_reader_update"

definition remove_se_reader :: "object_handle \<Rightarrow> object_cache \<Rightarrow> self_encryptor app_result \<times> object_cache" where
  "remove_se_reader = impl_remove st_se_reader st_se_reader_update InvalidSelfEncryptorHandle"

definition get_se_writer :: "object_handle \<Rightarrow> object_cache \<Rightarrow> self_encryptor app_result" where
  "get_se_writer = impl_get st_se_writer InvalidSelfEncryptorHandle"

definition insert_se_writer :: "self_encryptor \<Rightarrow> object_cache \<Rightarrow> object_handle \<times> object_cache" where
  "insert_se_writer = impl_insert st_se_writer_update"

definition remove_se_writer :: "object_handle \<Rightarrow> object_cache \<Rightarrow> self_encryptor app_result \<times> object_cache" where
  "remove_se_writer = impl_remove st_se_writer st_se_writer_update InvalidSelfEncryptorHandle"

definition get_pub_sign_key :: "object_handle \<Rightarrow> object_cache \<Rightarrow> public_key app_result" where
  "get_pub_sign_key = impl_get st_pub_sign_key InvalidSignPubKeyHandle"

definition insert_pub_sign_key :: "public_key \<Rightarrow> object_cache \<Rightarrow> object_handle \<times> object_cache" where
  "insert_pub_sign_key = impl_insert st_pub_sign_key_update"

definition remove_pub_sign_key :: "object_handle \<Rightarrow> object_cache \<Rightarrow> public_key app_result \<times> object_cache" where
  "remove_pub_sign_key = impl_remove st_pub_sign_key st_pub_sign_key_update InvalidSignPubKeyHandle"

definition get_sec_sign_key :: "object_handle \<Rightarrow> object_cache \<Rightarrow> client_full_id app_result" where
  "get_sec_sign_key = impl_get st_sec_sign_key InvalidSignSecKeyHandle"

definition insert_sec_sign_key :: "client_full_id \<Rightarrow> object_cache \<Rightarrow> object_handle \<times> object_cache" where
  "insert_sec_sign_key = impl_insert st_sec_sign_key_update"

definition remove_sec_sign_key :: "object_handle \<Rightarrow> object_cache \<Rightarrow> client_full_id app_result \<times> object_cache" where
  "remove_sec_sign_key = impl_remove st_sec_sign_key st_sec_sign_key_update InvalidSignSecKeyHandle"

definition get_file :: "object_handle \<Rightarrow> object_cache \<Rightarrow> file_context app_result" where
  "get_file = impl_get st_file InvalidFileContextHandle"

definition insert_file :: "file_context \<Rightarrow> object_cache \<Rightarrow> object_handle \<times> object_cache" where
  "insert_file = impl_insert st_file_update"

definition remove_file :: "object_handle \<Rightarrow> object_cache \<Rightarrow> file_context app_result \<times> object_cache" where
  "remove_file = impl_remove st_file st_file_update InvalidFileContextHandle"

subsection \<open>All stores together\<close>

text \<open>An object of any store, and the operations on it.\<close>

datatype cached =
    CCipherOpt cipher_opt
  | CEncryptKey bytes
  | CSecretKey bytes
  | CSeqMdataEntries seq_entries
  | CSeqMdataEntryActions seq_entry_actions
  | CUnseqMdataEntries unseq_entries
  | CUnseqMdataEntryActions bytes
  | CMdataPermissions "(public_key, perm_set) btree"
  | CSeReader self_encryptor
  | CSeWriter self_encryptor
  | CPubSignKey public_key
  | CSecSignKey client_full_id
  | CFile file_context

datatype store_kind =
    KCipherOpt | KEncryptKey | KSecretKey | KSeqMdataEntries | KSeqMdataEntryActions
  | KUnseqMdataEntries | KUnseqMdataEntryActions | KMdataPermissions | KSeReader | KSeWriter
  | KPubSignKey | KSecSignKey | KFile

fun cached_kind :: "cached \<Rightarrow> store_kind" where
  "cached_kind (CCipherOpt x) = KCipherOpt"
| "cached_kind (CEncryptKey x) = KEncryptKey"
| "cached_kind (CSecretKey x) = KSecretKey"
| "cached_kind (CSeqMdataEntries x) = KSeqMdataEntries"
| "cached_kind (CSeqMdataEntryActions x) = KSeqMdataEntryActions"
| "cached_kind (CUnseqMdataEntries x) = KUnseqMdataEntries"
| "cached_kind (CUnseqMdataEntryActions x) = KUnseqMdataEntryActions"
| "cached_kind (CMdataPermissions x) = KMdataPermissions"
| "cached_kind (CSeReader x) = KSeReader"
| "cached_kind (CSeWriter x) = KSeWriter"
| "cached_kind (CPubSignKey x) = KPubSignKey"
| "cached_kind (CSecSignKey x) = KSecSignKey"
| "cached_kind (CFile x) = KFile"

fun insert_object :: "cached \<Rightarrow> object_cache \<Rightarrow> object_handle \<times> object_cache" where
  "insert_object (CCipherOpt x) c = insert_cipher_opt x c"
| "insert_object (CEncryptKey x) c = insert_encrypt_key x c"
| "insert_object (CSecretKey x) c = insert_secret_key x c"
| "insert_object (CSeqMdataEntries x) c = insert_seq_mdata_entries x c"
| "insert_object (CSeqMdataEntryActions x) c = insert_seq_mdata_entry_actions x c"
| "insert_object (CUnseqMdataEntries x) c = insert_unseq_mdata_entries x c"
| "insert_object (CUnseqMdataEntryActions x) c = insert_unseq_mdata_entry_actions x c"
| "insert_object (CMdataPermissions x) c = insert_mdata_permissions x c"
| "insert_object (CSeReader x) c = insert_se_reader x c"
| "insert_object (CSeWriter x) c = insert_se_writer x c"
| "insert_object (CPubSignKey x) c = insert_pub_sign_key x c"
| "insert_object (CSecSignKey x) c = insert_sec_sign_key x c"
| "insert_object (CFile x) c = insert_file x c"

fun get_object :: "store_kind \<Rightarrow> object_handle \<Rightarrow> object_cache \<Rightarrow> cached app_result" where
  "get_object KCipherOpt h c = res_map CCipherOpt (get_cipher_opt h c)"
| "get_object KEncryptKey h c = res_map CEncryptKey (get_encrypt_key h c)"
| "get_object KSecretKey h c = res_map CSecretKey (get_secret_key h c)"
| "get_object KSeqMdataEntries h c = res_map CSeqMdataEntries (get_seq_mdata_entries h c)"
| "get_object KSeqMdataEntryActions h c = res_map CSeqMdataEntryActions (get_seq_mdata_entry_actions h c)"
| "get_object KUnseqMdataEntries h c = res_map CUnseqMdataEntries (get_unseq_mdata_entries h c)"
| "get_object KUnseqMdataEntryActions h c = res_map CUnseqMdataEntryActions (get_unseq_mdata_entry_actions h c)"
| "get_object KMdataPermissions h c = res_map CMdataPermissions (get_mdata_permissions h c)"
| "get_object KSeReader h c = res_map CSeReader (get_se_reader h c)"
| "get_object KSeWriter h c = res_map CSeWriter (get_se_writer h c)"
| "get_object KPubSignKey h c = res_map CPubSignKey (get_pub_sign_key h c)"
| "get_object KSecSignKey h c = res_map CSecSignKey (get_sec_sign_key h c)"
| "get_object KFile h c = res_map CFile (get_file h c)"

fun remove_object :: "store_kind \<Rightarrow> object_handle \<Rightarrow> object_cache \<Rightarrow> cached app_result \<times> object_cache" where
  "remove_object KCipherOpt h c = apfst (res_map CCipherOpt) (remove_cipher_opt h c)"
| "remove_object KEncryptKey h c = apfst (res_map CEncryptKey) (remove_encrypt_key h c)"
| "remove_object KSecretKey h c = apfst (res_map CSecretKey) (remove_secret_key h c)"
| "remove_object KSeqMdataEntries h c = apfst (res_map CSeqMdataEntries) (remove_seq_mdata_entries h c)"
| "remove_object KSeqMdataEntryActions h c = apfst (res_map CSeqMdataEntryActions) (remove_seq_mdata_entry_actions h c)"
| "remove_object KUnseqMdataEntries h c = apfst (res_map CUnseqMdataEntries) (remove_unseq_mdata_entries h c)"
| "remove_object KUnseqMdataEntryActions h c = apfst (res_map CUnseqMdataEntryActions) (remove_unseq_mdata_entry_actions h c)"
| "remove_object KMdataPermissions h c = apfst (res_map CMdataPermissions) (remove_mdata_permissions h c)"
| "remove_object KSeReader h c = apfst (res_map CSeReader) (remove_se_reader h c)"
| "remove_object KSeWriter h c = apfst (res_map CSeWriter) (remove_se_writer h c)"
| "remove_object KPubSignKey h c = apfst (res_map CPubSignKey) (remove_pub_sign_key h c)"
| "remove_object KSecSignKey h c = apfst (res_map CSecSignKey) (remove_sec_sign_key h c)"
| "remove_object KFile h c = apfst (res_map CFile) (remove_file h c)"

text \<open>
  A change of an object through the mutable reference that \<open>get\<close> returns; where there is no object of
  that handle there is no reference, and nothing changes.
\<close>

fun write_object :: "object_handle \<Rightarrow> cached \<Rightarrow> object_cache \<Rightarrow> object_cache" where
  "write_object h (CCipherOpt x) c = impl_write st_cipher_opt_update h x c"
| "write_object h (CEncryptKey x) c = impl_write st_encrypt_key_update h x c"
| "write_object h (CSecretKey x) c = impl_write st_secret_key_update h x c"
| "write_object h (CSeqMdataEntries x) c = impl_write st_seq_mdata_entries_update h x c"
| "write_object h (CSeqMdataEntryActions x) c = impl_write st_seq_mdata_entry_actions_update h x c"
| "write_object h (CUnseqMdataEntries x) c = impl_write st_unseq_mdata_entries_update h x c"
| "write_object h (CUnseqMdataEntryActions x) c = impl_write st_unseq_mdata_entry_actions_update h x c"
| "write_object h (CMdataPermissions x) c = impl_write st_mdata_permissions_update h x c"
| "write_object h (CSeReader x) c = impl_write st_se_reader_update h x c"
| "write_object h (CSeWriter x) c = impl_write st_se_writer_update h x c"
| "write_object h (CPubSignKey x) c = impl_write st_pub_sign_key_update h x c"
| "write_object h (CSecSignKey x) c = impl_write st_sec_sign_key_update h x c"
| "write_object h (CFile x) c = impl_write st_file_update h x c"

lemmas store_op_defs =
  get_cipher_opt_def insert_cipher_opt_def remove_cipher_opt_def
  get_encrypt_key_def insert_encrypt_key_def remove_encrypt_key_def
  get_secret_key_def insert_secret_key_def remove_secret_key_def
  get_seq_mdata_entries_def insert_seq_mdata_entries_def remove_seq_mdata_entries_def
  get_seq_mdata_entry_actions_def insert_seq_mdata_entry_actions_def remove_seq_mdata_entry_actions_def
  get_unseq_mdata_entries_def insert_unseq_mdata_entries_def remove_unseq_mdata_entries_def
  get_unseq_mdata_entry_actions_def insert_unseq_mdata_entry_actions_def remove_unseq_mdata_entry_actions_def
  get_mdata_permissions_def insert_mdata_permissions_def remove_mdata_permissions_def
  get_se_reader_def insert_se_reader_def remove_se_reader_def
  get_se_writer_def insert_se_writer_def remove_se_writer_def
  get_pub_sign_key_def insert_pub_sign_key_def remove_pub_sign_key_def
  get_sec_sign_key_def insert_sec_sign_key_def remove_sec_sign_key_def
  get_file_def insert_file_def remove_file_def

lemmas fresh_handles =
  oc_cipher_opt.insert_fresh_handle oc_encrypt_key.insert_fresh_handle oc_secret_key.insert_fresh_handle
  oc_seq_mdata_entries.insert_fresh_handle oc_seq_mdata_entry_actions.insert_fresh_handle oc_unseq_mdata_entries.insert_fresh_handle
  oc_unseq_mdata_entry_actions.insert_fresh_handle oc_mdata_permissions.insert_fresh_handle oc_se_reader.insert_fresh_handle
  oc_se_writer.insert_fresh_handle oc_pub_sign_key.insert_fresh_handle oc_sec_sign_key.insert_fresh_handle
  oc_file.insert_fresh_handle

lemmas got_inserted =
  oc_cipher_opt.get_inserted oc_encrypt_key.get_inserted oc_secret_key.get_inserted
  oc_seq_mdata_entries.get_inserted oc_seq_mdata_entry_actions.get_inserted oc_unseq_mdata_entries.get_inserted
  oc_unseq_mdata_entry_actions.get_inserted oc_mdata_permissions.get_inserted oc_se_reader.get_inserted
  oc_se_writer.get_inserted oc_pub_sign_key.get_inserted oc_sec_sign_key.get_inserted
  oc_file.get_inserted

lemmas got_removed =
  oc_cipher_opt.get_removed oc_encrypt_key.get_removed oc_secret_key.get_removed
  oc_seq_mdata_entries.get_removed oc_seq_mdata_entry_actions.get_removed oc_unseq_mdata_entries.get_removed
  oc_unseq_mdata_entry_actions.get_removed oc_mdata_permissions.get_removed oc_se_reader.get_removed
  oc_se_writer.get_removed oc_pub_sign_key.get_removed oc_sec_sign_key.get_removed
  oc_file.get_removed

lemmas got_written =
  oc_cipher_opt.get_written oc_encrypt_key.get_written oc_secret_key.get_written
  oc_seq_mdata_entries.get_written oc_seq_mdata_entry_actions.get_written oc_unseq_mdata_entries.get_written
  oc_unseq_mdata_entry_actions.get_written oc_mdata_permissions.get_written oc_se_reader.get_written
  oc_se_writer.get_written oc_pub_sign_key.get_written oc_sec_sign_key.get_written
  oc_file.get_written

lemma inserted_object:
  assumes "insert_object x c = (h, c')"
  shows "h = handle_gen c + 1" and "handle_gen c' = h" and "get_object (cached_kind x) h c' = Ok x"
    and "(k, h') \<noteq> (cached_kind x, h) \<Longrightarrow> get_object k h' c' = get_object k h' c"
proof -
  have "h = handle_gen c + 1 \<and> handle_gen c' = h"
    using assms by (cases x) (simp_all add: store_op_defs fresh_handles)
  then show "h = handle_gen c + 1" and "handle_gen c' = h"
    by auto
  show "get_object (cached_kind x) h c' = Ok x"
    using assms by (cases x) (simp_all add: store_op_defs got_inserted)
  show "get_object k h' c' = get_object k h' c" if "(k, h') \<noteq> (cached_kind x, h)"
    using assms that by (cases x; cases k) (auto simp: store_op_defs impl_cache_defs Let_def)
qed

lemma removed_object:
  assumes "remove_object k h c = (r, c')"
  shows "r = get_object k h c" and "handle_gen c' = handle_gen c"
    and "(k', h') \<noteq> (k, h) \<Longrightarrow> get_object k' h' c' = get_object k' h' c"
proof -
  show "r = get_object k h c"
    using assms by (cases k) (auto simp: store_op_defs prod_eq_iff got_removed [OF surjective_pairing])
  show "handle_gen c' = handle_gen c"
    using assms by (cases k) (auto simp: store_op_defs impl_cache_defs)
  show "get_object k' h' c' = get_object k' h' c" if "(k', h') \<noteq> (k, h)"
    using assms that by (cases k; cases k') (auto simp: store_op_defs impl_cache_defs)
qed

lemma written_object:
  shows "get_object (cached_kind x) h (write_object h x c) = Ok x"
    and "handle_gen (write_object h x c) = handle_gen c"
    and "(k, h') \<noteq> (cached_kind x, h) \<Longrightarrow> get_object k h' (write_object h x c) = get_object k h' c"
proof -
  show "get_object (cached_kind x) h (write_object h x c) = Ok x"
    by (cases x) (simp_all add: store_op_defs got_written)
  show "handle_gen (write_object h x c) = handle_gen c"
    by (cases x) (simp_all add: impl_write_def)
  show "get_object k h' (write_object h x c) = get_object k h' c" if "(k, h') \<noteq> (cached_kind x, h)"
    using that by (cases x; cases k) (auto simp: store_op_defs impl_cache_defs)
qed

subsection \<open>Handles stay valid\<close>

datatype cache_op =
    OpInsert cached
  | OpWrite object_handle cached
  | OpRemove store_kind object_handle
  | OpReset

fun cache_step :: "cache_op \<Rightarrow> object_cache \<Rightarrow> object_cache" where
  "cache_step (OpInsert x) c = snd (insert_object x c)"
| "cache_step (OpWrite h x) c =
     (case get_object (cached_kind x) h c of Ok _ \<Rightarrow> write_object h x c | Err _ \<Rightarrow> c)"
| "cache_step (OpRemove k h) c = snd (remove_object k h c)"
| "cache_step OpReset c = object_cache_reset c"

fun insertions :: "cache_op list \<Rightarrow> nat" where
  "insertions [] = 0"
| "insertions (OpInsert x # ops) = Suc (insertions ops)"
| "insertions (_ # ops) = insertions ops"

text \<open>What an operation leaves in the place of the object \<open>x\<close> of handle \<open>h\<close>.\<close>

fun rewritten :: "object_handle \<Rightarrow> cache_op \<Rightarrow> cached \<Rightarrow> cached" where
  "rewritten h (OpWrite h' y) x = (if h' = h \<and> cached_kind y = cached_kind x then y else x)"
| "rewritten h _ x = x"

lemma rewritten_kind [simp]: "cached_kind (rewritten h op x) = cached_kind x"
  by (cases op) simp_all

lemma small_word_nonzero: "n < 2 ^ 64 \<Longrightarrow> 0 < n \<Longrightarrow> (of_nat n :: u64) \<noteq> 0"
  by (simp add: word_of_nat_eq_0_iff nat_dvd_not_less)

lemma handle_gen_run:
  "OpReset \<notin> set ops \<Longrightarrow> handle_gen (fold cache_step ops c) = handle_gen c + of_nat (insertions ops)"
proof (induction ops arbitrary: c)
  case (Cons op ops)
  have ins: "handle_gen (snd (insert_object x c)) = handle_gen c + 1" for x
    using inserted_object(1,2) [of x c] by (simp add: prod_eq_iff)
  have rem: "handle_gen (snd (remove_object k h c)) = handle_gen c" for k h
    using removed_object(2) [of k h c] by (simp add: prod_eq_iff)
  show ?case
    using Cons by (cases op) (auto simp: ins rem written_object(2) add.assoc split: sum.splits)
qed simp

text \<open>A handle that lies at most \<open>2 ^ 64 - 1 - n\<close> behind the generator survives \<open>n\<close> insertions.\<close>

lemma get_object_kind: "get_object k h c = Ok x \<Longrightarrow> cached_kind x = k"
  by (cases k) (auto simp: res_map_eq_Ok)

lemma get_object_step:
  assumes "op \<noteq> OpReset" and "op \<noteq> OpRemove k h" and "\<And>y. op = OpInsert y \<Longrightarrow> h \<noteq> handle_gen c + 1"
  shows "get_object k h (cache_step op c) = res_map (rewritten h op) (get_object k h c)"
proof -
  have same: "res_map (rewritten h op) (get_object k h c) = get_object k h c" if "\<forall>y. op = OpWrite h y \<longrightarrow> cached_kind y \<noteq> k"
    using that get_object_kind [of k h c] by (cases "get_object k h c"; cases op) auto
  show ?thesis
  proof (cases op)
    case (OpInsert y)
    then show ?thesis
      using assms(3) same inserted_object(1) [of y c] inserted_object(4) [of y c "fst (insert_object y c)" _ k h]
      by (fastforce simp: prod_eq_iff)
  next
    case (OpWrite h' y)
    show ?thesis
    proof (cases "(k, h) = (cached_kind y, h')")
      case True
      then show ?thesis
        using OpWrite written_object(1) [of y h' c] get_object_kind [of k h c] by (auto split: sum.split)
    next
      case False
      then show ?thesis
        using OpWrite same written_object(3) [of k h y h' c] by (auto split: sum.split)
    qed
  next
    case (OpRemove k' h')
    then show ?thesis
      using assms(2) same removed_object(3) [of k' h' c "fst (remove_object k' h' c)" "snd (remove_object k' h' c)" k h]
      by auto
  qed (use assms in simp)
qed

lemma res_map_comp: "res_map g (res_map f r) = res_map (\<lambda>x. g (f x)) r"
  by (cases r) simp_all

lemma get_object_run:
  assumes "OpReset \<notin> set ops" and "OpRemove k h \<notin> set ops"
    and "handle_gen c = h + of_nat d" and "d + insertions ops < 2 ^ 64"
  shows "get_object k h (fold cache_step ops c) = res_map (fold (rewritten h) ops) (get_object k h c)"
  using assms
proof (induction ops arbitrary: c d)
  case Nil
  then show ?case by (cases "get_object k h c") simp_all
next
  case (Cons op ops)
  define e where "e = insertions [op]"
  have gen: "handle_gen (cache_step op c) = h + of_nat (d + e)"
    using handle_gen_run [of "[op]" c] Cons.prems(1,3) by (auto simp: e_def algebra_simps)
  have len: "d + e + insertions ops < 2 ^ 64"
    using Cons.prems(4) by (cases op) (simp_all add: e_def)
  have "h \<noteq> handle_gen c + 1" if "op = OpInsert y" for y
  proof -
    have "(of_nat (Suc d) :: u64) \<noteq> 0"
      using len that by (intro small_word_nonzero) (simp_all add: e_def)
    then show ?thesis
      using Cons.prems(3) by (simp add: add.commute)
  qed
  then have "get_object k h (cache_step op c) = res_map (rewritten h op) (get_object k h c)"
    using Cons.prems by (intro get_object_step) auto
  then show ?case
    using Cons.IH [OF _ _ gen len] Cons.prems(1,2) by (simp add: res_map_comp)
qed

text \<open>
  (C17) Handles of the C interface are reliable: an object inserted into any of the thirteen stores of a
  new cache, after and before any other insertions, writes and removals, is what its handle gives, as it was inserted or
  as it was last written through this handle in this store, until the handle is removed from that store or the cache is
  reset, and the handle is not the null handle, as long as the cache sees fewer than \<open>2 ^ 64\<close> insertions (the
  generator wraps around then).
\<close>

theorem handles_stay_valid:
  assumes "OpReset \<notin> set before" and "OpReset \<notin> set after" and "OpRemove (cached_kind x) h \<notin> set after"
    and "insertions before + 1 + insertions after < 2 ^ 64"
    and "insert_object x (fold cache_step before object_cache_new) = (h, c)"
  shows "h \<noteq> NULL_OBJECT_HANDLE \<and>
    get_object (cached_kind x) h (fold cache_step after c) = Ok (fold (rewritten h) after x)"
proof -
  have "h = of_nat (insertions before + 1)"
    using inserted_object(1) [OF assms(5)] handle_gen_run [OF assms(1)]
    by (simp add: object_cache_new_def NULL_OBJECT_HANDLE_def)
  moreover have "(of_nat (insertions before + 1) :: u64) \<noteq> 0"
    using assms(4) by (intro small_word_nonzero) simp_all
  moreover have "get_object (cached_kind x) h (fold cache_step after c) = Ok (fold (rewritten h) after x)"
    using assms(2-4) inserted_object(2,3) [OF assms(5)] get_object_run [of after "cached_kind x" h c 0] by simp
  ultimately show ?thesis
    by (simp add: NULL_OBJECT_HANDLE_def)
qed

theorem handles_stay_valid_witness:
  "\<exists>h c. insert_object (CPubSignKey (PublicKey [1])) (fold cache_step [OpInsert (CCipherOpt Symmetric)] object_cache_new) = (h, c) \<and>
     h = 2 \<and> get_object KPubSignKey h (fold cache_step [OpRemove KCipherOpt 1, OpWrite 2 (CPubSignKey (PublicKey [3])),
         OpWrite 2 (CEncryptKey []), OpInsert (CEncryptKey [])] c) = Ok (CPubSignKey (PublicKey [3]))"
proof -
  obtain h c where ins: "insert_object (CPubSignKey (PublicKey [1]))
      (fold cache_step [OpInsert (CCipherOpt Symmetric)] object_cache_new) = (h, c)"
    by (rule prod.exhaust)
  have "h = 2"
    using inserted_object(1) [OF ins] handle_gen_run [of "[OpInsert (CCipherOpt Symmetric)]" object_cache_new]
    by (simp add: object_cache_new_def NULL_OBJECT_HANDLE_def)
  then show ?thesis
    using handles_stay_valid [OF _ _ _ _ ins, of "[OpRemove KCipherOpt 1, OpWrite 2 (CPubSignKey (PublicKey [3])),
        OpWrite 2 (CEncryptKey []), OpInsert (CEncryptKey [])]"] ins
    by auto
qed

end
