(* ===== verification/App_Context.thy ===== *)
theory App_Context
  imports Object_Cache Ipc_Resp
begin

section \<open>Applications\<close>

text \<open>
  The client of an application (safe\_app/src/client.rs), its context with the access information
  (lib.rs), cipher options (cipher\_opt.rs) and user permissions (permissions.rs). An application is
  registered, with the keys the authenticator granted, or unregistered, with keys of its own. The threads and
  channels around client and context are not modelled: an operation is a program on both.

  Random identities, the serialisation of the wire format and of access information, and
  public-key encryption are the fields of \<open>app_ops\<close>. The contacts of the bootstrap configuration only reach
  the connection manager.
\<close>

datatype wire_format = WirePlain bytes | WireSymmetric bytes bytes | WireAsymmetric bytes

record app_ops =
  rnd_client_full_id :: "nat \<Rightarrow> client_full_id"
  ser_wire :: "wire_format \<Rightarrow> bytes + bytes"
  de_wire :: "bytes \<Rightarrow> bytes + wire_format"
  asym_encrypt :: "bytes \<Rightarrow> bytes \<Rightarrow> nat \<Rightarrow> bytes" \<comment> \<open>key, plain text, randomness\<close>
  asym_decrypt :: "bytes \<Rightarrow> bytes \<Rightarrow> bytes option"
  de_access_info :: "bytes \<Rightarrow> bytes + access_container_entry"

text \<open>The documented behaviour of public-key encryption and of serialisation.\<close>

definition app_laws :: "app_ops \<Rightarrow> bool" where
  "app_laws ap \<longleftrightarrow> codec_pair (ser_wire ap) (de_wire ap) \<and> (\<forall>w. ser_wire ap w \<noteq> Ok [])"

definition key_pair :: "app_ops \<Rightarrow> bytes \<Rightarrow> bytes \<Rightarrow> bool" where
  "key_pair ap pk sk \<longleftrightarrow> (\<forall>p r. asym_decrypt ap sk (asym_encrypt ap pk p r) = Some p)"

subsection \<open>AppClient\<close>

record 'n app_client =
  ac_client :: "'n client"
  ac_keys :: app_keys
  ac_config :: "bootstrap_config option"

type_synonym ('n, 'a) app_gateway = "('n world, app_error, 'a) prog"

definition app_new_manager :: "'n client_env \<Rightarrow> ('n, unit) app_gateway" where
  "app_new_manager env w = (case tr_new env (w_net w) of
     Err e \<Rightarrow> Some (Err (app_error_from_core e), w)
   | Ok n \<Rightarrow> Some (Ok (), w\<lparr>w_net := n\<rparr>))"

definition app_bootstrap :: "'n client_env \<Rightarrow> app_keys \<Rightarrow> ('n, unit) app_gateway" where
  "app_bootstrap env keys = map_err app_error_from_core (on_net (tr_bootstrap env (app_safe_key keys)))"

definition new_app_client ::
  "app_keys \<Rightarrow> public_key \<Rightarrow> bootstrap_config option \<Rightarrow> ('n, 'n app_client) app_gateway" where
  "new_app_client keys owner config w = Some (Ok
     \<lparr>ac_client = \<lparr>w_net = w_net w, w_draws = w_draws w, cl_full_id = app_safe_key keys, cl_owner_key = owner,
        cl_cache = [], cl_timeout = 180, cl_events = [], cl_rx_alive = True\<rparr>,
      ac_keys = keys, ac_config = config\<rparr>, w)"

definition app_client_unregistered ::
  "'n client_env \<Rightarrow> crypto_ops \<Rightarrow> ipc_ops \<Rightarrow> app_ops \<Rightarrow> bootstrap_config option \<Rightarrow> ('n, 'n app_client) app_gateway" where
  "app_client_unregistered env co io ap config =
     and_then (map_err app_error_from_core (draw (rnd_client_full_id ap))) (\<lambda>client_id.
     and_then (map_err app_error_from_core (app_keys_new co io (full_client_id env client_id))) (\<lambda>keys.
     and_then (app_new_manager env) (\<lambda>_.
     and_then (app_bootstrap env keys) (\<lambda>_.
       new_app_client keys (app_keys_public_key env keys) config))))"

text \<open>With the keys of a granted authorisation the result of the bootstrap is not looked at.\<close>

definition app_client_from_keys_impl ::
  "'n client_env \<Rightarrow> app_keys \<Rightarrow> public_key \<Rightarrow> bootstrap_config \<Rightarrow> ('n \<Rightarrow> 'n) \<Rightarrow> ('n, 'n app_client) app_gateway" where
  "app_client_from_keys_impl env keys owner config wrap =
     and_then (app_new_manager env) (\<lambda>_.
     and_then (or_else (app_bootstrap env keys) (\<lambda>_. lift_res (Ok ()))) (\<lambda>_.
     and_then (modify (\<lambda>w. w\<lparr>w_net := wrap (w_net w)\<rparr>)) (\<lambda>_.
       new_app_client keys owner (Some config))))"

definition app_client_from_keys ::
  "'n client_env \<Rightarrow> app_keys \<Rightarrow> public_key \<Rightarrow> bootstrap_config \<Rightarrow> ('n, 'n app_client) app_gateway" where
  "app_client_from_keys env keys owner config = app_client_from_keys_impl env keys owner config (\<lambda>cm. cm)"

subsection \<open>AppContext\<close>

record registered_context =
  rg_object_cache :: object_cache
  rg_app_id :: bytes
  rg_sym_enc_key :: sym_key
  rg_access_container_info :: access_cont_info
  rg_access_info :: access_container_entry

datatype app_context = UnregisteredContext object_cache | RegisteredContext registered_context

definition app_context_unregistered :: app_context where
  "app_context_unregistered = UnregisteredContext object_cache_new"

definition app_context_registered :: "bytes \<Rightarrow> sym_key \<Rightarrow> access_cont_info \<Rightarrow> app_context" where
  "app_context_registered app_id sym_enc_key access_container_info = RegisteredContext
     \<lparr>rg_object_cache = object_cache_new, rg_app_id = app_id, rg_sym_enc_key = sym_enc_key,
      rg_access_container_info = access_container_info, rg_access_info = []\<rparr>"

definition context_object_cache :: "app_context \<Rightarrow> object_cache" where
  "context_object_cache ctx = (case ctx of
     UnregisteredContext c \<Rightarrow> c
   | RegisteredContext r \<Rightarrow> rg_object_cache r)"

definition set_object_cache :: "object_cache \<Rightarrow> app_context \<Rightarrow> app_context" where
  "set_object_cache c ctx = (case ctx of
     UnregisteredContext _ \<Rightarrow> UnregisteredContext c
   | RegisteredContext r \<Rightarrow> RegisteredContext (r\<lparr>rg_object_cache := c\<rparr>))"

definition as_registered :: "app_context \<Rightarrow> registered_context app_result" where
  "as_registered ctx = (case ctx of
     RegisteredContext a \<Rightarrow> Ok a
   | UnregisteredContext _ \<Rightarrow> Err AppOperationForbidden)"

definition context_sym_enc_key :: "app_context \<Rightarrow> sym_key app_result" where
  "context_sym_enc_key ctx = res_map rg_sym_enc_key (as_registered ctx)"

record 'n app_session =
  as_client :: "'n app_client"
  as_context :: app_context

type_synonym ('n, 'a) apm = "('n app_session, app_error, 'a) prog"

text \<open>A method of the trait \<open>Client\<close>, with the conversion of its error.\<close>

definition app_call :: "('n, 'a) cm \<Rightarrow> ('n, 'a) apm" where
  "app_call m s = (case m (ac_client (as_client s)) of
     None \<Rightarrow> None
   | Some (r, c) \<Rightarrow> Some (res_map_err app_error_from_core r, s\<lparr>as_client := (as_client s)\<lparr>ac_client := c\<rparr>\<rparr>))"

text \<open>\<open>App::unregistered\<close> and \<open>App::registered\<close>: what the thread of the application sets up.\<close>

definition app_unregistered ::
  "'n client_env \<Rightarrow> crypto_ops \<Rightarrow> ipc_ops \<Rightarrow> app_ops \<Rightarrow> bootstrap_config option \<Rightarrow> ('n, 'n app_session) app_gateway" where
  "app_unregistered env co io ap config =
     map_prog (\<lambda>client. \<lparr>as_client = client, as_context = app_context_unregistered\<rparr>)
       (app_client_unregistered env co io ap config)"

definition app_registered ::
  "'n client_env \<Rightarrow> bytes \<Rightarrow> auth_granted \<Rightarrow> ('n, 'n app_session) app_gateway" where
  "app_registered env app_id granted =
     (let keys = ag_app_keys granted;
        owner_key = client_public_key (ce_nd env) (app_owner (ce_nd env) (full_app_id env (ak_app_full_id keys)))
      in map_prog (\<lambda>client. \<lparr>as_client = client,
             as_context = app_context_registered app_id (ak_enc_key keys) (ag_access_container_info granted)\<rparr>)
           (app_client_from_keys env keys owner_key (ag_bootstrap_config granted)))"

subsection \<open>Access information\<close>

definition app_refresh_access_info :: "'n client_env \<Rightarrow> crypto_ops \<Rightarrow> app_ops \<Rightarrow> registered_context \<Rightarrow> ('n, unit) apm" where
  "app_refresh_access_info env co ap reg =
     (let info = rg_access_container_info reg in
      and_then (app_call (access_container_enc_key co (rg_app_id reg) (rg_sym_enc_key reg) (ac_nonce info))) (\<lambda>entry_key.
      and_then (app_call (client_get_seq_mdata_value env (ac_id info) (ac_tag info) entry_key)) (\<lambda>value.
      and_then (lift_res (res_map_err app_error_from_core
          (symmetric_decrypt co (sv_data value) (rg_sym_enc_key reg)))) (\<lambda>encoded.
      and_then (lift_res (res_map_err (\<lambda>_. AppEncodeDecodeError) (de_access_info ap encoded))) (\<lambda>decoded.
        modify (\<lambda>s. s\<lparr>as_context := (case as_context s of
            RegisteredContext r \<Rightarrow> RegisteredContext (r\<lparr>rg_access_info := decoded\<rparr>)
          | ctx \<Rightarrow> ctx)\<rparr>))))))"

definition refresh_access_info :: "'n client_env \<Rightarrow> crypto_ops \<Rightarrow> app_ops \<Rightarrow> ('n, unit) apm" where
  "refresh_access_info env co ap s =
     and_then (lift_res (as_registered (as_context s))) (app_refresh_access_info env co ap) s"

definition fetch_access_info :: "'n client_env \<Rightarrow> crypto_ops \<Rightarrow> app_ops \<Rightarrow> registered_context \<Rightarrow> ('n, unit) apm" where
  "fetch_access_info env co ap reg =
     (if rg_access_info reg = [] then app_refresh_access_info env co ap reg else lift_res (Ok ()))"

definition get_access_info :: "'n client_env \<Rightarrow> crypto_ops \<Rightarrow> app_ops \<Rightarrow> ('n, access_container_entry) apm" where
  "get_access_info env co ap s =
     and_then (lift_res (as_registered (as_context s))) (\<lambda>reg.
     and_then (fetch_access_info env co ap reg) (\<lambda>_.
       gets (\<lambda>s. res_map rg_access_info (as_registered (as_context s))))) s"

subsection \<open>Cipher options\<close>

text \<open>\<open>CipherOpt::encrypt\<close>: the nonce is drawn before the key is looked up.\<close>

definition app_draw :: "(nat \<Rightarrow> 'a) \<Rightarrow> ('n, 'a) apm" where
  "app_draw f = app_call (draw f)"

definition cipher_opt_encrypt :: "crypto_ops \<Rightarrow> app_ops \<Rightarrow> cipher_opt \<Rightarrow> bytes \<Rightarrow> ('n, bytes) apm" where
  "cipher_opt_encrypt co ap opt plain_text =
     (let wire = (\<lambda>w. lift_res (res_map_err (\<lambda>_. AppEncodeDecodeError) (ser_wire ap w))) in
      case opt of
        PlainText \<Rightarrow> wire (WirePlain plain_text)
      | Symmetric \<Rightarrow>
          and_then (app_draw (rnd_nonce co)) (\<lambda>nonce s.
            and_then (lift_res (context_sym_enc_key (as_context s))) (\<lambda>key.
              wire (WireSymmetric nonce (aead_seal co key nonce plain_text))) s)
      | Asymmetric peer_key \<Rightarrow>
          and_then (app_draw (asym_encrypt ap peer_key plain_text)) (\<lambda>cipher_text. wire (WireAsymmetric cipher_text)))"

definition cipher_opt_decrypt :: "crypto_ops \<Rightarrow> app_ops \<Rightarrow> bytes \<Rightarrow> 'n app_session \<Rightarrow> bytes app_result" where
  "cipher_opt_decrypt co ap cipher_text s =
     (if cipher_text = [] then Ok []
      else res_and_then (res_map_err (\<lambda>_. AppEncodeDecodeError) (de_wire ap cipher_text)) (\<lambda>wire.
        case wire of
          WirePlain plain_text \<Rightarrow> Ok plain_text
        | WireSymmetric nonce ct \<Rightarrow>
            res_and_then (context_sym_enc_key (as_context s)) (\<lambda>key.
              ok_or (app_error_from_core SymmetricDecipherFailure) (aead_open co key nonce ct))
        | WireAsymmetric ct \<Rightarrow>
            ok_or (app_error_from_core AsymmetricDecipherFailure)
              (asym_decrypt ap (ak_enc_sk (ac_keys (as_client s))) ct)))"

subsection \<open>User permissions\<close>

record user_permission_set =
  up_user_h :: object_handle
  up_perm_set :: perm_set

record ffi_user_permission_set =
  fup_user_h :: object_handle
  fup_perm_set :: ffi_permission_set

definition user_permission_set_into_repr_c :: "perm_ops \<Rightarrow> user_permission_set \<Rightarrow> ffi_user_permission_set" where
  "user_permission_set_into_repr_c po p =
     \<lparr>fup_user_h = up_user_h p, fup_perm_set = permission_set_into_repr_c po (up_perm_set p)\<rparr>"

definition user_permission_set_clone_from_repr_c ::
  "perm_ops \<Rightarrow> ffi_user_permission_set \<Rightarrow> user_permission_set ipc_result" where
  "user_permission_set_clone_from_repr_c po c =
     res_map (\<lambda>perms. \<lparr>up_user_h = fup_user_h c, up_perm_set = perms\<rparr>)
       (permission_set_clone_from_repr_c po (fup_perm_set c))"

end
