(* ===== verification/App_Start.thy ===== *)
theory App_Start
  imports App_Context Event_Loop
begin

section \<open>Starting applications\<close>

text \<open>
  safe\_app/src/lib.rs and client.rs: the handles of applications on the event loops of their sessions, the variants with a hook for the connection
  manager, and the methods that the trait \<open>Client\<close> asks of the client of an application.
\<close>

definition app_start_unregistered ::
  "string \<Rightarrow> (bytes + unit) \<Rightarrow> (bytes + unit) \<Rightarrow> 'n client_env \<Rightarrow> crypto_ops \<Rightarrow> ipc_ops \<Rightarrow> app_ops \<Rightarrow> bootstrap_config option
     \<Rightarrow> ('n, 'n app_session event_loop) app_gateway" where
  "app_start_unregistered recv_desc spawned runtime env co io ap config =
     app_new recv_desc spawned runtime (app_unregistered env co io ap config)"

definition app_start_registered ::
  "string \<Rightarrow> (bytes + unit) \<Rightarrow> (bytes + unit) \<Rightarrow> 'n client_env \<Rightarrow> bytes \<Rightarrow> auth_granted \<Rightarrow> ('n, 'n app_session event_loop) app_gateway" where
  "app_start_registered recv_desc spawned runtime env app_id granted =
     app_new recv_desc spawned runtime (app_registered env app_id granted)"

definition app_client_from_keys_with_hook ::
  "'n client_env \<Rightarrow> app_keys \<Rightarrow> public_key \<Rightarrow> bootstrap_config \<Rightarrow> ('n \<Rightarrow> 'n) \<Rightarrow> ('n, 'n app_client) app_gateway" where
  "app_client_from_keys_with_hook env keys owner config wrap = app_client_from_keys_impl env keys owner config wrap"

definition app_registered_with_hook ::
  "string \<Rightarrow> (bytes + unit) \<Rightarrow> (bytes + unit) \<Rightarrow> 'n client_env \<Rightarrow> bytes \<Rightarrow> auth_granted \<Rightarrow> ('n \<Rightarrow> 'n) \<Rightarrow> ('n, 'n app_session event_loop) app_gateway" where
  "app_registered_with_hook recv_desc spawned runtime env app_id granted wrap =
     (let keys = ag_app_keys granted;
        owner_key = client_public_key (ce_nd env) (app_owner (ce_nd env) (full_app_id env (ak_app_full_id keys)))
      in app_new recv_desc spawned runtime
           (map_prog (\<lambda>client. \<lparr>as_client = client,
               as_context = app_context_registered app_id (ak_enc_key keys) (ag_access_container_info granted)\<rparr>)
             (app_client_from_keys_with_hook env keys owner_key (ag_bootstrap_config granted) wrap)))"

definition app_client_config :: "'n app_client \<Rightarrow> bootstrap_config option" where
  "app_client_config c = ac_config c"

definition app_client_public_encryption_key :: "'n app_client \<Rightarrow> bytes" where
  "app_client_public_encryption_key c = ak_enc_pk (ac_keys c)"

definition app_client_secret_encryption_key :: "'n app_client \<Rightarrow> bytes" where
  "app_client_secret_encryption_key c = ak_enc_sk (ac_keys c)"

definition app_client_secret_symmetric_key :: "'n app_client \<Rightarrow> sym_key" where
  "app_client_secret_symmetric_key c = ak_enc_key (ac_keys c)"

text \<open>A hook that changes nothing changes nothing: the two ways to start a registered application agree.\<close>

lemma app_registered_with_identity_hook:
  "app_registered_with_hook recv_desc spawned runtime env app_id granted (\<lambda>cm. cm) =
     app_start_registered recv_desc spawned runtime env app_id granted"
  by (simp add: app_registered_with_hook_def app_start_registered_def app_registered_def app_client_from_keys_with_hook_def
      app_client_from_keys_def Let_def)

end
