(* ===== verification/App_Ffi_MData.thy ===== *)
theory App_Ffi_MData
  imports App_Context
begin

section \<open>Mutable data in the C interface of applications\<close>

text \<open>
  safe\_app/src/ffi/mutable\_data: entries, entry actions and permissions are built in the object cache
  under handles, and sent by the operations on mutable data. A call takes the pointers of its C signature as the
  values behind them (a pointer with a length is a list); its result is what the callback gets,
  and an error becomes the code of \<open>Error_Codes\<close>. The closures run one after the other on the thread of the
  application, so a call is a program on its client and context; a panic there ends the thread.
\<close>

record ffi_mdata_ops =
  serialized_size_mdata :: "bytes \<Rightarrow> bytes + u64"
  ser_user_metadata :: "user_metadata \<Rightarrow> bytes + bytes"

subsection \<open>Helpers\<close>

text \<open>A closure of \<open>send_sync\<close> that only uses the object cache.\<close>

definition on_cache :: "(object_cache \<Rightarrow> 'a app_result \<times> object_cache) \<Rightarrow> ('n, 'a) apm" where
  "on_cache f s = (case f (context_object_cache (as_context s)) of
     (r, c) \<Rightarrow> Some (r, s\<lparr>as_context := set_object_cache c (as_context s)\<rparr>))"

definition read_cache :: "(object_cache \<Rightarrow> 'a app_result) \<Rightarrow> ('n, 'a) apm" where
  "read_cache f = gets (\<lambda>s. f (context_object_cache (as_context s)))"

definition insert_cached :: "(object_cache \<Rightarrow> object_handle \<times> object_cache) \<Rightarrow> ('n, object_handle) apm" where
  "insert_cached f = on_cache (\<lambda>c. case f c of (h, c1) \<Rightarrow> (Ok h, c1))"

text \<open>Changing an object through the reference that \<open>get\<close> returns.\<close>

definition change_cached ::
  "(object_cache \<Rightarrow> 'v app_result) \<Rightarrow> ('v \<Rightarrow> object_cache \<Rightarrow> object_cache) \<Rightarrow> ('v \<Rightarrow> object_cache \<Rightarrow> ('a \<times> 'v) app_result) \<Rightarrow> ('n, 'a) apm" where
  "change_cached get put f = on_cache (\<lambda>c.
     case res_and_then (get c) (\<lambda>v. f v c) of
       Err e \<Rightarrow> (Err e, c)
     | Ok (a, v) \<Rightarrow> (Ok a, put v c))"

definition get_user :: "object_handle \<Rightarrow> object_cache \<Rightarrow> public_key app_result" where
  "get_user handle = get_pub_sign_key handle"

definition insert_permissions :: "(public_key, perm_set) btree \<Rightarrow> object_cache \<Rightarrow> object_handle \<times> object_cache" where
  "insert_permissions permissions = insert_mdata_permissions permissions"

definition get_permissions :: "object_handle \<Rightarrow> object_cache \<Rightarrow> (public_key, perm_set) btree app_result" where
  "get_permissions handle = get_mdata_permissions handle"

subsection \<open>Keys, values and entries for the C side\<close>

datatype mdata_key = MDataKey bytes
datatype ffi_mdata_key = FfiMDataKey bytes

definition mdata_key_from_bytes :: "bytes \<Rightarrow> mdata_key" where
  "mdata_key_from_bytes key = MDataKey key"

definition mdata_key_into_repr_c :: "mdata_key \<Rightarrow> ffi_mdata_key" where
  "mdata_key_into_repr_c k = (case k of MDataKey b \<Rightarrow> FfiMDataKey b)"

definition mdata_key_clone_from_repr_c :: "ffi_mdata_key \<Rightarrow> mdata_key" where
  "mdata_key_clone_from_repr_c c = (case c of FfiMDataKey b \<Rightarrow> MDataKey b)"

record native_mdata_value =
  mv_content :: bytes
  mv_entry_version :: u64

record ffi_mdata_value =
  fmv_content :: bytes
  fmv_entry_version :: u64

definition mdata_value_from_routing :: "mdata_seq_value \<Rightarrow> native_mdata_value" where
  "mdata_value_from_routing v = \<lparr>mv_content = sv_data v, mv_entry_version = sv_version v\<rparr>"

definition mdata_value_into_repr_c :: "native_mdata_value \<Rightarrow> ffi_mdata_value" where
  "mdata_value_into_repr_c v = \<lparr>fmv_content = mv_content v, fmv_entry_version = mv_entry_version v\<rparr>"

definition mdata_value_clone_from_repr_c :: "ffi_mdata_value \<Rightarrow> native_mdata_value" where
  "mdata_value_clone_from_repr_c c = \<lparr>mv_content = fmv_content c, mv_entry_version = fmv_entry_version c\<rparr>"

record mdata_entry =
  me_key :: mdata_key
  me_value :: native_mdata_value

record ffi_mdata_entry =
  fme_key :: ffi_mdata_key
  fme_value :: ffi_mdata_value

definition mdata_entry_into_repr_c :: "mdata_entry \<Rightarrow> ffi_mdata_entry" where
  "mdata_entry_into_repr_c e =
     \<lparr>fme_key = mdata_key_into_repr_c (me_key e), fme_value = mdata_value_into_repr_c (me_value e)\<rparr>"

definition mdata_entry_clone_from_repr_c :: "ffi_mdata_entry \<Rightarrow> mdata_entry" where
  "mdata_entry_clone_from_repr_c c =
     \<lparr>me_key = mdata_key_clone_from_repr_c (fme_key c), me_value = mdata_value_clone_from_repr_c (fme_value c)\<rparr>"

subsection \<open>Entries\<close>

definition seq_mdata_entries_new :: "('n, object_handle) apm" where
  "seq_mdata_entries_new = insert_cached (insert_seq_mdata_entries [])"

definition with_entries :: "object_handle \<Rightarrow> (seq_entries \<Rightarrow> ('a \<times> seq_entries) app_result) \<Rightarrow> ('n, 'a) apm" where
  "with_entries entries_h f =
     change_cached (get_seq_mdata_entries entries_h) (impl_write st_seq_mdata_entries_update entries_h) (\<lambda>es _. f es)"

definition seq_mdata_entries_insert :: "object_handle \<Rightarrow> bytes \<Rightarrow> bytes \<Rightarrow> ('n, unit) apm" where
  "seq_mdata_entries_insert entries_h key value =
     with_entries entries_h (\<lambda>entries. Ok ((), bt_insert key (MDataSeqValue value 0) entries))"

definition seq_mdata_entries_len :: "object_handle \<Rightarrow> ('n, nat) apm" where
  "seq_mdata_entries_len entries_h = with_entries entries_h (\<lambda>entries. Ok (length entries, entries))"

definition seq_mdata_entries_get :: "object_handle \<Rightarrow> bytes \<Rightarrow> ('n, bytes \<times> u64) apm" where
  "seq_mdata_entries_get entries_h key = read_cache (\<lambda>c.
     res_and_then (get_seq_mdata_entries entries_h c) (\<lambda>entries.
     res_map (\<lambda>value. (sv_data value, sv_version value))
       (res_map_err (app_error_from_core \<circ> DataError) (ok_or NoSuchEntry (bt_get entries key)))))"

definition seq_mdata_list_entries :: "object_handle \<Rightarrow> ('n, ffi_mdata_entry list) apm" where
  "seq_mdata_list_entries entries_h = read_cache (\<lambda>c.
     res_map (map (\<lambda>(key, value). mdata_entry_into_repr_c
         \<lparr>me_key = MDataKey key, me_value = mdata_value_from_routing value\<rparr>))
       (get_seq_mdata_entries entries_h c))"

definition seq_mdata_entries_free :: "object_handle \<Rightarrow> ('n, unit) apm" where
  "seq_mdata_entries_free entries_h = on_cache (\<lambda>c. apfst (res_map (\<lambda>_. ())) (remove_seq_mdata_entries entries_h c))"

subsection \<open>Entry actions\<close>

definition mdata_entry_actions_new :: "('n, object_handle) apm" where
  "mdata_entry_actions_new = insert_cached (insert_seq_mdata_entry_actions [])"

definition add_action :: "object_handle \<Rightarrow> bytes \<Rightarrow> seq_entry_action \<Rightarrow> ('n, unit) apm" where
  "add_action actions_h key action =
     change_cached (get_seq_mdata_entry_actions actions_h)
       (impl_write st_seq_mdata_entry_actions_update actions_h)
       (\<lambda>actions _. Ok ((), bt_insert key action actions))"

definition mdata_entry_actions_insert :: "object_handle \<Rightarrow> bytes \<Rightarrow> bytes \<Rightarrow> ('n, unit) apm" where
  "mdata_entry_actions_insert actions_h key value = add_action actions_h key (Ins (MDataSeqValue value 0))"

definition mdata_entry_actions_update :: "object_handle \<Rightarrow> bytes \<Rightarrow> bytes \<Rightarrow> u64 \<Rightarrow> ('n, unit) apm" where
  "mdata_entry_actions_update actions_h key value version =
     add_action actions_h key (Update (MDataSeqValue value version))"

definition mdata_entry_actions_delete :: "object_handle \<Rightarrow> bytes \<Rightarrow> u64 \<Rightarrow> ('n, unit) apm" where
  "mdata_entry_actions_delete actions_h key version = add_action actions_h key (Del version)"

definition mdata_entry_actions_free :: "object_handle \<Rightarrow> ('n, unit) apm" where
  "mdata_entry_actions_free actions_h =
     on_cache (\<lambda>c. apfst (res_map (\<lambda>_. ())) (remove_seq_mdata_entry_actions actions_h c))"

subsection \<open>Permissions\<close>

definition USER_ANYONE :: object_handle where
  "USER_ANYONE = NULL_OBJECT_HANDLE"

definition mdata_permissions_new :: "('n, object_handle) apm" where
  "mdata_permissions_new = insert_cached (insert_mdata_permissions [])"

definition mdata_permissions_len :: "object_handle \<Rightarrow> ('n, nat) apm" where
  "mdata_permissions_len permissions_h =
     read_cache (\<lambda>c. res_map length (get_mdata_permissions permissions_h c))"

definition mdata_permissions_get :: "perm_ops \<Rightarrow> object_handle \<Rightarrow> object_handle \<Rightarrow> ('n, ffi_permission_set) apm" where
  "mdata_permissions_get po permissions_h user_h = read_cache (\<lambda>c.
     res_and_then (get_mdata_permissions permissions_h c) (\<lambda>permissions.
     res_and_then (get_user user_h c) (\<lambda>user.
     res_map (permission_set_into_repr_c po) (ok_or InvalidSignPubKeyHandle (bt_get permissions user)))))"

text \<open>A handle for each user is put into the cache, in the order of the keys.\<close>

fun handles_for_users ::
  "perm_ops \<Rightarrow> (public_key \<times> perm_set) list \<Rightarrow> object_cache \<Rightarrow> ffi_user_permission_set list \<times> object_cache" where
  "handles_for_users po [] c = ([], c)"
| "handles_for_users po ((user_key, permission_set) # perms) c =
     (case insert_pub_sign_key user_key c of (user_h, c1) \<Rightarrow>
      case handles_for_users po perms c1 of (sets, c2) \<Rightarrow>
        (user_permission_set_into_repr_c po \<lparr>up_user_h = user_h, up_perm_set = permission_set\<rparr> # sets, c2))"

definition mdata_list_permission_sets :: "perm_ops \<Rightarrow> object_handle \<Rightarrow> ('n, ffi_user_permission_set list) apm" where
  "mdata_list_permission_sets po permissions_h = on_cache (\<lambda>c.
     case get_mdata_permissions permissions_h c of
       Err e \<Rightarrow> (Err e, c)
     | Ok permissions \<Rightarrow> apfst Ok (handles_for_users po permissions c))"

definition mdata_permissions_insert ::
  "perm_ops \<Rightarrow> object_handle \<Rightarrow> object_handle \<Rightarrow> ffi_permission_set \<Rightarrow> ('n, unit) apm" where
  "mdata_permissions_insert po permissions_h user_h permission_set =
     change_cached (get_mdata_permissions permissions_h) (impl_write st_mdata_permissions_update permissions_h)
       (\<lambda>permissions c.
         res_and_then (get_user user_h c) (\<lambda>user.
         res_map (\<lambda>ps. ((), bt_insert user ps permissions))
           (res_map_err app_error_from_ipc (permission_set_clone_from_repr_c po permission_set))))"

definition mdata_permissions_free :: "object_handle \<Rightarrow> ('n, unit) apm" where
  "mdata_permissions_free permissions_h =
     on_cache (\<lambda>c. apfst (res_map (\<lambda>_. ())) (remove_mdata_permissions permissions_h c))"

subsection \<open>Operations on the network\<close>

definition PERMISSIONS_EMPTY :: object_handle where
  "PERMISSIONS_EMPTY = NULL_OBJECT_HANDLE"

definition ENTRIES_EMPTY :: object_handle where
  "ENTRIES_EMPTY = NULL_OBJECT_HANDLE"

definition mdata_put ::
  "'n client_env \<Rightarrow> nfs_ops \<Rightarrow> ffi_mdata_info \<Rightarrow> object_handle \<Rightarrow> object_handle \<Rightarrow> ('n, unit) apm" where
  "mdata_put env no ffi_info permissions_h entries_h s =
     (let info = mdata_info_clone_from_repr_c ffi_info; owner_key = cl_owner_key (ac_client (as_client s)) in
      and_then (if permissions_h \<noteq> PERMISSIONS_EMPTY then read_cache (get_permissions permissions_h)
                else lift_res (Ok [])) (\<lambda>permissions.
      and_then (if entries_h \<noteq> ENTRIES_EMPTY then read_cache (get_seq_mdata_entries entries_h)
                else lift_res (Ok [])) (\<lambda>entries.
        app_call (client_put_seq_mutable_data env
          (new_seq_mdata no (mi_name info) (mi_type_tag info) entries permissions owner_key)))) s)"

definition mdata_get_version :: "'n client_env \<Rightarrow> ffi_mdata_info \<Rightarrow> ('n, u64) apm" where
  "mdata_get_version env info = app_call (client_get_mdata_version env (mi_address (mdata_info_clone_from_repr_c info)))"

definition mdata_serialised_size :: "'n client_env \<Rightarrow> ffi_mdata_ops \<Rightarrow> ffi_mdata_info \<Rightarrow> ('n, u64) apm" where
  "mdata_serialised_size env fo ffi_info =
     (let info = mdata_info_clone_from_repr_c ffi_info in
      and_then (app_call (client_get_seq_mdata env (mi_name info) (mi_type_tag info))) (\<lambda>mdata.
        lift_res (res_map_err (\<lambda>_. AppEncodeDecodeError) (serialized_size_mdata fo mdata))))"

definition mdata_get_value :: "'n client_env \<Rightarrow> ffi_mdata_info \<Rightarrow> bytes \<Rightarrow> ('n, bytes \<times> u64) apm" where
  "mdata_get_value env ffi_info key =
     (let info = mdata_info_clone_from_repr_c ffi_info in
      map_prog (\<lambda>value. (sv_data value, sv_version value))
        (app_call (client_get_seq_mdata_value env (mi_name info) (mi_type_tag info) key)))"

definition mdata_entries_call :: "'n client_env \<Rightarrow> ffi_mdata_info \<Rightarrow> ('n, object_handle) apm" where
  "mdata_entries_call env ffi_info =
     (let info = mdata_info_clone_from_repr_c ffi_info in
      and_then (app_call (client_list_seq_mdata_entries env (mi_name info) (mi_type_tag info))) (\<lambda>entries.
        insert_cached (insert_seq_mdata_entries entries)))"

definition mdata_list_keys :: "'n client_env \<Rightarrow> ffi_mdata_info \<Rightarrow> ('n, ffi_mdata_key list) apm" where
  "mdata_list_keys env info =
     map_prog (map (mdata_key_into_repr_c \<circ> mdata_key_from_bytes))
       (app_call (client_list_mdata_keys env (mi_address (mdata_info_clone_from_repr_c info))))"

definition seq_mdata_list_values :: "'n client_env \<Rightarrow> ffi_mdata_info \<Rightarrow> ('n, ffi_mdata_value list) apm" where
  "seq_mdata_list_values env ffi_info =
     (let info = mdata_info_clone_from_repr_c ffi_info in
      map_prog (map (mdata_value_into_repr_c \<circ> mdata_value_from_routing))
        (app_call (client_list_seq_mdata_values env (mi_name info) (mi_type_tag info))))"

definition mdata_mutate_entries :: "'n client_env \<Rightarrow> ffi_mdata_info \<Rightarrow> object_handle \<Rightarrow> ('n, unit) apm" where
  "mdata_mutate_entries env ffi_info actions_h =
     (let info = mdata_info_clone_from_repr_c ffi_info in
      and_then (read_cache (get_seq_mdata_entry_actions actions_h)) (\<lambda>actions.
        app_call (client_mutate_seq_mdata_entries env (mi_name info) (mi_type_tag info) actions)))"

definition mdata_list_permissions :: "'n client_env \<Rightarrow> ffi_mdata_info \<Rightarrow> ('n, object_handle) apm" where
  "mdata_list_permissions env info =
     and_then (app_call (client_list_mdata_permissions env (mi_address (mdata_info_clone_from_repr_c info)))) (\<lambda>perms.
       insert_cached (insert_permissions perms))"

definition mdata_list_user_permissions ::
  "'n client_env \<Rightarrow> perm_ops \<Rightarrow> ffi_mdata_info \<Rightarrow> object_handle \<Rightarrow> ('n, ffi_permission_set) apm" where
  "mdata_list_user_permissions env po info user_h =
     and_then (read_cache (get_user user_h)) (\<lambda>user.
       map_prog (permission_set_into_repr_c po)
         (app_call (client_list_mdata_user_permissions env (mi_address (mdata_info_clone_from_repr_c info)) user)))"

text \<open>A set of permissions that cannot be converted is unwrapped: the thread panics.\<close>

definition mdata_set_user_permissions ::
  "'n client_env \<Rightarrow> perm_ops \<Rightarrow> ffi_mdata_info \<Rightarrow> object_handle \<Rightarrow> ffi_permission_set \<Rightarrow> u64 \<Rightarrow> ('n, unit) apm" where
  "mdata_set_user_permissions env po info user_h permission_set version =
     and_then (read_cache (get_user user_h)) (\<lambda>user.
     and_then (unwrap (lift_res (permission_set_clone_from_repr_c po permission_set))) (\<lambda>ps.
       app_call (client_set_mdata_user_permissions env (mi_address (mdata_info_clone_from_repr_c info)) user ps version)))"

definition mdata_del_user_permissions ::
  "'n client_env \<Rightarrow> ffi_mdata_info \<Rightarrow> object_handle \<Rightarrow> u64 \<Rightarrow> ('n, unit) apm" where
  "mdata_del_user_permissions env info user_h version =
     and_then (read_cache (get_user user_h)) (\<lambda>user.
       app_call (client_del_mdata_user_permissions env (mi_address (mdata_info_clone_from_repr_c info)) user version))"

definition mdata_encode_metadata :: "ipc_ops \<Rightarrow> ffi_mdata_ops \<Rightarrow> ffi_metadata_response \<Rightarrow> bytes app_result" where
  "mdata_encode_metadata io fo metadata =
     res_and_then (res_map_err app_error_from_ipc (user_metadata_clone_from_repr_c io metadata)) (\<lambda>md.
       res_map_err (\<lambda>_. AppEncodeDecodeError) (ser_user_metadata fo md))"

end
