(* ===== verification/App_Props.thy ===== *)
theory App_Props
  imports App_Ffi_MData Ipc_Props Client_Props
begin

section \<open>What applications can rely on\<close>

text \<open>
  Cipher options give back what they encrypt to whoever holds the key, and the null handle, documented as
  \<open>USER_ANYONE\<close>, is refused by every operation that looks up a user.
\<close>

subsection \<open>Cipher options\<close>

lemma wire_roundtrip:
  assumes "app_laws ap" and "res_map_err (\<lambda>_. AppEncodeDecodeError) (ser_wire ap w) = Ok b"
  shows "b \<noteq> [] \<and> de_wire ap b = Ok w"
proof -
  have b: "ser_wire ap w = Ok b"
    using assms(2) by (cases "ser_wire ap w") auto
  then show ?thesis
    using assms(1) codec_pairD [of "ser_wire ap" "de_wire ap" w] by (auto simp: app_laws_def)
qed

lemma app_draw_run:
  obtains s1 where "app_draw f s = Some (Ok (f (w_draws (ac_client (as_client s)))), s1)" "as_context s1 = as_context s"
  by (simp add: app_draw_def app_call_def draw_def)

text \<open>What is on the wire after an encryption, and when there is an encryption at all.\<close>

lemma cipher_opt_wire:
  assumes "app_laws ap" and enc: "cipher_opt_encrypt co ap opt plain s = Some (Ok b, s')"
  shows "b \<noteq> [] \<and> (case opt of
      PlainText \<Rightarrow> de_wire ap b = Ok (WirePlain plain)
    | Symmetric \<Rightarrow> (\<exists>n k. context_sym_enc_key (as_context s) = Ok k \<and>
        de_wire ap b = Ok (WireSymmetric n (aead_seal co k n plain)))
    | Asymmetric pk \<Rightarrow> (\<exists>n. de_wire ap b = Ok (WireAsymmetric (asym_encrypt ap pk plain n))))"
proof (cases opt)
  case PlainText
  then show ?thesis
    using enc wire_roundtrip [OF assms(1)] by (auto simp: cipher_opt_encrypt_def)
next
  case Symmetric
  obtain n s1 where "app_draw (rnd_nonce co) s = Some (Ok n, s1)" "as_context s1 = as_context s"
    by (rule app_draw_run)
  then show ?thesis
    using enc Symmetric wire_roundtrip [OF assms(1)]
    by (fastforce simp: cipher_opt_encrypt_def and_then_def split: sum.splits)
next
  case (Asymmetric pk)
  obtain n s1 where "app_draw (asym_encrypt ap pk plain) s = Some (Ok (asym_encrypt ap pk plain n), s1)"
    using app_draw_run by metis
  then show ?thesis
    using enc Asymmetric wire_roundtrip [OF assms(1)] by (fastforce simp: cipher_opt_encrypt_def and_then_def)
qed

lemma cipher_opt_encrypt_succeeds:
  assumes "app_laws ap"
  shows "(\<exists>b s'. cipher_opt_encrypt co ap opt plain s = Some (Ok b, s')) \<longleftrightarrow>
    (opt = Symmetric \<longrightarrow> is_ok (as_registered (as_context s)))"
proof -
  obtain enc where ser: "\<And>w. ser_wire ap w = Ok (enc w)"
    using assms unfolding app_laws_def codec_pair_def by metis
  obtain n s1 where n: "app_draw (rnd_nonce co) s = Some (Ok n, s1)" "as_context s1 = as_context s"
    by (rule app_draw_run)
  have peer: "\<exists>ct s2. app_draw (asym_encrypt ap pk plain) s = Some (Ok ct, s2)" for pk
    using app_draw_run by metis
  show ?thesis
    using n peer [of "peer_encrypt_key opt"]
    by (cases opt; cases "as_registered (as_context s)")
      (auto simp: cipher_opt_encrypt_def and_then_def ser context_sym_enc_key_def)
qed

text \<open>
  (C29) What an application encrypts with a cipher option is decrypted to the same plain text by every
  application that holds the key of the option: everyone for plain text, the holder of the same
  symmetric key, the holder of the secret key of the peer. An unregistered application can use
  every option but the symmetric one, and an application with another symmetric key gets an error.
\<close>

theorem cipher_opt_roundtrip:
  assumes laws: "crypto_laws co" "app_laws ap"
  shows "(cipher_opt_encrypt co ap opt plain s = Some (Ok b, s') \<longrightarrow>
      (case opt of PlainText \<Rightarrow> True
       | Symmetric \<Rightarrow> context_sym_enc_key (as_context r) = context_sym_enc_key (as_context s)
       | Asymmetric pk \<Rightarrow> key_pair ap pk (ak_enc_sk (ac_keys (as_client r)))) \<longrightarrow>
      cipher_opt_decrypt co ap b r = Ok plain) \<and>
    (cipher_opt_encrypt co ap Symmetric plain s = Some (Ok b, s') \<longrightarrow>
      context_sym_enc_key (as_context r) \<noteq> context_sym_enc_key (as_context s) \<longrightarrow>
      (\<exists>e. cipher_opt_decrypt co ap b r = Err e)) \<and>
    ((\<exists>b s'. cipher_opt_encrypt co ap opt plain s = Some (Ok b, s')) \<longleftrightarrow>
      (opt = Symmetric \<longrightarrow> is_ok (as_registered (as_context s))))"
proof -
  have aead: "aead_open co k n (aead_seal co k n p) = Some p"
      "k' \<noteq> k \<Longrightarrow> aead_open co k' n' (aead_seal co k n p) = None" for k k' n n' p
    using laws(1) by (simp_all add: crypto_laws_def)
  have "cipher_opt_decrypt co ap b r = Ok plain"
    if "cipher_opt_encrypt co ap opt plain s = Some (Ok b, s')"
      "case opt of PlainText \<Rightarrow> True
       | Symmetric \<Rightarrow> context_sym_enc_key (as_context r) = context_sym_enc_key (as_context s)
       | Asymmetric pk \<Rightarrow> key_pair ap pk (ak_enc_sk (ac_keys (as_client r)))"
    using cipher_opt_wire [OF laws(2) that(1)] that(2)
    by (cases opt) (auto simp: cipher_opt_decrypt_def aead(1) key_pair_def)
  moreover have "\<exists>e. cipher_opt_decrypt co ap b r = Err e"
    if "cipher_opt_encrypt co ap Symmetric plain s = Some (Ok b, s')"
      "context_sym_enc_key (as_context r) \<noteq> context_sym_enc_key (as_context s)"
    using cipher_opt_wire [OF laws(2) that(1)] that(2)
    by (cases "context_sym_enc_key (as_context r)") (auto simp: cipher_opt_decrypt_def aead(2))
  ultimately show ?thesis
    using cipher_opt_encrypt_succeeds [OF laws(2)] by blast
qed

subsection \<open>The null handle\<close>

lemma user_anyone_refused:
  assumes "OpReset \<notin> set ops" and "OpRemove KPubSignKey USER_ANYONE \<notin> set ops" and "insertions ops < 2 ^ 64"
  shows "get_user USER_ANYONE (fold cache_step ops object_cache_new) = Err InvalidSignPubKeyHandle"
proof -
  have "get_object KPubSignKey USER_ANYONE (fold cache_step ops object_cache_new) =
      res_map (fold (rewritten USER_ANYONE) ops) (get_object KPubSignKey USER_ANYONE object_cache_new)"
    using assms by (intro get_object_run [where d = 0])
      (simp_all add: USER_ANYONE_def NULL_OBJECT_HANDLE_def object_cache_new_def)
  then show ?thesis
    by (cases "get_pub_sign_key USER_ANYONE (fold cache_step ops object_cache_new)")
      (auto simp: get_user_def get_pub_sign_key_def impl_get_def object_cache_new_def res_map_def ok_or_def
        split: option.splits)
qed

subsection \<open>Instances\<close>

definition sample_app_ops :: app_ops where
  "sample_app_ops = \<lparr>rnd_client_full_id = (\<lambda>n. ClientFullId [of_nat n]),
     ser_wire = (\<lambda>w. case w of WirePlain b \<Rightarrow> Ok (0 # b) | WireSymmetric n c \<Rightarrow> Ok (1 # pair_enc (n, c))
       | WireAsymmetric c \<Rightarrow> Ok (2 # c)),
     de_wire = (\<lambda>b. case b of [] \<Rightarrow> Err []
       | t # r \<Rightarrow> if t = 0 then Ok (WirePlain r) else if t = 1 then Ok (WireSymmetric (fst (pair_dec r)) (snd (pair_dec r)))
           else Ok (WireAsymmetric r)),
     asym_encrypt = (\<lambda>pk p r. pair_enc (pk, p)),
     asym_decrypt = (\<lambda>sk c. if fst (pair_dec c) = sk then Some (snd (pair_dec c)) else None),
     de_access_info = (\<lambda>_. Ok [])\<rparr>"

lemma sample_app_laws: "app_laws sample_app_ops"
  by (auto simp: app_laws_def codec_pair_def sample_app_ops_def pair_dec_enc split: wire_format.split)

definition sample_app_state :: "cache option conn_manager app_session" where
  "sample_app_state = \<lparr>as_client = \<lparr>ac_client = sample_client sample_vault [1],
       ac_keys = \<lparr>ak_app_full_id = AppFullId [1], ak_enc_key = [2], ak_enc_pk = [3], ak_enc_sk = [3]\<rparr>, ac_config = None\<rparr>,
     as_context = app_context_registered [6] [2] \<lparr>ac_id = XorName [1], ac_tag = 0, ac_nonce = []\<rparr>\<rparr>"

theorem cipher_opt_roundtrip_witness:
  "crypto_laws sample_crypto \<and> app_laws sample_app_ops \<and>
   (\<exists>b s'. cipher_opt_encrypt sample_crypto sample_app_ops Symmetric [5] sample_app_state = Some (Ok b, s') \<and>
     cipher_opt_decrypt sample_crypto sample_app_ops b sample_app_state = Ok [5])"
proof -
  have "is_ok (as_registered (as_context sample_app_state))"
    by (simp add: sample_app_state_def app_context_registered_def as_registered_def)
  then obtain b s' where enc: "cipher_opt_encrypt sample_crypto sample_app_ops Symmetric [5] sample_app_state = Some (Ok b, s')"
    using cipher_opt_encrypt_succeeds [OF sample_app_laws] by blast
  have "cipher_opt_decrypt sample_crypto sample_app_ops b sample_app_state = Ok [5]"
    using cipher_opt_roundtrip [OF sample_crypto_laws sample_app_laws, of Symmetric "[5]" sample_app_state b s' sample_app_state]
      enc by simp
  then show ?thesis
    using enc sample_crypto_laws sample_app_laws by blast
qed

end
