(* ===== verification/Access_Props.thy ===== *)
theory Access_Props
  imports App_Lifecycle App_Props
begin

section \<open>From the authenticator to the application\<close>

text \<open>
  What the authenticator writes into the access container for an application is what the application
  reads there: the entry is found under a key that both sides compute, the network lets the application
  read it, and it decrypts to the containers that were granted. The authenticator writes with recovery, so the
  write may take several attempts with repaired actions.
\<close>

text \<open>The documented behaviour of setting the permissions of a user.\<close>

definition permission_laws :: "safe_nd \<Rightarrow> perm_ops \<Rightarrow> bool" where
  "permission_laws nd po \<longleftrightarrow> (\<forall>d u ps ver m. md_set_user_permissions nd (MSeq d) u ps ver = Ok m \<longrightarrow>
     (\<exists>d'. m = MSeq d' \<and> (\<forall>act. ps_is_allowed po ps act \<longrightarrow> md_check_permissions nd m act u = Ok ())))"

subsection \<open>The retry loop\<close>

text \<open>What holds before every attempt holds before the one that succeeds.\<close>

lemma retry_succeeds_from:
  assumes "retry left attempt recover st s = Some (Ok (), s')" and "P st s"
    and kept: "\<And>st s e s1 st'. P st s \<Longrightarrow> attempt st s = Some (Err e, s1) \<Longrightarrow> recover st e = RetryWith st' \<Longrightarrow> P st' s1"
    and "\<And>st e. recover st e \<noteq> Finish"
  shows "\<exists>st1 s1. P st1 s1 \<and> attempt st1 s1 = Some (Ok (), s')"
  using assms(1,2)
proof (induction left arbitrary: st s)
  case 0
  then show ?case
    using assms(4) by (subst (asm) retry.simps) (auto elim!: or_else_Some split: recovery.splits)
next
  case (Suc left)
  from Suc.prems(1) have "or_else (attempt st) (\<lambda>e. case recover st e of
      RetryWith st' \<Rightarrow> retry left attempt recover st' | Finish \<Rightarrow> lift_res (Ok ()) | GiveUp \<Rightarrow> lift_res (Err e)) s = Some (Ok (), s')"
    unfolding retry.simps [of "Suc left"] nat.case .
  then show ?case
  proof (cases rule: or_else_Some)
    case (handled e s1)
    then obtain st' where "recover st e = RetryWith st'" "retry left attempt recover st' s1 = Some (Ok (), s')"
      using assms(4) [of st e] by (cases "recover st e") auto
    then show ?thesis
      using kept [OF Suc.prems(2) handled(1)] by (intro Suc.IH)
  next
    case (passes u)
    have "attempt st s = Some (Ok (), s')"
      using passes(1) unfolding unit_eq [of u] .
    with Suc.prems(2) show ?thesis
      by blast
  qed
qed

text \<open>An entry that is to be written, whatever its version.\<close>

definition writes_entry :: "bytes \<Rightarrow> bytes \<Rightarrow> seq_entry_actions \<Rightarrow> bool" where
  "writes_entry key content acts \<longleftrightarrow>
     (\<exists>ver. acts = [(key, Ins (MDataSeqValue content ver))] \<or> acts = [(key, Update (MDataSeqValue content ver))])"

lemma writes_entry_recovered:
  "writes_entry key content acts \<Longrightarrow> recover_entries acts e = RetryWith acts' \<Longrightarrow> writes_entry key content acts'"
  by (auto simp: writes_entry_def recover_entries_def fix_entry_actions_def fix_entry_action_def bt_collect_def
      split: core_error.splits snd_error.splits option.splits entry_error.splits)

lemma recover_entries_goes_on: "recover_entries acts e \<noteq> Finish"
  by (simp add: recover_entries_def split: core_error.split snd_error.split)

lemma written_entry_stored:
  assumes laws: "sign_laws (mock_env nd cd lo)" "entry_laws nd" "\<forall>a x. get_type nd (MutateMDataEntries a x) \<noteq> PublicGet"
    and client: "owner_client i c" "stored_mdata c (MSeqAddr n t) = Some (MSeq d)"
    and writes: "writes_entry key content acts"
    and run: "mutate_mdata_entries (mock_env nd cd lo) (MSeqAddr n t) acts c = Some (Ok (), c')"
  shows "\<exists>d' ver. stored_mdata c' (MSeqAddr n t) = Some (MSeq d') \<and> owner_client i c' \<and>
    seq_get nd d' key = Some (MDataSeqValue content ver) \<and>
    (\<forall>a u. md_check_permissions nd (MSeq d') a u = md_check_permissions nd (MSeq d) a u)"
proof -
  let ?env = "mock_env nd cd lo" and ?a = "MSeqAddr n t" and ?pk = "client_public_key nd (full_client_id lo i)"
  define P where "P acts c \<longleftrightarrow> writes_entry key content acts \<and> owner_client i c \<and>
    stored_mdata c (MSeqAddr n t) = Some (MSeq d)" for acts and c :: "'a conn_manager client"
  have attempt: "owner_client i c2 \<and> (case r of
      Ok _ \<Rightarrow> \<exists>m. md_mutate_entries nd (MSeq d) (SeqActions acts) ?pk = Ok m \<and> stored_mdata c2 ?a = Some m
    | Err e \<Rightarrow> stored_mdata c2 ?a = Some (MSeq d))"
    if "P acts c1" "client_mutate_seq_mdata_entries ?env n t acts c1 = Some (r, c2)" for acts r c1 c2
    using that(1) mutate_attempt [OF laws(1,3) _ _ that(2)] by (simp add: P_def)
  have "\<exists>acts1 c1. P acts1 c1 \<and> client_mutate_seq_mdata_entries ?env n t acts1 c1 = Some (Ok (), c')"
  proof (rule retry_succeeds_from)
    show "retry MAX_ATTEMPTS (client_mutate_seq_mdata_entries ?env n t) recover_entries acts c = Some (Ok (), c')"
      using run by (simp add: mutate_mdata_entries_def)
    show "P acts c"
      using client writes by (simp add: P_def)
    show "P acts' c2" if "P acts1 c1" "client_mutate_seq_mdata_entries ?env n t acts1 c1 = Some (Err e, c2)"
        "recover_entries acts1 e = RetryWith acts'" for acts1 c1 e c2 acts'
      using attempt [OF that(1,2)] that(1) writes_entry_recovered [OF _ that(3)] by (auto simp: P_def)
  qed (rule recover_entries_goes_on)
  then obtain acts1 c1 where "P acts1 c1" and ok: "client_mutate_seq_mdata_entries ?env n t acts1 c1 = Some (Ok (), c')"
    by blast
  moreover obtain m where "md_mutate_entries nd (MSeq d) (SeqActions acts1) ?pk = Ok m" "stored_mdata c' ?a = Some m" "owner_client i c'"
    using attempt [OF calculation] by auto
  moreover have "\<exists>ver. bt_get acts1 key = Some (Ins (MDataSeqValue content ver)) \<or> bt_get acts1 key = Some (Update (MDataSeqValue content ver))"
    using \<open>P acts1 c1\<close> by (auto simp: P_def writes_entry_def bt_get_def)
  ultimately show ?thesis
    using laws(2) unfolding entry_laws_def by blast
qed

subsection \<open>What the authenticator writes\<close>

text \<open>The key of an entry depends on the identifier and the keys only.\<close>

lemma access_key_pure:
  assumes "crypto_laws co"
  obtains k where "\<And>w :: ('n, 'z) world_scheme. access_container_enc_key co app_id key nonce w = Some (Ok k, w)"
    and "\<And>w :: ('n, 'y) world_scheme. access_container_enc_key co app_id key nonce w = Some (Ok k, w)"
proof -
  obtain b where "ser_enc co (take SYM_ENC_NONCE_LEN (sha3_256 co (app_id @ nonce)),
      aead_seal co key (take SYM_ENC_NONCE_LEN (sha3_256 co (app_id @ nonce))) app_id) = Ok b"
    using assms unfolding crypto_laws_def by blast
  then show ?thesis
    by (intro that [of b]) (simp_all add: access_container_enc_key_def symmetric_encrypt_def Let_def)
qed

lemma app_entry_encoded:
  assumes "crypto_laws co" and "encode_app_entry co ac entry key a = Some (Ok content, a1)"
  shows "\<exists>plain. ec_ser (app_codec ac) entry = Ok plain \<and> symmetric_decrypt co content key = Ok plain \<and>
    (\<exists>m. a1 = a\<lparr>au_client := (au_client a)\<lparr>w_draws := m\<rparr>\<rparr>)"
proof -
  obtain plain where plain: "ec_ser (app_codec ac) entry = Ok plain"
      and enc: "with_client (symmetric_encrypt co plain key None) a = Some (Ok content, a1)"
    using assms(2) by (auto simp: encode_app_entry_def encode_ac_entry_def map_err_Ok res_map_err_eq_Ok elim!: and_then_Ok)
  obtain nonce where "ser_enc co (nonce, aead_seal co key nonce plain) = Ok content"
      and a1: "a1 = a\<lparr>au_client := (au_client a)\<lparr>w_draws := Suc (w_draws (au_client a))\<rparr>\<rparr>"
    using enc by (auto simp: with_client_def symmetric_encrypt_def and_then_def draw_def res_map_err_eq_Ok
        split: option.splits)
  moreover have "de_enc co content = Ok (nonce, aead_seal co key nonce plain)"
    using calculation(1) assms(1) unfolding crypto_laws_def by (metis sum.inject(2))
  ultimately show ?thesis
    using plain symmetric_decrypt_sealed [OF assms(1)] by blast
qed

text \<open>Reading the version of the data leaves everything as it is.\<close>

lemma version_query_keeps:
  assumes "sign_laws (mock_env nd cd lo)" and "\<forall>a. get_type nd (GetMDataVersion a) \<noteq> PublicGet" and "owner_client i c"
    and "client_get_mdata_version (mock_env nd cd lo) a c = Some (Ok ver, c')"
  shows "owner_client i c' \<and> stored_mdata c' = stored_mdata c"
proof -
  let ?cid = "full_client_id lo i"
  obtain v' res where "handle_request nd (Client ?cid) (client_public_key nd ?cid) (client_public_key nd ?cid)
        (GetMDataVersion a) (vault_of (w_net c)) = Some (res, v')"
      and c': "c' = c\<lparr>w_draws := Suc (w_draws c), w_net := set_vault v' (w_net c)\<rparr>"
    using assms send_authenticated [OF assms(1) _ _ _ HOL.refl, of c "GetMDataVersion a" i]
    by (auto simp: owner_client_def client_get_mdata_version_def query_def and_then_def split: option.splits prod.splits)
  then have "v' = vault_of (w_net c)"
    by (auto simp: handle_request_def req_get_mdata_version_def respond_def map_prog_def
        dest: checked_mdata_state split: option.splits prod.splits)
  then show ?thesis
    using assms(3) by (auto simp: c' owner_client_def stored_mdata_def)
qed

text \<open>What the access container holds for an application after its entry was written.\<close>

lemma put_entry_stored:
  fixes a :: "'raw conn_manager auth_client"
  assumes laws: "crypto_laws co" "sign_laws (mock_env nd cd lo)" "entry_laws nd" "permission_laws nd po" "perm_laws po"
    and types: "\<forall>a x. get_type nd (MutateMDataEntries a x) \<noteq> PublicGet"
      "\<forall>a u p v. get_type nd (SetMDataUserPermissions a u p v) \<noteq> PublicGet" "\<forall>a. get_type nd (GetMDataVersion a) \<noteq> PublicGet"
    and owner: "owner_client i (au_client a)"
    and container: "mi_address (auth_access_container a) = MSeqAddr n t" "mi_nonce (auth_access_container a) = Some nonce"
    and stored: "stored_mdata (au_client a) (MSeqAddr n t) = Some (MSeq d)"
    and key: "\<And>w :: 'raw conn_manager client. access_container_enc_key co app_id (ak_enc_key keys) nonce w = Some (Ok k, w)"
    and put: "put_entry (mock_env nd cd lo) co ac po app_id keys entry version a = Some (Ok (), a')"
  shows "\<exists>d' content ver plain. stored_mdata (au_client a') (MSeqAddr n t) = Some (MSeq d') \<and>
    seq_get nd d' k = Some (MDataSeqValue content ver) \<and>
    md_check_permissions nd (MSeq d') ActRead (app_keys_public_key (mock_env nd cd lo) keys) = Ok () \<and>
    ec_ser (app_codec ac) entry = Ok plain \<and> symmetric_decrypt co content (ak_enc_key keys) = Ok plain"
proof -
  let ?env = "mock_env nd cd lo" and ?a = "MSeqAddr n t" and ?pk = "client_public_key nd (full_client_id lo i)"
  let ?app = "app_keys_public_key (mock_env nd cd lo) keys" and ?read = "ps_allow po (ps_new po) ActRead"
  have enc_key: "ac_enc_key co (auth_access_container a) app_id (ak_enc_key keys) a = Some (Ok k, a)"
    by (simp add: ac_enc_key_def container(2) with_client_def key map_err_def)
  obtain content a1 where enc: "encode_app_entry co ac entry (ak_enc_key keys) a = Some (Ok content, a1)"
      and rest: "with_client (and_then (client_get_mdata_version ?env ?a) (\<lambda>ver.
        and_then (client_set_mdata_user_permissions ?env ?a ?app ?read (ver + 1)) (\<lambda>_.
          mutate_mdata_entries ?env ?a (entry_action k content version)))) a1 = Some (Ok (), a')"
    using put enc_key by (auto simp: put_entry_def Let_def container(1) map_err_Ok and_then_cases(3) [where f = "\<lambda>x. and_then (g x) (h x)" for g h]
        elim!: and_then_Ok)
  obtain plain m where plain: "ec_ser (app_codec ac) entry = Ok plain" "symmetric_decrypt co content (ak_enc_key keys) = Ok plain"
      and a1: "a1 = a\<lparr>au_client := (au_client a)\<lparr>w_draws := m\<rparr>\<rparr>"
    using app_entry_encoded [OF laws(1) enc] by auto
  have start: "owner_client i (au_client a1)" "stored_mdata (au_client a1) ?a = Some (MSeq d)"
    using owner stored by (simp_all add: a1 owner_client_def stored_mdata_def)
  obtain ver c1 c2 where version: "client_get_mdata_version ?env ?a (au_client a1) = Some (Ok ver, c1)"
      and grant: "client_set_mdata_user_permissions ?env ?a ?app ?read (ver + 1) c1 = Some (Ok (), c2)"
      and mutate: "mutate_mdata_entries ?env ?a (entry_action k content version) c2 = Some (Ok (), au_client a')"
    using rest by (auto simp: with_client_def elim!: and_then_Ok split: option.splits prod.splits)
  have c1: "owner_client i c1" "stored_mdata c1 ?a = Some (MSeq d)"
    using version_query_keeps [OF laws(2) types(3) start(1) version] start(2) by simp_all
  have "owner_client i c2 \<and> (\<exists>m. md_set_user_permissions nd (MSeq d) ?app ?read (ver + 1) = Ok m \<and> stored_mdata c2 ?a = Some m)"
    using mutation_run [OF laws(2) _ c1(1) _ HOL.refl grant [unfolded client_set_mdata_user_permissions_def] c1(2),
        where f = "\<lambda>d. md_set_user_permissions nd d ?app ?read (ver + 1)"] types(2)
    by (simp add: handle_request_def req_set_mdata_user_permissions_def)
  moreover have "ps_is_allowed po ?read ActRead"
    using laws(5) by (simp add: perm_laws_def)
  ultimately obtain d1 where c2: "owner_client i c2" "stored_mdata c2 ?a = Some (MSeq d1)"
      and readable: "md_check_permissions nd (MSeq d1) ActRead ?app = Ok ()"
    using laws(4) unfolding permission_laws_def by blast
  have "writes_entry k content (entry_action k content version)"
    by (auto simp: writes_entry_def entry_action_def)
  then show ?thesis
    using written_entry_stored [OF laws(2,3) types(1) c2 _ mutate] readable plain by metis
qed

subsection \<open>What the application reads\<close>

text \<open>An entry that was written is what the application finds when it refreshes its access information.\<close>

lemma granted_access_refreshed:
  fixes a :: "'raw conn_manager auth_client" and s :: "'raw conn_manager app_session"
  assumes laws: "crypto_laws co" "sign_laws (mock_env nd cd lo)" "entry_laws nd" "permission_laws nd po" "perm_laws po"
    and codec: "ec_ser (app_codec ac) entry = Ok b" "de_access_info ap b = Ok entry"
    and types: "\<forall>a x. get_type nd (MutateMDataEntries a x) \<noteq> PublicGet"
      "\<forall>a u p v. get_type nd (SetMDataUserPermissions a u p v) \<noteq> PublicGet" "\<forall>a. get_type nd (GetMDataVersion a) \<noteq> PublicGet"
      "\<forall>a k. get_type nd (GetMDataValue a k) \<noteq> PublicGet"
    and owner: "plain_net (w_net (au_client a))" "cl_full_id (au_client a) = SafeClient i"
    and container: "mi_address (auth_access_container a) = MSeqAddr n t" "from_mdata_info (auth_access_container a) = Ok info"
    and stored: "nae_manager (vault_of (w_net (au_client a))) (IdMutable (MSeqAddr n t)) = Some (Mutable (MSeq d))"
    and put: "put_entry (mock_env nd cd lo) co ac po app_id keys entry version a = Some (Ok (), a')"
    and app: "as_context s = RegisteredContext reg \<and> rg_app_id reg = app_id \<and> rg_sym_enc_key reg = ak_enc_key keys \<and>
        rg_access_container_info reg = info"
      "cl_full_id (ac_client (as_client s)) = SafeApp (ak_app_full_id keys)" "plain_net (w_net (ac_client (as_client s)))"
      "vault_of (w_net (ac_client (as_client s))) = vault_of (w_net (au_client a'))"
    and authorised: "pid = full_app_id lo (ak_app_full_id keys)"
      "get_account (vault_of (w_net (au_client a'))) (public_id_name nd (App pid)) = Some account"
      "acc_auth_keys account (app_public_key nd pid) \<noteq> None"
  shows "\<exists>s'. refresh_access_info (mock_env nd cd lo) co ap s = Some (Ok (), s') \<and>
    as_context s' = RegisteredContext (reg\<lparr>rg_access_info := entry\<rparr>) \<and>
    cl_full_id (ac_client (as_client s')) = SafeApp (ak_app_full_id keys) \<and> plain_net (w_net (ac_client (as_client s'))) \<and>
    vault_of (w_net (ac_client (as_client s'))) = vault_of (w_net (au_client a'))"
proof -
  let ?env = "mock_env nd cd lo" and ?c = "ac_client (as_client s)"
  obtain nonce where nonce: "mi_nonce (auth_access_container a) = Some nonce"
      and info: "info = \<lparr>ac_id = n, ac_tag = t, ac_nonce = nonce\<rparr>"
    using container by (auto simp: from_mdata_info_def mi_nonce_def mi_name_def mi_type_tag_def split: option.splits)
  obtain k where k: "\<And>w :: 'raw conn_manager client. access_container_enc_key co app_id (ak_enc_key keys) nonce w = Some (Ok k, w)"
    using access_key_pure [OF laws(1)] by metis
  have own: "owner_client i (au_client a)" "stored_mdata (au_client a) (MSeqAddr n t) = Some (MSeq d)"
    using owner stored by (simp_all add: owner_client_def stored_mdata_def)
  obtain d' content ver plain where written: "stored_mdata (au_client a') (MSeqAddr n t) = Some (MSeq d')"
      "seq_get nd d' k = Some (MDataSeqValue content ver)"
      "md_check_permissions nd (MSeq d') ActRead (app_keys_public_key ?env keys) = Ok ()"
      and plain: "ec_ser (app_codec ac) entry = Ok plain" "symmetric_decrypt co content (ak_enc_key keys) = Ok plain"
    using put_entry_stored [OF laws(1-5) types(1-3) own(1) container(1) nonce own(2) k put] by blast
  have pk: "app_keys_public_key ?env keys = app_public_key nd pid"
    by (simp add: app_keys_public_key_def authorised(1) mock_env_def)
  have "nae_manager (vault_of (w_net ?c)) (IdMutable (MSeqAddr n t)) = Some (Mutable (MSeq d'))"
    using written(1) app(4) by (auto simp: stored_mdata_def split: option.splits data.splits)
  then have "handle_request nd (App pid) (app_public_key nd pid) (client_public_key nd (app_owner nd pid))
      (GetMDataValue (MSeqAddr n t) k) (vault_of (w_net ?c)) =
        Some (RespGetMDataValue (Ok (SeqValue (MDataSeqValue content ver))), vault_of (w_net ?c))"
    using written(2,3) pk by (intro get_value_answered) simp_all
  then have found: "client_get_seq_mdata_value ?env n t k ?c = Some (Ok (MDataSeqValue content ver),
      ?c\<lparr>w_draws := Suc (w_draws ?c), w_net := set_vault (vault_of (w_net ?c)) (w_net ?c)\<rparr>)"
    using send_app_authorised [OF laws(2) app(3) _ app(2) authorised(1), of "GetMDataValue (MSeqAddr n t) k" account]
      types(4) authorised(2,3) app(4)
    by (simp add: client_get_seq_mdata_value_def query_kind_def query_def and_then_def expect_response_def
        as_mdata_value_def seq_value_def)
  have "de_access_info ap plain = Ok entry"
    using codec plain(1) by simp
  then show ?thesis
    using found plain(2) app
    by (simp add: refresh_access_info_def as_registered_def app_refresh_access_info_def info app_call_def k and_then_def Let_def)
qed

text \<open>What a registered application reads: its cached access information, or, as long as there is none, what a refresh finds.\<close>

lemma get_access_info_cases:
  assumes "as_context s = RegisteredContext reg"
  shows "rg_access_info reg \<noteq> [] \<Longrightarrow> get_access_info env co ap s = Some (Ok (rg_access_info reg), s)"
    and "rg_access_info reg = [] \<Longrightarrow> refresh_access_info env co ap s = Some (Ok (), s') \<Longrightarrow>
      as_context s' = RegisteredContext reg' \<Longrightarrow> get_access_info env co ap s = Some (Ok (rg_access_info reg'), s')"
  using assms by (simp_all add: get_access_info_def refresh_access_info_def fetch_access_info_def as_registered_def and_then_def gets_def)

subsection \<open>Instances\<close>

definition grant_nd :: safe_nd where
  "grant_nd = dir_nd\<lparr>md_check_permissions := (\<lambda>d act pk. Ok ())\<rparr>"

definition grant_env :: "cache option conn_manager client_env" where
  "grant_env = mock_env grant_nd sample_codec sample_ops"

lemma grant_laws: "sign_laws grant_env" "entry_laws grant_nd" "permission_laws grant_nd po"
proof -
  show "sign_laws grant_env"
    by (auto simp: sign_laws_def grant_env_def mock_env_def sample_ops_def grant_nd_def dir_nd_def sample_nd_def
        safe_key_sign_def safe_key_public_key_def split: safe_key.splits client_full_id.splits app_full_id.splits)
  have "md_mutate_entries grant_nd = md_mutate_entries dir_nd" "md_address grant_nd = md_address dir_nd" "seq_get grant_nd = seq_get dir_nd"
      "md_check_permissions grant_nd d act pk = Ok ()" for d act pk
    by (simp_all add: grant_nd_def)
  then show "entry_laws grant_nd"
    using dir_entry_laws unfolding entry_laws_def by fastforce
  show "permission_laws grant_nd po"
    by (auto simp: permission_laws_def grant_nd_def dir_nd_def sample_nd_def)
qed

definition granted_session :: "cache option conn_manager \<Rightarrow> cache option conn_manager app_session" where
  "granted_session net = \<lparr>as_client = \<lparr>ac_client = (sample_client app_vault [1])\<lparr>w_net := net, cl_full_id := SafeApp (AppFullId [9, 1])\<rparr>,
       ac_keys = api_keys sample_app, ac_config = None\<rparr>,
     as_context = app_context_registered [7] [4] \<lparr>ac_id = XorName [1], ac_tag = 0, ac_nonce = [3]\<rparr>\<rparr>"

end
