(* ===== verification/App_Ffi_Keys.thy ===== *)
theory App_Ffi_Keys
  imports App_Ffi_MData
begin

section \<open>Keys, ciphers and access information in the C interface of applications\<close>

text \<open>
  safe\_app/src/ffi: crypto.rs (keys under handles, signatures, sealed boxes), cipher\_opt.rs, mdata\_info.rs, access\_container.rs
  and mod.rs; and the key types of safe\_core/src/crypto.rs behind them. Keys, signatures and cipher texts are third-party and
  are known by their bytes; their operations are the fields of \<open>ffi_key_ops\<close>. A panic of the calling thread is
  caught by \<open>catch_unwind_cb\<close>, which reports \<open>caught_panic\<close>; one of the application's thread is None.
\<close>

record ffi_key_ops =
  ser_public_key :: "public_key \<Rightarrow> bytes + bytes"
  de_public_key :: "bytes \<Rightarrow> bytes + public_key"
  ser_client_full_id :: "client_full_id \<Rightarrow> bytes + bytes"
  de_client_full_id :: "bytes \<Rightarrow> bytes + client_full_id"
  enc_key_to_bytes :: "bytes \<Rightarrow> bytes"
  enc_key_from_bytes :: "bytes \<Rightarrow> bytes + bytes"
  ser_secret_key :: "bytes \<Rightarrow> bytes + bytes"
  de_secret_key :: "bytes \<Rightarrow> bytes + bytes"
  rnd_secret_key :: "nat \<Rightarrow> bytes"
  secret_public_key :: "bytes \<Rightarrow> bytes"
  ser_signature :: "signature \<Rightarrow> bytes + bytes"
  de_signature :: "bytes \<Rightarrow> bytes + signature"
  key_verifies :: "public_key \<Rightarrow> signature \<Rightarrow> bytes \<Rightarrow> bool"
  ser_ciphertext :: "bytes \<Rightarrow> bytes + bytes"
  de_ciphertext :: "bytes \<Rightarrow> bytes + bytes"
  caught_panic :: app_error

definition encode_decode :: "'e + 'a \<Rightarrow> 'a app_result" where
  "encode_decode r = res_map_err (\<lambda>_. AppEncodeDecodeError) r"

subsection \<open>Key types of the core library\<close>

text \<open>\<open>shared_secretbox\<close>: a key is an array of \<open>SYM_ENC_KEY_LEN\<close> bytes; \<open>from_slice\<close> unwraps the conversion.\<close>

definition key_from_slice :: "bytes \<Rightarrow> ('s, 'e, sym_key option) prog" where
  "key_from_slice data s = (if length data = SYM_ENC_KEY_LEN then Some (Ok (Some data), s) else None)"

definition secret_key_from_raw :: "ffi_key_ops \<Rightarrow> bytes \<Rightarrow> bytes core_result" where
  "secret_key_from_raw ko data = res_map_err EncodeDecodeError (de_secret_key ko data)"

definition shared_box_gen_keypair :: "ffi_key_ops \<Rightarrow> ('n, 'z, bytes \<times> bytes) wm" where
  "shared_box_gen_keypair ko =
     and_then (draw (rnd_secret_key ko)) (\<lambda>sk. lift_res (Ok (secret_public_key ko sk, sk)))"

subsection \<open>Keys for signing\<close>

definition SIGN_WITH_APP :: object_handle where
  "SIGN_WITH_APP = NULL_OBJECT_HANDLE"

definition VERIFY_WITH_APP :: object_handle where
  "VERIFY_WITH_APP = NULL_OBJECT_HANDLE"

definition app_own_key :: "'n client_env \<Rightarrow> 'n app_session \<Rightarrow> public_key" where
  "app_own_key env s = own_public_key env (ac_client (as_client s))"

definition app_pub_sign_key :: "'n client_env \<Rightarrow> ('n, object_handle) apm" where
  "app_pub_sign_key env s = insert_cached (insert_pub_sign_key (app_own_key env s)) s"

definition sign_generate_key_pair :: "'n client_env \<Rightarrow> app_ops \<Rightarrow> ('n, object_handle \<times> object_handle) apm" where
  "sign_generate_key_pair env ap =
     and_then (app_draw (rnd_client_full_id ap)) (\<lambda>full_id.
     and_then (insert_cached (insert_pub_sign_key (client_public_key (ce_nd env) (full_client_id env full_id)))) (\<lambda>pk_h.
     and_then (insert_cached (insert_sec_sign_key full_id)) (\<lambda>sk_h. lift_res (Ok (pk_h, sk_h)))))"

definition sign_pub_key_new :: "ffi_key_ops \<Rightarrow> bytes \<Rightarrow> ('n, object_handle) apm" where
  "sign_pub_key_new ko data = (case de_public_key ko data of
     Err _ \<Rightarrow> lift_res (Err (caught_panic ko))
   | Ok key \<Rightarrow> insert_cached (insert_pub_sign_key key))"

definition sign_pub_key_get :: "ffi_key_ops \<Rightarrow> object_handle \<Rightarrow> ('n, bytes) apm" where
  "sign_pub_key_get ko handle =
     and_then (read_cache (get_pub_sign_key handle)) (\<lambda>key. lift_res (encode_decode (ser_public_key ko key)))"

definition sign_pub_key_free :: "object_handle \<Rightarrow> ('n, unit) apm" where
  "sign_pub_key_free handle = on_cache (\<lambda>c. apfst (res_map (\<lambda>_. ())) (remove_pub_sign_key handle c))"

definition sign_sec_key_new :: "ffi_key_ops \<Rightarrow> bytes \<Rightarrow> ('n, object_handle) apm" where
  "sign_sec_key_new ko data =
     and_then (lift_res (encode_decode (de_client_full_id ko data))) (\<lambda>full_id. insert_cached (insert_sec_sign_key full_id))"

definition sign_sec_key_get :: "ffi_key_ops \<Rightarrow> object_handle \<Rightarrow> ('n, bytes) apm" where
  "sign_sec_key_get ko handle =
     and_then (read_cache (get_sec_sign_key handle)) (\<lambda>sign_sk. lift_res (encode_decode (ser_client_full_id ko sign_sk)))"

definition sign_sec_key_free :: "object_handle \<Rightarrow> ('n, unit) apm" where
  "sign_sec_key_free handle = on_cache (\<lambda>c. apfst (res_map (\<lambda>_. ())) (remove_sec_sign_key handle c))"

subsection \<open>Keys for encryption\<close>

definition app_pub_enc_key :: "('n, object_handle) apm" where
  "app_pub_enc_key s = insert_cached (insert_encrypt_key (ak_enc_pk (ac_keys (as_client s)))) s"

definition enc_generate_key_pair :: "ffi_key_ops \<Rightarrow> ('n, object_handle \<times> object_handle) apm" where
  "enc_generate_key_pair ko =
     and_then (app_call (shared_box_gen_keypair ko)) (\<lambda>(ourpk, oursk).
     and_then (insert_cached (insert_encrypt_key ourpk)) (\<lambda>pk_h.
     and_then (insert_cached (insert_secret_key oursk)) (\<lambda>sk_h. lift_res (Ok (pk_h, sk_h)))))"

text \<open>The pointer may be null.\<close>

definition enc_pub_key_new :: "ffi_key_ops \<Rightarrow> bytes option \<Rightarrow> ('n, object_handle) apm" where
  "enc_pub_key_new ko data =
     and_then (lift_res (ok_or AppEncodeDecodeError data)) (\<lambda>raw.
     and_then (lift_res (encode_decode (enc_key_from_bytes ko raw))) (\<lambda>key. insert_cached (insert_encrypt_key key)))"

definition enc_pub_key_get :: "ffi_key_ops \<Rightarrow> object_handle \<Rightarrow> ('n, bytes) apm" where
  "enc_pub_key_get ko handle = read_cache (\<lambda>c. res_map (enc_key_to_bytes ko) (get_encrypt_key handle c))"

definition enc_pub_key_free :: "object_handle \<Rightarrow> ('n, unit) apm" where
  "enc_pub_key_free handle = on_cache (\<lambda>c. apfst (res_map (\<lambda>_. ())) (remove_encrypt_key handle c))"

definition enc_secret_key_new :: "ffi_key_ops \<Rightarrow> bytes \<Rightarrow> ('n, object_handle) apm" where
  "enc_secret_key_new ko raw =
     and_then (lift_res (encode_decode (secret_key_from_raw ko raw))) (\<lambda>key. insert_cached (insert_secret_key key))"

definition enc_secret_key_get :: "ffi_key_ops \<Rightarrow> object_handle \<Rightarrow> ('n, bytes) apm" where
  "enc_secret_key_get ko handle =
     and_then (read_cache (get_secret_key handle)) (\<lambda>key. lift_res (encode_decode (ser_secret_key ko key)))"

definition enc_secret_key_free :: "object_handle \<Rightarrow> ('n, unit) apm" where
  "enc_secret_key_free handle = on_cache (\<lambda>c. apfst (res_map (\<lambda>_. ())) (remove_secret_key handle c))"

subsection \<open>Signatures and sealed boxes\<close>

definition ffi_sign :: "'n client_env \<Rightarrow> ffi_key_ops \<Rightarrow> bytes \<Rightarrow> object_handle \<Rightarrow> ('n, bytes) apm" where
  "ffi_sign env ko plaintext sign_sk_h s =
     and_then (if sign_sk_h = SIGN_WITH_APP
         then lift_res (Ok (safe_key_sign env (cl_full_id (ac_client (as_client s))) plaintext))
         else map_prog (\<lambda>sign_sk. client_sign env sign_sk plaintext) (read_cache (get_sec_sign_key sign_sk_h)))
       (\<lambda>sig. lift_res (encode_decode (ser_signature ko sig))) s"

definition ffi_verify :: "'n client_env \<Rightarrow> ffi_key_ops \<Rightarrow> bytes \<Rightarrow> bytes \<Rightarrow> object_handle \<Rightarrow> ('n, bool) apm" where
  "ffi_verify env ko signed_data signature_array sign_pk_h s =
     and_then (lift_res (encode_decode (de_signature ko signature_array))) (\<lambda>sig.
     and_then (if sign_pk_h = VERIFY_WITH_APP then lift_res (Ok (app_own_key env s))
         else read_cache (get_pub_sign_key sign_pk_h)) (\<lambda>sign_pk.
       lift_res (Ok (key_verifies ko sign_pk sig signed_data)))) s"

definition encrypt_sealed_box :: "app_ops \<Rightarrow> ffi_key_ops \<Rightarrow> bytes \<Rightarrow> object_handle \<Rightarrow> ('n, bytes) apm" where
  "encrypt_sealed_box ap ko plaintext public_key_h =
     and_then (read_cache (get_encrypt_key public_key_h)) (\<lambda>pk.
     and_then (app_draw (asym_encrypt ap pk plaintext)) (\<lambda>ct.
       lift_res (encode_decode (ser_ciphertext ko ct))))"

definition decrypt_sealed_box :: "app_ops \<Rightarrow> ffi_key_ops \<Rightarrow> bytes \<Rightarrow> object_handle \<Rightarrow> ('n, bytes) apm" where
  "decrypt_sealed_box ap ko data secret_key_h =
     and_then (lift_res (encode_decode (de_ciphertext ko data))) (\<lambda>deserialized.
     and_then (read_cache (get_secret_key secret_key_h)) (\<lambda>sk.
       lift_res (ok_or AppEncodeDecodeError (asym_decrypt ap sk deserialized))))"

definition sha3_hash :: "crypto_ops \<Rightarrow> bytes \<Rightarrow> bytes" where
  "sha3_hash co plaintext = sha3_256 co plaintext"

subsection \<open>Cipher options\<close>

definition cipher_opt_new_plaintext :: "('n, object_handle) apm" where
  "cipher_opt_new_plaintext = insert_cached (insert_cipher_opt PlainText)"

definition cipher_opt_new_symmetric :: "('n, object_handle) apm" where
  "cipher_opt_new_symmetric = insert_cached (insert_cipher_opt Symmetric)"

definition cipher_opt_new_asymmetric :: "object_handle \<Rightarrow> ('n, object_handle) apm" where
  "cipher_opt_new_asymmetric peer_encrypt_key_h =
     and_then (read_cache (get_encrypt_key peer_encrypt_key_h)) (\<lambda>pk. insert_cached (insert_cipher_opt (Asymmetric pk)))"

definition cipher_opt_free :: "object_handle \<Rightarrow> ('n, unit) apm" where
  "cipher_opt_free handle = on_cache (\<lambda>c. apfst (res_map (\<lambda>_. ())) (remove_cipher_opt handle c))"

subsection \<open>Descriptions of mutable data\<close>

text \<open>These run on the thread of the caller and use no application.\<close>

type_synonym ('n, 'z, 'a) fwm = "(('n, 'z) world_scheme, app_error, 'a) prog"

definition mdata_info_new_private :: "bool \<Rightarrow> bytes \<Rightarrow> u64 \<Rightarrow> bytes \<Rightarrow> bytes \<Rightarrow> ffi_mdata_info" where
  "mdata_info_new_private md_seq name type_tag secret_key nonce =
     mdata_info_into_repr_c (new_private
       (mdata_address_from_kind (md_kind_clone_from_repr_c md_seq) (XorName name) type_tag) (secret_key, nonce))"

definition mdata_info_random_public :: "crypto_ops \<Rightarrow> bool \<Rightarrow> u64 \<Rightarrow> ('n, 'z, ffi_mdata_info) fwm" where
  "mdata_info_random_public co md_seq type_tag = map_err app_error_from_core
     (map_prog mdata_info_into_repr_c (random_public co (md_kind_clone_from_repr_c md_seq) type_tag))"

definition mdata_info_random_private :: "crypto_ops \<Rightarrow> bool \<Rightarrow> u64 \<Rightarrow> ('n, 'z, ffi_mdata_info) fwm" where
  "mdata_info_random_private co md_seq type_tag = map_err app_error_from_core
     (map_prog mdata_info_into_repr_c (random_private co (md_kind_clone_from_repr_c md_seq) type_tag))"

definition mdata_info_encrypt_entry_key :: "crypto_ops \<Rightarrow> ffi_mdata_info \<Rightarrow> bytes \<Rightarrow> ('n, 'z, bytes) fwm" where
  "mdata_info_encrypt_entry_key co info input = map_err app_error_from_core
     (enc_entry_key co (mdata_info_clone_from_repr_c info) input)"

definition mdata_info_encrypt_entry_value :: "crypto_ops \<Rightarrow> ffi_mdata_info \<Rightarrow> bytes \<Rightarrow> ('n, 'z, bytes) fwm" where
  "mdata_info_encrypt_entry_value co info input = map_err app_error_from_core
     (enc_entry_value co (mdata_info_clone_from_repr_c info) input)"

definition mdata_info_decrypt :: "crypto_ops \<Rightarrow> ffi_mdata_info \<Rightarrow> bytes \<Rightarrow> bytes app_result" where
  "mdata_info_decrypt co info input =
     res_map_err app_error_from_core (mi_decrypt co (mdata_info_clone_from_repr_c info) input)"

record ffi_info_ops =
  ser_mdata_info :: "mdata_info \<Rightarrow> bytes + bytes"
  de_mdata_info :: "bytes \<Rightarrow> bytes + mdata_info"

definition mdata_info_serialise :: "ffi_info_ops \<Rightarrow> ffi_mdata_info \<Rightarrow> bytes app_result" where
  "mdata_info_serialise fi info = encode_decode (ser_mdata_info fi (mdata_info_clone_from_repr_c info))"

definition mdata_info_deserialise :: "ffi_info_ops \<Rightarrow> bytes \<Rightarrow> ffi_mdata_info app_result" where
  "mdata_info_deserialise fi encoded = res_map mdata_info_into_repr_c (encode_decode (de_mdata_info fi encoded))"

subsection \<open>Access information\<close>

definition access_container_refresh_access_info :: "'n client_env \<Rightarrow> crypto_ops \<Rightarrow> app_ops \<Rightarrow> ('n, unit) apm" where
  "access_container_refresh_access_info env co ap = refresh_access_info env co ap"

definition access_container_fetch ::
  "'n client_env \<Rightarrow> crypto_ops \<Rightarrow> app_ops \<Rightarrow> ('n, ffi_container_permissions list) apm" where
  "access_container_fetch env co ap =
     and_then (get_access_info env co ap) (\<lambda>containers.
       lift_res (res_map_err app_error_from_nul (containers_into_vec (map (\<lambda>(key, _, v). (key, v)) containers))))"

definition access_container_get_container_mdata_info ::
  "'n client_env \<Rightarrow> crypto_ops \<Rightarrow> app_ops \<Rightarrow> ffi_ops \<Rightarrow> bytes \<Rightarrow> ('n, ffi_mdata_info) apm" where
  "access_container_get_container_mdata_info env co ap ff c_name =
     and_then (lift_res (encode_decode (read_c_string ff c_name))) (\<lambda>name.
     and_then (get_access_info env co ap) (\<lambda>containers.
       lift_res (case map_of containers name of
           Some (info, _) \<Rightarrow> Ok (mdata_info_into_repr_c info)
         | None \<Rightarrow> Err (AppNoSuchContainer name))))"

subsection \<open>The application\<close>

text \<open>A configuration that is absent is a null pointer or the length 0.\<close>

definition ffi_app_unregistered ::
  "'n client_env \<Rightarrow> crypto_ops \<Rightarrow> ipc_ops \<Rightarrow> app_ops \<Rightarrow> bytes option \<Rightarrow> ('n, 'n app_session) app_gateway" where
  "ffi_app_unregistered env co io ap config =
     and_then (lift_res (case config of
         None \<Rightarrow> Ok None
       | Some b \<Rightarrow> if b = [] then Ok None else res_map Some (encode_decode (de_bootstrap io b)))) (\<lambda>config.
       app_unregistered env co io ap config)"

definition ffi_app_registered ::
  "'n client_env \<Rightarrow> ipc_ops \<Rightarrow> bytes \<Rightarrow> ffi_auth_granted \<Rightarrow> ('n, 'n app_session) app_gateway" where
  "ffi_app_registered env io c_app_id granted =
     and_then (lift_res (encode_decode (read_c_string (ffi io) c_app_id))) (\<lambda>app_id.
     and_then (lift_res (res_map_err app_error_from_ipc (auth_granted_clone_from_repr_c io granted))) (\<lambda>auth_granted.
       app_registered env app_id auth_granted))"

definition app_reconnect :: "'n client_env \<Rightarrow> ('n, unit) apm" where
  "app_reconnect env = app_call (client_restart_network env)"

definition app_reset_object_cache :: "('n, unit) apm" where
  "app_reset_object_cache = on_cache (\<lambda>c. (Ok (), object_cache_reset c))"

definition ffi_app_container_name :: "ffi_ops \<Rightarrow> bytes \<Rightarrow> bytes app_result" where
  "ffi_app_container_name ff app_id =
     res_and_then (encode_decode (read_c_string ff app_id)) (\<lambda>i.
       res_map_err app_error_from_nul (cstring_new (app_container_name i)))"

end
