(* ===== verification/App_Ffi_Files.thy ===== *)
theory App_Ffi_Files
  imports App_Ffi_Keys
begin

section \<open>Immutable data and files in the C interface of applications\<close>

text \<open>
  safe\_app/src/ffi/immutable\_data.rs and nfs.rs: self-encryptors, readers and writers are kept in the object cache under
  handles. Closing a writer takes it out of the cache first, so that its handle is gone whatever the rest of the call
  returns. The arguments are the values behind the pointers, as in \<open>App_Ffi_MData\<close>.
\<close>

definition app_nfs_call :: "('n, 'a) nm \<Rightarrow> ('n, 'a) apm" where
  "app_nfs_call m s = (case m (ac_client (as_client s)) of
     None \<Rightarrow> None
   | Some (r, c) \<Rightarrow> Some (res_map_err app_error_from_nfs r, s\<lparr>as_client := (as_client s)\<lparr>ac_client := c\<rparr>\<rparr>))"

definition app_se_call :: "('n client, 'a) se_prog \<Rightarrow> ('n, 'a) apm" where
  "app_se_call m s = (case m (ac_client (as_client s)) of
     None \<Rightarrow> None
   | Some (r, c) \<Rightarrow> Some (res_map_err AppSelfEncryption r, s\<lparr>as_client := (as_client s)\<lparr>ac_client := c\<rparr>\<rparr>))"

text \<open>Writing the object behind a handle.\<close>

definition write_cached :: "(object_cache \<Rightarrow> object_cache) \<Rightarrow> ('n, unit) apm" where
  "write_cached f = on_cache (\<lambda>c. (Ok (), f c))"

subsection \<open>Immutable data\<close>

definition idata_new_self_encryptor :: "'n content_params \<Rightarrow> bool \<Rightarrow> ('n, object_handle) apm" where
  "idata_new_self_encryptor P published =
     and_then (app_se_call (sq_new (np_so P) (np_storage P published) None)) (\<lambda>b.
       insert_cached (insert_se_writer \<lparr>se_published = published, se_state = b\<rparr>))"

definition idata_write_to_self_encryptor :: "'n content_params \<Rightarrow> object_handle \<Rightarrow> bytes \<Rightarrow> ('n, unit) apm" where
  "idata_write_to_self_encryptor P se_h data =
     and_then (read_cache (get_se_writer se_h)) (\<lambda>writer.
     and_then (app_se_call (sq_write (np_so P) (np_storage P (se_published writer)) (se_state writer) data)) (\<lambda>b.
       write_cached (impl_write st_se_writer_update se_h (writer\<lparr>se_state := b\<rparr>))))"

definition idata_close_self_encryptor ::
  "'n content_params \<Rightarrow> app_ops \<Rightarrow> object_handle \<Rightarrow> object_handle \<Rightarrow> bool \<Rightarrow> ('n, xor_name) apm" where
  "idata_close_self_encryptor P ap se_h cipher_opt_h published =
     and_then (on_cache (remove_se_writer se_h)) (\<lambda>se_writer.
     and_then (app_se_call (sq_close (np_so P) (np_storage P (se_published se_writer)) (se_state se_writer))) (\<lambda>dm.
     and_then (lift_res (encode_decode (ser_data_map (np_io P) dm))) (\<lambda>ser_dm.
     and_then (read_cache (get_cipher_opt cipher_opt_h)) (\<lambda>cipher_opt.
     and_then (cipher_opt_encrypt (np_co P) ap cipher_opt ser_dm) (\<lambda>enc_dm.
     and_then (app_call (idata_create (np_env P) (np_co P) (np_io P) (np_so P) enc_dm published None)) (\<lambda>d.
       map_prog (\<lambda>_. idata_name (ce_nd (np_env P)) d) (app_call (client_put_idata (np_env P) d))))))))"

definition idata_fetch_self_encryptor :: "'n content_params \<Rightarrow> app_ops \<Rightarrow> bytes \<Rightarrow> bool \<Rightarrow> ('n, object_handle) apm" where
  "idata_fetch_self_encryptor P ap name published =
     and_then (app_call (get_value (np_env P) (np_co P) (np_io P) (np_so P) (idata_address_of published (XorName name)) None)) (\<lambda>enc_dm.
     and_then (gets (cipher_opt_decrypt (np_co P) ap enc_dm)) (\<lambda>ser_dm.
     and_then (lift_res (encode_decode (de_data_map (np_io P) ser_dm))) (\<lambda>dm.
     and_then (lift_res (res_map_err AppSelfEncryption (se_new (np_so P) (np_storage P published) dm))) (\<lambda>b.
       insert_cached (insert_se_reader \<lparr>se_published = published, se_state = b\<rparr>)))))"

definition idata_serialised_size :: "'n content_params \<Rightarrow> bytes \<Rightarrow> bool \<Rightarrow> ('n, u64) apm" where
  "idata_serialised_size P name published =
     map_prog (idata_serialised_size_of (np_io P)) (app_call (client_get_idata (np_env P) (idata_address_of published (XorName name))))"

definition idata_size :: "'n content_params \<Rightarrow> object_handle \<Rightarrow> ('n, u64) apm" where
  "idata_size P se_h = read_cache (\<lambda>c. res_map (\<lambda>se. se_len (np_so P) (se_state se)) (get_se_reader se_h c))"

definition idata_read_from_self_encryptor :: "'n content_params \<Rightarrow> object_handle \<Rightarrow> u64 \<Rightarrow> u64 \<Rightarrow> ('n, bytes) apm" where
  "idata_read_from_self_encryptor P se_h from_pos len =
     and_then (read_cache (get_se_reader se_h)) (\<lambda>se.
       if from_pos + len > se_len (np_so P) (se_state se) then lift_res (Err InvalidSelfEncryptorReadOffsets)
       else app_se_call (se_read (np_so P) (np_storage P (se_published se)) (se_state se) from_pos len))"

definition idata_self_encryptor_writer_free :: "object_handle \<Rightarrow> ('n, unit) apm" where
  "idata_self_encryptor_writer_free handle = on_cache (\<lambda>c. apfst (res_map (\<lambda>_. ())) (remove_se_writer handle c))"

definition idata_self_encryptor_reader_free :: "object_handle \<Rightarrow> ('n, unit) apm" where
  "idata_self_encryptor_reader_free handle = on_cache (\<lambda>c. apfst (res_map (\<lambda>_. ())) (remove_se_reader handle c))"

subsection \<open>Directories\<close>

definition GET_NEXT_VERSION :: u64 where
  "GET_NEXT_VERSION = 0"

definition version_of :: "u64 \<Rightarrow> version" where
  "version_of v = (if v = GET_NEXT_VERSION then GetNext else Custom v)"

definition dir_fetch_file :: "'n content_params \<Rightarrow> ffi_ops \<Rightarrow> ffi_mdata_info \<Rightarrow> bytes \<Rightarrow> ('n, ffi_file \<times> u64) apm" where
  "dir_fetch_file P ff parent_info c_name =
     and_then (lift_res (encode_decode (read_c_string ff c_name))) (\<lambda>file_name.
     map_prog (\<lambda>(version, file). (file_into_repr_c file, version))
       (app_nfs_call (nfs_fetch (np_env P) (np_co P) (np_no P) (mdata_info_clone_from_repr_c parent_info) file_name)))"

definition dir_insert_file :: "'n content_params \<Rightarrow> ffi_ops \<Rightarrow> ffi_mdata_info \<Rightarrow> bytes \<Rightarrow> ffi_file \<Rightarrow> ('n, unit) apm" where
  "dir_insert_file P ff parent_info c_name c_file =
     and_then (lift_res (res_map_err app_error_from_nfs (file_clone_from_repr_c (np_no P) c_file))) (\<lambda>file.
     and_then (lift_res (encode_decode (read_c_string ff c_name))) (\<lambda>file_name.
       app_nfs_call (nfs_insert (np_env P) (np_co P) (np_no P) (mdata_info_clone_from_repr_c parent_info) file_name file)))"

definition dir_update_file ::
  "'n content_params \<Rightarrow> ffi_ops \<Rightarrow> ffi_mdata_info \<Rightarrow> bytes \<Rightarrow> ffi_file \<Rightarrow> u64 \<Rightarrow> ('n, u64) apm" where
  "dir_update_file P ff parent_info c_name c_file version =
     and_then (lift_res (res_map_err app_error_from_nfs (file_clone_from_repr_c (np_no P) c_file))) (\<lambda>file.
     and_then (lift_res (encode_decode (read_c_string ff c_name))) (\<lambda>file_name.
       app_nfs_call (nfs_update (np_env P) (np_co P) (np_no P) (mdata_info_clone_from_repr_c parent_info) file_name file
         (version_of version))))"

definition dir_delete_file ::
  "'n content_params \<Rightarrow> ffi_ops \<Rightarrow> ffi_mdata_info \<Rightarrow> bytes \<Rightarrow> bool \<Rightarrow> u64 \<Rightarrow> ('n, u64) apm" where
  "dir_delete_file P ff parent_info c_name published version =
     and_then (lift_res (encode_decode (read_c_string ff c_name))) (\<lambda>file_name.
       app_nfs_call (nfs_delete (np_env P) (np_co P) (np_no P) (mdata_info_clone_from_repr_c parent_info) file_name published
         (version_of version)))"

subsection \<open>Open files\<close>

unbundle bit_operations_syntax

definition OPEN_MODE_OVERWRITE :: u64 where
  "OPEN_MODE_OVERWRITE = 1"

definition OPEN_MODE_APPEND :: u64 where
  "OPEN_MODE_APPEND = 2"

definition OPEN_MODE_READ :: u64 where
  "OPEN_MODE_READ = 4"

definition FILE_READ_TO_END :: u64 where
  "FILE_READ_TO_END = 0"

definition opened_reader :: "'n content_params \<Rightarrow> nfs_file \<Rightarrow> sym_key option \<Rightarrow> u64 \<Rightarrow> ('n, self_encryptor option) nm" where
  "opened_reader P file key open_mode =
     (if open_mode AND OPEN_MODE_READ \<noteq> 0 then map_prog Some (nfs_read P file key) else lift_res (Ok None))"

definition opened_writer :: "'n content_params \<Rightarrow> nfs_file \<Rightarrow> sym_key option \<Rightarrow> u64 \<Rightarrow> ('n, nfs_writer option) nm" where
  "opened_writer P file key open_mode =
     (if open_mode AND (OPEN_MODE_OVERWRITE OR OPEN_MODE_APPEND) \<noteq> 0
      then map_prog Some (nfs_write P file (if open_mode AND OPEN_MODE_APPEND \<noteq> 0 then Append else Overwrite) key)
      else lift_res (Ok None))"

definition file_open :: "'n content_params \<Rightarrow> ffi_mdata_info \<Rightarrow> ffi_file \<Rightarrow> u64 \<Rightarrow> ('n, object_handle) apm" where
  "file_open P parent_info c_file open_mode =
     (let key = mi_enc_key (mdata_info_clone_from_repr_c parent_info) in
      and_then (lift_res (res_map_err app_error_from_nfs (file_clone_from_repr_c (np_no P) c_file))) (\<lambda>file.
      and_then (app_nfs_call (join2 (opened_reader P file key open_mode) (opened_writer P file key open_mode))) (\<lambda>(reader, writer).
        insert_cached (insert_file \<lparr>fc_reader = reader, fc_writer = writer, fc_original_file = file\<rparr>))))"

definition file_size :: "'n content_params \<Rightarrow> object_handle \<Rightarrow> ('n, u64) apm" where
  "file_size P file_h = read_cache (\<lambda>c. res_and_then (get_file file_h c) (\<lambda>ctx.
     res_map (reader_size P) (ok_or InvalidFileMode (fc_reader ctx))))"

text \<open>In a release build the subtraction wraps around.\<close>

definition file_read :: "'n content_params \<Rightarrow> object_handle \<Rightarrow> u64 \<Rightarrow> u64 \<Rightarrow> ('n, bytes) apm" where
  "file_read P file_h position len =
     and_then (read_cache (get_file file_h)) (\<lambda>ctx.
     and_then (lift_res (ok_or InvalidFileMode (fc_reader ctx))) (\<lambda>reader.
       app_nfs_call (reader_read P reader position
         (if len = FILE_READ_TO_END then reader_size P reader - position else len))))"

definition file_write :: "'n content_params \<Rightarrow> object_handle \<Rightarrow> bytes \<Rightarrow> ('n, unit) apm" where
  "file_write P file_h data =
     and_then (read_cache (get_file file_h)) (\<lambda>ctx.
     and_then (lift_res (ok_or InvalidFileMode (fc_writer ctx))) (\<lambda>writer.
     and_then (app_nfs_call (writer_write P data writer)) (\<lambda>writer.
       write_cached (impl_write st_file_update file_h (ctx\<lparr>fc_writer := Some writer\<rparr>)))))"

definition file_close :: "'n content_params \<Rightarrow> object_handle \<Rightarrow> ('n, ffi_file) apm" where
  "file_close P file_h =
     and_then (on_cache (remove_file file_h)) (\<lambda>ctx.
       map_prog file_into_repr_c (case fc_writer ctx of
           Some writer \<Rightarrow> app_nfs_call (writer_close P writer)
         | None \<Rightarrow> lift_res (Ok (fc_original_file ctx))))"

end
