(* ===== verification/App_Ffi_Ipc.thy ===== *)
theory App_Ffi_Ipc
  imports App_Ffi_Keys
begin

section \<open>Messages of applications\<close>

text \<open>
  safe\_app/src/ffi/ipc.rs: an application encodes its requests and takes the responses apart, calling one of its
  callbacks. \<open>ipc_event\<close> is the callback with its arguments; the text that goes with an error code is
  not modelled, only that it has to be a C string (\<open>ffi_error_text\<close>).
\<close>

record ffi_ipc_ops =
  rnd_u32 :: "nat \<Rightarrow> u32" \<comment> \<open>\<open>gen_range(0, u32::MAX)\<close>\<close>
  ffi_error_text :: "app_error \<Rightarrow> bytes"

text \<open>What an application's callbacks get.\<close>

datatype ipc_event =
    OnAuth u32 ffi_auth_granted
  | OnUnregistered u32 bytes
  | OnContainers u32
  | OnShareMData u32
  | OnRevoked
  | OnError int bytes u32

subsection \<open>Requests\<close>

definition app_encode_ipc :: "msg_ops \<Rightarrow> bool \<Rightarrow> u32 \<Rightarrow> ipc_req \<Rightarrow> bytes app_result" where
  "app_encode_ipc mo mock req_id ipc_request =
     res_and_then (res_map_err app_error_from_ipc (encode_msg mo mock (IpcReqMsg req_id ipc_request))) (\<lambda>encoded.
       res_map_err app_error_from_nul (cstring_new encoded))"

text \<open>The request was read from its C representation; whether that failed is looked at after the identifier was drawn.\<close>

definition encode_req ::
  "ffi_ipc_ops \<Rightarrow> msg_ops \<Rightarrow> bool \<Rightarrow> ipc_req ipc_result \<Rightarrow> ('n, 'z, u32 \<times> bytes) fwm" where
  "encode_req fo mo mock ipc_request =
     and_then (map_err app_error_from_core (draw (rnd_u32 fo))) (\<lambda>r.
       let req_id = gen_req_id r in
       and_then (lift_res (res_map_err app_error_from_ipc ipc_request)) (\<lambda>ipc_request.
         lift_res (res_map (Pair req_id) (app_encode_ipc mo mock req_id ipc_request))))"

definition encode_auth_req ::
  "ffi_ipc_ops \<Rightarrow> msg_ops \<Rightarrow> ffi_ops \<Rightarrow> bool \<Rightarrow> ffi_auth_req \<Rightarrow> ('n, 'z, u32 \<times> bytes) fwm" where
  "encode_auth_req fo mo ff mock ipc_request = encode_req fo mo mock (res_map ReqAuth (auth_req_clone_from_repr_c ff ipc_request))"

definition encode_containers_req ::
  "ffi_ipc_ops \<Rightarrow> msg_ops \<Rightarrow> ffi_ops \<Rightarrow> bool \<Rightarrow> ffi_containers_req \<Rightarrow> ('n, 'z, u32 \<times> bytes) fwm" where
  "encode_containers_req fo mo ff mock ipc_request = encode_req fo mo mock (res_map ReqContainers (containers_req_clone_from_repr_c ff ipc_request))"

definition encode_unregistered_req ::
  "ffi_ipc_ops \<Rightarrow> msg_ops \<Rightarrow> bool \<Rightarrow> bytes \<Rightarrow> ('n, 'z, u32 \<times> bytes) fwm" where
  "encode_unregistered_req fo mo mock extra_data = encode_req fo mo mock (Ok (ReqUnregistered extra_data))"

definition encode_share_mdata_req ::
  "ffi_ipc_ops \<Rightarrow> msg_ops \<Rightarrow> ffi_ops \<Rightarrow> perm_ops \<Rightarrow> bool \<Rightarrow> ffi_share_mdata_req \<Rightarrow> ('n, 'z, u32 \<times> bytes) fwm" where
  "encode_share_mdata_req fo mo ff po mock ipc_request =
     encode_req fo mo mock (res_map ReqShareMData (share_mdata_req_clone_from_repr_c ff po ipc_request))"

subsection \<open>Responses\<close>

definition on_error :: "ffi_ipc_ops \<Rightarrow> ffi_ops \<Rightarrow> u32 \<Rightarrow> ipc_error \<Rightarrow> ipc_event app_result" where
  "on_error fo ff req_id err = (let e = app_error_from_ipc err in
     res_map (\<lambda>description. OnError (app_error_code e) description req_id)
       (encode_decode (cstring_or_string_error ff (ffi_error_text fo e))))"

definition decode_ipc_msg_impl :: "ffi_ipc_ops \<Rightarrow> ipc_ops \<Rightarrow> ipc_msg \<Rightarrow> ipc_event app_result" where
  "decode_ipc_msg_impl fo io msg = (case msg of
     IpcRespMsg req_id (IpcAuth res) \<Rightarrow> (case res of
         Ok granted \<Rightarrow> (case auth_granted_into_repr_c io granted of
             Ok g \<Rightarrow> Ok (OnAuth req_id g)
           | Err err \<Rightarrow> on_error fo (ffi io) req_id err)
       | Err err \<Rightarrow> on_error fo (ffi io) req_id err)
   | IpcRespMsg req_id (IpcContainers res) \<Rightarrow> (case res of
         Ok _ \<Rightarrow> Ok (OnContainers req_id)
       | Err err \<Rightarrow> on_error fo (ffi io) req_id err)
   | IpcRespMsg req_id (IpcUnregistered res) \<Rightarrow> (case res of
         Ok bootstrap_cfg \<Rightarrow> res_map (OnUnregistered req_id) (encode_decode (ser_bootstrap io bootstrap_cfg))
       | Err err \<Rightarrow> on_error fo (ffi io) req_id err)
   | IpcRespMsg req_id (IpcShareMData res) \<Rightarrow> (case res of
         Ok _ \<Rightarrow> Ok (OnShareMData req_id)
       | Err err \<Rightarrow> on_error fo (ffi io) req_id err)
   | IpcRevoked _ \<Rightarrow> Ok OnRevoked
   | _ \<Rightarrow> Err (app_error_from_ipc InvalidMsg))"

text \<open>
  An error that is not inside of a response is passed to the callback for errors by \<open>catch_unwind_cb\<close> and is the error of the call.
\<close>

definition app_decode_ipc_msg :: "ffi_ipc_ops \<Rightarrow> ipc_ops \<Rightarrow> msg_ops \<Rightarrow> bool \<Rightarrow> bytes \<Rightarrow> ipc_event app_result" where
  "app_decode_ipc_msg fo io mo mock c_msg =
     res_and_then (encode_decode (read_c_string (ffi io) c_msg)) (\<lambda>msg.
     res_and_then (res_map_err app_error_from_ipc (decode_msg mo mock msg)) (decode_ipc_msg_impl fo io))"

subsection \<open>What the wire promises\<close>

text \<open>The text encoding is undone by its decoding and gives plain text; a message is carried when its serialisation is undone.\<close>

definition text_laws :: "msg_ops \<Rightarrow> bool" where
  "text_laws mo \<longleftrightarrow> (\<forall>b. b32_decode mo (b32_encode mo b) = Ok b \<and> is_utf8 (b32_encode mo b) \<and> 0 \<notin> set (b32_encode mo b))"

definition carried :: "msg_ops \<Rightarrow> bool \<Rightarrow> ipc_msg \<Rightarrow> bool" where
  "carried mo mock msg \<longleftrightarrow> (\<exists>b. ser_msg mo (msg, mock) = Ok b \<and> de_msg mo b = Ok (msg, mock))"

lemma encoded_carried:
  assumes "text_laws mo" and "carried mo mock msg"
  obtains encoded where "encode_msg mo mock msg = Ok encoded" "is_utf8 encoded" "0 \<notin> set encoded" "decode_msg mo mock encoded = Ok msg"
proof -
  obtain b where "ser_msg mo (msg, mock) = Ok b" "de_msg mo b = Ok (msg, mock)"
    using assms(2) by (auto simp: carried_def)
  then show ?thesis
    using assms(1) by (intro that [of "0x62 # b32_encode mo b"])
      (simp_all add: text_laws_def encode_msg_def decode_msg_def from_serialisation_def)
qed

lemma read_text: "ffi_laws ff \<Longrightarrow> is_utf8 s \<Longrightarrow> 0 \<notin> set s \<Longrightarrow> read_c_string ff s = Ok s"
  by (simp add: ffi_laws_def)

lemma app_decodes_carried:
  assumes "ffi_laws (ffi io)" and "text_laws mo" and "carried mo mock msg" and "encode_msg mo mock msg = Ok encoded"
  shows "app_decode_ipc_msg fo io mo mock encoded = decode_ipc_msg_impl fo io msg"
proof -
  have "is_utf8 encoded" "0 \<notin> set encoded" and dec: "decode_msg mo mock encoded = Ok msg"
    using encoded_carried [OF assms(2,3)] assms(4) by auto
  then have "read_c_string (ffi io) encoded = Ok encoded"
    using read_text [OF assms(1)] by blast
  then show ?thesis
    by (simp add: app_decode_ipc_msg_def encode_decode_def dec)
qed

lemma on_error_text:
  "0 \<notin> set (ffi_error_text fo (app_error_from_ipc err)) \<Longrightarrow>
   on_error fo ff req_id err = Ok (OnError (app_error_code (app_error_from_ipc err)) (ffi_error_text fo (app_error_from_ipc err)) req_id)"
  by (simp add: on_error_def cstring_or_string_error_def cstring_new_def encode_decode_def Let_def)

end
