(* ===== verification/App_Ffi_Props.thy ===== *)
theory App_Ffi_Props
  imports App_Ffi_Files App_Ffi_Ipc Content_Props Auth_Apps App_Props
begin

section \<open>The C interface of applications\<close>

text \<open>
  The calls on handles do what the functions behind them do: a file that is opened, written piece by piece and
  closed through its handle is \<open>write_file\<close>, one that is opened and read to its end is \<open>read_file\<close>.
\<close>

abbreviation app_cache :: "'n app_session \<Rightarrow> object_cache" where
  "app_cache s \<equiv> context_object_cache (as_context s)"

abbreviation app_base :: "'n app_session \<Rightarrow> 'n client" where
  "app_base s \<equiv> ac_client (as_client s)"

lemma cache_set [simp]: "context_object_cache (set_object_cache c ctx) = c"
  by (cases ctx) (simp_all add: context_object_cache_def set_object_cache_def)

lemma app_nfs_call_Some:
  assumes "m (app_base s) = Some (r, c)"
  obtains s' where "app_nfs_call m s = Some (res_map_err app_error_from_nfs r, s')" and "app_base s' = c" and "as_context s' = as_context s"
  using assms by (auto simp: app_nfs_call_def intro: that)

lemma app_nfs_call_None: "m (app_base s) = None \<Longrightarrow> app_nfs_call m s = None"
  by (simp add: app_nfs_call_def)

subsection \<open>Files through handles\<close>

text \<open>A session in which a handle stands for a file context.\<close>

definition open_as :: "object_handle \<Rightarrow> file_context \<Rightarrow> 'n app_session \<Rightarrow> bool" where
  "open_as h ctx s \<longleftrightarrow> get_file h (app_cache s) = Ok ctx"

fun file_write_all :: "'n content_params \<Rightarrow> object_handle \<Rightarrow> bytes list \<Rightarrow> ('n, unit) apm" where
  "file_write_all P h [] = lift_res (Ok ())"
| "file_write_all P h (d # ds) = and_then (file_write P h d) (\<lambda>_. file_write_all P h ds)"

definition ffi_write_file :: "'n content_params \<Rightarrow> ffi_mdata_info \<Rightarrow> ffi_file \<Rightarrow> u64 \<Rightarrow> bytes list \<Rightarrow> ('n, ffi_file) apm" where
  "ffi_write_file P info file open_mode ds =
     and_then (file_open P info file open_mode) (\<lambda>h. and_then (file_write_all P h ds) (\<lambda>_. file_close P h))"

definition ffi_read_file :: "'n content_params \<Rightarrow> ffi_mdata_info \<Rightarrow> ffi_file \<Rightarrow> ('n, bytes) apm" where
  "ffi_read_file P info file =
     and_then (file_open P info file OPEN_MODE_READ) (\<lambda>h. and_then (file_read P h 0 FILE_READ_TO_END) (\<lambda>content.
       map_prog (\<lambda>_. content) (file_close P h)))"

lemma read_open: "open_as h ctx s \<Longrightarrow> read_cache (get_file h) s = Some (Ok ctx, s)"
  by (simp add: open_as_def read_cache_def gets_def)

lemma inserted_file:
  obtains h s' where "insert_cached (insert_file ctx) s = Some (Ok h, s')" and "open_as h ctx s'" and "app_base s' = app_base s"
proof -
  obtain h c where ins: "insert_file ctx (app_cache s) = (h, c)"
    by fastforce
  then have "get_file h c = Ok ctx"
    using oc_file.get_inserted by (simp add: insert_file_def get_file_def)
  with ins show ?thesis
    by (intro that [of h "s\<lparr>as_context := set_object_cache c (as_context s)\<rparr>"]) (simp_all add: insert_cached_def on_cache_def open_as_def)
qed

lemma written_context:
  obtains s' where "write_cached (impl_write st_file_update h ctx) s = Some (Ok (), s')" and "open_as h ctx s'" and "app_base s' = app_base s"
proof -
  have "get_file h (impl_write st_file_update h ctx (app_cache s)) = Ok ctx"
    using oc_file.get_written [of h h ctx] by (simp add: get_file_def)
  then show ?thesis
    by (intro that [of "s\<lparr>as_context := set_object_cache (impl_write st_file_update h ctx (app_cache s)) (as_context s)\<rparr>"])
      (simp_all add: write_cached_def on_cache_def open_as_def)
qed

lemma file_write_step:
  assumes "open_as h ctx s" and "fc_writer ctx = Some w" and run: "writer_write P d w (app_base s) = Some (r, c)"
  obtains s' where "file_write P h d s = Some (res_map (\<lambda>_. ()) (res_map_err app_error_from_nfs r), s')" and "app_base s' = c"
    and "\<And>w'. r = Ok w' \<Longrightarrow> open_as h (ctx\<lparr>fc_writer := Some w'\<rparr>) s'"
proof -
  obtain s1 where s1: "app_nfs_call (writer_write P d w) s = Some (res_map_err app_error_from_nfs r, s1)" "app_base s1 = c"
    using app_nfs_call_Some [where m = "writer_write P d w", OF run] .
  show ?thesis
  proof (cases r)
    case (Inl e)
    then show ?thesis
      using s1 assms(2) by (intro that [of s1]) (simp_all add: file_write_def and_then_def read_open [OF assms(1)])
  next
    case (Inr w')
    obtain s2 where "write_cached (impl_write st_file_update h (ctx\<lparr>fc_writer := Some w'\<rparr>)) s1 = Some (Ok (), s2)"
        "open_as h (ctx\<lparr>fc_writer := Some w'\<rparr>) s2" "app_base s2 = app_base s1"
      by (rule written_context)
    then show ?thesis
      using Inr s1 assms(2) by (intro that [of s2]) (simp_all add: file_write_def and_then_def read_open [OF assms(1)])
  qed
qed

lemma file_write_all_steps:
  assumes "open_as h ctx s" and "fc_writer ctx = Some w" and "writer_write_all P ds w (app_base s) = Some (r, c)"
  shows "\<exists>s'. file_write_all P h ds s = Some (res_map (\<lambda>_. ()) (res_map_err app_error_from_nfs r), s') \<and> app_base s' = c \<and>
    (\<forall>w'. r = Ok w' \<longrightarrow> open_as h (ctx\<lparr>fc_writer := Some w'\<rparr>) s')"
  using assms
proof (induction ds arbitrary: s ctx w)
  case Nil
  have "open_as h (ctx\<lparr>fc_writer := Some w\<rparr>) s"
    using Nil(1,2) by (cases ctx) simp
  with Nil show ?case
    by auto
next
  case (Cons d ds)
  show ?case
  proof (cases "writer_write P d w (app_base s)")
    case None
    then show ?thesis
      using Cons.prems(3) by (simp add: and_then_def)
  next
    case (Some x)
    obtain r1 c1 where x: "writer_write P d w (app_base s) = Some (r1, c1)"
      using Some by (cases x) simp
    obtain s1 where s1: "file_write P h d s = Some (res_map (\<lambda>_. ()) (res_map_err app_error_from_nfs r1), s1)" "app_base s1 = c1"
        and opened: "\<And>w'. r1 = Ok w' \<Longrightarrow> open_as h (ctx\<lparr>fc_writer := Some w'\<rparr>) s1"
      using file_write_step [OF Cons.prems(1,2) x] by blast
    show ?thesis
    proof (cases r1)
      case (Inl e)
      then show ?thesis
        using Cons.prems(3) x s1 by (auto simp: and_then_def)
    next
      case (Inr w')
      then have "writer_write_all P ds w' (app_base s1) = Some (r, c)"
        using Cons.prems(3) x s1(2) by (simp add: and_then_def)
      from Cons.IH [OF opened [OF Inr] _ this] show ?thesis
        using Inr s1(1) by (simp add: and_then_def)
    qed
  qed
qed

lemma removed_file:
  assumes "open_as h ctx s"
  obtains s' where "on_cache (remove_file h) s = Some (Ok ctx, s')" and "app_base s' = app_base s"
    and "get_file h (app_cache s') = Err InvalidFileContextHandle"
proof -
  obtain r c where rem: "remove_file h (app_cache s) = (r, c)"
    by fastforce
  then have "r = Ok ctx" "get_file h c = Err InvalidFileContextHandle"
    using oc_file.get_removed [of h "app_cache s" r c h] assms by (simp_all add: remove_file_def get_file_def open_as_def)
  with rem show ?thesis
    by (intro that [of "s\<lparr>as_context := set_object_cache c (as_context s)\<rparr>"]) (simp_all add: on_cache_def)
qed

lemma file_close_step:
  assumes "open_as h ctx s" and "(case fc_writer ctx of Some w \<Rightarrow> writer_close P w (app_base s)
      | None \<Rightarrow> Some (Ok (fc_original_file ctx), app_base s)) = Some (r, c)"
  shows "\<exists>s'. file_close P h s = Some (res_map file_into_repr_c (res_map_err app_error_from_nfs r), s') \<and> app_base s' = c"
proof -
  obtain s1 where s1: "on_cache (remove_file h) s = Some (Ok ctx, s1)" "app_base s1 = app_base s"
    using removed_file [OF assms(1)] .
  show ?thesis
  proof (cases "fc_writer ctx")
    case None
    then show ?thesis
      using s1 assms(2) by (auto simp: file_close_def and_then_def map_prog_def)
  next
    case (Some w)
    then have "writer_close P w (app_base s1) = Some (r, c)"
      using assms(2) s1(2) by simp
    then show ?thesis
      by (rule app_nfs_call_Some) (use s1 Some in \<open>auto simp: file_close_def and_then_def map_prog_def\<close>)
  qed
qed

lemma mode_bits:
  "opened_reader P file key OPEN_MODE_OVERWRITE = lift_res (Ok None)" "opened_reader P file key OPEN_MODE_APPEND = lift_res (Ok None)"
  "opened_reader P file key OPEN_MODE_READ = map_prog Some (nfs_read P file key)"
  "opened_writer P file key OPEN_MODE_OVERWRITE = map_prog Some (nfs_write P file Overwrite key)"
  "opened_writer P file key OPEN_MODE_APPEND = map_prog Some (nfs_write P file Append key)"
  "opened_writer P file key OPEN_MODE_READ = lift_res (Ok None)"
  by (simp_all add: opened_reader_def opened_writer_def OPEN_MODE_OVERWRITE_def OPEN_MODE_APPEND_def OPEN_MODE_READ_def)

text \<open>Opening a file runs the two parts and puts what they gave under a fresh handle.\<close>

lemma file_open_step:
  assumes "file_clone_from_repr_c (np_no P) cf = Ok file" and "key = mi_enc_key (mdata_info_clone_from_repr_c info)"
    and "join2 (opened_reader P file key om) (opened_writer P file key om) (app_base s) = Some (r, c)"
  shows "\<exists>s'. app_base s' = c \<and> (case r of
      Err e \<Rightarrow> file_open P info cf om s = Some (Err (app_error_from_nfs e), s')
    | Ok (reader, writer) \<Rightarrow> \<exists>h. file_open P info cf om s = Some (Ok h, s') \<and>
        open_as h \<lparr>fc_reader = reader, fc_writer = writer, fc_original_file = file\<rparr> s')"
proof -
  obtain s1 where s1: "app_nfs_call (join2 (opened_reader P file key om) (opened_writer P file key om)) s =
      Some (res_map_err app_error_from_nfs r, s1)" "app_base s1 = c"
    using app_nfs_call_Some [where s = s and m = "join2 (opened_reader P file key om) (opened_writer P file key om)", OF assms(3)] .
  show ?thesis
  proof (cases r)
    case (Inl e)
    then show ?thesis
      using s1 assms(1,2) by (auto simp: file_open_def and_then_def Let_def)
  next
    case (Inr rw)
    obtain reader writer where rw: "rw = (reader, writer)"
      by fastforce
    obtain h s2 where s2: "insert_cached (insert_file \<lparr>fc_reader = reader, fc_writer = writer, fc_original_file = file\<rparr>) s1 = Some (Ok h, s2)"
        "open_as h \<lparr>fc_reader = reader, fc_writer = writer, fc_original_file = file\<rparr> s2" "app_base s2 = app_base s1"
      by (rule inserted_file)
    then have "file_open P info cf om s = Some (Ok h, s2)"
      using Inr rw s1 assms(1,2) by (simp add: file_open_def and_then_def Let_def)
    with Inr rw s1(2) s2(2,3) show ?thesis
      by auto
  qed
qed

text \<open>What remains of a write and of a read after the file was opened.\<close>

lemma opened_write:
  assumes "open_as h ctx s" and "fc_writer ctx = Some w"
    and "and_then (writer_write_all P ds w) (writer_close P) (app_base s) = Some (r, c)"
  shows "\<exists>s'. and_then (file_write_all P h ds) (\<lambda>_. file_close P h) s =
      Some (res_map file_into_repr_c (res_map_err app_error_from_nfs r), s') \<and> app_base s' = c"
  using assms(3)
proof (cases rule: and_then_Some)
  case (goes_on w' c1)
  obtain s1 where s1: "file_write_all P h ds s = Some (Ok (), s1)" "app_base s1 = c1" "open_as h (ctx\<lparr>fc_writer := Some w'\<rparr>) s1"
    using file_write_all_steps [OF assms(1,2) goes_on(1)] by auto
  then show ?thesis
    using file_close_step [OF s1(3), of P r c] goes_on(2) by (simp add: and_then_def)
next
  case (fails e)
  then show ?thesis
    using file_write_all_steps [OF assms(1,2) fails(1)] by (auto simp: and_then_def)
qed

lemma opened_read:
  assumes "open_as h \<lparr>fc_reader = Some reader, fc_writer = None, fc_original_file = file\<rparr> s"
    and "reader_read P reader 0 (reader_size P reader) (app_base s) = Some (r, c)"
  shows "\<exists>s'. and_then (file_read P h 0 FILE_READ_TO_END) (\<lambda>content. map_prog (\<lambda>_. content) (file_close P h)) s =
      Some (res_map_err app_error_from_nfs r, s') \<and> app_base s' = c"
proof -
  obtain s1 where s1: "app_nfs_call (reader_read P reader 0 (reader_size P reader)) s = Some (res_map_err app_error_from_nfs r, s1)"
      "app_base s1 = c" "as_context s1 = as_context s"
    using app_nfs_call_Some [where s = s and m = "reader_read P reader 0 (reader_size P reader)", OF assms(2)] .
  have read: "file_read P h 0 FILE_READ_TO_END s = Some (res_map_err app_error_from_nfs r, s1)"
    by (simp add: file_read_def and_then_def read_open [OF assms(1)] s1(1))
  have opened: "open_as h \<lparr>fc_reader = Some reader, fc_writer = None, fc_original_file = file\<rparr> s1"
    using assms(1) s1(3) by (simp add: open_as_def)
  obtain s2 where "file_close P h s1 = Some (Ok (file_into_repr_c file), s2)" "app_base s2 = c"
    using file_close_step [OF opened, of P "Ok file" c] s1(2) by auto
  then show ?thesis
    using read s1(2) by (cases r) (simp_all add: and_then_def map_prog_def)
qed

lemma handle_writes:
  assumes cfile: "file_clone_from_repr_c (np_no P) cf = Ok file" and key: "key = mi_enc_key (mdata_info_clone_from_repr_c info)"
    and run: "write_file P file mode key ds (app_base s) = Some (r, c)"
    and om: "opened_reader P file key om = lift_res (Ok None)" "opened_writer P file key om = map_prog Some (nfs_write P file mode key)"
  shows "\<exists>s'. ffi_write_file P info cf om ds s = Some (res_map file_into_repr_c (res_map_err app_error_from_nfs r), s') \<and> app_base s' = c"
  using run unfolding write_file_def
proof (cases rule: and_then_Some)
  case (fails e)
  then show ?thesis
    using file_open_step [OF cfile key, of om s "Err e" c] by (auto simp: om join2_def map_prog_def ffi_write_file_def and_then_def)
next
  case (goes_on w c1)
  let ?ctx = "\<lparr>fc_reader = None, fc_writer = Some w, fc_original_file = file\<rparr>"
  have "\<exists>s1. app_base s1 = c1 \<and> (\<exists>h. file_open P info cf om s = Some (Ok h, s1) \<and> open_as h ?ctx s1)"
    using file_open_step [OF cfile key, of om s "Ok (None, Some w)" c1] goes_on(1) by (simp add: om join2_def map_prog_def)
  then obtain s1 h where s1: "app_base s1 = c1" "file_open P info cf om s = Some (Ok h, s1)" "open_as h ?ctx s1"
    by blast
  then show ?thesis
    using opened_write [OF s1(3), of w P ds r c] goes_on(2) by (simp add: ffi_write_file_def and_then_cases)
qed

lemma handle_reads:
  assumes cfile: "file_clone_from_repr_c (np_no P) cf = Ok file" and key: "key = mi_enc_key (mdata_info_clone_from_repr_c info)"
    and run: "read_file P file key (app_base s) = Some (q, c)"
  shows "\<exists>s'. ffi_read_file P info cf s = Some (res_map_err app_error_from_nfs q, s') \<and> app_base s' = c"
  using run unfolding read_file_def
proof (cases rule: and_then_Some)
  case (fails e)
  then show ?thesis
    using file_open_step [OF cfile key, of OPEN_MODE_READ s "Err e" c]
    by (auto simp: mode_bits join2_def map_prog_def ffi_read_file_def and_then_def)
next
  case (goes_on reader c1)
  let ?ctx = "\<lparr>fc_reader = Some reader, fc_writer = None, fc_original_file = file\<rparr>"
  have "\<exists>s1. app_base s1 = c1 \<and> (\<exists>h. file_open P info cf OPEN_MODE_READ s = Some (Ok h, s1) \<and> open_as h ?ctx s1)"
    using file_open_step [OF cfile key, of OPEN_MODE_READ s "Ok (Some reader, None)" c1] goes_on(1)
    by (simp add: mode_bits join2_def map_prog_def)
  then obtain s1 h where s1: "app_base s1 = c1" "file_open P info cf OPEN_MODE_READ s = Some (Ok h, s1)" "open_as h ?ctx s1"
    by blast
  then show ?thesis
    using opened_read [OF s1(3), of P q c] goes_on(2) by (simp add: ffi_read_file_def and_then_cases)
qed

text \<open>
  (C11) Files are written and read through handles as they are without: opening a file of the C interface, writing pieces to it and
  closing it returns what \<open>write_file\<close> returns for the file and its mode, with the error codes of the application library, and
  leaves the client in the same state; opening it to read, reading to the end and closing it does so for \<open>read_file\<close>.
\<close>

theorem file_handles_refine_files:
  assumes cfile: "file_clone_from_repr_c (np_no P) cf = Ok file" and key: "key = mi_enc_key (mdata_info_clone_from_repr_c info)"
  shows "(write_file P file Overwrite key ds (app_base s) = Some (r, c) \<longrightarrow>
      (\<exists>s'. ffi_write_file P info cf OPEN_MODE_OVERWRITE ds s = Some (res_map file_into_repr_c (res_map_err app_error_from_nfs r), s') \<and> app_base s' = c)) \<and>
    (write_file P file Append key ds (app_base s) = Some (r, c) \<longrightarrow>
      (\<exists>s'. ffi_write_file P info cf OPEN_MODE_APPEND ds s = Some (res_map file_into_repr_c (res_map_err app_error_from_nfs r), s') \<and> app_base s' = c)) \<and>
    (read_file P file key (app_base s) = Some (q, c) \<longrightarrow>
      (\<exists>s'. ffi_read_file P info cf s = Some (res_map_err app_error_from_nfs q, s') \<and> app_base s' = c))"
  by (intro conjI impI handle_writes [OF cfile key _ mode_bits(1,4)] handle_writes [OF cfile key _ mode_bits(2,5)]
      handle_reads [OF cfile key])

definition app_with_client :: "'n client \<Rightarrow> 'n app_session" where
  "app_with_client c = \<lparr>as_client = \<lparr>ac_client = c, ac_keys = \<lparr>ak_app_full_id = AppFullId [9, 1], ak_enc_key = [4], ak_enc_pk = [5], ak_enc_sk = [6]\<rparr>,
     ac_config = None\<rparr>, as_context = app_context_unregistered\<rparr>"

definition sample_dir_info :: ffi_mdata_info where
  "sample_dir_info = mdata_info_into_repr_c (new_public (MSeqAddr (XorName [3]) 4))"

theorem file_handles_refine_files_witness:
  "\<exists>f s'. ffi_write_file sample_content sample_dir_info (file_into_repr_c (sample_file\<lparr>f_published := False\<rparr>)) OPEN_MODE_OVERWRITE
     [[7, 8], [9]] (app_with_client rich_client) = Some (Ok f, s')"
proof -
  let ?file = "sample_file\<lparr>f_published := False\<rparr>"
  have "file_clone_from_repr_c (np_no sample_content) (file_into_repr_c ?file) = Ok ?file"
    by (simp add: file_clone_from_repr_c_def file_into_repr_c_def convert_date_time_def sample_nfs_def)
  moreover have "None = mi_enc_key (mdata_info_clone_from_repr_c sample_dir_info)"
    by (simp add: sample_dir_info_def mdata_info_clone_from_repr_c_def mdata_info_into_repr_c_def new_public_def mi_enc_key_def
        enc_info_into_repr_c_def enc_info_from_repr_c_def)
  moreover obtain f c where "write_file sample_content ?file Overwrite None [[7, 8], [9]] (app_base (app_with_client rich_client)) = Some (Ok f, c)"
    using sample_written by (metis app_with_client_def app_client.select_convs(1) app_session.select_convs(1))
  ultimately show ?thesis
    using file_handles_refine_files by fastforce
qed

lemma closed_twice:
  assumes "get_file h (app_cache s) = Err InvalidFileContextHandle"
  shows "file_close P h s = Some (Err InvalidFileContextHandle, s)"
proof -
  have none: "st_file (app_cache s) h = None"
    using assms by (auto simp: get_file_def impl_get_def ok_or_def split: option.splits)
  then have "remove_file h (app_cache s) = (Err InvalidFileContextHandle, app_cache s)"
    by (simp add: remove_file_def impl_remove_def fun_upd_idem)
  then have "on_cache (remove_file h) s = Some (Err InvalidFileContextHandle, s)"
    by (cases "as_context s") (simp_all add: on_cache_def set_object_cache_def context_object_cache_def)
  then show ?thesis
    by (simp add: file_close_def and_then_def)
qed

text \<open>
  (C36) The modes of open files are checked and closing ends a handle: without a reader there is no size and nothing is read, without a
  writer nothing is written, each with \<open>InvalidFileMode\<close> and without an effect; and once a close has returned, whatever it
  returned, every operation on the handle (size, read, write and another close) is refused with \<open>InvalidFileContextHandle\<close> and without an effect.
\<close>

theorem file_handles_checked:
  assumes "get_file h (app_cache s) = Ok ctx"
  shows "(fc_reader ctx = None \<longrightarrow> file_size P h s = Some (Err InvalidFileMode, s) \<and> file_read P h position len s = Some (Err InvalidFileMode, s)) \<and>
    (fc_writer ctx = None \<longrightarrow> file_write P h d s = Some (Err InvalidFileMode, s)) \<and>
    (\<forall>r s'. file_close P h s = Some (r, s') \<longrightarrow>
       file_size P h s' = Some (Err InvalidFileContextHandle, s') \<and> file_read P h position len s' = Some (Err InvalidFileContextHandle, s') \<and>
       file_write P h d s' = Some (Err InvalidFileContextHandle, s') \<and> file_close P h s' = Some (Err InvalidFileContextHandle, s'))"
proof -
  have opened: "open_as h ctx s"
    using assms by (simp add: open_as_def)
  obtain s1 where s1: "on_cache (remove_file h) s = Some (Ok ctx, s1)" "get_file h (app_cache s1) = Err InvalidFileContextHandle"
    using removed_file [OF opened] .
  have "get_file h (app_cache s') = Err InvalidFileContextHandle" if "file_close P h s = Some (r, s')" for r s'
    using that s1 by (auto simp: file_close_def and_then_def map_prog_def app_nfs_call_def split: option.splits prod.splits)
  then show ?thesis
    using assms closed_twice by (auto simp: file_size_def file_read_def file_write_def read_cache_def gets_def and_then_def)
qed

text \<open>
  (C37) Reading past the end, from a position behind the end of an open file. A read with a length is refused with \<open>InvalidRange\<close>, except
  where the sum of position and length, computed with 64 bits, wraps around to a number that is not greater than the
  size of the file: then the range outside of the file is passed on to the self-encryptor. A read with the length 0, which stands for the rest of the
  file, is never refused: the length that is computed wraps around, the check adds it to the position and finds the end of
  the file, and a range outside of the file is passed on to the self-encryptor.
\<close>

theorem file_read_past_end:
  assumes "get_file h (app_cache s) = Ok ctx" and "fc_reader ctx = Some reader" and past: "unat (reader_size P reader) < unat position"
  shows "(len \<noteq> FILE_READ_TO_END \<longrightarrow> file_read P h position len s =
      (if unat position + unat len < 2 ^ 64 \<or> unat (reader_size P reader) < unat position + unat len - 2 ^ 64
       then Some (Err (AppNfsError InvalidRange), s)
       else app_nfs_call (map_err NfsSelfEncryption
         (se_read (np_so P) (np_storage P (se_published reader)) (se_state reader) position len)) s)) \<and>
    file_read P h position FILE_READ_TO_END s = app_nfs_call (map_err NfsSelfEncryption
      (se_read (np_so P) (np_storage P (se_published reader)) (se_state reader) position (reader_size P reader - position))) s \<and>
    unat (reader_size P reader - position) = 2 ^ 64 - (unat position - unat (reader_size P reader))"
proof (intro conjI impI)
  let ?pass = "\<lambda>n. app_nfs_call (map_err NfsSelfEncryption
      (se_read (np_so P) (np_storage P (se_published reader)) (se_state reader) position n)) s"
  have opened: "read_cache (get_file h) s = Some (Ok ctx, s)"
    using assms(1) by (simp add: read_cache_def gets_def)
  have sizes: "unat position < 2 ^ 64" "unat len < 2 ^ 64"
    using unsigned_less [of position] unsigned_less [of len] by simp_all
  have "unat (position + len) = (if unat position + unat len < 2 ^ 64 then unat position + unat len else unat position + unat len - 2 ^ 64)"
    using sizes by (simp add: unat_word_ariths mod_if)
  then have refused: "reader_size P reader < position + len \<longleftrightarrow>
      unat position + unat len < 2 ^ 64 \<or> unat (reader_size P reader) < unat position + unat len - 2 ^ 64"
    using past by (auto simp: word_less_nat_alt)
  show "file_read P h position len s = (if unat position + unat len < 2 ^ 64 \<or> unat (reader_size P reader) < unat position + unat len - 2 ^ 64
      then Some (Err (AppNfsError InvalidRange), s) else ?pass len)" if "len \<noteq> FILE_READ_TO_END"
    unfolding refused [symmetric]
    using that assms(2) opened by (simp add: file_read_def and_then_def reader_read_def app_nfs_call_def app_error_from_nfs_def)
  show "file_read P h position FILE_READ_TO_END s = ?pass (reader_size P reader - position)"
    using assms(2) opened by (simp add: file_read_def and_then_def reader_read_def)
  have "reader_size P reader < position"
    using past by (simp add: word_less_nat_alt)
  then show "unat (reader_size P reader - position) = 2 ^ 64 - (unat position - unat (reader_size P reader))"
    using past sizes unat_sub_if_size [of "reader_size P reader" position] by (simp add: word_le_nat_alt word_size)
qed

subsection \<open>Keys under handles\<close>

lemmas key_store_defs = insert_cached_def on_cache_def read_cache_def gets_def insert_encrypt_key_def insert_secret_key_def get_encrypt_key_def
  get_secret_key_def insert_pub_sign_key_def insert_sec_sign_key_def get_pub_sign_key_def get_sec_sign_key_def impl_cache_defs

text \<open>
  Keys that were generated work through their handles: a sealed box for the public key is opened by the secret key, and
  a signature of the secret key is valid under the public key. The generator of handles must not be at its very
  end, where it wraps around to the handle that stands for the keys of the application itself.
\<close>

theorem generated_keys_work:
  assumes enc: "\<forall>n. key_pair ap (secret_public_key ko (rnd_secret_key ko n)) (rnd_secret_key ko n)" "codec_pair (ser_ciphertext ko) (de_ciphertext ko)"
    and sig: "\<forall>i m. key_verifies ko (client_public_key (ce_nd env) (full_client_id env i)) (client_sign env i m) m"
      "codec_pair (ser_signature ko) (de_signature ko)"
    and gen: "unat (handle_gen (app_cache s)) + 2 < 2 ^ 64"
  shows "(\<exists>pk_h sk_h s1 ct s2. enc_generate_key_pair ko s = Some (Ok (pk_h, sk_h), s1) \<and>
      encrypt_sealed_box ap ko plain pk_h s1 = Some (Ok ct, s2) \<and> decrypt_sealed_box ap ko ct sk_h s2 = Some (Ok plain, s2)) \<and>
    (\<exists>pk_h sk_h s1 sg. sign_generate_key_pair env ap s = Some (Ok (pk_h, sk_h), s1) \<and>
      ffi_sign env ko m sk_h s1 = Some (Ok sg, s1) \<and> ffi_verify env ko m sg pk_h s1 = Some (Ok True, s1))"
proof (intro conjI)
  let ?g = "handle_gen (app_cache s)"
  obtain ct where "ser_ciphertext ko (asym_encrypt ap (secret_public_key ko (rnd_secret_key ko (w_draws (app_base s)))) plain (Suc (w_draws (app_base s)))) = Ok ct"
      "de_ciphertext ko ct = Ok (asym_encrypt ap (secret_public_key ko (rnd_secret_key ko (w_draws (app_base s)))) plain (Suc (w_draws (app_base s))))"
    using enc(2) by (meson codec_pairD)
  then show "\<exists>pk_h sk_h s1 ct s2. enc_generate_key_pair ko s = Some (Ok (pk_h, sk_h), s1) \<and>
      encrypt_sealed_box ap ko plain pk_h s1 = Some (Ok ct, s2) \<and> decrypt_sealed_box ap ko ct sk_h s2 = Some (Ok plain, s2)"
    using enc(1) by (simp add: enc_generate_key_pair_def shared_box_gen_keypair_def encrypt_sealed_box_def decrypt_sealed_box_def
        app_call_def app_draw_def draw_def and_then_def key_store_defs encode_decode_def key_pair_def Let_def)
  have "unat (?g + 1) = unat ?g + 1" "unat (?g + 1 + 1) = unat ?g + 2"
    using gen by (simp_all add: unat_word_ariths)
  then have nonzero: "?g + 1 \<noteq> 0" "?g + 1 + 1 \<noteq> 0"
    by (metis add_is_0 unat_0 zero_neq_one, metis add_is_0 unat_0 zero_neq_numeral)
  obtain sg where "ser_signature ko (client_sign env (rnd_client_full_id ap (w_draws (app_base s))) m) = Ok sg"
      "de_signature ko sg = Ok (client_sign env (rnd_client_full_id ap (w_draws (app_base s))) m)"
    using sig(2) by (meson codec_pairD)
  then show "\<exists>pk_h sk_h s1 sg. sign_generate_key_pair env ap s = Some (Ok (pk_h, sk_h), s1) \<and>
      ffi_sign env ko m sk_h s1 = Some (Ok sg, s1) \<and> ffi_verify env ko m sg pk_h s1 = Some (Ok True, s1)"
    using sig(1) nonzero by (simp add: sign_generate_key_pair_def ffi_sign_def ffi_verify_def map_prog_def
        app_call_def app_draw_def draw_def and_then_def key_store_defs encode_decode_def Let_def SIGN_WITH_APP_def VERIFY_WITH_APP_def
        NULL_OBJECT_HANDLE_def)
qed

subsection \<open>An authorisation reaches the application\<close>

text \<open>
  A granted authorisation reaches the callback for authorisations, and what that callback gets registers the application with
  exactly what was granted.
\<close>

lemma granted_reaches_app:
  assumes laws: "ipc_laws io" and entry: "entry_wf (ag_access_container_entry ga)"
  shows "\<exists>g. decode_ipc_msg_impl fo io (IpcRespMsg req_id (IpcAuth (Ok ga))) = Ok (OnAuth req_id g) \<and>
    (\<forall>env app_id. is_utf8 app_id \<and> 0 \<notin> set app_id \<longrightarrow> ffi_app_registered env io app_id g = app_registered env app_id ga)"
proof -
  obtain g where g: "auth_granted_into_repr_c io ga = Ok g" "auth_granted_clone_from_repr_c io g = Ok ga"
    using auth_granted_repr_c_roundtrip [OF laws entry] by blast
  have "ffi_app_registered env io app_id g = app_registered env app_id ga" if "is_utf8 app_id" "0 \<notin> set app_id" for env :: "'a client_env" and app_id
    using read_text [OF _ that, of "ffi io"] laws g(2) by (simp add: ffi_app_registered_def encode_decode_def ipc_laws_def)
  then show ?thesis
    using g(1) by (auto simp: decode_ipc_msg_impl_def)
qed

subsection \<open>Instances\<close>

text \<open>A text encoding in two letters.\<close>

definition unary_enc :: "bytes \<Rightarrow> bytes" where
  "unary_enc bs = concat (map (\<lambda>b. replicate (unat b) 0x31 @ [0x30]) bs)"

fun unary_dec :: "nat \<Rightarrow> bytes \<Rightarrow> bytes" where
  "unary_dec n [] = []"
| "unary_dec n (c # cs) = (if c = 0x31 then unary_dec (Suc n) cs else of_nat n # unary_dec 0 cs)"

lemma unary_dec_enc: "unary_dec 0 (unary_enc bs) = bs"
proof -
  have digits: "unary_dec n (replicate k 0x31 @ 0x30 # r) = of_nat (n + k) # unary_dec 0 r" for n k r
    by (induction k arbitrary: n) simp_all
  show ?thesis
    by (induction bs) (simp_all add: unary_enc_def digits)
qed

lemma unary_enc_text: "is_utf8 (unary_enc bs) \<and> 0 \<notin> set (unary_enc bs)"
proof -
  have ascii: "\<forall>x \<in> set s. x < 0x80 \<Longrightarrow> is_utf8 s" for s
    by (induction s) auto
  show ?thesis
    by (auto simp: unary_enc_def intro!: ascii)
qed

definition sample_ffi_ipc :: ffi_ipc_ops where
  "sample_ffi_ipc = \<lparr>rnd_u32 = of_nat, ffi_error_text = (\<lambda>_. [97])\<rparr>"

definition sample_ffi_keys :: ffi_key_ops where
  "sample_ffi_keys = \<lparr>ser_public_key = (\<lambda>pk. Ok (pk_bytes pk)), de_public_key = (\<lambda>b. Ok (PublicKey b)),
     ser_client_full_id = (\<lambda>i. case i of ClientFullId b \<Rightarrow> Ok b), de_client_full_id = (\<lambda>b. Ok (ClientFullId b)),
     enc_key_to_bytes = (\<lambda>b. b), enc_key_from_bytes = Ok, ser_secret_key = Ok, de_secret_key = Ok, rnd_secret_key = (\<lambda>n. [of_nat n]),
     secret_public_key = (\<lambda>b. b), ser_signature = Ok, de_signature = Ok, key_verifies = (\<lambda>pk sig m. sig = pk_bytes pk),
     ser_ciphertext = Ok, de_ciphertext = Ok, caught_panic = AppUnexpected ''panic''\<rparr>"

theorem generated_keys_work_witness:
  "\<exists>pk_h sk_h s1 ct s2. enc_generate_key_pair sample_ffi_keys (app_with_client rich_client) = Some (Ok (pk_h, sk_h), s1) \<and>
     encrypt_sealed_box sample_app_ops sample_ffi_keys [7, 8] pk_h s1 = Some (Ok ct, s2) \<and>
     decrypt_sealed_box sample_app_ops sample_ffi_keys ct sk_h s2 = Some (Ok [7, 8], s2)"
proof -
  have "\<forall>n. key_pair sample_app_ops (secret_public_key sample_ffi_keys (rnd_secret_key sample_ffi_keys n)) (rnd_secret_key sample_ffi_keys n)"
      "codec_pair (ser_ciphertext sample_ffi_keys) (de_ciphertext sample_ffi_keys)" "codec_pair (ser_signature sample_ffi_keys) (de_signature sample_ffi_keys)"
    by (simp_all add: sample_ffi_keys_def key_pair_def sample_app_ops_def pair_dec_enc codec_pair_def)
  moreover have "\<forall>i m. key_verifies sample_ffi_keys (client_public_key (ce_nd idata_env) (full_client_id idata_env i)) (client_sign idata_env i m) m"
    by (auto simp: sample_ffi_keys_def idata_env_def mock_env_def sample_ops_def idata_nd_def sample_nd_def split: client_full_id.split)
  moreover have "unat (handle_gen (app_cache (app_with_client rich_client))) + 2 < 2 ^ 64"
    by (simp add: app_with_client_def app_context_unregistered_def context_object_cache_def object_cache_new_def NULL_OBJECT_HANDLE_def)
  ultimately show ?thesis
    using generated_keys_work [of sample_app_ops sample_ffi_keys idata_env "app_with_client rich_client" "[7, 8]"] by blast
qed

theorem file_handles_checked_witness:
  "\<exists>s. file_size sample_content 1 s = Some (Err InvalidFileMode, s) \<and> file_write sample_content 1 [7] s = Some (Err InvalidFileMode, s)"
proof -
  let ?ctx = "\<lparr>fc_reader = None, fc_writer = None, fc_original_file = sample_file\<rparr>"
  let ?s = "(app_with_client rich_client)\<lparr>as_context := UnregisteredContext (snd (insert_file ?ctx object_cache_new))\<rparr>"
  have "get_file 1 (app_cache ?s) = Ok ?ctx"
    by (simp add: context_object_cache_def insert_file_def get_file_def impl_cache_defs object_cache_new_def NULL_OBJECT_HANDLE_def Let_def)
  from file_handles_checked [OF this, of sample_content 0 0 "[7]"] show ?thesis
    by (intro exI [of _ ?s]) simp
qed

theorem file_read_past_end_witness:
  "\<exists>s. file_read sample_content 1 9 1 s = Some (Err (AppNfsError InvalidRange), s) \<and>
     unat (reader_size sample_content \<lparr>se_published = True, se_state = [0, 1, 2, 3]\<rparr> - 9) = 2 ^ 64 - 6"
proof -
  let ?r = "\<lparr>se_published = True, se_state = [0, 1, 2, 3]\<rparr>"
  let ?ctx = "\<lparr>fc_reader = Some ?r, fc_writer = None, fc_original_file = sample_file\<rparr>"
  let ?s = "(app_with_client rich_client)\<lparr>as_context := UnregisteredContext (snd (insert_file ?ctx object_cache_new))\<rparr>"
  have "get_file 1 (app_cache ?s) = Ok ?ctx" "fc_reader ?ctx = Some ?r"
    by (simp_all add: context_object_cache_def insert_file_def get_file_def impl_cache_defs object_cache_new_def NULL_OBJECT_HANDLE_def Let_def)
  moreover have "unat (reader_size sample_content ?r) = 3"
    by (simp add: reader_size_def sample_se_def sample_len_def)
  ultimately show ?thesis
    using file_read_past_end [of 1 ?s ?ctx ?r sample_content 9 1] by (intro exI [of _ ?s]) (simp add: FILE_READ_TO_END_def)
qed

end
