(* ===== verification/Auth_Ffi.thy ===== *)
theory Auth_Ffi
  imports Auth_Apps Std_Dirs
begin

section \<open>The C interface of the authenticator\<close>

text \<open>
  safe\_authenticator/src/ffi: mod.rs (accounts), apps.rs (lists of apps) and ipc.rs (messages of apps and the answers of the
  user). A call is a program whose result is what its callback gets: an error of the program is the error that
  \<open>call_result_cb!\<close> or \<open>catch_unwind_cb\<close> passes to it. The arguments are the values behind the pointers.
\<close>

record auth_ffi_ops =
  auth_error_text :: "auth_error \<Rightarrow> string" \<comment> \<open>its text (\<open>Display\<close>)\<close>
  auth_error_debug :: "auth_error \<Rightarrow> string" \<comment> \<open>its \<open>Debug\<close> text\<close>
  auth_caught_panic :: auth_error \<comment> \<open>what \<open>catch_unwind_cb\<close> makes of a panic\<close>
  rnd_full_id :: "nat \<Rightarrow> client_full_id" \<comment> \<open>\<open>ClientFullId::new_bls\<close>\<close>
  buffer_of_0_ends :: bool \<comment> \<open>whether \<open>buffer_unordered(0)\<close> ends on an empty stream\<close>

definition auth_encode_decode :: "'e + 'a \<Rightarrow> 'a auth_result" where
  "auth_encode_decode r = res_map_err (\<lambda>_. AuthEncodeDecodeError) r"

definition auth_c_string :: "'n auth_params \<Rightarrow> bytes \<Rightarrow> bytes auth_result" where
  "auth_c_string P c = auth_encode_decode (read_c_string (ffi (ap_io P)) c)"

subsection \<open>Accounts\<close>

definition ffi_create_acc ::
  "auth_ffi_ops \<Rightarrow> 'n auth_params \<Rightarrow> auth_ops \<Rightarrow> bytes \<Rightarrow> bytes \<Rightarrow> ('n, 'n auth_client) gateway" where
  "ffi_create_acc fo P ao account_locator account_password =
     and_then (lift_res (auth_c_string P account_locator)) (\<lambda>acc_locator.
     and_then (lift_res (auth_c_string P account_password)) (\<lambda>acc_password.
     and_then (map_err AuthCoreError (draw (rnd_full_id fo))) (\<lambda>client_id.
     and_then (lift_res (res_map_err (\<lambda>_. auth_caught_panic fo) (coins_from_str (ce_nd (ap_env P)) ''10''))) (\<lambda>amount.
     and_then (map_err (\<lambda>_. auth_caught_panic fo) (test_create_balance (ap_env P) client_id amount)) (\<lambda>_.
       create_acc (auth_error_text fo) P ao acc_locator acc_password client_id)))))"

definition ffi_login ::
  "'n auth_params \<Rightarrow> auth_ops \<Rightarrow> bytes \<Rightarrow> bytes \<Rightarrow> ('n, 'n auth_client) gateway" where
  "ffi_login P ao account_locator account_password =
     and_then (lift_res (auth_c_string P account_locator)) (\<lambda>acc_locator.
     and_then (lift_res (auth_c_string P account_password)) (\<lambda>acc_password.
       authenticator_login P ao acc_locator acc_password))"

definition auth_reconnect :: "'n auth_params \<Rightarrow> ('n, unit) am" where
  "auth_reconnect P = map_err AuthCoreError (with_client (client_restart_network (ap_env P)))"

subsection \<open>Apps\<close>

definition auth_rm_revoked_app :: "'n auth_params \<Rightarrow> bytes \<Rightarrow> ('n, unit) am" where
  "auth_rm_revoked_app P c_app_id =
     and_then (lift_res (auth_c_string P c_app_id)) (remove_revoked_app P)"

definition auth_revoked_apps :: "'n auth_params \<Rightarrow> ('n, ffi_app_exchange_info list) am" where
  "auth_revoked_apps P = and_then (list_revoked P) (\<lambda>apps.
     lift_res (res_map_err AuthIpcError (try_map (app_exchange_info_into_repr_c (ffi (ap_io P))) apps)))"

definition auth_registered_apps :: "'n auth_params \<Rightarrow> ('n, ffi_registered_app list) am" where
  "auth_registered_apps P = and_then (list_registered P) (\<lambda>registered_apps.
     lift_res (res_map_err AuthIpcError (try_map (registered_app_into_repr_c (ffi (ap_io P))) registered_apps)))"

definition auth_apps_accessing_mutable_data :: "'n auth_params \<Rightarrow> bytes \<Rightarrow> u64 \<Rightarrow> ('n, ffi_app_access list) am" where
  "auth_apps_accessing_mutable_data P name md_type_tag =
     and_then (apps_accessing_mutable_data P (XorName name) md_type_tag) (\<lambda>apps_with_access.
       lift_res (res_map_err AuthIpcError (try_map (app_access_into_repr_c (ap_io P) (ap_po P)) apps_with_access)))"

subsection \<open>Messages of apps\<close>

text \<open>The callbacks of the decoding functions with their arguments.\<close>

datatype auth_event =
    OnAuthReq u32 ffi_auth_req
  | OnContainersReq u32 ffi_containers_req
  | OnUnregisteredReq u32 bytes
  | OnShareMDataReq u32 ffi_share_mdata_req "ffi_metadata_response list"
  | OnAuthError int bytes bytes \<comment> \<open>code, text, response to the app\<close>

definition auth_decode_msg :: "'n auth_params \<Rightarrow> msg_ops \<Rightarrow> bool \<Rightarrow> bytes \<Rightarrow> ipc_msg auth_result" where
  "auth_decode_msg P mo mock c_msg =
     res_and_then (auth_c_string P c_msg) (\<lambda>msg_raw. res_map_err AuthIpcError (decode_msg mo mock msg_raw))"

definition auth_unregistered_decode_ipc_msg ::
  "'n auth_params \<Rightarrow> msg_ops \<Rightarrow> bool \<Rightarrow> bytes \<Rightarrow> auth_event auth_result" where
  "auth_unregistered_decode_ipc_msg P mo mock c_msg =
     res_and_then (auth_decode_msg P mo mock c_msg) (\<lambda>msg. case msg of
         IpcReqMsg req_id (ReqUnregistered extra_data) \<Rightarrow> Ok (OnUnregisteredReq req_id extra_data)
       | _ \<Rightarrow> Err (AuthCoreError OperationForbidden))"

definition auth_decode_ipc_msg :: "'n auth_params \<Rightarrow> msg_ops \<Rightarrow> bool \<Rightarrow> bytes \<Rightarrow> ('n, auth_event) am" where
  "auth_decode_ipc_msg P mo mock c_msg = (let ff = ffi (ap_io P) in
     and_then (lift_res (auth_decode_msg P mo mock c_msg)) (\<lambda>msg.
     and_then (decode_ipc_msg P mo mock msg) (\<lambda>msg. case msg of
         Inr (IpcReqMsg req_id (ReqAuth auth_req)) \<Rightarrow>
           lift_res (res_map (OnAuthReq req_id) (res_map_err AuthIpcError (auth_req_into_repr_c ff auth_req)))
       | Inr (IpcReqMsg req_id (ReqContainers cont_req)) \<Rightarrow>
           lift_res (res_map (OnContainersReq req_id) (res_map_err AuthIpcError (containers_req_into_repr_c ff cont_req)))
       | Inr (IpcReqMsg req_id (ReqUnregistered extra_data)) \<Rightarrow> lift_res (Ok (OnUnregisteredReq req_id extra_data))
       | Inr (IpcReqMsg req_id (ReqShareMData share_mdata_req)) \<Rightarrow>
           and_then (decode_share_mdata_req P share_mdata_req) (\<lambda>metadata_cont.
             lift_res (res_map (\<lambda>repr_c. OnShareMDataReq req_id repr_c
                 (map (\<lambda>m. case m of Some metadata \<Rightarrow> metadata | None \<Rightarrow> metadata_response_invalid) metadata_cont))
               (res_map_err AuthIpcError (share_mdata_req_into_repr_c ff (ap_po P) share_mdata_req))))
       | Inl (error_code, description, err) \<Rightarrow>
           lift_res (res_map (\<lambda>d. OnAuthError error_code d err) (auth_encode_decode (cstring_new (string_bytes description))))
       | Inr _ \<Rightarrow> lift_res (Err (AuthUnexpected ''Unexpected msg type'')))))"

subsection \<open>Answers\<close>

text \<open>
  What the callback of an answer gets: a response for the app, or the code and the text of an error together with a response
  that tells the app about it. A callback that is never called gets nothing.
\<close>

datatype answer = Answered bytes | AnsweredError int bytes bytes | NotCalled

definition answer_with :: "'n auth_params \<Rightarrow> msg_ops \<Rightarrow> bool \<Rightarrow> ipc_msg \<Rightarrow> answer auth_result" where
  "answer_with P mo mock msg = res_map Answered (res_map_err AuthIpcError (encode_response (ap_io P) mo mock msg))"

definition answer_error ::
  "auth_ffi_ops \<Rightarrow> 'n auth_params \<Rightarrow> msg_ops \<Rightarrow> bool \<Rightarrow> (ipc_error \<Rightarrow> ipc_msg) \<Rightarrow> auth_error \<Rightarrow> answer auth_result" where
  "answer_error fo P mo mock msg e =
     res_and_then (res_map_err AuthIpcError (encode_response (ap_io P) mo mock (msg (auth_error_into_ipc (auth_error_debug fo) e)))) (\<lambda>resp.
     res_map (\<lambda>description. AnsweredError (auth_error_code e) description resp)
       (auth_encode_decode (cstring_new (string_bytes (auth_error_text fo e)))))"

definition auth_revoke_app :: "'n auth_params \<Rightarrow> msg_ops \<Rightarrow> bool \<Rightarrow> bytes \<Rightarrow> ('n, answer) am" where
  "auth_revoke_app P mo mock c_app_id =
     and_then (lift_res (auth_c_string P c_app_id)) (\<lambda>app_id.
     and_then (revoke_app (ap_env P) (ap_co P) (ap_cfg P) (ap_ac P) app_id) (\<lambda>_.
       lift_res (answer_with P mo mock (IpcRevoked app_id))))"

definition auth_flush_app_revocation_queue :: "'n auth_params \<Rightarrow> ('n, unit) am" where
  "auth_flush_app_revocation_queue P = flush_app_revocation_queue (ap_env P) (ap_co P) (ap_cfg P) (ap_ac P)"

definition encode_unregistered_resp :: "'n auth_params \<Rightarrow> msg_ops \<Rightarrow> bool \<Rightarrow> u32 \<Rightarrow> bool \<Rightarrow> answer auth_result" where
  "encode_unregistered_resp P mo mock req_id is_granted =
     (if \<not> is_granted then answer_with P mo mock (IpcRespMsg req_id (IpcUnregistered (Err AuthDenied)))
      else res_and_then (res_map_err AuthCoreError (client_bootstrap_config P)) (\<lambda>bootstrap_cfg.
        answer_with P mo mock (IpcRespMsg req_id (IpcUnregistered (Ok bootstrap_cfg)))))"

definition encode_auth_resp ::
  "auth_ffi_ops \<Rightarrow> 'n auth_params \<Rightarrow> msg_ops \<Rightarrow> bool \<Rightarrow> ffi_auth_req \<Rightarrow> u32 \<Rightarrow> bool \<Rightarrow> ('n, answer) am" where
  "encode_auth_resp fo P mo mock c_req req_id is_granted =
     and_then (lift_res (res_map_err AuthIpcError (auth_req_clone_from_repr_c (ffi (ap_io P)) c_req))) (\<lambda>auth_req.
       if \<not> is_granted then lift_res (answer_with P mo mock (IpcRespMsg req_id (IpcAuth (Err AuthDenied))))
       else or_else
         (and_then (authenticate_app P auth_req) (\<lambda>auth_granted.
           lift_res (answer_with P mo mock (IpcRespMsg req_id (IpcAuth (Ok auth_granted))))))
         (\<lambda>e. lift_res (answer_error fo P mo mock (\<lambda>i. IpcRespMsg req_id (IpcAuth (Err i))) e)))"

text \<open>
  The permissions of an app that asks for more containers: those of its entry in the access container, with the new ones in
  place of the old ones. The error of an answer that cannot be encoded is only logged.
\<close>

definition merged_perms :: "access_container_entry \<Rightarrow> u64 \<times> access_container_entry option \<Rightarrow> u64 \<times> access_container_entry" where
  "merged_perms perms = (\<lambda>(version, entry). case entry of
     Some existing_perms \<Rightarrow> (version + 1, fold (\<lambda>(key, val). hm_insert key val) perms existing_perms)
   | None \<Rightarrow> (0, perms))"

definition grant_containers :: "'n auth_params \<Rightarrow> bytes \<Rightarrow> containers \<Rightarrow> ('n, unit) am" where
  "grant_containers P app_id permissions =
     and_then (get_app (ap_env P) (ap_co P) (ap_cfg P) app_id) (\<lambda>app.
     and_then (update_container_perms P permissions (app_keys_public_key (ap_env P) (api_keys app))) (\<lambda>perms.
     and_then (fetch_entry (ap_env P) (ap_co P) (ap_ac P) app_id (api_keys app)) (\<lambda>entry.
       case merged_perms perms entry of (version, perms) \<Rightarrow>
         put_entry (ap_env P) (ap_co P) (ap_ac P) (ap_po P) app_id (api_keys app) perms version)))"

definition encode_containers_resp ::
  "auth_ffi_ops \<Rightarrow> 'n auth_params \<Rightarrow> msg_ops \<Rightarrow> bool \<Rightarrow> ffi_containers_req \<Rightarrow> u32 \<Rightarrow> bool \<Rightarrow> ('n, answer) am" where
  "encode_containers_resp fo P mo mock c_req req_id is_granted =
     and_then (lift_res (res_map_err AuthIpcError (containers_req_clone_from_repr_c (ffi (ap_io P)) c_req))) (\<lambda>cont_req.
       if \<not> is_granted then lift_res (answer_with P mo mock (IpcRespMsg req_id (IpcContainers (Err AuthDenied))))
       else or_else (or_else
         (and_then (grant_containers P (ai_id (cr_app cont_req)) (cr_containers cont_req)) (\<lambda>_.
           lift_res (answer_with P mo mock (IpcRespMsg req_id (IpcContainers (Ok ()))))))
         (\<lambda>e. lift_res (answer_error fo P mo mock (\<lambda>i. IpcRespMsg req_id (IpcContainers (Err i))) e)))
         (\<lambda>_. lift_res (Ok NotCalled)))"

text \<open>
  Sharing data: the streams request all shells before the first result is taken; each shell that arrives starts the request
  for the permissions, and a shell that cannot be had stops it there. When all requests are started their results are taken in order.
\<close>

fun start_shares ::
  "'n client_env \<Rightarrow> public_key \<Rightarrow> (share_mdata \<times> bytes core_result) list \<Rightarrow> ('n, unit core_result list) cm" where
  "start_shares env user [] = lift_res (Ok [])"
| "start_shares env user ((mdata, shell) # shells) = (case shell of
     Err e \<Rightarrow> lift_res (Err e)
   | Ok md \<Rightarrow> (\<lambda>c.
       case client_set_mdata_user_permissions env (MSeqAddr (sm_name mdata) (sm_type_tag mdata)) user (sm_perms mdata)
           (md_version (ce_nd env) (MSeq md) + 1) c of
         None \<Rightarrow> None
       | Some (r, c1) \<Rightarrow> map_prog (\<lambda>rs. r # rs) (start_shares env user shells) c1))"

definition share_all :: "'n client_env \<Rightarrow> public_key \<Rightarrow> share_mdata list \<Rightarrow> ('n, unit) cm" where
  "share_all env user mdata c =
     (case start_all (map (\<lambda>m. client_get_seq_mdata_shell env (sm_name m) (sm_type_tag m)) mdata) c of
        None \<Rightarrow> None
      | Some (shells, c1) \<Rightarrow> and_then (start_shares env user (zip mdata shells)) (\<lambda>rs.
          lift_res (res_map (\<lambda>_. ()) (try_map (\<lambda>r. r) rs))) c1)"

definition encode_share_mdata_resp ::
  "auth_ffi_ops \<Rightarrow> 'n auth_params \<Rightarrow> msg_ops \<Rightarrow> bool \<Rightarrow> ffi_share_mdata_req \<Rightarrow> u32 \<Rightarrow> bool \<Rightarrow> ('n, answer) am" where
  "encode_share_mdata_resp fo P mo mock c_req req_id is_granted =
     and_then (lift_res (res_map_err AuthIpcError (share_mdata_req_clone_from_repr_c (ffi (ap_io P)) (ap_po P) c_req))) (\<lambda>share_mdata_req.
       if \<not> is_granted then lift_res (answer_with P mo mock (IpcRespMsg req_id (IpcShareMData (Err ShareMDataDenied))))
       else and_then (get_app (ap_env P) (ap_co P) (ap_cfg P) (ai_id (sr_app share_mdata_req))) (\<lambda>app_info.
         if sr_mdata share_mdata_req = [] \<and> \<not> buffer_of_0_ends fo then lift_res (Ok NotCalled)
         else and_then (map_err AuthCoreError (with_client
             (share_all (ap_env P) (app_keys_public_key (ap_env P) (api_keys app_info)) (sr_mdata share_mdata_req)))) (\<lambda>_.
           lift_res (answer_with P mo mock (IpcRespMsg req_id (IpcShareMData (Ok ())))))))"

end
