(* ===== verification/Auth_Ffi_Props.thy ===== *)
theory Auth_Ffi_Props
  imports Auth_Ffi App_Ffi_Props App_Lifecycle Access_Props
begin

section \<open>Apps and the authenticator\<close>

text \<open>
  The two C interfaces together: a request that an app encodes is shown to the user by the authenticator, and the answer
  that the authenticator encodes is handed to the app; what the answers do on the network.
\<close>

subsection \<open>The messages between them\<close>

lemma encode_response_carried:
  assumes "text_laws mo" and "carried mo mock msg"
  obtains resp where "encode_response io mo mock msg = Ok resp" "encode_msg mo mock msg = Ok resp"
  using encoded_carried [OF assms]
  by (metis cstring_new_def cstring_or_string_error_def encode_response_def res_and_then_simps(1) res_map_err_simps(1))

lemma answer_carried:
  assumes laws: "ffi_laws (ffi (ap_io P))" "text_laws mo" "carried mo mock msg"
  obtains resp where "answer_with P mo mock msg = Ok (Answered resp)"
    "app_decode_ipc_msg fi (ap_io P) mo mock resp = decode_ipc_msg_impl fi (ap_io P) msg"
proof -
  obtain resp where resp: "encode_response (ap_io P) mo mock msg = Ok resp" "encode_msg mo mock msg = Ok resp"
    using encode_response_carried [OF laws(2,3)] .
  then show ?thesis
    using app_decodes_carried [OF laws resp(2)] by (intro that [of resp]) (simp_all add: answer_with_def)
qed

lemma answer_error_carried:
  assumes laws: "ffi_laws (ffi (ap_io P))" "text_laws mo" "carried mo mock (msg (auth_error_into_ipc (auth_error_debug fo) e))"
    and descr: "0 \<notin> set (string_bytes (auth_error_text fo e))"
  obtains resp where "answer_error fo P mo mock msg e = Ok (AnsweredError (auth_error_code e) (string_bytes (auth_error_text fo e)) resp)"
    "app_decode_ipc_msg fi (ap_io P) mo mock resp = decode_ipc_msg_impl fi (ap_io P) (msg (auth_error_into_ipc (auth_error_debug fo) e))"
proof -
  let ?msg = "msg (auth_error_into_ipc (auth_error_debug fo) e)"
  obtain resp where resp: "encode_response (ap_io P) mo mock ?msg = Ok resp" "encode_msg mo mock ?msg = Ok resp"
    using encode_response_carried [OF laws(2,3)] .
  then show ?thesis
    using app_decodes_carried [OF laws resp(2)] descr
    by (intro that [of resp]) (simp_all add: answer_error_def auth_encode_decode_def cstring_new_def)
qed

lemma auth_decodes_carried:
  assumes laws: "ffi_laws (ffi (ap_io P))" "text_laws mo" "carried mo mock msg" and enc: "app_encode_ipc mo mock req_id rq = Ok encoded"
    and msg: "msg = IpcReqMsg req_id rq"
  shows "auth_decode_msg P mo mock encoded = Ok msg"
proof -
  obtain b where b: "encode_msg mo mock msg = Ok b" "is_utf8 b" "0 \<notin> set b" "decode_msg mo mock b = Ok msg"
    using encoded_carried [OF laws(2,3)] .
  then have "encoded = b"
    using enc by (simp add: app_encode_ipc_def msg cstring_new_def)
  then show ?thesis
    using b read_text [OF laws(1) b(2,3)] by (simp add: auth_decode_msg_def auth_c_string_def auth_encode_decode_def)
qed

text \<open>A request whose C representation gives the request back.\<close>

definition auth_req_wf :: "auth_req \<Rightarrow> bool" where
  "auth_req_wf rq \<longleftrightarrow> containers_wf (ar_containers rq) \<and> (\<forall>s \<in> auth_req_strings rq. is_utf8 s \<and> 0 \<notin> set s) \<and>
     [] \<notin> snd ` set (ar_containers rq)"

lemma auth_req_shown:
  assumes "ffi_laws ff" and "auth_req_wf rq"
  obtains c where "auth_req_into_repr_c ff rq = Ok c" "auth_req_clone_from_repr_c ff c = Ok rq"
  using auth_req_repr_c_roundtrip [OF assms(1), of rq] assms(2) that
  by (auto simp: auth_req_wf_def res_and_then_eq_Ok)

lemma auth_req_received:
  assumes laws: "ffi_laws (ffi (ap_io P))" "text_laws mo" "carried mo mock (IpcReqMsg req_id (ReqAuth rq))"
    and rq: "auth_req_clone_from_repr_c (ffi (ap_io P)) c = Ok rq" "auth_req_wf rq"
    and sent: "encode_auth_req fi mo (ffi (ap_io P)) mock c w = Some (Ok (req_id, encoded), w')"
  obtains c' where "auth_decode_ipc_msg P mo mock encoded a = Some (Ok (OnAuthReq req_id c'), a)"
    "auth_req_clone_from_repr_c (ffi (ap_io P)) c' = Ok rq"
proof -
  have "app_encode_ipc mo mock req_id (ReqAuth rq) = Ok encoded"
    using sent rq(1) by (auto simp: encode_auth_req_def encode_req_def Let_def res_map_eq_Ok elim!: and_then_Ok)
  then have "auth_decode_msg P mo mock encoded = Ok (IpcReqMsg req_id (ReqAuth rq))"
    using auth_decodes_carried [OF laws] by blast
  moreover obtain c' where "auth_req_into_repr_c (ffi (ap_io P)) rq = Ok c'" "auth_req_clone_from_repr_c (ffi (ap_io P)) c' = Ok rq"
    using auth_req_shown [OF laws(1) rq(2)] .
  ultimately show ?thesis
    by (intro that [of c']) (simp_all add: auth_decode_ipc_msg_def decode_ipc_msg_def Let_def)
qed

subsection \<open>Authorisation\<close>

text \<open>
  (C12) The whole round of an authorisation: the request that an app encodes is shown to the user with its identifier, and whatever C
  representation is shown reads as the request of the app. When the user denies it, nothing is done on the network and the app's callback for
  errors gets the code of \<open>AuthDenied\<close>. When the user grants it, exactly the authorisation of this request is carried out; if it succeeds,
  the app's callback gets an authorisation that registers the app with exactly the keys and containers that were granted, and
  if it fails, the user gets the code of the error and the app its IPC error.
\<close>

theorem authorisation_round:
  assumes laws: "ipc_laws (ap_io P)" "text_laws mo" "0 \<notin> set (ffi_error_text fi (app_error_from_ipc AuthDenied))"
    and rq: "auth_req_clone_from_repr_c (ffi (ap_io P)) c = Ok rq" "auth_req_wf rq"
    and sent: "encode_auth_req fi mo (ffi (ap_io P)) mock c w = Some (Ok (req_id, encoded), w')"
    and auth: "authenticate_app P rq a = Some (res, a')"
    and carried: "carried mo mock (IpcReqMsg req_id (ReqAuth rq))" "carried mo mock (IpcRespMsg req_id (IpcAuth (Err AuthDenied)))"
      "case res of Ok ga \<Rightarrow> entry_wf (ag_access_container_entry ga) \<and> carried mo mock (IpcRespMsg req_id (IpcAuth (Ok ga)))
       | Err e \<Rightarrow> carried mo mock (IpcRespMsg req_id (IpcAuth (Err (auth_error_into_ipc (auth_error_debug fo) e)))) \<and>
           0 \<notin> set (string_bytes (auth_error_text fo e)) \<and>
           0 \<notin> set (ffi_error_text fi (app_error_from_ipc (auth_error_into_ipc (auth_error_debug fo) e)))"
  shows "\<exists>c'. auth_decode_ipc_msg P mo mock encoded a = Some (Ok (OnAuthReq req_id c'), a) \<and>
    (\<exists>resp. encode_auth_resp fo P mo mock c' req_id False a = Some (Ok (Answered resp), a) \<and>
      (\<exists>d. app_decode_ipc_msg fi (ap_io P) mo mock resp = Ok (OnError app_ERR_AUTH_DENIED d req_id))) \<and>
    (\<exists>answer. encode_auth_resp fo P mo mock c' req_id True a = Some (Ok answer, a') \<and>
      (case res of
         Ok ga \<Rightarrow> \<exists>resp g. answer = Answered resp \<and> app_decode_ipc_msg fi (ap_io P) mo mock resp = Ok (OnAuth req_id g) \<and>
           (\<forall>(env :: 'm client_env) app_id. is_utf8 app_id \<and> 0 \<notin> set app_id \<longrightarrow> ffi_app_registered env (ap_io P) app_id g = app_registered env app_id ga)
       | Err e \<Rightarrow> \<exists>resp d d'. answer = AnsweredError (auth_error_code e) d resp \<and> app_decode_ipc_msg fi (ap_io P) mo mock resp =
           Ok (OnError (app_error_code (app_error_from_ipc (auth_error_into_ipc (auth_error_debug fo) e))) d' req_id)))"
proof -
  have ff: "ffi_laws (ffi (ap_io P))"
    using laws(1) by (simp add: ipc_laws_def)
  obtain c' where c': "auth_decode_ipc_msg P mo mock encoded a = Some (Ok (OnAuthReq req_id c'), a)"
      "auth_req_clone_from_repr_c (ffi (ap_io P)) c' = Ok rq"
    using auth_req_received [OF ff laws(2) carried(1) rq sent] .
  obtain resp0 where "answer_with P mo mock (IpcRespMsg req_id (IpcAuth (Err AuthDenied))) = Ok (Answered resp0)"
      "app_decode_ipc_msg fi (ap_io P) mo mock resp0 = decode_ipc_msg_impl fi (ap_io P) (IpcRespMsg req_id (IpcAuth (Err AuthDenied)))"
    using answer_carried [OF ff laws(2) carried(2)] .
  moreover have "app_error_code (app_error_from_ipc AuthDenied) = app_ERR_AUTH_DENIED"
    by (simp add: app_error_from_ipc_def app_error_code_def app_ipc_error_code_def)
  ultimately have denied: "\<exists>resp d. encode_auth_resp fo P mo mock c' req_id False a = Some (Ok (Answered resp), a) \<and>
      app_decode_ipc_msg fi (ap_io P) mo mock resp = Ok (OnError app_ERR_AUTH_DENIED d req_id)"
    using laws(3) c'(2) by (simp add: encode_auth_resp_def decode_ipc_msg_impl_def on_error_text)
  show ?thesis
  proof (cases res)
    case (Inl e)
    then have "carried mo mock (IpcRespMsg req_id (IpcAuth (Err (auth_error_into_ipc (auth_error_debug fo) e))))"
        "0 \<notin> set (string_bytes (auth_error_text fo e))"
        and shown: "0 \<notin> set (ffi_error_text fi (app_error_from_ipc (auth_error_into_ipc (auth_error_debug fo) e)))"
      using carried(3) by simp_all
    note error = answer_error_carried [where msg = "\<lambda>i. IpcRespMsg req_id (IpcAuth (Err i))", OF ff laws(2) this(1,2)]
    obtain resp where "answer_error fo P mo mock (\<lambda>i. IpcRespMsg req_id (IpcAuth (Err i))) e =
        Ok (AnsweredError (auth_error_code e) (string_bytes (auth_error_text fo e)) resp)"
      "app_decode_ipc_msg fi (ap_io P) mo mock resp =
        decode_ipc_msg_impl fi (ap_io P) (IpcRespMsg req_id (IpcAuth (Err (auth_error_into_ipc (auth_error_debug fo) e))))"
      by (rule error)
    then show ?thesis
      using c' denied auth shown Inl
      by (auto simp: encode_auth_resp_def or_else_def and_then_def decode_ipc_msg_impl_def on_error_text)
  next
    case (Inr ga)
    then have ga: "entry_wf (ag_access_container_entry ga)" "carried mo mock (IpcRespMsg req_id (IpcAuth (Ok ga)))"
      using carried(3) by simp_all
    obtain resp where "answer_with P mo mock (IpcRespMsg req_id (IpcAuth (Ok ga))) = Ok (Answered resp)"
      "app_decode_ipc_msg fi (ap_io P) mo mock resp = decode_ipc_msg_impl fi (ap_io P) (IpcRespMsg req_id (IpcAuth (Ok ga)))"
      using answer_carried [OF ff laws(2) ga(2)] .
    moreover obtain g where "decode_ipc_msg_impl fi (ap_io P) (IpcRespMsg req_id (IpcAuth (Ok ga))) = Ok (OnAuth req_id g)"
      "\<forall>(env :: 'm client_env) app_id. is_utf8 app_id \<and> 0 \<notin> set app_id \<longrightarrow> ffi_app_registered env (ap_io P) app_id g = app_registered env app_id ga"
      using granted_reaches_app [OF laws(1) ga(1)] by blast
    ultimately show ?thesis
      using c' denied auth Inr by (auto simp: encode_auth_resp_def or_else_def and_then_def)
  qed
qed

subsection \<open>More containers\<close>

lemma start_perm_requests_Ok:
  "start_perm_requests env permissions roots a = Some (Ok reqs, a') \<Longrightarrow> map (\<lambda>(key, _, access, _). (key, access)) reqs = permissions"
  by (induction env permissions roots arbitrary: a reqs rule: start_perm_requests.induct)
    (auto simp: map_prog_Ok split: option.splits prod.splits)

lemma poll_all_Ok:
  "poll_all ms s = Some (Ok xs, s') \<Longrightarrow> list_all2 (\<lambda>(r, k) x. \<exists>y t t'. r = Ok y \<and> k y t = Some (Ok x, t')) ms xs"
  by (induction ms arbitrary: s xs rule: poll_all.induct) (fastforce simp: map_prog_Ok elim!: and_then_Ok)+

text \<open>The permissions that were set are those that were asked for.\<close>

lemma update_container_perms_Ok:
  assumes run: "update_container_perms P permissions pk a = Some (Ok perms, a')" and "distinct (map fst permissions)"
  shows "map_option snd (map_of perms name) = map_of permissions name" and "distinct (map fst perms)"
proof -
  obtain roots a1 reqs a2 xs a3 where start: "start_perm_requests (ap_env P) permissions roots a1 = Some (Ok reqs, a2)"
      and poll: "poll_all (map (\<lambda>(container_key, mdata_info, access, r). (r, \<lambda>version.
            map_prog (\<lambda>_. (container_key, mdata_info, access)) (map_err AuthCoreError (with_client
              (set_mdata_user_permissions (ap_env P) (mi_address mdata_info) pk
                (container_perms_into_permission_set (ap_po P) access) (version + 1)))))) reqs) a2 = Some (Ok xs, a3)"
      and perms: "perms = fold (\<lambda>(container_key, dir, access). hm_insert container_key (dir, access)) xs []"
    using run unfolding update_container_perms_def map_prog_Ok by (auto elim!: and_then_Ok)
  have "xs = map (\<lambda>(key, info, access, _). (key, info, access)) reqs"
    using poll_all_Ok [OF poll]
    by (fastforce simp: list_all2_map1 list_all2_conv_all_nth map_prog_Ok case_prod_unfold intro!: nth_equalityI)
  with start_perm_requests_Ok [OF start] have asked: "permissions = map (\<lambda>(key, _, access). (key, access)) xs"
    by (auto simp: comp_def case_prod_unfold)
  then have "perms = xs"
    using hm_collect [of "[]" xs] assms(2) by (simp add: perms comp_def case_prod_unfold)
  moreover have "map_option snd (map_of ys name) = map_of (map (\<lambda>(key, _, access). (key, access)) ys) name" for ys :: access_container_entry
    by (induction ys) auto
  ultimately show "map_option snd (map_of perms name) = map_of permissions name" "distinct (map fst perms)"
    using asked assms(2) by (simp_all add: comp_def case_prod_unfold)
qed

lemma map_of_hm_insert_all:
  "distinct (map fst kvs) \<Longrightarrow>
   map_of (fold (\<lambda>(k, v). hm_insert k v) kvs m) name = (case map_of kvs name of Some v \<Rightarrow> Some v | None \<Rightarrow> map_of m name)"
proof (induction kvs arbitrary: m)
  case (Cons kv kvs)
  then have "map_of kvs (fst kv) = None"
    by (simp add: map_of_eq_None_iff)
  with Cons show ?case
    by (auto simp: hm_insert_def update_conv' case_prod_unfold split: option.splits)
qed simp

text \<open>What a call that was answered has done.\<close>

lemma containers_answered:
  assumes wire: "ffi_laws (ffi (ap_io P))" "text_laws mo" "carried mo mock (IpcRespMsg req_id (IpcContainers (Ok ())))"
    and rq: "containers_req_clone_from_repr_c (ffi (ap_io P)) c = Ok rq"
    and run: "encode_containers_resp fo P mo mock c req_id True a = Some (Ok (Answered resp), a')"
  shows "grant_containers P (ai_id (cr_app rq)) (cr_containers rq) a = Some (Ok (), a')"
    and "app_decode_ipc_msg fi (ap_io P) mo mock resp = Ok (OnContainers req_id)"
proof -
  obtain resp' where resp': "answer_with P mo mock (IpcRespMsg req_id (IpcContainers (Ok ()))) = Ok (Answered resp')"
      "app_decode_ipc_msg fi (ap_io P) mo mock resp' = Ok (OnContainers req_id)"
  proof (rule answer_carried [OF wire])
    fix r
    assume "answer_with P mo mock (IpcRespMsg req_id (IpcContainers (Ok ()))) = Ok (Answered r)"
      "app_decode_ipc_msg fi (ap_io P) mo mock r = decode_ipc_msg_impl fi (ap_io P) (IpcRespMsg req_id (IpcContainers (Ok ())))"
    then show thesis
      by (intro that) (simp_all add: decode_ipc_msg_impl_def)
  qed
  have no_answer: "answer_error fo P mo mock msg e \<noteq> Ok (Answered r)" for msg e r
    by (auto simp: answer_error_def res_and_then_eq_Ok res_map_eq_Ok)
  from run rq show "grant_containers P (ai_id (cr_app rq)) (cr_containers rq) a = Some (Ok (), a')"
      "app_decode_ipc_msg fi (ap_io P) mo mock resp = Ok (OnContainers req_id)"
    using resp' no_answer by (auto simp: encode_containers_resp_def or_else_def and_then_def split: option.splits prod.splits sum.splits)
qed

text \<open>
  (C8) Granting an app more containers on the mock network, where the access container is stored, its entries are decoded to what was encoded, and
  nobody else changes the network in between: when the call of the authenticator was answered, the app decodes the answer as that
  of its request. An app that is registered with the keys that the authenticator has for it, and still authorised, then finds, when it refreshes
  its access information, an entry in which every container it asked for
  has the permissions it asked for, while every other container has what the app's entry said before; and this is what it reads afterwards.
  Before a refresh it reads the same if it had no access information yet; if it had some, it still reads the old one.
\<close>

theorem more_containers_granted:
  fixes a :: "'raw conn_manager auth_client" and s :: "'raw conn_manager app_session"
  assumes laws: "crypto_laws (ap_co P)" "sign_laws (mock_env nd cd lo)" "entry_laws nd" "permission_laws nd (ap_po P)" "perm_laws (ap_po P)"
    and wire: "ffi_laws (ffi (ap_io P))" "text_laws mo" "carried mo mock (IpcRespMsg req_id (IpcContainers (Ok ())))"
    and P: "ap_env P = mock_env nd cd lo"
    and types: "\<forall>a x. get_type nd (MutateMDataEntries a x) \<noteq> PublicGet"
      "\<forall>a u p v. get_type nd (SetMDataUserPermissions a u p v) \<noteq> PublicGet" "\<forall>a. get_type nd (GetMDataVersion a) \<noteq> PublicGet"
      "\<forall>a k. get_type nd (GetMDataValue a k) \<noteq> PublicGet"
    and owner: "plain_net (w_net (au_client a))" "cl_full_id (au_client a) = SafeClient i"
    and container: "mi_address (auth_access_container a) = MSeqAddr n t" "from_mdata_info (auth_access_container a) = Ok info"
    and rq: "containers_req_clone_from_repr_c (ffi (ap_io P)) c = Ok rq" "distinct (map fst (cr_containers rq))" "app_id = ai_id (cr_app rq)"
    and app: "get_app (ap_env P) (ap_co P) (ap_cfg P) app_id a = Some (Ok app, a1)"
    and perms: "update_container_perms P (cr_containers rq) (app_keys_public_key (ap_env P) (api_keys app)) a1 = Some (Ok perms, a2)"
    and entry: "fetch_entry (ap_env P) (ap_co P) (ap_ac P) app_id (api_keys app) a2 = Some (Ok (ver, old), a3)"
    and stored: "nae_manager (vault_of (w_net (au_client a3))) (IdMutable (MSeqAddr n t)) = Some (Mutable (MSeq d))"
    and codec: "ec_ser (app_codec (ap_ac P)) (snd (merged_perms perms (ver, old))) = Ok b" "de_access_info ap b = Ok (snd (merged_perms perms (ver, old)))"
    and run: "encode_containers_resp fo P mo mock c req_id True a = Some (Ok (Answered resp), a')"
    and session: "as_context s = RegisteredContext reg \<and> rg_app_id reg = app_id \<and> rg_sym_enc_key reg = ak_enc_key (api_keys app) \<and>
        rg_access_container_info reg = info"
      "cl_full_id (ac_client (as_client s)) = SafeApp (ak_app_full_id (api_keys app))" "plain_net (w_net (ac_client (as_client s)))"
      "vault_of (w_net (ac_client (as_client s))) = vault_of (w_net (au_client a'))"
    and authorised: "pid = full_app_id lo (ak_app_full_id (api_keys app))"
      "get_account (vault_of (w_net (au_client a'))) (public_id_name nd (App pid)) = Some account"
      "acc_auth_keys account (app_public_key nd pid) \<noteq> None"
  shows "app_decode_ipc_msg fi (ap_io P) mo mock resp = Ok (OnContainers req_id) \<and>
    (\<exists>granted s'. refresh_access_info (mock_env nd cd lo) (ap_co P) ap s = Some (Ok (), s') \<and>
      (\<exists>s''. get_access_info (mock_env nd cd lo) (ap_co P) ap s' = Some (Ok granted, s'')) \<and>
      get_access_info (mock_env nd cd lo) (ap_co P) ap s =
        (if rg_access_info reg = [] then Some (Ok granted, s') else Some (Ok (rg_access_info reg), s)) \<and>
      (\<forall>name. case map_of (cr_containers rq) name of
         Some access \<Rightarrow> \<exists>info. map_of granted name = Some (info, access)
       | None \<Rightarrow> map_of granted name = (case old of Some entries \<Rightarrow> map_of entries name | None \<Rightarrow> None)))"
proof -
  note answered = containers_answered [OF wire rq(1) run]
  obtain version granted where merged: "merged_perms perms (ver, old) = (version, granted)"
    by fastforce
  have put: "put_entry (mock_env nd cd lo) (ap_co P) (ap_ac P) (ap_po P) app_id (api_keys app) granted version a3 = Some (Ok (), a')"
    using answered(1) app perms entry merged by (simp add: grant_containers_def and_then_def rq(3) P)
  have "auth_same_keys a a3"
    using keeps_relD [OF get_app_keeps app [unfolded P]] keeps_relD [OF container_ops_keep(1) [OF P] perms]
      keeps_relD [OF access_entries_keep(3) entry [unfolded P]] by (blast intro: auth_keys.trans)
  then have a3: "plain_net (w_net (au_client a3))" "cl_full_id (au_client a3) = SafeClient i"
      "auth_access_container a3 = auth_access_container a"
    using owner by (simp_all add: auth_same_keys_def same_keys_def auth_access_container_def)
  note refresh = granted_access_refreshed [OF laws codec [unfolded merged snd_conv] types a3(1,2) container [folded a3(3)] stored put
      _ _ _ _ authorised]
  obtain s' where s': "refresh_access_info (mock_env nd cd lo) (ap_co P) ap s = Some (Ok (), s')"
      "as_context s' = RegisteredContext (reg\<lparr>rg_access_info := granted\<rparr>)"
      "cl_full_id (ac_client (as_client s')) = SafeApp (ak_app_full_id (api_keys app))" "plain_net (w_net (ac_client (as_client s')))"
      "vault_of (w_net (ac_client (as_client s'))) = vault_of (w_net (au_client a'))"
    using refresh [OF session] by blast
  have ctx: "as_context s = RegisteredContext reg"
    using session(1) by simp
  have first: "get_access_info (mock_env nd cd lo) (ap_co P) ap s =
      (if rg_access_info reg = [] then Some (Ok granted, s') else Some (Ok (rg_access_info reg), s))"
    using get_access_info_cases [OF ctx] s'(1,2) by simp
  have again: "\<exists>s''. get_access_info (mock_env nd cd lo) (ap_co P) ap s' = Some (Ok granted, s'')"
  proof (cases "granted = []")
    case True
    obtain s'' where "refresh_access_info (mock_env nd cd lo) (ap_co P) ap s' = Some (Ok (), s'')"
        "as_context s'' = RegisteredContext (reg\<lparr>rg_access_info := granted\<rparr>)"
      using refresh [of s', OF _ s'(3-5)] s'(2) session(1) by fastforce
    then show ?thesis
      using get_access_info_cases(2) [OF s'(2)] True by fastforce
  next
    case False
    then show ?thesis
      using get_access_info_cases(1) [OF s'(2)] by fastforce
  qed
  note asked = update_container_perms_Ok [OF perms rq(2)]
  have "map_of granted name = (case map_of perms name of Some p \<Rightarrow> Some p
      | None \<Rightarrow> (case old of Some entries \<Rightarrow> map_of entries name | None \<Rightarrow> None))" for name
    using merged by (auto simp: merged_perms_def map_of_hm_insert_all [OF asked(2)] split: option.splits)
  then have "case map_of (cr_containers rq) name of
         Some access \<Rightarrow> \<exists>info. map_of granted name = Some (info, access)
       | None \<Rightarrow> map_of granted name = (case old of Some entries \<Rightarrow> map_of entries name | None \<Rightarrow> None)" for name
    by (cases "map_of perms name") (auto simp: asked(1) [symmetric])
  then show ?thesis
    using answered(2) s'(1) first again by blast
qed

text \<open>A wire that carries three messages.\<close>

definition three_msgs :: "ipc_msg \<Rightarrow> ipc_msg \<Rightarrow> ipc_msg \<Rightarrow> msg_ops" where
  "three_msgs m1 m2 m3 = \<lparr>
     ser_msg = (\<lambda>(msg, mock). Ok (if msg = m1 then [0] else if msg = m2 then [1] else [2])),
     de_msg = (\<lambda>b. Ok (if b = [0] then m1 else if b = [1] then m2 else m3, True)),
     b32_encode = unary_enc, b32_decode = (\<lambda>b. Ok (unary_dec 0 b))\<rparr>"

lemma three_msgs_laws:
  "text_laws (three_msgs m1 m2 m3)" "carried (three_msgs m1 m2 m3) True m1" "carried (three_msgs m1 m2 m3) True m2"
  "carried (three_msgs m1 m2 m3) True m3"
  by (auto simp: text_laws_def carried_def three_msgs_def unary_dec_enc unary_enc_text)

definition sample_auth_ffi :: auth_ffi_ops where
  "sample_auth_ffi = \<lparr>auth_error_text = (\<lambda>_. ''e''), auth_error_debug = (\<lambda>_. ''d''), auth_caught_panic = AuthUnexpected ''panic'',
     rnd_full_id = (\<lambda>n. ClientFullId [of_nat n]), buffer_of_0_ends = False\<rparr>"

lemma sample_texts: "0 \<notin> set (ffi_error_text sample_ffi_ipc e)" "0 \<notin> set (string_bytes (auth_error_text sample_auth_ffi e'))"
  by (simp_all add: sample_ffi_ipc_def sample_auth_ffi_def string_bytes_def)

lemma app_params_laws: "ipc_laws (ap_io app_params)"
  using sample_ipc_laws by (simp add: app_params_def sample_ipc_ids_def ipc_laws_def ffi_ops.truncate_def)

theorem authorisation_round_witness:
  "\<exists>mo c encoded w' ga a' c' resp g. auth_req_clone_from_repr_c (ffi (ap_io app_params)) c = Ok new_app_req \<and>
     encode_auth_req sample_ffi_ipc mo (ffi (ap_io app_params)) True c \<lparr>w_net = (), w_draws = 0\<rparr> = Some (Ok (1, encoded), w') \<and>
     authenticate_app app_params new_app_req app_owner_client = Some (Ok ga, a') \<and>
     auth_decode_ipc_msg app_params mo True encoded app_owner_client = Some (Ok (OnAuthReq 1 c'), app_owner_client) \<and>
     encode_auth_resp sample_auth_ffi app_params mo True c' 1 True app_owner_client = Some (Ok (Answered resp), a') \<and>
     app_decode_ipc_msg sample_ffi_ipc (ap_io app_params) mo True resp = Ok (OnAuth 1 g)"
proof -
  obtain ga a' where auth: "authenticate_app app_params new_app_req app_owner_client = Some (Ok ga, a')"
      and entry: "ag_access_container_entry ga = []"
    using new_app_granted by blast
  define mo where "mo = three_msgs (IpcReqMsg 1 (ReqAuth new_app_req)) (IpcRespMsg 1 (IpcAuth (Err AuthDenied))) (IpcRespMsg 1 (IpcAuth (Ok ga)))"
  note mo = three_msgs_laws [of "IpcReqMsg 1 (ReqAuth new_app_req)" "IpcRespMsg 1 (IpcAuth (Err AuthDenied))" "IpcRespMsg 1 (IpcAuth (Ok ga))",
      folded mo_def]
  have wf: "auth_req_wf new_app_req"
    by (simp add: auth_req_wf_def new_app_req_def containers_wf_def auth_req_strings_def app_strings_def)
  have ff: "ffi_laws (ffi (ap_io app_params))"
    using app_params_laws by (simp add: ipc_laws_def)
  obtain c where c: "auth_req_clone_from_repr_c (ffi (ap_io app_params)) c = Ok new_app_req"
    using auth_req_shown [OF ff wf] .
  obtain encoded where "encode_msg mo True (IpcReqMsg 1 (ReqAuth new_app_req)) = Ok encoded" "0 \<notin> set encoded"
    using encoded_carried [OF mo(1,2)] .
  then have sent: "encode_auth_req sample_ffi_ipc mo (ffi (ap_io app_params)) True c \<lparr>w_net = (), w_draws = 0\<rparr> =
      Some (Ok (1, encoded), \<lparr>w_net = (), w_draws = 1\<rparr>)"
    using c by (simp add: encode_auth_req_def encode_req_def app_encode_ipc_def draw_def map_err_def and_then_def sample_ffi_ipc_def
        gen_req_id_def cstring_new_def)
  have "\<exists>c' resp g. auth_decode_ipc_msg app_params mo True encoded app_owner_client = Some (Ok (OnAuthReq 1 c'), app_owner_client) \<and>
      encode_auth_resp sample_auth_ffi app_params mo True c' 1 True app_owner_client = Some (Ok (Answered resp), a') \<and>
      app_decode_ipc_msg sample_ffi_ipc (ap_io app_params) mo True resp = Ok (OnAuth 1 g)"
    using authorisation_round [OF app_params_laws mo(1) _ c wf sent auth mo(2,3), of sample_auth_ffi] mo(4) entry
    by (auto simp: sample_texts entry_wf_def)
  with c sent auth show ?thesis
    by blast
qed

text \<open>An account whose access container has an entry for the authenticator and one for an app.\<close>

definition more_nd :: safe_nd where
  "more_nd = grant_nd\<lparr>
     md_mutate_entries := (\<lambda>m acts pk. case (m, acts) of
         (MSeq d, SeqActions [(k, Update v)]) \<Rightarrow>
           (if sv_version v = 1 \<and> d \<noteq> [] then Ok (MSeq (take 1 d @ pair_enc (k, sv_data v))) else Err InvalidOperation)
       | _ \<Rightarrow> Err InvalidOperation),
     seq_get := (\<lambda>d k.
       if length d \<le> 1 then Some (MDataSeqValue (if k = KEY_APPS then [1] else pair_enc ([0], pair_enc ([2], [1]))) 0)
       else if fst (pair_dec (drop 1 d)) = k then Some (MDataSeqValue (snd (pair_dec (drop 1 d))) 1) else None)\<rparr>"

definition more_env :: "cache option conn_manager client_env" where
  "more_env = mock_env more_nd sample_codec sample_ops"

definition more_app :: app_info where
  "more_app = sample_app\<lparr>api_keys := (api_keys sample_app)\<lparr>ak_enc_key := [2]\<rparr>\<rparr>"

definition more_old :: access_container_entry where
  "more_old = [([1, 2], new_public (MSeqAddr (XorName [3]) 4), [PermRead])]"

definition more_new :: access_container_entry where
  "more_new = more_old @ [([5], new_public (MSeqAddr (XorName [1]) 0), [PermRead, PermInsert])]"

definition more_params :: "cache option conn_manager auth_params" where
  "more_params = app_params\<lparr>ap_env := more_env,
     ap_cfg := app_cfg\<lparr>apps_codec := \<lparr>ec_ser = (\<lambda>_. Ok [1]), ec_de = (\<lambda>_. Ok [([7], more_app)]), ec_default = []\<rparr>\<rparr>,
     ap_ac := \<lparr>
       authenticator_codec = \<lparr>ec_ser = (\<lambda>_. Ok [1]), ec_de = (\<lambda>_. Ok [([5], new_public (MSeqAddr (XorName [1]) 0))]), ec_default = []\<rparr>,
       app_codec = \<lparr>ec_ser = (\<lambda>_. Ok [1]), ec_de = (\<lambda>_. Ok more_old), ec_default = []\<rparr>\<rparr>\<rparr>"

definition more_req :: containers_req where
  "more_req = \<lparr>cr_app = \<lparr>ai_id = [7], ai_scope = None, ai_name = [8], ai_vendor = [9]\<rparr>, cr_containers = [([5], [PermRead, PermInsert])]\<rparr>"

lemma more_laws: "sign_laws more_env" "entry_laws more_nd" "permission_laws more_nd po"
proof -
  show "sign_laws more_env"
    by (auto simp: sign_laws_def more_env_def mock_env_def sample_ops_def more_nd_def grant_nd_def dir_nd_def sample_nd_def
        safe_key_sign_def safe_key_public_key_def split: safe_key.splits client_full_id.splits app_full_id.splits)
  have "\<exists>d'. m = MSeq d' \<and> md_address more_nd m = md_address more_nd (MSeq d) \<and>
      (\<forall>a u. md_check_permissions more_nd m a u = md_check_permissions more_nd (MSeq d) a u) \<and>
      (\<forall>k v. bt_get actions k = Some (Ins v) \<or> bt_get actions k = Some (Update v) \<longrightarrow> seq_get more_nd d' k = Some v)"
    if run: "md_mutate_entries more_nd (MSeq d) (SeqActions actions) pk = Ok m" for d actions pk m
  proof -
    obtain k v where acts: "actions = [(k, Update v)]" "sv_version v = 1" "d \<noteq> []"
        "m = MSeq (take 1 d @ pair_enc (k, sv_data v))"
      using run by (auto simp: more_nd_def split: list.splits prod.splits seq_entry_action.splits if_splits)
    moreover have "pair_enc x \<noteq> []" for x
      by (cases x) (simp add: pair_enc_def)
    ultimately show ?thesis
      by (cases d; cases v) (auto simp: more_nd_def grant_nd_def dir_nd_def sample_nd_def bt_get_def split: if_splits)
  qed
  then show "entry_laws more_nd"
    by (simp add: entry_laws_def)
  show "permission_laws more_nd po"
    by (auto simp: permission_laws_def more_nd_def grant_nd_def dir_nd_def sample_nd_def)
qed

lemmas more_eval = more_params_def more_env_def more_nd_def grant_nd_def dir_nd_def app_params_def more_app_def sample_app_def
  new_public_def new_private_def mi_name_def mi_type_tag_def mi_nonce_def auth_access_container_def config_root_dir_def
  sample_crypto_def get_mdata_def checked_mdata_def check_perms_mdata_def get_account_def set_account_def
  insert_data_def pair_enc_def SYM_ENC_NONCE_LEN_def map_prog_def
  client_get_seq_mdata_value_def as_mdata_value_def seq_value_def req_get_mdata_value_def
  client_get_mdata_version_def as_mdata_version_def req_get_mdata_version_def
  access_container_enc_key_def ac_enc_key_def symmetric_encrypt_def symmetric_decrypt_def

lemma more_app_found: "\<exists>a1. get_app (ap_env more_params) (ap_co more_params) (ap_cfg more_params) [7] app_owner_client = Some (Ok more_app, a1)"
  by (simp add: get_app_def list_apps_def get_entry_def enc_entry_key_def mi_decrypt_def app_cfg_def KEY_APPS_def
      more_eval app_eval vault_eval sample_simps)

lemma more_run:
  "\<exists>a1 a2 a3 a'. get_app (ap_env more_params) (ap_co more_params) (ap_cfg more_params) [7] app_owner_client = Some (Ok more_app, a1) \<and>
     update_container_perms more_params (cr_containers more_req) (app_keys_public_key (ap_env more_params) (api_keys more_app)) a1 =
       Some (Ok [([5], new_public (MSeqAddr (XorName [1]) 0), [PermRead, PermInsert])], a2) \<and>
     fetch_entry (ap_env more_params) (ap_co more_params) (ap_ac more_params) [7] (api_keys more_app) a2 = Some (Ok (0, Some more_old), a3) \<and>
     nae_manager (vault_of (w_net (au_client a3))) (IdMutable (MSeqAddr (XorName [1]) 0)) = Some (Mutable (MSeq [1])) \<and>
     put_entry (ap_env more_params) (ap_co more_params) (ap_ac more_params) (ap_po more_params) [7] (api_keys more_app) more_new 1 a3 = Some (Ok (), a') \<and>
     plain_net (w_net (au_client a')) \<and>
     get_account (vault_of (w_net (au_client a'))) (XorName [1]) = get_account app_vault (XorName [1])"
  by (simp add: get_app_def list_apps_def get_entry_def enc_entry_key_def mi_decrypt_def app_cfg_def KEY_APPS_def
      update_container_perms_def fetch_authenticator_entry_def decode_authenticator_entry_def decode_ac_entry_def more_req_def
      set_mdata_user_permissions_def retry.simps MAX_ATTEMPTS_def client_set_mdata_user_permissions_def as_mutation_def
      req_set_mdata_user_permissions_def rewrite_mdata_def hm_insert_def secret_symmetric_key_def AUTHENTICATOR_ENTRY_def
      fetch_entry_def decode_app_entry_def put_entry_def encode_app_entry_def encode_ac_entry_def entry_action_def
      mutate_mdata_entries_def client_mutate_seq_mdata_entries_def md_name_def md_tag_def req_mutate_mdata_entries_def
      sample_account_def app_keys_public_key_def plain_net_def vault_of_def pair_dec_def
      more_eval app_eval vault_eval sample_simps)

text \<open>A session in which the app has read its access information before.\<close>

definition more_reg :: registered_context where
  "more_reg = \<lparr>rg_object_cache = object_cache_new, rg_app_id = [7], rg_sym_enc_key = [2],
     rg_access_container_info = \<lparr>ac_id = XorName [1], ac_tag = 0, ac_nonce = [3]\<rparr>, rg_access_info = more_old\<rparr>"

definition more_session :: "cache option conn_manager \<Rightarrow> cache option conn_manager app_session" where
  "more_session net = (granted_session net)\<lparr>as_context := RegisteredContext more_reg\<rparr>"

definition more_app_ops :: app_ops where
  "more_app_ops = sample_app_ops\<lparr>de_access_info := (\<lambda>_. Ok more_new)\<rparr>"

lemma more_req_read:
  assumes "ffi_laws ff"
  obtains c where "containers_req_clone_from_repr_c ff c = Ok more_req"
proof -
  have strings: "\<forall>s \<in> app_strings (cr_app more_req). is_utf8 s \<and> 0 \<notin> set s" "containers_wf (cr_containers more_req)"
      "\<forall>name \<in> fst ` set (cr_containers more_req). is_utf8 name \<and> 0 \<notin> set name" "[] \<notin> snd ` set (cr_containers more_req)"
    by (simp_all add: more_req_def app_strings_def containers_wf_def bset_wf_def less_permission_def permission_rank_def)
  obtain app where "app_exchange_info_clone_from_repr_c ff app = Ok (cr_app more_req)"
    using app_exchange_info_roundtrip [OF assms strings(1)] by blast
  moreover obtain cs where "containers_from_repr_c ff cs = Ok (cr_containers more_req)"
    using containers_roundtrip [OF assms strings(2,3)] strings(4) by auto
  ultimately show ?thesis
    by (intro that [of "\<lparr>fcr_app = app, fcr_containers = cs\<rparr>"]) (simp add: containers_req_clone_from_repr_c_def)
qed

theorem more_containers_granted_witness:
  "\<exists>mo c resp a' granted s'. encode_containers_resp sample_auth_ffi more_params mo True c 5 True app_owner_client = Some (Ok (Answered resp), a') \<and>
     app_decode_ipc_msg sample_ffi_ipc (ap_io more_params) mo True resp = Ok (OnContainers 5) \<and>
     refresh_access_info more_env sample_crypto more_app_ops (more_session (w_net (au_client a'))) = Some (Ok (), s') \<and>
     get_access_info more_env sample_crypto more_app_ops (more_session (w_net (au_client a'))) = Some (Ok more_old, more_session (w_net (au_client a'))) \<and>
     (\<exists>s''. get_access_info more_env sample_crypto more_app_ops s' = Some (Ok granted, s'')) \<and>
     map_of granted [1, 2] = map_of more_old [1, 2] \<and> (\<exists>info. map_of granted [5] = Some (info, [PermRead, PermInsert]))"
proof -
  define mo where "mo = three_msgs (IpcRespMsg 5 (IpcContainers (Ok ()))) (IpcRespMsg 5 (IpcContainers (Ok ()))) (IpcRespMsg 5 (IpcContainers (Ok ())))"
  note mo = three_msgs_laws [of "IpcRespMsg 5 (IpcContainers (Ok ()))" "IpcRespMsg 5 (IpcContainers (Ok ()))" "IpcRespMsg 5 (IpcContainers (Ok ()))",
      folded mo_def]
  have io: "ap_io more_params = ap_io app_params" "ap_env more_params = mock_env more_nd sample_codec sample_ops"
      "ap_co more_params = sample_crypto" "ap_po more_params = sample_perms"
    by (simp_all add: more_params_def more_env_def app_params_def)
  have ff: "ffi_laws (ffi (ap_io more_params))"
    using app_params_laws by (simp add: io ipc_laws_def)
  obtain c where c: "containers_req_clone_from_repr_c (ffi (ap_io more_params)) c = Ok more_req"
    using more_req_read [OF ff] .
  obtain resp where resp: "answer_with more_params mo True (IpcRespMsg 5 (IpcContainers (Ok ()))) = Ok (Answered resp)"
    using answer_carried [OF ff mo(1,2)] .
  obtain a1 a2 a3 a' where run: "get_app (ap_env more_params) (ap_co more_params) (ap_cfg more_params) [7] app_owner_client = Some (Ok more_app, a1)"
      "update_container_perms more_params (cr_containers more_req) (app_keys_public_key (ap_env more_params) (api_keys more_app)) a1 =
       Some (Ok [([5], new_public (MSeqAddr (XorName [1]) 0), [PermRead, PermInsert])], a2)"
      "fetch_entry (ap_env more_params) (ap_co more_params) (ap_ac more_params) [7] (api_keys more_app) a2 = Some (Ok (0, Some more_old), a3)"
      and stored: "nae_manager (vault_of (w_net (au_client a3))) (IdMutable (MSeqAddr (XorName [1]) 0)) = Some (Mutable (MSeq [1]))"
      and put: "put_entry (ap_env more_params) (ap_co more_params) (ap_ac more_params) (ap_po more_params) [7] (api_keys more_app) more_new 1 a3 = Some (Ok (), a')"
      and net: "plain_net (w_net (au_client a'))"
        "get_account (vault_of (w_net (au_client a'))) (XorName [1]) = get_account app_vault (XorName [1])"
    using more_run by blast
  have merged: "merged_perms [([5], new_public (MSeqAddr (XorName [1]) 0), [PermRead, PermInsert])] (0, Some more_old) = (1, more_new)"
    by (simp add: merged_perms_def more_new_def more_old_def hm_insert_def)
  have answered: "encode_containers_resp sample_auth_ffi more_params mo True c 5 True app_owner_client = Some (Ok (Answered resp), a')"
    using c resp run put merged by (simp add: encode_containers_resp_def grant_containers_def and_then_def or_else_def more_req_def)
  have types: "\<forall>a x. get_type more_nd (MutateMDataEntries a x) \<noteq> PublicGet"
      "\<forall>a u p v. get_type more_nd (SetMDataUserPermissions a u p v) \<noteq> PublicGet" "\<forall>a. get_type more_nd (GetMDataVersion a) \<noteq> PublicGet"
      "\<forall>a k. get_type more_nd (GetMDataValue a k) \<noteq> PublicGet"
    by (simp_all add: more_nd_def grant_nd_def dir_nd_def sample_nd_def sample_type_def)
  have owner: "plain_net (w_net (au_client app_owner_client))" "cl_full_id (au_client app_owner_client) = SafeClient (ClientFullId [1])"
      "mi_address (auth_access_container app_owner_client) = MSeqAddr (XorName [1]) 0"
      "from_mdata_info (auth_access_container app_owner_client) = Ok \<lparr>ac_id = XorName [1], ac_tag = 0, ac_nonce = [3]\<rparr>"
    by (simp_all add: app_owner_client_def plain_sample) (simp_all add: sample_client_def auth_access_container_def from_mdata_info_def
        new_private_def mi_name_def mi_type_tag_def)
  have rq: "distinct (map fst (cr_containers more_req))" "[7] = ai_id (cr_app more_req)"
    by (simp_all add: more_req_def)
  have codec: "ec_ser (app_codec (ap_ac more_params)) (snd (merged_perms [([5], new_public (MSeqAddr (XorName [1]) 0), [PermRead, PermInsert])] (0, Some more_old))) = Ok [1]"
      "de_access_info more_app_ops [1] = Ok (snd (merged_perms [([5], new_public (MSeqAddr (XorName [1]) 0), [PermRead, PermInsert])] (0, Some more_old)))"
    by (simp_all add: more_params_def more_app_ops_def merged)
  let ?s = "more_session (w_net (au_client a'))"
  have session: "as_context ?s = RegisteredContext more_reg \<and> rg_app_id more_reg = [7] \<and> rg_sym_enc_key more_reg = ak_enc_key (api_keys more_app) \<and>
        rg_access_container_info more_reg = \<lparr>ac_id = XorName [1], ac_tag = 0, ac_nonce = [3]\<rparr>"
      "cl_full_id (ac_client (as_client ?s)) = SafeApp (ak_app_full_id (api_keys more_app))"
      "plain_net (w_net (ac_client (as_client ?s)))" "vault_of (w_net (ac_client (as_client ?s))) = vault_of (w_net (au_client a'))"
    using net(1) by (simp_all add: more_session_def more_reg_def granted_session_def more_app_def sample_app_def)
  have account: "get_account (vault_of (w_net (au_client a'))) (public_id_name more_nd (App (full_app_id sample_ops (ak_app_full_id (api_keys more_app))))) =
      Some \<lparr>acc_auth_keys = [PublicKey [9] \<mapsto> AppPermissions True True True], acc_version = 1, acc_config = plain_config\<rparr>"
    using net(2) by (simp add: more_nd_def grant_nd_def dir_nd_def sample_nd_def sample_ops_def more_app_def sample_app_def app_vault_def get_account_def set_account_def)
  have known: "acc_auth_keys \<lparr>acc_auth_keys = [PublicKey [9] \<mapsto> AppPermissions True True True], acc_version = 1, acc_config = plain_config\<rparr>
      (app_public_key more_nd (full_app_id sample_ops (ak_app_full_id (api_keys more_app)))) \<noteq> None"
    by (simp add: more_nd_def grant_nd_def dir_nd_def sample_nd_def sample_ops_def more_app_def sample_app_def)
  have "app_decode_ipc_msg sample_ffi_ipc (ap_io more_params) mo True resp = Ok (OnContainers 5) \<and>
    (\<exists>granted s'. refresh_access_info (mock_env more_nd sample_codec sample_ops) (ap_co more_params) more_app_ops ?s = Some (Ok (), s') \<and>
      (\<exists>s''. get_access_info (mock_env more_nd sample_codec sample_ops) (ap_co more_params) more_app_ops s' = Some (Ok granted, s'')) \<and>
      get_access_info (mock_env more_nd sample_codec sample_ops) (ap_co more_params) more_app_ops ?s =
        (if rg_access_info more_reg = [] then Some (Ok granted, s') else Some (Ok (rg_access_info more_reg), ?s)) \<and>
      (\<forall>name. case map_of (cr_containers more_req) name of
         Some access \<Rightarrow> \<exists>info. map_of granted name = Some (info, access)
       | None \<Rightarrow> map_of granted name = (case Some more_old of Some entries \<Rightarrow> map_of entries name | None \<Rightarrow> None)))"
    by (rule more_containers_granted [OF _ more_laws(1) [unfolded more_env_def] more_laws(2,3) _ ff mo(1,2) io(2) types owner c rq run stored codec
          answered session HOL.refl account known]) (simp_all add: io sample_crypto_laws sample_perm_laws)
  then obtain granted s' where decoded: "app_decode_ipc_msg sample_ffi_ipc (ap_io more_params) mo True resp = Ok (OnContainers 5)"
      and read: "refresh_access_info more_env sample_crypto more_app_ops ?s = Some (Ok (), s')"
      "get_access_info more_env sample_crypto more_app_ops ?s =
        (if rg_access_info more_reg = [] then Some (Ok granted, s') else Some (Ok (rg_access_info more_reg), ?s))"
      and again: "\<exists>s''. get_access_info more_env sample_crypto more_app_ops s' = Some (Ok granted, s'')"
      and names: "\<forall>name. case map_of (cr_containers more_req) name of
         Some access \<Rightarrow> \<exists>info. map_of granted name = Some (info, access)
       | None \<Rightarrow> map_of granted name = (case Some more_old of Some entries \<Rightarrow> map_of entries name | None \<Rightarrow> None)"
    unfolding more_env_def io by blast
  have names': "map_of granted [1, 2] = map_of more_old [1, 2]" "\<exists>info. map_of granted [5] = Some (info, [PermRead, PermInsert])"
    using spec [OF names, of "[1, 2]"] spec [OF names, of "[5]"] by (simp_all add: more_req_def)
  have "rg_access_info more_reg = more_old" "more_old \<noteq> []"
    by (simp_all add: more_reg_def more_old_def)
  then have "refresh_access_info more_env sample_crypto more_app_ops ?s = Some (Ok (), s')"
      "get_access_info more_env sample_crypto more_app_ops ?s = Some (Ok more_old, ?s)"
    using read by simp_all
  then show ?thesis
    using answered decoded again names' by blast
qed

end
