(* ===== verification/Ffi_Setup.thy ===== *)
theory Ffi_Setup
  imports Auth_Ffi App_Ffi_Ipc App_Start Config_Handler
begin

section \<open>Setting up through the C interface\<close>

text \<open>
  The calls of safe\_app/src/ffi and safe\_authenticator/src/ffi on the directory of the configuration files and on the handles themselves, and the
  variants of the message functions with base 64 for tests (safe\_core/src/ipc/mod.rs, safe\_app/src/ffi/ipc.rs).
\<close>

subsection \<open>Configuration and handles\<close>

definition app_set_config_dir_path :: "ffi_ops \<Rightarrow> bytes \<Rightarrow> bytes option \<Rightarrow> unit app_result \<times> bytes option" where
  "app_set_config_dir_path ff c_path custom = (case encode_decode (read_c_string ff c_path) of
     Err e \<Rightarrow> (Err e, custom)
   | Ok new_path \<Rightarrow> (Ok (), set_config_dir_path new_path custom))"

definition auth_set_config_dir_path :: "ffi_ops \<Rightarrow> bytes \<Rightarrow> bytes option \<Rightarrow> unit auth_result \<times> bytes option" where
  "auth_set_config_dir_path ff c_path custom = (case auth_encode_decode (read_c_string ff c_path) of
     Err e \<Rightarrow> (Err e, custom)
   | Ok new_path \<Rightarrow> (Ok (), set_config_dir_path new_path custom))"

definition app_config_dir_path :: "config_env \<Rightarrow> bytes option \<Rightarrow> bytes app_result" where
  "app_config_dir_path ce custom =
     res_and_then (res_map_err app_error_from_core (config_dir ce custom)) (\<lambda>dir.
     res_and_then (ok_or (AppUnexpected (''Couldn'' @ CHR 0x27 # ''t convert OsString'')) (path_to_str ce dir)) (\<lambda>s.
       res_map_err app_error_from_nul (cstring_new s)))"

definition auth_config_dir_path :: "config_env \<Rightarrow> bytes option \<Rightarrow> bytes auth_result" where
  "auth_config_dir_path ce custom =
     res_and_then (res_map_err AuthCoreError (config_dir ce custom)) (\<lambda>dir.
     res_and_then (ok_or (AuthUnexpected (''Couldn'' @ CHR 0x27 # ''t convert OsString'')) (path_to_str ce dir)) (\<lambda>s.
       res_map_err (\<lambda>_. auth_error_from_str ''nul byte found in data'') (cstring_new s)))"

definition app_free :: "'s event_loop \<Rightarrow> 's event_loop" where
  "app_free app = app_drop app"

definition auth_free :: "'s event_loop \<Rightarrow> 's event_loop" where
  "auth_free auth = auth_drop auth"

text \<open>The feature \<open>mock-network\<close> of the build.\<close>

definition app_is_mock :: "bool \<Rightarrow> bool" where
  "app_is_mock mock = mock"

definition auth_is_mock :: "bool \<Rightarrow> bool" where
  "auth_is_mock mock = mock"

subsection \<open>Messages in base 64\<close>

record msg64_ops =
  ser_msg_only :: "ipc_msg \<Rightarrow> bytes + bytes"
  de_msg_only :: "bytes \<Rightarrow> bytes + ipc_msg"
  b64_encode :: "bytes \<Rightarrow> bytes" \<comment> \<open>\<open>ffi_utils::base64_encode\<close>\<close>
  b64_decode :: "bytes \<Rightarrow> bytes + bytes"

definition encode_msg_64 :: "msg64_ops \<Rightarrow> ipc_msg \<Rightarrow> bytes ipc_result" where
  "encode_msg_64 mo msg = res_map (b64_encode mo) (from_serialisation (ser_msg_only mo msg))"

definition decode_msg_64 :: "msg64_ops \<Rightarrow> bytes \<Rightarrow> ipc_msg ipc_result" where
  "decode_msg_64 mo encoded =
     res_and_then (res_map_err (\<lambda>_. IpcEncodeDecodeError) (b64_decode mo encoded)) (\<lambda>decoded.
       from_serialisation (de_msg_only mo decoded))"

definition encode_ipc_64 :: "msg64_ops \<Rightarrow> u32 \<Rightarrow> ipc_req \<Rightarrow> bytes app_result" where
  "encode_ipc_64 mo req_id ipc_request =
     res_and_then (res_map_err app_error_from_ipc (encode_msg_64 mo (IpcReqMsg req_id ipc_request))) (\<lambda>encoded.
       res_map_err app_error_from_nul (cstring_new encoded))"

definition encode_auth_req_64 ::
  "ffi_ipc_ops \<Rightarrow> msg64_ops \<Rightarrow> ffi_ops \<Rightarrow> ffi_auth_req \<Rightarrow> ('n, 'z, u32 \<times> bytes) fwm" where
  "encode_auth_req_64 fo mo ff c_req =
     and_then (map_err app_error_from_core (draw (rnd_u32 fo))) (\<lambda>r.
       let req_id = gen_req_id r in
       and_then (lift_res (res_map_err app_error_from_ipc (auth_req_clone_from_repr_c ff c_req))) (\<lambda>auth_req.
         lift_res (res_map (Pair req_id) (encode_ipc_64 mo req_id (ReqAuth auth_req)))))"

definition app_decode_ipc_msg_64 :: "ffi_ipc_ops \<Rightarrow> ipc_ops \<Rightarrow> msg64_ops \<Rightarrow> bytes \<Rightarrow> ipc_event app_result" where
  "app_decode_ipc_msg_64 fo io mo c_msg =
     res_and_then (encode_decode (read_c_string (ffi io) c_msg)) (\<lambda>msg.
     res_and_then (res_map_err app_error_from_ipc (decode_msg_64 mo msg)) (decode_ipc_msg_impl fo io))"

text \<open>
  A message in base 64 is decoded to itself; unlike the messages in base 32 it does not say for which network it was made. A path that was set
  is the directory of the next configuration, and the one that can be asked for.
\<close>

lemma msg_64_roundtrip:
  assumes "ser_msg_only mo msg = Ok b" "de_msg_only mo b = Ok msg" "b64_decode mo (b64_encode mo b) = Ok b"
  shows "res_and_then (encode_msg_64 mo msg) (decode_msg_64 mo) = Ok msg"
  using assms by (simp add: encode_msg_64_def decode_msg_64_def from_serialisation_def)

lemma config_path_used:
  assumes "ffi_laws ff" "is_utf8 path" "0 \<notin> set path" "dirs_from_path ce path = Some dir" "path_to_str ce dir = Some dir" "0 \<notin> set dir"
  shows "\<exists>custom'. app_set_config_dir_path ff path custom = (Ok (), custom') \<and> app_config_dir_path ce custom' = Ok dir \<and> config_dir ce custom' = Ok dir"
  using read_text [OF assms(1-3)] assms(4-6)
  by (simp add: app_set_config_dir_path_def encode_decode_def set_config_dir_path_def app_config_dir_path_def config_dir_def config_dirs_def
      ok_or_def cstring_new_def)

end
