(* ===== verification/Spec2Isabelle.thy ===== *)
theory Spec2Isabelle
  imports Prelude Safe_Nd Sample_Nd Core_Error Config_Handler
    Mock_Account Mock_Vault Vault_Requests Vault_Relations Vault_Props Vault_Correct Vault_Access
    Vault_Store Shared_Store Mock_Network
    Client_Base Client_Ops Client_Mock Client_Props
    Recovery Recovery_Props Crypto_Utils Random_Utils MData_Info Immutable_Data Idata_Props Idata_Network
    Nfs Nfs_Props Nfs_Content Content_Props Event_Loop Event_Loop_Props
    Ipc_Req Ipc_Resp Ipc_Props Error_Codes Error_Texts Auth_Client Auth_Client_Props Core_Client
    Auth_Config Access_Container Revocation Revocation_Props App_Auth Auth_Apps Std_Dirs App_Lifecycle
    Connection_Group Connection_Props Object_Cache App_Context App_Start App_Ffi_MData App_Props Access_Props
    App_Ffi_Keys App_Ffi_Files App_Ffi_Ipc App_Ffi_Props Auth_Ffi Auth_Ffi_Props Ffi_Setup
begin

text \<open>
  \<^bold>\<open>The SAFE client libraries: a model of the client core, of its networks, of the authenticator and of applications.\<close>

  \<^medskip> \<^bold>\<open>The program.\<close> \<open>src/safe_core\<close> is the library that the authenticator and the applications share. A
  client (\<open>client/mod.rs\<close>) turns each call into a request, signs it and sends it through a connection
  manager; on the mock network (\<open>client/mock/\<close>) the connection manager passes it to a vault that all
  processes share through one file. On top of the client are the operations with recovery
  (\<open>client/recovery.rs\<close>), the encryption of accounts and of mutable data (\<open>client/account.rs\<close>,
  \<open>client/mdata_info.rs\<close>, \<open>utils/mod.rs\<close>) and the files and directories (\<open>nfs/\<close>). The authenticator
  (\<open>src/safe_authenticator\<close>) keeps the account of a user on the network and decides which applications
  may act for the user; an application (\<open>src/safe_app\<close>) asks it by an IPC message and gets keys and the
  access information of the containers it was granted.

  \<^medskip> \<^bold>\<open>Code outside of the repository.\<close> The data types of the crate \<open>safe-nd\<close> are parameters: \<open>safe_nd\<close> of
  \<open>Safe_Nd\<close> has a field for each of its functions that the code calls, and the laws the theorems need
  are named hypotheses on these fields. Requests, responses and errors are datatypes
  with the constructors the code matches on. Cryptography (\<open>crypto_ops\<close>, \<open>crypto_laws\<close>), the LRU
  cache (\<open>lru_laws\<close>), serialisation (\<open>codec\<close>), the self-encryptor (\<open>se_ops\<close>), the file system with the configuration files (\<open>config_env\<close>) and the
  texts of errors of other crates (\<open>text_ops\<close>) are parameters in the same way. \<open>Sample_Nd\<close> and the sample definitions beside the properties instantiate all of them
  with concrete functions, on which the witnesses are computed.

  \<^medskip> \<^bold>\<open>Conventions.\<close> A fallible operation returns \<open>'e + 'a\<close> (\<open>Err\<close>, \<open>Ok\<close>); a panic is \<open>None\<close>. An operation on
  a state is a program \<open>('s, 'e, 'a) prog\<close>, that is \<open>'s \<Rightarrow> (('e + 'a) \<times> 's) option\<close>, composed by \<open>and_then\<close>,
  \<open>or_else\<close> and \<open>map_err\<close> as the futures of the code are. A \<open>BTreeMap\<close> is a sorted association list
  (\<open>btree\<close> with \<open>bt_get\<close>, \<open>bt_insert\<close>, \<open>bt_wf\<close>), a \<open>HashMap\<close> is a map, or the
  association list \<open>hashmap\<close> where the code iterates over it or serialises it. Machine integers are words and
  wrap around, as in a release build. Random values are drawn from a numbered supply (\<open>w_draws\<close>).

  \<^medskip> \<^bold>\<open>Theories.\<close>
  \<^item> \<open>Prelude\<close>: results, programs, B-tree maps, words, the collections \<open>vault_eval\<close> and others.
  \<^item> \<open>Safe_Nd\<close>, \<open>Sample_Nd\<close>: the interface of \<open>safe-nd\<close> and a concrete instance.
  \<^item> \<open>Mock_Account\<close> (\<open>client/mock/account.rs\<close>): coin balances with their bounded list of credits,
    accounts and their authorised keys.
  \<^item> \<open>Mock_Vault\<close>, \<open>Vault_Requests\<close> (\<open>client/mock/vault.rs\<close>): the cache of the vault, its helper
    operations, authorisation, and one definition for each arm of \<open>process_request\<close>; the arms are
    collected by \<open>handle_request\<close>, \<open>process_request\<close> adds the checks of the message.
  \<^item> \<open>Vault_Relations\<close>, \<open>Vault_Props\<close>, \<open>Vault_Correct\<close>, \<open>Vault_Access\<close>: relations between the vault before
    and after a request, shown once for the helpers and lifted to all requests by locales
    that are interpreted on the handlers; the reachable vaults; conservation of coins, permanence of
    published data, access control, answers without panic.
  \<^item> \<open>Vault_Store\<close>, \<open>Shared_Store\<close>: the stores in memory and in a file, locking, loading when the file
    is newer, saving when a guard of a writer is dropped; several processes on one file refine one
    vault.
  \<^item> \<open>Mock_Network\<close> (\<open>client/mock/connection_manager.rs\<close>): groups, hooks, sending.
  \<^item> \<open>Core_Error\<close> (\<open>errors.rs\<close>, \<open>nfs/errors.rs\<close>, \<open>event.rs\<close>), \<open>Config_Handler\<close> (\<open>config_handler.rs\<close>): the configuration that
    is read from files, and why its options for developers have no effect.
  \<^item> \<open>Event_Loop\<close>, \<open>Event_Loop_Props\<close> (\<open>event_loop.rs\<close>, \<open>lib.rs\<close> of the application library and of the authenticator): the thread that owns a
    client, as a transition system in which messages are sent and futures are polled in any order. Calls are started in the order
    in which they were sent and never after the end of the loop, and waiting for a result ends when the future does.
  \<^item> \<open>Client_Base\<close>, \<open>Client_Ops\<close> (\<open>client/mod.rs\<close>, \<open>client/id.rs\<close>): composing and signing messages, one
    definition for each method of the traits \<open>Client\<close> and \<open>AuthActions\<close> and for the wallet functions.
    \<open>Client_Mock\<close> puts them on the mock network, \<open>Client_Props\<close> has what a session can rely on.
  \<^item> \<open>Recovery\<close>, \<open>Recovery_Props\<close> (\<open>client/recovery.rs\<close>): the retry loops are structural recursions on
    the number of attempts left (\<open>MAX_ATTEMPTS\<close> is 10, so that at most 11 requests are sent); the locale
    \<open>answered_attempts\<close> gives that each of them ends and how many requests it sends, on a network that answers, and the bounds of
    putting mutable data are composed from these.
  \<^item> \<open>Crypto_Utils\<close>, \<open>Random_Utils\<close>, \<open>MData_Info\<close>: symmetric encryption, the account, random strings, encryption of entries, the
    two-phase change of keys, the C representation.
  \<^item> \<open>Immutable_Data\<close>, \<open>Idata_Props\<close>, \<open>Idata_Network\<close> (\<open>immutable_data.rs\<close>, \<open>self_encryption_storage.rs\<close>): self-encryption over a client,
    packing of data maps until they fit into a chunk; content that was created on the mock network is read back.
  \<^item> \<open>Nfs\<close>, \<open>Nfs_Props\<close>, \<open>Nfs_Content\<close>, \<open>Content_Props\<close> (\<open>nfs/\<close>): directories, file records, the operations on files, the range check,
    data maps, readers and writers; what is written to a file is read back from it.
  \<^item> \<open>Ipc_Req\<close>, \<open>Ipc_Resp\<close>, \<open>Ipc_Props\<close> (\<open>ipc/\<close>, \<open>ffi/ipc/\<close>): the requests and responses of applications,
    their C representation with null pointers and C strings, the encoding of messages; every
    conversion has its round trip.
  \<^item> \<open>Error_Codes\<close> (\<open>safe_app/src/errors.rs\<close>, \<open>safe_authenticator/src/errors.rs\<close>): the error types of
    the two libraries and the numbers under which the C interface reports them; \<open>Error_Texts\<close> has the texts.
  \<^item> \<open>Auth_Client\<close>, \<open>Auth_Client_Props\<close> (\<open>safe_authenticator/src/client.rs\<close>): registration, login and the
    update of the account packet on the network. \<open>Core_Client\<close> (\<open>client/core_client.rs\<close>) is the client of the tests.
  \<^item> \<open>Auth_Config\<close> (\<open>config.rs\<close>): the list of applications and the revocation queue, entries of the
    configuration directory that are changed optimistically: read, change, write with the next version,
    and start again when another writer came first. \<open>Access_Container\<close> (\<open>access_container.rs\<close>) has the
    encrypted entries that say which containers an application may use.
  \<^item> \<open>Revocation\<close>, \<open>Revocation_Props\<close> (\<open>revocation.rs\<close>): revoking one application and emptying the queue;
    the loop of the code is equal to two passes over the queue as long as nobody else writes the queue.
  \<^item> \<open>App_Auth\<close>, \<open>Auth_Apps\<close>, \<open>Std_Dirs\<close> (\<open>app_auth.rs\<close>, \<open>app_container.rs\<close>, \<open>ipc.rs\<close>, \<open>apps.rs\<close>,
    \<open>std_dirs.rs\<close>, \<open>lib.rs\<close>): authorising an application, its dedicated container, sharing of mutable
    data, lists of applications, the directories of a new account, accounts with seeds and hooks. \<open>App_Lifecycle\<close> has what authorising
    and revoking do to the vault itself: a successful authorisation leaves the key of the application
    authorised, and a revoked application cannot change anything.
  \<^item> \<open>Auth_Ffi\<close>, \<open>Auth_Ffi_Props\<close> (\<open>safe_authenticator/src/ffi/\<close>): accounts, lists of apps, decoding the messages of applications and encoding the
    answers of the user. The properties follow an authorisation, and a request for more containers, from the application through the user's
    decision and the network back to the application. \<open>Ffi_Setup\<close> has the calls of both C interfaces on handles and on the directory of the configuration,
    and the messages in base 64.
  \<^item> \<open>Connection_Group\<close>, \<open>Connection_Props\<close> (\<open>connection_manager.rs\<close>, \<open>connection_manager/connection_group.rs\<close>):
    the connections to the real network as a transition system: requests, timers and the events of
    \<open>quic-p2p\<close> in any order. A future is resolved only by the response of an elder whose challenge was
    answered by the group; when the thread of a group panics, and what a failed attempt to connect leaves behind.
  \<^item> \<open>Object_Cache\<close> (\<open>safe_app/src/object_cache.rs\<close>): the objects behind the handles of the C interface; the
    locale \<open>handle_store\<close> is interpreted on each of the thirteen stores. \<open>App_Context\<close>, \<open>App_Start\<close> (\<open>safe_app/src/client.rs\<close>,
    \<open>lib.rs\<close>, \<open>cipher_opt.rs\<close>, \<open>permissions.rs\<close>): registered and unregistered applications, access
    information, cipher options. \<open>App_Ffi_MData\<close> (\<open>safe_app/src/ffi/mutable_data/\<close>): the C calls on mutable
    data. \<open>App_Props\<close>: round trips of the cipher options, the null handle. \<open>Access_Props\<close>: what the
    authenticator writes for an application is what the application reads.
  \<^item> \<open>App_Ffi_Keys\<close>, \<open>App_Ffi_Files\<close>, \<open>App_Ffi_Ipc\<close>, \<open>App_Ffi_Props\<close> (the rest of \<open>safe_app/src/ffi/\<close>): keys, signatures and sealed boxes, open files,
    immutable data, the messages between application and authenticator; the calls on open files refine the operations of
    \<open>Nfs_Content\<close>, and a closed or wrongly opened file is refused.

  \<^medskip> \<^bold>\<open>Loops.\<close> The recovery loops are structural. \<open>mutate_entry\<close> (it
  retries for as long as other writers are faster) and \<open>flush_loop\<close> (it runs until the queue that is stored on
  the network is empty) have no bound in the code and are \<open>partial_function (option)\<close>; that they end is part of
  what the theorems about them state. So are \<open>pack\<close> and \<open>unpack\<close> of immutable data (the first ends when each round makes the data map
  small enough or smaller, as its theorem says) and \<open>random_chars\<close> (skipping null characters ends when the generator gives other characters again
  and again).

  \<^medskip> \<^bold>\<open>What is not modelled.\<close> Logging (\<open>utils/logging\<close>: input and output through \<open>log4rs\<close>), with the calls that start it, the memory
  management of the C interface, the bindings of Java, the tests, the examples
  and the scripts of the build. Other threads than those of event loops and connection groups exist only in these parts.
  \<open>set_simulate_timeout\<close> and \<open>set_network_limits\<close> are \<open>unimplemented!()\<close> in the
  source. Beside \<open>Event_Loop\<close>, futures are run when they are composed, as the mock network resolves every future at once. A round trip
  of published immutable data is not claimed: it would need names of 32 bytes that are different for all contents.
\<close>

end
